(* ===== verification/Prelude.thy ===== *)
theory Prelude
  imports Main "HOL-Library.AList" "HOL-Library.Product_Lexorder"
    "HOL-Library.List_Lexorder" "HOL-Library.Char_ord"
begin

text \<open>
  Shared vocabulary of the development: the scalar types of the database and of JSON bodies,
  results that may be errors, database tables as lists of rows with the SQL operations the
  services use, and JavaScript objects as association lists.

  \<^item> A \<open>uuid\<close> is its 128-bit value read as a number: Postgres orders uuids bytewise, which is the
    numeric order.
  \<^item> A \<open>time\<close> is a JavaScript time value, milliseconds since the epoch. The application writes
    every timestamp it compares, so no microseconds occur.
  \<^item> A \<open>utext\<close> is free user text as the sequence of its Unicode code points. Identifiers, enum
    values and keys are ASCII and are plain \<open>string\<close>s.
\<close>

type_synonym uuid = nat
type_synonym time = int
type_synonym slug = string
type_synonym utext = "nat list"

named_theorems table_simps \<open>equations of the table operations\<close>
named_theorems res_simps \<open>when a sequence of fallible steps succeeds or fails\<close>
named_theorems inv_intros \<open>introduction rules for invariants of the stored rows\<close>

section \<open>Results that may be errors\<close>

text \<open>A fallible step returns \<open>Inl\<close> of the thrown error or \<open>Inr\<close> of its value.\<close>

definition bindE :: "'e + 'a \<Rightarrow> ('a \<Rightarrow> 'e + 'b) \<Rightarrow> 'e + 'b" where
  "bindE m f = (case m of Inl e \<Rightarrow> Inl e | Inr x \<Rightarrow> f x)"

definition requireE :: "'a option \<Rightarrow> 'e \<Rightarrow> 'e + 'a" where
  "requireE x e = (case x of None \<Rightarrow> Inl e | Some y \<Rightarrow> Inr y)"

lemma bindE_simps [simp]:
  "bindE (Inl e) f = Inl e"
  "bindE (Inr x) f = f x"
  by (simp_all add: bindE_def)

lemma bindE_Inr [res_simps]: "bindE m f = Inr y \<longleftrightarrow> (\<exists>x. m = Inr x \<and> f x = Inr y)"
  by (cases m) auto

lemma bindE_Inl [res_simps]:
  "bindE m f = Inl e \<longleftrightarrow> m = Inl e \<or> (\<exists>x. m = Inr x \<and> f x = Inl e)"
  by (cases m) auto

lemma bindE_assoc: "bindE (bindE m f) g = bindE m (\<lambda>x. bindE (f x) g)"
  by (cases m) auto

lemma requireE_simps [simp]:
  "requireE None e = Inl e"
  "requireE (Some x) e = Inr x"
  by (simp_all add: requireE_def)

lemma requireE_Inr [res_simps]: "requireE x e = Inr y \<longleftrightarrow> x = Some y"
  by (cases x) auto

lemma requireE_Inl [res_simps]: "requireE x e = Inl e' \<longleftrightarrow> x = None \<and> e' = e"
  by (cases x) auto

section \<open>Tables\<close>

text \<open>
  A table is the list of its rows in no promised order. \<open>select\<close> keeps the rows of a
  \<open>WHERE\<close>, \<open>first_row\<close> is the pattern \<open>const [row] = await select(...)\<close>, and an update or
  delete returns the rows a \<open>RETURNING\<close> clause gives beside the new table.
\<close>

type_synonym 'r table = "'r list"

definition select :: "('r \<Rightarrow> bool) \<Rightarrow> 'r table \<Rightarrow> 'r list" where
  "select P t = filter P t"

definition first_row :: "('r \<Rightarrow> bool) \<Rightarrow> 'r table \<Rightarrow> 'r option" where
  "first_row P t = find P t"

definition update_where :: "('r \<Rightarrow> bool) \<Rightarrow> ('r \<Rightarrow> 'r) \<Rightarrow> 'r table \<Rightarrow> 'r table" where
  "update_where P f t = map (\<lambda>r. if P r then f r else r) t"

definition delete_where :: "('r \<Rightarrow> bool) \<Rightarrow> 'r table \<Rightarrow> 'r table" where
  "delete_where P t = filter (\<lambda>r. \<not> P r) t"

definition insert_row :: "'r \<Rightarrow> 'r table \<Rightarrow> 'r table" where
  "insert_row r t = t @ [r]"

text \<open>\<open>INSERT ... ON CONFLICT (key) DO NOTHING\<close> and \<open>... DO UPDATE SET\<close>.\<close>

definition insert_or_ignore :: "('r \<Rightarrow> 'k) \<Rightarrow> 'r \<Rightarrow> 'r table \<Rightarrow> 'r table" where
  "insert_or_ignore key r t = (if key r \<in> key ` set t then t else insert_row r t)"

definition upsert :: "('r \<Rightarrow> 'k) \<Rightarrow> 'r \<Rightarrow> ('r \<Rightarrow> 'r) \<Rightarrow> 'r table \<Rightarrow> 'r table" where
  "upsert key r f t =
     (if key r \<in> key ` set t then update_where (\<lambda>q. key q = key r) f t else insert_row r t)"

lemma set_select [simp, table_simps]: "set (select P t) = {r \<in> set t. P r}"
  by (simp add: select_def)

lemma set_update_where [table_simps]:
  "set (update_where P f t) = f ` {r \<in> set t. P r} \<union> {r \<in> set t. \<not> P r}"
  by (auto simp: update_where_def)

lemma set_delete_where [simp, table_simps]: "set (delete_where P t) = {r \<in> set t. \<not> P r}"
  by (simp add: delete_where_def)

lemma set_insert_row [simp, table_simps]: "set (insert_row r t) = insert r (set t)"
  by (simp add: insert_row_def)

lemma set_insert_or_ignore [table_simps]:
  "set (insert_or_ignore key r t) = (if key r \<in> key ` set t then set t else insert r (set t))"
  by (simp add: insert_or_ignore_def)

lemma length_update_where [simp]: "length (update_where P f t) = length t"
  by (simp add: update_where_def)

lemma update_where_Nil [simp]: "update_where P f [] = []"
  by (simp add: update_where_def)

lemma update_where_Cons [simp]:
  "update_where P f (r # t) = (if P r then f r else r) # update_where P f t"
  by (simp add: update_where_def)

lemma update_where_idle: "\<forall>r \<in> set t. P r \<longrightarrow> f r = r \<Longrightarrow> update_where P f t = t"
  by (induction t) auto

lemma update_where_none: "\<forall>r \<in> set t. \<not> P r \<Longrightarrow> update_where P f t = t"
  by (rule update_where_idle) simp

lemma map_update_where:
  "(\<And>r. r \<in> set t \<Longrightarrow> P r \<Longrightarrow> key (f r) = key r) \<Longrightarrow> map key (update_where P f t) = map key t"
  by (induction t) auto

lemma first_row_Some: "first_row P t = Some r \<Longrightarrow> r \<in> set t \<and> P r"
  by (auto simp: first_row_def find_Some_iff)

lemma first_row_None: "first_row P t = None \<longleftrightarrow> (\<forall>r \<in> set t. \<not> P r)"
  by (auto simp: first_row_def find_None_iff)

lemma first_row_Nil [simp]: "first_row P [] = None"
  by (simp add: first_row_def)

lemma first_row_Cons [simp]: "first_row P (r # t) = (if P r then Some r else first_row P t)"
  by (simp add: first_row_def)

text \<open>With a unique key, a lookup by key finds exactly the row that has it.\<close>

lemma first_row_key:
  assumes "distinct (map key t)" and "r \<in> set t"
  shows "first_row (\<lambda>q. key q = key r) t = Some r"
  using assms by (induction t) (auto simp: image_iff)

lemma first_row_key_iff:
  assumes "distinct (map key t)"
  shows "first_row (\<lambda>q. key q = k) t = Some r \<longleftrightarrow> r \<in> set t \<and> key r = k"
  using assms first_row_key[of key t r] first_row_Some[of "\<lambda>q. key q = k" t r] by auto

lemma first_row_update_where_same:
  assumes "\<And>r. Q r \<Longrightarrow> Q (f r)" and "\<And>r. \<not> Q r \<Longrightarrow> P r \<Longrightarrow> \<not> Q (f r)"
  shows "first_row Q (update_where P f t)
       = map_option (\<lambda>r. if P r then f r else r) (first_row Q t)"
  using assms by (induction t) auto

lemma distinct_key_update_where:
  assumes "distinct (map key t)" and "\<And>r. r \<in> set t \<Longrightarrow> P r \<Longrightarrow> key (f r) = key r"
  shows "distinct (map key (update_where P f t))"
  using assms by (simp add: map_update_where)

lemma distinct_key_delete_where:
  "distinct (map key t) \<Longrightarrow> distinct (map key (delete_where P t))"
  by (simp add: delete_where_def distinct_map_filter)

lemma distinct_key_insert_row:
  "distinct (map key t) \<Longrightarrow> key r \<notin> key ` set t \<Longrightarrow> distinct (map key (insert_row r t))"
  by (auto simp: insert_row_def)

lemma distinct_key_insert_or_ignore:
  "distinct (map key t) \<Longrightarrow> distinct (map key (insert_or_ignore key r t))"
  by (simp add: insert_or_ignore_def distinct_key_insert_row)

lemmas distinct_key = distinct_key_update_where distinct_key_delete_where
  distinct_key_insert_row distinct_key_insert_or_ignore

text \<open>After an upsert the row with the key is the new one or the updated old one.\<close>

lemma upsert_key_exists:
  assumes "\<And>q. key (f q) = key q"
  shows "\<exists>q \<in> set (upsert key r f t). key q = key r"
  using assms by (force simp: upsert_def set_update_where)

lemma upsert_row_cases:
  assumes "q \<in> set (upsert key r f t)" and "key q = key r" and "\<And>p. key (f p) = key p"
  shows "q = r \<or> (\<exists>p \<in> set t. key p = key r \<and> q = f p)"
  using assms by (auto simp: upsert_def set_update_where image_iff split: if_splits)

lemma distinct_key_upsert:
  "distinct (map key t) \<Longrightarrow> (\<And>q. key (f q) = key q) \<Longrightarrow> distinct (map key (upsert key r f t))"
  by (simp add: upsert_def distinct_key_update_where distinct_key_insert_row)

text \<open>A condition on every row survives an update whose new rows meet it.\<close>

lemma all_update_where:
  assumes "\<forall>r \<in> set t. Q r" and "\<And>r. r \<in> set t \<Longrightarrow> P r \<Longrightarrow> Q r \<Longrightarrow> Q (f r)"
  shows "\<forall>r \<in> set (update_where P f t). Q r"
  using assms by (auto simp: set_update_where)

section \<open>JavaScript objects\<close>

text \<open>
  An object with string keys is the association list of its properties in insertion order. An
  assignment keeps the place of a property that exists (\<open>AList.update\<close>), and the spread
  \<open>{...a, ...b}\<close> assigns the properties of \<open>b\<close> one by one onto a copy of \<open>a\<close>.
\<close>

type_synonym 'v obj = "(string \<times> 'v) list"

definition obj_spread :: "'v obj \<Rightarrow> 'v obj \<Rightarrow> 'v obj" where
  "obj_spread a b = fold (\<lambda>(k, v). AList.update k v) b a"

lemma obj_spread_Nil [simp]: "obj_spread a [] = a"
  by (simp add: obj_spread_def)

lemma AList_update_not_Nil [simp]: "AList.update k v xs \<noteq> []"
  by (cases xs) auto

lemma fold_update_not_Nil: "a \<noteq> [] \<Longrightarrow> fold (\<lambda>(k, v). AList.update k v) b a \<noteq> []"
  by (induction b arbitrary: a) (auto simp: split_beta)

lemma obj_spread_eq_Nil [simp]: "obj_spread a b = [] \<longleftrightarrow> a = [] \<and> b = []"
proof (cases b)
  case Nil
  then show ?thesis by simp
next
  case (Cons p bs)
  then show ?thesis
    by (auto simp: obj_spread_def fold_update_not_Nil split_beta)
qed

lemma map_of_obj_spread_aux:
  "map_of (fold (\<lambda>(k, v). AList.update k v) b a) k
   = (case map_of (rev b) k of Some v \<Rightarrow> Some v | None \<Rightarrow> map_of a k)"
  by (induction b arbitrary: a)
     (auto simp: update_conv' map_add_def split: option.splits)

lemma map_of_obj_spread:
  "map_of (obj_spread a b) k
   = (case map_of (rev b) k of Some v \<Rightarrow> Some v | None \<Rightarrow> map_of a k)"
  by (simp add: obj_spread_def map_of_obj_spread_aux)

section \<open>Ordered results\<close>

text \<open>\<open>ORDER BY\<close> a key, ascending or descending, and \<open>LIMIT\<close>.\<close>

definition order_asc :: "('r \<Rightarrow> 'k::linorder) \<Rightarrow> 'r list \<Rightarrow> 'r list" where
  "order_asc key rs = sort_key key rs"

definition order_desc :: "('r \<Rightarrow> 'k::linorder) \<Rightarrow> 'r list \<Rightarrow> 'r list" where
  "order_desc key rs = rev (sort_key key rs)"

lemma set_order_asc [simp]: "set (order_asc key rs) = set rs"
  by (simp add: order_asc_def)

lemma set_order_desc [simp]: "set (order_desc key rs) = set rs"
  by (simp add: order_desc_def)

lemma length_order_asc [simp]: "length (order_asc key rs) = length rs"
  by (simp add: order_asc_def)

lemma length_order_desc [simp]: "length (order_desc key rs) = length rs"
  by (simp add: order_desc_def)

end
