(* ===== verification/App_Errors.thy ===== *)
theory App_Errors
  imports Prelude
begin

text \<open>
  Errors and error responses: \<open>src/src/common/errors\<close>, the path rules of
  \<open>src/src/common/validation/zod.ts\<close>, the request id of \<open>src/src/common/request-id\<close> and the
  constraint matching of \<open>src/src/db/errors.ts\<close>.

  The wording of a message is kept apart from its meaning: \<open>Msg\<close> carries an English rendering of
  a Korean text or the English text itself, and \<open>MsgOf\<close> a text with one value put in.
\<close>

section \<open>JSON values\<close>

text \<open>
  A JSON value. The strings the application itself prints in one of two fixed formats have
  constructors of their own: \<open>JTime t\<close> is the text \<open>toISOString\<close> gives for \<open>t\<close> and \<open>JUuid u\<close>
  the text of a uuid; every other string is the list of its code points.
\<close>

datatype json = JNull | JBool bool | JNum int | JStr utext | JTime time | JUuid uuid
  | JArr "json list" | JObj "(string \<times> json) list"

definition codes :: "string \<Rightarrow> utext" where "codes s = map of_char s"

definition JText :: "string \<Rightarrow> json" where "JText s = JStr (codes s)"

section \<open>Exceptions\<close>

datatype ErrorCode = INVALID_REQUEST | UNAUTHENTICATED | FORBIDDEN | NOT_FOUND | CONFLICT
  | PAYLOAD_TOO_LARGE | VALIDATION_FAILED | RATE_LIMITED | SERVER_ERROR | ALREADY_SUBMITTED
  | IDEMPOTENCY_KEY_REUSED | DAILY_LIMIT_EXCEEDED | NOT_RESUBMITTABLE | IN_USE

datatype msg = Msg string | MsgOf string json | MsgJoin "msg list"

type_synonym field_errors = "msg obj"

text \<open>
  What a handler can throw. \<open>AppException\<close> has its own code; \<open>HttpException\<close> is one of Nest's,
  with its status, the body its \<open>getResponse\<close> gives and its message; \<open>Thrown\<close> is anything else:
  the numeric \<open>status\<close> property it may have, whether its \<open>expose\<close> is truthy, and its message when it
  is an \<open>Error\<close>.
\<close>

datatype http_response = RText msg | RMessage msg | RMessages "msg list" | ROther

datatype exc =
    AppException (exc_status: int) (exc_code: ErrorCode) (exc_message: msg)
      (exc_fields: "field_errors option") (exc_details: "json obj option")
  | HttpException int http_response msg
  | Thrown "int option" bool "msg option"

type_synonym 'a res = "exc + 'a"

definition app_error :: "int \<Rightarrow> ErrorCode \<Rightarrow> string \<Rightarrow> exc" where
  "app_error status code message = AppException status code (Msg message) None None"

definition notFoundException :: "string \<Rightarrow> exc" where
  "notFoundException m = HttpException 404 (RMessage (Msg m)) (Msg m)"

definition forbiddenException :: "string \<Rightarrow> exc" where
  "forbiddenException m = HttpException 403 (RMessage (Msg m)) (Msg m)"

definition unauthorizedException :: "string \<Rightarrow> exc" where
  "unauthorizedException m = HttpException 401 (RMessage (Msg m)) (Msg m)"

definition conflictException :: "string \<Rightarrow> exc" where
  "conflictException m = HttpException 409 (RMessage (Msg m)) (Msg m)"

definition badRequestException :: "string \<Rightarrow> exc" where
  "badRequestException m = HttpException 400 (RMessage (Msg m)) (Msg m)"

definition badGatewayException :: "string \<Rightarrow> exc" where
  "badGatewayException m = HttpException 502 (RMessage (Msg m)) (Msg m)"

definition validationFailed :: "field_errors \<Rightarrow> exc" where
  "validationFailed fields =
     AppException 422 VALIDATION_FAILED (Msg ''The input is not valid.'') (Some fields) None"

definition defaultCodeForStatus :: "int \<Rightarrow> ErrorCode" where
  "defaultCodeForStatus status =
     (if status = 401 then UNAUTHENTICATED
      else if status = 403 then FORBIDDEN
      else if status = 404 then NOT_FOUND
      else if status = 409 then CONFLICT
      else if status = 413 then PAYLOAD_TOO_LARGE
      else if status = 422 then VALIDATION_FAILED
      else if status = 429 then RATE_LIMITED
      else if 500 \<le> status then SERVER_ERROR else INVALID_REQUEST)"

section \<open>The exception filter\<close>

record error_body =
  body_code :: ErrorCode
  body_message :: msg
  body_requestId :: string
  body_fields :: "field_errors option"
  body_details :: "json obj option"

definition messageOf :: "http_response \<Rightarrow> msg \<Rightarrow> msg" where
  "messageOf response message = (case response of
      RText m \<Rightarrow> m
    | RMessages ms \<Rightarrow> MsgJoin ms
    | RMessage m \<Rightarrow> m
    | ROther \<Rightarrow> message)"

definition clientErrorStatusOf :: "exc \<Rightarrow> int option" where
  "clientErrorStatusOf e = (case e of
      Thrown (Some status) expose m \<Rightarrow>
        if 400 \<le> status \<and> status < 500 \<and> expose then Some status else None
    | _ \<Rightarrow> None)"

definition toErrorResponse :: "exc \<Rightarrow> string \<Rightarrow> int \<times> error_body" where
  "toErrorResponse e requestId = (case e of
      AppException status code message flds details \<Rightarrow>
        (status, \<lparr>body_code = code, body_message = message, body_requestId = requestId,
                  body_fields = flds, body_details = details\<rparr>)
    | HttpException status response message \<Rightarrow>
        (status, \<lparr>body_code = defaultCodeForStatus status, body_message = messageOf response message,
                  body_requestId = requestId, body_fields = None, body_details = None\<rparr>)
    | Thrown st ex m \<Rightarrow>
        (case clientErrorStatusOf e of
           Some status \<Rightarrow>
             (status, \<lparr>body_code = defaultCodeForStatus status,
                       body_message = (case m of Some x \<Rightarrow> x | None \<Rightarrow> Msg ''Bad request''),
                       body_requestId = requestId, body_fields = None, body_details = None\<rparr>)
         | None \<Rightarrow>
             (500, \<lparr>body_code = defaultCodeForStatus 500, body_message = Msg ''Internal server error'',
                    body_requestId = requestId, body_fields = None, body_details = None\<rparr>)))"

text \<open>
  nothing of an exception the application did not mean for the client reaches it: for any
  exception that is neither an application error nor a Nest HTTP exception nor an exposed 4xx
  error, status, message and body are the same constants.
\<close>

theorem toErrorResponse_hides_internal:
  assumes "\<not> (expose \<and> (\<exists>s. status = Some s \<and> 400 \<le> s \<and> s < 500))"
  shows "toErrorResponse (Thrown status expose m) rid
       = (500, \<lparr>body_code = SERVER_ERROR, body_message = Msg ''Internal server error'',
                body_requestId = rid, body_fields = None, body_details = None\<rparr>)"
  using assms
  by (auto simp: toErrorResponse_def clientErrorStatusOf_def defaultCodeForStatus_def
      split: option.splits)

theorem toErrorResponse_hides_internal_witness:
  "toErrorResponse (Thrown (Some 400) False (Some (Msg ''connection refused''))) ''req_1''
   = (500, \<lparr>body_code = SERVER_ERROR, body_message = Msg ''Internal server error'',
            body_requestId = ''req_1'', body_fields = None, body_details = None\<rparr>)"
  by (rule toErrorResponse_hides_internal) simp

section \<open>Validation errors\<close>

text \<open>
  A \<open>ValidationError\<close> of class-validator: the property, its failed constraints in order, and the
  errors of nested values. An empty message is falsy and is passed over like a missing one.
\<close>

datatype validation_error = ValidationError string "msg list" "validation_error list"

definition dot :: "string \<Rightarrow> string \<Rightarrow> string" where
  "dot parent p = (if parent = [] then p else parent @ ''.'' @ p)"

fun flattenValidationErrors :: "validation_error list \<Rightarrow> string \<Rightarrow> field_errors" where
  "flattenValidationErrors [] parent = []"
| "flattenValidationErrors (ValidationError p cs children # es) parent =
     (let path = dot parent p;
          own = (case cs of [] \<Rightarrow> [] | m # _ \<Rightarrow> if m = Msg [] then [] else [(path, m)])
      in obj_spread (obj_spread own (flattenValidationErrors children path))
                    (flattenValidationErrors es parent))"

definition validationExceptionFactory :: "validation_error list \<Rightarrow> exc" where
  "validationExceptionFactory errors = validationFailed (flattenValidationErrors errors [])"

text \<open>
  The field errors of failed zod issues: the path under an optional prefix, \<open>'body'\<close> for the empty
  path, and the first message of a field.
\<close>

fun join_dot :: "string list \<Rightarrow> string" where
  "join_dot [] = []"
| "join_dot [p] = p"
| "join_dot (p # q # ps) = p @ ''.'' @ join_dot (q # ps)"

definition issue_path :: "string option \<Rightarrow> string list \<Rightarrow> string" where
  "issue_path prefix path =
     (let p = join_dot ((case prefix of Some x \<Rightarrow> [x] | None \<Rightarrow> []) @ path)
      in if p = [] then ''body'' else p)"

definition add_issue :: "string option \<Rightarrow> string list \<times> msg \<Rightarrow> field_errors \<Rightarrow> field_errors" where
  "add_issue prefix issue flds =
     (let p = issue_path prefix (fst issue)
      in if map_of flds p = None then AList.update p (snd issue) flds else flds)"

definition issue_fields :: "string option \<Rightarrow> (string list \<times> msg) list \<Rightarrow> field_errors" where
  "issue_fields prefix issues = fold (add_issue prefix) issues []"

definition parseOrFail :: "(json \<Rightarrow> (string list \<times> msg) list + 'a) \<Rightarrow> json \<Rightarrow> string option \<Rightarrow> 'a res"
  where
  "parseOrFail safeParse v prefix = (case safeParse v of
      Inr x \<Rightarrow> Inr x
    | Inl issues \<Rightarrow> Inl (validationFailed (issue_fields prefix issues)))"

section \<open>Request ids\<close>

definition id_char :: "char \<Rightarrow> bool" where
  "id_char c \<longleftrightarrow> (let n = of_char c :: nat in
     (48 \<le> n \<and> n \<le> 57) \<or> (65 \<le> n \<and> n \<le> 90) \<or> (97 \<le> n \<and> n \<le> 122)
     \<or> c = CHR ''.'' \<or> c = CHR ''_'' \<or> c = CHR ''-'')"

definition INBOUND_REQUEST_ID :: "string \<Rightarrow> bool" where
  "INBOUND_REQUEST_ID s \<longleftrightarrow> 8 \<le> length s \<and> length s \<le> 128 \<and> list_all id_char s"

text \<open>
  \<open>assignRequestId\<close>: the id a request has, or the inbound header when its format is safe, or a
  fresh one; and the response header, set unless the headers are already sent.
\<close>

definition assignRequestId ::
    "string option \<Rightarrow> string option \<Rightarrow> bool \<Rightarrow> string \<Rightarrow> string \<times> string option" where
  "assignRequestId current header headersSent fresh =
     (let rid = (case current of
            Some r \<Rightarrow> if r \<noteq> [] then r else
              (case header of Some h \<Rightarrow> if INBOUND_REQUEST_ID h then h else fresh | None \<Rightarrow> fresh)
          | None \<Rightarrow>
              (case header of Some h \<Rightarrow> if INBOUND_REQUEST_ID h then h else fresh | None \<Rightarrow> fresh))
      in (rid, if headersSent then None else Some rid))"

lemma assignRequestId_safe:
  assumes "fst (assignRequestId None header sent fresh) = rid" and "rid \<noteq> fresh"
  shows "INBOUND_REQUEST_ID rid \<and> header = Some rid"
  using assms by (auto simp: assignRequestId_def Let_def split: option.splits if_splits)

section \<open>Constraint violations\<close>

text \<open>An error with its Postgres code, constraint name and cause.\<close>

datatype db_error = DbError "string option" "string option" "db_error option"

fun violates :: "db_error \<Rightarrow> string \<Rightarrow> string \<Rightarrow> bool" where
  "violates (DbError c n cause) code name =
     (if c = Some code \<and> n = Some name then True
      else (case cause of Some e \<Rightarrow> violates e code name | None \<Rightarrow> False))"

definition violatesUnique :: "db_error \<Rightarrow> string \<Rightarrow> bool" where
  "violatesUnique e name = violates e ''23505'' name"

definition violatesForeignKey :: "db_error \<Rightarrow> string \<Rightarrow> bool" where
  "violatesForeignKey e name = violates e ''23503'' name"

section \<open>Facts about validation errors\<close>

lemma validationFailed_inject [simp]: "validationFailed a = validationFailed b \<longleftrightarrow> a = b"
  by (simp add: validationFailed_def)

lemma exc_distinct [simp]:
  "validationFailed f \<noteq> HttpException s r m" "HttpException s r m \<noteq> validationFailed f"
  by (simp_all add: validationFailed_def)

lemma issue_fields_Nil [simp]: "issue_fields prefix [] = []"
  by (simp add: issue_fields_def)

lemma add_issue_keeps: "map_of fs p = Some m \<Longrightarrow> map_of (add_issue prefix i fs) p = Some m"
  by (auto simp: add_issue_def Let_def update_conv)

lemma fold_issue_keeps: "map_of fs p = Some m \<Longrightarrow> map_of (fold (add_issue prefix) issues fs) p = Some m"
  by (induction issues arbitrary: fs) (auto simp: add_issue_keeps)

text \<open>The message of a field is the one of its first issue.\<close>

lemma issue_fields_first:
  "map_of (issue_fields prefix ((path, m) # issues)) (issue_path prefix path) = Some m"
  by (simp add: issue_fields_def, rule fold_issue_keeps) (simp add: add_issue_def update_conv)

lemma issue_fields_eq_Nil: "issue_fields prefix issues = [] \<longleftrightarrow> issues = []"
  using issue_fields_first[of prefix] by (cases issues) (auto, metis map_of.simps(1) option.distinct(1))

lemma parseOrFail_Inr [res_simps]: "parseOrFail sp v prefix = Inr x \<longleftrightarrow> sp v = Inr x"
  by (auto simp: parseOrFail_def split: sum.splits)

lemma parseOrFail_fields:
  assumes "sp v = Inl ((path, m) # issues)"
  shows "\<exists>flds. parseOrFail sp v prefix = Inl (validationFailed flds)
           \<and> map_of flds (issue_path prefix path) = Some m"
  using assms by (simp add: parseOrFail_def issue_fields_first)

end
