(* ===== verification/Schema.thy ===== *)
theory Schema
  imports App_Errors
begin

text \<open>
  The stored data: the enums and tables of \<open>src/src/db/schema.ts\<close> and the shapes of their
  \<open>jsonb\<close> columns (\<open>lineups/lineup-schema.ts\<close>, \<open>live/live-schema.ts\<close>,
  \<open>devices/dto/now-playing.dto.ts\<close>). A row is a record, with a prefix per table; the
  \<open>database\<close> record holds the tables. The CHECK constraints and unique keys are executable
  predicates, collected in \<open>database_ok\<close>; column lengths and indexes that only speed up a
  query are left out.

  An enum value that two enums share is told apart by a prefix (\<open>REVIEW_APPROVED\<close> is the
  \<open>APPROVED\<close> of \<open>review_decision\<close>).
\<close>

section \<open>Enums\<close>

datatype granted_role = REVIEWER | SUPER_ADMIN

datatype asset_status = PENDING_UPLOAD | READY | ASSET_REJECTED | PROCESSING

datatype asset_kind = IMAGE | VIDEO

datatype submission_status = DRAFT | PENDING_REVIEW | REJECTED | APPROVED | SCHEDULED
  | PUBLISHED | ENDED | SUSPENDED | CANCELED | ARCHIVED

datatype submission_type = POSTER | EVENT_BANNER | STORY

datatype event_banner_mode = TEMPLATE | MODE_IMAGE

datatype event_banner_occasion = BIRTHDAY | ADMISSION | GRADUATION | AWARD | WELCOME
  | OCCASION_OTHER

datatype story_tag = NEWS | PRAISE | LOST_FOUND | SUGGESTION | TAG_OTHER

datatype review_decision = REVIEW_APPROVED | REVIEW_REJECTED | REVIEW_SUSPENDED

datatype reject_reason_code = LOW_RESOLUTION | ASPECT_RATIO | INFO_MISMATCH | INAPPROPRIATE
  | PERIOD | DUPLICATE | PERSONAL_INFO | DEFAMATION | ADVERTISEMENT | REASON_OTHER

datatype device_orientation = LANDSCAPE | PORTRAIT

datatype lineup_block_source = SUBMISSIONS | PROGRAM

datatype live_scope = DEVICE | GROUP

datatype play_placement = WALL | SPOTLIGHT | STRIP | SCENE

datatype audit_actor_type = ACTOR_USER | ACTOR_DEVICE | ACTOR_SYSTEM

datatype audit_action = SUBMISSION_CREATED | SUBMISSION_UPDATED | SUBMISSION_RESUBMITTED
  | SUBMISSION_CANCELED | SUBMISSION_APPROVED | SUBMISSION_REJECTED | SUBMISSION_SUSPENDED
  | SUBMISSION_SCHEDULED | SUBMISSION_PUBLISHED | SUBMISSION_ENDED | STORY_AUTHOR_REVEALED
  | DEVICE_REGISTERED | DEVICE_UPDATED | DEVICE_TOKEN_ROTATED | GROUP_CREATED | GROUP_UPDATED
  | GROUP_DELETED | LINEUP_UPDATED | LIVE_SET | LIVE_CLEARED | PROGRAM_CREATED | PROGRAM_UPDATED
  | PROGRAM_DELETED | USER_ROLE_GRANTED | USER_ROLE_REVOKED

datatype audit_target_type = TARGET_SUBMISSION | TARGET_DEVICE | TARGET_GROUP | TARGET_USER
  | TARGET_PROGRAM

text \<open>The files of an asset in the storage: the upload, the public variants and the video.\<close>

datatype variant_name = THUMB | PREVIEW | TV

datatype storage_key = UploadKey uuid | VariantKey uuid variant_name | VideoKey uuid

datatype idempotency_status = IN_PROGRESS | COMPLETED

datatype device_status = ONLINE | OFFLINE | SLEEPING | DISABLED

datatype slack_status = SLACK_PENDING | SLACK_SENDING | SLACK_SENT | SLACK_FAILED | SLACK_CANCELED

text \<open>Postgres orders an enum by its declaration.\<close>

fun role_rank :: "granted_role \<Rightarrow> nat" where
  "role_rank REVIEWER = 0" | "role_rank SUPER_ADMIN = 1"

instantiation granted_role :: linorder
begin

definition less_eq_granted_role :: "granted_role \<Rightarrow> granted_role \<Rightarrow> bool" where
  "less_eq_granted_role a b \<longleftrightarrow> role_rank a \<le> role_rank b"

definition less_granted_role :: "granted_role \<Rightarrow> granted_role \<Rightarrow> bool" where
  "less_granted_role a b \<longleftrightarrow> role_rank a < role_rank b"

instance
proof
  fix a b :: granted_role
  show "a \<le> b \<Longrightarrow> b \<le> a \<Longrightarrow> a = b"
    by (cases a; cases b) (simp_all add: less_eq_granted_role_def)
qed (auto simp: less_eq_granted_role_def less_granted_role_def)

end

text \<open>The identifier columns that hold a uuid or a slug as text.\<close>

datatype ident = IdUuid uuid | IdSlug slug

section \<open>The shapes of the jsonb columns\<close>

datatype poster_layout = LAYOUT_WALL | LAYOUT_STRIP

record time_range =
  tr_start :: string
  tr_end :: string

record info_bar_entry =
  ib_item :: string
  ib_programId :: slug

record lineup_settings =
  ls_posterLayout :: poster_layout
  ls_rotationSeconds :: int
  ls_refreshAfterSeconds :: int
  ls_infoBar :: "info_bar_entry list"
  ls_quietHours :: "time_range list"

record schedule_window =
  sw_days :: "int list"
  sw_range :: time_range

datatype block_schedule = ALWAYS | WINDOWS "schedule_window list" | DATE_RANGE time time

text \<open>A partial settings object: a key that is absent is \<open>None\<close>.\<close>

record partial_settings =
  ps_posterLayout :: "poster_layout option"
  ps_rotationSeconds :: "int option"
  ps_refreshAfterSeconds :: "int option"
  ps_infoBar :: "info_bar_entry list option"
  ps_quietHours :: "time_range list option"

record block_change =
  bc_enabled :: "bool option"
  bc_durationSeconds :: "int option"

record device_overrides =
  do_settings :: partial_settings
  do_blocks :: "block_change obj"

datatype game_config = CLICK_BATTLE int

text \<open>\<open>main\<close>: what is shown, and until when; a game always has an end.\<close>

datatype live_main =
    SHOW "uuid option" "slug option" "time option"
  | GAME game_config time

record live_alert =
  lal_text :: utext
  lal_until :: "time option"

datatype now_playing_kind = NP_SUBMISSIONS | NP_PROGRAM | NP_LIVE | NP_IDLE | NP_QUIET

record now_playing =
  np_blockId :: "string option"
  np_live :: bool
  np_kind :: now_playing_kind
  np_label :: "utext option"
  np_submissionIds :: "uuid list"
  np_startedAt :: time
  np_endsAt :: "time option"

section \<open>Rows\<close>

record user =
  u_id :: uuid
  u_idpUuid :: utext
  u_email :: utext
  u_name :: utext
  u_studentId :: "utext option"
  u_lastLoginAt :: time
  u_createdAt :: time
  u_updatedAt :: time

record user_role =
  ur_userId :: uuid
  ur_role :: granted_role
  ur_createdAt :: time

record category =
  c_id :: slug
  c_name :: utext
  c_sortOrder :: int
  c_isActive :: bool
  c_createdAt :: time
  c_updatedAt :: time

record target_group =
  tg_id :: slug
  tg_name :: utext
  tg_sortOrder :: int
  tg_isActive :: bool
  tg_createdAt :: time
  tg_updatedAt :: time

record asset =
  a_id :: uuid
  a_ownerId :: uuid
  a_status :: asset_status
  a_kind :: asset_kind
  a_fileName :: utext
  a_declaredMimeType :: string
  a_declaredSizeBytes :: int
  a_declaredChecksum :: "string option"
  a_uploadExpiresAt :: time
  a_mimeType :: "string option"
  a_width :: "int option"
  a_height :: "int option"
  a_sizeBytes :: "int option"
  a_checksum :: "string option"
  a_durationMs :: "int option"
  a_hasAudio :: "bool option"
  a_processingAttempts :: int
  a_processingStartedAt :: "time option"
  a_rejectionReason :: "msg option"
  a_processedAt :: "time option"
  a_createdAt :: time
  a_updatedAt :: time

record submission =
  s_id :: uuid
  s_type :: submission_type
  s_requesterId :: uuid
  s_ziggleNoticeId :: "string option"
  s_title :: utext
  s_categoryId :: "slug option"
  s_assetId :: "uuid option"
  s_detailUrl :: "string option"
  s_startAt :: "time option"
  s_endAt :: "time option"
  s_status :: submission_status
  s_priority :: int
  s_organizerName :: "utext option"
  s_subtitle :: "utext option"
  s_location :: "utext option"
  s_description :: "utext option"
  s_version :: int
  s_submittedAt :: "time option"
  s_createdAt :: time
  s_updatedAt :: time

record submission_event_banner =
  eb_submissionId :: uuid
  eb_mode :: event_banner_mode
  eb_occasion :: "event_banner_occasion option"
  eb_recipient :: utext
  eb_headline :: "utext option"
  eb_message :: "utext option"
  eb_sender :: "utext option"
  eb_photoConsent :: bool

record submission_story =
  st_submissionId :: uuid
  st_tag :: story_tag
  st_body :: utext
  st_storyNumber :: "int option"

record submission_target_group =
  stg_submissionId :: uuid
  stg_targetGroupId :: slug

record review =
  r_id :: uuid
  r_submissionId :: uuid
  r_revision :: int
  r_decision :: review_decision
  r_reasonCode :: "reject_reason_code option"
  r_comment :: "utext option"
  r_reviewerId :: uuid
  r_assetChecksum :: "string option"
  r_reviewedAt :: time

record device =
  d_id :: uuid
  d_name :: utext
  d_location :: "utext option"
  d_orientation :: device_orientation
  d_programGroupId :: slug
  d_lineupOverrides :: device_overrides
  d_isActive :: bool
  d_tokenHash :: string
  d_tokenIssuedAt :: time
  d_lastSeenAt :: "time option"
  d_appVersion :: "utext option"
  d_resolutionWidth :: "int option"
  d_resolutionHeight :: "int option"
  d_lastPlaylistVersion :: "utext option"
  d_lastRenderOkAt :: "time option"
  d_nowPlaying :: "now_playing option"
  d_createdAt :: time
  d_updatedAt :: time

record device_target_group =
  dtg_deviceId :: uuid
  dtg_targetGroupId :: slug

record game =
  g_id :: uuid
  g_deviceId :: uuid
  g_connectedAt :: time

record program =
  p_id :: slug
  p_type :: string
  p_name :: utext
  p_params :: "json obj"
  p_createdAt :: time
  p_updatedAt :: time

record group_lineup =
  gl_groupId :: slug
  gl_version :: int
  gl_settings :: lineup_settings
  gl_updatedBy :: "uuid option"
  gl_updatedAt :: time

record lineup_block =
  lb_groupId :: slug
  lb_id :: string
  lb_position :: int
  lb_source :: lineup_block_source
  lb_submissionType :: "submission_type option"
  lb_programId :: "slug option"
  lb_durationSeconds :: int
  lb_perVisit :: "int option"
  lb_schedule :: block_schedule
  lb_enabled :: bool

record live_state =
  lv_scope :: live_scope
  lv_scopeId :: ident
  lv_main :: "live_main option"
  lv_alert :: "live_alert option"
  lv_setBy :: uuid
  lv_setAt :: time

record play_event =
  pe_deviceId :: uuid
  pe_eventId :: uuid
  pe_sessionId :: utext
  pe_submissionId :: uuid
  pe_revision :: "int option"
  pe_startedAt :: time
  pe_durationMs :: int
  pe_completed :: bool
  pe_placement :: "play_placement option"
  pe_receivedAt :: time

record play_event_daily =
  pd_day :: string
  pd_submissionId :: uuid
  pd_deviceId :: uuid
  pd_impressions :: int
  pd_completedImpressions :: int
  pd_totalDurationMs :: int
  pd_wallImpressions :: int
  pd_updatedAt :: time

record job_watermark =
  jw_name :: string
  jw_value :: time
  jw_updatedAt :: time

record audit_log =
  al_id :: uuid
  al_actorType :: audit_actor_type
  al_actorId :: "uuid option"
  al_action :: audit_action
  al_targetType :: audit_target_type
  al_targetId :: ident
  al_reason :: "utext option"
  al_metadata :: "json option"
  al_requestId :: "string option"
  al_createdAt :: time

record storage_deletion =
  sd_key :: storage_key
  sd_attempts :: int
  sd_lastError :: "utext option"
  sd_lastAttemptAt :: "time option"
  sd_createdAt :: time

record idempotency_key =
  ik_scope :: string
  ik_key :: utext
  ik_fingerprint :: string
  ik_status :: idempotency_status
  ik_responseBody :: "json option"
  ik_lockedUntil :: time
  ik_expiresAt :: time
  ik_createdAt :: time

record device_alert_state =
  das_deviceId :: uuid
  das_status :: device_status
  das_observedLastSeenAt :: "time option"
  das_graceUntil :: time
  das_incidentId :: "uuid option"
  das_checkedAt :: time

record slack_delivery_state =
  sl_id :: string
  sl_claimToken :: "uuid option"
  sl_lockedUntil :: time
  sl_nextSendAt :: time

datatype notification_kind = DEVICE_OFFLINE | DEVICE_RECOVERED | REVIEW_REMINDER

text \<open>The unique key of a notification: an incident of a device, or the slot of a reminder.\<close>

datatype dedupe_key = DeviceKey uuid uuid | RecoveredKey uuid uuid | ReviewKey string

text \<open>What the text of a notification says; its layout is not modelled.\<close>

datatype notification_text =
    OfflineText utext "utext option" time int time
  | RecoveredText utext "utext option" time time int
  | ReviewText int int int int time int time

record slack_notification =
  sn_id :: uuid
  sn_dedupeKey :: dedupe_key
  sn_kind :: notification_kind
  sn_deviceId :: "uuid option"
  sn_incidentId :: "uuid option"
  sn_text :: notification_text
  sn_status :: slack_status
  sn_attempts :: int
  sn_availableAt :: time
  sn_expiresAt :: time
  sn_claimToken :: "uuid option"
  sn_lastError :: "string option"
  sn_sentAt :: "time option"
  sn_createdAt :: time

section \<open>The database\<close>

text \<open>The tables, and the sequence the story numbers are drawn from.\<close>

record database =
  t_users :: "user table"
  t_userRoles :: "user_role table"
  t_categories :: "category table"
  t_targetGroups :: "target_group table"
  t_assets :: "asset table"
  t_submissions :: "submission table"
  t_eventBanners :: "submission_event_banner table"
  t_stories :: "submission_story table"
  t_submissionTargetGroups :: "submission_target_group table"
  t_reviews :: "review table"
  t_devices :: "device table"
  t_deviceTargetGroups :: "device_target_group table"
  t_games :: "game table"
  t_programs :: "program table"
  t_groupLineups :: "group_lineup table"
  t_lineupBlocks :: "lineup_block table"
  t_liveStates :: "live_state table"
  t_playEvents :: "play_event table"
  t_playEventDaily :: "play_event_daily table"
  t_jobWatermarks :: "job_watermark table"
  t_auditLogs :: "audit_log table"
  t_storageDeletions :: "storage_deletion table"
  t_idempotencyKeys :: "idempotency_key table"
  t_deviceAlertStates :: "device_alert_state table"
  t_slackNotifications :: "slack_notification table"
  t_slackDeliveryState :: "slack_delivery_state table"
  storyNumberSeq :: int

definition empty_database :: database where
  "empty_database =
     \<lparr>t_users = [], t_userRoles = [], t_categories = [], t_targetGroups = [], t_assets = [],
      t_submissions = [], t_eventBanners = [], t_stories = [], t_submissionTargetGroups = [],
      t_reviews = [], t_devices = [], t_deviceTargetGroups = [], t_games = [], t_programs = [],
      t_groupLineups = [], t_lineupBlocks = [], t_liveStates = [], t_playEvents = [],
      t_playEventDaily = [], t_jobWatermarks = [], t_auditLogs = [], t_storageDeletions = [],
      t_idempotencyKeys = [], t_deviceAlertStates = [], t_slackNotifications = [],
      t_slackDeliveryState = [], storyNumberSeq = 1\<rparr>"

section \<open>CHECK constraints\<close>

text \<open>A CHECK that evaluates to SQL \<open>NULL\<close> is met.\<close>

definition check_period_order :: "submission \<Rightarrow> bool" where
  "check_period_order s = (case (s_startAt s, s_endAt s) of
      (Some a, Some b) \<Rightarrow> a < b | _ \<Rightarrow> True)"

definition check_period_both :: "submission \<Rightarrow> bool" where
  "check_period_both s \<longleftrightarrow> (s_startAt s = None) = (s_endAt s = None)"

definition check_period_after_approval :: "submission \<Rightarrow> bool" where
  "check_period_after_approval s \<longleftrightarrow>
     s_startAt s \<noteq> None \<or> s_status s \<in> {DRAFT, PENDING_REVIEW, REJECTED, CANCELED, ARCHIVED}"

definition check_poster_fields :: "submission \<Rightarrow> bool" where
  "check_poster_fields s \<longleftrightarrow>
     s_type s \<noteq> POSTER \<or> (s_categoryId s \<noteq> None \<and> s_assetId s \<noteq> None)"

definition check_category_poster_only :: "submission \<Rightarrow> bool" where
  "check_category_poster_only s \<longleftrightarrow> s_type s = POSTER \<or> s_categoryId s = None"

definition submission_checks :: "submission \<Rightarrow> bool" where
  "submission_checks s \<longleftrightarrow>
     check_period_order s \<and> check_period_both s \<and> check_period_after_approval s
     \<and> check_poster_fields s \<and> check_category_poster_only s"

lemmas submission_check_defs = submission_checks_def check_period_order_def check_period_both_def
  check_period_after_approval_def check_poster_fields_def check_category_poster_only_def

definition notice_active :: "submission \<Rightarrow> bool" where
  "notice_active s \<longleftrightarrow> s_ziggleNoticeId s \<noteq> None \<and> s_status s \<notin> {CANCELED, ENDED, ARCHIVED}"

text \<open>\<open>submissions_ziggle_notice_id_active_uq\<close>: one live submission per notice.\<close>

definition unique_active_notice :: "submission table \<Rightarrow> bool" where
  "unique_active_notice t \<longleftrightarrow> distinct (map s_ziggleNoticeId (filter notice_active t))"

definition event_banner_checks :: "submission_event_banner \<Rightarrow> bool" where
  "event_banner_checks b \<longleftrightarrow>
     (eb_mode b \<noteq> TEMPLATE \<or> (eb_occasion b \<noteq> None \<and> eb_message b \<noteq> None))
     \<and> (eb_mode b = TEMPLATE \<or> \<not> eb_photoConsent b)"

definition lineup_block_checks :: "lineup_block \<Rightarrow> bool" where
  "lineup_block_checks b \<longleftrightarrow>
     (case lb_source b of
        SUBMISSIONS \<Rightarrow> lb_submissionType b \<noteq> None \<and> lb_perVisit b \<noteq> None \<and> lb_programId b = None
      | PROGRAM \<Rightarrow> lb_programId b \<noteq> None \<and> lb_submissionType b = None \<and> lb_perVisit b = None)
     \<and> 5 \<le> lb_durationSeconds b \<and> lb_durationSeconds b \<le> 300"

definition lower_char :: "char \<Rightarrow> bool" where
  "lower_char c \<longleftrightarrow> (let n = of_char c :: nat in 97 \<le> n \<and> n \<le> 122)"

definition digit_char :: "char \<Rightarrow> bool" where
  "digit_char c \<longleftrightarrow> (let n = of_char c :: nat in 48 \<le> n \<and> n \<le> 57)"

definition slug_ok :: "slug \<Rightarrow> bool" where
  "slug_ok s = (case s of
      [] \<Rightarrow> False
    | c # cs \<Rightarrow> lower_char c \<and> length cs \<le> 63
        \<and> list_all (\<lambda>x. lower_char x \<or> digit_char x \<or> x = CHR ''_'') cs)"

end
