(* ===== verification/Pagination.thy ===== *)
theory Pagination
  imports Schema
begin

text \<open>
  Cursor pagination: \<open>src/src/common/pagination/cursor.ts\<close> and \<open>page.ts\<close>. A cursor is the JSON
  value its base64url text carries, \<open>None\<close> for a text that carries none. The locale
  \<open>keyset\<close> states what a list query promises about its cursor and proves that following the
  cursors returns every row once, in order; each list of the application interprets it.
\<close>

type_synonym cursor = "json option"

definition encodeCursor :: "json \<Rightarrow> cursor" where "encodeCursor v = Some v"

definition decodeCursor :: "cursor \<Rightarrow> (json \<Rightarrow> 'a option) \<Rightarrow> 'a res" where
  "decodeCursor c schema =
     requireE (Option.bind c schema)
       (AppException 400 INVALID_REQUEST (Msg ''Invalid cursor'')
          (Some [(''cursor'', Msg ''The list position is not valid. Load it from the start.'')]) None)"

record 'i page =
  pg_items :: "'i list"
  pg_nextCursor :: "cursor option"
  pg_totalCount :: nat
  pg_serverTime :: time

text \<open>\<open>toPage\<close> gets up to \<open>limit + 1\<close> rows; the extra one only tells that there is a next page.\<close>

definition toPage ::
    "'r list \<Rightarrow> nat \<Rightarrow> nat \<Rightarrow> time \<Rightarrow> ('r \<Rightarrow> json) \<Rightarrow> ('r \<Rightarrow> 'i) \<Rightarrow> 'i page" where
  "toPage rows limit totalCount serverTime cursorOf f =
     (let hasMore = limit < length rows;
          pageRows = (if hasMore then take limit rows else rows)
      in \<lparr>pg_items = map f pageRows,
          pg_nextCursor =
            (if hasMore \<and> pageRows \<noteq> [] then Some (encodeCursor (cursorOf (last pageRows))) else None),
          pg_totalCount = totalCount, pg_serverTime = serverTime\<rparr>)"

lemma decodeCursor_encode: "schema v = Some x \<Longrightarrow> decodeCursor (encodeCursor v) schema = Inr x"
  by (simp add: decodeCursor_def encodeCursor_def)

lemma decodeCursor_Inr [res_simps]:
  "decodeCursor c schema = Inr x \<longleftrightarrow> (\<exists>v. c = Some v \<and> schema v = Some x)"
  by (auto simp: decodeCursor_def requireE_Inr bind_eq_Some_conv)

lemma toPage_items: "pg_items (toPage rows limit n t k f) = map f (take limit rows)"
  by (simp add: toPage_def Let_def)

lemma toPage_next:
  "0 < limit \<Longrightarrow> pg_nextCursor (toPage rows limit n t k f)
     = (if limit < length rows then Some (Some (k (rows ! (limit - 1)))) else None)"
  by (auto simp: toPage_def Let_def encodeCursor_def last_conv_nth)

text \<open>A client that follows the cursors of a query, for at most \<open>fuel\<close> pages.\<close>

fun follow :: "(cursor option \<Rightarrow> 'i page res) \<Rightarrow> nat \<Rightarrow> cursor option \<Rightarrow> 'i list res" where
  "follow query 0 cur = Inr []"
| "follow query (Suc fuel) cur =
     bindE (query cur) (\<lambda>p. case pg_nextCursor p of
         None \<Rightarrow> Inr (pg_items p)
       | Some next \<Rightarrow> bindE (follow query fuel (Some next)) (\<lambda>rest. Inr (pg_items p @ rest)))"

section \<open>Sorted lists\<close>

lemma sorted_wrt_split_filter:
  assumes "sorted_wrt R (map key (xs @ r # ys))" and "transp R" "irreflp R"
  shows "filter (\<lambda>q. R (key r) (key q)) (xs @ r # ys) = ys"
proof -
  have "\<not> R (key r) (key q)" if "q \<in> set xs" for q
  proof
    assume "R (key r) (key q)"
    moreover have "R (key q) (key r)" using assms(1) that by (simp add: sorted_wrt_append)
    ultimately show False using assms(2,3) by (meson irreflpD transpD)
  qed
  then have "filter (\<lambda>q. R (key r) (key q)) xs = []" by (simp add: filter_empty_conv)
  moreover have "filter (\<lambda>q. R (key r) (key q)) ys = ys"
    using assms by (auto simp: sorted_wrt_append filter_id_conv)
  ultimately show ?thesis using irreflpD[OF assms(3)] by simp
qed

lemma sorted_strict_asc:
  "distinct (map key rs) \<Longrightarrow> sorted_wrt (<) (map key (order_asc key rs))"
  by (simp add: order_asc_def strict_sorted_iff distinct_map)

lemma sorted_strict_desc:
  assumes "distinct (map key rs)"
  shows "sorted_wrt (\<lambda>a b. b < a) (map key (order_desc key rs))"
  using sorted_strict_asc[OF assms]
  by (simp add: order_asc_def order_desc_def rev_map[symmetric] sorted_wrt_rev)

lemma filter_order_asc: "filter P (order_asc key rs) = order_asc key (filter P rs)"
  by (simp add: order_asc_def filter_sort)

lemma filter_order_desc: "filter P (order_desc key rs) = order_desc key (filter P rs)"
  by (simp add: order_desc_def rev_filter[symmetric] filter_sort)

section \<open>What a list query promises\<close>

text \<open>
  \<open>rows d c\<close> are the rows of the list on the stored data \<open>d\<close> behind the cursor \<open>c\<close>, all of them;
  the query itself takes the first \<open>limit + 1\<close>.
\<close>

locale keyset =
  fixes rows :: "'d \<Rightarrow> 'k option \<Rightarrow> 'r list"
    and key :: "'r \<Rightarrow> 'k"
    and before :: "'k \<Rightarrow> 'k \<Rightarrow> bool"
    and valid :: "'d \<Rightarrow> bool"
  assumes before_trans: "transp before"
    and before_irrefl: "irreflp before"
    and rows_sorted: "valid d \<Longrightarrow> sorted_wrt before (map key (rows d None))"
    and rows_after: "rows d (Some c) = filter (\<lambda>r. before c (key r)) (rows d None)"
begin

text \<open>The rows behind the cursor of a row are the ones after it.\<close>

lemma rows_behind:
  assumes "valid d" and "rows d None = xs @ r # ys"
  shows "rows d (Some (key r)) = ys"
  using sorted_wrt_split_filter[of before key xs r ys] assms before_trans before_irrefl
    rows_sorted[of d] by (simp add: rows_after)

text \<open>A client that follows the cursors, at most \<open>fuel\<close> pages.\<close>

fun walk :: "'d \<Rightarrow> nat \<Rightarrow> nat \<Rightarrow> 'k option \<Rightarrow> 'r list" where
  "walk d limit 0 c = []"
| "walk d limit (Suc fuel) c =
     (let fetched = take (limit + 1) (rows d c)
      in if limit < length fetched
         then take limit fetched @ walk d limit fuel (Some (key (fetched ! (limit - 1))))
         else fetched)"

lemma walk_from:
  assumes "valid d" and "0 < limit"
    and "rows d None = xs @ rows d c" and "length (rows d c) < fuel"
  shows "walk d limit fuel c = rows d c"
  using assms(3,4)
proof (induction fuel arbitrary: xs c)
  case (Suc fuel)
  let ?rs = "rows d c"
  show ?case
  proof (cases "limit < length ?rs")
    case False
    then show ?thesis by simp
  next
    case True
    let ?r = "?rs ! (limit - 1)"
    have split: "?rs = take (limit - 1) ?rs @ ?r # drop limit ?rs"
      using True assms(2) id_take_nth_drop[of "limit - 1" ?rs] by simp
    then have "rows d None = (xs @ take (limit - 1) ?rs) @ ?r # drop limit ?rs"
      using Suc.prems(1) by simp
    then have behind: "rows d (Some (key ?r)) = drop limit ?rs" by (rule rows_behind[OF assms(1)])
    have "rows d None = (xs @ take limit ?rs) @ rows d (Some (key ?r))"
      using Suc.prems(1) behind by simp
    moreover have "length (rows d (Some (key ?r))) < fuel"
      using behind Suc.prems(2) True assms(2) by simp
    ultimately have "walk d limit fuel (Some (key ?r)) = drop limit ?rs"
      using Suc.IH behind by metis
    then show ?thesis using True assms(2) by (simp add: Let_def min_def)
  qed
qed simp

theorem walk_complete:
  assumes "valid d" and "0 < limit" and "length (rows d None) < fuel"
  shows "walk d limit fuel None = rows d None"
  by (rule walk_from[OF assms(1,2), of "[]"]) (use assms(3) in simp_all)

text \<open>
  The same through a query that answers pages: \<open>decode\<close> reads back the cursor \<open>enc\<close> makes of a row.
\<close>

lemma follow_walk:
  assumes q: "\<And>cur. query cur = bindE (decode cur) (\<lambda>k. Inr (toPage (take (limit + 1) (rows d k)) limit n t enc f))"
    and dec: "\<And>r. decode (Some (Some (enc r))) = Inr (Some (key r))"
    and "0 < limit" and "decode cur = Inr k"
  shows "follow query fuel cur = Inr (map f (walk d limit fuel k))"
  using assms(4)
proof (induction fuel arbitrary: cur k)
  case (Suc fuel)
  let ?fetched = "take (limit + 1) (rows d k)"
  have page: "query cur = Inr (toPage ?fetched limit n t enc f)" using q Suc.prems by simp
  show ?case
  proof (cases "limit < length ?fetched")
    case True
    from Suc.IH[OF dec] True assms(3) page show ?thesis
      by (simp add: toPage_items toPage_next Let_def)
  next
    case False
    then show ?thesis using page assms(3) by (simp add: toPage_items toPage_next Let_def)
  qed
qed simp

lemma follow_complete:
  assumes "\<And>cur. query cur = bindE (decode cur) (\<lambda>k. Inr (toPage (take (limit + 1) (rows d k)) limit n t enc f))"
    and "\<And>r. decode (Some (Some (enc r))) = Inr (Some (key r))"
    and "decode None = Inr None" and "0 < limit" and "valid d" and "length (rows d None) < fuel"
  shows "follow query fuel None = Inr (map f (rows d None))"
  using follow_walk[OF assms(1,2,4,3), of fuel] walk_complete[OF assms(5,4,6)] by simp

end

text \<open>Lists ordered by a key that no two rows share have the promised form.\<close>

lemma keyset_asc:
  fixes key :: "'r \<Rightarrow> 'k::linorder"
  assumes "\<And>d. valid d \<Longrightarrow> distinct (map key (base d))"
    and "\<And>d c. rows d c = order_asc key (filter (\<lambda>r. case c of None \<Rightarrow> True | Some k \<Rightarrow> k < key r) (base d))"
  shows "keyset rows key (<) valid"
  by unfold_locales
    (simp_all add: assms sorted_strict_asc filter_order_asc transp_def irreflp_def)

lemma keyset_desc:
  fixes key :: "'r \<Rightarrow> 'k::linorder"
  assumes "\<And>d. valid d \<Longrightarrow> distinct (map key (base d))"
    and "\<And>d c. rows d c = order_desc key (filter (\<lambda>r. case c of None \<Rightarrow> True | Some k \<Rightarrow> key r < k) (base d))"
  shows "keyset rows key (\<lambda>a b. b < a) valid"
  by unfold_locales
    (simp_all add: assms sorted_strict_desc filter_order_desc transp_def irreflp_def)

end
