(* ===== verification/Audit_Writer.thy ===== *)
theory Audit_Writer
  imports Pagination
begin

text \<open>
  Writing the audit log: \<open>src/src/audit/audit.service.ts\<close>. A handler runs in a context: its one
  reading of the clock, the request id (none outside a request) and the random uuids it draws,
  by position.
\<close>

record ctx =
  now :: time
  currentRequestId :: "string option"
  uuids :: "nat \<Rightarrow> uuid"

record audit_entry =
  ae_actorType :: audit_actor_type
  ae_actorId :: "uuid option"
  ae_action :: audit_action
  ae_targetType :: audit_target_type
  ae_targetId :: ident
  ae_reason :: "utext option"
  ae_metadata :: "json option"
  ae_at :: time

definition audit_row :: "string option \<Rightarrow> uuid \<Rightarrow> audit_entry \<Rightarrow> audit_log" where
  "audit_row rid newId e =
     \<lparr>al_id = newId, al_actorType = ae_actorType e, al_actorId = ae_actorId e,
      al_action = ae_action e, al_targetType = ae_targetType e, al_targetId = ae_targetId e,
      al_reason = ae_reason e, al_metadata = ae_metadata e, al_requestId = rid,
      al_createdAt = ae_at e\<rparr>"

definition record_audit :: "string option \<Rightarrow> uuid \<Rightarrow> audit_entry \<Rightarrow> database \<Rightarrow> database" where
  "record_audit rid newId e db =
     db\<lparr>t_auditLogs := insert_row (audit_row rid newId e) (t_auditLogs db)\<rparr>"

text \<open>Writing the log touches no other table.\<close>

lemma record_audit_tables [simp]:
  "t_users (record_audit r u e db) = t_users db"
  "t_userRoles (record_audit r u e db) = t_userRoles db"
  "t_categories (record_audit r u e db) = t_categories db"
  "t_targetGroups (record_audit r u e db) = t_targetGroups db"
  "t_assets (record_audit r u e db) = t_assets db"
  "t_submissions (record_audit r u e db) = t_submissions db"
  "t_eventBanners (record_audit r u e db) = t_eventBanners db"
  "t_stories (record_audit r u e db) = t_stories db"
  "t_submissionTargetGroups (record_audit r u e db) = t_submissionTargetGroups db"
  "t_reviews (record_audit r u e db) = t_reviews db"
  "t_devices (record_audit r u e db) = t_devices db"
  "t_deviceTargetGroups (record_audit r u e db) = t_deviceTargetGroups db"
  "t_programs (record_audit r u e db) = t_programs db"
  "t_groupLineups (record_audit r u e db) = t_groupLineups db"
  "t_lineupBlocks (record_audit r u e db) = t_lineupBlocks db"
  "t_liveStates (record_audit r u e db) = t_liveStates db"
  "storyNumberSeq (record_audit r u e db) = storyNumberSeq db"
  by (simp_all add: record_audit_def)

lemma record_audit_logs [simp]:
  "t_auditLogs (record_audit r u e db) = insert_row (audit_row r u e) (t_auditLogs db)"
  by (simp add: record_audit_def)

end
