(* ===== verification/Auth.thy ===== *)
theory Auth
  imports Audit_Writer
begin

text \<open>
  Who is asking: the roles (\<open>src/src/auth/types/role.ts\<close>), the two global guards
  (\<open>auth/guards\<close>), the user rows a login writes (\<open>users/users.service.ts\<close>) and the
  token endpoints (\<open>auth/auth.service.ts\<close>). The JSON web token library and the identity provider
  are parameters.
\<close>

section \<open>Roles\<close>

datatype role = SUBMITTER | Granted granted_role

definition resolveRoles :: "granted_role list \<Rightarrow> role list" where
  "resolveRoles grantedRoles = SUBMITTER # map Granted grantedRoles"

definition isReviewer :: "role list \<Rightarrow> bool" where
  "isReviewer roles \<longleftrightarrow> Granted REVIEWER \<in> set roles \<or> Granted SUPER_ADMIN \<in> set roles"

record auth_user =
  au_id :: uuid
  au_idpUuid :: utext
  au_email :: utext
  au_name :: utext
  au_roles :: "role list"
  au_tokenExpiresAt :: time

definition rolesGuard :: "role list \<Rightarrow> auth_user option \<Rightarrow> unit res" where
  "rolesGuard required u =
     (if required = [] then Inr ()
      else let roles = (case u of Some x \<Rightarrow> au_roles x | None \<Rightarrow> [])
           in if Granted SUPER_ADMIN \<in> set roles \<or> list_ex (\<lambda>r. r \<in> set roles) required
              then Inr () else Inl (forbiddenException ''Insufficient role''))"

section \<open>Users\<close>

record idp_user_info =
  ui_uuid :: utext
  ui_email :: utext
  ui_name :: utext
  ui_studentId :: "utext option"

definition upsertFromIdp :: "uuid \<Rightarrow> time \<Rightarrow> idp_user_info \<Rightarrow> database \<Rightarrow> database \<times> user option" where
  "upsertFromIdp newId t info db =
     (let row = \<lparr>u_id = newId, u_idpUuid = ui_uuid info, u_email = ui_email info,
                 u_name = ui_name info, u_studentId = ui_studentId info, u_lastLoginAt = t,
                 u_createdAt = t, u_updatedAt = t\<rparr>;
          db' = db\<lparr>t_users := upsert u_idpUuid row
                  (\<lambda>u. u\<lparr>u_email := ui_email info, u_name := ui_name info,
                         u_studentId := ui_studentId info, u_lastLoginAt := t, u_updatedAt := t\<rparr>)
                  (t_users db)\<rparr>
      in (db', first_row (\<lambda>u. u_idpUuid u = ui_uuid info) (t_users db')))"

definition grantedRolesOf :: "database \<Rightarrow> uuid \<Rightarrow> granted_role list" where
  "grantedRolesOf db userId = map ur_role (select (\<lambda>r. ur_userId r = userId) (t_userRoles db))"

definition findByIdWithRoles :: "uuid \<Rightarrow> database \<Rightarrow> (user \<times> granted_role list) option" where
  "findByIdWithRoles userId db =
     map_option (\<lambda>u. (u, grantedRolesOf db (u_id u))) (first_row (\<lambda>u. u_id u = userId) (t_users db))"

section \<open>The token guard\<close>

text \<open>
  What \<open>verifyAsync\<close> of the JWT library gives: the payload (\<open>sub\<close>, \<open>exp\<close> in seconds), or an
  error, which may be that the token has expired.
\<close>

datatype jwt_error = TokenExpiredError | OtherJwtError

text \<open>\<open>header.split(' ')\<close>: the pieces between single spaces.\<close>

fun split_space :: "string \<Rightarrow> string list" where
  "split_space [] = [[]]"
| "split_space (c # cs) =
     (if c = CHR '' '' then [] # split_space cs
      else case split_space cs of [] \<Rightarrow> [[c]] | p # ps \<Rightarrow> (c # p) # ps)"

definition extractBearerToken :: "string option \<Rightarrow> string option" where
  "extractBearerToken header = (case header of
      None \<Rightarrow> None
    | Some h \<Rightarrow> (case split_space h of
         t # token # _ \<Rightarrow> if t = ''Bearer'' \<and> token \<noteq> [] then Some token else None
       | _ \<Rightarrow> None))"

definition jwtAuthGuard ::
    "(string \<Rightarrow> jwt_error + uuid \<times> int option) \<Rightarrow> bool \<Rightarrow> string option \<Rightarrow> database
       \<Rightarrow> auth_user option res" where
  "jwtAuthGuard verifyAsync isPublic authorization db =
     (if isPublic then Inr None
      else case extractBearerToken authorization of
        None \<Rightarrow> Inl (unauthorizedException ''Missing access token'')
      | Some token \<Rightarrow> (case verifyAsync token of
          Inl TokenExpiredError \<Rightarrow> Inl (unauthorizedException ''Access token expired'')
        | Inl OtherJwtError \<Rightarrow> Inl (unauthorizedException ''Invalid access token'')
        | Inr (sub, exp) \<Rightarrow> (case findByIdWithRoles sub db of
            None \<Rightarrow> Inl (unauthorizedException ''User not found'')
          | Some (u, granted) \<Rightarrow>
              Inr (Some \<lparr>au_id = u_id u, au_idpUuid = u_idpUuid u, au_email = u_email u,
                         au_name = u_name u, au_roles = resolveRoles granted,
                         au_tokenExpiresAt = (case exp of Some x \<Rightarrow> x | None \<Rightarrow> 0) * 1000\<rparr>))))"

text \<open>The checks in front of a handler, in the order Nest runs the global guards.\<close>

definition guards ::
    "(string \<Rightarrow> jwt_error + uuid \<times> int option) \<Rightarrow> bool \<Rightarrow> role list \<Rightarrow> string option \<Rightarrow> database
       \<Rightarrow> auth_user option res" where
  "guards verifyAsync isPublic required authorization db =
     bindE (jwtAuthGuard verifyAsync isPublic authorization db)
       (\<lambda>u. bindE (rolesGuard required u) (\<lambda>_. Inr u))"

section \<open>Tokens\<close>

text \<open>What the identity provider answers to a token request (\<open>idp/idp.types.ts\<close>).\<close>

record idp_token_response =
  it_access_token :: utext
  it_token_type :: utext
  it_expires_in :: int
  it_refresh_token :: "utext option"
  it_scope :: "utext option"
  it_id_token :: "utext option"

record token_response =
  tok_accessToken :: string
  tok_refreshToken :: "utext option"
  tok_expiresIn :: int

text \<open>
  \<open>issue\<close>: the user info the provider gives for its access token, the user row, our own token.
  The provider's failures are exceptions of its client.
\<close>

definition issue ::
    "(utext \<Rightarrow> idp_user_info res) \<Rightarrow> (uuid \<Rightarrow> int \<Rightarrow> string) \<Rightarrow> int \<Rightarrow> ctx \<Rightarrow> idp_token_response
       \<Rightarrow> database \<Rightarrow> (database \<times> token_response) res" where
  "issue getUserInfo signAsync expiresIn c idpToken db =
     bindE (getUserInfo (it_access_token idpToken)) (\<lambda>info.
       case upsertFromIdp (uuids c 0) (now c) info db of
         (db', Some u) \<Rightarrow>
           Inr (db', \<lparr>tok_accessToken = signAsync (u_id u) expiresIn,
                      tok_refreshToken = it_refresh_token idpToken, tok_expiresIn = expiresIn\<rparr>)
       | (db', None) \<Rightarrow> Inl (Thrown None False None))"

definition login ::
    "(utext \<Rightarrow> utext \<Rightarrow> utext option \<Rightarrow> idp_token_response res) \<Rightarrow> (utext \<Rightarrow> idp_user_info res)
       \<Rightarrow> (uuid \<Rightarrow> int \<Rightarrow> string) \<Rightarrow> int \<Rightarrow> ctx \<Rightarrow> utext \<Rightarrow> utext \<Rightarrow> utext option \<Rightarrow> database
       \<Rightarrow> (database \<times> token_response) res" where
  "login exchangeCode getUserInfo signAsync expiresIn c code redirectUri codeVerifier db =
     bindE (exchangeCode code redirectUri codeVerifier)
       (\<lambda>idpToken. issue getUserInfo signAsync expiresIn c idpToken db)"

definition refresh ::
    "(utext \<Rightarrow> idp_token_response res) \<Rightarrow> (utext \<Rightarrow> idp_user_info res)
       \<Rightarrow> (uuid \<Rightarrow> int \<Rightarrow> string) \<Rightarrow> int \<Rightarrow> ctx \<Rightarrow> utext \<Rightarrow> database
       \<Rightarrow> (database \<times> token_response) res" where
  "refresh idpRefresh getUserInfo signAsync expiresIn c refreshToken db =
     bindE (idpRefresh refreshToken)
       (\<lambda>idpToken. issue getUserInfo signAsync expiresIn c idpToken db)"

text \<open>The session of a signed-in user.\<close>

record session_user =
  session_id :: uuid
  session_displayName :: utext
  session_email :: utext
  session_roles :: "role list"
  session_organizationIds :: "string list"

record session_response =
  session_owner :: session_user
  session_expiresAt :: time

definition toSession :: "auth_user \<Rightarrow> session_response" where
  "toSession u = \<lparr>session_owner = \<lparr>session_id = au_id u, session_displayName = au_name u, session_email = au_email u,
       session_roles = au_roles u, session_organizationIds = []\<rparr>, session_expiresAt = au_tokenExpiresAt u\<rparr>"

section \<open>Facts\<close>

lemma isReviewer_resolve:
  "isReviewer (resolveRoles rs) \<longleftrightarrow> REVIEWER \<in> set rs \<or> SUPER_ADMIN \<in> set rs"
  by (auto simp: isReviewer_def resolveRoles_def)

lemma set_grantedRolesOf: "r \<in> set (grantedRolesOf db u) \<longleftrightarrow> (\<exists>q \<in> set (t_userRoles db). ur_userId q = u \<and> ur_role q = r)"
  by (auto simp: grantedRolesOf_def)

lemma rolesGuard_Inr [res_simps]:
  "rolesGuard required u = Inr () \<longleftrightarrow>
     required = [] \<or> (\<exists>x. u = Some x \<and> (Granted SUPER_ADMIN \<in> set (au_roles x)
        \<or> (\<exists>r \<in> set required. r \<in> set (au_roles x))))"
  by (cases u) (auto simp: rolesGuard_def Let_def list_ex_iff)

lemma jwtAuthGuard_Some:
  assumes "jwtAuthGuard v False auth db = Inr r"
  shows "\<exists>x. r = Some x \<and> au_roles x = resolveRoles (grantedRolesOf db (au_id x))"
  using assms
  by (auto simp: jwtAuthGuard_def findByIdWithRoles_def
      split: option.splits sum.splits jwt_error.splits prod.splits)

text \<open>
  a handler behind \<open>@Roles(required)\<close> runs only for a caller whose row in \<open>user_roles\<close>, at
  the time of the request, has one of the required roles or \<open>SUPER_ADMIN\<close>: the roles come from
  the database and not from the token.
\<close>

theorem guards_roles_from_database:
  assumes "guards verify False required auth db = Inr r"
    and "required \<noteq> []" and "SUBMITTER \<notin> set required"
  shows "\<exists>x. r = Some x \<and> (\<exists>q \<in> set (t_userRoles db). ur_userId q = au_id x
           \<and> (ur_role q = SUPER_ADMIN \<or> Granted (ur_role q) \<in> set required))"
proof -
  from assms(1) have g: "jwtAuthGuard verify False auth db = Inr r" "rolesGuard required r = Inr ()"
    by (auto simp: guards_def res_simps)
  from jwtAuthGuard_Some[OF g(1)] obtain x where
    x: "r = Some x" "au_roles x = resolveRoles (grantedRolesOf db (au_id x))" by blast
  with g(2) assms(2,3) have "SUPER_ADMIN \<in> set (grantedRolesOf db (au_id x))
      \<or> (\<exists>p. Granted p \<in> set required \<and> p \<in> set (grantedRolesOf db (au_id x)))"
    by (auto simp: rolesGuard_Inr resolveRoles_def)
  then show ?thesis using x(1) by (auto simp: set_grantedRolesOf)
qed

definition sample_user :: user where
  "sample_user = \<lparr>u_id = 7, u_idpUuid = [1], u_email = [2], u_name = [3], u_studentId = None,
     u_lastLoginAt = 0, u_createdAt = 0, u_updatedAt = 0\<rparr>"

definition sample_role :: user_role where
  "sample_role = \<lparr>ur_userId = 7, ur_role = REVIEWER, ur_createdAt = 0\<rparr>"

definition sample_auth_db :: database where
  "sample_auth_db = empty_database\<lparr>t_users := [sample_user], t_userRoles := [sample_role]\<rparr>"

theorem guards_roles_from_database_witness:
  "\<exists>x. guards (\<lambda>_. Inr (7, None)) False [Granted REVIEWER] (Some ''Bearer t'') sample_auth_db
         = Inr (Some x)
     \<and> (\<exists>q \<in> set (t_userRoles sample_auth_db). ur_userId q = au_id x
          \<and> (ur_role q = SUPER_ADMIN \<or> Granted (ur_role q) \<in> set [Granted REVIEWER]))"
proof -
  let ?r = "Some \<lparr>au_id = 7, au_idpUuid = [1], au_email = [2], au_name = [3],
      au_roles = [SUBMITTER, Granted REVIEWER], au_tokenExpiresAt = 0\<rparr>"
  have "guards (\<lambda>_. Inr (7, None)) False [Granted REVIEWER] (Some ''Bearer t'') sample_auth_db = Inr ?r"
    by code_simp
  from guards_roles_from_database[OF this] this show ?thesis by auto
qed

text \<open>The user row of a login is found again by the id the token carries.\<close>

lemma upsertFromIdp_found:
  assumes "upsertFromIdp newId t info db = (db', r)"
  shows "\<exists>u. r = Some u \<and> u \<in> set (t_users db') \<and> u_idpUuid u = ui_uuid info
       \<and> u_email u = ui_email info \<and> u_name u = ui_name info \<and> u_lastLoginAt u = t"
proof -
  define new where "new = \<lparr>u_id = newId, u_idpUuid = ui_uuid info, u_email = ui_email info,
                 u_name = ui_name info, u_studentId = ui_studentId info, u_lastLoginAt = t,
                 u_createdAt = t, u_updatedAt = t\<rparr>"
  define f where "f u = u\<lparr>u_email := ui_email info, u_name := ui_name info,
      u_studentId := ui_studentId info, u_lastLoginAt := t, u_updatedAt := t\<rparr>" for u :: user
  have f: "u_idpUuid (f q) = u_idpUuid q" for q by (simp add: f_def)
  have new: "u_idpUuid new = ui_uuid info" by (simp add: new_def)
  have t': "t_users db' = upsert u_idpUuid new f (t_users db)"
    and r: "r = first_row (\<lambda>u. u_idpUuid u = ui_uuid info) (t_users db')"
    using assms by (auto simp: upsertFromIdp_def Let_def new_def f_def[abs_def])
  from upsert_key_exists[of u_idpUuid f new "t_users db", OF f] obtain u where u: "r = Some u"
    unfolding r t' new by (cases "first_row (\<lambda>u. u_idpUuid u = ui_uuid info) (upsert u_idpUuid new f (t_users db))")
      (auto simp: first_row_None)
  from first_row_Some[OF u[unfolded r]] have m: "u \<in> set (t_users db')" "u_idpUuid u = ui_uuid info"
    by auto
  from upsert_row_cases[OF m(1)[unfolded t'], unfolded new, OF m(2) f]
  have "u_email u = ui_email info \<and> u_name u = ui_name info \<and> u_lastLoginAt u = t"
    by (auto simp: new_def f_def)
  with u m show ?thesis by blast
qed

end
