(* ===== verification/Seoul_Time.thy ===== *)
theory Seoul_Time
  imports Prelude
begin

text \<open>
  The Seoul calendar of \<open>src/src/common/time/seoul-time.ts\<close>, over the ECMAScript date
  functions it calls (\<open>Date.UTC\<close>, the \<open>getUTC...\<close> readers, \<open>toISOString\<close> and
  \<open>Date.parse\<close>), written as the language specification defines them. A time value outside
  the range of \<open>Date\<close> (8.64e15 ms around the epoch) is not distinguished from the others.
  \<open>None\<close> is the invalid date of a text that is no date.
\<close>

section \<open>ECMAScript day numbers\<close>

definition msPerDay :: int where "msPerDay = 86400000"

definition day_of :: "time \<Rightarrow> int" where "day_of t = t div msPerDay"

definition time_in_day :: "time \<Rightarrow> int" where "time_in_day t = t mod msPerDay"

definition day_from_year :: "int \<Rightarrow> int" where
  "day_from_year y =
     365 * (y - 1970) + (y - 1969) div 4 - (y - 1901) div 100 + (y - 1601) div 400"

definition year_of_day :: "int \<Rightarrow> int" where
  "year_of_day d =
     (let g = 1970 + (d * 400) div 146097
      in if d < day_from_year g then g - 1
         else if day_from_year (g + 1) \<le> d then g + 1 else g)"

definition leap_day :: "int \<Rightarrow> int" where
  "leap_day y = day_from_year (y + 1) - day_from_year y - 365"

text \<open>The day of the year on which a month (0 to 11) begins; 12 is the year's length.\<close>

definition month_start :: "int \<Rightarrow> int \<Rightarrow> int" where
  "month_start l m =
     (if m \<le> 0 then 0 else if m = 1 then 31 else if m = 2 then 59 + l
      else if m = 3 then 90 + l else if m = 4 then 120 + l else if m = 5 then 151 + l
      else if m = 6 then 181 + l else if m = 7 then 212 + l else if m = 8 then 243 + l
      else if m = 9 then 273 + l else if m = 10 then 304 + l else if m = 11 then 334 + l
      else 365 + l)"

definition month_of_yday :: "int \<Rightarrow> int \<Rightarrow> int" where
  "month_of_yday l n =
     (if n < 31 then 0 else if n < 59 + l then 1 else if n < 90 + l then 2
      else if n < 120 + l then 3 else if n < 151 + l then 4 else if n < 181 + l then 5
      else if n < 212 + l then 6 else if n < 243 + l then 7 else if n < 273 + l then 8
      else if n < 304 + l then 9 else if n < 334 + l then 10 else 11)"

definition make_day :: "int \<Rightarrow> int \<Rightarrow> int \<Rightarrow> int" where
  "make_day y m dt =
     (let ym = y + m div 12; mn = m mod 12
      in day_from_year ym + month_start (leap_day ym) mn + dt - 1)"

text \<open>The calendar date of a day number: year, month 0 to 11, day of the month from 1.\<close>

definition civil :: "int \<Rightarrow> int \<times> int \<times> int" where
  "civil d =
     (let y = year_of_day d; n = d - day_from_year y; m = month_of_yday (leap_day y) n
      in (y, m, n - month_start (leap_day y) m + 1))"

definition getUTCFullYear :: "time \<Rightarrow> int" where "getUTCFullYear t = fst (civil (day_of t))"
definition getUTCMonth :: "time \<Rightarrow> int" where "getUTCMonth t = fst (snd (civil (day_of t)))"
definition getUTCDate :: "time \<Rightarrow> int" where "getUTCDate t = snd (snd (civil (day_of t)))"
definition getUTCHours :: "time \<Rightarrow> int" where "getUTCHours t = time_in_day t div 3600000"
definition getUTCMinutes :: "time \<Rightarrow> int" where "getUTCMinutes t = time_in_day t div 60000 mod 60"
definition getUTCSeconds :: "time \<Rightarrow> int" where "getUTCSeconds t = time_in_day t div 1000 mod 60"
definition getUTCMilliseconds :: "time \<Rightarrow> int" where "getUTCMilliseconds t = time_in_day t mod 1000"

text \<open>\<open>Date.UTC\<close>, with its rule that the years 0 to 99 mean 1900 to 1999.\<close>

definition Date_UTC :: "int \<Rightarrow> int \<Rightarrow> int \<Rightarrow> int \<Rightarrow> int \<Rightarrow> int \<Rightarrow> int \<Rightarrow> time" where
  "Date_UTC y m dt h mi s ms =
     (let yr = (if 0 \<le> y \<and> y \<le> 99 then 1900 + y else y)
      in make_day yr m dt * msPerDay + (h * 3600000 + mi * 60000 + s * 1000 + ms))"

section \<open>Days as text\<close>

definition dig :: "int \<Rightarrow> char" where "dig n = char_of (48 + nat n)"

definition undig :: "char \<Rightarrow> int option" where
  "undig c = (let n = of_char c :: nat in if 48 \<le> n \<and> n \<le> 57 then Some (int n - 48) else None)"

definition pad2 :: "int \<Rightarrow> string" where
  "pad2 n = [dig (n div 10), dig (n mod 10)]"

definition pad4 :: "int \<Rightarrow> string" where
  "pad4 n = [dig (n div 1000), dig (n div 100 mod 10), dig (n div 10 mod 10), dig (n mod 10)]"

definition pad6 :: "int \<Rightarrow> string" where
  "pad6 n = [dig (n div 100000), dig (n div 10000 mod 10)] @ pad4 (n mod 10000)"

text \<open>\<open>toISOString().slice(0, 10)\<close>: a year outside 0 to 9999 has a sign and six digits.\<close>

definition iso_day :: "int \<Rightarrow> string" where
  "iso_day d = (case civil d of (y, m, dt) \<Rightarrow>
     if 0 \<le> y \<and> y \<le> 9999 then pad4 y @ ''-'' @ pad2 (m + 1) @ ''-'' @ pad2 dt
     else (if y < 0 then ''-'' else ''+'') @ pad6 \<bar>y\<bar> @ ''-'' @ pad2 (m + 1))"

definition num2 :: "char \<Rightarrow> char \<Rightarrow> int option" where
  "num2 a b = Option.bind (undig a) (\<lambda>x. map_option (\<lambda>y. 10 * x + y) (undig b))"

definition num4 :: "char \<Rightarrow> char \<Rightarrow> char \<Rightarrow> char \<Rightarrow> int option" where
  "num4 a b c d = Option.bind (num2 a b) (\<lambda>x. map_option (\<lambda>y. 100 * x + y) (num2 c d))"

text \<open>
  \<open>Date.parse(day + 'T00:00:00.000Z')\<close> as a day number: month 1 to 12 and day 1 to 31, a day
  past the end of its month running into the next one, as V8 reads it.
\<close>

fun parse_day :: "string \<Rightarrow> int option" where
  "parse_day [a, b, c, d, s1, e, f, s2, g, h] =
     (if s1 = CHR ''-'' \<and> s2 = CHR ''-'' then
        (case (num4 a b c d, num2 e f, num2 g h) of
           (Some y, Some m, Some dt) \<Rightarrow>
             (if 1 \<le> m \<and> m \<le> 12 \<and> 1 \<le> dt \<and> dt \<le> 31 then Some (make_day y (m - 1) dt) else None)
         | _ \<Rightarrow> None)
      else if (a = CHR ''+'' \<or> a = CHR ''-'') \<and> s2 = CHR ''-'' then
        (case (num4 b c d s1, num2 e f, num2 g h) of
           (Some y1, Some y2, Some m) \<Rightarrow>
             (let y = 100 * y1 + y2
              in if 1 \<le> m \<and> m \<le> 12 \<and> \<not> (a = CHR ''-'' \<and> y = 0)
                 then Some (make_day (if a = CHR ''-'' then - y else y) (m - 1) 1) else None)
         | _ \<Rightarrow> None)
      else None)"
| "parse_day _ = None"

section \<open>The module's functions\<close>

definition SEOUL_OFFSET_MS :: int where "SEOUL_OFFSET_MS = 9 * 60 * 60 * 1000"

definition addMonthsInSeoul :: "time \<Rightarrow> int \<Rightarrow> time" where
  "addMonthsInSeoul date months =
     (let loc = date + SEOUL_OFFSET_MS;
          year = getUTCFullYear loc;
          month = getUTCMonth loc + months;
          lastDay = getUTCDate (Date_UTC year (month + 1) 0 0 0 0 0);
          shifted = Date_UTC year month (min (getUTCDate loc) lastDay)
                      (getUTCHours loc) (getUTCMinutes loc) (getUTCSeconds loc)
                      (getUTCMilliseconds loc)
      in shifted - SEOUL_OFFSET_MS)"

definition seoulDate :: "time \<Rightarrow> string" where
  "seoulDate date = iso_day (day_of (date + SEOUL_OFFSET_MS))"

definition seoulMinuteOfDay :: "time \<Rightarrow> int" where
  "seoulMinuteOfDay date =
     (let loc = date + SEOUL_OFFSET_MS in getUTCHours loc * 60 + getUTCMinutes loc)"

definition startOfSeoulDay :: "string \<Rightarrow> time option" where
  "startOfSeoulDay day = map_option (\<lambda>d. d * msPerDay - SEOUL_OFFSET_MS) (parse_day day)"

definition isSeoulMidnight :: "time \<Rightarrow> bool" where
  "isSeoulMidnight date \<longleftrightarrow> startOfSeoulDay (seoulDate date) = Some date"

text \<open>An invalid date makes \<open>toISOString\<close> throw; that is \<open>None\<close> here.\<close>

definition addSeoulDays :: "string \<Rightarrow> int \<Rightarrow> string option" where
  "addSeoulDays day days =
     map_option (\<lambda>t. seoulDate (t + days * 86400000)) (startOfSeoulDay day)"

section \<open>The calendar\<close>

lemma int_div_bounds:
  fixes a k :: int
  assumes "0 < k"
  shows "k * (a div k) \<le> a" and "a < k * (a div k) + k"
  using assms mult_div_mod_eq[of k a] pos_mod_bound[of k a] pos_mod_sign[of k a] by linarith+

lemma int_div_unique: "k * q \<le> a \<Longrightarrow> a < k * q + k \<Longrightarrow> a div k = q"
  for a k q :: int
proof -
  assume a: "k * q \<le> a" "a < k * q + k"
  then have "(a - k * q) div k = 0" by (intro div_pos_pos_trivial) auto
  moreover have "(a - k * q + k * q) div k = (a - k * q) div k + q"
    using a by (subst div_mult_self2) auto
  ultimately show ?thesis by simp
qed

lemma day_from_year_bounds:
  "1460970 * (y - 1970) - 6000 < 4000 * day_from_year y"
  "4000 * day_from_year y < 1460970 * (y - 1970) + 6000"
  using int_div_bounds[of 4 "y - 1969"] int_div_bounds[of 100 "y - 1901"]
    int_div_bounds[of 400 "y - 1601"]
  unfolding day_from_year_def by simp_all

lemma div_Suc_int:
  fixes n k :: int
  assumes k: "0 < k"
  shows "(n + 1) div k = n div k + (if k dvd n + 1 then 1 else 0)"
proof (cases "k dvd n + 1")
  case True
  then obtain q where q: "n + 1 = k * q" by (elim dvdE)
  have "n div k = q - 1"
    by (rule int_div_unique) (use q k in \<open>simp_all add: algebra_simps\<close>)
  with q k True show ?thesis by simp
next
  case False
  note b = int_div_bounds[OF k, of n]
  from False have "n + 1 \<noteq> k * (n div k + 1)" by (metis dvd_triv_left)
  with b have "n + 1 < k * (n div k) + k" by (simp add: algebra_simps)
  with b k have "(n + 1) div k = n div k" by (intro int_div_unique) auto
  with False show ?thesis by simp
qed

lemma leap_day_eq:
  "leap_day y = (if 4 dvd y - 1968 then 1 else 0) - (if 100 dvd y - 1900 then 1 else 0)
     + (if 400 dvd y - 1600 then 1 else 0)"
  using div_Suc_int[of 4 "y - 1969"] div_Suc_int[of 100 "y - 1901"] div_Suc_int[of 400 "y - 1601"]
  by (simp add: leap_day_def day_from_year_def algebra_simps)

lemma leap_day_cases: "leap_day y = 0 \<or> leap_day y = 1"
proof -
  have "400 dvd y - 1600 \<Longrightarrow> 100 dvd y - 1900"
    using dvd_diff[of 100 "y - 1600" 300] by (auto elim: dvd_trans[rotated])
  moreover have "100 dvd y - 1900 \<Longrightarrow> 4 dvd y - 1968"
    using dvd_diff[of 4 "y - 1900" 68] by (auto elim: dvd_trans[rotated])
  ultimately show ?thesis by (auto simp: leap_day_eq)
qed

lemma day_from_year_step: "day_from_year (y + 1) = day_from_year y + 365 + leap_day y"
  by (simp add: leap_day_def)

lemma day_from_year_less: "y < z \<Longrightarrow> day_from_year (y + 1) \<le> day_from_year z"
proof -
  assume "y < z"
  have "day_from_year (y + 1) \<le> day_from_year (y + 1 + int n)" for n
  proof (induction n)
    case (Suc n)
    then show ?case
      using day_from_year_step[of "y + 1 + int n"] leap_day_cases[of "y + 1 + int n"]
      by (auto simp: algebra_simps)
  qed simp
  from this[of "nat (z - y - 1)"] \<open>y < z\<close> show ?thesis by simp
qed

lemma year_of_day_bounds:
  "day_from_year (year_of_day d) \<le> d" "d < day_from_year (year_of_day d + 1)"
proof -
  define g where "g = 1970 + (d * 400) div 146097"
  have g: "146097 * (g - 1970) \<le> d * 400" "d * 400 < 146097 * (g - 1970) + 146097"
    using int_div_bounds[of 146097 "d * 400"] by (simp_all add: g_def)
  have lo: "day_from_year (g - 1) \<le> d"
    using day_from_year_bounds(2)[of "g - 1"] g by simp
  have hi: "d < day_from_year (g + 2)"
    using day_from_year_bounds(1)[of "g + 2"] g by simp
  have "day_from_year (year_of_day d) \<le> d \<and> d < day_from_year (year_of_day d + 1)"
    using lo hi unfolding year_of_day_def g_def[symmetric] Let_def by (simp add: algebra_simps)
  then show "day_from_year (year_of_day d) \<le> d" "d < day_from_year (year_of_day d + 1)" by auto
qed

lemma year_of_day_unique:
  assumes "day_from_year y \<le> d" and "d < day_from_year (y + 1)"
  shows "year_of_day d = y"
  using assms year_of_day_bounds[of d] day_from_year_less[of y "year_of_day d"]
    day_from_year_less[of "year_of_day d" y]
  by (cases y "year_of_day d" rule: linorder_cases) auto

lemma month_of_yday_bounds:
  assumes "0 \<le> n" and "n < 365 + l" and "l = 0 \<or> l = 1"
  shows "0 \<le> month_of_yday l n" "month_of_yday l n \<le> 11"
    "month_start l (month_of_yday l n) \<le> n" "n < month_start l (month_of_yday l n + 1)"
  using assms by (auto simp: month_of_yday_def month_start_def)

lemma month_of_yday_unique:
  assumes "l = 0 \<or> l = 1" and "0 \<le> m" and "m \<le> 11"
    and "month_start l m \<le> n" and "n < month_start l (m + 1)"
  shows "month_of_yday l n = m"
proof -
  have "m = 0 \<or> m = 1 \<or> m = 2 \<or> m = 3 \<or> m = 4 \<or> m = 5 \<or> m = 6 \<or> m = 7 \<or> m = 8 \<or> m = 9
      \<or> m = 10 \<or> m = 11"
    using assms(2,3) by presburger
  then show ?thesis using assms(1,4,5)
    by (elim disjE) (simp_all add: month_of_yday_def month_start_def)
qed

lemma civil_bounds:
  assumes "civil d = (y, m, dt)"
  shows "0 \<le> m" "m \<le> 11" "1 \<le> dt" "dt \<le> month_start (leap_day y) (m + 1) - month_start (leap_day y) m"
    "d = day_from_year y + month_start (leap_day y) m + dt - 1"
proof -
  define n where "n = d - day_from_year (year_of_day d)"
  have n: "0 \<le> n" "n < 365 + leap_day (year_of_day d)"
    using year_of_day_bounds[of d] day_from_year_step[of "year_of_day d"] by (simp_all add: n_def)
  note b = month_of_yday_bounds[OF n leap_day_cases]
  show "0 \<le> m" "m \<le> 11" "1 \<le> dt" "dt \<le> month_start (leap_day y) (m + 1) - month_start (leap_day y) m"
    "d = day_from_year y + month_start (leap_day y) m + dt - 1"
    using assms b by (auto simp: civil_def Let_def n_def)
qed

lemma make_day_civil: "civil d = (y, m, dt) \<Longrightarrow> make_day y m dt = d"
  using civil_bounds[of d y m dt] by (simp add: make_day_def Let_def)

definition month_length :: "int \<Rightarrow> int \<Rightarrow> int" where
  "month_length y m = month_start (leap_day y) (m + 1) - month_start (leap_day y) m"

lemma month_cases:
  fixes m :: int
  assumes "0 \<le> m" and "m \<le> 11"
  shows "m = 0 \<or> m = 1 \<or> m = 2 \<or> m = 3 \<or> m = 4 \<or> m = 5 \<or> m = 6 \<or> m = 7 \<or> m = 8 \<or> m = 9
      \<or> m = 10 \<or> m = 11"
  using assms by presburger

lemma month_length_bounds:
  assumes "0 \<le> m" and "m \<le> 11"
  shows "28 \<le> month_length y m \<and> month_length y m \<le> 31"
  using month_cases[OF assms] leap_day_cases[of y]
  by (elim disjE; simp add: month_length_def month_start_def)

lemma month_start_bounds:
  assumes "0 \<le> m" "m \<le> 11" "1 \<le> dt" "dt \<le> month_length y m"
  shows "0 \<le> month_start (leap_day y) m + dt - 1"
    "month_start (leap_day y) m + dt - 1 < 365 + leap_day y"
  using month_cases[OF assms(1,2)] assms(3,4) leap_day_cases[of y]
  by (elim disjE; simp add: month_length_def month_start_def)+

lemma civil_make_day:
  assumes "0 \<le> m" "m \<le> 11" "1 \<le> dt" "dt \<le> month_length y m"
  shows "civil (make_day y m dt) = (y, m, dt)"
proof -
  have d: "make_day y m dt = day_from_year y + (month_start (leap_day y) m + dt - 1)"
    using assms(1,2) by (simp add: make_day_def)
  have y: "year_of_day (make_day y m dt) = y"
    by (rule year_of_day_unique)
       (use d month_start_bounds[OF assms] day_from_year_step[of y] in simp_all)
  have "month_of_yday (leap_day y) (month_start (leap_day y) m + dt - 1) = m"
    by (rule month_of_yday_unique[OF leap_day_cases assms(1,2)])
       (use assms(3,4) in \<open>auto simp: month_length_def\<close>)
  with d y show ?thesis by (simp add: civil_def Let_def)
qed

section \<open>The digits\<close>

lemma digit_cases:
  fixes n :: int
  assumes "0 \<le> n" and "n \<le> 9"
  shows "n = 0 \<or> n = 1 \<or> n = 2 \<or> n = 3 \<or> n = 4 \<or> n = 5 \<or> n = 6 \<or> n = 7 \<or> n = 8 \<or> n = 9"
  using assms by presburger

lemma undig_dig: "0 \<le> n \<Longrightarrow> n \<le> 9 \<Longrightarrow> undig (dig n) = Some n"
  by (simp add: undig_def dig_def Let_def take_bit_eq_mod)

lemma num2_pad2:
  assumes "0 \<le> n" and "n \<le> 99"
  shows "num2 (dig (n div 10)) (dig (n mod 10)) = Some n"
proof -
  have "0 \<le> n div 10" "n div 10 \<le> 9" "0 \<le> n mod 10" "n mod 10 \<le> 9" using assms by linarith+
  then show ?thesis by (simp add: num2_def undig_dig)
qed

lemma four_digits:
  fixes x :: int
  shows "x = 10 * a + r0 \<Longrightarrow> a = 10 * b + r1 \<Longrightarrow> b = 10 * c + r2
    \<Longrightarrow> 100 * (10 * c + r2) + (10 * r1 + r0) = x"
  by simp

lemma num4_pad4:
  assumes "0 \<le> n" and "n \<le> 9999"
  shows "num4 (dig (n div 1000)) (dig (n div 100 mod 10)) (dig (n div 10 mod 10)) (dig (n mod 10)) = Some n"
proof -
  have b: "0 \<le> n div 1000" "n div 1000 \<le> 9" using assms by linarith+
  have e: "n div 100 = n div 10 div 10" "n div 1000 = n div 100 div 10"
    by (simp_all add: zdiv_zmult2_eq[symmetric])
  have "100 * (10 * (n div 1000) + n div 100 mod 10) + (10 * (n div 10 mod 10) + n mod 10) = n"
    by (rule four_digits[of _ "n div 10" _ "n div 100"])
      (simp_all only: e mult_div_mod_eq)
  moreover have "undig (dig (n div 1000)) = Some (n div 1000)" using b by (rule undig_dig)
  moreover have "undig (dig (i mod 10)) = Some (i mod 10)" for i by (rule undig_dig) simp_all
  ultimately show ?thesis by (simp only: num4_def num2_def option.map bind.bind_lunit)
qed

lemma parse_day_iso_day:
  assumes y: "0 \<le> fst (civil d)" "fst (civil d) \<le> 9999"
  shows "parse_day (iso_day d) = Some d"
proof -
  obtain y m dt where c: "civil d = (y, m, dt)" by (cases "civil d")
  note b = civil_bounds[OF c] month_length_bounds[of m y, unfolded month_length_def]
  have m: "0 \<le> m + 1" "m + 1 \<le> 99" and dt: "0 \<le> dt" "dt \<le> 99" "dt \<le> 31" using b by auto
  have y': "0 \<le> y" "y \<le> 9999" using y c by auto
  have "iso_day d = pad4 y @ ''-'' @ pad2 (m + 1) @ ''-'' @ pad2 dt"
    using y' by (simp add: iso_day_def c)
  then show ?thesis
    using num4_pad4[OF y'] num2_pad2[OF m] num2_pad2[OF dt(1,2)] b dt make_day_civil[OF c]
    by (simp add: pad4_def pad2_def)
qed

section \<open>Days, instants and wall clocks in Seoul\<close>

lemma day_of_start: "day_of (d * msPerDay) = d" "time_in_day (d * msPerDay) = 0"
  by (simp_all add: day_of_def time_in_day_def msPerDay_def)

lemma day_of_shift: "0 \<le> r \<Longrightarrow> r < msPerDay \<Longrightarrow> day_of (d * msPerDay + r) = d"
  by (simp add: day_of_def msPerDay_def)

lemma time_in_day_shift: "0 \<le> r \<Longrightarrow> r < msPerDay \<Longrightarrow> time_in_day (d * msPerDay + r) = r"
  by (simp add: time_in_day_def msPerDay_def)

lemma day_time_split: "day_of t * msPerDay + time_in_day t = t"
  by (simp add: day_of_def time_in_day_def)

lemma time_in_day_bounds: "0 \<le> time_in_day t" "time_in_day t < msPerDay"
  by (simp_all add: time_in_day_def msPerDay_def)

lemma time_of_fields:
  "getUTCHours t * 3600000 + getUTCMinutes t * 60000 + getUTCSeconds t * 1000
     + getUTCMilliseconds t = time_in_day t"
proof -
  define r where "r = time_in_day t"
  have "r div 3600000 = r div 60000 div 60" "r div 60000 = r div 1000 div 60"
    by (simp_all add: zdiv_zmult2_eq[symmetric])
  then show ?thesis
    unfolding getUTCHours_def getUTCMinutes_def getUTCSeconds_def getUTCMilliseconds_def r_def[symmetric]
    using mult_div_mod_eq[of 60 "r div 60000"] mult_div_mod_eq[of 60 "r div 1000"]
      mult_div_mod_eq[of 1000 r] by linarith
qed

text \<open>The Seoul calendar date and time of day of an instant.\<close>

definition seoul_civil :: "time \<Rightarrow> int \<times> int \<times> int" where
  "seoul_civil t = civil (day_of (t + SEOUL_OFFSET_MS))"

definition seoul_clock :: "time \<Rightarrow> int" where
  "seoul_clock t = time_in_day (t + SEOUL_OFFSET_MS)"

lemma startOfSeoulDay_seoulDate_eq:
  assumes "0 \<le> fst (seoul_civil t)" "fst (seoul_civil t) \<le> 9999"
  shows "startOfSeoulDay (seoulDate t) = Some (t - seoul_clock t)"
  using parse_day_iso_day[OF assms[unfolded seoul_civil_def]] day_time_split[of "t + SEOUL_OFFSET_MS"]
  by (simp add: startOfSeoulDay_def seoulDate_def seoul_clock_def)

lemma Date_UTC_normal:
  assumes "\<not> (0 \<le> y \<and> y \<le> 99)" and "y * 12 + m = y' * 12 + m'" and "0 \<le> m'" "m' \<le> 11"
  shows "Date_UTC y m dt h mi s ms
       = make_day y' m' dt * msPerDay + (h * 3600000 + mi * 60000 + s * 1000 + ms)"
proof -
  have "m = (y' - y) * 12 + m'" using assms(2) by simp
  then have d: "m div 12 = y' - y" using assms(3,4) by (intro int_div_unique) auto
  with assms(2) have "m mod 12 = m'" using mult_div_mod_eq[of 12 m] by linarith
  with d assms(1,3,4) show ?thesis
    by (simp only: Date_UTC_def make_day_def Let_def if_False add_diff_cancel_left' div_pos_pos_trivial
        mod_pos_pos_trivial) simp
qed

lemma last_day_of_month:
  assumes "\<not> (0 \<le> y \<and> y \<le> 99)" and "y * 12 + m = y' * 12 + m'" and "0 \<le> m'" "m' \<le> 11"
  shows "getUTCDate (Date_UTC y (m + 1) 0 0 0 0 0) = month_length y' m'"
proof -
  define n where "n = month_length y' m'"
  have n: "28 \<le> n" "n \<le> 31" using month_length_bounds[OF assms(3,4)] by (auto simp: n_def)
  have eq: "make_day y' (m' + 1) 0 = make_day y' m' n"
  proof (cases "m' = 11")
    case True
    then show ?thesis
      using day_from_year_step[of y']
      by (simp add: make_day_def n_def month_length_def month_start_def)
  next
    case False
    then show ?thesis using assms(3,4) by (simp add: make_day_def n_def month_length_def)
  qed
  have "Date_UTC y (m + 1) 0 0 0 0 0 = make_day y' (m' + 1) 0 * msPerDay"
  proof (cases "m' = 11")
    case True
    then have "y * 12 + (m + 1) = (y' + 1) * 12 + 0" using assms(2) by simp
    from Date_UTC_normal[OF assms(1) this] True show ?thesis by (simp add: make_day_def)
  next
    case False
    then show ?thesis using assms Date_UTC_normal[of y "m + 1" y' "m' + 1" 0 0 0 0 0] by simp
  qed
  then show ?thesis
    using eq civil_make_day[OF assms(3,4), of n y'] n
    by (simp add: getUTCDate_def day_of_start n_def)
qed

text \<open>
  adding months keeps the Seoul wall clock and moves the Seoul calendar by whole months; a
  day of the month the target month does not have becomes its last day. Years 0 to 99 are
  excluded because \<open>Date.UTC\<close> reads them as 1900 to 1999.
\<close>

theorem addMonthsInSeoul_calendar:
  assumes c: "seoul_civil t = (y, m, d)" and y: "\<not> (0 \<le> y \<and> y \<le> 99)"
    and target: "y * 12 + m + n = y' * 12 + m'" "0 \<le> m'" "m' \<le> 11"
  shows "seoul_civil (addMonthsInSeoul t n) = (y', m', min d (month_length y' m'))
       \<and> seoul_clock (addMonthsInSeoul t n) = seoul_clock t"
proof -
  define loc where "loc = t + SEOUL_OFFSET_MS"
  define dt where "dt = min d (month_length y' m')"
  have f: "getUTCFullYear loc = y" "getUTCMonth loc = m" "getUTCDate loc = d"
    using c by (simp_all add: seoul_civil_def loc_def getUTCFullYear_def getUTCMonth_def getUTCDate_def)
  have eq: "y * 12 + (m + n) = y' * 12 + m'" using target by simp
  have "1 \<le> d" using civil_bounds(3) c by (simp add: seoul_civil_def)
  with month_length_bounds[OF target(2,3), of y'] have dt: "1 \<le> dt" "dt \<le> month_length y' m'"
    by (auto simp: dt_def)
  have "addMonthsInSeoul t n + SEOUL_OFFSET_MS = make_day y' m' dt * msPerDay + time_in_day loc"
    using last_day_of_month[OF y eq target(2,3)] Date_UTC_normal[OF y eq target(2,3)]
      time_of_fields[of loc]
    by (simp add: addMonthsInSeoul_def Let_def loc_def[symmetric] f dt_def)
  then show ?thesis
    using civil_make_day[OF target(2,3) dt] time_in_day_bounds[of loc]
    by (simp add: seoul_civil_def seoul_clock_def day_of_shift time_in_day_shift dt_def loc_def)
qed

theorem addMonthsInSeoul_calendar_witness:
  "seoul_civil (addMonthsInSeoul 1769821200000 1) = (2026, 1, min 31 (month_length 2026 1))
   \<and> seoul_clock (addMonthsInSeoul 1769821200000 1) = seoul_clock 1769821200000"
  by (rule addMonthsInSeoul_calendar[of _ 2026 0]) (simp_all, code_simp)

text \<open>
  the Seoul date of an instant, read back as the start of that day, is the instant less its
  time of day; so the date of the start of a day is that day again, and an instant is Seoul
  midnight exactly when its wall clock reads 00:00:00.000.
\<close>

theorem startOfSeoulDay_seoulDate:
  assumes "0 \<le> fst (seoul_civil t)" "fst (seoul_civil t) \<le> 9999"
  shows "startOfSeoulDay (seoulDate t) = Some (t - seoul_clock t)
       \<and> seoulDate (t - seoul_clock t) = seoulDate t
       \<and> (isSeoulMidnight t \<longleftrightarrow> seoul_clock t = 0)"
proof -
  have "t - seoul_clock t + SEOUL_OFFSET_MS = day_of (t + SEOUL_OFFSET_MS) * msPerDay"
    using day_time_split[of "t + SEOUL_OFFSET_MS"] by (simp add: seoul_clock_def)
  then have "seoulDate (t - seoul_clock t) = seoulDate t"
    by (simp add: seoulDate_def day_of_start)
  with startOfSeoulDay_seoulDate_eq[OF assms] show ?thesis by (auto simp: isSeoulMidnight_def)
qed

theorem startOfSeoulDay_seoulDate_witness:
  "startOfSeoulDay (seoulDate 1769821200000) = Some (1769821200000 - seoul_clock 1769821200000)
   \<and> seoulDate (1769821200000 - seoul_clock 1769821200000) = seoulDate 1769821200000
   \<and> (isSeoulMidnight 1769821200000 \<longleftrightarrow> seoul_clock 1769821200000 = 0)"
  by (rule startOfSeoulDay_seoulDate) code_simp+

lemma seoul_clock_shift: "seoul_clock (t + k * 86400000) = seoul_clock t"
proof -
  have "(t + k * 86400000 + SEOUL_OFFSET_MS) mod 86400000 = (t + SEOUL_OFFSET_MS + k * 86400000) mod 86400000"
    by (simp only: ac_simps)
  then show ?thesis by (simp add: seoul_clock_def time_in_day_def msPerDay_def)
qed

lemma seoul_clock_start: "startOfSeoulDay s = Some t \<Longrightarrow> seoul_clock t = 0"
  by (auto simp: startOfSeoulDay_def seoul_clock_def time_in_day_def)

text \<open>Adding days one count after the other adds the sum of the counts.\<close>

lemma addSeoulDays_add:
  assumes s: "startOfSeoulDay s = Some t" and "0 \<le> fst (seoul_civil (t + i * 86400000))"
    "fst (seoul_civil (t + i * 86400000)) \<le> 9999"
  shows "Option.bind (addSeoulDays s i) (\<lambda>s'. addSeoulDays s' j) = addSeoulDays s (i + j)"
  using startOfSeoulDay_seoulDate_eq[OF assms(2,3)] seoul_clock_start[OF s]
  by (simp add: addSeoulDays_def s seoul_clock_shift algebra_simps)

lemma seoulMinuteOfDay_bounds: "0 \<le> seoulMinuteOfDay t" "seoulMinuteOfDay t < 1440"
proof -
  define r where "r = time_in_day (t + SEOUL_OFFSET_MS)"
  have r: "0 \<le> r" "r < 86400000" using time_in_day_bounds by (simp_all add: r_def msPerDay_def)
  have "r div 3600000 \<le> 23" "0 \<le> r div 3600000" using r by linarith+
  then show "0 \<le> seoulMinuteOfDay t" "seoulMinuteOfDay t < 1440"
    unfolding seoulMinuteOfDay_def getUTCHours_def getUTCMinutes_def Let_def r_def[symmetric]
    by (smt (verit) pos_mod_bound pos_mod_sign)+
qed

lemma seoulMinuteOfDay_clock: "seoulMinuteOfDay t = seoul_clock t div 60000"
proof -
  define r where "r = time_in_day (t + SEOUL_OFFSET_MS)"
  have "r div 3600000 = r div 60000 div 60" by (simp add: zdiv_zmult2_eq[symmetric])
  then show ?thesis
    unfolding seoulMinuteOfDay_def seoul_clock_def getUTCHours_def getUTCMinutes_def Let_def r_def[symmetric]
    using mult_div_mod_eq[of 60 "r div 60000"] by simp
qed

end
