(* ===== verification/Submission_Rules.thy ===== *)
theory Submission_Rules
  imports Auth Seoul_Time
begin

text \<open>
  The policy constants of \<open>src/src/policy/signage-policy.ts\<close> and the pure rules of
  \<open>src/src/submissions/submission-rules.ts\<close>. The WHATWG URL parser is a parameter: it gives the
  components of an address, or nothing for a text that is none.
\<close>

section \<open>Policy\<close>

definition maxUploadBytes :: int where "maxUploadBytes = 10 * 1024 * 1024"
definition maxVideoUploadBytes :: int where "maxVideoUploadBytes = 100 * 1024 * 1024"
definition titleMaxLength :: nat where "titleMaxLength = 80"
definition maxPublishMonths :: int where "maxPublishMonths = 3"
definition eventBannerMaxDays :: int where "eventBannerMaxDays = 3"
definition storyDisplayDays :: int where "storyDisplayDays = 2"

definition allowedDetailUrlHosts :: "string list" where
  "allowedDetailUrlHosts = [''ziggle.gistory.me'']"

definition IMAGE_MIME_TYPES :: "string list" where
  "IMAGE_MIME_TYPES = [''image/jpeg'', ''image/png'', ''image/webp'']"

definition VIDEO_MIME_TYPES :: "string list" where
  "VIDEO_MIME_TYPES = [''video/mp4'', ''video/quicktime'', ''video/webm'']"

definition ASSET_MIME_TYPES :: "string list" where
  "ASSET_MIME_TYPES = IMAGE_MIME_TYPES @ VIDEO_MIME_TYPES"

definition mediaKindOf :: "string \<Rightarrow> asset_kind" where
  "mediaKindOf mimeType = (if mimeType \<in> set VIDEO_MIME_TYPES then VIDEO else IMAGE)"

definition allowedMimeTypes :: "bool \<Rightarrow> string list" where
  "allowedMimeTypes videoUploadsEnabled =
     (if videoUploadsEnabled then ASSET_MIME_TYPES else IMAGE_MIME_TYPES)"

definition acceptedFormatsMessage :: "bool \<Rightarrow> msg" where
  "acceptedFormatsMessage videoUploadsEnabled =
     (if videoUploadsEnabled
      then Msg ''Only JPEG, PNG, WebP images or MP4, MOV, WebM videos can be uploaded.''
      else Msg ''Only JPEG, PNG, WebP files can be uploaded.'')"

definition maxUploadBytesOf :: "asset_kind \<Rightarrow> int" where
  "maxUploadBytesOf k = (case k of VIDEO \<Rightarrow> maxVideoUploadBytes | IMAGE \<Rightarrow> maxUploadBytes)"

section \<open>The detail link\<close>

record url =
  url_protocol :: string
  url_username :: string
  url_password :: string
  url_port :: string
  url_hostname :: string
  url_pathname :: string
  url_href :: string

record parsed_detail_url =
  pdu_url :: string
  pdu_ziggleNoticeId :: "string option"

definition ZIGGLE_HOST :: string where "ZIGGLE_HOST = ''ziggle.gistory.me''"

definition notice_char :: "char \<Rightarrow> bool" where
  "notice_char c \<longleftrightarrow> (let n = of_char c :: nat in
     (48 \<le> n \<and> n \<le> 57) \<or> (65 \<le> n \<and> n \<le> 90) \<or> (97 \<le> n \<and> n \<le> 122)
     \<or> c = CHR ''_'' \<or> c = CHR ''-'')"

text \<open>The regular expression \<open>^/notice/([A-Za-z0-9_-]{1,64})/?$\<close> and its group.\<close>

definition ziggle_notice_path :: "string \<Rightarrow> string option" where
  "ziggle_notice_path path =
     (if take 8 path \<noteq> ''/notice/'' then None
      else let rest = drop 8 path;
               nid = (if rest \<noteq> [] \<and> last rest = CHR ''/'' then butlast rest else rest)
           in if 1 \<le> length nid \<and> length nid \<le> 64 \<and> list_all notice_char nid then Some nid else None)"

definition parseDetailUrl :: "(utext \<Rightarrow> url option) \<Rightarrow> utext \<Rightarrow> msg + parsed_detail_url" where
  "parseDetailUrl parseURL raw = (case parseURL raw of
      None \<Rightarrow> Inl (Msg ''This is not a valid address.'')
    | Some u \<Rightarrow>
        if url_protocol u \<noteq> ''https:'' then Inl (Msg ''Only addresses with https:// can be used.'')
        else if url_username u \<noteq> [] \<or> url_password u \<noteq> [] \<or> url_port u \<noteq> []
            \<or> url_hostname u \<notin> set allowedDetailUrlHosts
        then Inl (Msg ''Only addresses of ziggle.gistory.me can be used.'')
        else Inr \<lparr>pdu_url = url_href u,
                  pdu_ziggleNoticeId =
                    (if url_hostname u = ZIGGLE_HOST then ziggle_notice_path (url_pathname u)
                     else None)\<rparr>)"

section \<open>Period and status rules\<close>

definition validatePeriod :: "time \<Rightarrow> time \<Rightarrow> time \<Rightarrow> field_errors" where
  "validatePeriod startAt endAt t =
     (if endAt \<le> startAt then [(''endAt'', Msg ''The end must be after the start.'')]
      else if endAt \<le> t then [(''endAt'', Msg ''The end has already passed.'')]
      else [])"

definition EDITABLE_STATUSES :: "submission_status list" where
  "EDITABLE_STATUSES = [DRAFT, PENDING_REVIEW, REJECTED, APPROVED, SCHEDULED, SUSPENDED]"

definition REAPPROVAL_STATUSES :: "submission_status list" where
  "REAPPROVAL_STATUSES = [APPROVED, SCHEDULED]"

definition RETURNED_STATUSES :: "submission_status list" where
  "RETURNED_STATUSES = [REJECTED, SUSPENDED]"

definition SUBMITTABLE_STATUSES :: "submission_status list" where
  "SUBMITTABLE_STATUSES = [DRAFT, REJECTED, SUSPENDED]"

definition canCancel :: "submission_status \<Rightarrow> time option \<Rightarrow> time \<Rightarrow> bool" where
  "canCancel status startAt t =
     (if status = DRAFT \<or> status = PENDING_REVIEW \<or> status = REJECTED then True
      else (status = APPROVED \<or> status = SCHEDULED)
           \<and> (case startAt of None \<Rightarrow> False | Some a \<Rightarrow> t < a))"

definition hasStartedPublishing :: "submission_status \<Rightarrow> time option \<Rightarrow> time \<Rightarrow> bool" where
  "hasStartedPublishing status startAt t \<longleftrightarrow>
     status = PUBLISHED
     \<or> ((status = APPROVED \<or> status = SCHEDULED)
        \<and> (case startAt of None \<Rightarrow> False | Some a \<Rightarrow> a \<le> t))"

lemmas status_lists = EDITABLE_STATUSES_def REAPPROVAL_STATUSES_def RETURNED_STATUSES_def
  SUBMITTABLE_STATUSES_def

lemma validatePeriod_Nil [simp]:
  "validatePeriod a b t = [] \<longleftrightarrow> a < b \<and> t < b"
  by (auto simp: validatePeriod_def)

lemma canCancel_not_started: "canCancel st a t \<Longrightarrow> \<not> hasStartedPublishing st a t"
  by (auto simp: canCancel_def hasStartedPublishing_def split: option.splits if_splits)

lemma parseDetailUrl_Inr [res_simps]:
  "parseDetailUrl parseURL raw = Inr p \<longleftrightarrow>
     (\<exists>u. parseURL raw = Some u \<and> url_protocol u = ''https:'' \<and> url_username u = []
        \<and> url_password u = [] \<and> url_port u = [] \<and> url_hostname u = ''ziggle.gistory.me''
        \<and> p = \<lparr>pdu_url = url_href u, pdu_ziggleNoticeId = ziggle_notice_path (url_pathname u)\<rparr>)"
  by (auto simp: parseDetailUrl_def allowedDetailUrlHosts_def ZIGGLE_HOST_def split: option.splits)

end
