(* ===== verification/Kinds.thy ===== *)
theory Kinds
  imports Submission_Rules
begin

text \<open>
  The three kinds of submission, \<open>src/src/submissions/kinds\<close>: what each takes as input, how its
  content is validated and stored, how its period is set, and how it is shown. A kind is a record
  of functions, as the TypeScript interface is; the locale \<open>submission_kind_laws\<close> states what the
  submission service relies on and is interpreted for each kind.

  A value a JSON body may leave out, set to null or give is a \<open>nullish\<close>. The public URL of a file
  (\<open>pub\<close>) and the hash of a JSON text (\<open>sha\<close>) come from the storage and from Node's crypto.
  \<open>prev!\<close> on a creation without a required field would throw; the input DTO rules that out
  (\<open>poster_input_complete\<close>), and the model gives an empty value there. A detail row that is missing
  would make a response throw; \<open>details_complete\<close> rules that out.
\<close>

section \<open>Inputs, columns and details\<close>

datatype 'a nullish = Undefined | Null | Given 'a

record event_banner_input =
  bi_mode :: event_banner_mode
  bi_occasion :: "event_banner_occasion option"
  bi_recipient :: utext
  bi_headline :: "utext option"
  bi_message :: "utext option"
  bi_sender :: "utext option"
  bi_photoAssetId :: "uuid option"
  bi_photoConsent :: bool
  bi_assetId :: "uuid option"

record story_input =
  si_tag :: story_tag
  si_body :: utext

record kind_input =
  ki_title :: "utext option"
  ki_categoryId :: "slug option"
  ki_assetId :: "uuid option"
  ki_detailUrl :: "utext nullish"
  ki_organizerName :: "utext nullish"
  ki_subtitle :: "utext nullish"
  ki_location :: "utext nullish"
  ki_description :: "utext nullish"
  ki_eventBanner :: "event_banner_input option"
  ki_story :: "story_input option"

definition empty_input :: kind_input where
  "empty_input = \<lparr>ki_title = None, ki_categoryId = None, ki_assetId = None,
     ki_detailUrl = Undefined, ki_organizerName = Undefined, ki_subtitle = Undefined,
     ki_location = Undefined, ki_description = Undefined, ki_eventBanner = None, ki_story = None\<rparr>"

text \<open>The input fields in the order of \<open>KIND_INPUT_FIELDS\<close>, and which of them a body gives.\<close>

definition KIND_INPUT_FIELDS :: "string list" where
  "KIND_INPUT_FIELDS = [''title'', ''categoryId'', ''assetId'', ''detailUrl'', ''organizerName'',
     ''subtitle'', ''location'', ''description'', ''eventBanner'', ''story'']"

definition given :: "'a nullish \<Rightarrow> bool" where
  "given x = (case x of Given _ \<Rightarrow> True | _ \<Rightarrow> False)"

definition given_fields :: "kind_input \<Rightarrow> string list" where
  "given_fields i =
     map fst (filter snd [(''title'', ki_title i \<noteq> None), (''categoryId'', ki_categoryId i \<noteq> None),
       (''assetId'', ki_assetId i \<noteq> None), (''detailUrl'', given (ki_detailUrl i)),
       (''organizerName'', given (ki_organizerName i)), (''subtitle'', given (ki_subtitle i)),
       (''location'', given (ki_location i)), (''description'', given (ki_description i)),
       (''eventBanner'', ki_eventBanner i \<noteq> None), (''story'', ki_story i \<noteq> None)])"

record kind_columns =
  k_title :: utext
  k_categoryId :: "slug option"
  k_assetId :: "uuid option"
  k_detailUrl :: "string option"
  k_ziggleNoticeId :: "string option"
  k_organizerName :: "utext option"
  k_subtitle :: "utext option"
  k_location :: "utext option"
  k_description :: "utext option"

definition EMPTY_KIND_COLUMNS :: kind_columns where
  "EMPTY_KIND_COLUMNS = \<lparr>k_title = [], k_categoryId = None, k_assetId = None, k_detailUrl = None,
     k_ziggleNoticeId = None, k_organizerName = None, k_subtitle = None, k_location = None,
     k_description = None\<rparr>"

record banner_detail =
  bd_mode :: event_banner_mode
  bd_occasion :: "event_banner_occasion option"
  bd_recipient :: utext
  bd_headline :: "utext option"
  bd_message :: "utext option"
  bd_sender :: "utext option"
  bd_photoConsent :: bool

record story_detail =
  sd_tag :: story_tag
  sd_body :: utext
  sd_storyNumber :: "int option"

datatype detail = NoDetail | Banner banner_detail | Story story_detail

record kind_context =
  findOwnedAsset :: "uuid \<Rightarrow> asset option"
  isActiveCategory :: "slug \<Rightarrow> bool"
  parseURL :: "utext \<Rightarrow> url option"

record resolved_content =
  rc_errors :: field_errors
  rc_columns :: kind_columns
  rc_detail :: detail

definition patched :: "'a nullish \<Rightarrow> 'a option \<Rightarrow> 'a option" where
  "patched v current = (case v of Undefined \<Rightarrow> current | Null \<Rightarrow> None | Given x \<Rightarrow> Some x)"

lemma patched_Undefined [simp]: "patched Undefined c = c"
  by (simp add: patched_def)

section \<open>Responses\<close>

record banner_response =
  br_detail :: banner_detail
  br_photoAssetId :: "uuid option"
  br_photoUrl :: "string option"
  br_assetId :: "uuid option"
  br_assetUrl :: "string option"

record kind_response =
  kr_categoryId :: "slug option"
  kr_categoryName :: "utext option"
  kr_assetId :: "uuid option"
  kr_posterUrl :: "string option"
  kr_posterThumbUrl :: "string option"
  kr_posterKind :: "asset_kind option"
  kr_posterWidth :: "int option"
  kr_posterHeight :: "int option"
  kr_posterDurationMs :: "int option"
  kr_posterVideoUrl :: "string option"
  kr_detailUrl :: "string option"
  kr_ziggleNoticeId :: "string option"
  kr_organizerName :: "utext option"
  kr_subtitle :: "utext option"
  kr_location :: "utext option"
  kr_description :: "utext option"
  kr_eventBanner :: "banner_response option"
  kr_story :: "story_detail option"

definition EMPTY_KIND_RESPONSE :: kind_response where
  "EMPTY_KIND_RESPONSE = \<lparr>kr_categoryId = None, kr_categoryName = None, kr_assetId = None,
     kr_posterUrl = None, kr_posterThumbUrl = None, kr_posterKind = None, kr_posterWidth = None,
     kr_posterHeight = None, kr_posterDurationMs = None, kr_posterVideoUrl = None,
     kr_detailUrl = None, kr_ziggleNoticeId = None, kr_organizerName = None, kr_subtitle = None,
     kr_location = None, kr_description = None, kr_eventBanner = None, kr_story = None\<rparr>"

text \<open>A submission joined with its category, requester, asset and last review.\<close>

record submission_row =
  sr :: submission
  sr_categoryName :: "utext option"
  sr_requesterName :: utext
  sr_assetKind :: "asset_kind option"
  sr_assetWidth :: "int option"
  sr_assetHeight :: "int option"
  sr_assetDurationMs :: "int option"
  sr_lastDecision :: "review_decision option"

definition variantUrl :: "(storage_key \<Rightarrow> string) \<Rightarrow> uuid \<Rightarrow> variant_name \<Rightarrow> string" where
  "variantUrl pub assetId v = pub (VariantKey assetId v)"

definition videoUrl :: "(storage_key \<Rightarrow> string) \<Rightarrow> uuid \<Rightarrow> asset_kind \<Rightarrow> string option" where
  "videoUrl pub assetId k = (case k of VIDEO \<Rightarrow> Some (pub (VideoKey assetId)) | IMAGE \<Rightarrow> None)"

section \<open>Playlist items\<close>

text \<open>
  \<open>PlaylistRow\<close>: a submission row of the playlist, its category's name and its main medium. The
  playlist query keeps published rows only, which have a period.
\<close>

record playlist_row =
  pr_sub :: submission
  pr_startAt :: time
  pr_endAt :: time
  pr_categoryName :: "utext option"
  pr_asset :: "asset option"

record poster_item =
  pi_submissionId :: uuid
  pi_revision :: int
  pi_title :: utext
  pi_category :: "utext option"
  pi_kind :: "asset_kind option"
  pi_width :: "int option"
  pi_height :: "int option"
  pi_durationMs :: "int option"
  pi_assetUrl :: "string option"
  pi_video :: "(string \<times> bool option) option"
  pi_detailUrl :: "string option"
  pi_startsAt :: time
  pi_endsAt :: time
  pi_priority :: int
  pi_checksum :: "string option"
  pi_subtitle :: "utext option"
  pi_location :: "utext option"
  pi_organizerName :: "utext option"

record playlist_entry =
  pen_submissionId :: uuid
  pen_revision :: int
  pen_startsAt :: time
  pen_endsAt :: time
  pen_checksum :: string

datatype playlist_item =
    PosterItem poster_item
  | BannerItem playlist_entry banner_detail "string option" "string option" "int option" "int option"
  | StoryItem playlist_entry story_detail

definition playlistEntry :: "playlist_row \<Rightarrow> string \<Rightarrow> playlist_entry" where
  "playlistEntry row checksum =
     \<lparr>pen_submissionId = s_id (pr_sub row), pen_revision = s_version (pr_sub row),
      pen_startsAt = pr_startAt row, pen_endsAt = pr_endAt row, pen_checksum = checksum\<rparr>"

definition contentChecksum :: "(json \<Rightarrow> string) \<Rightarrow> json \<Rightarrow> string" where
  "contentChecksum sha content = ''sha256:'' @ sha content"

definition posterPlaylistItem :: "(storage_key \<Rightarrow> string) \<Rightarrow> playlist_row \<Rightarrow> poster_item" where
  "posterPlaylistItem pub row =
     (let s = pr_sub row; a = pr_asset row
      in \<lparr>pi_submissionId = s_id s, pi_revision = s_version s, pi_title = s_title s,
          pi_category = pr_categoryName row, pi_kind = map_option a_kind a,
          pi_width = Option.bind a a_width, pi_height = Option.bind a a_height,
          pi_durationMs = Option.bind a a_durationMs,
          pi_assetUrl = map_option (\<lambda>x. variantUrl pub (a_id x) TV) a,
          pi_video = Option.bind a (\<lambda>x. map_option (\<lambda>u. (u, a_hasAudio x))
                                         (videoUrl pub (a_id x) (a_kind x))),
          pi_detailUrl = s_detailUrl s, pi_startsAt = pr_startAt row, pi_endsAt = pr_endAt row,
          pi_priority = s_priority s, pi_checksum = Option.bind a a_checksum,
          pi_subtitle = s_subtitle s, pi_location = s_location s,
          pi_organizerName = s_organizerName s\<rparr>)"

section \<open>The kind interface\<close>

datatype kind_schedule =
    REQUESTED "time \<Rightarrow> time \<Rightarrow> time \<Rightarrow> field_errors"
  | ON_APPROVAL "time \<Rightarrow> time \<times> time"

record detail_store =
  ds_load :: "database \<Rightarrow> uuid \<Rightarrow> detail option"
  ds_save :: "uuid \<Rightarrow> detail \<Rightarrow> database \<Rightarrow> database"
  ds_equals :: "detail \<Rightarrow> detail \<Rightarrow> bool"

record submission_kind =
  sk_type :: submission_type
  sk_inputFields :: "string list"
  sk_schedule :: kind_schedule
  sk_targetable :: bool
  sk_dailyLimit :: "nat option"
  sk_resubmittable :: bool
  sk_anonymous :: bool
  sk_resolve :: "kind_input \<Rightarrow> (kind_columns \<times> detail) option \<Rightarrow> kind_context \<Rightarrow> resolved_content"
  sk_details :: "detail_store option"
  sk_onApprove :: "(uuid \<Rightarrow> database \<Rightarrow> database) option"
  sk_toResponse :: "submission_row \<Rightarrow> detail \<Rightarrow> (storage_key \<Rightarrow> string) \<Rightarrow> kind_response"
  sk_toPlaylistItem :: "playlist_row \<Rightarrow> detail \<Rightarrow> (storage_key \<Rightarrow> string) \<Rightarrow> (json \<Rightarrow> string) \<Rightarrow> playlist_item"

section \<open>Media\<close>

datatype media_problem = MISSING | UPLOADING | MEDIA_PROCESSING | MEDIA_VIDEO

definition checkMediaAsset :: "kind_context \<Rightarrow> uuid \<Rightarrow> bool \<Rightarrow> media_problem option" where
  "checkMediaAsset c assetId allowVideo = (case findOwnedAsset c assetId of
      None \<Rightarrow> Some MISSING
    | Some a \<Rightarrow> (case a_status a of
        PENDING_UPLOAD \<Rightarrow> Some UPLOADING
      | PROCESSING \<Rightarrow> Some MEDIA_PROCESSING
      | READY \<Rightarrow> if \<not> allowVideo \<and> a_kind a = VIDEO then Some MEDIA_VIDEO else None
      | ASSET_REJECTED \<Rightarrow> Some MISSING))"

lemma checkMediaAsset_None [res_simps]:
  "checkMediaAsset c i v = None \<longleftrightarrow>
     (\<exists>a. findOwnedAsset c i = Some a \<and> a_status a = READY \<and> (v \<or> a_kind a = IMAGE))"
  by (auto simp: checkMediaAsset_def split: option.splits asset_status.splits)
     (metis asset_kind.exhaust)+

end
