(* ===== verification/Kind_Defs.thy ===== *)
theory Kind_Defs
  imports Kinds
begin

text \<open>
  The definitions of the kinds: \<open>poster.kind.ts\<close>, \<open>event-banner.kind.ts\<close>, \<open>story.kind.ts\<close> and
  the registry \<open>kinds/index.ts\<close>, with the locale of the laws they keep.
\<close>

section \<open>Poster\<close>

definition poster_asset_message :: "media_problem \<Rightarrow> msg" where
  "poster_asset_message p = (case p of
      UPLOADING \<Rightarrow> Msg ''The poster upload has not finished.''
    | MEDIA_PROCESSING \<Rightarrow> Msg ''The video is still being converted. Try again shortly.''
    | MISSING \<Rightarrow> Msg ''Upload the poster again.''
    | MEDIA_VIDEO \<Rightarrow> Msg ''Upload the poster again.'')"

definition poster_validate :: "time \<Rightarrow> time \<Rightarrow> time \<Rightarrow> field_errors" where
  "poster_validate startAt endAt t =
     (let errors = validatePeriod startAt endAt t
      in if map_of errors ''endAt'' = None \<and> addMonthsInSeoul startAt maxPublishMonths < endAt
         then AList.update ''endAt'' (MsgOf ''The period can be at most this many months'' (JNum maxPublishMonths)) errors
         else errors)"

definition opt_error :: "string \<Rightarrow> msg option \<Rightarrow> field_errors" where
  "opt_error f m = (case m of None \<Rightarrow> [] | Some x \<Rightarrow> [(f, x)])"

definition poster_detail_url ::
    "kind_context \<Rightarrow> utext nullish \<Rightarrow> kind_columns option
       \<Rightarrow> msg option \<times> string option \<times> string option" where
  "poster_detail_url c input prev =
     (let old = (Option.bind prev k_detailUrl, Option.bind prev k_ziggleNoticeId)
      in case input of
           Undefined \<Rightarrow> (None, old)
         | Null \<Rightarrow> (None, None, None)
         | Given [] \<Rightarrow> (None, None, None)
         | Given raw \<Rightarrow> (case parseDetailUrl (parseURL c) raw of
             Inl e \<Rightarrow> (Some e, old)
           | Inr p \<Rightarrow> (None, Some (pdu_url p), pdu_ziggleNoticeId p)))"

definition poster_resolve ::
    "kind_input \<Rightarrow> (kind_columns \<times> detail) option \<Rightarrow> kind_context \<Rightarrow> resolved_content" where
  "poster_resolve input current c =
     (let prev = map_option fst current;
          categoryId = (case ki_categoryId input of Some x \<Rightarrow> Some x
                        | None \<Rightarrow> Option.bind prev k_categoryId);
          assetId = (case ki_assetId input of Some x \<Rightarrow> Some x
                     | None \<Rightarrow> Option.bind prev k_assetId);
          (urlError, detailUrl, notice) = poster_detail_url c (ki_detailUrl input) prev;
          categoryOk = ((prev \<noteq> None \<and> categoryId = Option.bind prev k_categoryId)
                        \<or> (case categoryId of Some x \<Rightarrow> isActiveCategory c x | None \<Rightarrow> False));
          assetProblem = (if prev \<noteq> None \<and> assetId = Option.bind prev k_assetId then None
                          else case assetId of Some x \<Rightarrow> checkMediaAsset c x True
                               | None \<Rightarrow> Some MISSING)
      in \<lparr>rc_errors = opt_error ''detailUrl'' urlError
            @ (if categoryOk then [] else [(''categoryId'', Msg ''This category cannot be chosen.'')])
            @ opt_error ''assetId'' (map_option poster_asset_message assetProblem),
          rc_columns =
            \<lparr>k_title = (case ki_title input of Some x \<Rightarrow> x
                         | None \<Rightarrow> (case prev of Some p \<Rightarrow> k_title p | None \<Rightarrow> [])),
             k_categoryId = categoryId, k_assetId = assetId, k_detailUrl = detailUrl,
             k_ziggleNoticeId = notice,
             k_organizerName = patched (ki_organizerName input) (Option.bind prev k_organizerName),
             k_subtitle = patched (ki_subtitle input) (Option.bind prev k_subtitle),
             k_location = patched (ki_location input) (Option.bind prev k_location),
             k_description = patched (ki_description input) (Option.bind prev k_description)\<rparr>,
          rc_detail = NoDetail\<rparr>)"

definition poster_toResponse ::
    "submission_row \<Rightarrow> detail \<Rightarrow> (storage_key \<Rightarrow> string) \<Rightarrow> kind_response" where
  "poster_toResponse row d pub =
     (let s = sr row; a = s_assetId s
      in EMPTY_KIND_RESPONSE\<lparr>
           kr_categoryId := s_categoryId s, kr_categoryName := sr_categoryName row, kr_assetId := a,
           kr_posterUrl := map_option (\<lambda>i. variantUrl pub i PREVIEW) a,
           kr_posterThumbUrl := map_option (\<lambda>i. variantUrl pub i THUMB) a,
           kr_posterKind := sr_assetKind row, kr_posterWidth := sr_assetWidth row,
           kr_posterHeight := sr_assetHeight row, kr_posterDurationMs := sr_assetDurationMs row,
           kr_posterVideoUrl := Option.bind a (\<lambda>i. Option.bind (sr_assetKind row) (videoUrl pub i)),
           kr_detailUrl := s_detailUrl s, kr_ziggleNoticeId := s_ziggleNoticeId s,
           kr_organizerName := s_organizerName s, kr_subtitle := s_subtitle s,
           kr_location := s_location s, kr_description := s_description s\<rparr>)"

definition POSTER_KIND :: submission_kind where
  "POSTER_KIND =
     \<lparr>sk_type = POSTER,
      sk_inputFields = [''title'', ''categoryId'', ''assetId'', ''detailUrl'', ''organizerName'',
        ''subtitle'', ''location'', ''description''],
      sk_schedule = REQUESTED poster_validate, sk_targetable = True, sk_dailyLimit = None,
      sk_resubmittable = True, sk_anonymous = False, sk_resolve = poster_resolve,
      sk_details = None, sk_onApprove = None, sk_toResponse = poster_toResponse,
      sk_toPlaylistItem = (\<lambda>row d pub sha. PosterItem (posterPlaylistItem pub row))\<rparr>"

section \<open>Event banner\<close>

text \<open>The Korean labels by their code points: birthday, admission, graduation, award, welcome, news.\<close>

definition OCCASION_LABELS :: "event_banner_occasion \<Rightarrow> utext" where
  "OCCASION_LABELS oc = (case oc of
      BIRTHDAY \<Rightarrow> [49373, 51068] | ADMISSION \<Rightarrow> [54633, 44201] | GRADUATION \<Rightarrow> [51320, 50629]
    | AWARD \<Rightarrow> [49688, 49345] | WELCOME \<Rightarrow> [54872, 50689] | OCCASION_OTHER \<Rightarrow> [49548, 49885])"

definition EVENT_BANNER_LABEL :: utext where
  "EVENT_BANNER_LABEL = [51060, 48292, 53944, 32, 48176, 45320]"

definition banner_media_message :: "bool \<Rightarrow> media_problem \<Rightarrow> msg" where
  "banner_media_message photo p = (case p of
      UPLOADING \<Rightarrow> if photo then Msg ''The photo upload has not finished.''
                   else Msg ''The banner image upload has not finished.''
    | MISSING \<Rightarrow> if photo then Msg ''Upload the photo again.'' else Msg ''Upload the banner image again.''
    | _ \<Rightarrow> if photo then Msg ''Videos cannot be used. Upload a photo.''
           else Msg ''Videos cannot be used. Upload an image.'')"

definition banner_validate :: "time \<Rightarrow> time \<Rightarrow> time \<Rightarrow> field_errors" where
  "banner_validate startAt endAt t =
     (let errors = validatePeriod startAt endAt t;
          errors1 = (if isSeoulMidnight startAt then errors
                     else AList.update ''startAt'' (Msg ''The start must be midnight in Seoul.'') errors)
      in if map_of errors1 ''endAt'' \<noteq> None then errors1
         else if \<not> isSeoulMidnight endAt
         then AList.update ''endAt'' (Msg ''The end must be midnight in Seoul.'') errors1
         else if eventBannerMaxDays * 86400000 < endAt - startAt
         then AList.update ''endAt'' (MsgOf ''A banner can hang for at most this many days'' (JNum eventBannerMaxDays)) errors1
         else errors1)"

definition truthy :: "utext option \<Rightarrow> bool" where
  "truthy x = (case x of None \<Rightarrow> False | Some t \<Rightarrow> t \<noteq> [])"

definition banner_emptyDetail :: banner_detail where
  "banner_emptyDetail = \<lparr>bd_mode = TEMPLATE, bd_occasion = None, bd_recipient = [],
     bd_headline = None, bd_message = None, bd_sender = None, bd_photoConsent = False\<rparr>"

definition banner_form_errors :: "event_banner_input \<Rightarrow> field_errors" where
  "banner_form_errors b =
     (if bi_mode b = TEMPLATE then
        (if bi_occasion b = None then [(''eventBanner.occasion'', Msg ''Choose what the news is.'')] else [])
        @ (if truthy (bi_headline b) then [] else [(''eventBanner.headline'', Msg ''Enter the large text.'')])
        @ (if truthy (bi_message b) then [] else [(''eventBanner.message'', Msg ''Enter the message.'')])
        @ (if bi_assetId b = None then []
           else [(''eventBanner.assetId'', Msg ''A template banner takes no image; use photoAssetId.'')])
        @ (if bi_photoAssetId b \<noteq> None \<and> \<not> bi_photoConsent b
           then [(''eventBanner.photoConsent'', Msg ''Confirm the consent of the people in the photo.'')] else [])
      else
        (if bi_assetId b = None then [(''eventBanner.assetId'', Msg ''Upload the banner image.'')] else [])
        @ (if bi_photoAssetId b \<noteq> None
           then [(''eventBanner.photoAssetId'', Msg ''An image banner takes no separate photo.'')] else []))"

definition banner_resolve ::
    "kind_input \<Rightarrow> (kind_columns \<times> detail) option \<Rightarrow> kind_context \<Rightarrow> resolved_content" where
  "banner_resolve input current c = (case ki_eventBanner input of
      None \<Rightarrow> (case current of
          Some (cols, d) \<Rightarrow> \<lparr>rc_errors = [], rc_columns = cols, rc_detail = d\<rparr>
        | None \<Rightarrow> \<lparr>rc_errors = [(''eventBanner'', Msg ''Enter the event banner.'')],
                   rc_columns = EMPTY_KIND_COLUMNS, rc_detail = Banner banner_emptyDetail\<rparr>)
    | Some b \<Rightarrow>
        (let isTemplate = (bi_mode b = TEMPLATE);
             mediaField = (if isTemplate then ''eventBanner.photoAssetId'' else ''eventBanner.assetId'');
             mediaId = (if isTemplate then bi_photoAssetId b else bi_assetId b);
             problem = (case mediaId of None \<Rightarrow> None
               | Some m \<Rightarrow> if Option.bind current (\<lambda>x. k_assetId (fst x)) = Some m then None
                           else checkMediaAsset c m False);
             errors = (case problem of None \<Rightarrow> banner_form_errors b
               | Some p \<Rightarrow> AList.update mediaField (banner_media_message isTemplate p) (banner_form_errors b));
             label = (case bi_occasion b of Some x \<Rightarrow> OCCASION_LABELS x | None \<Rightarrow> EVENT_BANNER_LABEL)
         in \<lparr>rc_errors = errors,
             rc_columns = EMPTY_KIND_COLUMNS\<lparr>
               k_title := label @ [32, 183, 32] @ bi_recipient b @ [50640, 44172],
               k_assetId := mediaId\<rparr>,
             rc_detail = Banner \<lparr>bd_mode = bi_mode b, bd_occasion = bi_occasion b,
               bd_recipient = bi_recipient b, bd_headline = bi_headline b, bd_message = bi_message b,
               bd_sender = bi_sender b,
               bd_photoConsent = (isTemplate \<and> mediaId \<noteq> None \<and> bi_photoConsent b)\<rparr>\<rparr>))"

definition banner_of_row :: "submission_event_banner \<Rightarrow> banner_detail" where
  "banner_of_row r = \<lparr>bd_mode = eb_mode r, bd_occasion = eb_occasion r, bd_recipient = eb_recipient r,
     bd_headline = eb_headline r, bd_message = eb_message r, bd_sender = eb_sender r,
     bd_photoConsent = eb_photoConsent r\<rparr>"

definition banner_set :: "banner_detail \<Rightarrow> submission_event_banner \<Rightarrow> submission_event_banner" where
  "banner_set d r = r\<lparr>eb_mode := bd_mode d, eb_occasion := bd_occasion d,
     eb_recipient := bd_recipient d, eb_headline := bd_headline d, eb_message := bd_message d,
     eb_sender := bd_sender d, eb_photoConsent := bd_photoConsent d\<rparr>"

definition banner_row :: "uuid \<Rightarrow> banner_detail \<Rightarrow> submission_event_banner" where
  "banner_row i d = \<lparr>eb_submissionId = i, eb_mode = bd_mode d, eb_occasion = bd_occasion d,
     eb_recipient = bd_recipient d, eb_headline = bd_headline d, eb_message = bd_message d,
     eb_sender = bd_sender d, eb_photoConsent = bd_photoConsent d\<rparr>"

definition banner_load :: "database \<Rightarrow> uuid \<Rightarrow> detail option" where
  "banner_load db i = map_option (\<lambda>r. Banner (banner_of_row r))
     (first_row (\<lambda>r. eb_submissionId r = i) (t_eventBanners db))"

definition banner_save :: "uuid \<Rightarrow> detail \<Rightarrow> database \<Rightarrow> database" where
  "banner_save i d db = (case d of
      Banner b \<Rightarrow> db\<lparr>t_eventBanners :=
        upsert eb_submissionId (banner_row i b) (banner_set b) (t_eventBanners db)\<rparr>
    | _ \<Rightarrow> db)"

text \<open>\<open>equals\<close> compares every field.\<close>

definition banner_equals :: "detail \<Rightarrow> detail \<Rightarrow> bool" where
  "banner_equals a b = (case (a, b) of
      (Banner x, Banner y) \<Rightarrow>
        bd_mode x = bd_mode y \<and> bd_occasion x = bd_occasion y \<and> bd_recipient x = bd_recipient y
        \<and> bd_headline x = bd_headline y \<and> bd_message x = bd_message y \<and> bd_sender x = bd_sender y
        \<and> bd_photoConsent x = bd_photoConsent y
    | _ \<Rightarrow> False)"

definition banner_toResponse ::
    "submission_row \<Rightarrow> detail \<Rightarrow> (storage_key \<Rightarrow> string) \<Rightarrow> kind_response" where
  "banner_toResponse row d pub = (case d of
      Banner b \<Rightarrow>
        (let isImage = (bd_mode b = MODE_IMAGE); a = s_assetId (sr row);
             u = map_option (\<lambda>i. variantUrl pub i PREVIEW) a
         in EMPTY_KIND_RESPONSE\<lparr>kr_eventBanner := Some
              \<lparr>br_detail = b, br_photoAssetId = (if isImage then None else a),
               br_photoUrl = (if isImage then None else u),
               br_assetId = (if isImage then a else None),
               br_assetUrl = (if isImage then u else None)\<rparr>\<rparr>)
    | _ \<Rightarrow> EMPTY_KIND_RESPONSE)"

definition mode_json :: "event_banner_mode \<Rightarrow> json" where
  "mode_json m = JText (case m of TEMPLATE \<Rightarrow> ''TEMPLATE'' | MODE_IMAGE \<Rightarrow> ''IMAGE'')"

definition occasion_json :: "event_banner_occasion \<Rightarrow> json" where
  "occasion_json oc = JText (case oc of BIRTHDAY \<Rightarrow> ''BIRTHDAY'' | ADMISSION \<Rightarrow> ''ADMISSION''
     | GRADUATION \<Rightarrow> ''GRADUATION'' | AWARD \<Rightarrow> ''AWARD'' | WELCOME \<Rightarrow> ''WELCOME''
     | OCCASION_OTHER \<Rightarrow> ''OTHER'')"

definition opt_json :: "('a \<Rightarrow> json) \<Rightarrow> 'a option \<Rightarrow> json" where
  "opt_json f x = (case x of None \<Rightarrow> JNull | Some y \<Rightarrow> f y)"

definition banner_text :: "banner_detail \<Rightarrow> json obj" where
  "banner_text b = [(''mode'', mode_json (bd_mode b)), (''occasion'', opt_json occasion_json (bd_occasion b)),
     (''recipient'', JStr (bd_recipient b)), (''headline'', opt_json JStr (bd_headline b)),
     (''message'', opt_json JStr (bd_message b)), (''sender'', opt_json JStr (bd_sender b))]"

definition banner_toPlaylistItem ::
    "playlist_row \<Rightarrow> detail \<Rightarrow> (storage_key \<Rightarrow> string) \<Rightarrow> (json \<Rightarrow> string) \<Rightarrow> playlist_item" where
  "banner_toPlaylistItem row d pub sha =
     (let b = (case d of Banner x \<Rightarrow> x | _ \<Rightarrow> banner_emptyDetail);
          isImage = (bd_mode b = MODE_IMAGE);
          a = pr_asset row;
          u = map_option (\<lambda>x. variantUrl pub (a_id x) TV) a;
          checksum = contentChecksum sha
            (JObj (banner_text b @ [(''media'', opt_json JText (Option.bind a a_checksum))]))
      in BannerItem (playlistEntry row checksum) b (if isImage then None else u)
           (if isImage then u else None) (Option.bind a a_width) (Option.bind a a_height))"

definition EVENT_BANNER_KIND :: submission_kind where
  "EVENT_BANNER_KIND =
     \<lparr>sk_type = EVENT_BANNER, sk_inputFields = [''eventBanner''],
      sk_schedule = REQUESTED banner_validate, sk_targetable = True, sk_dailyLimit = Some 3,
      sk_resubmittable = True, sk_anonymous = False, sk_resolve = banner_resolve,
      sk_details = Some \<lparr>ds_load = banner_load, ds_save = banner_save, ds_equals = banner_equals\<rparr>,
      sk_onApprove = None, sk_toResponse = banner_toResponse,
      sk_toPlaylistItem = banner_toPlaylistItem\<rparr>"

section \<open>Story\<close>

definition is_space :: "nat \<Rightarrow> bool" where
  "is_space c \<longleftrightarrow> (9 \<le> c \<and> c \<le> 13) \<or> c = 32 \<or> c = 160 \<or> c = 5760 \<or> (8192 \<le> c \<and> c \<le> 8202)
     \<or> c = 8232 \<or> c = 8233 \<or> c = 8239 \<or> c = 8287 \<or> c = 12288 \<or> c = 65279"

text \<open>\<open>replace(/\s+/g, ' ')\<close>\<close>

fun collapse_spaces :: "utext \<Rightarrow> utext" where
  "collapse_spaces [] = []"
| "collapse_spaces [c] = [if is_space c then 32 else c]"
| "collapse_spaces (c # d # cs) =
     (if is_space c then (if is_space d then collapse_spaces (d # cs) else 32 # collapse_spaces (d # cs))
      else c # collapse_spaces (d # cs))"

definition story_titleOf :: "utext \<Rightarrow> utext" where
  "story_titleOf body = take 40 (collapse_spaces body)"

definition story_periodFrom :: "time \<Rightarrow> time \<times> time" where
  "story_periodFrom approvedAt = (approvedAt, approvedAt + storyDisplayDays * 86400000)"

definition story_resolve ::
    "kind_input \<Rightarrow> (kind_columns \<times> detail) option \<Rightarrow> kind_context \<Rightarrow> resolved_content" where
  "story_resolve input current c = (case ki_story input of
      None \<Rightarrow> (case current of
          Some (cols, d) \<Rightarrow> \<lparr>rc_errors = [], rc_columns = cols, rc_detail = d\<rparr>
        | None \<Rightarrow> \<lparr>rc_errors = [(''story'', Msg ''Enter the story.'')],
                   rc_columns = EMPTY_KIND_COLUMNS,
                   rc_detail = Story \<lparr>sd_tag = TAG_OTHER, sd_body = [], sd_storyNumber = None\<rparr>\<rparr>)
    | Some s \<Rightarrow> \<lparr>rc_errors = [],
                 rc_columns = EMPTY_KIND_COLUMNS\<lparr>k_title := story_titleOf (si_body s)\<rparr>,
                 rc_detail = Story \<lparr>sd_tag = si_tag s, sd_body = si_body s,
                   sd_storyNumber = (case current of Some (_, Story x) \<Rightarrow> sd_storyNumber x | _ \<Rightarrow> None)\<rparr>\<rparr>)"

definition story_load :: "database \<Rightarrow> uuid \<Rightarrow> detail option" where
  "story_load db i = map_option
     (\<lambda>r. Story \<lparr>sd_tag = st_tag r, sd_body = st_body r, sd_storyNumber = st_storyNumber r\<rparr>)
     (first_row (\<lambda>r. st_submissionId r = i) (t_stories db))"

definition story_save :: "uuid \<Rightarrow> detail \<Rightarrow> database \<Rightarrow> database" where
  "story_save i d db = (case d of
      Story s \<Rightarrow> db\<lparr>t_stories := upsert st_submissionId
        \<lparr>st_submissionId = i, st_tag = sd_tag s, st_body = sd_body s, st_storyNumber = None\<rparr>
        (\<lambda>r. r\<lparr>st_tag := sd_tag s, st_body := sd_body s\<rparr>) (t_stories db)\<rparr>
    | _ \<Rightarrow> db)"

definition story_equals :: "detail \<Rightarrow> detail \<Rightarrow> bool" where
  "story_equals a b = (case (a, b) of
      (Story x, Story y) \<Rightarrow> sd_tag x = sd_tag y \<and> sd_body x = sd_body y
    | _ \<Rightarrow> False)"

text \<open>\<open>nextval\<close> is drawn once per updated row; the key is unique, so at most once.\<close>

definition story_onApprove :: "uuid \<Rightarrow> database \<Rightarrow> database" where
  "story_onApprove i db =
     (if first_row (\<lambda>r. st_submissionId r = i) (t_stories db) = None then db
      else db\<lparr>t_stories := update_where (\<lambda>r. st_submissionId r = i)
                (\<lambda>r. r\<lparr>st_storyNumber := Some (storyNumberSeq db)\<rparr>) (t_stories db),
              storyNumberSeq := storyNumberSeq db + 1\<rparr>)"

definition story_toResponse ::
    "submission_row \<Rightarrow> detail \<Rightarrow> (storage_key \<Rightarrow> string) \<Rightarrow> kind_response" where
  "story_toResponse row d pub = (case d of
      Story s \<Rightarrow> EMPTY_KIND_RESPONSE\<lparr>kr_story := Some s\<rparr> | _ \<Rightarrow> EMPTY_KIND_RESPONSE)"

definition tag_json :: "story_tag \<Rightarrow> json" where
  "tag_json t = JText (case t of NEWS \<Rightarrow> ''NEWS'' | PRAISE \<Rightarrow> ''PRAISE'' | LOST_FOUND \<Rightarrow> ''LOST_FOUND''
     | SUGGESTION \<Rightarrow> ''SUGGESTION'' | TAG_OTHER \<Rightarrow> ''OTHER'')"

definition story_toPlaylistItem ::
    "playlist_row \<Rightarrow> detail \<Rightarrow> (storage_key \<Rightarrow> string) \<Rightarrow> (json \<Rightarrow> string) \<Rightarrow> playlist_item" where
  "story_toPlaylistItem row d pub sha =
     (let s = (case d of Story x \<Rightarrow> x | _ \<Rightarrow> \<lparr>sd_tag = TAG_OTHER, sd_body = [], sd_storyNumber = None\<rparr>)
      in StoryItem (playlistEntry row (contentChecksum sha
             (JObj [(''storyNumber'', opt_json JNum (sd_storyNumber s)), (''tag'', tag_json (sd_tag s)),
                    (''body'', JStr (sd_body s))]))) s)"

definition STORY_KIND :: submission_kind where
  "STORY_KIND =
     \<lparr>sk_type = STORY, sk_inputFields = [''story''], sk_schedule = ON_APPROVAL story_periodFrom,
      sk_targetable = False, sk_dailyLimit = Some 5, sk_resubmittable = False, sk_anonymous = True,
      sk_resolve = story_resolve,
      sk_details = Some \<lparr>ds_load = story_load, ds_save = story_save, ds_equals = story_equals\<rparr>,
      sk_onApprove = Some story_onApprove, sk_toResponse = story_toResponse,
      sk_toPlaylistItem = story_toPlaylistItem\<rparr>"

section \<open>The registry\<close>

definition kindOf :: "submission_type \<Rightarrow> submission_kind" where
  "kindOf t = (case t of POSTER \<Rightarrow> POSTER_KIND | EVENT_BANNER \<Rightarrow> EVENT_BANNER_KIND | STORY \<Rightarrow> STORY_KIND)"

definition dailySubmissionLimits :: "(submission_type \<times> nat) list" where
  "dailySubmissionLimits =
     List.map_filter (\<lambda>k. map_option (Pair (sk_type k)) (sk_dailyLimit k))
       [POSTER_KIND, EVENT_BANNER_KIND, STORY_KIND]"

lemmas kind_defs = POSTER_KIND_def EVENT_BANNER_KIND_def STORY_KIND_def

lemma kindOf_simps [simp]:
  "kindOf POSTER = POSTER_KIND" "kindOf EVENT_BANNER = EVENT_BANNER_KIND" "kindOf STORY = STORY_KIND"
  by (simp_all add: kindOf_def)

lemma kind_field_simps [simp]:
  "sk_type POSTER_KIND = POSTER" "sk_type EVENT_BANNER_KIND = EVENT_BANNER" "sk_type STORY_KIND = STORY"
  "sk_details POSTER_KIND = None" "sk_onApprove POSTER_KIND = None" "sk_onApprove EVENT_BANNER_KIND = None"
  "sk_onApprove STORY_KIND = Some story_onApprove"
  "sk_details EVENT_BANNER_KIND = Some \<lparr>ds_load = banner_load, ds_save = banner_save, ds_equals = banner_equals\<rparr>"
  "sk_details STORY_KIND = Some \<lparr>ds_load = story_load, ds_save = story_save, ds_equals = story_equals\<rparr>"
  "sk_resolve POSTER_KIND = poster_resolve" "sk_resolve EVENT_BANNER_KIND = banner_resolve"
  "sk_resolve STORY_KIND = story_resolve"
  "sk_schedule POSTER_KIND = REQUESTED poster_validate"
  "sk_schedule EVENT_BANNER_KIND = REQUESTED banner_validate"
  "sk_schedule STORY_KIND = ON_APPROVAL story_periodFrom"
  "sk_resubmittable POSTER_KIND" "sk_resubmittable EVENT_BANNER_KIND" "\<not> sk_resubmittable STORY_KIND"
  "\<not> sk_anonymous POSTER_KIND" "\<not> sk_anonymous EVENT_BANNER_KIND" "sk_anonymous STORY_KIND"
  "sk_targetable POSTER_KIND" "sk_targetable EVENT_BANNER_KIND" "\<not> sk_targetable STORY_KIND"
  by (simp_all add: kind_defs)

lemma sk_type_kindOf [simp]: "sk_type (kindOf t) = t"
  by (cases t) simp_all

lemma anonymous_iff: "sk_anonymous (kindOf t) \<longleftrightarrow> t = STORY"
  by (cases t) simp_all

end
