(* ===== verification/Kind_Laws.thy ===== *)
theory Kind_Laws
  imports Kind_Defs
begin

text \<open>
  What the submission service relies on from a kind, as the locale \<open>submission_kind_laws\<close>, its
  interpretation for the three kinds, and the rules that are particular to one kind.
\<close>

definition detail_fits :: "submission_type \<Rightarrow> detail \<Rightarrow> bool" where
  "detail_fits t d = (case (t, d) of
      (POSTER, NoDetail) \<Rightarrow> True | (EVENT_BANNER, Banner _) \<Rightarrow> True | (STORY, Story _) \<Rightarrow> True
    | _ \<Rightarrow> False)"

lemma detail_fits_simps [simp]:
  "detail_fits POSTER d \<longleftrightarrow> d = NoDetail"
  "detail_fits EVENT_BANNER d \<longleftrightarrow> (\<exists>b. d = Banner b)"
  "detail_fits STORY d \<longleftrightarrow> (\<exists>s. d = Story s)"
  by (cases d; simp add: detail_fits_def)+

text \<open>The columns a kind may have: the CHECK constraints on the poster fields.\<close>

definition columns_fit :: "submission_type \<Rightarrow> kind_columns \<Rightarrow> bool" where
  "columns_fit t cols \<longleftrightarrow>
     (t = POSTER \<longrightarrow> k_categoryId cols \<noteq> None \<and> k_assetId cols \<noteq> None)
     \<and> (t \<noteq> POSTER \<longrightarrow> k_categoryId cols = None)"

definition current_fits :: "submission_type \<Rightarrow> (kind_columns \<times> detail) option \<Rightarrow> bool" where
  "current_fits t current = (case current of None \<Rightarrow> True
     | Some (cols, d) \<Rightarrow> columns_fit t cols \<and> detail_fits t d)"

locale submission_kind_laws =
  fixes k :: submission_kind
  assumes requested_order: "sk_schedule k = REQUESTED v \<Longrightarrow> v a b t = [] \<Longrightarrow> a < b \<and> t < b"
    and approval_order: "sk_schedule k = ON_APPROVAL f \<Longrightarrow> fst (f t) = t \<and> t < snd (f t)"
    and resolve_idle: "current_fits (sk_type k) (Some (cols, d)) \<Longrightarrow>
          sk_resolve k empty_input (Some (cols, d)) c
            = \<lparr>rc_errors = [], rc_columns = cols, rc_detail = d\<rparr>"
    and resolve_fits: "current_fits (sk_type k) current \<Longrightarrow>
          detail_fits (sk_type k) (rc_detail (sk_resolve k inp current c))"
    and resolve_columns: "current_fits (sk_type k) current \<Longrightarrow>
          rc_errors (sk_resolve k inp current c) = [] \<Longrightarrow>
          columns_fit (sk_type k) (rc_columns (sk_resolve k inp current c))"
    and no_store: "sk_details k = None \<Longrightarrow> sk_type k = POSTER"
    and save_load: "sk_details k = Some ds \<Longrightarrow> detail_fits (sk_type k) d \<Longrightarrow>
          \<exists>d'. ds_load ds (ds_save ds i d db) i = Some d' \<and> detail_fits (sk_type k) d'
             \<and> ds_equals ds d' d"
    and save_other: "sk_details k = Some ds \<Longrightarrow> j \<noteq> i \<Longrightarrow>
          ds_load ds (ds_save ds i d db) j = ds_load ds db j"
    and save_tables: "sk_details k = Some ds \<Longrightarrow>
          t_submissions (ds_save ds i d db) = t_submissions db
          \<and> t_submissionTargetGroups (ds_save ds i d db) = t_submissionTargetGroups db
          \<and> t_reviews (ds_save ds i d db) = t_reviews db
          \<and> t_auditLogs (ds_save ds i d db) = t_auditLogs db"
    and equals_refl: "sk_details k = Some ds \<Longrightarrow> detail_fits (sk_type k) d \<Longrightarrow> ds_equals ds d d"
begin

text \<open>A second save of the same content is seen as no change.\<close>

lemma save_idle:
  assumes "sk_details k = Some ds" "detail_fits (sk_type k) d"
    and "ds_load ds (ds_save ds i d db) i = Some d'"
  shows "ds_equals ds d' d"
  using save_load[OF assms(1,2), of i db] assms(3) by auto

text \<open>What is sent unchanged is accepted, and leaves columns and detail as they are.\<close>

lemma unchanged_accepted:
  assumes "current_fits (sk_type k) (Some (cols, d))"
  shows "rc_errors (sk_resolve k empty_input (Some (cols, d)) c) = []"
    "sk_details k = Some ds \<Longrightarrow> ds_equals ds d (rc_detail (sk_resolve k empty_input (Some (cols, d)) c))"
  using assms by (simp_all add: resolve_idle equals_refl current_fits_def)

text \<open>A period the kind accepts, whoever set it, is one the table takes.\<close>

lemma period_ordered:
  "(case sk_schedule k of
      REQUESTED v \<Rightarrow> v a b t = [] \<longrightarrow> a < b
    | ON_APPROVAL f \<Rightarrow> fst (f t) < snd (f t))"
  using requested_order approval_order by (auto split: kind_schedule.splits)

end

section \<open>The three kinds keep the laws\<close>

lemma map_of_AList_update [simp]:
  "map_of (AList.update k v al) x = (if x = k then Some v else map_of al x)"
  by (simp add: update_conv')

lemma AList_update_Nil_iff [simp]: "AList.update k v al = [] \<longleftrightarrow> False"
  by simp

lemma poster_validate_Nil:
  "poster_validate a b t = [] \<longleftrightarrow> a < b \<and> t < b \<and> b \<le> addMonthsInSeoul a maxPublishMonths"
  by (auto simp: poster_validate_def validatePeriod_def Let_def)

lemma banner_validate_Nil:
  "banner_validate a b t = [] \<longleftrightarrow>
     a < b \<and> t < b \<and> isSeoulMidnight a \<and> isSeoulMidnight b \<and> b - a \<le> eventBannerMaxDays * 86400000"
  by (auto simp: banner_validate_def validatePeriod_def Let_def)

lemma first_row_upsert_same:
  assumes "\<And>q. key (f q) = key q"
  shows "first_row (\<lambda>q. key q = key r) (upsert key r f t)
       = Some (case first_row (\<lambda>q. key q = key r) t of None \<Rightarrow> r | Some q \<Rightarrow> f q)"
proof (cases "key r \<in> key ` set t")
  case True
  then have "first_row (\<lambda>q. key q = key r) t \<noteq> None" by (auto simp: first_row_None)
  with True show ?thesis
    by (auto simp: upsert_def first_row_update_where_same assms dest: first_row_Some)
next
  case False
  then have "first_row (\<lambda>q. key q = key r) t = None" by (auto simp: first_row_None image_iff)
  moreover have "first_row (\<lambda>q. key q = key r) (t @ [r]) = Some r"
    using False by (induction t) auto
  ultimately show ?thesis using False by (simp add: upsert_def insert_row_def)
qed

lemma first_row_upsert_other:
  assumes "\<And>q. key (f q) = key q" and "k \<noteq> key r"
  shows "first_row (\<lambda>q. key q = k) (upsert key r f t) = first_row (\<lambda>q. key q = k) t"
proof -
  have "first_row (\<lambda>q. key q = k) (update_where (\<lambda>q. key q = key r) f t)
      = first_row (\<lambda>q. key q = k) t"
    using assms
    by (cases "first_row (\<lambda>q. key q = k) t")
      (auto simp: first_row_update_where_same dest!: first_row_Some)
  moreover have "first_row (\<lambda>q. key q = k) (t @ [r]) = first_row (\<lambda>q. key q = k) t"
    using assms(2) by (induction t) auto
  ultimately show ?thesis by (simp add: upsert_def insert_row_def)
qed

lemma banner_load_save:
  "banner_load (banner_save i (Banner b) db) i = Some (Banner b)"
  using first_row_upsert_same[of eb_submissionId "banner_set b" "banner_row i b" "t_eventBanners db"]
  by (auto simp: banner_load_def banner_save_def banner_set_def banner_row_def banner_of_row_def
      split: option.splits)

lemma story_load_save:
  "\<exists>x. story_load (story_save i (Story s) db) i = Some (Story x)
     \<and> sd_tag x = sd_tag s \<and> sd_body x = sd_body s"
  using first_row_upsert_same[of st_submissionId "\<lambda>r. r\<lparr>st_tag := sd_tag s, st_body := sd_body s\<rparr>"
      "\<lparr>st_submissionId = i, st_tag = sd_tag s, st_body = sd_body s, st_storyNumber = None\<rparr>"
      "t_stories db"]
  by (auto simp: story_load_def story_save_def split: option.splits)

lemma banner_load_save_other:
  "j \<noteq> i \<Longrightarrow> banner_load (banner_save i d db) j = banner_load db j"
  using first_row_upsert_other[of eb_submissionId "banner_set b" j "banner_row i b" for b]
  by (cases d) (simp_all add: banner_load_def banner_save_def banner_set_def banner_row_def)

lemma story_load_save_other: "j \<noteq> i \<Longrightarrow> story_load (story_save i d db) j = story_load db j"
  using first_row_upsert_other[of st_submissionId
      "\<lambda>r. r\<lparr>st_tag := sd_tag s, st_body := sd_body s\<rparr>" j
      "\<lparr>st_submissionId = i, st_tag = sd_tag s, st_body = sd_body s, st_storyNumber = None\<rparr>" for s :: story_detail]
  by (cases d) (simp_all add: story_load_def story_save_def)

lemma poster_resolve_idle:
  "rc_errors (poster_resolve empty_input (Some (cols, d)) c) = []"
  "rc_columns (poster_resolve empty_input (Some (cols, d)) c) = cols"
  by (simp_all add: poster_resolve_def poster_detail_url_def empty_input_def opt_error_def Let_def)

lemma poster_resolve_columns:
  assumes "rc_errors (poster_resolve i current c) = []" and "current_fits POSTER current"
  shows "columns_fit POSTER (rc_columns (poster_resolve i current c))"
  using assms
  by (auto simp: poster_resolve_def columns_fit_def current_fits_def opt_error_def Let_def
      split: prod.splits option.splits if_splits)

interpretation poster: submission_kind_laws POSTER_KIND
proof unfold_locales
  show "sk_resolve POSTER_KIND empty_input (Some (cols, d)) c
      = \<lparr>rc_errors = [], rc_columns = cols, rc_detail = d\<rparr>"
    if "current_fits (sk_type POSTER_KIND) (Some (cols, d))" for cols d c
    using that poster_resolve_idle[of cols d c]
    by (auto simp: current_fits_def poster_resolve_def Let_def split: prod.splits)
  show "detail_fits (sk_type POSTER_KIND) (rc_detail (sk_resolve POSTER_KIND i current c))" for i current c
    by (simp add: poster_resolve_def Let_def split: prod.splits)
qed (simp_all add: poster_validate_Nil poster_resolve_columns)

interpretation banner: submission_kind_laws EVENT_BANNER_KIND
proof unfold_locales
  show "detail_fits (sk_type EVENT_BANNER_KIND) (rc_detail (sk_resolve EVENT_BANNER_KIND i current c))"
    if "current_fits (sk_type EVENT_BANNER_KIND) current" for i current c
    using that by (auto simp: banner_resolve_def current_fits_def Let_def split: option.splits)
  show "columns_fit (sk_type EVENT_BANNER_KIND) (rc_columns (sk_resolve EVENT_BANNER_KIND i current c))"
    if "current_fits (sk_type EVENT_BANNER_KIND) current" for i current c
    using that by (auto simp: banner_resolve_def current_fits_def columns_fit_def Let_def
        EMPTY_KIND_COLUMNS_def split: option.splits)
  show "\<exists>d'. ds_load ds (ds_save ds i d db) i = Some d' \<and> detail_fits (sk_type EVENT_BANNER_KIND) d'
      \<and> ds_equals ds d' d"
    if "sk_details EVENT_BANNER_KIND = Some ds" "detail_fits (sk_type EVENT_BANNER_KIND) d" for ds i d db
    using that by (auto simp: banner_load_save banner_equals_def)
  show "ds_load ds (ds_save ds i d db) j = ds_load ds db j"
    if "sk_details EVENT_BANNER_KIND = Some ds" "j \<noteq> i" for ds i j d db
    using that by (auto simp: banner_load_save_other)
qed (auto simp: banner_validate_Nil banner_equals_def banner_resolve_def
      empty_input_def banner_save_def split: detail.splits)

interpretation story: submission_kind_laws STORY_KIND
proof unfold_locales
  show "detail_fits (sk_type STORY_KIND) (rc_detail (sk_resolve STORY_KIND i current c))"
    if "current_fits (sk_type STORY_KIND) current" for i current c
    using that by (auto simp: story_resolve_def current_fits_def split: option.splits)
  show "columns_fit (sk_type STORY_KIND) (rc_columns (sk_resolve STORY_KIND i current c))"
    if "current_fits (sk_type STORY_KIND) current" for i current c
    using that by (auto simp: story_resolve_def current_fits_def columns_fit_def
        EMPTY_KIND_COLUMNS_def split: option.splits)
  show "\<exists>d'. ds_load ds (ds_save ds i d db) i = Some d' \<and> detail_fits (sk_type STORY_KIND) d'
      \<and> ds_equals ds d' d"
    if "sk_details STORY_KIND = Some ds" "detail_fits (sk_type STORY_KIND) d" for ds i d db
  proof -
    from that obtain s where s: "d = Story s" by auto
    from story_load_save[of i s db] that(1) show ?thesis by (auto simp: s story_equals_def)
  qed
  show "ds_load ds (ds_save ds i d db) j = ds_load ds db j"
    if "sk_details STORY_KIND = Some ds" "j \<noteq> i" for ds i j d db
    using that by (auto simp: story_load_save_other)
qed (auto simp: story_equals_def story_resolve_def story_periodFrom_def
      storyDisplayDays_def empty_input_def story_save_def split: detail.splits)

lemma kindOf_laws: "submission_kind_laws (kindOf t)"
  using poster.submission_kind_laws_axioms banner.submission_kind_laws_axioms
    story.submission_kind_laws_axioms by (cases t) simp_all

lemmas kind_laws = kindOf_laws[THEN submission_kind_laws.requested_order]
  kindOf_laws[THEN submission_kind_laws.approval_order]
  kindOf_laws[THEN submission_kind_laws.resolve_fits, unfolded sk_type_kindOf]
  kindOf_laws[THEN submission_kind_laws.resolve_columns, unfolded sk_type_kindOf]
  kindOf_laws[THEN submission_kind_laws.resolve_idle, unfolded sk_type_kindOf]

section \<open>Rules of one kind\<close>

text \<open>What a stored banner promises: its CHECK constraints, consent for a photo, an image to show.\<close>

definition banner_content_ok :: "kind_columns \<Rightarrow> banner_detail \<Rightarrow> bool" where
  "banner_content_ok cols b \<longleftrightarrow> event_banner_checks (banner_row 0 b)
     \<and> (bd_mode b = TEMPLATE \<and> k_assetId cols \<noteq> None \<longrightarrow> bd_photoConsent b)
     \<and> (bd_mode b = MODE_IMAGE \<longrightarrow> k_assetId cols \<noteq> None)"

lemma banner_form_errors_Nil:
  "banner_form_errors b = [] \<longleftrightarrow>
     (bi_mode b = TEMPLATE \<longrightarrow> bi_occasion b \<noteq> None \<and> truthy (bi_headline b) \<and> truthy (bi_message b)
        \<and> bi_assetId b = None \<and> (bi_photoAssetId b \<noteq> None \<longrightarrow> bi_photoConsent b))
     \<and> (bi_mode b \<noteq> TEMPLATE \<longrightarrow> bi_assetId b \<noteq> None \<and> bi_photoAssetId b = None)"
  by (simp add: banner_form_errors_def)

text \<open>
  banner content that is accepted, on creation or over content accepted before, meets the CHECK
  constraints of its table, shows a photo only with the consent of the people in it, and in image
  mode has an image.
\<close>

theorem banner_resolve_content:
  assumes "rc_errors (banner_resolve inp current c) = []"
    and "\<forall>cols d. current = Some (cols, d) \<longrightarrow> (\<exists>b. d = Banner b \<and> banner_content_ok cols b)"
  shows "\<exists>b. rc_detail (banner_resolve inp current c) = Banner b
           \<and> banner_content_ok (rc_columns (banner_resolve inp current c)) b"
proof (cases "ki_eventBanner inp")
  case None
  with assms show ?thesis
    by (auto simp: banner_resolve_def split: option.splits prod.splits)
next
  case (Some b)
  have e: "banner_form_errors b = []"
    using assms(1) Some by (auto simp: banner_resolve_def Let_def split: option.splits if_splits)
  show ?thesis
    using e[unfolded banner_form_errors_Nil]
    by (cases "bi_mode b")
      (auto simp: Some banner_resolve_def Let_def banner_content_ok_def event_banner_checks_def
        banner_row_def truthy_def EMPTY_KIND_COLUMNS_def split: option.splits)
qed

definition sample_banner_input :: kind_input where
  "sample_banner_input = empty_input\<lparr>ki_eventBanner := Some \<lparr>bi_mode = TEMPLATE,
     bi_occasion = Some BIRTHDAY, bi_recipient = [51648], bi_headline = Some [52629],
     bi_message = Some [52629], bi_sender = None, bi_photoAssetId = Some 5, bi_photoConsent = True,
     bi_assetId = None\<rparr>\<rparr>"

definition sample_asset :: asset where
  "sample_asset = \<lparr>a_id = 5, a_ownerId = 7, a_status = READY, a_kind = IMAGE, a_fileName = [],
     a_declaredMimeType = ''image/png'', a_declaredSizeBytes = 10, a_declaredChecksum = None,
     a_uploadExpiresAt = 0, a_mimeType = Some ''image/png'', a_width = Some 8, a_height = Some 8,
     a_sizeBytes = Some 10, a_checksum = Some ''sha256:aa'', a_durationMs = None, a_hasAudio = None,
     a_processingAttempts = 0, a_processingStartedAt = None, a_rejectionReason = None,
     a_processedAt = Some 0, a_createdAt = 0, a_updatedAt = 0\<rparr>"

definition sample_kind_context :: kind_context where
  "sample_kind_context = \<lparr>findOwnedAsset = (\<lambda>i. if i = 5 then Some sample_asset else None),
     isActiveCategory = (\<lambda>_. True), parseURL = (\<lambda>_. None)\<rparr>"

theorem banner_resolve_content_witness:
  "\<exists>b. rc_detail (banner_resolve sample_banner_input None sample_kind_context) = Banner b
     \<and> banner_content_ok (rc_columns (banner_resolve sample_banner_input None sample_kind_context)) b"
  by (rule banner_resolve_content)
    (simp_all add: banner_resolve_def sample_banner_input_def empty_input_def Let_def
      sample_kind_context_def checkMediaAsset_def sample_asset_def banner_form_errors_def truthy_def)

lemma midnights_whole_days:
  assumes "seoul_clock a = 0" "seoul_clock b = 0"
  shows "\<exists>n. b = a + n * 86400000"
proof -
  have "86400000 dvd a + SEOUL_OFFSET_MS" "86400000 dvd b + SEOUL_OFFSET_MS"
    using assms by (simp_all add: seoul_clock_def time_in_day_def msPerDay_def dvd_eq_mod_eq_0)
  then have "86400000 dvd (b + SEOUL_OFFSET_MS) - (a + SEOUL_OFFSET_MS)" by (rule dvd_diff[rotated])
  then obtain n where "b - a = 86400000 * n" by (auto elim: dvdE)
  then have "b = a + n * 86400000" by simp
  then show ?thesis ..
qed

text \<open>
  a banner period that is accepted consists of one, two or three whole Seoul days, from midnight
  to midnight, and ends in the future.
\<close>

theorem banner_period_whole_days:
  assumes "banner_validate a b t = []"
    and "0 \<le> fst (seoul_civil a)" "fst (seoul_civil a) \<le> 9999"
    and "0 \<le> fst (seoul_civil b)" "fst (seoul_civil b) \<le> 9999"
  shows "seoul_clock a = 0 \<and> t < b \<and> (\<exists>n. 1 \<le> n \<and> n \<le> 3 \<and> b = a + n * 86400000)"
proof -
  from assms(1) have v: "a < b" "t < b" "isSeoulMidnight a" "isSeoulMidnight b"
      "b - a \<le> eventBannerMaxDays * 86400000"
    by (simp_all add: banner_validate_Nil)
  have z: "seoul_clock a = 0" "seoul_clock b = 0"
    using startOfSeoulDay_seoulDate_eq[OF assms(2,3)] startOfSeoulDay_seoulDate_eq[OF assms(4,5)] v(3,4)
    by (simp_all add: isSeoulMidnight_def)
  then obtain n where n: "b = a + n * 86400000" using midnights_whole_days by blast
  with v(1,5) have "1 \<le> n" "n \<le> 3" by (simp_all add: eventBannerMaxDays_def)
  with z n v(2) show ?thesis by blast
qed

theorem banner_period_whole_days_witness:
  "seoul_clock 1769785200000 = 0 \<and> (0::int) < 1769871600000
   \<and> (\<exists>n. 1 \<le> n \<and> n \<le> 3 \<and> (1769871600000::int) = 1769785200000 + n * 86400000)"
  by (rule banner_period_whole_days) code_simp+

section \<open>Story numbers\<close>

text \<open>The numbers given so far are below the sequence and no two stories share one.\<close>

definition story_numbers_ok :: "database \<Rightarrow> bool" where
  "story_numbers_ok db \<longleftrightarrow>
     (\<forall>r \<in> set (t_stories db). \<forall>q \<in> set (t_stories db). st_storyNumber r \<noteq> None
        \<longrightarrow> st_storyNumber r = st_storyNumber q \<longrightarrow> st_submissionId r = st_submissionId q)
     \<and> (\<forall>r \<in> set (t_stories db). \<forall>n. st_storyNumber r = Some n \<longrightarrow> n < storyNumberSeq db)"

lemma story_numbers_okI:
  assumes "\<And>r q. r \<in> set (t_stories db) \<Longrightarrow> q \<in> set (t_stories db) \<Longrightarrow> st_storyNumber r \<noteq> None
      \<Longrightarrow> st_storyNumber r = st_storyNumber q \<Longrightarrow> st_submissionId r = st_submissionId q"
    and "\<And>r n. r \<in> set (t_stories db) \<Longrightarrow> st_storyNumber r = Some n \<Longrightarrow> n < storyNumberSeq db"
  shows "story_numbers_ok db"
  unfolding story_numbers_ok_def using assms by blast

lemma story_numbers_okD:
  assumes "story_numbers_ok db" and "r \<in> set (t_stories db)"
  shows "q \<in> set (t_stories db) \<Longrightarrow> st_storyNumber r \<noteq> None \<Longrightarrow> st_storyNumber r = st_storyNumber q
      \<Longrightarrow> st_submissionId r = st_submissionId q"
    and "st_storyNumber r = Some n \<Longrightarrow> n < storyNumberSeq db"
  using assms unfolding story_numbers_ok_def by blast+

lemma story_onApprove_numbers [inv_intros]:
  assumes ok: "story_numbers_ok db"
  shows "story_numbers_ok (story_onApprove i db)"
proof (cases "first_row (\<lambda>r. st_submissionId r = i) (t_stories db) = None")
  case True
  with ok show ?thesis by (simp add: story_onApprove_def)
next
  case False
  let ?n = "storyNumberSeq db" and ?db = "story_onApprove i db"
  have c: "(st_submissionId r = i \<and> st_storyNumber r = Some ?n) \<or> r \<in> set (t_stories db)"
    if "r \<in> set (t_stories ?db)" for r
    using that False by (auto simp: story_onApprove_def set_update_where)
  have n: "storyNumberSeq ?db = ?n + 1" using False by (simp add: story_onApprove_def)
  show ?thesis
  proof (rule story_numbers_okI)
    fix r q assume m: "r \<in> set (t_stories ?db)" "q \<in> set (t_stories ?db)"
      and e: "st_storyNumber r \<noteq> None" "st_storyNumber r = st_storyNumber q"
    from c[OF m(1)] c[OF m(2)] e story_numbers_okD(2)[OF ok, of r ?n] story_numbers_okD(2)[OF ok, of q ?n]
      story_numbers_okD(1)[OF ok, of r q]
    show "st_submissionId r = st_submissionId q" by (elim disjE) auto
  next
    fix r k assume "r \<in> set (t_stories ?db)" "st_storyNumber r = Some k"
    with c[of r] story_numbers_okD(2)[OF ok, of r k] n show "k < storyNumberSeq ?db" by auto
  qed
qed

lemma story_save_numbers [inv_intros]:
  assumes ok: "story_numbers_ok db"
  shows "story_numbers_ok (story_save i d db)"
proof -
  have c: "\<exists>q \<in> set (t_stories db). st_submissionId q = st_submissionId r \<and> st_storyNumber q = st_storyNumber r"
    if "r \<in> set (t_stories (story_save i d db))" "st_storyNumber r \<noteq> None" for r
    using that by (cases d) (auto simp: story_save_def upsert_def set_update_where split: if_splits)
  have n: "storyNumberSeq (story_save i d db) = storyNumberSeq db"
    by (cases d) (simp_all add: story_save_def)
  show ?thesis
  proof (rule story_numbers_okI)
    fix r q assume m: "r \<in> set (t_stories (story_save i d db))" "q \<in> set (t_stories (story_save i d db))"
      and e: "st_storyNumber r \<noteq> None" "st_storyNumber r = st_storyNumber q"
    from c[OF m(1)] e obtain r0 where r0: "r0 \<in> set (t_stories db)"
      "st_submissionId r0 = st_submissionId r" "st_storyNumber r0 = st_storyNumber r" by auto
    from c[OF m(2)] e obtain q0 where q0: "q0 \<in> set (t_stories db)"
      "st_submissionId q0 = st_submissionId q" "st_storyNumber q0 = st_storyNumber q" by auto
    from story_numbers_okD(1)[OF ok r0(1) q0(1)] r0 q0 e
    show "st_submissionId r = st_submissionId q" by simp
  next
    fix r k assume "r \<in> set (t_stories (story_save i d db))" "st_storyNumber r = Some k"
    with c[of r] story_numbers_okD(2)[OF ok, of _ k] n
    show "k < storyNumberSeq (story_save i d db)" by auto
  qed
qed

lemma story_onApprove_tables [simp]:
  "t_submissions (story_onApprove i db) = t_submissions db"
  "t_reviews (story_onApprove i db) = t_reviews db"
  "t_auditLogs (story_onApprove i db) = t_auditLogs db"
  "t_submissionTargetGroups (story_onApprove i db) = t_submissionTargetGroups db"
  "t_users (story_onApprove i db) = t_users db"
  "t_assets (story_onApprove i db) = t_assets db"
  "t_eventBanners (story_onApprove i db) = t_eventBanners db"
  by (simp_all add: story_onApprove_def)

lemma story_onApprove_load:
  "story_load (story_onApprove i db) i
   = map_option (\<lambda>d. case d of Story s \<Rightarrow> Story (s\<lparr>sd_storyNumber := Some (storyNumberSeq db)\<rparr>) | _ \<Rightarrow> d)
       (story_load db i)"
  by (auto simp: story_load_def story_onApprove_def first_row_update_where_same
      dest: first_row_Some)

end
