(* ===== verification/Submissions.thy ===== *)
theory Submissions
  imports Kind_Laws
begin

text \<open>
  The submission service, \<open>src/src/submissions/submissions.service.ts\<close>, with the lookups it takes
  from \<open>categories.service.ts\<close> and \<open>target-groups.service.ts\<close>. A handler that reads, decides and
  then writes in a transaction is two functions: \<open>..._prepare\<close> reads the database and checks,
  \<open>..._commit\<close> is the transaction, which may run on a database that has moved on in between. A
  transaction that throws leaves the database as it was, so it returns only its error.
\<close>

section \<open>Lookups\<close>

definition findActiveCategories :: "database \<Rightarrow> (slug \<times> utext) list" where
  "findActiveCategories db =
     map (\<lambda>c. (c_id c, c_name c))
       (order_asc (\<lambda>c. (c_sortOrder c, c_id c)) (select c_isActive (t_categories db)))"

definition categoryIsActive :: "database \<Rightarrow> slug \<Rightarrow> bool" where
  "categoryIsActive db i \<longleftrightarrow> first_row (\<lambda>c. c_id c = i \<and> c_isActive c) (t_categories db) \<noteq> None"

definition findOwnedOrNull :: "database \<Rightarrow> uuid \<Rightarrow> uuid \<Rightarrow> asset option" where
  "findOwnedOrNull db ownerId assetId =
     first_row (\<lambda>a. a_id a = assetId \<and> a_ownerId a = ownerId) (t_assets db)"

definition findUnavailable :: "database \<Rightarrow> slug list \<Rightarrow> slug list" where
  "findUnavailable db ids =
     filter (\<lambda>i. i \<notin> tg_id ` set (select (\<lambda>g. tg_id g \<in> set ids \<and> tg_isActive g) (t_targetGroups db))) ids"

definition validateTargetGroups :: "database \<Rightarrow> slug list \<Rightarrow> field_errors" where
  "validateTargetGroups db ids =
     (if ids = [] then []
      else let unavailable = findUnavailable db ids
           in if unavailable \<noteq> []
              then [(''targetGroupIds'', MsgOf ''These target groups cannot be chosen'' (JArr (map JText unavailable)))]
              else [])"

definition kindContext :: "(utext \<Rightarrow> url option) \<Rightarrow> uuid \<Rightarrow> database \<Rightarrow> kind_context" where
  "kindContext urls userId db =
     \<lparr>findOwnedAsset = findOwnedOrNull db userId, isActiveCategory = categoryIsActive db,
      parseURL = urls\<rparr>"

section \<open>Inputs\<close>

record create_dto =
  cd_type :: "submission_type option"
  cd_kind :: kind_input
  cd_startAt :: "time option"
  cd_endAt :: "time option"
  cd_targetGroupIds :: "slug list option"

record update_dto =
  ud_version :: int
  ud_kind :: kind_input
  ud_startAt :: "time option"
  ud_endAt :: "time option"
  ud_targetGroupIds :: "slug list option"

definition unacceptedFields ::
    "submission_kind \<Rightarrow> kind_input \<Rightarrow> time option \<Rightarrow> time option \<Rightarrow> slug list option \<Rightarrow> field_errors"
  where
  "unacceptedFields k inp startAt endAt groups =
     map (\<lambda>f. (f, Msg ''This field cannot be used for a submission of this kind.''))
       (filter (\<lambda>f. f \<notin> set (sk_inputFields k)) (given_fields inp)
        @ (case sk_schedule k of
             ON_APPROVAL _ \<Rightarrow> (if startAt \<noteq> None then [''startAt''] else [])
                             @ (if endAt \<noteq> None then [''endAt''] else [])
           | REQUESTED _ \<Rightarrow> [])
        @ (if \<not> sk_targetable k \<and> groups \<noteq> None \<and> groups \<noteq> Some [] then [''targetGroupIds''] else []))"

definition validateSchedule ::
    "submission_kind \<Rightarrow> time option \<Rightarrow> time option \<Rightarrow> time \<Rightarrow> field_errors" where
  "validateSchedule k startAt endAt t = (case sk_schedule k of
      REQUESTED v \<Rightarrow> (case (startAt, endAt) of (Some a, Some b) \<Rightarrow> v a b t | _ \<Rightarrow> [])
    | ON_APPROVAL _ \<Rightarrow> [])"

section \<open>Errors\<close>

definition submission_notFound :: exc where
  "submission_notFound = app_error 404 NOT_FOUND ''Submission not found''"

definition conflict :: "string \<Rightarrow> exc" where
  "conflict m = app_error 409 CONFLICT m"

definition status_conflict :: "submission_status \<Rightarrow> string \<Rightarrow> exc" where
  "status_conflict s verb = AppException 409 CONFLICT
     (MsgJoin [Msg ''Submission in'', Msg (case s of DRAFT \<Rightarrow> ''DRAFT''
        | PENDING_REVIEW \<Rightarrow> ''PENDING_REVIEW'' | REJECTED \<Rightarrow> ''REJECTED'' | APPROVED \<Rightarrow> ''APPROVED''
        | SCHEDULED \<Rightarrow> ''SCHEDULED'' | PUBLISHED \<Rightarrow> ''PUBLISHED'' | ENDED \<Rightarrow> ''ENDED''
        | SUSPENDED \<Rightarrow> ''SUSPENDED'' | CANCELED \<Rightarrow> ''CANCELED'' | ARCHIVED \<Rightarrow> ''ARCHIVED''),
      Msg verb]) None None"

definition notResubmittable :: exc where
  "notResubmittable = app_error 409 NOT_RESUBMITTABLE
     ''This kind cannot be resubmitted after review. Write a new one''"

definition alreadySubmitted :: exc where
  "alreadySubmitted = AppException 409 ALREADY_SUBMITTED
     (Msg ''A submission for this notice already exists'')
     (Some [(''detailUrl'', Msg ''There already is a submission for this notice.'')]) None"

definition type_json :: "submission_type \<Rightarrow> json" where
  "type_json t = JText (case t of POSTER \<Rightarrow> ''POSTER'' | EVENT_BANNER \<Rightarrow> ''EVENT_BANNER'' | STORY \<Rightarrow> ''STORY'')"

definition status_json :: "submission_status \<Rightarrow> json" where
  "status_json s = JText (case s of DRAFT \<Rightarrow> ''DRAFT'' | PENDING_REVIEW \<Rightarrow> ''PENDING_REVIEW''
     | REJECTED \<Rightarrow> ''REJECTED'' | APPROVED \<Rightarrow> ''APPROVED'' | SCHEDULED \<Rightarrow> ''SCHEDULED''
     | PUBLISHED \<Rightarrow> ''PUBLISHED'' | ENDED \<Rightarrow> ''ENDED'' | SUSPENDED \<Rightarrow> ''SUSPENDED''
     | CANCELED \<Rightarrow> ''CANCELED'' | ARCHIVED \<Rightarrow> ''ARCHIVED'')"

definition dailyLimitExceeded :: "submission_type \<Rightarrow> nat \<Rightarrow> exc" where
  "dailyLimitExceeded t limit = AppException 429 DAILY_LIMIT_EXCEEDED
     (MsgOf ''Daily limit exceeded'' (type_json t)) None
     (Some [(''type'', type_json t), (''limit'', JNum (int limit))])"

text \<open>A failing constraint the handlers do not translate: an internal error.\<close>

definition foreignKeyError :: exc where
  "foreignKeyError = Thrown None False (Some (Msg ''foreign key violation''))"

definition invalidTime :: exc where
  "invalidTime = Thrown None False (Some (Msg ''Invalid time value''))"

section \<open>Rows\<close>

definition findSubmission :: "database \<Rightarrow> uuid \<Rightarrow> submission option" where
  "findSubmission db i = first_row (\<lambda>s. s_id s = i) (t_submissions db)"

definition lastDecision :: "database \<Rightarrow> uuid \<Rightarrow> review_decision option" where
  "lastDecision db i =
     (case order_desc (\<lambda>r. (r_reviewedAt r, r_id r)) (select (\<lambda>r. r_submissionId r = i) (t_reviews db)) of
        [] \<Rightarrow> None | r # _ \<Rightarrow> Some (r_decision r))"

definition joinRow :: "database \<Rightarrow> submission \<Rightarrow> submission_row option" where
  "joinRow db s = map_option (\<lambda>u.
     let a = Option.bind (s_assetId s) (\<lambda>i. first_row (\<lambda>a. a_id a = i) (t_assets db))
     in \<lparr>sr = s,
         sr_categoryName = Option.bind (s_categoryId s)
           (\<lambda>i. map_option c_name (first_row (\<lambda>c. c_id c = i) (t_categories db))),
         sr_requesterName = u_name u, sr_assetKind = map_option a_kind a,
         sr_assetWidth = Option.bind a a_width, sr_assetHeight = Option.bind a a_height,
         sr_assetDurationMs = Option.bind a a_durationMs,
         sr_lastDecision = lastDecision db (s_id s)\<rparr>)
     (first_row (\<lambda>u. u_id u = s_requesterId s) (t_users db))"

definition selectSubmissionRows :: "database \<Rightarrow> (submission \<Rightarrow> bool) \<Rightarrow> submission_row list" where
  "selectSubmissionRows db P = List.map_filter (joinRow db) (select P (t_submissions db))"

definition findRow :: "database \<Rightarrow> uuid \<Rightarrow> submission_row option" where
  "findRow db i = (case selectSubmissionRows db (\<lambda>s. s_id s = i) of [] \<Rightarrow> None | r # _ \<Rightarrow> Some r)"

definition targetGroupIdsOf :: "database \<Rightarrow> uuid \<Rightarrow> slug list" where
  "targetGroupIdsOf db i =
     map stg_targetGroupId (order_asc stg_targetGroupId
       (select (\<lambda>r. stg_submissionId r = i) (t_submissionTargetGroups db)))"

definition detailOf :: "database \<Rightarrow> submission_type \<Rightarrow> uuid \<Rightarrow> detail" where
  "detailOf db t i = (case sk_details (kindOf t) of
      None \<Rightarrow> NoDetail
    | Some ds \<Rightarrow> (case ds_load ds db i of None \<Rightarrow> NoDetail | Some d \<Rightarrow> d))"

definition kindColumnsOf :: "submission \<Rightarrow> kind_columns" where
  "kindColumnsOf s = \<lparr>k_title = s_title s, k_categoryId = s_categoryId s, k_assetId = s_assetId s,
     k_detailUrl = s_detailUrl s, k_ziggleNoticeId = s_ziggleNoticeId s,
     k_organizerName = s_organizerName s, k_subtitle = s_subtitle s, k_location = s_location s,
     k_description = s_description s\<rparr>"

definition setKindColumns :: "kind_columns \<Rightarrow> submission \<Rightarrow> submission" where
  "setKindColumns k s = s\<lparr>s_title := k_title k, s_categoryId := k_categoryId k,
     s_assetId := k_assetId k, s_detailUrl := k_detailUrl k, s_ziggleNoticeId := k_ziggleNoticeId k,
     s_organizerName := k_organizerName k, s_subtitle := k_subtitle k, s_location := k_location k,
     s_description := k_description k\<rparr>"

section \<open>Responses\<close>

record submission_dto =
  dto_id :: uuid
  dto_requesterId :: "uuid option"
  dto_requesterName :: "utext option"
  dto_type :: submission_type
  dto_title :: utext
  dto_kind :: kind_response
  dto_startAt :: "time option"
  dto_endAt :: "time option"
  dto_status :: submission_status
  dto_priority :: int
  dto_targetGroupIds :: "slug list"
  dto_version :: int
  dto_lastDecision :: "review_decision option"
  dto_submittedAt :: "time option"
  dto_createdAt :: time
  dto_updatedAt :: time

definition submission_toDto ::
    "(storage_key \<Rightarrow> string) \<Rightarrow> uuid \<Rightarrow> submission_row \<Rightarrow> slug list \<Rightarrow> detail \<Rightarrow> submission_dto" where
  "submission_toDto pub viewer row groups d =
     (let s = sr row; k = kindOf (s_type s);
          hideRequester = (sk_anonymous k \<and> viewer \<noteq> s_requesterId s)
      in \<lparr>dto_id = s_id s,
          dto_requesterId = (if hideRequester then None else Some (s_requesterId s)),
          dto_requesterName = (if hideRequester then None else Some (sr_requesterName row)),
          dto_type = s_type s, dto_title = s_title s, dto_kind = sk_toResponse k row d pub,
          dto_startAt = s_startAt s, dto_endAt = s_endAt s, dto_status = s_status s,
          dto_priority = s_priority s, dto_targetGroupIds = groups, dto_version = s_version s,
          dto_lastDecision = sr_lastDecision row, dto_submittedAt = s_submittedAt s,
          dto_createdAt = s_createdAt s, dto_updatedAt = s_updatedAt s\<rparr>)"

definition rowDto :: "(storage_key \<Rightarrow> string) \<Rightarrow> uuid \<Rightarrow> database \<Rightarrow> submission_row \<Rightarrow> submission_dto" where
  "rowDto pub viewer db row =
     submission_toDto pub viewer row (targetGroupIdsOf db (s_id (sr row)))
       (detailOf db (s_type (sr row)) (s_id (sr row)))"

text \<open>\<open>detail\<close>: the response with the server time.\<close>

definition submission_detail ::
    "(storage_key \<Rightarrow> string) \<Rightarrow> uuid \<Rightarrow> time \<Rightarrow> uuid \<Rightarrow> database \<Rightarrow> (submission_dto \<times> time) res" where
  "submission_detail pub i t viewer db =
     bindE (requireE (findRow db i) submission_notFound) (\<lambda>row. Inr (rowDto pub viewer db row, t))"

section \<open>The guarded update\<close>

text \<open>
  \<open>UPDATE ... WHERE id = i AND version = v RETURNING id\<close>: the new table, or nothing when no row
  had that version.
\<close>

definition versioned_update ::
    "uuid \<Rightarrow> int \<Rightarrow> (submission \<Rightarrow> submission) \<Rightarrow> submission table \<Rightarrow> submission table option" where
  "versioned_update i v f t =
     (let hit = (\<lambda>s. s_id s = i \<and> s_version s = v)
      in if select hit t = [] then None else Some (update_where hit f t))"

definition applyTransition ::
    "submission \<Rightarrow> submission_status \<Rightarrow> time \<Rightarrow> (submission \<Rightarrow> submission) \<Rightarrow> database \<Rightarrow> database res" where
  "applyTransition current status t extra db =
     (case versioned_update (s_id current) (s_version current)
             (\<lambda>s. (extra s)\<lparr>s_status := status, s_version := s_version current + 1, s_updatedAt := t\<rparr>)
             (t_submissions db) of
        None \<Rightarrow> Inl (conflict ''Submission was modified'')
      | Some tab \<Rightarrow> Inr (db\<lparr>t_submissions := tab\<rparr>))"

text \<open>Whether a row breaks the partial unique index, against the other rows of the table.\<close>

definition notice_taken :: "submission table \<Rightarrow> submission \<Rightarrow> bool" where
  "notice_taken t s \<longleftrightarrow> notice_active s
     \<and> list_ex (\<lambda>r. s_id r \<noteq> s_id s \<and> notice_active r \<and> s_ziggleNoticeId r = s_ziggleNoticeId s) t"

definition references_exist :: "database \<Rightarrow> submission \<Rightarrow> bool" where
  "references_exist db s \<longleftrightarrow>
     (case s_assetId s of None \<Rightarrow> True | Some i \<Rightarrow> list_ex (\<lambda>a. a_id a = i) (t_assets db))
     \<and> (case s_categoryId s of None \<Rightarrow> True | Some i \<Rightarrow> list_ex (\<lambda>c. c_id c = i) (t_categories db))
     \<and> list_ex (\<lambda>u. u_id u = s_requesterId s) (t_users db)"

definition groups_exist :: "database \<Rightarrow> slug list \<Rightarrow> bool" where
  "groups_exist db ids \<longleftrightarrow> list_all (\<lambda>i. list_ex (\<lambda>g. tg_id g = i) (t_targetGroups db)) ids"

definition insert_target_groups :: "uuid \<Rightarrow> slug list \<Rightarrow> database \<Rightarrow> database" where
  "insert_target_groups i ids db =
     db\<lparr>t_submissionTargetGroups := t_submissionTargetGroups db
          @ map (\<lambda>g. \<lparr>stg_submissionId = i, stg_targetGroupId = g\<rparr>) ids\<rparr>"

definition save_detail :: "submission_kind \<Rightarrow> uuid \<Rightarrow> detail \<Rightarrow> database \<Rightarrow> database" where
  "save_detail k i d db = (case sk_details k of None \<Rightarrow> db | Some ds \<Rightarrow> ds_save ds i d db)"

definition submission_audit ::
    "audit_actor_type \<Rightarrow> uuid option \<Rightarrow> audit_action \<Rightarrow> uuid \<Rightarrow> utext option \<Rightarrow> json option \<Rightarrow> time
       \<Rightarrow> audit_entry" where
  "submission_audit actor actorId action i reason metadata t =
     \<lparr>ae_actorType = actor, ae_actorId = actorId, ae_action = action,
      ae_targetType = TARGET_SUBMISSION, ae_targetId = IdUuid i, ae_reason = reason,
      ae_metadata = metadata, ae_at = t\<rparr>"

section \<open>Creating\<close>

record create_plan =
  cp_kind :: submission_kind
  cp_period :: "time option \<times> time option"
  cp_resolved :: resolved_content
  cp_groups :: "slug list"

definition create_prepare ::
    "(utext \<Rightarrow> url option) \<Rightarrow> time \<Rightarrow> auth_user \<Rightarrow> create_dto \<Rightarrow> database \<Rightarrow> create_plan res" where
  "create_prepare urls t u dto db =
     (let k = kindOf (case cd_type dto of Some x \<Rightarrow> x | None \<Rightarrow> POSTER);
          period = (case sk_schedule k of REQUESTED _ \<Rightarrow> (cd_startAt dto, cd_endAt dto)
                    | ON_APPROVAL _ \<Rightarrow> (None, None));
          groups = (if sk_targetable k then (case cd_targetGroupIds dto of Some g \<Rightarrow> g | None \<Rightarrow> []) else []);
          resolved = sk_resolve k (cd_kind dto) None (kindContext urls (au_id u) db);
          errors = obj_spread (obj_spread (obj_spread
                     (unacceptedFields k (cd_kind dto) (cd_startAt dto) (cd_endAt dto) (cd_targetGroupIds dto))
                     (validateSchedule k (fst period) (snd period) t))
                     (rc_errors resolved))
                     (validateTargetGroups db groups)
      in if errors \<noteq> [] then Inl (validationFailed errors)
         else Inr \<lparr>cp_kind = k, cp_period = period, cp_resolved = resolved, cp_groups = groups\<rparr>)"

text \<open>The submissions of a user and kind that count towards the limit of the day of \<open>t\<close>.\<close>

definition created_today :: "uuid \<Rightarrow> submission_type \<Rightarrow> time \<Rightarrow> submission table \<Rightarrow> submission list" where
  "created_today userId ty t tab =
     select (\<lambda>s. s_requesterId s = userId \<and> s_type s = ty
        \<and> (case startOfSeoulDay (seoulDate t) of Some d \<Rightarrow> d \<le> s_createdAt s | None \<Rightarrow> False)) tab"

definition assertDailyLimit :: "auth_user \<Rightarrow> submission_kind \<Rightarrow> time \<Rightarrow> database \<Rightarrow> unit res" where
  "assertDailyLimit u k t db = (case sk_dailyLimit k of
      None \<Rightarrow> Inr ()
    | Some limit \<Rightarrow>
        if limit \<le> length (created_today (au_id u) (sk_type k) t (t_submissions db))
        then Inl (dailyLimitExceeded (sk_type k) limit) else Inr ())"

definition new_submission :: "uuid \<Rightarrow> uuid \<Rightarrow> time \<Rightarrow> create_plan \<Rightarrow> submission" where
  "new_submission newId userId t p =
     setKindColumns (rc_columns (cp_resolved p))
       \<lparr>s_id = newId, s_type = sk_type (cp_kind p), s_requesterId = userId, s_ziggleNoticeId = None,
        s_title = [], s_categoryId = None, s_assetId = None, s_detailUrl = None,
        s_startAt = fst (cp_period p), s_endAt = snd (cp_period p), s_status = PENDING_REVIEW,
        s_priority = 0, s_organizerName = None, s_subtitle = None, s_location = None,
        s_description = None, s_version = 1, s_submittedAt = Some t, s_createdAt = t,
        s_updatedAt = t\<rparr>"

definition create_commit :: "ctx \<Rightarrow> auth_user \<Rightarrow> create_plan \<Rightarrow> database \<Rightarrow> (database \<times> uuid) res" where
  "create_commit c u p db =
     (let i = uuids c 0; row = new_submission i (au_id u) (now c) p
      in bindE (assertDailyLimit u (cp_kind p) (now c) db) (\<lambda>_.
         if (case sk_schedule (cp_kind p) of REQUESTED _ \<Rightarrow> fst (cp_period p) = None \<or> snd (cp_period p) = None
             | ON_APPROVAL _ \<Rightarrow> False) then Inl invalidTime
         else if notice_taken (t_submissions db) row then Inl alreadySubmitted
         else if \<not> references_exist db row \<or> \<not> groups_exist db (cp_groups p) then Inl foreignKeyError
         else Inr (record_audit (currentRequestId c) (uuids c 1)
                (submission_audit ACTOR_USER (Some (au_id u)) SUBMISSION_CREATED i None None (now c))
                (insert_target_groups i (cp_groups p)
                  (save_detail (cp_kind p) i (rc_detail (cp_resolved p))
                    (db\<lparr>t_submissions := insert_row row (t_submissions db)\<rparr>))), i)))"

definition create_submission ::
    "(utext \<Rightarrow> url option) \<Rightarrow> (storage_key \<Rightarrow> string) \<Rightarrow> ctx \<Rightarrow> auth_user \<Rightarrow> create_dto \<Rightarrow> database
       \<Rightarrow> (database \<times> (submission_dto \<times> time)) res" where
  "create_submission urls pub c u dto db =
     bindE (create_prepare urls (now c) u dto db) (\<lambda>p.
     bindE (create_commit c u p db) (\<lambda>(db', i).
     bindE (submission_detail pub i (now c) (au_id u) db') (\<lambda>r. Inr (db', r))))"

end
