(* ===== verification/Submission_Changes.thy ===== *)
theory Submission_Changes
  imports Submissions
begin

text \<open>
  The other handlers of \<open>submissions.service.ts\<close>: editing, resubmitting, canceling, revealing the
  author, and the lists and counts; and \<open>submissions/review-summary.ts\<close>.
\<close>

section \<open>Reading one's own submission\<close>

definition findOwnRow :: "auth_user \<Rightarrow> uuid \<Rightarrow> int \<Rightarrow> database \<Rightarrow> submission_row res" where
  "findOwnRow u i version db =
     bindE (requireE (findRow db i) submission_notFound) (\<lambda>row.
       if s_requesterId (sr row) \<noteq> au_id u then Inl submission_notFound
       else if s_version (sr row) \<noteq> version then Inl (conflict ''Submission was modified'')
       else Inr row)"

definition findOne :: "(storage_key \<Rightarrow> string) \<Rightarrow> time \<Rightarrow> auth_user \<Rightarrow> uuid \<Rightarrow> database
    \<Rightarrow> (submission_dto \<times> time) res" where
  "findOne pub t u i db = (case findRow db i of
      None \<Rightarrow> Inl submission_notFound
    | Some row \<Rightarrow> if s_requesterId (sr row) \<noteq> au_id u \<and> \<not> isReviewer (au_roles u)
        then Inl submission_notFound else submission_detail pub i t (au_id u) db)"

section \<open>Editing\<close>

definition changed_fields :: "submission \<Rightarrow> kind_columns \<Rightarrow> time option \<Rightarrow> time option \<Rightarrow> string list" where
  "changed_fields cur k startAt endAt =
     map fst (filter snd
       [(''title'', k_title k \<noteq> s_title cur), (''categoryId'', k_categoryId k \<noteq> s_categoryId cur),
        (''assetId'', k_assetId k \<noteq> s_assetId cur), (''detailUrl'', k_detailUrl k \<noteq> s_detailUrl cur),
        (''ziggleNoticeId'', k_ziggleNoticeId k \<noteq> s_ziggleNoticeId cur),
        (''organizerName'', k_organizerName k \<noteq> s_organizerName cur),
        (''subtitle'', k_subtitle k \<noteq> s_subtitle cur), (''location'', k_location k \<noteq> s_location cur),
        (''description'', k_description k \<noteq> s_description cur),
        (''startAt'', startAt \<noteq> None \<and> startAt \<noteq> s_startAt cur),
        (''endAt'', endAt \<noteq> None \<and> endAt \<noteq> s_endAt cur)])"

definition pick :: "'a \<Rightarrow> 'a \<Rightarrow> 'a \<Rightarrow> 'a" where
  "pick cur new stored = (if new \<noteq> cur then new else stored)"

text \<open>\<open>set({...changes})\<close>: only the changed columns are written.\<close>

definition apply_changes ::
    "submission \<Rightarrow> kind_columns \<Rightarrow> time option \<Rightarrow> time option \<Rightarrow> submission \<Rightarrow> submission" where
  "apply_changes cur k startAt endAt s =
     s\<lparr>s_title := pick (s_title cur) (k_title k) (s_title s),
       s_categoryId := pick (s_categoryId cur) (k_categoryId k) (s_categoryId s),
       s_assetId := pick (s_assetId cur) (k_assetId k) (s_assetId s),
       s_detailUrl := pick (s_detailUrl cur) (k_detailUrl k) (s_detailUrl s),
       s_ziggleNoticeId := pick (s_ziggleNoticeId cur) (k_ziggleNoticeId k) (s_ziggleNoticeId s),
       s_organizerName := pick (s_organizerName cur) (k_organizerName k) (s_organizerName s),
       s_subtitle := pick (s_subtitle cur) (k_subtitle k) (s_subtitle s),
       s_location := pick (s_location cur) (k_location k) (s_location s),
       s_description := pick (s_description cur) (k_description k) (s_description s),
       s_startAt := (if startAt \<noteq> None then pick (s_startAt cur) startAt (s_startAt s) else s_startAt s),
       s_endAt := (if endAt \<noteq> None then pick (s_endAt cur) endAt (s_endAt s) else s_endAt s)\<rparr>"

definition sameSet :: "slug list \<Rightarrow> slug list \<Rightarrow> bool" where
  "sameSet a b \<longleftrightarrow> length a = length b \<and> list_all (\<lambda>x. x \<in> set b) a"

record update_plan =
  upl_current :: submission
  upl_resolved :: resolved_content
  upl_changes :: "string list"
  upl_detailChanged :: bool
  upl_groupsChanged :: bool
  upl_nextStatus :: submission_status
  upl_needsReapproval :: bool

definition new_value :: "time option \<Rightarrow> time option \<Rightarrow> time option" where
  "new_value g cur = (case g of Some x \<Rightarrow> Some x | None \<Rightarrow> cur)"

text \<open>What the body changes on the current row, and what is wrong with it.\<close>

definition plan_update ::
    "(utext \<Rightarrow> url option) \<Rightarrow> auth_user \<Rightarrow> update_dto \<Rightarrow> submission \<Rightarrow> database \<Rightarrow> update_plan" where
  "plan_update urls u dto cur db =
     (let k = kindOf (s_type cur);
          curDetail = detailOf db (s_type cur) (s_id cur);
          resolved = sk_resolve k (ud_kind dto) (Some (kindColumnsOf cur, curDetail))
                       (kindContext urls (au_id u) db);
          needsReapproval = (s_status cur \<in> set REAPPROVAL_STATUSES)
      in \<lparr>upl_current = cur, upl_resolved = resolved,
          upl_changes = changed_fields cur (rc_columns resolved) (ud_startAt dto) (ud_endAt dto),
          upl_detailChanged = (case sk_details k of None \<Rightarrow> False
            | Some ds \<Rightarrow> \<not> ds_equals ds curDetail (rc_detail resolved)),
          upl_groupsChanged = (case ud_targetGroupIds dto of None \<Rightarrow> False
            | Some g \<Rightarrow> \<not> sameSet g (targetGroupIdsOf db (s_id cur))),
          upl_nextStatus = (if needsReapproval then PENDING_REVIEW else s_status cur),
          upl_needsReapproval = needsReapproval\<rparr>)"

definition content_errors :: "update_dto \<Rightarrow> update_plan \<Rightarrow> field_errors" where
  "content_errors dto p = obj_spread
     (unacceptedFields (kindOf (s_type (upl_current p))) (ud_kind dto) (ud_startAt dto) (ud_endAt dto)
       (ud_targetGroupIds dto))
     (rc_errors (upl_resolved p))"

definition schedule_errors :: "update_dto \<Rightarrow> update_plan \<Rightarrow> time \<Rightarrow> field_errors" where
  "schedule_errors dto p t =
     (let cur = upl_current p
      in if ''startAt'' \<in> set (upl_changes p) \<or> ''endAt'' \<in> set (upl_changes p) \<or> upl_needsReapproval p
         then validateSchedule (kindOf (s_type cur)) (new_value (ud_startAt dto) (s_startAt cur))
                (new_value (ud_endAt dto) (s_endAt cur)) t
         else [])"

definition group_errors :: "update_dto \<Rightarrow> update_plan \<Rightarrow> database \<Rightarrow> field_errors" where
  "group_errors dto p db = (case ud_targetGroupIds dto of
      Some g \<Rightarrow> if upl_groupsChanged p
        then validateTargetGroups db
               (filter (\<lambda>x. x \<notin> set (targetGroupIdsOf db (s_id (upl_current p)))) g) else []
    | None \<Rightarrow> [])"

definition update_errors :: "update_dto \<Rightarrow> update_plan \<Rightarrow> time \<Rightarrow> database \<Rightarrow> field_errors" where
  "update_errors dto p t db =
     obj_spread (obj_spread (content_errors dto p) (schedule_errors dto p t)) (group_errors dto p db)"

definition nothing_changed :: "update_plan \<Rightarrow> bool" where
  "nothing_changed p \<longleftrightarrow> upl_changes p = [] \<and> \<not> upl_detailChanged p \<and> \<not> upl_groupsChanged p"

text \<open>\<open>None\<close>: nothing changes and the submission is answered as it is.\<close>

definition update_prepare ::
    "(utext \<Rightarrow> url option) \<Rightarrow> time \<Rightarrow> auth_user \<Rightarrow> uuid \<Rightarrow> update_dto \<Rightarrow> database
       \<Rightarrow> update_plan option res" where
  "update_prepare urls t u i dto db =
     bindE (findOwnRow u i (ud_version dto) db) (\<lambda>row.
       let cur = sr row; p = plan_update urls u dto cur db
       in if s_status cur \<notin> set EDITABLE_STATUSES
             \<or> hasStartedPublishing (s_status cur) (s_startAt cur) t
          then Inl (status_conflict (s_status cur) ''cannot be edited'')
          else if \<not> sk_resubmittable (kindOf (s_type cur)) \<and> s_status cur \<in> set RETURNED_STATUSES
          then Inl notResubmittable
          else if nothing_changed p
          then (if content_errors dto p \<noteq> [] then Inl (validationFailed (content_errors dto p)) else Inr None)
          else if update_errors dto p t db \<noteq> [] then Inl (validationFailed (update_errors dto p t db))
          else Inr (Some p))"

definition updated_row :: "update_dto \<Rightarrow> update_plan \<Rightarrow> time \<Rightarrow> submission \<Rightarrow> submission" where
  "updated_row dto p t s =
     (apply_changes (upl_current p) (rc_columns (upl_resolved p)) (ud_startAt dto) (ud_endAt dto) s)
       \<lparr>s_status := upl_nextStatus p,
        s_submittedAt := (if upl_needsReapproval p then Some t else s_submittedAt (upl_current p)),
        s_version := s_version (upl_current p) + 1, s_updatedAt := t\<rparr>"

definition replace_target_groups :: "uuid \<Rightarrow> slug list \<Rightarrow> database \<Rightarrow> database" where
  "replace_target_groups i ids db =
     insert_target_groups i ids
       (db\<lparr>t_submissionTargetGroups :=
          delete_where (\<lambda>r. stg_submissionId r = i) (t_submissionTargetGroups db)\<rparr>)"

definition update_audit :: "auth_user \<Rightarrow> update_dto \<Rightarrow> update_plan \<Rightarrow> time \<Rightarrow> audit_entry" where
  "update_audit u dto p t =
     (let cur = upl_current p; k = kindOf (s_type cur)
      in submission_audit ACTOR_USER (Some (au_id u)) SUBMISSION_UPDATED (s_id cur) None
           (Some (JObj [(''changedFields'', JArr (map JText (upl_changes p
                     @ (if upl_detailChanged p then sk_inputFields k else [])
                     @ (if upl_groupsChanged p then [''targetGroupIds''] else [])))),
                (''fromStatus'', status_json (s_status cur)),
                (''toStatus'', status_json (upl_nextStatus p))])) t)"

definition update_commit :: "ctx \<Rightarrow> auth_user \<Rightarrow> update_dto \<Rightarrow> update_plan \<Rightarrow> database \<Rightarrow> database res" where
  "update_commit c u dto p db =
     (let cur = upl_current p; i = s_id cur; k = kindOf (s_type cur)
      in case versioned_update i (s_version cur) (updated_row dto p (now c)) (t_submissions db) of
           None \<Rightarrow> Inl (conflict ''Submission was modified'')
         | Some tab \<Rightarrow>
             if list_ex (\<lambda>s. s_id s = i \<and> notice_taken tab s) tab then Inl alreadySubmitted
             else if list_ex (\<lambda>s. s_id s = i \<and> \<not> references_exist db s) tab
                  \<or> (upl_groupsChanged p \<and> \<not> groups_exist db (the (ud_targetGroupIds dto)))
             then Inl foreignKeyError
             else
               let db1 = db\<lparr>t_submissions := tab\<rparr>;
                   db2 = (if upl_detailChanged p then save_detail k i (rc_detail (upl_resolved p)) db1 else db1);
                   db3 = (if upl_groupsChanged p then replace_target_groups i (the (ud_targetGroupIds dto)) db2
                          else db2)
               in Inr (record_audit (currentRequestId c) (uuids c 0) (update_audit u dto p (now c)) db3))"

definition update_submission ::
    "(utext \<Rightarrow> url option) \<Rightarrow> (storage_key \<Rightarrow> string) \<Rightarrow> ctx \<Rightarrow> auth_user \<Rightarrow> uuid \<Rightarrow> update_dto \<Rightarrow> database
       \<Rightarrow> (database \<times> (submission_dto \<times> time)) res" where
  "update_submission urls pub c u i dto db =
     bindE (update_prepare urls (now c) u i dto db) (\<lambda>plan.
     bindE (case plan of None \<Rightarrow> Inr db | Some p \<Rightarrow> update_commit c u dto p db) (\<lambda>db'.
     bindE (submission_detail pub i (now c) (au_id u) db') (\<lambda>r. Inr (db', r))))"

section \<open>Resubmitting and canceling\<close>

definition submit_prepare :: "time \<Rightarrow> auth_user \<Rightarrow> uuid \<Rightarrow> int \<Rightarrow> database \<Rightarrow> submission res" where
  "submit_prepare t u i version db =
     bindE (findOwnRow u i version db) (\<lambda>row.
       let cur = sr row; k = kindOf (s_type cur);
           errors = validateSchedule k (s_startAt cur) (s_endAt cur) t
       in if s_status cur \<notin> set SUBMITTABLE_STATUSES
          then Inl (status_conflict (s_status cur) ''cannot be submitted'')
          else if \<not> sk_resubmittable k then Inl notResubmittable
          else if errors \<noteq> [] then Inl (validationFailed errors)
          else Inr cur)"

definition from_status_json :: "submission_status \<Rightarrow> json" where
  "from_status_json s = JObj [(''fromStatus'', status_json s)]"

definition submit_commit :: "ctx \<Rightarrow> auth_user \<Rightarrow> submission \<Rightarrow> database \<Rightarrow> database res" where
  "submit_commit c u cur db =
     bindE (applyTransition cur PENDING_REVIEW (now c) (\<lambda>s. s\<lparr>s_submittedAt := Some (now c)\<rparr>) db) (\<lambda>db'.
       Inr (record_audit (currentRequestId c) (uuids c 0)
         (submission_audit ACTOR_USER (Some (au_id u)) SUBMISSION_RESUBMITTED (s_id cur) None
           (Some (from_status_json (s_status cur))) (now c)) db'))"

definition submit_submission ::
    "(storage_key \<Rightarrow> string) \<Rightarrow> ctx \<Rightarrow> auth_user \<Rightarrow> uuid \<Rightarrow> int \<Rightarrow> database
       \<Rightarrow> (database \<times> (submission_dto \<times> time)) res" where
  "submit_submission pub c u i version db =
     bindE (submit_prepare (now c) u i version db) (\<lambda>cur.
     bindE (submit_commit c u cur db) (\<lambda>db'.
     bindE (submission_detail pub i (now c) (au_id u) db') (\<lambda>r. Inr (db', r))))"

definition cancel_prepare :: "time \<Rightarrow> auth_user \<Rightarrow> uuid \<Rightarrow> int \<Rightarrow> database \<Rightarrow> submission res" where
  "cancel_prepare t u i version db =
     bindE (findOwnRow u i version db) (\<lambda>row.
       let cur = sr row
       in if \<not> canCancel (s_status cur) (s_startAt cur) t
          then Inl (status_conflict (s_status cur) ''cannot be canceled'') else Inr cur)"

definition cancel_commit :: "ctx \<Rightarrow> auth_user \<Rightarrow> submission \<Rightarrow> database \<Rightarrow> database res" where
  "cancel_commit c u cur db =
     bindE (applyTransition cur CANCELED (now c) id db) (\<lambda>db'.
       Inr (record_audit (currentRequestId c) (uuids c 0)
         (submission_audit ACTOR_USER (Some (au_id u)) SUBMISSION_CANCELED (s_id cur) None
           (Some (from_status_json (s_status cur))) (now c)) db'))"

definition cancel_submission ::
    "(storage_key \<Rightarrow> string) \<Rightarrow> ctx \<Rightarrow> auth_user \<Rightarrow> uuid \<Rightarrow> int \<Rightarrow> database
       \<Rightarrow> (database \<times> (submission_dto \<times> time)) res" where
  "cancel_submission pub c u i version db =
     bindE (cancel_prepare (now c) u i version db) (\<lambda>cur.
     bindE (cancel_commit c u cur db) (\<lambda>db'.
     bindE (submission_detail pub i (now c) (au_id u) db') (\<lambda>r. Inr (db', r))))"

section \<open>Revealing the author\<close>

record author_dto =
  ad_requesterId :: uuid
  ad_requesterName :: utext
  ad_requesterEmail :: utext

definition revealAuthor :: "ctx \<Rightarrow> auth_user \<Rightarrow> uuid \<Rightarrow> database \<Rightarrow> (database \<times> author_dto) res" where
  "revealAuthor c admin i db =
     (case Option.bind (findSubmission db i) (\<lambda>s.
             map_option (Pair s) (first_row (\<lambda>u. u_id u = s_requesterId s) (t_users db))) of
        None \<Rightarrow> Inl submission_notFound
      | Some (s, u) \<Rightarrow>
          if \<not> sk_anonymous (kindOf (s_type s))
          then Inl (conflict ''Author of this submission is not hidden'')
          else Inr (record_audit (currentRequestId c) (uuids c 0)
                 (submission_audit ACTOR_USER (Some (au_id admin)) STORY_AUTHOR_REVEALED i None None (now c)) db,
               \<lparr>ad_requesterId = u_id u, ad_requesterName = u_name u, ad_requesterEmail = u_email u\<rparr>))"

section \<open>Lists\<close>

datatype submission_scope = SCOPE_ME | SCOPE_ALL

definition assertScope :: "auth_user \<Rightarrow> submission_scope \<Rightarrow> unit res" where
  "assertScope u sc =
     (if sc = SCOPE_ALL \<and> \<not> isReviewer (au_roles u)
      then Inl (app_error 403 FORBIDDEN ''Only reviewers can view all submissions'') else Inr ())"

definition scopeCondition :: "auth_user \<Rightarrow> submission_scope \<Rightarrow> submission \<Rightarrow> bool" where
  "scopeCondition u sc s \<longleftrightarrow> (sc = SCOPE_ME \<longrightarrow> s_requesterId s = au_id u)"

definition typeCondition :: "submission_type list \<Rightarrow> submission \<Rightarrow> bool" where
  "typeCondition types s \<longleftrightarrow> types = [] \<or> s_type s \<in> set types"

definition list_filter ::
    "auth_user \<Rightarrow> submission_scope \<Rightarrow> submission_status list \<Rightarrow> submission_type list \<Rightarrow> submission \<Rightarrow> bool"
  where
  "list_filter u sc statuses types s \<longleftrightarrow>
     scopeCondition u sc s
     \<and> (if statuses \<noteq> [] then s_status s \<in> set statuses else s_status s \<noteq> ARCHIVED)
     \<and> typeCondition types s"

definition created_key :: "submission_row \<Rightarrow> time \<times> uuid" where
  "created_key r = (s_createdAt (sr r), s_id (sr r))"

definition list_rows ::
    "(submission \<Rightarrow> bool) \<Rightarrow> database \<Rightarrow> (time \<times> uuid) option \<Rightarrow> submission_row list" where
  "list_rows P db cur =
     order_desc created_key
       (filter (\<lambda>r. case cur of None \<Rightarrow> True | Some k \<Rightarrow> created_key r < k) (selectSubmissionRows db P))"

definition time_cursor :: "json \<Rightarrow> (time \<times> uuid) option" where
  "time_cursor v = (case v of JArr [JTime t, JUuid i] \<Rightarrow> Some (t, i) | _ \<Rightarrow> None)"

definition key_json :: "time \<times> uuid \<Rightarrow> json" where
  "key_json k = JArr [JTime (fst k), JUuid (snd k)]"

definition decode_key :: "cursor option \<Rightarrow> (time \<times> uuid) option res" where
  "decode_key cur = (case cur of None \<Rightarrow> Inr None
     | Some c \<Rightarrow> bindE (decodeCursor c time_cursor) (\<lambda>k. Inr (Some k)))"

definition list_submissions ::
    "(storage_key \<Rightarrow> string) \<Rightarrow> time \<Rightarrow> auth_user \<Rightarrow> submission_scope \<Rightarrow> submission_status list
       \<Rightarrow> submission_type list \<Rightarrow> cursor option \<Rightarrow> nat \<Rightarrow> database \<Rightarrow> submission_dto page res" where
  "list_submissions pub t u sc statuses types cur limit db =
     bindE (assertScope u sc) (\<lambda>_. bindE (decode_key cur) (\<lambda>k.
       let P = list_filter u sc statuses types
       in Inr (toPage (take (limit + 1) (list_rows P db k)) limit (length (select P (t_submissions db))) t
            (\<lambda>r. key_json (created_key r)) (rowDto pub (au_id u) db))))"

definition waitingSince :: "submission \<Rightarrow> time" where
  "waitingSince s = (case s_submittedAt s of Some x \<Rightarrow> x | None \<Rightarrow> s_createdAt s)"

definition waiting_key :: "submission_row \<Rightarrow> time \<times> uuid" where
  "waiting_key r = (waitingSince (sr r), s_id (sr r))"

definition queue_filter :: "submission_status \<Rightarrow> slug option \<Rightarrow> submission_type list \<Rightarrow> submission \<Rightarrow> bool" where
  "queue_filter status categoryId types s \<longleftrightarrow> s_status s = status
     \<and> (case categoryId of None \<Rightarrow> True | Some i \<Rightarrow> i = [] \<or> s_categoryId s = Some i)
     \<and> typeCondition types s"

definition queue_rows ::
    "(submission \<Rightarrow> bool) \<Rightarrow> database \<Rightarrow> (time \<times> uuid) option \<Rightarrow> submission_row list" where
  "queue_rows P db cur =
     order_asc waiting_key
       (filter (\<lambda>r. case cur of None \<Rightarrow> True | Some k \<Rightarrow> k < waiting_key r) (selectSubmissionRows db P))"

definition listReviewQueue ::
    "(storage_key \<Rightarrow> string) \<Rightarrow> time \<Rightarrow> auth_user \<Rightarrow> submission_status \<Rightarrow> slug option
       \<Rightarrow> submission_type list \<Rightarrow> cursor option \<Rightarrow> nat \<Rightarrow> database \<Rightarrow> submission_dto page res" where
  "listReviewQueue pub t viewer status categoryId types cur limit db =
     bindE (decode_key cur) (\<lambda>k.
       let P = queue_filter status categoryId types
       in Inr (toPage (take (limit + 1) (queue_rows P db k)) limit (length (select P (t_submissions db))) t
            (\<lambda>r. key_json (waiting_key r)) (rowDto pub (au_id viewer) db)))"

section \<open>Counts\<close>

text \<open>Per kind with pending submissions: their number and the longest waiting one's time.\<close>

definition pendingReviewSummary ::
    "(submission \<Rightarrow> bool) \<Rightarrow> database \<Rightarrow> (submission_type \<times> nat \<times> time) list" where
  "pendingReviewSummary P db =
     List.map_filter (\<lambda>ty.
       let rows = select (\<lambda>s. P s \<and> s_status s = PENDING_REVIEW \<and> s_type s = ty) (t_submissions db)
       in case map waitingSince rows of [] \<Rightarrow> None
          | w # ws \<Rightarrow> Some (ty, length rows, fold min ws w))
       [POSTER, EVENT_BANNER, STORY]"

definition all_statuses :: "submission_status list" where
  "all_statuses = [DRAFT, PENDING_REVIEW, REJECTED, APPROVED, SCHEDULED, PUBLISHED, ENDED, SUSPENDED,
     CANCELED, ARCHIVED]"

record submission_summary =
  ss_calculatedAt :: time
  ss_total :: int
  ss_published :: nat
  ss_scheduled :: nat
  ss_pendingReview :: nat
  ss_ended :: nat
  ss_byStatus :: "(submission_status \<times> nat) list"
  ss_byType :: "(submission_type \<times> nat \<times> time option) list"

definition in_period :: "(time \<Rightarrow> bool) \<Rightarrow> time option \<Rightarrow> bool" where
  "in_period P x = (case x of Some t \<Rightarrow> P t | None \<Rightarrow> False)"

definition approvedStatuses :: "submission_status list" where
  "approvedStatuses = [APPROVED, SCHEDULED, PUBLISHED]"

definition effectively_published :: "time \<Rightarrow> submission \<Rightarrow> bool" where
  "effectively_published t s \<longleftrightarrow> s_status s \<in> set approvedStatuses
     \<and> in_period (\<lambda>a. a \<le> t) (s_startAt s) \<and> in_period (\<lambda>b. t < b) (s_endAt s)"

definition effectively_scheduled :: "time \<Rightarrow> submission \<Rightarrow> bool" where
  "effectively_scheduled t s \<longleftrightarrow> s_status s \<in> {APPROVED, SCHEDULED} \<and> in_period (\<lambda>a. t < a) (s_startAt s)"

definition effectively_ended :: "time \<Rightarrow> submission \<Rightarrow> bool" where
  "effectively_ended t s \<longleftrightarrow> s_status s = ENDED
     \<or> (s_status s \<in> set approvedStatuses \<and> in_period (\<lambda>b. b \<le> t) (s_endAt s))"

definition count_where :: "('r \<Rightarrow> bool) \<Rightarrow> 'r list \<Rightarrow> nat" where
  "count_where P t = length (select P t)"

definition summary ::
    "time \<Rightarrow> auth_user \<Rightarrow> submission_scope \<Rightarrow> database \<Rightarrow> submission_summary res" where
  "summary t u sc db =
     bindE (assertScope u sc) (\<lambda>_.
       let rows = select (scopeCondition u sc) (t_submissions db);
           byStatus = map (\<lambda>st. (st, count_where (\<lambda>s. s_status s = st) rows)) all_statuses;
           n = (\<lambda>st. case map_of byStatus st of Some k \<Rightarrow> k | None \<Rightarrow> 0);
           pend = pendingReviewSummary (scopeCondition u sc) db
       in Inr \<lparr>ss_calculatedAt = t,
            ss_total = int (sum_list (map snd byStatus)) - int (n ARCHIVED),
            ss_published = count_where (effectively_published t) rows,
            ss_scheduled = count_where (effectively_scheduled t) rows,
            ss_pendingReview = n PENDING_REVIEW,
            ss_ended = count_where (effectively_ended t) rows,
            ss_byStatus = byStatus,
            ss_byType = map (\<lambda>ty. (ty, case map_of pend ty of Some (k, w) \<Rightarrow> (k, Some w) | None \<Rightarrow> (0, None)))
              [POSTER, EVENT_BANNER, STORY]\<rparr>)"

end
