(* ===== verification/Reviews.thy ===== *)
theory Reviews
  imports Submission_Changes
begin

text \<open>
  Review and approval, \<open>src/src/reviews/reviews.service.ts\<close>, and the job that moves approved
  submissions along their period, \<open>src/src/jobs/submission-status.job.ts\<close>. As in \<open>Submissions\<close> a
  handler is a \<open>..._prepare\<close> and a \<open>..._commit\<close>.
\<close>

section \<open>Deciding\<close>

definition SUSPENDABLE_STATUSES :: "submission_status list" where
  "SUSPENDABLE_STATUSES = [APPROVED, SCHEDULED, PUBLISHED]"

definition findExisting :: "uuid \<Rightarrow> database \<Rightarrow> submission_row res" where
  "findExisting i db = requireE (findRow db i) submission_notFound"

definition findPending :: "uuid \<Rightarrow> int \<Rightarrow> database \<Rightarrow> submission_row res" where
  "findPending i revision db =
     bindE (findExisting i db) (\<lambda>row.
       if s_version (sr row) \<noteq> revision
       then Inl (conflict ''Submission was modified or already reviewed'')
       else if s_status (sr row) \<noteq> PENDING_REVIEW
       then Inl (status_conflict (s_status (sr row)) ''cannot be reviewed'')
       else Inr row)"

text \<open>
  JavaScript compares a missing date as zero, so a missing bound counts as one that has passed.
\<close>

definition passed :: "time \<Rightarrow> time option \<Rightarrow> bool" where
  "passed t x = (case x of None \<Rightarrow> 0 \<le> t | Some a \<Rightarrow> a \<le> t)"

record approve_plan =
  apl_current :: submission
  apl_period :: "time option \<times> time option"
  apl_assetChecksum :: "string option"
  apl_status :: submission_status

definition approve_prepare :: "time \<Rightarrow> uuid \<Rightarrow> int \<Rightarrow> database \<Rightarrow> approve_plan res" where
  "approve_prepare t i revision db =
     bindE (findPending i revision db) (\<lambda>row.
       let cur = sr row;
           period = (case sk_schedule (kindOf (s_type cur)) of
               ON_APPROVAL f \<Rightarrow> (Some (fst (f t)), Some (snd (f t)))
             | REQUESTED _ \<Rightarrow> (s_startAt cur, s_endAt cur));
           asset = Option.bind (s_assetId cur) (\<lambda>a. first_row (\<lambda>r. a_id r = a) (t_assets db))
       in if passed t (snd period) then Inl (conflict ''Publish period has already ended'')
          else if s_assetId cur \<noteq> None
             \<and> (case asset of None \<Rightarrow> True
                | Some a \<Rightarrow> a_status a \<noteq> READY \<or> a_checksum a = None \<or> a_checksum a = Some [])
          then Inl (conflict ''Media is not available'')
          else Inr \<lparr>apl_current = cur, apl_period = period,
                    apl_assetChecksum = Option.bind asset a_checksum,
                    apl_status = (if passed t (fst period) then PUBLISHED else SCHEDULED)\<rparr>)"

definition insert_review ::
    "uuid \<Rightarrow> submission \<Rightarrow> review_decision \<Rightarrow> reject_reason_code option \<Rightarrow> utext option \<Rightarrow> uuid
       \<Rightarrow> string option \<Rightarrow> time \<Rightarrow> database \<Rightarrow> database" where
  "insert_review newId cur decision reason cmt reviewer checksum t db =
     db\<lparr>t_reviews := insert_row
          \<lparr>r_id = newId, r_submissionId = s_id cur, r_revision = s_version cur,
           r_decision = decision, r_reasonCode = reason, r_comment = cmt,
           r_reviewerId = reviewer, r_assetChecksum = checksum, r_reviewedAt = t\<rparr> (t_reviews db)\<rparr>"

definition run_onApprove :: "submission_kind \<Rightarrow> uuid \<Rightarrow> database \<Rightarrow> database" where
  "run_onApprove k i db = (case sk_onApprove k of None \<Rightarrow> db | Some f \<Rightarrow> f i db)"

definition approve_commit :: "ctx \<Rightarrow> auth_user \<Rightarrow> approve_plan \<Rightarrow> database \<Rightarrow> database res" where
  "approve_commit c reviewer p db =
     (let cur = apl_current p; i = s_id cur
      in bindE (applyTransition cur (apl_status p) (now c)
                  (\<lambda>s. s\<lparr>s_startAt := fst (apl_period p), s_endAt := snd (apl_period p)\<rparr>) db) (\<lambda>db1.
         Inr (record_audit (currentRequestId c) (uuids c 1)
           (submission_audit ACTOR_USER (Some (au_id reviewer)) SUBMISSION_APPROVED i None
             (Some (JObj [(''revision'', JNum (s_version cur)), (''toStatus'', status_json (apl_status p)),
                          (''assetChecksum'', opt_json JText (apl_assetChecksum p))])) (now c))
           (insert_review (uuids c 0) cur REVIEW_APPROVED None None (au_id reviewer)
             (apl_assetChecksum p) (now c) (run_onApprove (kindOf (s_type cur)) i db1)))))"

definition approve ::
    "(storage_key \<Rightarrow> string) \<Rightarrow> ctx \<Rightarrow> auth_user \<Rightarrow> uuid \<Rightarrow> int \<Rightarrow> database
       \<Rightarrow> (database \<times> (submission_dto \<times> time)) res" where
  "approve pub c reviewer i revision db =
     bindE (approve_prepare (now c) i revision db) (\<lambda>p.
     bindE (approve_commit c reviewer p db) (\<lambda>db'.
     bindE (submission_detail pub i (now c) (au_id reviewer) db') (\<lambda>r. Inr (db', r))))"

definition reason_json :: "reject_reason_code \<Rightarrow> json" where
  "reason_json r = JText (case r of LOW_RESOLUTION \<Rightarrow> ''LOW_RESOLUTION'' | ASPECT_RATIO \<Rightarrow> ''ASPECT_RATIO''
     | INFO_MISMATCH \<Rightarrow> ''INFO_MISMATCH'' | INAPPROPRIATE \<Rightarrow> ''INAPPROPRIATE'' | PERIOD \<Rightarrow> ''PERIOD''
     | DUPLICATE \<Rightarrow> ''DUPLICATE'' | PERSONAL_INFO \<Rightarrow> ''PERSONAL_INFO'' | DEFAMATION \<Rightarrow> ''DEFAMATION''
     | ADVERTISEMENT \<Rightarrow> ''ADVERTISEMENT'' | REASON_OTHER \<Rightarrow> ''OTHER'')"

definition reject_commit ::
    "ctx \<Rightarrow> auth_user \<Rightarrow> reject_reason_code \<Rightarrow> utext \<Rightarrow> submission \<Rightarrow> database \<Rightarrow> database res" where
  "reject_commit c reviewer reasonCode cmt cur db =
     bindE (applyTransition cur REJECTED (now c) id db) (\<lambda>db1.
       Inr (record_audit (currentRequestId c) (uuids c 1)
         (submission_audit ACTOR_USER (Some (au_id reviewer)) SUBMISSION_REJECTED (s_id cur) (Some cmt)
           (Some (JObj [(''revision'', JNum (s_version cur)), (''reasonCode'', reason_json reasonCode)])) (now c))
         (insert_review (uuids c 0) cur REVIEW_REJECTED (Some reasonCode) (Some cmt) (au_id reviewer)
           None (now c) db1)))"

definition reject ::
    "(storage_key \<Rightarrow> string) \<Rightarrow> ctx \<Rightarrow> auth_user \<Rightarrow> uuid \<Rightarrow> int \<Rightarrow> reject_reason_code \<Rightarrow> utext \<Rightarrow> database
       \<Rightarrow> (database \<times> (submission_dto \<times> time)) res" where
  "reject pub c reviewer i revision reasonCode cmt db =
     bindE (findPending i revision db) (\<lambda>row.
     bindE (reject_commit c reviewer reasonCode cmt (sr row) db) (\<lambda>db'.
     bindE (submission_detail pub i (now c) (au_id reviewer) db') (\<lambda>r. Inr (db', r))))"

section \<open>Taking a publication down\<close>

definition suspend_prepare :: "time \<Rightarrow> auth_user \<Rightarrow> uuid \<Rightarrow> database \<Rightarrow> submission res" where
  "suspend_prepare t u i db =
     bindE (findExisting i db) (\<lambda>row.
       let cur = sr row
       in if \<not> isReviewer (au_roles u) \<and> s_requesterId cur \<noteq> au_id u then Inl submission_notFound
          else if \<not> isReviewer (au_roles u) \<and> s_type cur \<noteq> STORY \<and> s_type cur \<noteq> EVENT_BANNER
          then Inl (app_error 403 FORBIDDEN ''Only reviewers can suspend this submission type'')
          else if s_status cur \<notin> set SUSPENDABLE_STATUSES \<or> passed t (s_endAt cur)
          then Inl (status_conflict (s_status cur) ''cannot be suspended'')
          else Inr cur)"

definition suspend_commit :: "ctx \<Rightarrow> auth_user \<Rightarrow> utext \<Rightarrow> submission \<Rightarrow> database \<Rightarrow> database res" where
  "suspend_commit c u reason cur db =
     bindE (applyTransition cur SUSPENDED (now c) id db) (\<lambda>db1.
       Inr (record_audit (currentRequestId c) (uuids c 1)
         (submission_audit ACTOR_USER (Some (au_id u)) SUBMISSION_SUSPENDED (s_id cur) (Some reason)
           (Some (JObj [(''revision'', JNum (s_version cur)), (''fromStatus'', status_json (s_status cur))]))
           (now c))
         (insert_review (uuids c 0) cur REVIEW_SUSPENDED None (Some reason) (au_id u) None (now c) db1)))"

definition suspend ::
    "(storage_key \<Rightarrow> string) \<Rightarrow> ctx \<Rightarrow> auth_user \<Rightarrow> uuid \<Rightarrow> utext \<Rightarrow> database
       \<Rightarrow> (database \<times> (submission_dto \<times> time)) res" where
  "suspend pub c u i reason db =
     bindE (suspend_prepare (now c) u i db) (\<lambda>cur.
     bindE (suspend_commit c u reason cur db) (\<lambda>db'.
     bindE (submission_detail pub i (now c) (au_id u) db') (\<lambda>r. Inr (db', r))))"

section \<open>The history of a submission\<close>

record review_dto =
  rd_id :: uuid
  rd_submissionId :: uuid
  rd_revision :: int
  rd_decision :: review_decision
  rd_reasonCode :: "reject_reason_code option"
  rd_comment :: "utext option"
  rd_reviewerId :: "uuid option"
  rd_reviewerName :: "utext option"
  rd_reviewedAt :: time

definition review_toDto :: "uuid \<Rightarrow> submission \<Rightarrow> review \<Rightarrow> user \<Rightarrow> review_dto" where
  "review_toDto viewer s r reviewer =
     (let hide = (sk_anonymous (kindOf (s_type s)) \<and> viewer \<noteq> s_requesterId s
                  \<and> r_reviewerId r = s_requesterId s)
      in \<lparr>rd_id = r_id r, rd_submissionId = r_submissionId r, rd_revision = r_revision r,
          rd_decision = r_decision r, rd_reasonCode = r_reasonCode r, rd_comment = r_comment r,
          rd_reviewerId = (if hide then None else Some (r_reviewerId r)),
          rd_reviewerName = (if hide then None else Some (u_name reviewer)),
          rd_reviewedAt = r_reviewedAt r\<rparr>)"

definition review_history :: "auth_user \<Rightarrow> uuid \<Rightarrow> database \<Rightarrow> review_dto list res" where
  "review_history u i db = (case findRow db i of
      None \<Rightarrow> Inl submission_notFound
    | Some row \<Rightarrow>
        if s_requesterId (sr row) \<noteq> au_id u \<and> \<not> isReviewer (au_roles u) then Inl submission_notFound
        else Inr (List.map_filter
          (\<lambda>r. map_option (review_toDto (au_id u) (sr row) r)
                 (first_row (\<lambda>x. u_id x = r_reviewerId r) (t_users db)))
          (order_asc (\<lambda>r. (r_reviewedAt r, r_id r)) (select (\<lambda>r. r_submissionId r = i) (t_reviews db)))))"

section \<open>The status job\<close>

record status_sync_result =
  ssr_scheduled :: nat
  ssr_published :: nat
  ssr_ended :: nat

definition system_audit :: "audit_action \<Rightarrow> submission_status \<Rightarrow> time \<Rightarrow> uuid \<Rightarrow> audit_entry" where
  "system_audit action status t i =
     submission_audit ACTOR_SYSTEM None action i None
       (Some (JObj [(''toStatus'', status_json status)])) t"

text \<open>\<open>base\<close> is where this move's audit rows start in the uuids the run draws.\<close>

definition move ::
    "ctx \<Rightarrow> nat \<Rightarrow> submission_status \<Rightarrow> audit_action \<Rightarrow> (submission \<Rightarrow> bool) \<Rightarrow> database
       \<Rightarrow> database \<times> nat" where
  "move c base status action P db =
     (let moved = map s_id (select P (t_submissions db));
          db1 = db\<lparr>t_submissions := update_where P
                  (\<lambda>s. s\<lparr>s_status := status, s_version := s_version s + 1, s_updatedAt := now c\<rparr>)
                  (t_submissions db)\<rparr>
      in (fold (\<lambda>(n, i). record_audit (currentRequestId c) (uuids c (base + n))
                  (system_audit action status (now c) i)) (enumerate 0 moved) db1,
          length moved))"

definition ends_now :: "time \<Rightarrow> submission \<Rightarrow> bool" where
  "ends_now t s \<longleftrightarrow> s_status s \<in> {APPROVED, SCHEDULED, PUBLISHED} \<and> in_period (\<lambda>b. b \<le> t) (s_endAt s)"

definition starts_now :: "time \<Rightarrow> submission \<Rightarrow> bool" where
  "starts_now t s \<longleftrightarrow> s_status s \<in> {APPROVED, SCHEDULED} \<and> in_period (\<lambda>a. a \<le> t) (s_startAt s)
     \<and> in_period (\<lambda>b. t < b) (s_endAt s)"

definition waits :: "time \<Rightarrow> submission \<Rightarrow> bool" where
  "waits t s \<longleftrightarrow> s_status s = APPROVED \<and> in_period (\<lambda>a. t < a) (s_startAt s)"

text \<open>\<open>locked\<close>: whether this pod got the advisory lock of the job.\<close>

definition status_sync :: "ctx \<Rightarrow> bool \<Rightarrow> database \<Rightarrow> database \<times> status_sync_result option" where
  "status_sync c locked db =
     (if \<not> locked then (db, None)
      else let (db1, ended) = move c 0 ENDED SUBMISSION_ENDED (ends_now (now c)) db;
               (db2, published) = move c ended PUBLISHED SUBMISSION_PUBLISHED (starts_now (now c)) db1;
               (db3, scheduled) = move c (ended + published) SCHEDULED SUBMISSION_SCHEDULED (waits (now c)) db2
           in (db3, Some \<lparr>ssr_scheduled = scheduled, ssr_published = published, ssr_ended = ended\<rparr>))"

section \<open>Facts\<close>

text \<open>What a move and the whole job do to one row.\<close>

definition moved_to :: "submission_status \<Rightarrow> time \<Rightarrow> submission \<Rightarrow> submission" where
  "moved_to status t s = s\<lparr>s_status := status, s_version := s_version s + 1, s_updatedAt := t\<rparr>"

definition sync_row :: "time \<Rightarrow> submission \<Rightarrow> submission" where
  "sync_row t s =
     (if ends_now t s then moved_to ENDED t s else if starts_now t s then moved_to PUBLISHED t s
      else if waits t s then moved_to SCHEDULED t s else s)"

lemma record_all_submissions:
  "t_submissions (fold (\<lambda>(n, i). record_audit r (u n) (e i)) xs d) = t_submissions d"
  by (induction xs arbitrary: d) (auto simp: split_beta)

lemma move_submissions:
  "t_submissions (fst (move c base status action P db)) = update_where P (moved_to status (now c)) (t_submissions db)"
  by (simp add: move_def Let_def record_all_submissions[of _ "\<lambda>n. uuids c (base + n)"] moved_to_def[abs_def])

lemma moved_to_simps [simp]:
  "s_status (moved_to st t s) = st" "s_version (moved_to st t s) = s_version s + 1"
  "s_startAt (moved_to st t s) = s_startAt s" "s_endAt (moved_to st t s) = s_endAt s"
  "s_id (moved_to st t s) = s_id s"
  by (simp_all add: moved_to_def)

lemma not_due [simp]:
  "starts_now t (moved_to ENDED t s) = False" "waits t (moved_to ENDED t s) = False"
  "waits t (moved_to PUBLISHED t s) = False"
  by (simp_all add: starts_now_def waits_def)

lemma status_sync_rows:
  "t_submissions (fst (status_sync c True db)) = map (sync_row (now c)) (t_submissions db)"
  by (simp add: status_sync_def split_beta Let_def move_submissions update_where_def sync_row_def)

end
