(* ===== verification/Lifecycle.thy ===== *)
theory Lifecycle
  imports Reviews
begin

text \<open>
  The life of a submission, over the handlers of \<open>Submissions\<close>, \<open>Submission_Changes\<close> and
  \<open>Reviews\<close>. A request is prepared on one state of the database and committed on a later one; the
  locale \<open>versioned\<close> is what the version column promises about the time in between, and
  \<open>status_edge\<close> is the status machine the handlers together implement.
\<close>

section \<open>Requests and their two halves\<close>

datatype request =
    CreateReq create_dto
  | UpdateReq uuid update_dto
  | SubmitReq uuid int
  | CancelReq uuid int
  | ApproveReq uuid int
  | RejectReq uuid int reject_reason_code utext
  | SuspendReq uuid utext

datatype plan =
    NoChange
  | CreatePlan create_plan
  | UpdatePlan update_dto update_plan
  | SubmitPlan submission
  | CancelPlan submission
  | ApprovePlan approve_plan
  | RejectPlan reject_reason_code utext submission
  | SuspendPlan utext submission

fun prepare ::
    "(utext \<Rightarrow> url option) \<Rightarrow> time \<Rightarrow> auth_user \<Rightarrow> request \<Rightarrow> database \<Rightarrow> plan res" where
  "prepare urls t u (CreateReq dto) db =
     bindE (create_prepare urls t u dto db) (\<lambda>p. Inr (CreatePlan p))"
| "prepare urls t u (UpdateReq i dto) db =
     bindE (update_prepare urls t u i dto db)
       (\<lambda>p. Inr (case p of None \<Rightarrow> NoChange | Some x \<Rightarrow> UpdatePlan dto x))"
| "prepare urls t u (SubmitReq i v) db = bindE (submit_prepare t u i v db) (\<lambda>s. Inr (SubmitPlan s))"
| "prepare urls t u (CancelReq i v) db = bindE (cancel_prepare t u i v db) (\<lambda>s. Inr (CancelPlan s))"
| "prepare urls t u (ApproveReq i v) db = bindE (approve_prepare t i v db) (\<lambda>p. Inr (ApprovePlan p))"
| "prepare urls t u (RejectReq i v r m) db =
     bindE (findPending i v db) (\<lambda>row. Inr (RejectPlan r m (sr row)))"
| "prepare urls t u (SuspendReq i m) db = bindE (suspend_prepare t u i db) (\<lambda>s. Inr (SuspendPlan m s))"

fun commit :: "ctx \<Rightarrow> auth_user \<Rightarrow> plan \<Rightarrow> database \<Rightarrow> database res" where
  "commit c u NoChange db = Inr db"
| "commit c u (CreatePlan p) db = bindE (create_commit c u p db) (\<lambda>r. Inr (fst r))"
| "commit c u (UpdatePlan dto p) db = update_commit c u dto p db"
| "commit c u (SubmitPlan s) db = submit_commit c u s db"
| "commit c u (CancelPlan s) db = cancel_commit c u s db"
| "commit c u (ApprovePlan p) db = approve_commit c u p db"
| "commit c u (RejectPlan r m s) db = reject_commit c u r m s db"
| "commit c u (SuspendPlan m s) db = suspend_commit c u m s db"

text \<open>The row a plan changes, and what it makes of it.\<close>

fun plan_current :: "plan \<Rightarrow> submission option" where
  "plan_current NoChange = None"
| "plan_current (CreatePlan p) = None"
| "plan_current (UpdatePlan dto p) = Some (upl_current p)"
| "plan_current (SubmitPlan s) = Some s"
| "plan_current (CancelPlan s) = Some s"
| "plan_current (ApprovePlan p) = Some (apl_current p)"
| "plan_current (RejectPlan r m s) = Some s"
| "plan_current (SuspendPlan m s) = Some s"

definition to_status :: "submission_status \<Rightarrow> submission \<Rightarrow> time \<Rightarrow> submission \<Rightarrow> submission" where
  "to_status st cur t s = s\<lparr>s_status := st, s_version := s_version cur + 1, s_updatedAt := t\<rparr>"

fun plan_row :: "time \<Rightarrow> plan \<Rightarrow> submission \<Rightarrow> submission" where
  "plan_row t NoChange = id"
| "plan_row t (CreatePlan p) = id"
| "plan_row t (UpdatePlan dto p) = updated_row dto p t"
| "plan_row t (SubmitPlan cur) = (\<lambda>s. to_status PENDING_REVIEW cur t (s\<lparr>s_submittedAt := Some t\<rparr>))"
| "plan_row t (CancelPlan cur) = to_status CANCELED cur t"
| "plan_row t (ApprovePlan p) = (\<lambda>s. to_status (apl_status p) (apl_current p) t
     (s\<lparr>s_startAt := fst (apl_period p), s_endAt := snd (apl_period p)\<rparr>))"
| "plan_row t (RejectPlan r m cur) = to_status REJECTED cur t"
| "plan_row t (SuspendPlan m cur) = to_status SUSPENDED cur t"

definition same_version :: "submission \<Rightarrow> submission \<Rightarrow> bool" where
  "same_version cur s \<longleftrightarrow> s_id s = s_id cur \<and> s_version s = s_version cur"

section \<open>What a commit does to the table\<close>

lemma versioned_update_None:
  "versioned_update i v f t = None \<longleftrightarrow> (\<forall>s \<in> set t. \<not> (s_id s = i \<and> s_version s = v))"
  by (auto simp: versioned_update_def Let_def select_def filter_empty_conv)

lemma versioned_update_Some:
  "versioned_update i v f t = Some t' \<longleftrightarrow>
     (\<exists>s \<in> set t. s_id s = i \<and> s_version s = v)
     \<and> t' = update_where (\<lambda>s. s_id s = i \<and> s_version s = v) f t"
  by (auto simp: versioned_update_def Let_def select_def filter_empty_conv)

lemma applyTransition_Inr [res_simps]:
  "applyTransition cur st t f db = Inr db' \<longleftrightarrow>
     (\<exists>s \<in> set (t_submissions db). same_version cur s)
     \<and> db' = db\<lparr>t_submissions := update_where (same_version cur) (\<lambda>s. to_status st cur t (f s)) (t_submissions db)\<rparr>"
  unfolding applyTransition_def to_status_def same_version_def[abs_def]
  by (auto simp: versioned_update_Some versioned_update_None split: option.splits)

lemma save_detail_tables [simp]:
  "t_submissions (save_detail (kindOf ty) i d db) = t_submissions db"
  "t_submissionTargetGroups (save_detail (kindOf ty) i d db) = t_submissionTargetGroups db"
  "t_reviews (save_detail (kindOf ty) i d db) = t_reviews db"
  "t_auditLogs (save_detail (kindOf ty) i d db) = t_auditLogs db"
  using submission_kind_laws.save_tables[OF kindOf_laws]
  by (auto simp: save_detail_def split: option.splits)

lemma run_onApprove_tables [simp]:
  "t_submissions (run_onApprove (kindOf ty) i db) = t_submissions db"
  "t_reviews (run_onApprove (kindOf ty) i db) = t_reviews db"
  "t_auditLogs (run_onApprove (kindOf ty) i db) = t_auditLogs db"
  by (cases ty; simp add: run_onApprove_def)+

lemma insert_target_groups_tables [simp]:
  "t_submissions (insert_target_groups i g db) = t_submissions db"
  "t_eventBanners (insert_target_groups i g db) = t_eventBanners db"
  "t_stories (insert_target_groups i g db) = t_stories db"
  "storyNumberSeq (insert_target_groups i g db) = storyNumberSeq db"
  "t_reviews (insert_target_groups i g db) = t_reviews db"
  "t_auditLogs (insert_target_groups i g db) = t_auditLogs db"
  by (simp_all add: insert_target_groups_def)

lemma replace_target_groups_tables [simp]:
  "t_submissions (replace_target_groups i g db) = t_submissions db"
  "t_eventBanners (replace_target_groups i g db) = t_eventBanners db"
  "t_stories (replace_target_groups i g db) = t_stories db"
  "storyNumberSeq (replace_target_groups i g db) = storyNumberSeq db"
  by (simp_all add: replace_target_groups_def)

lemma insert_review_tables [simp]:
  "t_submissions (insert_review n cur d r m w k t db) = t_submissions db"
  "t_eventBanners (insert_review n cur d r m w k t db) = t_eventBanners db"
  "t_stories (insert_review n cur d r m w k t db) = t_stories db"
  "storyNumberSeq (insert_review n cur d r m w k t db) = storyNumberSeq db"
  by (simp_all add: insert_review_def)

lemma update_commit_rows:
  assumes "update_commit c u dto p db = Inr db'"
  shows "(\<exists>s \<in> set (t_submissions db). same_version (upl_current p) s)
     \<and> t_submissions db' = update_where (same_version (upl_current p)) (updated_row dto p (now c)) (t_submissions db)"
    and "\<not> list_ex (\<lambda>s. s_id s = s_id (upl_current p) \<and> notice_taken (t_submissions db') s) (t_submissions db')"
  using assms
  by (auto simp: update_commit_def Let_def versioned_update_Some same_version_def[abs_def]
      split: option.splits if_splits)

lemma commit_changes:
  assumes "commit c u p db = Inr db'" and "plan_current p = Some cur"
  shows "(\<exists>s \<in> set (t_submissions db). same_version cur s)
     \<and> t_submissions db' = update_where (same_version cur) (plan_row (now c) p) (t_submissions db)"
proof (cases p)
  case (UpdatePlan dto x)
  then show ?thesis using assms update_commit_rows(1)[of c u dto x db db'] by simp
qed (use assms in \<open>auto simp: submit_commit_def cancel_commit_def approve_commit_def reject_commit_def
      suspend_commit_def res_simps Let_def\<close>)

lemma create_commit_rows:
  assumes "create_commit c u p db = Inr r" and "cp_kind p = kindOf ty"
  shows "t_submissions (fst r) = insert_row (new_submission (uuids c 0) (au_id u) (now c) p) (t_submissions db)"
    and "\<not> notice_taken (t_submissions db) (new_submission (uuids c 0) (au_id u) (now c) p)"
    and "assertDailyLimit u (cp_kind p) (now c) db = Inr ()"
    and "snd r = uuids c 0"
    and "sk_schedule (cp_kind p) = REQUESTED v \<Longrightarrow> fst (cp_period p) \<noteq> None \<and> snd (cp_period p) \<noteq> None"
  using assms by (auto simp: create_commit_def Let_def res_simps split: if_splits)

end
