(* ===== verification/Lifecycle_Steps.thy ===== *)
theory Lifecycle_Steps
  imports Lifecycle
begin

text \<open>
  The status machine of a submission and the histories of the database: what every request and job
  does to the rows, and what the version column promises.
\<close>

section \<open>The status machine\<close>

fun status_edge :: "submission_status \<Rightarrow> submission_status \<Rightarrow> bool" where
  "status_edge DRAFT b = (b \<in> {DRAFT, PENDING_REVIEW, CANCELED})"
| "status_edge PENDING_REVIEW b = (b \<in> {PENDING_REVIEW, REJECTED, SCHEDULED, PUBLISHED, CANCELED})"
| "status_edge REJECTED b = (b \<in> {REJECTED, PENDING_REVIEW, CANCELED})"
| "status_edge APPROVED b = (b \<in> {PENDING_REVIEW, SCHEDULED, PUBLISHED, ENDED, SUSPENDED, CANCELED})"
| "status_edge SCHEDULED b = (b \<in> {PENDING_REVIEW, PUBLISHED, ENDED, SUSPENDED, CANCELED})"
| "status_edge PUBLISHED b = (b \<in> {ENDED, SUSPENDED})"
| "status_edge SUSPENDED b = (b \<in> {SUSPENDED, PENDING_REVIEW})"
| "status_edge ENDED b = False"
| "status_edge CANCELED b = False"
| "status_edge ARCHIVED b = False"

section \<open>What a prepared plan may do\<close>

lemma findRow_Some: "findRow d i = Some row \<Longrightarrow> sr row \<in> set (t_submissions d) \<and> s_id (sr row) = i"
proof -
  assume "findRow d i = Some row"
  then have "row \<in> set (selectSubmissionRows d (\<lambda>s. s_id s = i))"
    by (auto simp: findRow_def split: list.splits)
  then obtain s where "s \<in> set (t_submissions d)" "s_id s = i" "joinRow d s = Some row"
    by (auto simp: selectSubmissionRows_def map_filter_def)
  then show ?thesis by (auto simp: joinRow_def Let_def)
qed

lemma findOwnRow_Inr [res_simps]:
  "findOwnRow u i v d = Inr row \<longleftrightarrow>
     findRow d i = Some row \<and> s_requesterId (sr row) = au_id u \<and> s_version (sr row) = v"
  by (auto simp: findOwnRow_def res_simps split: if_splits)

lemma findPending_Inr [res_simps]:
  "findPending i v d = Inr row \<longleftrightarrow>
     findRow d i = Some row \<and> s_version (sr row) = v \<and> s_status (sr row) = PENDING_REVIEW"
  by (auto simp: findPending_def findExisting_def res_simps split: if_splits)

lemma create_prepare_Inr:
  assumes "create_prepare urls t u dto d = Inr p"
  shows "\<exists>ty. cp_kind p = kindOf ty
     \<and> rc_errors (sk_resolve (kindOf ty) (cd_kind dto) None (kindContext urls (au_id u) d)) = []
     \<and> cp_resolved p = sk_resolve (kindOf ty) (cd_kind dto) None (kindContext urls (au_id u) d)
     \<and> validateSchedule (kindOf ty) (fst (cp_period p)) (snd (cp_period p)) t = []
     \<and> (\<forall>f. sk_schedule (kindOf ty) = ON_APPROVAL f \<longrightarrow> cp_period p = (None, None))"
  using assms
  by (intro exI[of _ "case cd_type dto of Some x \<Rightarrow> x | None \<Rightarrow> POSTER"])
     (auto simp: create_prepare_def Let_def split: if_splits)

lemma update_prepare_Inr:
  assumes "update_prepare urls t u i dto d = Inr (Some p)"
  shows "\<exists>row. findRow d i = Some row \<and> p = plan_update urls u dto (sr row) d
     \<and> s_requesterId (sr row) = au_id u \<and> s_version (sr row) = ud_version dto
     \<and> s_status (sr row) \<in> set EDITABLE_STATUSES
     \<and> \<not> hasStartedPublishing (s_status (sr row)) (s_startAt (sr row)) t
     \<and> (s_status (sr row) \<in> set RETURNED_STATUSES \<longrightarrow> sk_resubmittable (kindOf (s_type (sr row))))
     \<and> content_errors dto p = [] \<and> schedule_errors dto p t = [] \<and> group_errors dto p d = []
     \<and> \<not> nothing_changed p"
  using assms
  by (auto simp: update_prepare_def Let_def res_simps update_errors_def split: if_splits)

lemma plan_update_simps [simp]:
  "upl_current (plan_update urls u dto cur d) = cur"
  "upl_needsReapproval (plan_update urls u dto cur d) = (s_status cur \<in> set REAPPROVAL_STATUSES)"
  "upl_nextStatus (plan_update urls u dto cur d) =
     (if s_status cur \<in> set REAPPROVAL_STATUSES then PENDING_REVIEW else s_status cur)"
  "upl_changes (plan_update urls u dto cur d) =
     changed_fields cur (rc_columns (upl_resolved (plan_update urls u dto cur d))) (ud_startAt dto) (ud_endAt dto)"
  "upl_resolved (plan_update urls u dto cur d) =
     sk_resolve (kindOf (s_type cur)) (ud_kind dto) (Some (kindColumnsOf cur, detailOf d (s_type cur) (s_id cur)))
       (kindContext urls (au_id u) d)"
  by (simp_all add: plan_update_def Let_def)

lemma submit_prepare_Inr:
  "submit_prepare t u i v d = Inr s \<longleftrightarrow> (\<exists>row. findRow d i = Some row \<and> s = sr row
     \<and> s_requesterId s = au_id u \<and> s_version s = v \<and> s_status s \<in> set SUBMITTABLE_STATUSES
     \<and> sk_resubmittable (kindOf (s_type s))
     \<and> validateSchedule (kindOf (s_type s)) (s_startAt s) (s_endAt s) t = [])"
  by (auto simp: submit_prepare_def Let_def res_simps split: if_splits)

lemma cancel_prepare_Inr:
  "cancel_prepare t u i v d = Inr s \<longleftrightarrow> (\<exists>row. findRow d i = Some row \<and> s = sr row
     \<and> s_requesterId s = au_id u \<and> s_version s = v \<and> canCancel (s_status s) (s_startAt s) t)"
  by (auto simp: cancel_prepare_def Let_def res_simps split: if_splits)

lemma approve_prepare_Inr:
  assumes "approve_prepare t i v d = Inr p"
  shows "\<exists>row. findRow d i = Some row \<and> apl_current p = sr row \<and> s_version (sr row) = v
     \<and> s_status (sr row) = PENDING_REVIEW \<and> \<not> passed t (snd (apl_period p))
     \<and> apl_status p = (if passed t (fst (apl_period p)) then PUBLISHED else SCHEDULED)
     \<and> apl_period p = (case sk_schedule (kindOf (s_type (sr row))) of
            ON_APPROVAL f \<Rightarrow> (Some (fst (f t)), Some (snd (f t)))
          | REQUESTED _ \<Rightarrow> (s_startAt (sr row), s_endAt (sr row)))
     \<and> (\<forall>a. s_assetId (sr row) = Some a \<longrightarrow> (\<exists>x. first_row (\<lambda>r. a_id r = a) (t_assets d) = Some x
            \<and> a_status x = READY \<and> a_checksum x = apl_assetChecksum p \<and> a_checksum x \<noteq> None))"
  using assms
  by (auto simp: approve_prepare_def Let_def res_simps split: if_splits option.splits kind_schedule.splits)

lemma suspend_prepare_Inr:
  "suspend_prepare t u i d = Inr s \<longleftrightarrow> (\<exists>row. findRow d i = Some row \<and> s = sr row
     \<and> (isReviewer (au_roles u) \<or> (s_requesterId s = au_id u \<and> s_type s \<in> {STORY, EVENT_BANNER}))
     \<and> s_status s \<in> set SUSPENDABLE_STATUSES \<and> \<not> passed t (s_endAt s))"
  by (auto simp: suspend_prepare_def findExisting_def Let_def res_simps split: if_splits)

lemma prepare_current:
  assumes "prepare urls t u req d = Inr p" and "plan_current p = Some cur"
  shows "cur \<in> set (t_submissions d)"
proof (cases req)
  case (UpdateReq i dto)
  with assms obtain x where "update_prepare urls t u i dto d = Inr (Some x)" "upl_current x = cur"
    by (auto simp: res_simps split: option.splits)
  with update_prepare_Inr[of urls t u i dto d x] findRow_Some[of d i] show ?thesis by auto
next
  case (ApproveReq i v)
  with assms obtain x where "approve_prepare t i v d = Inr x" "apl_current x = cur"
    by (auto simp: res_simps)
  with approve_prepare_Inr findRow_Some show ?thesis by metis
qed (use assms findRow_Some in \<open>auto simp: res_simps submit_prepare_Inr cancel_prepare_Inr suspend_prepare_Inr\<close>)

lemma plan_row_keeps [simp]:
  "s_id (plan_row t p s) = s_id s" "s_type (plan_row t p s) = s_type s"
  "s_requesterId (plan_row t p s) = s_requesterId s" "s_createdAt (plan_row t p s) = s_createdAt s"
  by (cases p; simp add: to_status_def updated_row_def apply_changes_def)+

lemma plan_row_version:
  "plan_current p = Some cur \<Longrightarrow> s_version (plan_row t p s) = s_version cur + 1"
  by (cases p) (auto simp: to_status_def updated_row_def)

lemma plan_update_edge:
  assumes "update_prepare urls t u i dto d = Inr (Some p)"
  shows "status_edge (s_status (upl_current p)) (upl_nextStatus p)"
proof -
  obtain row :: submission_row where "p = plan_update urls u dto (sr row) d"
      "s_status (sr row) \<in> set EDITABLE_STATUSES"
    using update_prepare_Inr[OF assms] by blast
  then show ?thesis by (cases "s_status (sr row)") (simp_all add: status_lists)
qed

lemma approve_edge:
  assumes "approve_prepare t i v d = Inr p"
  shows "status_edge (s_status (apl_current p)) (apl_status p)"
  using approve_prepare_Inr[OF assms] by (auto split: if_splits)

lemma prepare_edge:
  assumes "prepare urls t u req d = Inr p" and "plan_current p = Some cur"
  shows "status_edge (s_status cur) (s_status (plan_row t' p s))"
proof (cases req)
  case (UpdateReq i dto)
  with assms obtain x where "update_prepare urls t u i dto d = Inr (Some x)" "p = UpdatePlan dto x"
    by (auto simp: res_simps split: option.splits)
  with plan_update_edge[of urls t u i dto d x] assms(2) show ?thesis by (simp add: updated_row_def)
next
  case (ApproveReq i v)
  with assms obtain x where "approve_prepare t i v d = Inr x" "p = ApprovePlan x"
    by (auto simp: res_simps)
  with approve_edge[of t i v d x] assms(2) show ?thesis by (simp add: to_status_def)
next
  case (SubmitReq i v)
  with assms show ?thesis by (cases "s_status cur") (auto simp: res_simps submit_prepare_Inr to_status_def status_lists)
next
  case (CancelReq i v)
  with assms show ?thesis by (cases "s_status cur") (auto simp: res_simps cancel_prepare_Inr to_status_def canCancel_def)
next
  case (SuspendReq i m)
  with assms show ?thesis
    by (cases "s_status cur") (auto simp: res_simps suspend_prepare_Inr to_status_def SUSPENDABLE_STATUSES_def)
qed (use assms in \<open>auto simp: res_simps to_status_def\<close>)

lemma sync_row_cases:
  "sync_row t s = s
   \<or> (status_edge (s_status s) (s_status (sync_row t s)) \<and> s_version (sync_row t s) = s_version s + 1)"
  by (cases "s_status s") (simp_all add: sync_row_def ends_now_def starts_now_def waits_def)

lemma sync_row_keeps [simp]:
  "s_id (sync_row t s) = s_id s" "s_type (sync_row t s) = s_type s"
  "s_requesterId (sync_row t s) = s_requesterId s" "s_createdAt (sync_row t s) = s_createdAt s"
  "s_startAt (sync_row t s) = s_startAt s" "s_endAt (sync_row t s) = s_endAt s"
  "s_assetId (sync_row t s) = s_assetId s" "s_categoryId (sync_row t s) = s_categoryId s"
  "s_ziggleNoticeId (sync_row t s) = s_ziggleNoticeId s"
  by (simp_all add: sync_row_def moved_to_def)

section \<open>What a version column promises\<close>

text \<open>
  Rows are never removed, and a row that changes gets a higher version. Then a row read with a
  version is still the same row whenever a row of that version is there.
\<close>

locale versioned =
  fixes rows :: "'d \<Rightarrow> 'r list" and key :: "'r \<Rightarrow> 'k" and version :: "'r \<Rightarrow> int"
    and step :: "'d \<Rightarrow> 'd \<Rightarrow> bool"
  assumes kept: "step d d' \<Longrightarrow> distinct (map key (rows d)) \<Longrightarrow> r \<in> set (rows d) \<Longrightarrow>
      \<exists>r' \<in> set (rows d'). key r' = key r \<and> (r' = r \<or> version r < version r')"
    and keys: "step d d' \<Longrightarrow> distinct (map key (rows d)) \<Longrightarrow> distinct (map key (rows d'))"
begin

lemma keys_later: "step\<^sup>*\<^sup>* d d' \<Longrightarrow> distinct (map key (rows d)) \<Longrightarrow> distinct (map key (rows d'))"
  by (induction rule: rtranclp_induct) (auto dest: keys)

lemma kept_later:
  assumes "step\<^sup>*\<^sup>* d d'" and "distinct (map key (rows d))" and "r \<in> set (rows d)"
  shows "\<exists>r' \<in> set (rows d'). key r' = key r \<and> (r' = r \<or> version r < version r')"
  using assms(1)
proof (induction rule: rtranclp_induct)
  case base
  then show ?case using assms(3) by blast
next
  case (step d1 d2)
  from step.IH obtain r1 where r1: "r1 \<in> set (rows d1)" "key r1 = key r" "r1 = r \<or> version r < version r1"
    by blast
  from kept[OF step.hyps(2) keys_later[OF step.hyps(1) assms(2)] r1(1)] obtain r2 where
    "r2 \<in> set (rows d2)" "key r2 = key r1" "r2 = r1 \<or> version r1 < version r2" by blast
  then show ?case using r1 by (metis less_trans)
qed

lemma same_version_same_row:
  assumes "step\<^sup>*\<^sup>* d d'" and "distinct (map key (rows d))"
    and "r \<in> set (rows d)" and "r' \<in> set (rows d')" and "key r' = key r"
  shows "version r \<le> version r'" and "version r' = version r \<Longrightarrow> r' = r"
proof -
  from kept_later[OF assms(1-3)] obtain q where q: "q \<in> set (rows d')" "key q = key r"
    "q = r \<or> version r < version q" by blast
  from keys_later[OF assms(1,2)] q(1,2) assms(4,5) have "q = r'"
    by (metis distinct_map inj_on_def)
  with q(3) show "version r \<le> version r'" and "version r' = version r \<Longrightarrow> r' = r" by auto
qed

end

text \<open>Any transaction of any request, whatever state it was prepared on; the job; all other writes.\<close>

inductive change :: "(utext \<Rightarrow> url option) \<Rightarrow> database \<Rightarrow> database \<Rightarrow> bool" for urls where
  request: "prepare urls (now c) u req d = Inr p \<Longrightarrow> commit c u p db = Inr db' \<Longrightarrow>
     uuids c 0 \<notin> s_id ` set (t_submissions db) \<Longrightarrow> change urls db db'"
| job: "change urls db (fst (status_sync c locked db))"
| other: "t_submissions db' = t_submissions db \<Longrightarrow> t_eventBanners db' = t_eventBanners db \<Longrightarrow>
     t_stories db' = t_stories db \<Longrightarrow> storyNumberSeq db' = storyNumberSeq db \<Longrightarrow> change urls db db'"

inductive_cases changeE: "change urls db db'"

text \<open>One change, seen from the rows: a new row, rows put in place of the current one, or the job.\<close>

lemma commit_cases:
  assumes "prepare urls (now c) u req d = Inr p" and "commit c u p db = Inr db'"
  obtains (same) "p = NoChange" "db' = db"
  | (new) x where "p = CreatePlan x" "plan_current p = None"
      "t_submissions db' = insert_row (new_submission (uuids c 0) (au_id u) (now c) x) (t_submissions db)"
  | (row) cur where "plan_current p = Some cur" "\<exists>s \<in> set (t_submissions db). same_version cur s"
      "t_submissions db' = update_where (same_version cur) (plan_row (now c) p) (t_submissions db)"
proof (cases "plan_current p")
  case (Some cur)
  with row commit_changes[OF assms(2)] show ?thesis by blast
next
  case None
  show ?thesis
  proof (cases "p = NoChange")
    case True
    with same assms(2) show ?thesis by simp
  next
    case False
    with None obtain x where x: "p = CreatePlan x" by (cases p) auto
    with assms(1) obtain dto where "create_prepare urls (now c) u dto d = Inr x"
      by (cases req) (auto simp: res_simps split: option.splits)
    from create_prepare_Inr[OF this] obtain ty where ty: "cp_kind x = kindOf ty" by blast
    from x assms(2) obtain r where r: "create_commit c u x db = Inr r" "db' = fst r" by (auto simp: res_simps)
    from new[OF x None] create_commit_rows(1)[OF r(1) ty] r(2) show ?thesis by simp
  qed
qed

lemma status_sync_all_rows:
  "t_submissions (fst (status_sync c locked db)) =
     (if locked then map (sync_row (now c)) (t_submissions db) else t_submissions db)"
  by (cases locked) (simp_all add: status_sync_rows, simp add: status_sync_def)

lemma change_keeps_row:
  assumes "change urls db db'" and "r \<in> set (t_submissions db)"
  shows "\<exists>r' \<in> set (t_submissions db'). s_id r' = s_id r \<and> (r' = r \<or> s_version r' = s_version r + 1)"
  using assms(1)
proof (cases rule: change.cases)
  case (request c u req d p)
  from request(1,2) show ?thesis
  proof (cases rule: commit_cases)
    case (row cur)
    have "(if same_version cur r then plan_row (now c) p r else r) \<in> set (t_submissions db')"
      using assms(2) by (auto simp: row(3) set_update_where)
    then show ?thesis
      by (rule bexI[rotated]) (simp add: plan_row_version[OF row(1)] same_version_def)
  qed (use assms(2) in auto)
next
  case (job c locked)
  have "(if locked then sync_row (now c) r else r) \<in> set (t_submissions db')"
    using assms(2) job by (simp add: status_sync_all_rows)
  then show ?thesis using sync_row_cases[of "now c" r] by (metis sync_row_keeps(1))
next
  case other
  then show ?thesis using assms(2) by auto
qed

lemma change_keys:
  assumes "change urls db db'" and "distinct (map s_id (t_submissions db))"
  shows "distinct (map s_id (t_submissions db'))"
  using assms(1)
proof (cases rule: change.cases)
  case (request c u req d p)
  from request(1,2) show ?thesis
  proof (cases rule: commit_cases)
    case (new x)
    then show ?thesis using assms(2) request(3)
      by (auto simp: insert_row_def new_submission_def setKindColumns_def)
  next
    case (row cur)
    then show ?thesis using assms(2) by (simp add: distinct_key_update_where)
  qed (use assms(2) in simp)
next
  case (job c locked)
  then show ?thesis using assms(2) by (simp add: status_sync_all_rows comp_def)
qed (use assms(2) in simp)

interpretation submission_versions: versioned t_submissions s_id s_version "change urls"
  by unfold_locales (use change_keeps_row change_keys in force)+

end
