(* ===== verification/Lifecycle_Inv.thy ===== *)
theory Lifecycle_Inv
  imports Lifecycle_Steps
begin

text \<open>
  The stored submissions stay well formed: the CHECK constraints of \<open>db/schema.ts\<close>, the unique
  index on notices, a detail that fits the kind and the story numbers, through every history of
  requests, jobs and other writes. A commit therefore never meets a failing constraint it does not
  itself look for.
\<close>

section \<open>Well-formed rows\<close>

definition row_ok :: "submission \<Rightarrow> bool" where
  "row_ok s \<longleftrightarrow> submission_checks s \<and> (s_type s \<noteq> STORY \<longrightarrow> s_startAt s \<noteq> None \<and> s_endAt s \<noteq> None)"

text \<open>A row is well formed when its columns fit the kind and its period fits kind and status.\<close>

definition period_ok :: "submission \<Rightarrow> bool" where
  "period_ok s \<longleftrightarrow> check_period_order s \<and> check_period_both s \<and> check_period_after_approval s
     \<and> (s_type s \<noteq> STORY \<longrightarrow> s_startAt s \<noteq> None \<and> s_endAt s \<noteq> None)"

lemma row_ok_split: "row_ok s \<longleftrightarrow> columns_fit (s_type s) (kindColumnsOf s) \<and> period_ok s"
  unfolding row_ok_def period_ok_def submission_checks_def check_poster_fields_def
    check_category_poster_only_def columns_fit_def kindColumnsOf_def
  by (cases "s_type s = POSTER") auto

lemma period_ok_moved:
  assumes "period_ok s" and "s_startAt s' = None \<longleftrightarrow> s_startAt s = None" "s_endAt s' = None \<longleftrightarrow> s_endAt s = None"
    and "check_period_order s'" and "s_type s' = s_type s"
    and "s_status s' = s_status s \<or> s_status s' = PENDING_REVIEW"
  shows "period_ok s'"
  using assms by (auto simp: period_ok_def check_period_both_def check_period_after_approval_def)

lemmas columns_fit_current = row_ok_split[THEN iffD1, THEN conjunct1]

lemma with_status_ok:
  assumes "row_ok s" and "s_startAt s \<noteq> None \<or> st \<in> {DRAFT, PENDING_REVIEW, REJECTED, CANCELED, ARCHIVED}"
  shows "row_ok (s\<lparr>s_status := st, s_version := v, s_updatedAt := t\<rparr>)"
  using assms
  by (auto simp: row_ok_split period_ok_def check_period_order_def check_period_both_def
      check_period_after_approval_def kindColumnsOf_def)

lemma to_status_row_ok:
  "row_ok s \<Longrightarrow> s_startAt s \<noteq> None \<or> st \<in> {DRAFT, PENDING_REVIEW, REJECTED, CANCELED, ARCHIVED}
     \<Longrightarrow> row_ok (to_status st cur t s)"
  by (simp add: to_status_def with_status_ok)

lemma moved_to_ok: "row_ok s \<Longrightarrow> s_startAt s \<noteq> None \<Longrightarrow> row_ok (moved_to st t s)"
  by (simp add: moved_to_def with_status_ok)

lemma row_ok_period: "row_ok s \<Longrightarrow> s_status s \<in> set SUSPENDABLE_STATUSES \<Longrightarrow> s_startAt s \<noteq> None"
  by (auto simp: row_ok_split period_ok_def check_period_after_approval_def SUSPENDABLE_STATUSES_def)

lemma due_status:
  "ends_now t s \<or> starts_now t s \<or> waits t s \<Longrightarrow> s_status s \<in> set SUSPENDABLE_STATUSES"
  by (auto simp: ends_now_def starts_now_def waits_def SUSPENDABLE_STATUSES_def)

lemma sync_row_ok: "row_ok s \<Longrightarrow> row_ok (sync_row t s)"
  using row_ok_period[OF _ due_status[of t s]] moved_to_ok[of s] by (simp add: sync_row_def)

lemma pick_current [simp]: "pick x y x = y"
  by (simp add: pick_def)

lemma new_value_alt: "(if a \<noteq> None then a else x) = new_value a x"
  by (auto simp: new_value_def)

lemma apply_changes_current:
  "apply_changes cur k a b cur =
     (setKindColumns k cur)\<lparr>s_startAt := new_value a (s_startAt cur), s_endAt := new_value b (s_endAt cur)\<rparr>"
  by (simp only: apply_changes_def setKindColumns_def pick_current new_value_alt submission.simps)

lemma in_fst_filter_snd: "x \<in> set (map fst (filter snd l)) \<longleftrightarrow> (x, True) \<in> set l"
  by (induction l) auto

lemma changed_period [simp]:
  "''startAt'' \<in> set (changed_fields cur k a b) \<longleftrightarrow> a \<noteq> None \<and> a \<noteq> s_startAt cur"
  "''endAt'' \<in> set (changed_fields cur k a b) \<longleftrightarrow> b \<noteq> None \<and> b \<noteq> s_endAt cur"
  by (simp_all only: changed_fields_def in_fst_filter_snd) simp_all

lemma validateSchedule_order:
  assumes "validateSchedule (kindOf ty) (Some a) (Some b) t = []" and "ty \<noteq> STORY"
  shows "a < b \<and> t < b"
  using assms poster.requested_order[of poster_validate] banner.requested_order[of banner_validate]
  by (cases ty) (simp_all add: validateSchedule_def)

lemma unacceptedFields_story:
  "unacceptedFields STORY_KIND inp a b g = [] \<Longrightarrow> a = None \<and> b = None"
  by (auto simp: unacceptedFields_def split: if_splits)

text \<open>The period an accepted edit leaves is ordered, and set when it was set before.\<close>

lemma update_period:
  assumes ok: "row_ok cur" and e: "content_errors dto (plan_update urls u dto cur d) = []"
    "schedule_errors dto (plan_update urls u dto cur d) t = []"
  defines "a \<equiv> new_value (ud_startAt dto) (s_startAt cur)" and "b \<equiv> new_value (ud_endAt dto) (s_endAt cur)"
  shows "(a = None \<longleftrightarrow> s_startAt cur = None) \<and> (b = None \<longleftrightarrow> s_endAt cur = None)
     \<and> (case (a, b) of (Some x, Some y) \<Rightarrow> x < y | _ \<Rightarrow> True)"
proof (cases "s_type cur = STORY")
  case True
  from e(1) True have "ud_startAt dto = None \<and> ud_endAt dto = None"
    by (auto simp: content_errors_def dest: unacceptedFields_story)
  then show ?thesis using ok by (auto simp: a_def b_def new_value_def row_ok_def submission_check_defs
        split: option.splits)
next
  case False
  with ok obtain x y where xy: "s_startAt cur = Some x" "s_endAt cur = Some y" "x < y"
    by (auto simp: row_ok_def submission_check_defs split: option.splits)
  obtain x' y' where n: "a = Some x'" "b = Some y'"
    by (cases "ud_startAt dto"; cases "ud_endAt dto") (simp_all add: a_def b_def new_value_def xy)
  have "x' < y'"
  proof (cases "ud_startAt dto \<in> {None, s_startAt cur} \<and> ud_endAt dto \<in> {None, s_endAt cur}")
    case True
    then show ?thesis using xy n by (auto simp: a_def b_def new_value_def split: option.splits)
  next
    case f: False
    with e(2) have "validateSchedule (kindOf (s_type cur)) a b t = []"
      by (auto simp: schedule_errors_def Let_def a_def b_def split: if_splits)
    with validateSchedule_order[of "s_type cur" x' y' t] False n show ?thesis by simp
  qed
  then show ?thesis using n xy by simp
qed

lemma updated_row_ok:
  assumes "update_prepare urls t u i dto d = Inr (Some p)" and ok: "row_ok (upl_current p)"
    and fits: "detail_fits (s_type (upl_current p)) (detailOf d (s_type (upl_current p)) (s_id (upl_current p)))"
  shows "row_ok (updated_row dto p t' (upl_current p))"
    and "detail_fits (s_type (upl_current p)) (rc_detail (upl_resolved p))"
proof -
  obtain row :: submission_row where r: "p = plan_update urls u dto (sr row) d" "content_errors dto p = []"
      "schedule_errors dto p t = []"
    using update_prepare_Inr[OF assms(1)] by blast
  let ?cur = "sr row" and ?cols = "rc_columns (upl_resolved p)"
  have cf: "current_fits (sk_type (kindOf (s_type ?cur))) (Some (kindColumnsOf ?cur, detailOf d (s_type ?cur) (s_id ?cur)))"
    using ok fits columns_fit_current r(1) by (simp add: current_fits_def)
  show "detail_fits (s_type (upl_current p)) (rc_detail (upl_resolved p))"
    using submission_kind_laws.resolve_fits[OF kindOf_laws cf] r(1) by simp
  have cols: "columns_fit (s_type ?cur) ?cols"
    using submission_kind_laws.resolve_columns[OF kindOf_laws cf] r(1,2) by (simp add: content_errors_def)
  have st: "upl_nextStatus p = s_status ?cur \<or> upl_nextStatus p = PENDING_REVIEW" using r(1) by simp
  let ?s = "updated_row dto p t' (upl_current p)"
  have s: "kindColumnsOf ?s = ?cols" "s_type ?s = s_type ?cur" "s_status ?s = upl_nextStatus p"
      "s_startAt ?s = new_value (ud_startAt dto) (s_startAt ?cur)"
      "s_endAt ?s = new_value (ud_endAt dto) (s_endAt ?cur)"
    using r(1) by (simp_all add: updated_row_def apply_changes_current setKindColumns_def kindColumnsOf_def
        del: plan_update_simps(3,4,5))
  have pok: "period_ok ?cur" using ok r(1) by (simp add: row_ok_split)
  have pd: "(s_startAt ?s = None \<longleftrightarrow> s_startAt ?cur = None) \<and> (s_endAt ?s = None \<longleftrightarrow> s_endAt ?cur = None)
      \<and> check_period_order ?s"
    unfolding check_period_order_def s using update_period[of ?cur dto urls u d t] ok r by simp
  have "period_ok ?s"
    by (rule period_ok_moved[OF pok]) (use pd st in \<open>simp_all only: s\<close>)
  then show "row_ok ?s" using cols by (simp add: row_ok_split s)
qed

end
