(* ===== verification/Lifecycle_History.thy ===== *)
theory Lifecycle_History
  imports Lifecycle_Inv
begin

text \<open>
  Histories: the states of the database, newest first, where every request was prepared on some
  earlier state and committed on the newest one. In every state of every history the submissions
  are well formed, and a commit only ever changes the very row its request has read.
\<close>

section \<open>Details and notices\<close>

lemma detailOf_cong:
  "t_eventBanners a = t_eventBanners b \<Longrightarrow> t_stories a = t_stories b \<Longrightarrow> detailOf a ty i = detailOf b ty i"
  by (cases ty) (simp_all add: detailOf_def banner_load_def story_load_def)

lemma detailOf_save:
  "detail_fits ty d \<Longrightarrow> detail_fits ty (detailOf (save_detail (kindOf ty) i d db) ty i)"
proof -
  assume f: "detail_fits ty d"
  show ?thesis
  proof (cases "sk_details (kindOf ty)")
    case None
    then show ?thesis using submission_kind_laws.no_store[OF kindOf_laws None] by (simp add: detailOf_def)
  next
    case (Some ds)
    from submission_kind_laws.save_load[OF kindOf_laws Some, of d i db] f Some show ?thesis
      by (auto simp: detailOf_def save_detail_def)
  qed
qed

lemma detailOf_save_other: "j \<noteq> i \<Longrightarrow> detailOf (save_detail (kindOf ty) i d db) ty' j = detailOf db ty' j"
  by (cases ty; cases ty'; cases d)
     (simp_all add: detailOf_def save_detail_def banner_load_save_other story_load_save_other,
      simp_all add: banner_load_def story_load_def banner_save_def story_save_def)

lemma detailOf_onApprove:
  "detail_fits ty (detailOf db ty j) \<Longrightarrow> detail_fits ty (detailOf (run_onApprove (kindOf ty') i db) ty j)"
proof (cases ty')
  case STORY
  assume "detail_fits ty (detailOf db ty j)"
  then show ?thesis
    by (cases ty) (auto simp: STORY run_onApprove_def detailOf_def banner_load_def story_load_def
        story_onApprove_def first_row_update_where_same split: option.splits)
qed (simp_all add: run_onApprove_def)

lemma story_numbers_cong:
  "t_stories a = t_stories b \<Longrightarrow> storyNumberSeq a = storyNumberSeq b \<Longrightarrow> story_numbers_ok a = story_numbers_ok b"
  by (simp add: story_numbers_ok_def)

lemma save_detail_numbers:
  assumes "story_numbers_ok db"
  shows "story_numbers_ok (save_detail (kindOf ty) i d db)"
proof (cases ty)
  case EVENT_BANNER
  have "t_stories (banner_save i d db) = t_stories db" "storyNumberSeq (banner_save i d db) = storyNumberSeq db"
    by (cases d; simp add: banner_save_def)+
  from story_numbers_cong[OF this] EVENT_BANNER assms show ?thesis by (simp add: save_detail_def)
qed (use assms in \<open>simp_all add: save_detail_def story_save_numbers\<close>)

lemma run_onApprove_numbers: "story_numbers_ok db \<Longrightarrow> story_numbers_ok (run_onApprove (kindOf ty) i db)"
  by (cases ty) (simp_all add: run_onApprove_def story_onApprove_numbers)

lemma unique_active_notice_iff:
  assumes "distinct (map s_id t)"
  shows "unique_active_notice t \<longleftrightarrow> (\<forall>r \<in> set t. \<forall>q \<in> set t. notice_active r \<longrightarrow> notice_active q
     \<longrightarrow> s_ziggleNoticeId r = s_ziggleNoticeId q \<longrightarrow> s_id r = s_id q)"
proof -
  have d: "distinct t" and i: "\<And>r q. r \<in> set t \<Longrightarrow> q \<in> set t \<Longrightarrow> s_id r = s_id q \<longleftrightarrow> r = q"
    using assms by (auto simp: distinct_map inj_on_def)
  show ?thesis
    using d i by (auto simp: unique_active_notice_def distinct_map inj_on_def)
qed

section \<open>The invariant\<close>

definition submissions_ok :: "database \<Rightarrow> bool" where
  "submissions_ok db \<longleftrightarrow> distinct (map s_id (t_submissions db))
     \<and> (\<forall>s \<in> set (t_submissions db). row_ok s \<and> detail_fits (s_type s) (detailOf db (s_type s) (s_id s)))
     \<and> unique_active_notice (t_submissions db) \<and> story_numbers_ok db"

lemma submissions_okD:
  assumes "submissions_ok db"
  shows "distinct (map s_id (t_submissions db))"
    and "s \<in> set (t_submissions db) \<Longrightarrow> row_ok s"
    and "s \<in> set (t_submissions db) \<Longrightarrow> detail_fits (s_type s) (detailOf db (s_type s) (s_id s))"
    and "unique_active_notice (t_submissions db)" and "story_numbers_ok db"
  using assms by (auto simp: submissions_ok_def)

inductive history :: "(utext \<Rightarrow> url option) \<Rightarrow> database list \<Rightarrow> bool" for urls where
  start: "submissions_ok db \<Longrightarrow> history urls [db]"
| request: "history urls (db # h) \<Longrightarrow> d \<in> set (db # h) \<Longrightarrow> prepare urls (now c) u req d = Inr p \<Longrightarrow>
     commit c u p db = Inr db' \<Longrightarrow> uuids c 0 \<notin> s_id ` set (t_submissions db) \<Longrightarrow> history urls (db' # db # h)"
| job: "history urls (db # h) \<Longrightarrow> history urls (fst (status_sync c locked db) # db # h)"
| other: "history urls (db # h) \<Longrightarrow> t_submissions db' = t_submissions db \<Longrightarrow>
     t_eventBanners db' = t_eventBanners db \<Longrightarrow> t_stories db' = t_stories db \<Longrightarrow>
     storyNumberSeq db' = storyNumberSeq db \<Longrightarrow> history urls (db' # db # h)"

inductive_cases history_ConsE: "history urls (db' # db # h)"

lemma history_tail: "history urls (db' # db # h) \<Longrightarrow> history urls (db # h)"
  by (elim history_ConsE)

lemma history_change: "history urls (db' # db # h) \<Longrightarrow> change urls db db'"
  by (elim history_ConsE) (auto intro: change.intros)

lemma history_chain:
  assumes "history urls h" and "d \<in> set h"
  shows "(change urls)\<^sup>*\<^sup>* d (hd h)"
  using assms
proof (induction rule: history.induct)
  case (start db)
  then show ?case by simp
next
  case (request db h d c u req p db')
  then show ?case using change.request[OF request.hyps(3-5)] by (auto intro: rtranclp.rtrancl_into_rtrancl)
next
  case (job db h c locked)
  then show ?case using change.job[of urls db c locked] by (auto intro: rtranclp.rtrancl_into_rtrancl)
next
  case (other db h db')
  then show ?case using change.other[OF other.hyps(2-5)] by (auto intro: rtranclp.rtrancl_into_rtrancl)
qed

text \<open>The row a commit finds is the row the request has read.\<close>

lemma same_version_is_current:
  assumes h: "history urls (db # h)" "d \<in> set (db # h)" and d: "distinct (map s_id (t_submissions d))"
    and p: "prepare urls t u req d = Inr p" "plan_current p = Some cur"
    and s: "s \<in> set (t_submissions db)" "same_version cur s"
  shows "s = cur"
proof -
  have r: "(change urls)\<^sup>*\<^sup>* d db" using history_chain[OF h] by simp
  have "s_id s = s_id cur" "s_version s = s_version cur" using s(2) by (simp_all add: same_version_def)
  then show ?thesis
    using submission_versions.same_version_same_row(2)[OF r d prepare_current[OF p] s(1)] by blast
qed

section \<open>Every commit keeps it\<close>

lemma approve_row_ok:
  assumes "approve_prepare t i v d = Inr p" and ok: "row_ok (apl_current p)"
  shows "row_ok (plan_row t (ApprovePlan p) (apl_current p))"
proof -
  let ?cur = "apl_current p" and ?per = "apl_period p"
  let ?s = "?cur\<lparr>s_startAt := fst ?per, s_endAt := snd ?per\<rparr>"
  have per: "?per = (case sk_schedule (kindOf (s_type ?cur)) of
            ON_APPROVAL f \<Rightarrow> (Some (fst (f t)), Some (snd (f t)))
          | REQUESTED _ \<Rightarrow> (s_startAt ?cur, s_endAt ?cur))"
    using approve_prepare_Inr[OF assms(1)] by (elim exE conjE) (simp split: kind_schedule.split)
  have "row_ok ?s \<and> s_startAt ?s \<noteq> None"
  proof (cases "s_type ?cur = STORY")
    case True
    then show ?thesis using ok per story.approval_order[of story_periodFrom t]
      by (auto simp: row_ok_def submission_check_defs)
  next
    case False
    with per have "?per = (s_startAt ?cur, s_endAt ?cur)" by (cases "s_type ?cur") auto
    then show ?thesis using ok False by (simp add: row_ok_def)
  qed
  then show ?thesis by (simp add: to_status_row_ok)
qed

lemma plan_row_ok:
  assumes "prepare urls t u req d = Inr p" and "plan_current p = Some cur" and ok: "row_ok cur"
    and "detail_fits (s_type cur) (detailOf d (s_type cur) (s_id cur))"
  shows "row_ok (plan_row t p cur)"
proof (cases req)
  case (UpdateReq i dto)
  with assms obtain x where "update_prepare urls t u i dto d = Inr (Some x)" "p = UpdatePlan dto x"
    by (auto simp: res_simps split: option.splits)
  with updated_row_ok(1)[of urls t u i dto d x] assms show ?thesis by simp
next
  case (ApproveReq i v)
  with assms obtain x where "approve_prepare t i v d = Inr x" "p = ApprovePlan x" by (auto simp: res_simps)
  with approve_row_ok[of t i v d x] assms(2) ok show ?thesis by simp
next
  case (SubmitReq i v)
  then have "row_ok (cur\<lparr>s_submittedAt := Some t\<rparr>)" using ok by (auto simp: row_ok_def submission_check_defs)
  with SubmitReq assms show ?thesis by (auto simp: res_simps intro: to_status_row_ok)
next
  case (SuspendReq i m)
  with assms have "s_startAt cur \<noteq> None" using row_ok_period[OF ok] by (auto simp: res_simps suspend_prepare_Inr)
  with SuspendReq assms show ?thesis by (auto simp: res_simps to_status_row_ok)
qed (use assms in \<open>auto simp: res_simps intro: to_status_row_ok\<close>)

lemma simple_commit_tables:
  assumes "commit c u p db = Inr db'" and "plan_current p \<noteq> None"
    and "\<And>dto x. p \<noteq> UpdatePlan dto x" "\<And>x. p \<noteq> ApprovePlan x"
  shows "t_eventBanners db' = t_eventBanners db" "t_stories db' = t_stories db"
    "storyNumberSeq db' = storyNumberSeq db"
  using assms by (cases p; auto simp: res_simps submit_commit_def cancel_commit_def reject_commit_def suspend_commit_def)+

lemma commit_details:
  assumes p: "prepare urls t u req d = Inr p" "plan_current p = Some cur" and c: "commit c u p db = Inr db'"
    and ok: "row_ok cur" "detail_fits (s_type cur) (detailOf d (s_type cur) (s_id cur))"
  shows "j = s_id cur \<longrightarrow> ty = s_type cur \<Longrightarrow> detail_fits ty (detailOf db ty j) \<Longrightarrow> detail_fits ty (detailOf db' ty j)"
    and "story_numbers_ok db \<Longrightarrow> story_numbers_ok db'"
proof -
  have "((j = s_id cur \<longrightarrow> ty = s_type cur) \<longrightarrow> detail_fits ty (detailOf db ty j)
        \<longrightarrow> detail_fits ty (detailOf db' ty j)) \<and> (story_numbers_ok db \<longrightarrow> story_numbers_ok db')"
  proof (cases p)
    case (UpdatePlan dto x)
    with p obtain i where x: "update_prepare urls t u i dto d = Inr (Some x)" "upl_current x = cur"
      by (cases req) (auto simp: res_simps split: option.splits)
    note new = updated_row_ok(2)[OF x(1)]
    let ?d1 = "db\<lparr>t_submissions := t_submissions db'\<rparr>"
    let ?d2 = "if upl_detailChanged x then save_detail (kindOf (s_type cur)) (s_id cur) (rc_detail (upl_resolved x)) ?d1
       else ?d1"
    have e: "t_eventBanners db' = t_eventBanners ?d2" "t_stories db' = t_stories ?d2"
      "storyNumberSeq db' = storyNumberSeq ?d2"
      using c x UpdatePlan by (auto simp: update_commit_def Let_def split: option.splits if_splits)
    have "story_numbers_ok ?d1 = story_numbers_ok db" "detailOf ?d1 = detailOf db"
      by (auto simp: story_numbers_ok_def fun_eq_iff intro: detailOf_cong)
    then show ?thesis
      using ok new x(2) unfolding detailOf_cong[OF e(1,2)] story_numbers_cong[OF e(2,3)]
      by (cases "j = s_id cur") (auto simp: detailOf_save detailOf_save_other save_detail_numbers)
  next
    case (ApprovePlan x)
    let ?d1 = "db\<lparr>t_submissions := t_submissions db'\<rparr>"
    let ?d2 = "run_onApprove (kindOf (s_type cur)) (s_id cur) ?d1"
    have e: "t_eventBanners db' = t_eventBanners ?d2" "t_stories db' = t_stories ?d2"
      "storyNumberSeq db' = storyNumberSeq ?d2"
      using c p(2) ApprovePlan by (auto simp: approve_commit_def Let_def res_simps)
    have "story_numbers_ok ?d1 = story_numbers_ok db" "detailOf ?d1 = detailOf db"
      by (auto simp: story_numbers_ok_def fun_eq_iff intro: detailOf_cong)
    then show ?thesis
      unfolding detailOf_cong[OF e(1,2)] story_numbers_cong[OF e(2,3)]
      by (auto intro!: detailOf_onApprove run_onApprove_numbers)
  qed (use simple_commit_tables[OF c] p(2) detailOf_cong[of db' db] story_numbers_cong[of db' db] in simp_all)
  then show "j = s_id cur \<longrightarrow> ty = s_type cur \<Longrightarrow> detail_fits ty (detailOf db ty j) \<Longrightarrow> detail_fits ty (detailOf db' ty j)"
    and "story_numbers_ok db \<Longrightarrow> story_numbers_ok db'" by blast+
qed

text \<open>The row and the detail a creation stores.\<close>

lemma create_ok:
  assumes p: "create_prepare urls t u dto d = Inr p" and c: "create_commit c u p db = Inr r"
  defines "new \<equiv> new_submission (uuids c 0) (au_id u) (now c) p"
  shows "row_ok new" and "detail_fits (s_type new) (detailOf (fst r) (s_type new) (s_id new))"
    and "j \<noteq> s_id new \<Longrightarrow> detailOf (fst r) ty j = detailOf db ty j"
    and "story_numbers_ok db \<Longrightarrow> story_numbers_ok (fst r)"
proof -
  from create_prepare_Inr[OF p] obtain ty where k: "cp_kind p = kindOf ty"
    and res: "cp_resolved p = sk_resolve (kindOf ty) (cd_kind dto) None (kindContext urls (au_id u) d)"
      "rc_errors (cp_resolved p) = []"
    and val: "validateSchedule (kindOf ty) (fst (cp_period p)) (snd (cp_period p)) t = []"
    and app: "\<And>f. sk_schedule (kindOf ty) = ON_APPROVAL f \<Longrightarrow> cp_period p = (None, None)" by auto
  have new: "s_type new = ty" "kindColumnsOf new = rc_columns (cp_resolved p)" "s_id new = uuids c 0"
      "s_startAt new = fst (cp_period p)" "s_endAt new = snd (cp_period p)" "s_status new = PENDING_REVIEW"
    using k by (simp_all add: new_def new_submission_def setKindColumns_def kindColumnsOf_def)
  have cols: "columns_fit ty (rc_columns (cp_resolved p))" and fits: "detail_fits ty (rc_detail (cp_resolved p))"
    using submission_kind_laws.resolve_columns[OF kindOf_laws, of ty None] res
      submission_kind_laws.resolve_fits[OF kindOf_laws, of ty None]
    by (simp_all add: current_fits_def)
  note cc = create_commit_rows[OF c k]
  have "period_ok new"
  proof (cases "ty = STORY")
    case True
    then show ?thesis using app new by (simp add: period_ok_def check_period_order_def check_period_both_def
          check_period_after_approval_def)
  next
    case False
    then obtain v where "sk_schedule (kindOf ty) = REQUESTED v" by (cases ty) auto
    with cc(5) k obtain a b where ab: "cp_period p = (Some a, Some b)" by (cases "cp_period p") auto
    with val validateSchedule_order[of ty a b t] False have "a < b" by simp
    with new ab show ?thesis by (simp add: period_ok_def check_period_order_def check_period_both_def
          check_period_after_approval_def)
  qed
  with cols new show "row_ok new" by (simp add: row_ok_split)
  let ?d1 = "db\<lparr>t_submissions := t_submissions (fst r)\<rparr>"
  let ?d2 = "save_detail (kindOf ty) (uuids c 0) (rc_detail (cp_resolved p)) ?d1"
  have e: "t_eventBanners (fst r) = t_eventBanners ?d2" "t_stories (fst r) = t_stories ?d2"
      "storyNumberSeq (fst r) = storyNumberSeq ?d2"
    using c k by (auto simp: create_commit_def Let_def res_simps split: if_splits)
  have d1: "story_numbers_ok ?d1 = story_numbers_ok db" "detailOf ?d1 = detailOf db"
    by (auto simp: story_numbers_ok_def fun_eq_iff intro: detailOf_cong)
  show "detail_fits (s_type new) (detailOf (fst r) (s_type new) (s_id new))"
    using detailOf_save[OF fits] new by (simp add: detailOf_cong[OF e(1,2)])
  show "j \<noteq> s_id new \<Longrightarrow> detailOf (fst r) ty j = detailOf db ty j" for ty j
    using new(3) d1(2) by (simp add: detailOf_cong[OF e(1,2)] detailOf_save_other)
  show "story_numbers_ok db \<Longrightarrow> story_numbers_ok (fst r)"
    using d1(1) by (simp add: story_numbers_cong[OF e(2,3)] save_detail_numbers)
qed

lemma update_current_only:
  assumes "\<And>s. s \<in> set t \<Longrightarrow> P s \<Longrightarrow> s = cur"
  shows "r \<in> set (update_where P f t) \<Longrightarrow> r = f cur \<and> cur \<in> set t \<or> r \<in> set t \<and> \<not> P r"
  using assms by (auto simp: set_update_where)

text \<open>Which notices are taken after a commit.\<close>

lemma notice_edge:
  "status_edge a b \<Longrightarrow> a \<notin> {CANCELED, ENDED, ARCHIVED}"
  by (cases a) auto

lemma plan_row_notice:
  assumes "prepare urls t u req d = Inr p" and "plan_current p = Some cur"
    and "\<And>dto x. p \<noteq> UpdatePlan dto x" and "notice_active (plan_row t' p cur)"
  shows "notice_active cur \<and> s_ziggleNoticeId (plan_row t' p cur) = s_ziggleNoticeId cur"
proof -
  have "s_ziggleNoticeId (plan_row t' p cur) = s_ziggleNoticeId cur"
    using assms(2,3) by (cases p) (auto simp: to_status_def)
  with notice_edge[OF prepare_edge[OF assms(1,2)]] assms(4) show ?thesis by (simp add: notice_active_def)
qed

lemma request_ok:
  assumes h: "history urls (db # h)" "d \<in> set (db # h)" and ok: "submissions_ok d" "submissions_ok db"
    and p: "prepare urls (now c) u req d = Inr p" and c: "commit c u p db = Inr db'"
    and fresh: "uuids c 0 \<notin> s_id ` set (t_submissions db)"
  shows "submissions_ok db'"
proof -
  have keys: "distinct (map s_id (t_submissions db'))"
    using change_keys[OF change.request[OF p c fresh] submissions_okD(1)[OF ok(2)]] .
  have n0: "notice_active r \<Longrightarrow> notice_active q \<Longrightarrow> s_ziggleNoticeId r = s_ziggleNoticeId q \<Longrightarrow> s_id r = s_id q"
    if "r \<in> set (t_submissions db)" "q \<in> set (t_submissions db)" for r q
    using that submissions_okD(4)[OF ok(2)] unfolding unique_active_notice_iff[OF submissions_okD(1)[OF ok(2)]] by blast
  from p c show ?thesis
  proof (cases rule: commit_cases)
    case same
    then show ?thesis using ok(2) by simp
  next
    case (new x)
    then obtain dto where pr: "create_prepare urls (now c) u dto d = Inr x"
      using p by (cases req) (auto simp: res_simps split: option.splits)
    from new c obtain r where r: "create_commit c u x db = Inr r" "db' = fst r" by (auto simp: res_simps)
    from create_prepare_Inr[OF pr] obtain ty where k: "cp_kind x = kindOf ty" by blast
    let ?n = "new_submission (uuids c 0) (au_id u) (now c) x"
    note cok = create_ok[OF pr r(1)]
    have id: "s_id ?n = uuids c 0" by (simp add: new_submission_def setKindColumns_def)
    have old: "s_id s \<noteq> s_id ?n" if "s \<in> set (t_submissions db)" for s
      using fresh id that by (metis image_eqI)
    have nt: "\<not> (notice_active ?n \<and> notice_active q \<and> s_ziggleNoticeId q = s_ziggleNoticeId ?n)"
      if "q \<in> set (t_submissions db)" for q
      using create_commit_rows(2)[OF r(1) k] old[OF that] that by (auto simp: notice_taken_def list_ex_iff)
    have "notice_active r \<Longrightarrow> notice_active q \<Longrightarrow> s_ziggleNoticeId r = s_ziggleNoticeId q \<Longrightarrow> s_id r = s_id q"
      if "r \<in> set (t_submissions db')" "q \<in> set (t_submissions db')" for r q
      using that n0[of r q] nt[of r] nt[of q] by (auto simp: new(3))
    then have "unique_active_notice (t_submissions db')"
      unfolding unique_active_notice_iff[OF keys] by blast
    then show ?thesis
      using keys cok submissions_okD[OF ok(2)] old unfolding submissions_ok_def r(2)
      by (auto simp: new(3)[unfolded r(2)])
  next
    case (row cur)
    have cur: "s = cur" if "s \<in> set (t_submissions db)" "same_version cur s" for s
      using same_version_is_current[OF h submissions_okD(1)[OF ok(1)] p row(1) that] .
    have in_db: "cur \<in> set (t_submissions db)" using row(2) cur by auto
    note cok = submissions_okD(2,3)[OF ok(1) prepare_current[OF p row(1)]]
    have rows: "r = plan_row (now c) p cur \<or> (r \<in> set (t_submissions db) \<and> s_id r \<noteq> s_id cur)"
      if "r \<in> set (t_submissions db')" for r
      using that keys in_db cur submissions_okD(1)[OF ok(2)] unfolding row(3)
      by (auto simp: set_update_where distinct_map inj_on_def same_version_def)
    let ?n = "plan_row (now c) p cur"
    have new: "s_ziggleNoticeId q \<noteq> s_ziggleNoticeId ?n"
      if "q \<in> set (t_submissions db)" "s_id q \<noteq> s_id cur" "notice_active q" "notice_active ?n" for q
    proof (cases "\<exists>dto x. p = UpdatePlan dto x")
      case True
      then obtain dto x where "update_commit c u dto x db = Inr db'" "upl_current x = cur" using c row(1) by auto
      from update_commit_rows(2)[OF this(1)] this(2)
      have "\<not> notice_taken (t_submissions db') s" if "s \<in> set (t_submissions db')" "s_id s = s_id cur" for s
        using that by (auto simp: list_ex_iff)
      moreover have "?n \<in> set (t_submissions db')" "q \<in> set (t_submissions db')"
        using in_db that(1,2) by (auto simp: row(3) set_update_where same_version_def)
      ultimately show ?thesis using that(2-4) by (force simp: notice_taken_def list_ex_iff)
    next
      case False
      with plan_row_notice[OF p row(1) _ that(4)] n0[OF that(1) in_db] that(2,3) show ?thesis by metis
    qed
    have "notice_active r \<Longrightarrow> notice_active q \<Longrightarrow> s_ziggleNoticeId r = s_ziggleNoticeId q \<Longrightarrow> s_id r = s_id q"
      if "r \<in> set (t_submissions db')" "q \<in> set (t_submissions db')" for r q
      using rows[OF that(1)] rows[OF that(2)] new[of r] new[of q] n0[of r q] by metis
    then have "unique_active_notice (t_submissions db')"
      unfolding unique_active_notice_iff[OF keys] by blast
    moreover have "row_ok r \<and> detail_fits (s_type r) (detailOf db' (s_type r) (s_id r))"
      if "r \<in> set (t_submissions db')" for r
      using rows[OF that]
    proof
      assume "r = ?n"
      then show ?thesis
        using plan_row_ok[OF p row(1) cok] commit_details(1)[OF p row(1) c cok, of "s_id cur" "s_type cur"]
          submissions_okD(3)[OF ok(2) in_db] by simp
    next
      assume "r \<in> set (t_submissions db) \<and> s_id r \<noteq> s_id cur"
      then show ?thesis
        using commit_details(1)[OF p row(1) c cok, of "s_id r" "s_type r"] submissions_okD(2,3)[OF ok(2), of r] by simp
    qed
    ultimately show ?thesis
      using keys commit_details(2)[OF p row(1) c cok] submissions_okD(5)[OF ok(2)]
      by (auto simp: submissions_ok_def)
  qed
qed

end
