(* ===== verification/Users.thy ===== *)
theory Users
  imports Auth
begin

text \<open>
  Role management: \<open>src/src/users/user-roles.service.ts\<close>. The list search is an \<open>ILIKE\<close> with the
  query's wildcards escaped; \<open>fc\<close> is the database's case folding of a character and \<open>coll\<close>
  its collation of names. A change runs under one advisory lock, so changes are whole steps.
\<close>

section \<open>Searching by text\<close>

text \<open>\<open>LIKE\<close> with \<open>%\<close> (37), \<open>_\<close> (95) and the escape \<open>\\<close> (92).\<close>

function like :: "(nat \<Rightarrow> nat) \<Rightarrow> utext \<Rightarrow> utext \<Rightarrow> bool" where
  "like f [] s = (s = [])"
| "like f (p # ps) s =
     (if p = 37 then like f ps s \<or> (case s of [] \<Rightarrow> False | c # s' \<Rightarrow> like f (p # ps) s')
      else if p = 95 then (case s of [] \<Rightarrow> False | c # s' \<Rightarrow> like f ps s')
      else if p = 92 then (case ps of [] \<Rightarrow> False
        | q # qs \<Rightarrow> (case s of [] \<Rightarrow> False | c # s' \<Rightarrow> f q = f c \<and> like f qs s'))
      else (case s of [] \<Rightarrow> False | c # s' \<Rightarrow> f p = f c \<and> like f ps s'))"
  by pat_completeness auto
termination by (relation "measure (\<lambda>(f, p, s). length p + length s)") auto

definition escape_like :: "utext \<Rightarrow> utext" where
  "escape_like q = concat (map (\<lambda>c. if c = 92 \<or> c = 37 \<or> c = 95 then [92, c] else [c]) q)"

definition matches_text :: "(nat \<Rightarrow> nat) \<Rightarrow> utext \<Rightarrow> utext \<Rightarrow> bool" where
  "matches_text f q s = like f ([37] @ escape_like q @ [37]) s"

definition matches :: "(nat \<Rightarrow> nat) \<Rightarrow> utext \<Rightarrow> user \<Rightarrow> bool" where
  "matches f q u \<longleftrightarrow> matches_text f q (u_name u) \<or> matches_text f q (u_email u)
     \<or> (case u_studentId u of Some x \<Rightarrow> matches_text f q x | None \<Rightarrow> False)"

lemma like_percent: "like f (37 # ps) s \<longleftrightarrow> (\<exists>a b. s = a @ b \<and> like f ps b)"
proof (induction s)
  case (Cons c s)
  have "(\<exists>a b. c # s = a @ b \<and> like f ps b) \<longleftrightarrow> like f ps (c # s) \<or> (\<exists>a b. s = a @ b \<and> like f ps b)"
    by (auto simp: Cons_eq_append_conv)
  with Cons.IH show ?case by simp
qed simp

lemma like_escape:
  "like f (escape_like q @ ps) s \<longleftrightarrow> (\<exists>m b. s = m @ b \<and> map f m = map f q \<and> like f ps b)"
proof (induction q arbitrary: s)
  case (Cons c q)
  have "like f (escape_like (c # q) @ ps) s
      \<longleftrightarrow> (\<exists>d s'. s = d # s' \<and> f c = f d \<and> like f (escape_like q @ ps) s')"
    by (cases s) (auto simp: escape_like_def)
  also have "\<dots> \<longleftrightarrow> (\<exists>m b. s = m @ b \<and> map f m = map f (c # q) \<and> like f ps b)"
    unfolding Cons.IH map_eq_Cons_conv list.map by (auto simp: map_eq_Cons_conv) (metis append_Cons)+
  finally show ?case .
qed (simp add: escape_like_def)

text \<open>
  a search finds exactly the texts that contain the query, up to case folding: the wildcards and
  backslashes of the query are looked for as they are.
\<close>

theorem matches_text_substring:
  "matches_text f q s \<longleftrightarrow> (\<exists>a m b. s = a @ m @ b \<and> map f m = map f q)"
proof -
  have all: "like f [37] b" for b by (subst like_percent) (rule exI[of _ b], simp)
  have "like f (37 # escape_like q @ [37]) s
      \<longleftrightarrow> (\<exists>a b. s = a @ b \<and> like f (escape_like q @ [37]) b)"
    by (rule like_percent)
  also have "\<dots> \<longleftrightarrow> (\<exists>a b. s = a @ b \<and> (\<exists>m b'. b = m @ b' \<and> map f m = map f q))"
    by (simp only: like_escape all simp_thms)
  also have "\<dots> \<longleftrightarrow> (\<exists>a m b. s = a @ m @ b \<and> map f m = map f q)" by auto
  finally have "like f (37 # escape_like q @ [37]) s
      \<longleftrightarrow> (\<exists>a m b. s = a @ m @ b \<and> map f m = map f q)" .
  then show ?thesis by (simp only: matches_text_def append.simps)
qed

section \<open>The list\<close>

record admin_user_dto =
  aud_id :: uuid
  aud_name :: utext
  aud_email :: utext
  aud_studentId :: "utext option"
  aud_grantedRoles :: "granted_role list"
  aud_lastLoginAt :: time
  aud_createdAt :: time

definition admin_user_toDto :: "user \<Rightarrow> granted_role list \<Rightarrow> admin_user_dto" where
  "admin_user_toDto u roles =
     \<lparr>aud_id = u_id u, aud_name = u_name u, aud_email = u_email u, aud_studentId = u_studentId u,
      aud_grantedRoles = roles, aud_lastLoginAt = u_lastLoginAt u, aud_createdAt = u_createdAt u\<rparr>"

definition rolesOf :: "database \<Rightarrow> uuid \<Rightarrow> granted_role list" where
  "rolesOf db userId =
     map ur_role (order_asc ur_role (select (\<lambda>r. ur_userId r = userId) (t_userRoles db)))"

definition user_filter ::
    "(nat \<Rightarrow> nat) \<Rightarrow> utext option \<Rightarrow> granted_role option \<Rightarrow> database \<Rightarrow> user \<Rightarrow> bool" where
  "user_filter fc q role db u \<longleftrightarrow>
     (case q of None \<Rightarrow> True | Some x \<Rightarrow> x = [] \<or> matches fc x u)
     \<and> (case role of None \<Rightarrow> True
        | Some r \<Rightarrow> list_ex (\<lambda>p. ur_userId p = u_id u \<and> ur_role p = r) (t_userRoles db))"

definition user_key :: "(utext \<Rightarrow> nat list) \<Rightarrow> user \<Rightarrow> nat list \<times> uuid" where
  "user_key coll u = (coll (u_name u), u_id u)"

definition user_rows ::
    "(nat \<Rightarrow> nat) \<Rightarrow> (utext \<Rightarrow> nat list) \<Rightarrow> utext option \<Rightarrow> granted_role option \<Rightarrow> database
       \<Rightarrow> (nat list \<times> uuid) option \<Rightarrow> user list" where
  "user_rows fc coll q role db cur =
     order_asc (user_key coll)
       (filter (\<lambda>u. case cur of None \<Rightarrow> True | Some k \<Rightarrow> k < user_key coll u)
          (select (user_filter fc q role db) (t_users db)))"

definition user_cursor :: "json \<Rightarrow> (utext \<times> uuid) option" where
  "user_cursor v = (case v of JArr [JStr n, JUuid i] \<Rightarrow> Some (n, i) | _ \<Rightarrow> None)"

definition list_users ::
    "(nat \<Rightarrow> nat) \<Rightarrow> (utext \<Rightarrow> nat list) \<Rightarrow> time \<Rightarrow> utext option \<Rightarrow> granted_role option
       \<Rightarrow> cursor option \<Rightarrow> nat \<Rightarrow> database \<Rightarrow> admin_user_dto page res" where
  "list_users fc coll t q role cur limit db =
     bindE (case cur of None \<Rightarrow> Inr None
            | Some c \<Rightarrow> bindE (decodeCursor c user_cursor) (\<lambda>(n, i). Inr (Some (coll n, i))))
       (\<lambda>k. Inr (toPage (take (limit + 1) (user_rows fc coll q role db k)) limit
                   (length (select (user_filter fc q role db) (t_users db))) t
                   (\<lambda>u. JArr [JStr (u_name u), JUuid (u_id u)])
                   (\<lambda>u. admin_user_toDto u (rolesOf db (u_id u)))))"

section \<open>Granting and revoking\<close>

definition assertUserExists :: "database \<Rightarrow> uuid \<Rightarrow> unit res" where
  "assertUserExists db userId =
     (case first_row (\<lambda>u. u_id u = userId) (t_users db) of
        None \<Rightarrow> Inl (app_error 404 NOT_FOUND ''User not found'') | Some _ \<Rightarrow> Inr ())"

definition hasSuperAdmin :: "database \<Rightarrow> bool" where
  "hasSuperAdmin db \<longleftrightarrow> first_row (\<lambda>r. ur_role r = SUPER_ADMIN) (t_userRoles db) \<noteq> None"

definition is_super_admin :: "database \<Rightarrow> uuid \<Rightarrow> bool" where
  "is_super_admin db userId \<longleftrightarrow>
     first_row (\<lambda>r. ur_userId r = userId \<and> ur_role r = SUPER_ADMIN) (t_userRoles db) \<noteq> None"

text \<open>The transaction: the advisory lock, the fresh check of the caller, the change.\<close>

definition withRoleLock :: "auth_user \<Rightarrow> (database \<Rightarrow> database res) \<Rightarrow> database \<Rightarrow> database res" where
  "withRoleLock admin change db =
     (if is_super_admin db (au_id admin) then change db
      else Inl (app_error 403 FORBIDDEN ''Insufficient role''))"

definition role_json :: "granted_role \<Rightarrow> json" where
  "role_json r = JObj [(''role'',
     JText (case r of REVIEWER \<Rightarrow> ''REVIEWER'' | SUPER_ADMIN \<Rightarrow> ''SUPER_ADMIN''))]"

definition role_audit :: "ctx \<Rightarrow> auth_user \<Rightarrow> audit_action \<Rightarrow> uuid \<Rightarrow> granted_role \<Rightarrow> audit_entry" where
  "role_audit c admin action userId role =
     \<lparr>ae_actorType = ACTOR_USER, ae_actorId = Some (au_id admin), ae_action = action,
      ae_targetType = TARGET_USER, ae_targetId = IdUuid userId, ae_reason = None,
      ae_metadata = Some (role_json role), ae_at = now c\<rparr>"

definition findOneUser :: "uuid \<Rightarrow> database \<Rightarrow> admin_user_dto res" where
  "findOneUser userId db =
     (case first_row (\<lambda>u. u_id u = userId) (t_users db) of
        None \<Rightarrow> Inl (app_error 404 NOT_FOUND ''User not found'')
      | Some u \<Rightarrow> Inr (admin_user_toDto u (rolesOf db (u_id u))))"

definition role_key :: "user_role \<Rightarrow> uuid \<times> granted_role" where
  "role_key r = (ur_userId r, ur_role r)"

definition grant_change :: "ctx \<Rightarrow> auth_user \<Rightarrow> uuid \<Rightarrow> granted_role \<Rightarrow> database \<Rightarrow> database res" where
  "grant_change c admin userId role db =
     bindE (assertUserExists db userId) (\<lambda>_.
       if (userId, role) \<in> set (map role_key (t_userRoles db)) then Inr db
       else Inr (record_audit (currentRequestId c) (uuids c 0)
              (role_audit c admin USER_ROLE_GRANTED userId role)
              (db\<lparr>t_userRoles := insert_row
                    \<lparr>ur_userId = userId, ur_role = role, ur_createdAt = now c\<rparr> (t_userRoles db)\<rparr>)))"

definition grant ::
    "ctx \<Rightarrow> auth_user \<Rightarrow> uuid \<Rightarrow> granted_role \<Rightarrow> database \<Rightarrow> (database \<times> admin_user_dto) res" where
  "grant c admin userId role db =
     bindE (withRoleLock admin (grant_change c admin userId role) db) (\<lambda>db'.
       bindE (findOneUser userId db') (\<lambda>dto. Inr (db', dto)))"

definition revoke_change :: "ctx \<Rightarrow> auth_user \<Rightarrow> uuid \<Rightarrow> granted_role \<Rightarrow> database \<Rightarrow> database res" where
  "revoke_change c admin userId role db =
     bindE (assertUserExists db userId) (\<lambda>_.
       let hit = (\<lambda>r. ur_userId r = userId \<and> ur_role r = role);
           db' = db\<lparr>t_userRoles := delete_where hit (t_userRoles db)\<rparr>
       in if select hit (t_userRoles db) = [] then Inr db
          else if role = SUPER_ADMIN \<and> \<not> hasSuperAdmin db'
          then Inl (app_error 409 CONFLICT ''Cannot revoke the last super admin'')
          else Inr (record_audit (currentRequestId c) (uuids c 0)
                 (role_audit c admin USER_ROLE_REVOKED userId role) db'))"

definition revoke :: "ctx \<Rightarrow> auth_user \<Rightarrow> uuid \<Rightarrow> granted_role \<Rightarrow> database \<Rightarrow> database res" where
  "revoke c admin userId role db =
     (if userId = au_id admin
      then Inl (app_error 403 FORBIDDEN ''Cannot revoke your own role'')
      else withRoleLock admin (revoke_change c admin userId role) db)"

section \<open>Facts\<close>

lemma is_super_admin_iff:
  "is_super_admin db u \<longleftrightarrow> (\<exists>r \<in> set (t_userRoles db). ur_userId r = u \<and> ur_role r = SUPER_ADMIN)"
  by (auto simp: is_super_admin_def first_row_None)

lemma hasSuperAdmin_iff: "hasSuperAdmin db \<longleftrightarrow> (\<exists>u. is_super_admin db u)"
  by (auto simp: hasSuperAdmin_def is_super_admin_iff first_row_None)

lemma withRoleLock_Inr [res_simps]:
  "withRoleLock a f db = Inr db' \<longleftrightarrow> is_super_admin db (au_id a) \<and> f db = Inr db'"
  by (auto simp: withRoleLock_def)

lemma grant_super_admin:
  assumes "grant c a u r db = Inr (db', dto)" and "is_super_admin db v"
  shows "is_super_admin db' v"
  using assms by (auto simp: grant_def grant_change_def is_super_admin_iff res_simps split: if_splits)

lemma revoke_caller_stays:
  assumes "revoke c a u r db = Inr db'"
  shows "is_super_admin db' (au_id a)"
  using assms
  by (auto simp: revoke_def revoke_change_def is_super_admin_iff res_simps Let_def split: if_splits)

text \<open>Any sequence of role changes by any callers, each with whatever roles its request began with.\<close>

inductive role_step :: "database \<Rightarrow> database \<Rightarrow> bool" where
  "grant c a u r db = Inr (db', dto) \<Longrightarrow> role_step db db'"
| "revoke c a u r db = Inr db' \<Longrightarrow> role_step db db'"

inductive_cases role_stepE: "role_step db db'"

lemma role_step_hasSuperAdmin: "role_step db db' \<Longrightarrow> hasSuperAdmin db \<Longrightarrow> hasSuperAdmin db'"
  by (elim role_stepE) (auto simp: hasSuperAdmin_iff dest: grant_super_admin revoke_caller_stays)

text \<open>
  C13: once there is a super admin there always is one, whatever roles are granted and revoked, and
  also when two super admins revoke each other at once (the second finds itself demoted).
\<close>

theorem super_admin_never_vanishes:
  assumes "role_step\<^sup>*\<^sup>* db db'" and "hasSuperAdmin db"
  shows "hasSuperAdmin db'"
  using assms by (induction rule: rtranclp_induct) (auto dest: role_step_hasSuperAdmin)

definition sample_ctx :: ctx where
  "sample_ctx = \<lparr>now = 1000, currentRequestId = None, uuids = (\<lambda>i. 100 + i)\<rparr>"

definition sample_admin :: "uuid \<Rightarrow> auth_user" where
  "sample_admin i = \<lparr>au_id = i, au_idpUuid = [], au_email = [], au_name = [],
     au_roles = [SUBMITTER, Granted SUPER_ADMIN], au_tokenExpiresAt = 0\<rparr>"

definition two_admins :: database where
  "two_admins = empty_database\<lparr>t_users := [sample_user\<lparr>u_id := 1\<rparr>, sample_user\<lparr>u_id := 2\<rparr>],
     t_userRoles := [\<lparr>ur_userId = 1, ur_role = SUPER_ADMIN, ur_createdAt = 0\<rparr>,
                     \<lparr>ur_userId = 2, ur_role = SUPER_ADMIN, ur_createdAt = 0\<rparr>]\<rparr>"

theorem super_admin_never_vanishes_witness:
  "\<exists>db'. revoke sample_ctx (sample_admin 1) 2 SUPER_ADMIN two_admins = Inr db'
     \<and> hasSuperAdmin db'
     \<and> revoke sample_ctx (sample_admin 2) 1 SUPER_ADMIN db'
       = Inl (app_error 403 FORBIDDEN ''Insufficient role'')"
proof -
  obtain db' where r: "revoke sample_ctx (sample_admin 1) 2 SUPER_ADMIN two_admins = Inr db'"
    and n: "revoke sample_ctx (sample_admin 2) 1 SUPER_ADMIN db'
       = Inl (app_error 403 FORBIDDEN ''Insufficient role'')"
    by (simp add: revoke_def withRoleLock_def is_super_admin_def two_admins_def sample_admin_def
        revoke_change_def assertUserExists_def select_def delete_where_def hasSuperAdmin_def)
  have "role_step\<^sup>*\<^sup>* two_admins db'" using role_step.intros(2)[OF r] by blast
  moreover have "hasSuperAdmin two_admins" by (simp add: hasSuperAdmin_def two_admins_def)
  ultimately show ?thesis using super_admin_never_vanishes r n by blast
qed

lemma revoke_removes:
  assumes "revoke c a u r db = Inr db'"
  shows "r \<notin> set (grantedRolesOf db' u)"
  using assms
  by (auto simp: revoke_def revoke_change_def res_simps Let_def set_grantedRolesOf select_def
      filter_empty_conv split: if_splits)

lemma grant_adds:
  assumes "grant c a u r db = Inr (db', dto)"
  shows "r \<in> set (grantedRolesOf db' u)"
  using assms
  by (auto simp: grant_def grant_change_def res_simps set_grantedRolesOf role_key_def
      split: if_splits)

interpretation users_list: keyset "\<lambda>db. user_rows fc coll q role db" "user_key coll" "(<)"
    "\<lambda>db. distinct (map u_id (t_users db))"
proof (rule keyset_asc)
  show "user_rows fc coll q role db c = order_asc (user_key coll)
      (filter (\<lambda>u. case c of None \<Rightarrow> True | Some k \<Rightarrow> k < user_key coll u)
        (select (user_filter fc q role db) (t_users db)))" for db c
    by (simp add: user_rows_def)
  show "distinct (map u_id (t_users db)) \<Longrightarrow>
      distinct (map (user_key coll) (select (user_filter fc q role db) (t_users db)))" for db
    by (auto simp: select_def distinct_map inj_on_def user_key_def)
qed

end
