(* ===== verification/Submission_Properties.thy ===== *)
theory Submission_Properties
  imports Lifecycle_History Users
begin

text \<open>
  The properties of the submission service as a whole, over the histories of \<open>Lifecycle_History\<close>.
\<close>

section \<open>Well-formedness\<close>

lemma record_all_tables:
  "t_stories (fold (\<lambda>(n, i). record_audit r (u n) (e i)) xs d) = t_stories d"
  "t_eventBanners (fold (\<lambda>(n, i). record_audit r (u n) (e i)) xs d) = t_eventBanners d"
  "storyNumberSeq (fold (\<lambda>(n, i). record_audit r (u n) (e i)) xs d) = storyNumberSeq d"
  by (induction xs arbitrary: d) (auto simp: split_beta)

lemma status_sync_tables [simp]:
  "t_stories (fst (status_sync c locked db)) = t_stories db"
  "t_eventBanners (fst (status_sync c locked db)) = t_eventBanners db"
  "storyNumberSeq (fst (status_sync c locked db)) = storyNumberSeq db"
proof -
  have "t_stories (fst (move c b st a P d)) = t_stories d"
    "t_eventBanners (fst (move c b st a P d)) = t_eventBanners d"
    "storyNumberSeq (fst (move c b st a P d)) = storyNumberSeq d" for b st a P d
    by (simp_all add: move_def Let_def record_all_tables[of _ "\<lambda>n. uuids c (b + n)"])
  then show "t_stories (fst (status_sync c locked db)) = t_stories db"
    "t_eventBanners (fst (status_sync c locked db)) = t_eventBanners db"
    "storyNumberSeq (fst (status_sync c locked db)) = storyNumberSeq db"
    by (simp_all add: status_sync_def split_beta Let_def)
qed

lemma sync_row_notice: "notice_active (sync_row t s) \<Longrightarrow> notice_active s"
  using sync_row_cases[of t s] notice_edge[of "s_status s"] by (auto simp: notice_active_def)

lemma job_ok:
  assumes ok: "submissions_ok db"
  shows "submissions_ok (fst (status_sync c locked db))"
proof (cases locked)
  case True
  let ?d = "fst (status_sync c locked db)"
  have rows: "t_submissions ?d = map (sync_row (now c)) (t_submissions db)"
    using True by (simp add: status_sync_all_rows)
  have det: "detailOf ?d = detailOf db" by (intro ext detailOf_cong) simp_all
  have keys: "distinct (map s_id (t_submissions ?d))"
    using submissions_okD(1)[OF ok] by (simp add: rows comp_def)
  have n0: "notice_active r \<Longrightarrow> notice_active q \<Longrightarrow> s_ziggleNoticeId r = s_ziggleNoticeId q \<Longrightarrow> s_id r = s_id q"
    if "r \<in> set (t_submissions db)" "q \<in> set (t_submissions db)" for r q
    using that submissions_okD(4)[OF ok] unfolding unique_active_notice_iff[OF submissions_okD(1)[OF ok]] by blast
  have "unique_active_notice (t_submissions ?d)"
    unfolding unique_active_notice_iff[OF keys]
    using n0 by (auto simp: rows dest!: sync_row_notice)
  then show ?thesis
    using keys submissions_okD(2,3,5)[OF ok]
    by (auto simp: submissions_ok_def rows det sync_row_ok story_numbers_cong[of ?d db])
qed (use ok in \<open>simp add: status_sync_def\<close>)

lemma other_ok:
  assumes "submissions_ok db" and "t_submissions db' = t_submissions db"
    and "t_eventBanners db' = t_eventBanners db" "t_stories db' = t_stories db" "storyNumberSeq db' = storyNumberSeq db"
  shows "submissions_ok db'"
  using assms detailOf_cong[OF assms(3,4)] story_numbers_cong[OF assms(4,5)] by (simp add: submissions_ok_def)

lemma history_ok: "history urls h \<Longrightarrow> \<forall>db \<in> set h. submissions_ok db"
proof (induction rule: history.induct)
  case (request db h d c u req p db')
  from request_ok[OF request.hyps(1,2) _ _ request.hyps(3-5)] request.IH request.hyps(2)
  have "submissions_ok db'" by auto
  with request.IH show ?case by simp
qed (auto intro: job_ok other_ok)

text \<open>
  C4: in every state of every history each submission meets the CHECK constraints of its table, each
  kind has the columns and the detail row it needs (so no response or playlist item finds a missing
  detail), no two live submissions share a notice, and no two stories share a number.
\<close>

theorem submissions_stay_well_formed:
  assumes "history urls h" and "db \<in> set h"
  shows "(\<forall>s \<in> set (t_submissions db). submission_checks s
            \<and> detail_fits (s_type s) (detailOf db (s_type s) (s_id s)))
       \<and> distinct (map s_id (t_submissions db))
       \<and> unique_active_notice (t_submissions db) \<and> story_numbers_ok db"
  using history_ok[OF assms(1)] assms(2) by (auto simp: submissions_ok_def row_ok_def)

text \<open>An example: a story is written, and approved two seconds later.\<close>

definition sample_author :: auth_user where
  "sample_author = (sample_admin 7)\<lparr>au_roles := [SUBMITTER]\<rparr>"

definition sample_story :: request where
  "sample_story = CreateReq \<lparr>cd_type = Some STORY,
     cd_kind = empty_input\<lparr>ki_story := Some \<lparr>si_tag = NEWS, si_body = [65]\<rparr>\<rparr>,
     cd_startAt = None, cd_endAt = None, cd_targetGroupIds = None\<rparr>"

definition later_ctx :: ctx where
  "later_ctx = \<lparr>now = 3000, currentRequestId = None, uuids = (\<lambda>i. 200 + i)\<rparr>"

definition sample_plan :: create_plan where
  "sample_plan = \<lparr>cp_kind = STORY_KIND, cp_period = (None, None),
     cp_resolved = \<lparr>rc_errors = [], rc_columns = EMPTY_KIND_COLUMNS\<lparr>k_title := [65]\<rparr>,
       rc_detail = Story \<lparr>sd_tag = NEWS, sd_body = [65], sd_storyNumber = None\<rparr>\<rparr>, cp_groups = []\<rparr>"

definition pending_story :: submission where
  "pending_story = new_submission 100 7 1000 sample_plan"

definition story_written :: database where
  "story_written = record_audit None 101
     (submission_audit ACTOR_USER (Some 7) SUBMISSION_CREATED 100 None None 1000)
     (sample_auth_db\<lparr>t_submissions := [pending_story],
        t_stories := [\<lparr>st_submissionId = 100, st_tag = NEWS, st_body = [65], st_storyNumber = None\<rparr>]\<rparr>)"

definition approval_of_story :: approve_plan where
  "approval_of_story = \<lparr>apl_current = pending_story, apl_period = (Some 3000, Some 172803000),
     apl_assetChecksum = None, apl_status = PUBLISHED\<rparr>"

lemma pending_story_simps [simp]:
  "s_id pending_story = 100" "s_type pending_story = STORY" "s_requesterId pending_story = 7"
  "s_status pending_story = PENDING_REVIEW" "s_version pending_story = 1" "s_assetId pending_story = None"
  "s_ziggleNoticeId pending_story = None" "s_categoryId pending_story = None"
  "s_createdAt pending_story = 1000"
  by (simp_all add: pending_story_def new_submission_def setKindColumns_def sample_plan_def EMPTY_KIND_COLUMNS_def)

lemma story_written_steps:
  "prepare (\<lambda>_. None) (now sample_ctx) sample_author sample_story sample_auth_db = Inr (CreatePlan sample_plan)"
  "commit sample_ctx sample_author (CreatePlan sample_plan) sample_auth_db = Inr story_written"
proof -
  show "prepare (\<lambda>_. None) (now sample_ctx) sample_author sample_story sample_auth_db = Inr (CreatePlan sample_plan)"
    by (simp add: sample_story_def create_prepare_def Let_def unacceptedFields_def given_fields_def
        empty_input_def given_def kind_defs story_resolve_def validateSchedule_def validateTargetGroups_def
        sample_plan_def story_titleOf_def is_space_def del: kind_field_simps)
  have k: "cp_kind sample_plan = STORY_KIND" "cp_groups sample_plan = []"
    "rc_detail (cp_resolved sample_plan) = Story \<lparr>sd_tag = NEWS, sd_body = [65], sd_storyNumber = None\<rparr>"
    by (simp_all add: sample_plan_def)
  have c: "now sample_ctx = 1000" "au_id sample_author = 7" "uuids sample_ctx 0 = 100" "uuids sample_ctx (Suc 0) = 101"
    "currentRequestId sample_ctx = None" "new_submission 100 7 1000 sample_plan = pending_story"
    by (simp_all add: sample_ctx_def sample_author_def sample_admin_def pending_story_def)
  have "assertDailyLimit sample_author STORY_KIND 1000 sample_auth_db = Inr ()"
    by (simp add: assertDailyLimit_def created_today_def select_def sample_auth_db_def empty_database_def kind_defs)
  then show "commit sample_ctx sample_author (CreatePlan sample_plan) sample_auth_db = Inr story_written"
    by (simp add: create_commit_def k c notice_taken_def notice_active_def references_exist_def groups_exist_def
        insert_target_groups_def save_detail_def story_save_def upsert_def insert_row_def story_written_def
        sample_auth_db_def empty_database_def sample_user_def)
qed

lemma findRow_story: "\<exists>row. findRow story_written 100 = Some row \<and> sr row = pending_story"
  by (simp add: findRow_def selectSubmissionRows_def select_def story_written_def map_filter_def
      joinRow_def sample_auth_db_def sample_user_def Let_def)

lemma story_approval_prepared:
  "approve_prepare 3000 100 1 story_written = Inr approval_of_story"
  using findRow_story
  by (auto simp: approve_prepare_def findPending_def findExisting_def Let_def passed_def story_periodFrom_def
      storyDisplayDays_def approval_of_story_def)

definition story_approved :: database where
  "story_approved = (case commit later_ctx (sample_admin 1) (ApprovePlan approval_of_story) story_written of
     Inr db \<Rightarrow> db | Inl _ \<Rightarrow> story_written)"

lemma story_approved_steps:
  "prepare (\<lambda>_. None) (now later_ctx) (sample_admin 1) (ApproveReq 100 1) story_written
     = Inr (ApprovePlan approval_of_story)"
  "commit later_ctx (sample_admin 1) (ApprovePlan approval_of_story) story_written = Inr story_approved"
  "t_submissions story_approved = [to_status PUBLISHED pending_story 3000
      (pending_story\<lparr>s_startAt := Some 3000, s_endAt := Some 172803000\<rparr>)]"
  "map st_storyNumber (t_stories story_approved) = [Some 1]"
proof -
  show "prepare (\<lambda>_. None) (now later_ctx) (sample_admin 1) (ApproveReq 100 1) story_written
     = Inr (ApprovePlan approval_of_story)"
    by (simp add: later_ctx_def story_approval_prepared)
  let ?s = "to_status PUBLISHED pending_story 3000 (pending_story\<lparr>s_startAt := Some 3000, s_endAt := Some 172803000\<rparr>)"
  let ?d1 = "story_written\<lparr>t_submissions := [?s]\<rparr>"
  have t: "applyTransition pending_story PUBLISHED 3000
      (\<lambda>s. s\<lparr>s_startAt := Some 3000, s_endAt := Some 172803000\<rparr>) story_written = Inr ?d1"
    by (simp add: applyTransition_Inr same_version_def story_written_def)
  have now: "now later_ctx = 3000" by (simp add: later_ctx_def)
  have ap: "apl_current approval_of_story = pending_story" "apl_status approval_of_story = PUBLISHED"
    "apl_period approval_of_story = (Some 3000, Some 172803000)"
    by (simp_all add: approval_of_story_def)
  obtain d where d: "commit later_ctx (sample_admin 1) (ApprovePlan approval_of_story) story_written = Inr d"
    and e: "t_submissions d = [?s]" "t_stories d = t_stories (story_onApprove 100 ?d1)"
    by (simp add: approve_commit_def Let_def now ap t run_onApprove_def)
  have "t_stories ?d1 = [\<lparr>st_submissionId = 100, st_tag = NEWS, st_body = [65], st_storyNumber = None\<rparr>]"
    "storyNumberSeq ?d1 = 1"
    by (simp_all add: story_written_def sample_auth_db_def empty_database_def)
  then have n: "map st_storyNumber (t_stories d) = [Some 1]"
    by (simp add: e(2) story_onApprove_def)
  have "story_approved = d" using d by (simp add: story_approved_def del: commit.simps)
  with d e(1) n show "commit later_ctx (sample_admin 1) (ApprovePlan approval_of_story) story_written = Inr story_approved"
    "t_submissions story_approved = [?s]" "map st_storyNumber (t_stories story_approved) = [Some 1]" by simp_all
qed

lemma sample_history:
  "history (\<lambda>_. None) [story_written, sample_auth_db]"
  "history (\<lambda>_. None) [story_approved, story_written, sample_auth_db]"
proof -
  have "submissions_ok sample_auth_db"
    by (simp add: submissions_ok_def sample_auth_db_def empty_database_def unique_active_notice_def
        story_numbers_ok_def)
  then have h: "history (\<lambda>_. None) [sample_auth_db]" by (rule history.start)
  show 1: "history (\<lambda>_. None) [story_written, sample_auth_db]"
    by (rule history.request[OF h _ story_written_steps]) (simp_all add: sample_auth_db_def empty_database_def)
  show "history (\<lambda>_. None) [story_approved, story_written, sample_auth_db]"
    by (rule history.request[OF 1 _ story_approved_steps(1,2)]) (simp_all add: story_written_def later_ctx_def)
qed

theorem submissions_stay_well_formed_witness:
  "map s_status (t_submissions story_approved) = [PUBLISHED]
   \<and> map st_storyNumber (t_stories story_approved) = [Some 1]
   \<and> submission_checks (hd (t_submissions story_approved)) \<and> detail_fits STORY (detailOf story_approved STORY 100)"
  using submissions_stay_well_formed[OF sample_history(2), of story_approved]
  by (simp add: story_approved_steps(3,4) to_status_def)

end
