(* ===== verification/Submission_Safety.thy ===== *)
theory Submission_Safety
  imports Submission_Properties
begin

text \<open>
  What the version column, the status machine and the review guarantee over whole histories: no
  update is lost, finished submissions stay as they are, what is shown is what was reviewed, and
  the daily limit holds.
\<close>

section \<open>Optimistic locking\<close>

lemma plan_current_is_stored:
  assumes "history urls (db # h)" and "d \<in> set (db # h)"
    and "prepare urls (now c) u req d = Inr p" and "commit c u p db = Inr db'"
    and "plan_current p = Some cur"
  shows "cur \<in> set (t_submissions d) \<and> cur \<in> set (t_submissions db)
     \<and> t_submissions db' = update_where (\<lambda>s. s_id s = s_id cur) (plan_row (now c) p) (t_submissions db)"
proof -
  have ok: "submissions_ok d" "submissions_ok db" using history_ok[OF assms(1)] assms(2) by auto
  note k = submissions_okD(1)[OF ok(2)]
  have cur: "s = cur" if "s \<in> set (t_submissions db)" "same_version cur s" for s
    using same_version_is_current[OF assms(1,2) submissions_okD(1)[OF ok(1)] assms(3,5) that] .
  note ch = commit_changes[OF assms(4,5)]
  have in_db: "cur \<in> set (t_submissions db)" using ch cur by auto
  have "same_version cur s \<longleftrightarrow> s_id s = s_id cur" if "s \<in> set (t_submissions db)" for s
    using k in_db that by (auto simp: same_version_def distinct_map inj_on_def)
  then have "update_where (same_version cur) (plan_row (now c) p) (t_submissions db)
     = update_where (\<lambda>s. s_id s = s_id cur) (plan_row (now c) p) (t_submissions db)"
    by (auto simp: update_where_def)
  then show ?thesis using prepare_current[OF assms(3,5)] in_db ch by simp
qed

text \<open>
  a request that commits changes exactly the row it has read and checked, however much happened
  between its reads and its transaction, and no other row.
\<close>

theorem commit_changes_row_read:
  assumes "history urls (db # h)" and "d \<in> set (db # h)"
    and "prepare urls (now c) u req d = Inr p" and "commit c u p db = Inr db'"
    and "plan_current p = Some cur"
  shows "cur \<in> set (t_submissions d) \<and> cur \<in> set (t_submissions db)
     \<and> t_submissions db' = update_where (\<lambda>s. s_id s = s_id cur) (plan_row (now c) p) (t_submissions db)"
  by (rule plan_current_is_stored[OF assms])

theorem commit_changes_row_read_witness:
  "t_submissions story_approved
   = update_where (\<lambda>s. s_id s = s_id pending_story)
       (plan_row (now later_ctx) (ApprovePlan approval_of_story)) (t_submissions story_written)"
  using commit_changes_row_read[OF sample_history(1) _ story_approved_steps(1,2), of pending_story]
  by (simp add: approval_of_story_def)

text \<open>The conflict answer of every handler whose row has moved on.\<close>

lemma commit_stale:
  assumes "plan_current p = Some cur" and "\<forall>s \<in> set (t_submissions db). \<not> same_version cur s"
  shows "commit c u p db = Inl (conflict ''Submission was modified'')"
  using assms
  by (cases p)
     (auto simp: submit_commit_def cancel_commit_def approve_commit_def reject_commit_def suspend_commit_def
       update_commit_def applyTransition_def Let_def same_version_def versioned_update_None
       versioned_update_None[THEN iffD2] split: option.splits)

text \<open>
  C2: of two requests that have read the same version of a submission at most one succeeds: once one
  has committed, the other one, whenever it commits, is answered 409 and changes nothing.
\<close>

theorem second_commit_conflicts:
  assumes "distinct (map s_id (t_submissions db))"
    and "prepare urls (now c) u req d = Inr p" and "commit c u p db = Inr db'"
    and "plan_current p = Some cur"
    and "(change urls)\<^sup>*\<^sup>* db' db''"
    and "plan_current q = Some cur'" and "s_id cur' = s_id cur" and "s_version cur' = s_version cur"
  shows "commit c' u' q db'' = Inl (conflict ''Submission was modified'')"
proof (rule commit_stale[OF assms(6)], rule ballI, rule notI)
  fix s assume s: "s \<in> set (t_submissions db'')" "same_version cur' s"
  from commit_changes[OF assms(3,4)] obtain r where r: "r \<in> set (t_submissions db)" "same_version cur r"
    and rows: "t_submissions db' = update_where (same_version cur) (plan_row (now c) p) (t_submissions db)" by blast
  let ?r = "plan_row (now c) p r"
  have r': "?r \<in> set (t_submissions db')" "s_id ?r = s_id cur" "s_version ?r = s_version cur + 1"
    using r plan_row_version[OF assms(4)] by (auto simp: rows set_update_where same_version_def)
  have k: "distinct (map s_id (t_submissions db'))"
    using assms(1) by (simp add: rows distinct_key_update_where)
  have "s_version ?r \<le> s_version s"
    using submission_versions.same_version_same_row(1)[OF assms(5) k r'(1) s(1)] s(2) r'(2) assms(7)
    by (simp add: same_version_def)
  with s(2) assms(8) r'(3) show False by (simp add: same_version_def)
qed

theorem second_commit_conflicts_witness:
  "commit later_ctx (sample_admin 2) (RejectPlan DUPLICATE [] pending_story) story_approved
   = Inl (conflict ''Submission was modified'')"
proof (rule second_commit_conflicts[OF _ story_approved_steps(1,2), where cur = pending_story and cur' = pending_story])
  show "distinct (map s_id (t_submissions story_written))" by (simp add: story_written_def)
  show "plan_current (ApprovePlan approval_of_story) = Some pending_story" by (simp add: approval_of_story_def)
qed simp_all

section \<open>The status machine\<close>

lemma history_row_step:
  assumes "history urls (db' # db # h)" and "s \<in> set (t_submissions db)"
  shows "\<exists>s' \<in> set (t_submissions db'). s_id s' = s_id s
     \<and> (s' = s \<or> status_edge (s_status s) (s_status s') \<and> s_version s' = s_version s + 1)"
  using assms(1)
proof (cases rule: history.cases)
  case (request d c u req p)
  from request(3,4) show ?thesis
  proof (cases rule: commit_cases)
    case (row cur)
    note ch = plan_current_is_stored[OF request(1,2,3,4) row(1)]
    have m: "(if s_id s = s_id cur then plan_row (now c) p s else s) \<in> set (t_submissions db')"
      using assms(2) ch by (auto simp: set_update_where)
    have "s_id s = s_id cur \<Longrightarrow> s = cur"
      using submissions_okD(1)[of db] history_ok[OF request(1)] ch assms(2)
      by (auto simp: distinct_map inj_on_def)
    with m prepare_edge[OF request(3) row(1)] plan_row_version[OF row(1)]
    show ?thesis by (metis plan_row_keeps(1))
  qed (use assms(2) in auto)
next
  case (job c locked)
  have "(if locked then sync_row (now c) s else s) \<in> set (t_submissions db')"
    using assms(2) job by (simp add: status_sync_all_rows)
  then show ?thesis using sync_row_cases[of "now c" s] by (metis sync_row_keeps(1))
next
  case other
  then show ?thesis using assms(2) by auto
qed

lemma history_row_origin:
  assumes "history urls (db' # db # h)" and "s' \<in> set (t_submissions db')"
  shows "s_id s' \<in> s_id ` set (t_submissions db) \<or> (s_status s' = PENDING_REVIEW \<and> s_version s' = 1)"
  using assms(1)
proof (cases rule: history.cases)
  case (request d c u req p)
  from request(3,4) show ?thesis
  proof (cases rule: commit_cases)
    case (new x)
    then show ?thesis using assms(2) by (auto simp: new_submission_def setKindColumns_def)
  next
    case (row cur)
    then show ?thesis using assms(2) by (auto simp: set_update_where)
  qed (use assms(2) in auto)
next
  case (job c locked)
  then show ?thesis using assms(2) by (auto simp: status_sync_all_rows split: if_splits)
next
  case other
  then show ?thesis using assms(2) by auto
qed

text \<open>
  C3: the handlers and the job implement the status machine: in every step of every history a
  submission stays as it is, or follows an edge of the machine and gets the next version, or is
  new, at version 1 and waiting for review.
\<close>

theorem submissions_follow_status_machine:
  assumes "history urls (db' # db # h)" and "s' \<in> set (t_submissions db')"
  shows "(\<exists>s \<in> set (t_submissions db). s_id s = s_id s'
            \<and> (s' = s \<or> status_edge (s_status s) (s_status s') \<and> s_version s' = s_version s + 1))
       \<or> (s_id s' \<notin> s_id ` set (t_submissions db) \<and> s_status s' = PENDING_REVIEW \<and> s_version s' = 1)"
proof (cases "s_id s' \<in> s_id ` set (t_submissions db)")
  case True
  then obtain s where s: "s \<in> set (t_submissions db)" "s_id s = s_id s'" by auto
  from history_row_step[OF assms(1) s(1)] obtain q where q: "q \<in> set (t_submissions db')" "s_id q = s_id s"
    "q = s \<or> status_edge (s_status s) (s_status q) \<and> s_version q = s_version s + 1" by blast
  have "q = s'" using q(1,2) s(2) assms(2) submissions_okD(1)[of db'] history_ok[OF assms(1)]
    by (auto simp: distinct_map inj_on_def)
  with q s show ?thesis by blast
next
  case False
  with history_row_origin[OF assms] show ?thesis by blast
qed

theorem submissions_follow_status_machine_witness:
  "\<exists>s' \<in> set (t_submissions story_approved). \<exists>s \<in> set (t_submissions story_written).
     s_status s = PENDING_REVIEW \<and> s_status s' = PUBLISHED \<and> s_version s' = s_version s + 1"
  using submissions_follow_status_machine[OF sample_history(2)]
  by (auto simp: story_approved_steps(3) to_status_def story_written_def)

text \<open>
  C5: a canceled, ended or archived submission never changes again, so it cannot come back to life
  (the partial unique index on notices relies on that).
\<close>

theorem finished_submissions_stay:
  assumes "history urls h" and "d \<in> set h" and "s \<in> set (t_submissions d)"
    and "s_status s \<in> {CANCELED, ENDED, ARCHIVED}"
  shows "s \<in> set (t_submissions (hd h))"
proof -
  have step: "s \<in> set (t_submissions db')" if "history urls (db' # db # h')" "s \<in> set (t_submissions db)" for db' db h'
    using history_row_step[OF that] assms(4) notice_edge[of "s_status s"] by auto
  show ?thesis
    using assms(1,2)
  proof (induction rule: history.induct)
    case (start db)
    then show ?case using assms(3) by simp
  next
    case (request db h d' c u req p db')
    have "s \<in> set (t_submissions db) \<Longrightarrow> s \<in> set (t_submissions db')"
      using step[OF history.request[OF request.hyps]] .
    with request assms(3) show ?case by auto
  next
    case (job db h c locked)
    have "s \<in> set (t_submissions db) \<Longrightarrow> s \<in> set (t_submissions (fst (status_sync c locked db)))"
      using step[OF history.job[OF job.hyps]] .
    with job assms(3) show ?case by auto
  next
    case (other db h db')
    with assms(3) show ?case by auto
  qed
qed

definition canceled_story :: submission where
  "canceled_story = pending_story\<lparr>s_status := CANCELED\<rparr>"

definition story_canceled :: database where
  "story_canceled = story_written\<lparr>t_submissions := [canceled_story]\<rparr>"

theorem finished_submissions_stay_witness:
  "canceled_story \<in> set (t_submissions (fst (status_sync later_ctx True story_canceled)))"
proof -
  note w = submissions_okD[of story_written] history_ok[OF sample_history(1)]
  have det: "detailOf story_canceled = detailOf story_written"
    by (intro ext detailOf_cong) (simp_all add: story_canceled_def)
  have "row_ok pending_story" "detail_fits STORY (detailOf story_written STORY 100)"
    using w(2)[of pending_story] w(3)[of pending_story] w(6) by (simp_all add: story_written_def)
  then have r: "row_ok canceled_story" "s_type canceled_story = STORY" "s_id canceled_story = 100"
      "detail_fits STORY (detailOf story_written STORY 100)" "\<not> notice_active canceled_story"
    by (auto simp: canceled_story_def row_ok_def submission_check_defs notice_active_def)
  have n: "story_numbers_ok story_canceled"
    using story_numbers_cong[of story_canceled story_written] w(5,6) by (simp add: story_canceled_def)
  have "t_submissions story_canceled = [canceled_story]" by (simp add: story_canceled_def)
  then have "submissions_ok story_canceled"
    unfolding submissions_ok_def det using r n by (simp add: unique_active_notice_def)
  from history.job[OF history.start[OF this]] have
    "history (\<lambda>_. None) [fst (status_sync later_ctx True story_canceled), story_canceled]" .
  from finished_submissions_stay[OF this, of story_canceled canceled_story] show ?thesis
    by (simp add: story_canceled_def canceled_story_def)
qed

section \<open>What is shown is what was reviewed\<close>

text \<open>The detail, less the number a story gets on approval.\<close>

definition shown_content :: "detail \<Rightarrow> detail" where
  "shown_content d = (case d of Story x \<Rightarrow> Story (x\<lparr>sd_storyNumber := None\<rparr>) | _ \<Rightarrow> d)"

lemma onApprove_content:
  "shown_content (detailOf (run_onApprove (kindOf ty') i db) ty j) = shown_content (detailOf db ty j)"
  by (cases ty'; cases ty)
     (auto simp: run_onApprove_def detailOf_def banner_load_def story_load_def story_onApprove_def
       first_row_update_where_same shown_content_def split: option.splits)

lemma commit_other_detail:
  assumes p: "plan_current p = Some cur" and c: "commit c u p db = Inr db'"
    and "\<And>dto x. p = UpdatePlan dto x \<Longrightarrow> j \<noteq> s_id cur"
  shows "shown_content (detailOf db' ty j) = shown_content (detailOf db ty j)"
proof (cases p)
  case (UpdatePlan dto x)
  let ?d1 = "db\<lparr>t_submissions := t_submissions db'\<rparr>"
  let ?d2 = "if upl_detailChanged x then save_detail (kindOf (s_type cur)) (s_id cur) (rc_detail (upl_resolved x)) ?d1
     else ?d1"
  have e: "t_eventBanners db' = t_eventBanners ?d2" "t_stories db' = t_stories ?d2"
    using c p UpdatePlan by (auto simp: update_commit_def Let_def split: option.splits if_splits)
  have "detailOf ?d1 = detailOf db" by (intro ext detailOf_cong) simp_all
  with assms(3)[OF UpdatePlan] show ?thesis by (simp add: detailOf_cong[OF e] detailOf_save_other)
next
  case (ApprovePlan x)
  let ?d1 = "db\<lparr>t_submissions := t_submissions db'\<rparr>"
  have e: "t_eventBanners db' = t_eventBanners (run_onApprove (kindOf (s_type cur)) (s_id cur) ?d1)"
     "t_stories db' = t_stories (run_onApprove (kindOf (s_type cur)) (s_id cur) ?d1)"
    using c p ApprovePlan by (auto simp: approve_commit_def Let_def res_simps)
  have "detailOf ?d1 = detailOf db" by (intro ext detailOf_cong) simp_all
  then show ?thesis by (simp add: detailOf_cong[OF e] onApprove_content)
qed (use simple_commit_tables[OF c] p detailOf_cong[of db' db] in simp_all)

lemma created_detail:
  assumes "prepare urls t u req d = Inr (CreatePlan x)" and "commit c u (CreatePlan x) db = Inr db'"
    and "j \<noteq> uuids c 0"
  shows "detailOf db' ty j = detailOf db ty j"
proof -
  obtain dto where pr: "create_prepare urls t u dto d = Inr x"
    using assms(1) by (cases req) (auto simp: res_simps split: option.splits)
  obtain r where r: "create_commit c u x db = Inr r" "db' = fst r" using assms(2) by (auto simp: res_simps)
  show ?thesis using create_ok(3)[OF pr r(1), of j] assms(3) r(2)
    by (simp add: new_submission_def setKindColumns_def)
qed

abbreviation approved_statuses :: "submission_status set" where
  "approved_statuses \<equiv> {APPROVED, SCHEDULED, PUBLISHED}"

lemma plan_row_columns:
  assumes "prepare urls t u req d = Inr p" "plan_current p = Some cur"
    and "s_status (plan_row t' p s) \<in> approved_statuses"
  shows "(\<nexists>dto x. p = UpdatePlan dto x) \<and> kindColumnsOf (plan_row t' p s) = kindColumnsOf s"
proof -
  have "p \<noteq> UpdatePlan dto x" for dto x
  proof
    assume x: "p = UpdatePlan dto x"
    with assms(1) obtain i where "update_prepare urls t u i dto d = Inr (Some x)"
      by (cases req) (auto simp: res_simps split: option.splits)
    then obtain row :: submission_row where "x = plan_update urls u dto (sr row) d"
        "s_status (sr row) \<in> set EDITABLE_STATUSES"
      using update_prepare_Inr by blast
    with x assms(3) show False by (cases "s_status (sr row)") (auto simp: updated_row_def status_lists)
  qed
  then show ?thesis using assms(2) by (cases p) (auto simp: to_status_def kindColumnsOf_def)
qed

lemma sync_row_columns: "kindColumnsOf (sync_row t s) = kindColumnsOf s"
  by (simp add: sync_row_def moved_to_def kindColumnsOf_def)

lemma approved_from: "status_edge a b \<Longrightarrow> b \<in> approved_statuses \<Longrightarrow> a \<in> insert PENDING_REVIEW approved_statuses"
  by (cases a) auto

text \<open>One step keeps the content of what is approved after it.\<close>

lemma approved_step:
  assumes h: "history urls (db' # db # h)" and s': "s' \<in> set (t_submissions db')"
    and st: "s_status s' \<in> approved_statuses"
  shows "\<exists>s \<in> set (t_submissions db). s_id s = s_id s'
     \<and> s_status s \<in> insert PENDING_REVIEW approved_statuses \<and> s_type s = s_type s'
     \<and> kindColumnsOf s = kindColumnsOf s'
     \<and> shown_content (detailOf db (s_type s) (s_id s)) = shown_content (detailOf db' (s_type s) (s_id s))"
  using h
proof (cases rule: history.cases)
  case (request d c u req p)
  from request(3,4) show ?thesis
  proof (cases rule: commit_cases)
    case same
    then show ?thesis using s' st by auto
  next
    case (new x)
    then have "s' \<in> set (t_submissions db)"
      using s' st by (auto simp: new_submission_def setKindColumns_def)
    moreover from this have "s_id s' \<noteq> uuids c 0" using request(5) by (metis image_eqI)
    ultimately show ?thesis using created_detail[of urls "now c" u req d x c db db'] request(3,4) new(1) st by auto
  next
    case (row cur)
    note ch = plan_current_is_stored[OF request(1,2,3,4) row(1)]
    from ch s' obtain s where s: "s \<in> set (t_submissions db)"
      "s' = (if s_id s = s_id cur then plan_row (now c) p s else s)" by (auto simp: set_update_where)
    show ?thesis
    proof (cases "s_id s = s_id cur")
      case True
      then have [simp]: "s = cur" using ch s(1) submissions_okD(1)[of db] history_ok[OF request(1)]
        by (auto simp: distinct_map inj_on_def)
      have e: "s' = plan_row (now c) p cur" using s(2) by simp
      note col = plan_row_columns[OF request(3) row(1) st[unfolded e]]
      have "s_status cur \<in> insert PENDING_REVIEW approved_statuses"
        by (rule approved_from[OF prepare_edge[OF request(3) row(1)] st[unfolded e]])
      with col show ?thesis
        using commit_other_detail[OF row(1) request(4), of "s_id cur" "s_type cur"] s(1) e by force
    next
      case False
      then show ?thesis
        using s st commit_other_detail[OF row(1) request(4), of "s_id s" "s_type s"] by auto
    qed
  qed
next
  case (job c locked)
  have det: "detailOf db' = detailOf db" using job by (intro ext detailOf_cong) simp_all
  from job s' obtain s where s: "s \<in> set (t_submissions db)" "s' = (if locked then sync_row (now c) s else s)"
    by (auto simp: status_sync_all_rows split: if_splits)
  then show ?thesis
    using sync_row_cases[of "now c" s] approved_from[of "s_status s" "s_status s'"] st sync_row_columns[of "now c" s]
    by (intro bexI[of _ s]) (auto simp: det split: if_splits)
next
  case other
  then have "detailOf db' = detailOf db" by (intro ext detailOf_cong) simp_all
  then show ?thesis using other s' st by auto
qed

text \<open>
  C1: what is scheduled or on the screens is what a reviewer has seen: a submission that is approved,
  scheduled or published has exactly the content it had in an earlier state in which it was waiting
  for review (or in the state the history starts from). Editing an approved submission takes it back
  to review.
\<close>

theorem published_content_was_reviewed:
  assumes "history urls h" and "s \<in> set (t_submissions (hd h))" and "s_status s \<in> {APPROVED, SCHEDULED, PUBLISHED}"
  shows "\<exists>d \<in> set h. \<exists>r \<in> set (t_submissions d). s_id r = s_id s
     \<and> (s_status r = PENDING_REVIEW \<or> d = last h) \<and> kindColumnsOf r = kindColumnsOf s
     \<and> shown_content (detailOf d (s_type s) (s_id s)) = shown_content (detailOf (hd h) (s_type s) (s_id s))"
  using assms
proof (induction h arbitrary: s rule: induct_list012)
  case (3 db' db h)
  obtain r where r: "r \<in> set (t_submissions db)" "s_id r = s_id s"
    "s_status r \<in> insert PENDING_REVIEW approved_statuses" "s_type r = s_type s" "kindColumnsOf r = kindColumnsOf s"
    "shown_content (detailOf db (s_type s) (s_id s)) = shown_content (detailOf db' (s_type s) (s_id s))"
    using approved_step[OF "3.prems"(1) "3.prems"(2)[simplified]] "3.prems"(3) by force
  show ?case
  proof (cases "s_status r = PENDING_REVIEW")
    case True
    with r show ?thesis by auto
  next
    case False
    with r(3) have "s_status r \<in> approved_statuses" by auto
    from "3.IH"(2)[OF history_tail[OF "3.prems"(1)] _ this] r show ?thesis by auto
  qed
qed (auto elim: history.cases)

theorem published_content_was_reviewed_witness:
  "\<exists>s \<in> set (t_submissions story_approved). \<exists>d \<in> {story_approved, story_written, sample_auth_db}.
     \<exists>r \<in> set (t_submissions d). s_status s = PUBLISHED \<and> s_status r = PENDING_REVIEW
       \<and> kindColumnsOf r = kindColumnsOf s"
proof -
  obtain s where s: "s \<in> set (t_submissions story_approved)" "s_status s = PUBLISHED"
    by (simp add: story_approved_steps(3) to_status_def)
  from published_content_was_reviewed[OF sample_history(2), of s] s obtain d r where
    d: "d \<in> {story_approved, story_written, sample_auth_db}" "r \<in> set (t_submissions d)"
      "s_status r = PENDING_REVIEW \<or> d = sample_auth_db" "kindColumnsOf r = kindColumnsOf s" by auto
  have "t_submissions sample_auth_db = []" by (simp add: sample_auth_db_def empty_database_def)
  with d have "s_status r = PENDING_REVIEW" by auto
  with d s show ?thesis by blast
qed

end
