(* ===== verification/Submission_Views.thy ===== *)
theory Submission_Views
  imports Submission_Safety
begin

text \<open>
  The daily limit over histories, what an approval writes, and what the responses show to whom:
  hidden authors, answers for submissions of others, and complete lists.
\<close>

section \<open>The daily limit\<close>

text \<open>The submissions of a user and kind created on the Seoul day of \<open>t\<close>.\<close>

definition created_on_day :: "uuid \<Rightarrow> submission_type \<Rightarrow> time \<Rightarrow> submission table \<Rightarrow> submission list" where
  "created_on_day userId ty t tab =
     select (\<lambda>s. s_requesterId s = userId \<and> s_type s = ty
        \<and> s_createdAt s - seoul_clock (s_createdAt s) = t - seoul_clock t) tab"

lemma seoul_clock_nonneg: "0 \<le> seoul_clock t"
  by (simp add: seoul_clock_def time_in_day_def msPerDay_def)

lemma same_day_civil:
  assumes "a - seoul_clock a = t - seoul_clock t"
  shows "seoul_civil a = seoul_civil t"
proof -
  have "day_of (x + SEOUL_OFFSET_MS) * msPerDay = x - seoul_clock x + SEOUL_OFFSET_MS" for x
    using day_time_split[of "x + SEOUL_OFFSET_MS"] by (simp add: seoul_clock_def)
  from this[of a] this[of t] assms have "day_of (a + SEOUL_OFFSET_MS) = day_of (t + SEOUL_OFFSET_MS)"
    by (simp add: msPerDay_def)
  then show ?thesis by (simp add: seoul_civil_def)
qed

lemma length_filter_mono: "(\<And>x. P x \<Longrightarrow> Q x) \<Longrightarrow> length (filter P xs) \<le> length (filter Q xs)"
  by (induction xs) (auto simp: le_Suc_eq)

lemma created_today_covers:
  assumes "a - seoul_clock a = t - seoul_clock t" and "0 \<le> fst (seoul_civil t)" "fst (seoul_civil t) \<le> 9999"
  shows "length (created_on_day userId ty t tab) \<le> length (created_today userId ty a tab)"
proof -
  have "startOfSeoulDay (seoulDate a) = Some (t - seoul_clock t)"
    using startOfSeoulDay_seoulDate_eq[of a] same_day_civil[OF assms(1)] assms by simp
  moreover have "t - seoul_clock t \<le> s_createdAt s"
    if "s_createdAt s - seoul_clock (s_createdAt s) = t - seoul_clock t" for s :: submission
    using that seoul_clock_nonneg[of "s_createdAt s"] by linarith
  ultimately show ?thesis
    unfolding created_on_day_def created_today_def select_def
    by (intro length_filter_mono) auto
qed

lemma length_filter_update_where:
  assumes "\<And>r. P (f r) = P r"
  shows "length (filter P (update_where Q f t)) = length (filter P t)"
  using assms by (induction t) auto

lemma created_on_day_update [simp]:
  "length (created_on_day u ty t (update_where Q (plan_row t' p) tab)) = length (created_on_day u ty t tab)"
  unfolding created_on_day_def select_def by (rule length_filter_update_where) simp

lemma created_on_day_sync [simp]:
  "length (created_on_day u ty t (map (sync_row t') tab)) = length (created_on_day u ty t tab)"
  by (induction tab) (simp_all add: created_on_day_def select_def)

text \<open>
  C6: whatever the order and the clocks of the requests, no user ever has more submissions of a kind
  created on one Seoul day than the kind allows, given that was so at the start.
\<close>

theorem daily_limit_holds:
  assumes "history urls h" and "sk_dailyLimit (kindOf ty) = Some limit"
    and "0 \<le> fst (seoul_civil t)" and "fst (seoul_civil t) \<le> 9999"
    and "length (created_on_day userId ty t (t_submissions (last h))) \<le> limit"
  shows "length (created_on_day userId ty t (t_submissions (hd h))) \<le> limit"
  using assms(1,5)
proof (induction rule: history.induct)
  case (request db h d c u req p db')
  then have old: "length (created_on_day userId ty t (t_submissions db)) \<le> limit" by (simp split: if_splits)
  from request.hyps(3,4) show ?case
  proof (cases rule: commit_cases)
    case (new x)
    obtain dto where pr: "create_prepare urls (now c) u dto d = Inr x"
      using new(1) request.hyps(3) by (cases req) (auto simp: res_simps split: option.splits)
    from create_prepare_Inr[OF pr] obtain ty' where k: "cp_kind x = kindOf ty'" by blast
    from new(1) request.hyps(4) obtain r where r: "create_commit c u x db = Inr r" by (auto simp: res_simps)
    let ?n = "new_submission (uuids c 0) (au_id u) (now c) x"
    have n: "s_requesterId ?n = au_id u" "s_type ?n = ty'" "s_createdAt ?n = now c"
      by (simp_all add: new_submission_def setKindColumns_def k)
    have ins: "length (created_on_day userId ty t (t_submissions db')) =
       length (created_on_day userId ty t (t_submissions db)) + length (created_on_day userId ty t [?n])"
      by (simp add: new(3) insert_row_def created_on_day_def select_def)
    show ?thesis
    proof (cases "created_on_day userId ty t [?n] = []")
      case True
      then show ?thesis using ins old by simp
    next
      case False
      then have m: "userId = au_id u" "ty = ty'" "now c - seoul_clock (now c) = t - seoul_clock t"
        and one: "length (created_on_day userId ty t [?n]) = 1"
        by (auto simp: created_on_day_def select_def n split: if_splits)
      from create_commit_rows(3)[OF r k] assms(2) m(1,2) k have
        "length (created_today userId ty (now c) (t_submissions db)) < limit"
        by (auto simp: assertDailyLimit_def split: if_splits)
      with created_today_covers[OF m(3) assms(3,4)] ins one show ?thesis
        by (metis (no_types, lifting) Suc_eq_plus1 Suc_leI le_less_trans list.sel(1))
    qed
  next
    case (row cur)
    then show ?thesis using old by simp
  qed (use old in simp)
next
  case (job db h c locked)
  then show ?case by (simp add: status_sync_all_rows split: if_splits)
qed (simp_all split: if_splits)

theorem daily_limit_holds_witness:
  "length (created_on_day 7 STORY 1000 (t_submissions story_approved)) = 1
   \<and> length (created_on_day 7 STORY 1000 (t_submissions story_approved)) \<le> 5"
proof
  have h: "sk_dailyLimit (kindOf STORY) = Some 5" by (simp add: kind_defs)
  have "length (created_on_day 7 STORY 1000 (t_submissions (hd [story_approved, story_written, sample_auth_db]))) \<le> 5"
    by (rule daily_limit_holds[OF sample_history(2) h])
       (code_simp, code_simp, simp add: sample_auth_db_def empty_database_def created_on_day_def select_def)
  then show "length (created_on_day 7 STORY 1000 (t_submissions story_approved)) \<le> 5" by simp
  show "length (created_on_day 7 STORY 1000 (t_submissions story_approved)) = 1"
    by (simp add: story_approved_steps(3) created_on_day_def select_def to_status_def)
qed

section \<open>Approving\<close>

text \<open>
  C7: an approval takes a submission that waits for review in the very version the reviewer names,
  whose media is ready, and leaves it published or scheduled with a period that has not ended, and
  a review that pins revision and checksum of that media.
\<close>

theorem approve_result:
  assumes "approve pub c reviewer i revision db = Inr (db', answer)" and "0 \<le> now c" and "submissions_ok db"
  shows "\<exists>s \<in> set (t_submissions db). \<exists>s' \<in> set (t_submissions db'). \<exists>a b k.
     s_id s = i \<and> s_status s = PENDING_REVIEW \<and> s_version s = revision
     \<and> s_id s' = i \<and> s_version s' = revision + 1 \<and> s_startAt s' = Some a \<and> s_endAt s' = Some b \<and> now c < b
     \<and> s_status s' = (if a \<le> now c then PUBLISHED else SCHEDULED)
     \<and> (\<forall>assetId. s_assetId s = Some assetId \<longrightarrow> (\<exists>x \<in> set (t_assets db).
            a_id x = assetId \<and> a_status x = READY \<and> a_checksum x = k \<and> k \<noteq> None))
     \<and> (\<exists>r \<in> set (t_reviews db'). r_submissionId r = i \<and> r_revision r = revision
            \<and> r_decision r = REVIEW_APPROVED \<and> r_reviewerId r = au_id reviewer \<and> r_assetChecksum r = k)"
proof -
  from assms(1) obtain p where p: "approve_prepare (now c) i revision db = Inr p"
    and c: "approve_commit c reviewer p db = Inr db'" by (auto simp: approve_def res_simps)
  obtain row :: submission_row where r: "findRow db i = Some row" "apl_current p = sr row"
    "s_version (sr row) = revision" "s_status (sr row) = PENDING_REVIEW" "\<not> passed (now c) (snd (apl_period p))"
    "apl_status p = (if passed (now c) (fst (apl_period p)) then PUBLISHED else SCHEDULED)"
    "\<forall>a. s_assetId (sr row) = Some a \<longrightarrow> (\<exists>x. first_row (\<lambda>r. a_id r = a) (t_assets db) = Some x
            \<and> a_status x = READY \<and> a_checksum x = apl_assetChecksum p \<and> a_checksum x \<noteq> None)"
    using approve_prepare_Inr[OF p] by blast
  let ?cur = "sr row" and ?s' = "plan_row (now c) (ApprovePlan p) (sr row)"
  have cur: "?cur \<in> set (t_submissions db)" "s_id ?cur = i" using findRow_Some[OF r(1)] by auto
  have m: "?s' \<in> set (t_submissions db')"
    using commit_changes[of c reviewer "ApprovePlan p" db db' ?cur] c r(2) cur
    by (auto simp: set_update_where same_version_def)
  have "row_ok ?s'"
    using approve_row_ok[OF p] r(2) submissions_okD(2)[OF assms(3) cur(1)] by simp
  then have "s_startAt ?s' = None \<longleftrightarrow> s_endAt ?s' = None" by (simp add: row_ok_def submission_check_defs)
  moreover obtain b where b: "snd (apl_period p) = Some b" "now c < b"
    using r(5) assms(2) by (auto simp: passed_def split: option.splits)
  ultimately obtain a where a: "fst (apl_period p) = Some a" by (auto simp: to_status_def)
  have s': "s_id ?s' = i" "s_version ?s' = revision + 1" "s_startAt ?s' = Some a" "s_endAt ?s' = Some b"
    "s_status ?s' = (if a \<le> now c then PUBLISHED else SCHEDULED)"
    using cur r(2,3,6) a b by (simp_all add: to_status_def passed_def)
  have rev: "\<exists>x \<in> set (t_reviews db'). r_submissionId x = i \<and> r_revision x = revision
       \<and> r_decision x = REVIEW_APPROVED \<and> r_reviewerId x = au_id reviewer \<and> r_assetChecksum x = apl_assetChecksum p"
    using c cur(2) r(2,3) by (auto simp: approve_commit_def Let_def res_simps insert_review_def)
  have media: "\<forall>assetId. s_assetId ?cur = Some assetId \<longrightarrow> (\<exists>x \<in> set (t_assets db).
            a_id x = assetId \<and> a_status x = READY \<and> a_checksum x = apl_assetChecksum p \<and> apl_assetChecksum p \<noteq> None)"
  proof (intro allI impI)
    fix assetId assume "s_assetId ?cur = Some assetId"
    with r(7) obtain x where "first_row (\<lambda>r. a_id r = assetId) (t_assets db) = Some x" "a_status x = READY"
      "a_checksum x = apl_assetChecksum p" "a_checksum x \<noteq> None" by blast
    then show "\<exists>x \<in> set (t_assets db). a_id x = assetId \<and> a_status x = READY
        \<and> a_checksum x = apl_assetChecksum p \<and> apl_assetChecksum p \<noteq> None"
      using first_row_Some[of "\<lambda>r. a_id r = assetId" "t_assets db" x] by (intro bexI[of _ x]) simp_all
  qed
  show ?thesis
    by (rule bexI[OF _ cur(1)], rule bexI[OF _ m], rule exI[of _ a], rule exI[of _ b],
        rule exI[of _ "apl_assetChecksum p"], intro conjI; rule cur(2) r(3,4) s' b(2) media rev)
qed

lemma approve_commit_users: "approve_commit c u p db = Inr db' \<Longrightarrow> t_users db' = t_users db"
  by (cases "s_type (apl_current p)")
     (auto simp: approve_commit_def Let_def res_simps run_onApprove_def insert_review_def)

theorem approve_result_witness:
  "\<exists>db' answer. approve (\<lambda>_. []) later_ctx (sample_admin 1) 100 1 story_written = Inr (db', answer)
     \<and> (\<exists>s' \<in> set (t_submissions db'). s_id s' = 100 \<and> s_version s' = 2 \<and> s_status s' \<in> {PUBLISHED, SCHEDULED})"
proof -
  have u: "t_users story_approved = [sample_user]"
    using approve_commit_users[OF story_approved_steps(2)[simplified]]
    by (simp add: story_written_def sample_auth_db_def)
  have "\<exists>row. findRow story_approved 100 = Some row"
    by (simp add: findRow_def selectSubmissionRows_def select_def map_filter_def joinRow_def Let_def u
        story_approved_steps(3) to_status_def sample_user_def)
  then obtain answer where "submission_detail (\<lambda>_. []) 100 3000 1 story_approved = Inr answer"
    by (auto simp: submission_detail_def)
  then have a: "approve (\<lambda>_. []) later_ctx (sample_admin 1) 100 1 story_written = Inr (story_approved, answer)"
    using story_approval_prepared story_approved_steps(2)
    by (simp add: approve_def later_ctx_def sample_admin_def)
  have "submissions_ok story_written" using history_ok[OF sample_history(1)] by simp
  from approve_result[OF a _ this] a show ?thesis by (auto simp: later_ctx_def split: if_splits)
qed

section \<open>Hidden authors\<close>



text \<open>
  C11: to a user who is no reviewer, the submission of someone else looks like one that does not
  exist: reading it, its history, editing, resubmitting, canceling or taking it down all answer the
  same 404.
\<close>

theorem others_submission_looks_missing:
  assumes "\<not> isReviewer (au_roles u)"
    and "\<And>row. findRow db i = Some row \<Longrightarrow> s_requesterId (sr row) \<noteq> au_id u"
    and "req \<in> {UpdateReq i dto, SubmitReq i v, CancelReq i v, SuspendReq i m}"
  shows "findOne pub t u i db = Inl submission_notFound \<and> review_history u i db = Inl submission_notFound
     \<and> prepare urls t u req db = Inl submission_notFound"
proof (cases "findRow db i")
  case None
  then show ?thesis
    using assms(3) by (auto simp: findOne_def review_history_def update_prepare_def submit_prepare_def
        cancel_prepare_def suspend_prepare_def findExisting_def findOwnRow_def)
next
  case (Some row)
  then show ?thesis
    using assms(1,3) assms(2)[OF Some]
    by (auto simp: findOne_def review_history_def update_prepare_def submit_prepare_def cancel_prepare_def
        suspend_prepare_def findExisting_def findOwnRow_def Let_def)
qed

theorem others_submission_looks_missing_witness:
  "prepare (\<lambda>_. None) 2000 (sample_author\<lparr>au_id := 8\<rparr>) (CancelReq 100 1) story_written = Inl submission_notFound"
proof -
  have "\<not> isReviewer (au_roles (sample_author\<lparr>au_id := 8\<rparr>))" by (simp add: sample_author_def isReviewer_def)
  moreover have "s_requesterId (sr row) \<noteq> au_id (sample_author\<lparr>au_id := 8\<rparr>)"
    if "findRow story_written 100 = Some row" for row using findRow_story that by auto
  ultimately show ?thesis
    using others_submission_looks_missing[of "sample_author\<lparr>au_id := 8\<rparr>" story_written 100 "CancelReq 100 1"] by simp
qed

section \<open>Lists\<close>

lemma selectSubmissionRows_sr: "map sr (selectSubmissionRows db P) = filter (\<lambda>s. P s \<and> joinRow db s \<noteq> None) (t_submissions db)"
proof -
  have sr: "joinRow db s = Some r \<Longrightarrow> sr r = s" for s r by (auto simp: joinRow_def Let_def)
  have "map sr (List.map_filter (joinRow db) l) = filter (\<lambda>s. joinRow db s \<noteq> None) l" for l
    by (induction l) (auto simp: map_filter_simps sr split: option.splits)
  then show ?thesis by (simp add: selectSubmissionRows_def select_def)
qed

lemma selectSubmissionRows_ids:
  assumes "distinct (map s_id (t_submissions db))"
  shows "distinct (map (\<lambda>r. s_id (sr r)) (selectSubmissionRows db P))"
    and "length (selectSubmissionRows db P) \<le> length (t_submissions db)"
proof -
  have "map (\<lambda>r. s_id (sr r)) (selectSubmissionRows db P) = map s_id (map sr (selectSubmissionRows db P))" by simp
  then show "distinct (map (\<lambda>r. s_id (sr r)) (selectSubmissionRows db P))"
    using assms by (simp only: selectSubmissionRows_sr distinct_map_filter)
  have "length (selectSubmissionRows db P) = length (map sr (selectSubmissionRows db P))" by simp
  then show "length (selectSubmissionRows db P) \<le> length (t_submissions db)"
    by (simp only: selectSubmissionRows_sr length_filter_le)
qed

abbreviation ids_unique :: "database \<Rightarrow> bool" where
  "ids_unique db \<equiv> distinct (map s_id (t_submissions db))"

interpretation submissions_list: keyset "\<lambda>db. list_rows P db" created_key "\<lambda>a b. b < a" ids_unique
proof (rule keyset_desc)
  show "list_rows P db c = order_desc created_key
      (filter (\<lambda>r. case c of None \<Rightarrow> True | Some k \<Rightarrow> created_key r < k) (selectSubmissionRows db P))" for db c
    by (simp add: list_rows_def)
  show "ids_unique db \<Longrightarrow> distinct (map created_key (selectSubmissionRows db P))" for db
    using selectSubmissionRows_ids(1)[of db P] by (auto simp: distinct_map inj_on_def created_key_def)
qed

interpretation review_queue: keyset "\<lambda>db. queue_rows P db" waiting_key "(<)" ids_unique
proof (rule keyset_asc)
  show "queue_rows P db c = order_asc waiting_key
      (filter (\<lambda>r. case c of None \<Rightarrow> True | Some k \<Rightarrow> k < waiting_key r) (selectSubmissionRows db P))" for db c
    by (simp add: queue_rows_def)
  show "ids_unique db \<Longrightarrow> distinct (map waiting_key (selectSubmissionRows db P))" for db
    using selectSubmissionRows_ids(1)[of db P] by (auto simp: distinct_map inj_on_def waiting_key_def)
qed

lemma decode_key_encoded: "decode_key (Some (Some (key_json k))) = Inr (Some k)"
  by (simp add: decode_key_def key_json_def decodeCursor_def time_cursor_def)

lemma decode_key_None: "decode_key None = Inr None"
  by (simp add: decode_key_def)

text \<open>
  C12: a client that follows the cursors of the submission list, with any page size, gets every
  submission its filters select exactly once, newest first, and then no further cursor.
\<close>

theorem list_submissions_complete:
  assumes "assertScope u sc = Inr ()" and "0 < limit" and "distinct (map s_id (t_submissions db))"
    and "length (t_submissions db) < fuel"
  shows "follow (\<lambda>cur. list_submissions pub t u sc statuses types cur limit db) fuel None
     = Inr (map (rowDto pub (au_id u) db)
         (order_desc created_key (selectSubmissionRows db (list_filter u sc statuses types))))"
proof -
  let ?P = "list_filter u sc statuses types"
  have "follow (\<lambda>cur. list_submissions pub t u sc statuses types cur limit db) fuel None
      = Inr (map (rowDto pub (au_id u) db) (list_rows ?P db None))"
  proof (rule submissions_list.follow_complete[where decode = decode_key and enc = "\<lambda>r. key_json (created_key r)"
        and t = t and n = "length (select ?P (t_submissions db))"])
    show "length (list_rows ?P db None) < fuel"
      using selectSubmissionRows_ids(2)[OF assms(3), of ?P] assms(4) by (simp add: list_rows_def)
  qed (use assms in \<open>simp_all add: list_submissions_def decode_key_encoded decode_key_None Let_def\<close>)
  then show ?thesis by (simp add: list_rows_def)
qed

theorem list_submissions_complete_witness:
  "follow (\<lambda>cur. list_submissions (\<lambda>_. []) 2000 (sample_admin 1) SCOPE_ALL [] [] cur 1 story_written) 2 None
     = Inr (map (rowDto (\<lambda>_. []) 1 story_written)
         (order_desc created_key (selectSubmissionRows story_written (list_filter (sample_admin 1) SCOPE_ALL [] []))))"
  using list_submissions_complete[of "sample_admin 1" SCOPE_ALL 1 story_written 2]
  by (simp add: assertScope_def isReviewer_def sample_admin_def story_written_def)

text \<open>
  following the cursors of the review queue gives every submission in it exactly once, the
  longest waiting first.
\<close>

theorem review_queue_complete:
  assumes "0 < limit" and "distinct (map s_id (t_submissions db))" and "length (t_submissions db) < fuel"
  shows "follow (\<lambda>cur. listReviewQueue pub t viewer status categoryId types cur limit db) fuel None
     = Inr (map (rowDto pub (au_id viewer) db)
         (order_asc waiting_key (selectSubmissionRows db (queue_filter status categoryId types))))"
proof -
  let ?P = "queue_filter status categoryId types"
  have "follow (\<lambda>cur. listReviewQueue pub t viewer status categoryId types cur limit db) fuel None
      = Inr (map (rowDto pub (au_id viewer) db) (queue_rows ?P db None))"
  proof (rule review_queue.follow_complete[where decode = decode_key and enc = "\<lambda>r. key_json (waiting_key r)"
        and t = t and n = "length (select ?P (t_submissions db))"])
    show "length (queue_rows ?P db None) < fuel"
      using selectSubmissionRows_ids(2)[OF assms(2), of ?P] assms(3) by (simp add: queue_rows_def)
  qed (use assms in \<open>simp_all add: listReviewQueue_def decode_key_encoded decode_key_None Let_def\<close>)
  then show ?thesis by (simp add: queue_rows_def)
qed

theorem review_queue_complete_witness:
  "follow (\<lambda>cur. listReviewQueue (\<lambda>_. []) 2000 (sample_admin 1) PENDING_REVIEW None [] cur 1 story_written) 2 None
     = Inr (map (rowDto (\<lambda>_. []) 1 story_written)
         (order_asc waiting_key (selectSubmissionRows story_written (queue_filter PENDING_REVIEW None []))))"
  using review_queue_complete[of 1 story_written 2 _ _ "sample_admin 1"]
  by (simp add: sample_admin_def story_written_def)

end
