(* ===== verification/Audit_Logs.thy ===== *)
theory Audit_Logs
  imports Submission_Views
begin

text \<open>
  Reading the audit log, \<open>src/src/audit/audit-logs.service.ts\<close>: who may see which entries, and how
  the author of an anonymous submission is kept out of them. The stories of the home screen,
  \<open>src/src/stories/stories.service.ts\<close>, are here too. An empty \<open>targetId\<close> counts as none, as in the
  code.
\<close>

section \<open>Who sees what\<close>

record audit_query =
  aq_targetType :: "audit_target_type option"
  aq_targetId :: "ident option"
  aq_action :: "audit_action list option"

definition query_targetId :: "audit_query \<Rightarrow> ident option" where
  "query_targetId q = (case aq_targetId q of Some (IdSlug []) \<Rightarrow> None | x \<Rightarrow> x)"

definition own_submission :: "database \<Rightarrow> uuid \<Rightarrow> ident \<Rightarrow> bool" where
  "own_submission db userId target \<longleftrightarrow>
     list_ex (\<lambda>s. IdUuid (s_id s) = target \<and> s_requesterId s = userId) (t_submissions db)"

definition visibleTo :: "auth_user \<Rightarrow> audit_query \<Rightarrow> database \<Rightarrow> (audit_log \<Rightarrow> bool) res" where
  "visibleTo u q db =
     (let denied = Inl (app_error 403 FORBIDDEN
                     ''Only reviewers can view audit logs other than their own submissions'')
      in if Granted SUPER_ADMIN \<in> set (au_roles u) then Inr (\<lambda>_. True)
         else if isReviewer (au_roles u)
         then (if aq_targetType q = Some TARGET_USER
               then Inl (app_error 403 FORBIDDEN ''Only super admins can view user role logs'')
               else Inr (\<lambda>l. al_targetType l \<noteq> TARGET_USER))
         else if aq_targetType q = Some TARGET_SUBMISSION
         then (case query_targetId q of
                 None \<Rightarrow> Inr (\<lambda>l. own_submission db (au_id u) (al_targetId l))
               | Some i \<Rightarrow> if own_submission db (au_id u) i then Inr (\<lambda>_. True) else denied)
         else denied)"

definition audit_filter :: "(audit_log \<Rightarrow> bool) \<Rightarrow> audit_query \<Rightarrow> audit_log \<Rightarrow> bool" where
  "audit_filter visible q l \<longleftrightarrow> visible l
     \<and> (case aq_targetType q of None \<Rightarrow> True | Some t \<Rightarrow> al_targetType l = t)
     \<and> (case query_targetId q of None \<Rightarrow> True | Some i \<Rightarrow> al_targetId l = i)
     \<and> (case aq_action q of None \<Rightarrow> True | Some as \<Rightarrow> al_action l \<in> set as)"

section \<open>What is shown of an entry\<close>

record audit_log_dto =
  ald_id :: uuid
  ald_actorType :: audit_actor_type
  ald_actorId :: "uuid option"
  ald_actorName :: "utext option"
  ald_action :: audit_action
  ald_targetType :: audit_target_type
  ald_targetId :: ident
  ald_targetTitle :: "utext option"
  ald_reason :: "utext option"
  ald_metadata :: "json option"
  ald_createdAt :: time
  ald_requestId :: "string option"

definition anonymousTypes :: "submission_type list" where
  "anonymousTypes = filter (\<lambda>t. sk_anonymous (kindOf t)) [POSTER, EVENT_BANNER, STORY]"

text \<open>The map from submission ids to hidden authors, over the entries of a page.\<close>

definition hiddenAuthorsOf :: "uuid \<Rightarrow> audit_log list \<Rightarrow> database \<Rightarrow> ident \<Rightarrow> uuid option" where
  "hiddenAuthorsOf viewer logs db =
     (let ids = map al_targetId (filter (\<lambda>l. al_targetType l = TARGET_SUBMISSION) logs)
      in map_of (map (\<lambda>s. (IdUuid (s_id s), s_requesterId s))
           (select (\<lambda>s. IdUuid (s_id s) \<in> set ids \<and> s_type s \<in> set anonymousTypes
               \<and> s_requesterId s \<noteq> viewer) (t_submissions db))))"

definition targetTitlesOf :: "database \<Rightarrow> audit_target_type \<Rightarrow> ident \<Rightarrow> utext option" where
  "targetTitlesOf db t i = (case t of
      TARGET_SUBMISSION \<Rightarrow> map_option s_title (first_row (\<lambda>r. IdUuid (s_id r) = i) (t_submissions db))
    | TARGET_DEVICE \<Rightarrow> map_option d_name (first_row (\<lambda>r. IdUuid (d_id r) = i) (t_devices db))
    | TARGET_GROUP \<Rightarrow> map_option tg_name (first_row (\<lambda>r. IdSlug (tg_id r) = i) (t_targetGroups db))
    | TARGET_USER \<Rightarrow> map_option u_name (first_row (\<lambda>r. IdUuid (u_id r) = i) (t_users db))
    | TARGET_PROGRAM \<Rightarrow> map_option p_name (first_row (\<lambda>r. IdSlug (p_id r) = i) (t_programs db)))"

definition actorNameOf :: "database \<Rightarrow> audit_log \<Rightarrow> utext option" where
  "actorNameOf db l = (if al_actorType l = ACTOR_USER
     then Option.bind (al_actorId l) (\<lambda>i. map_option u_name (first_row (\<lambda>u. u_id u = i) (t_users db)))
     else None)"

definition audit_toDto :: "database \<Rightarrow> (ident \<Rightarrow> uuid option) \<Rightarrow> audit_log \<Rightarrow> audit_log_dto" where
  "audit_toDto db hiddenAuthors l =
     (let hideActor = (al_actorType l = ACTOR_USER \<and> al_actorId l \<noteq> None
                       \<and> hiddenAuthors (al_targetId l) = al_actorId l)
      in \<lparr>ald_id = al_id l, ald_actorType = al_actorType l,
          ald_actorId = (if hideActor then None else al_actorId l),
          ald_actorName = (if hideActor then None else actorNameOf db l),
          ald_action = al_action l, ald_targetType = al_targetType l, ald_targetId = al_targetId l,
          ald_targetTitle = targetTitlesOf db (al_targetType l) (al_targetId l),
          ald_reason = al_reason l, ald_metadata = al_metadata l, ald_createdAt = al_createdAt l,
          ald_requestId = al_requestId l\<rparr>)"

definition audit_key :: "audit_log \<Rightarrow> time \<times> uuid" where
  "audit_key l = (al_createdAt l, al_id l)"

definition audit_rows :: "(audit_log \<Rightarrow> bool) \<Rightarrow> database \<Rightarrow> (time \<times> uuid) option \<Rightarrow> audit_log list" where
  "audit_rows P db cur =
     order_desc audit_key
       (filter (\<lambda>l. case cur of None \<Rightarrow> True | Some k \<Rightarrow> audit_key l < k) (select P (t_auditLogs db)))"

definition list_audit_logs ::
    "time \<Rightarrow> auth_user \<Rightarrow> audit_query \<Rightarrow> cursor option \<Rightarrow> nat \<Rightarrow> database \<Rightarrow> audit_log_dto page res" where
  "list_audit_logs t u q cur limit db =
     bindE (visibleTo u q db) (\<lambda>visible. bindE (decode_key cur) (\<lambda>k.
       let P = audit_filter visible q;
           rows = take (limit + 1) (audit_rows P db k)
       in Inr (toPage rows limit (length (select P (t_auditLogs db))) t
            (\<lambda>l. key_json (audit_key l)) (audit_toDto db (hiddenAuthorsOf (au_id u) rows db)))))"

section \<open>Facts\<close>

lemma own_submission_iff: "own_submission db u i \<longleftrightarrow>
    (\<exists>s \<in> set (t_submissions db). i = IdUuid (s_id s) \<and> s_requesterId s = u)"
  by (auto simp: own_submission_def list_ex_iff)

lemma anonymous_story: "anonymousTypes = [STORY]"
  by (simp add: anonymousTypes_def)

lemma page_items_from_rows:
  assumes "list_audit_logs t u q cur limit db = Inr page" and "i \<in> set (pg_items page)"
  obtains visible rows l where "visibleTo u q db = Inr visible" "set rows \<subseteq> set (t_auditLogs db)"
    "l \<in> set rows" "audit_filter visible q l" "i = audit_toDto db (hiddenAuthorsOf (au_id u) rows db) l"
proof -
  from assms(1) obtain visible k where v: "visibleTo u q db = Inr visible"
    and page: "page = toPage (take (limit + 1) (audit_rows (audit_filter visible q) db k)) limit
        (length (select (audit_filter visible q) (t_auditLogs db))) t (\<lambda>l. key_json (audit_key l))
        (audit_toDto db (hiddenAuthorsOf (au_id u) (take (limit + 1) (audit_rows (audit_filter visible q) db k)) db))"
    by (auto simp: list_audit_logs_def res_simps Let_def)
  let ?rows = "take (limit + 1) (audit_rows (audit_filter visible q) db k)"
  have sub: "set ?rows \<subseteq> {l \<in> set (t_auditLogs db). audit_filter visible q l}"
    using set_take_subset[of "limit + 1" "audit_rows (audit_filter visible q) db k"]
    by (auto simp: audit_rows_def)
  from assms(2) obtain l where l: "l \<in> set (take limit ?rows)"
    "i = audit_toDto db (hiddenAuthorsOf (au_id u) ?rows db) l" by (auto simp: page toPage_items)
  from l(1) have "l \<in> set ?rows" by (rule in_set_takeD)
  with sub l(2) v show ?thesis by (intro that[of visible ?rows l]) auto
qed

text \<open>
  role changes are shown to super admins only, and a user who is no reviewer sees nothing but
  the entries of the own submissions.
\<close>

theorem audit_logs_visibility:
  assumes "list_audit_logs t u q cur limit db = Inr page" and "i \<in> set (pg_items page)"
  shows "Granted SUPER_ADMIN \<in> set (au_roles u)
     \<or> (Granted REVIEWER \<in> set (au_roles u) \<and> ald_targetType i \<noteq> TARGET_USER)
     \<or> (ald_targetType i = TARGET_SUBMISSION
        \<and> (\<exists>s \<in> set (t_submissions db). ald_targetId i = IdUuid (s_id s) \<and> s_requesterId s = au_id u))"
proof -
  obtain visible rows l where v: "visibleTo u q db = Inr visible"
    and l: "audit_filter visible q l" "i = audit_toDto db (hiddenAuthorsOf (au_id u) rows db) l"
    using page_items_from_rows[OF assms] by metis
  from l(2) have i: "ald_targetType i = al_targetType l" "ald_targetId i = al_targetId l"
    by (simp_all add: audit_toDto_def Let_def)
  show ?thesis
    using v l(1) unfolding i
    by (auto simp: visibleTo_def Let_def audit_filter_def own_submission_iff[symmetric] isReviewer_def
        split: if_splits option.splits)
qed

text \<open>
  C16: the audit log does not give away who wrote a story: no entry about it names its author as the
  acting user, unless the author is looking.
\<close>

theorem audit_logs_hide_story_author:
  assumes "list_audit_logs t u q cur limit db = Inr page" and "i \<in> set (pg_items page)"
    and "distinct (map s_id (t_submissions db))"
    and "s \<in> set (t_submissions db)" and "s_type s = STORY" and "s_requesterId s \<noteq> au_id u"
    and "ald_targetType i = TARGET_SUBMISSION" and "ald_targetId i = IdUuid (s_id s)"
    and "ald_actorType i = ACTOR_USER"
  shows "ald_actorId i \<noteq> Some (s_requesterId s) \<and> (ald_actorId i \<noteq> None \<or> ald_actorName i = None)"
proof -
  obtain visible rows l where l: "l \<in> set rows" "i = audit_toDto db (hiddenAuthorsOf (au_id u) rows db) l"
    using page_items_from_rows[OF assms(1,2)] by metis
  let ?hits = "select (\<lambda>s. IdUuid (s_id s) \<in> set (map al_targetId (filter (\<lambda>l. al_targetType l = TARGET_SUBMISSION) rows))
      \<and> s_type s \<in> set anonymousTypes \<and> s_requesterId s \<noteq> au_id u) (t_submissions db)"
  have t: "al_targetType l = TARGET_SUBMISSION" "al_targetId l = IdUuid (s_id s)" "al_actorType l = ACTOR_USER"
    using assms(7-9) l(2) by (simp_all add: audit_toDto_def Let_def)
  have "s \<in> set ?hits" using assms(4-6) l(1) t by (auto simp: anonymous_story intro!: image_eqI[of _ _ l])
  moreover have "distinct (map (\<lambda>s. IdUuid (s_id s)) ?hits)"
    using distinct_map_filter[OF assms(3)] by (auto simp: select_def distinct_map inj_on_def)
  ultimately have "hiddenAuthorsOf (au_id u) rows db (IdUuid (s_id s)) = Some (s_requesterId s)"
    unfolding hiddenAuthorsOf_def Let_def by (intro map_of_is_SomeI) (auto simp: comp_def)
  then show ?thesis
    using t l(2) by (cases "al_actorId l") (auto simp: audit_toDto_def Let_def actorNameOf_def)
qed

definition story_log_query :: audit_query where
  "story_log_query = \<lparr>aq_targetType = Some TARGET_SUBMISSION, aq_targetId = None, aq_action = None\<rparr>"

lemma story_log_page:
  "\<exists>page i. list_audit_logs 2000 (sample_admin 1) story_log_query None 10 story_written = Inr page
     \<and> pg_items page = [i] \<and> ald_actorType i = ACTOR_USER \<and> ald_targetType i = TARGET_SUBMISSION
     \<and> ald_targetId i = IdUuid 100"
  by (simp add: list_audit_logs_def visibleTo_def sample_admin_def decode_key_None story_log_query_def
      audit_rows_def select_def audit_filter_def query_targetId_def story_written_def record_audit_def
      sample_auth_db_def empty_database_def insert_row_def order_desc_def toPage_def Let_def audit_row_def
      submission_audit_def audit_toDto_def)

theorem audit_logs_hide_story_author_witness:
  "\<exists>page i. list_audit_logs 2000 (sample_admin 1) story_log_query None 10 story_written = Inr page
     \<and> i \<in> set (pg_items page) \<and> ald_targetId i = IdUuid 100 \<and> ald_actorId i \<noteq> Some 7"
proof -
  from story_log_page obtain page i where p:
    "list_audit_logs 2000 (sample_admin 1) story_log_query None 10 story_written = Inr page"
    "pg_items page = [i]" "ald_actorType i = ACTOR_USER" "ald_targetType i = TARGET_SUBMISSION"
    "ald_targetId i = IdUuid 100" by blast
  from audit_logs_hide_story_author[OF p(1), of i pending_story] p show ?thesis
    by (auto simp: story_written_def sample_admin_def)
qed

lemma own_log_page:
  "\<exists>page i. list_audit_logs 2000 sample_author story_log_query None 10 story_written = Inr page \<and> pg_items page = [i]"
  by (simp add: list_audit_logs_def visibleTo_def sample_author_def sample_admin_def decode_key_None story_log_query_def
      audit_rows_def select_def audit_filter_def query_targetId_def story_written_def record_audit_def isReviewer_def
      sample_auth_db_def empty_database_def insert_row_def order_desc_def toPage_def Let_def audit_row_def
      submission_audit_def own_submission_def)

theorem audit_logs_visibility_witness:
  "\<exists>page i. list_audit_logs 2000 sample_author story_log_query None 10 story_written = Inr page
     \<and> i \<in> set (pg_items page) \<and> ald_targetType i = TARGET_SUBMISSION"
proof -
  from own_log_page obtain page i where p:
    "list_audit_logs 2000 sample_author story_log_query None 10 story_written = Inr page" "pg_items page = [i]" by blast
  have "Granted SUPER_ADMIN \<notin> set (au_roles sample_author)" "Granted REVIEWER \<notin> set (au_roles sample_author)"
    by (simp_all add: sample_author_def)
  with audit_logs_visibility[OF p(1), of i] p show ?thesis by auto
qed

interpretation audit_list: keyset "\<lambda>db. audit_rows P db" audit_key "\<lambda>a b. b < a"
    "\<lambda>db. distinct (map al_id (t_auditLogs db))"
proof (rule keyset_desc)
  show "audit_rows P db c = order_desc audit_key
      (filter (\<lambda>l. case c of None \<Rightarrow> True | Some k \<Rightarrow> audit_key l < k) (select P (t_auditLogs db)))" for db c
    by (simp add: audit_rows_def)
  show "distinct (map al_id (t_auditLogs db)) \<Longrightarrow> distinct (map audit_key (select P (t_auditLogs db)))" for db
    by (auto simp: select_def distinct_map inj_on_def audit_key_def)
qed

section \<open>Recent stories\<close>

record recent_story =
  rs_storyNumber :: "int option"
  rs_tag :: story_tag
  rs_body :: utext
  rs_startAt :: "time option"

definition recent_stories :: "time \<Rightarrow> nat \<Rightarrow> database \<Rightarrow> recent_story list" where
  "recent_stories t limit db =
     map (\<lambda>(s, st). \<lparr>rs_storyNumber = st_storyNumber st, rs_tag = st_tag st, rs_body = st_body st,
                     rs_startAt = s_startAt s\<rparr>)
       (take limit (order_desc (\<lambda>(s, st). (the (s_startAt s), s_id s))
         (List.map_filter
            (\<lambda>s. map_option (Pair s) (first_row (\<lambda>r. st_submissionId r = s_id s) (t_stories db)))
            (select (\<lambda>s. s_type s = STORY \<and> effectively_published t s) (t_submissions db)))))"

end
