(* ===== verification/Idempotency.thy ===== *)
theory Idempotency
  imports Audit_Writer
begin

text \<open>
  Idempotent requests: the store \<open>src/src/common/idempotency/idempotency.service.ts\<close> and the
  interceptor \<open>idempotency.interceptor.ts\<close>. Each function of the store is one SQL statement, except
  that a claim that finds the key taken reads it in a second one; that read is made on the same
  state here. What the answers of the store do to a request is \<open>wait_loop\<close>, over the answers and
  the clock readings in order; \<open>idem_step\<close> interleaves any number of requests.
\<close>

section \<open>The store\<close>

definition LOCK_TTL :: time where "LOCK_TTL = 30000"
definition RETENTION :: time where "RETENTION = 86400000"

datatype claim_result = Claimed | Completed "json option" | InProgress | Mismatch

definition idem_key :: "idempotency_key \<Rightarrow> string \<times> utext" where
  "idem_key r = (ik_scope r, ik_key r)"

definition may_take_over :: "time \<Rightarrow> string \<Rightarrow> idempotency_key \<Rightarrow> bool" where
  "may_take_over t fingerprint r \<longleftrightarrow> ik_expiresAt r < t
     \<or> (ik_status r = IN_PROGRESS \<and> ik_lockedUntil r < t \<and> ik_fingerprint r = fingerprint)"

definition fresh_claim :: "time \<Rightarrow> string \<Rightarrow> utext \<Rightarrow> string \<Rightarrow> idempotency_key" where
  "fresh_claim t scope key fingerprint =
     \<lparr>ik_scope = scope, ik_key = key, ik_fingerprint = fingerprint, ik_status = IN_PROGRESS,
      ik_responseBody = None, ik_lockedUntil = t + LOCK_TTL, ik_expiresAt = t + RETENTION,
      ik_createdAt = t\<rparr>"

definition claim ::
    "time \<Rightarrow> string \<Rightarrow> utext \<Rightarrow> string \<Rightarrow> idempotency_key table \<Rightarrow> idempotency_key table \<times> claim_result" where
  "claim t scope key fingerprint tab =
     (let new = fresh_claim t scope key fingerprint
      in case first_row (\<lambda>r. idem_key r = (scope, key)) tab of
           None \<Rightarrow> (insert_row new tab, Claimed)
         | Some r \<Rightarrow>
             if may_take_over t fingerprint r
             then (update_where (\<lambda>q. idem_key q = (scope, key)) (\<lambda>_. new) tab, Claimed)
             else (tab, if ik_fingerprint r \<noteq> fingerprint then Mismatch
                        else if ik_status r = COMPLETED then Completed (ik_responseBody r)
                        else InProgress))"

definition complete_key :: "string \<Rightarrow> utext \<Rightarrow> json option \<Rightarrow> idempotency_key table \<Rightarrow> idempotency_key table" where
  "complete_key scope key body tab =
     update_where (\<lambda>r. idem_key r = (scope, key)) (\<lambda>r. r\<lparr>ik_status := COMPLETED, ik_responseBody := body\<rparr>) tab"

definition release_key :: "string \<Rightarrow> utext \<Rightarrow> idempotency_key table \<Rightarrow> idempotency_key table" where
  "release_key scope key tab =
     delete_where (\<lambda>r. idem_key r = (scope, key) \<and> ik_status r = IN_PROGRESS) tab"

definition deleteExpired :: "time \<Rightarrow> idempotency_key table \<Rightarrow> idempotency_key table \<times> nat" where
  "deleteExpired t tab =
     (delete_where (\<lambda>r. ik_expiresAt r < t) tab, length (select (\<lambda>r. ik_expiresAt r < t) tab))"

section \<open>The interceptor\<close>

definition valid_key_char :: "nat \<Rightarrow> bool" where
  "valid_key_char c \<longleftrightarrow> 33 \<le> c \<and> c \<le> 126"

definition VALID_KEY :: "utext \<Rightarrow> bool" where
  "VALID_KEY k \<longleftrightarrow> 1 \<le> length k \<and> length k \<le> 255 \<and> list_all valid_key_char k"

definition waitTimeoutMs :: time where "waitTimeoutMs = 10000"
definition pollIntervalMs :: time where "pollIntervalMs = 100"

text \<open>What becomes of a request: its handler runs, a stored answer is replayed, or it is refused.\<close>

datatype idem_outcome = Execute | Replay "json option" | Refuse exc

definition keyReused :: exc where
  "keyReused = app_error 422 IDEMPOTENCY_KEY_REUSED ''Idempotency-Key was already used for a different request''"

definition stillInProgress :: exc where
  "stillInProgress = app_error 409 CONFLICT ''A request with the same Idempotency-Key is still in progress''"

definition badKey :: exc where
  "badKey = app_error 400 INVALID_REQUEST ''Idempotency-Key header is missing or malformed''"

partial_function (option) wait_loop ::
    "(nat \<Rightarrow> claim_result) \<Rightarrow> (nat \<Rightarrow> time) \<Rightarrow> time \<Rightarrow> nat \<Rightarrow> idem_outcome option" where
  "wait_loop store clock deadline n = (case store n of
      Claimed \<Rightarrow> Some Execute
    | Completed body \<Rightarrow> Some (Replay body)
    | Mismatch \<Rightarrow> Some (Refuse keyReused)
    | InProgress \<Rightarrow> if deadline \<le> clock n then Some (Refuse stillInProgress)
                   else wait_loop store clock deadline (n + 1))"

definition idem_handle ::
    "utext option \<Rightarrow> time \<Rightarrow> (nat \<Rightarrow> claim_result) \<Rightarrow> (nat \<Rightarrow> time) \<Rightarrow> idem_outcome option" where
  "idem_handle header start store clock = (case header of
      None \<Rightarrow> Some (Refuse badKey)
    | Some k \<Rightarrow> if \<not> VALID_KEY k then Some (Refuse badKey)
        else wait_loop store clock (start + waitTimeoutMs) 0)"

text \<open>
  \<open>execute\<close> runs the handler of a claimed key and records how it ended. The answer does not depend
  on whether that last statement of the store succeeds (\<open>stored\<close>).
\<close>

definition execute ::
    "string \<Rightarrow> utext \<Rightarrow> json option res \<Rightarrow> bool \<Rightarrow> idempotency_key table \<Rightarrow> idempotency_key table \<times> json option res" where
  "execute scope key outcome stored tab =
     (if \<not> stored then tab
      else case outcome of
          Inl e \<Rightarrow> release_key scope key tab
        | Inr body \<Rightarrow> complete_key scope key body tab,
      outcome)"

lemma wait_loop_returns:
  assumes "\<And>n. clock n + pollIntervalMs \<le> clock (n + 1)"
  shows "\<exists>out. wait_loop store clock deadline n = Some out"
proof (induction "nat (deadline - clock n)" arbitrary: n rule: less_induct)
  case less
  show ?case
  proof (cases "store n = InProgress \<and> clock n < deadline")
    case True
    have "nat (deadline - clock (n + 1)) < nat (deadline - clock n)"
      using assms[of n] True by (simp add: pollIntervalMs_def)
    from less[OF this] True show ?thesis by (subst wait_loop.simps) simp
  next
    case False
    then show ?thesis by (subst wait_loop.simps) (auto split: claim_result.splits)
  qed
qed

text \<open>
  C22: a request with an idempotency key is always answered: when each round of the waiting loop
  takes at least the poll interval, the loop ends, and in time (the last reading is at most one
  round past the deadline).
\<close>

theorem idem_handle_returns:
  assumes "\<And>n. clock n + pollIntervalMs \<le> clock (n + 1)"
  shows "\<exists>out. idem_handle header start store clock = Some out"
  using wait_loop_returns[of clock store "start + waitTimeoutMs" 0] assms
  by (auto simp: idem_handle_def split: option.splits)

theorem idem_handle_returns_witness:
  "\<exists>out. idem_handle (Some [65]) 0 (\<lambda>_. InProgress) (\<lambda>n. 100 * int n) = Some out"
  by (rule idem_handle_returns) (simp add: pollIntervalMs_def)

section \<open>Any number of requests\<close>

record execution =
  ex_scope :: string
  ex_key :: utext
  ex_since :: time

record idem_state =
  is_now :: time
  is_keys :: "idempotency_key table"
  is_running :: "execution list"

definition ex_id :: "execution \<Rightarrow> string \<times> utext" where
  "ex_id e = (ex_scope e, ex_key e)"

text \<open>
  The handlers that run are those that got a claim. Time passes, but no handler runs longer than
  the lock lasts.
\<close>

inductive idem_step :: "idem_state \<Rightarrow> idem_state \<Rightarrow> bool" where
  claim: "claim (is_now s) sc k fp (is_keys s) = (tab, res) \<Longrightarrow>
     idem_step s (s\<lparr>is_keys := tab,
       is_running := (if res = Claimed then \<lparr>ex_scope = sc, ex_key = k, ex_since = is_now s\<rparr> # is_running s
                      else is_running s)\<rparr>)"
| finish: "e \<in> set (is_running s) \<Longrightarrow>
     idem_step s (s\<lparr>is_keys := fst (execute (ex_scope e) (ex_key e) outcome stored (is_keys s)),
       is_running := remove1 e (is_running s)\<rparr>)"
| cleanup: "idem_step s (s\<lparr>is_keys := fst (deleteExpired (is_now s) (is_keys s))\<rparr>)"
| tick: "is_now s \<le> t \<Longrightarrow> \<forall>e \<in> set (is_running s). t \<le> ex_since e + LOCK_TTL \<Longrightarrow> idem_step s (s\<lparr>is_now := t\<rparr>)"

text \<open>Every running handler holds its key.\<close>

definition holds_key :: "idem_state \<Rightarrow> execution \<Rightarrow> bool" where
  "holds_key s e \<longleftrightarrow> is_now s \<le> ex_since e + LOCK_TTL
     \<and> (\<exists>r \<in> set (is_keys s). idem_key r = ex_id e \<and> ik_status r = IN_PROGRESS
          \<and> ik_lockedUntil r = ex_since e + LOCK_TTL \<and> ik_expiresAt r = ex_since e + RETENTION)"

definition idem_ok :: "idem_state \<Rightarrow> bool" where
  "idem_ok s \<longleftrightarrow> distinct (map idem_key (is_keys s)) \<and> distinct (map ex_id (is_running s))
     \<and> (\<forall>e \<in> set (is_running s). holds_key s e)"

lemma idem_key_complete: "idem_key (r\<lparr>ik_status := x, ik_responseBody := y\<rparr>) = idem_key r"
  by (simp add: idem_key_def)

lemma idem_key_fresh [simp]: "idem_key (fresh_claim t sc k fp) = (sc, k)"
  by (simp add: idem_key_def fresh_claim_def)

lemma claim_rows:
  assumes "claim t sc k fp tab = (tab', Claimed)" and "distinct (map idem_key tab)"
  shows "set tab' = insert (fresh_claim t sc k fp) {r \<in> set tab. idem_key r \<noteq> (sc, k)}"
    and "distinct (map idem_key tab')"
proof -
  let ?new = "fresh_claim t sc k fp"
  consider "\<forall>r \<in> set tab. idem_key r \<noteq> (sc, k)" "tab' = insert_row ?new tab"
    | r where "r \<in> set tab" "idem_key r = (sc, k)" "tab' = update_where (\<lambda>q. idem_key q = (sc, k)) (\<lambda>_. ?new) tab"
  proof (cases "first_row (\<lambda>r. idem_key r = (sc, k)) tab")
    case None
    then show ?thesis
      using assms(1) that(1) by (simp add: claim_def Let_def) (simp add: first_row_None)
  next
    case (Some r)
    from first_row_Some[OF this] Some show ?thesis
      using assms(1) that(2)[of r] by (simp add: claim_def Let_def split: if_splits)
  qed
  then have "set tab' = insert ?new {r \<in> set tab. idem_key r \<noteq> (sc, k)} \<and> distinct (map idem_key tab')"
  proof cases
    case 1
    then have "idem_key ?new \<notin> idem_key ` set tab" by auto
    with 1 assms(2) show ?thesis by (auto intro: distinct_key_insert_row)
  next
    case 2
    then show ?thesis using assms(2) by (auto simp: set_update_where distinct_key_update_where)
  qed
  then show "set tab' = insert ?new {r \<in> set tab. idem_key r \<noteq> (sc, k)}" "distinct (map idem_key tab')"
    by auto
qed

lemma holder_row:
  assumes "idem_ok s" and "e \<in> set (is_running s)" and "first_row (\<lambda>r. idem_key r = ex_id e) (is_keys s) = x"
  shows "\<exists>r. x = Some r \<and> \<not> may_take_over (is_now s) fp r"
proof -
  from assms(1,2) obtain r :: idempotency_key where r: "r \<in> set (is_keys s)" "idem_key r = ex_id e"
      "ik_status r = IN_PROGRESS" "ik_lockedUntil r = ex_since e + LOCK_TTL"
      "ik_expiresAt r = ex_since e + RETENTION" "is_now s \<le> ex_since e + LOCK_TTL"
    unfolding idem_ok_def holds_key_def by blast
  have d: "distinct (map idem_key (is_keys s))" using assms(1) by (simp add: idem_ok_def)
  have "first_row (\<lambda>q. idem_key q = ex_id e) (is_keys s) = Some r"
    by (rule first_row_key_iff[OF d, THEN iffD2]) (intro conjI r)
  moreover have "\<not> may_take_over (is_now s) fp r"
    using r(4-6) by (simp add: may_take_over_def LOCK_TTL_def RETENTION_def)
  ultimately show ?thesis using assms(3) by simp
qed

lemma claim_ok:
  assumes ok: "idem_ok s" and c: "claim (is_now s) sc k fp (is_keys s) = (tab, res)"
  shows "idem_ok (s\<lparr>is_keys := tab,
       is_running := (if res = Claimed then \<lparr>ex_scope = sc, ex_key = k, ex_since = is_now s\<rparr> # is_running s
                      else is_running s)\<rparr>)"
proof (cases "res = Claimed")
  case False
  with c have "tab = is_keys s" by (auto simp: claim_def Let_def split: option.splits if_splits)
  with False ok show ?thesis by (simp add: idem_ok_def holds_key_def)
next
  case True
  let ?new = "fresh_claim (is_now s) sc k fp"
  have free: "ex_id e \<noteq> (sc, k)" if "e \<in> set (is_running s)" for e
    using holder_row[OF ok that refl, of fp] c True
    by (auto simp: claim_def Let_def split: option.splits if_splits)
  have tab: "set tab = insert ?new {r \<in> set (is_keys s). idem_key r \<noteq> (sc, k)}" "distinct (map idem_key tab)"
    using claim_rows c True ok by (auto simp: idem_ok_def)
  have new: "holds_key (s\<lparr>is_keys := tab, is_running := x\<rparr>) \<lparr>ex_scope = sc, ex_key = k, ex_since = is_now s\<rparr>" for x
    using tab(1) by (auto simp: holds_key_def ex_id_def fresh_claim_def idem_key_def LOCK_TTL_def)
  have old: "holds_key (s\<lparr>is_keys := tab, is_running := x\<rparr>) e" if "e \<in> set (is_running s)" for x e
  proof -
    from ok that obtain r :: idempotency_key where r: "r \<in> set (is_keys s)" "idem_key r = ex_id e"
        "ik_status r = IN_PROGRESS" "ik_lockedUntil r = ex_since e + LOCK_TTL"
        "ik_expiresAt r = ex_since e + RETENTION" "is_now s \<le> ex_since e + LOCK_TTL"
      unfolding idem_ok_def holds_key_def by blast
    then have "r \<in> set tab" using free[OF that] tab(1) by simp
    then show ?thesis using r(2-6) unfolding holds_key_def by (simp, blast)
  qed
  show ?thesis
    using True tab(2) new old free ok by (auto simp: idem_ok_def ex_id_def image_iff)
qed

lemma finish_ok:
  assumes ok: "idem_ok s" and e: "e \<in> set (is_running s)" and keys: "distinct (map idem_key tab)"
    and same: "{r \<in> set tab. idem_key r \<noteq> ex_id e} = {r \<in> set (is_keys s). idem_key r \<noteq> ex_id e}"
  shows "idem_ok (s\<lparr>is_keys := tab, is_running := remove1 e (is_running s)\<rparr>)"
proof -
  have d: "distinct (is_running s)" "inj_on ex_id (set (is_running s))"
    using ok by (auto simp: idem_ok_def distinct_map)
  have "holds_key (s\<lparr>is_keys := tab, is_running := x\<rparr>) e'" if "e' \<in> set (is_running s)" "e' \<noteq> e" for e' x
  proof -
    have "ex_id e' \<noteq> ex_id e" using d(2) that e by (auto simp: inj_on_def)
    with ok that(1) same show ?thesis unfolding idem_ok_def holds_key_def by fastforce
  qed
  with d keys show ?thesis
    by (auto simp: idem_ok_def distinct_map set_remove1_eq inj_on_def)
qed

lemma idem_step_ok: "idem_step s s' \<Longrightarrow> idem_ok s \<Longrightarrow> idem_ok s'"
proof (induction rule: idem_step.induct)
  case (claim s sc k fp tab res)
  then show ?case by (intro claim_ok)
next
  case (finish e s outcome stored)
  then show ?case
    by (intro finish_ok)
       (auto simp: execute_def complete_key_def release_key_def set_update_where ex_id_def idem_key_complete
        distinct_key_update_where distinct_key_delete_where idem_ok_def split: sum.splits)
next
  case (cleanup s)
  then show ?case
    unfolding idem_ok_def holds_key_def deleteExpired_def
    by (auto simp: distinct_key_delete_where LOCK_TTL_def RETENTION_def) fastforce
next
  case (tick s t)
  then show ?case by (auto simp: idem_ok_def holds_key_def)
qed

text \<open>
  C21: however requests arrive, retry, succeed and fail, no two handlers ever run at the same time for
  the same idempotency key of the same user, as long as no handler outlives its lock.
\<close>

theorem idempotent_handlers_exclusive:
  assumes "idem_step\<^sup>*\<^sup>* s s'" and "is_running s = []" and "distinct (map idem_key (is_keys s))"
  shows "distinct (map (\<lambda>e. (ex_scope e, ex_key e)) (is_running s'))"
proof -
  have "idem_ok s'"
    using assms(1) by (induction rule: rtranclp_induct) (use assms(2,3) idem_step_ok in \<open>auto simp: idem_ok_def\<close>)
  then show ?thesis by (simp add: idem_ok_def ex_id_def[abs_def])
qed

definition sample_idem :: idem_state where
  "sample_idem = \<lparr>is_now = 1000, is_keys = [], is_running = []\<rparr>"

theorem idempotent_handlers_exclusive_witness:
  "\<exists>s'. idem_step\<^sup>*\<^sup>* sample_idem s' \<and> length (is_running s') = 1
     \<and> snd (claim (is_now s') ''user:7'' [65] ''fp'' (is_keys s')) = InProgress
     \<and> distinct (map (\<lambda>e. (ex_scope e, ex_key e)) (is_running s'))"
proof -
  let ?s = "sample_idem\<lparr>is_keys := [fresh_claim 1000 ''user:7'' [65] ''fp''],
      is_running := [\<lparr>ex_scope = ''user:7'', ex_key = [65], ex_since = 1000\<rparr>]\<rparr>"
  have "idem_step sample_idem ?s"
    using idem_step.claim[of sample_idem "''user:7''" "[65]" "''fp''"]
    by (simp add: claim_def sample_idem_def Let_def insert_row_def)
  then have r: "idem_step\<^sup>*\<^sup>* sample_idem ?s" by blast
  have "snd (claim (is_now ?s) ''user:7'' [65] ''fp'' (is_keys ?s)) = InProgress"
    by (simp add: claim_def sample_idem_def Let_def may_take_over_def fresh_claim_def idem_key_def
        RETENTION_def LOCK_TTL_def)
  moreover have "distinct (map (\<lambda>e. (ex_scope e, ex_key e)) (is_running ?s))"
    by (rule idempotent_handlers_exclusive[OF r]) (simp_all add: sample_idem_def)
  ultimately show ?thesis using r by (intro exI[of _ ?s]) simp
qed

text \<open>
  C23: the answer of a request that succeeded is what every repetition with the same content gets for
  as long as it is kept, and a different request under that key is refused; neither changes the
  store.
\<close>

theorem completed_answer_is_replayed:
  assumes "claim t0 sc k fp tab = (tab1, Claimed)" and "t \<le> t0 + RETENTION"
    and "distinct (map idem_key tab)"
  shows "claim t sc k fp' (complete_key sc k body tab1)
     = (complete_key sc k body tab1, if fp' = fp then Completed body else Mismatch)"
proof -
  let ?new = "fresh_claim t0 sc k fp" and ?done = "(fresh_claim t0 sc k fp)\<lparr>ik_status := COMPLETED, ik_responseBody := body\<rparr>"
  have tab1: "?new \<in> set tab1" "distinct (map idem_key tab1)"
    using claim_rows[OF assms(1,3)] by auto
  have "?done \<in> set (complete_key sc k body tab1)"
    using tab1(1) by (auto simp: complete_key_def set_update_where)
  moreover have "distinct (map idem_key (complete_key sc k body tab1))"
    using tab1(2) by (simp add: complete_key_def distinct_key_update_where idem_key_complete)
  moreover have "idem_key ?done = (sc, k)" by (simp add: idem_key_complete)
  ultimately have "first_row (\<lambda>r. idem_key r = (sc, k)) (complete_key sc k body tab1) = Some ?done"
    by (simp add: first_row_key_iff)
  moreover have "\<not> may_take_over t fp' ?done" using assms(2) by (simp add: may_take_over_def fresh_claim_def)
  ultimately show ?thesis by (simp add: claim_def Let_def fresh_claim_def)
qed

theorem completed_answer_is_replayed_witness:
  "claim 5000 ''user:7'' [65] ''fp'' (complete_key ''user:7'' [65] (Some JNull) [fresh_claim 1000 ''user:7'' [65] ''fp''])
   = (complete_key ''user:7'' [65] (Some JNull) [fresh_claim 1000 ''user:7'' [65] ''fp''], Completed (Some JNull))"
  using completed_answer_is_replayed[of 1000 "''user:7''" "[65]" "''fp''" "[]" "[fresh_claim 1000 ''user:7'' [65] ''fp'']" 5000 "''fp''"]
  by (simp add: claim_def Let_def insert_row_def RETENTION_def)

text \<open>
  Past its lock a handler no longer owns its key: when it then fails, it deletes the record under
  which a second handler is running, and a third request runs beside that one.
\<close>

lemma stale_release_frees_foreign_claim:
  "let first = fst (claim 0 ''user:7'' [65] ''fp'' []);
       second = claim 40000 ''user:7'' [65] ''fp'' first;
       after_release = release_key ''user:7'' [65] (fst second)
   in snd second = Claimed \<and> snd (claim 41000 ''user:7'' [65] ''fp'' after_release) = Claimed"
  by (simp add: claim_def release_key_def delete_where_def insert_row_def may_take_over_def fresh_claim_def
      idem_key_def LOCK_TTL_def RETENTION_def Let_def)

end
