(* ===== verification/Json_Schemas.thy ===== *)
theory Json_Schemas
  imports Schema
begin

text \<open>
  Request bodies and \<open>jsonb\<close> values checked against a schema: the strict objects of
  \<open>src/src/common/validation/zod.ts\<close> over the combinators of the schema library that the
  application's schemas are written with.

  A schema reads a value (\<open>None\<close> is \<open>undefined\<close>) and gives its issues in order with the value it
  read. The value is \<open>None\<close> exactly when the library calls the result aborted (a wrong type, a
  missing or unknown key); a failed check leaves it in place, and later checks still run on it. The
  value is accepted when there is no issue (\<open>parse\<close>, the \<open>safeParse\<close> of \<open>parseOrFail\<close>).

  Strings arrive as code points (\<open>JStr\<close>), numbers as integers. The formats of dates and uuids are
  those of the library and of the language's \<open>Date.parse\<close>: the argument \<open>formats\<close>.
\<close>

section \<open>JavaScript strings\<close>

definition js_white :: "nat \<Rightarrow> bool" where
  "js_white c \<longleftrightarrow> (9 \<le> c \<and> c \<le> 13) \<or> c = 32 \<or> c = 160 \<or> c = 5760 \<or> (8192 \<le> c \<and> c \<le> 8202)
     \<or> c = 8232 \<or> c = 8233 \<or> c = 8239 \<or> c = 8287 \<or> c = 12288 \<or> c = 65279"

definition js_trim :: "utext \<Rightarrow> utext" where
  "js_trim s = rev (dropWhile js_white (rev (dropWhile js_white s)))"

text \<open>The \<open>length\<close> of a string counts UTF-16 code units.\<close>

definition js_length :: "utext \<Rightarrow> nat" where
  "js_length s = length s + length (filter (\<lambda>c. 65536 \<le> c) s)"

fun nat_text :: "nat \<Rightarrow> string" where
  "nat_text n = (if n < 10 then [char_of (48 + n)] else nat_text (n div 10) @ [char_of (48 + n mod 10)])"

declare nat_text.simps [simp del]

text \<open>
  The identifier a text is. Identifiers are ASCII; any other character becomes one that occurs in no
  identifier.
\<close>

definition ascii :: "utext \<Rightarrow> string" where
  "ascii s = map (\<lambda>c. if c < 128 then char_of c else char_of (128 :: nat)) s"

definition is_digit :: "nat \<Rightarrow> bool" where "is_digit c \<longleftrightarrow> 48 \<le> c \<and> c \<le> 57"

section \<open>Schemas\<close>

type_synonym zod_issue = "string list \<times> msg"
type_synonym 'a parsed = "zod_issue list \<times> 'a option"
type_synonym 'a schema = "json option \<Rightarrow> 'a parsed"

record formats =
  f_datetime :: "utext \<Rightarrow> bool"
  f_uuid :: "utext \<Rightarrow> uuid option"
  Date_parse :: "utext \<Rightarrow> time option"

definition parse :: "'a schema \<Rightarrow> json \<Rightarrow> zod_issue list + 'a" where
  "parse s j = (case s (Some j) of ([], Some v) \<Rightarrow> Inr v | (issues, _) \<Rightarrow> Inl issues)"

definition fail_type :: "string \<Rightarrow> 'a parsed" where
  "fail_type m = ([([], Msg m)], None)"

definition z_int :: "string \<Rightarrow> int schema" where
  "z_int m x = (case x of
      Some (JNum n) \<Rightarrow> (if \<bar>n\<bar> \<le> 9007199254740991 then [] else [([], Msg m)], Some n)
    | _ \<Rightarrow> fail_type m)"

definition z_string :: "string \<Rightarrow> utext schema" where
  "z_string m x = (case x of Some (JStr s) \<Rightarrow> ([], Some s) | _ \<Rightarrow> fail_type m)"

definition z_boolean :: "string \<Rightarrow> bool schema" where
  "z_boolean m x = (case x of Some (JBool b) \<Rightarrow> ([], Some b) | _ \<Rightarrow> fail_type m)"

text \<open>An enum lists its names with the values they stand for; a literal is an enum of one name.\<close>

definition z_enum :: "(string \<times> 'a) list \<Rightarrow> string \<Rightarrow> 'a schema" where
  "z_enum names m x = (case x of
      Some (JStr s) \<Rightarrow> (case map_of (map (\<lambda>(n, v). (codes n, v)) names) s of
          Some v \<Rightarrow> ([], Some v) | None \<Rightarrow> fail_type m)
    | _ \<Rightarrow> fail_type m)"

definition z_null :: "string \<Rightarrow> unit schema" where
  "z_null m x = (case x of Some JNull \<Rightarrow> ([], Some ()) | _ \<Rightarrow> fail_type m)"

text \<open>Any value, as \<open>z.unknown()\<close>.\<close>

definition z_unknown :: "json schema" where
  "z_unknown x = ([], Some (case x of Some j \<Rightarrow> j | None \<Rightarrow> JNull))"

definition z_optional :: "'a schema \<Rightarrow> 'a option schema" where
  "z_optional s x = (case x of None \<Rightarrow> ([], Some None) | Some _ \<Rightarrow> (fst (s x), map_option Some (snd (s x))))"

definition z_nullable :: "'a schema \<Rightarrow> 'a option schema" where
  "z_nullable s x = (case x of Some JNull \<Rightarrow> ([], Some None) | _ \<Rightarrow> (fst (s x), map_option Some (snd (s x))))"

definition z_nullish :: "'a schema \<Rightarrow> 'a option schema" where
  "z_nullish s x = (case x of None \<Rightarrow> ([], Some None) | _ \<Rightarrow> z_nullable s x)"

definition z_default :: "'a \<Rightarrow> 'a schema \<Rightarrow> 'a schema" where
  "z_default d s x = (case x of None \<Rightarrow> ([], Some d) | Some _ \<Rightarrow> s x)"

text \<open>Checks run on a value that was read; a refinement names the path its issue is put at.\<close>

definition z_refine :: "string list \<Rightarrow> ('a \<Rightarrow> bool) \<Rightarrow> string \<Rightarrow> 'a schema \<Rightarrow> 'a schema" where
  "z_refine path P m s x = (case s x of
      (issues, Some v) \<Rightarrow> (if P v then issues else issues @ [(path, Msg m)], Some v)
    | (issues, None) \<Rightarrow> (issues, None))"

abbreviation z_check :: "('a \<Rightarrow> bool) \<Rightarrow> string \<Rightarrow> 'a schema \<Rightarrow> 'a schema" where
  "z_check \<equiv> z_refine []"

definition z_map :: "('a \<Rightarrow> 'b) \<Rightarrow> 'a schema \<Rightarrow> 'b schema" where
  "z_map f s x = (fst (s x), map_option f (snd (s x)))"

text \<open>A transformation runs only after everything before it was accepted.\<close>

definition z_transform :: "('a \<Rightarrow> 'b) \<Rightarrow> 'a schema \<Rightarrow> 'b schema" where
  "z_transform f s x = (case s x of ([], Some v) \<Rightarrow> ([], Some (f v)) | (issues, _) \<Rightarrow> (issues, None))"

definition under :: "string \<Rightarrow> zod_issue list \<Rightarrow> zod_issue list" where
  "under k = map (\<lambda>(p, m). (k # p, m))"

fun all_values :: "'a option list \<Rightarrow> 'a list option" where
  "all_values [] = Some []"
| "all_values (None # xs) = None"
| "all_values (Some v # xs) = map_option ((#) v) (all_values xs)"

definition element_issues :: "'a parsed list \<Rightarrow> zod_issue list" where
  "element_issues rs = concat (map (\<lambda>(i, r). under (nat_text i) (fst r)) (enumerate 0 rs))"

definition z_array :: "'a schema \<Rightarrow> string \<Rightarrow> 'a list schema" where
  "z_array s m x = (case x of
      Some (JArr js) \<Rightarrow>
        (let rs = map (\<lambda>j. s (Some j)) js
         in (element_issues rs, all_values (map snd rs)))
    | _ \<Rightarrow> fail_type m)"

text \<open>The length checks of an array look at the value received, even when an element is wrong.\<close>

definition z_items :: "(nat \<Rightarrow> bool) \<Rightarrow> string \<Rightarrow> 'a schema \<Rightarrow> 'a schema" where
  "z_items P m s x = (case x of
      Some (JArr js) \<Rightarrow> (if P (length js) then fst (s x) else fst (s x) @ [([], Msg m)], snd (s x))
    | _ \<Rightarrow> s x)"

text \<open>The properties of an object, combined in the order of the shape.\<close>

type_synonym 'a shape = "json obj \<Rightarrow> 'a parsed"

definition no_prop :: "'a \<Rightarrow> 'a shape" where
  "no_prop v obj = ([], Some v)"

definition z_prop :: "('a \<Rightarrow> 'b) shape \<Rightarrow> string \<Rightarrow> 'a schema \<Rightarrow> 'b shape" where
  "z_prop sh k s obj =
     (let f = sh obj; v = s (map_of obj k)
      in (fst f @ under k (fst v),
          case (snd f, snd v) of (Some g, Some y) \<Rightarrow> Some (g y) | _ \<Rightarrow> None))"

definition unknown_keys :: "string list \<Rightarrow> json obj \<Rightarrow> string list" where
  "unknown_keys keys obj = filter (\<lambda>k. k \<notin> set keys) (map fst obj)"

text \<open>\<open>strictObject\<close>: unknown keys have their own message, any other wrong shape the given one.\<close>

definition strictObject :: "string list \<Rightarrow> 'a shape \<Rightarrow> string \<Rightarrow> 'a schema" where
  "strictObject keys sh m x = (case x of
      Some (JObj obj) \<Rightarrow>
        (let r = sh obj; extra = unknown_keys keys obj
         in if extra = [] then r
            else (fst r @ [([], MsgOf ''There are unknown items'' (JArr (map JText extra)))], None))
    | _ \<Rightarrow> fail_type m)"

definition z_record :: "(string \<Rightarrow> bool) \<Rightarrow> 'a schema \<Rightarrow> string \<Rightarrow> string \<Rightarrow> 'a obj schema" where
  "z_record key_ok s key_msg m x = (case x of
      Some (JObj obj) \<Rightarrow>
        (let rs = map (\<lambda>(k, j). if key_ok k then (under k (fst (s (Some j))), map_option (Pair k) (snd (s (Some j))))
                                else ([([k], Msg key_msg)], None)) obj
         in (concat (map fst rs), all_values (map snd rs)))
    | _ \<Rightarrow> fail_type m)"

text \<open>A union told apart by a literal; the last message is for what is no object at all.\<close>

definition z_union :: "string \<Rightarrow> (string \<times> 'a schema) list \<Rightarrow> string \<Rightarrow> string \<Rightarrow> 'a schema" where
  "z_union key alts m type_m x = (case x of
      Some (JObj obj) \<Rightarrow>
        (case map_of obj key of
           Some (JStr t) \<Rightarrow>
             (case map_of (map (\<lambda>(n, s). (codes n, s)) alts) t of
                Some s \<Rightarrow> s x | None \<Rightarrow> ([([key], Msg m)], None))
         | _ \<Rightarrow> ([([key], Msg m)], None))
    | _ \<Rightarrow> fail_type type_m)"

section \<open>What an accepted value meets\<close>

definition accepts :: "'a schema \<Rightarrow> json option \<Rightarrow> 'a \<Rightarrow> bool" where
  "accepts s x v \<longleftrightarrow> s x = ([], Some v)"

named_theorems accepts_simps \<open>when a schema accepts a value\<close>

lemma parse_Inr [accepts_simps]: "parse s j = Inr v \<longleftrightarrow> accepts s (Some j) v"
  by (auto simp: parse_def accepts_def split: prod.splits list.splits option.splits)

lemma accepts_fail [simp]: "fail_type m = ([], Some v) \<longleftrightarrow> False"
  by (simp add: fail_type_def)

lemma under_Nil [simp]: "under k is = [] \<longleftrightarrow> is = []"
  by (simp add: under_def)

lemma accepts_int [accepts_simps]:
  "accepts (z_int m) x v \<longleftrightarrow> x = Some (JNum v) \<and> \<bar>v\<bar> \<le> 9007199254740991"
  by (auto simp: accepts_def z_int_def split: option.splits json.splits)

lemma accepts_string [accepts_simps]: "accepts (z_string m) x v \<longleftrightarrow> x = Some (JStr v)"
  by (auto simp: accepts_def z_string_def split: option.splits json.splits)

lemma accepts_boolean [accepts_simps]: "accepts (z_boolean m) x v \<longleftrightarrow> x = Some (JBool v)"
  by (auto simp: accepts_def z_boolean_def split: option.splits json.splits)

lemma accepts_optional [accepts_simps]:
  "accepts (z_optional s) x v \<longleftrightarrow> (x = None \<and> v = None) \<or> (\<exists>w. x \<noteq> None \<and> v = Some w \<and> accepts s x w)"
  by (cases "s x") (auto simp: accepts_def z_optional_def split: option.splits)

lemma accepts_nullable [accepts_simps]:
  "accepts (z_nullable s) x v
     \<longleftrightarrow> (x = Some JNull \<and> v = None) \<or> (\<exists>w. x \<noteq> Some JNull \<and> v = Some w \<and> accepts s x w)"
  by (cases "s x") (auto simp: accepts_def z_nullable_def split: option.splits json.splits)

lemma accepts_nullish [accepts_simps]:
  "accepts (z_nullish s) x v
     \<longleftrightarrow> ((x = None \<or> x = Some JNull) \<and> v = None)
       \<or> (\<exists>w. x \<noteq> None \<and> x \<noteq> Some JNull \<and> v = Some w \<and> accepts s x w)"
  by (cases "s x") (auto simp: accepts_def z_nullable_def z_nullish_def split: option.splits json.splits)

lemma accepts_default [accepts_simps]:
  "accepts (z_default d s) x v \<longleftrightarrow> (x = None \<and> v = d) \<or> (x \<noteq> None \<and> accepts s x v)"
  by (auto simp: accepts_def z_default_def split: option.splits)

lemma accepts_refine [accepts_simps]: "accepts (z_refine p P m s) x v \<longleftrightarrow> accepts s x v \<and> P v"
  by (auto simp: accepts_def z_refine_def split: prod.splits option.splits if_splits)

lemma accepts_map [accepts_simps]: "accepts (z_map f s) x v \<longleftrightarrow> (\<exists>w. accepts s x w \<and> v = f w)"
  by (cases "s x") (auto simp: accepts_def z_map_def)

lemma accepts_transform [accepts_simps]: "accepts (z_transform f s) x v \<longleftrightarrow> (\<exists>w. accepts s x w \<and> v = f w)"
  by (auto simp: accepts_def z_transform_def split: prod.splits list.splits option.splits)

lemma accepts_items [accepts_simps]:
  "accepts (z_items P m s) x v \<longleftrightarrow> accepts s x v \<and> (\<forall>js. x = Some (JArr js) \<longrightarrow> P (length js))"
  by (cases "s x") (auto simp: accepts_def z_items_def split: option.splits json.splits)

lemma all_values_Some: "all_values xs = Some vs \<longleftrightarrow> xs = map Some vs"
  by (induction xs arbitrary: vs rule: all_values.induct) (auto simp: Cons_eq_map_conv)

lemma concat_enumerate_Nil:
  "concat (map (\<lambda>(i, r). under (nat_text i) (fst r)) (enumerate n rs)) = [] \<longleftrightarrow> (\<forall>r \<in> set rs. fst r = [])"
  by (induction rs arbitrary: n) auto

lemma element_issues_Nil [simp]: "element_issues rs = [] \<longleftrightarrow> (\<forall>r \<in> set rs. fst r = [])"
  unfolding element_issues_def by (rule concat_enumerate_Nil)

lemma accepts_array [accepts_simps]:
  "accepts (z_array s m) x vs \<longleftrightarrow> (\<exists>js. x = Some (JArr js) \<and> list_all2 (\<lambda>j v. accepts s (Some j) v) js vs)"
proof -
  have "(\<forall>j \<in> set js. fst (s (Some j)) = []) \<and> map (\<lambda>j. snd (s (Some j))) js = map Some vs
      \<longleftrightarrow> list_all2 (\<lambda>j v. s (Some j) = ([], Some v)) js vs" for js
  proof (induction js arbitrary: vs)
    case Nil then show ?case by auto
  next
    case (Cons j js)
    show ?case
    proof (cases vs)
      case (Cons v ws)
      then show ?thesis using Cons.IH[of ws] by (cases "s (Some j)") auto
    qed simp
  qed
  then show ?thesis
    by (auto simp: accepts_def z_array_def Let_def all_values_Some comp_def
        split: option.splits json.splits)
qed

text \<open>
  \<open>shape_sat sh obj P\<close>: the shape accepts the object with a value of \<open>P\<close>. Unfolded over the
  properties it is one existential per property, in their order.
\<close>

definition shape_sat :: "'a shape \<Rightarrow> json obj \<Rightarrow> ('a \<Rightarrow> bool) \<Rightarrow> bool" where
  "shape_sat sh obj P \<longleftrightarrow> (\<exists>v. sh obj = ([], Some v) \<and> P v)"

lemma shape_sat_none [accepts_simps]: "shape_sat (no_prop c) obj P \<longleftrightarrow> P c"
  by (auto simp: shape_sat_def no_prop_def)

lemma shape_sat_prop [accepts_simps]:
  "shape_sat (z_prop sh k s) obj P
     \<longleftrightarrow> shape_sat sh obj (\<lambda>f. \<exists>w. accepts s (map_of obj k) w \<and> P (f w))"
  by (cases "sh obj"; cases "s (map_of obj k)")
     (auto simp: shape_sat_def accepts_def z_prop_def Let_def split: option.splits)

lemma accepts_strictObject [accepts_simps]:
  "accepts (strictObject keys sh m) x v
     \<longleftrightarrow> (\<exists>obj. x = Some (JObj obj) \<and> unknown_keys keys obj = [] \<and> shape_sat sh obj (\<lambda>w. v = w))"
  by (auto simp: accepts_def strictObject_def shape_sat_def Let_def split: option.splits json.splits)

lemma unknown_keys_Nil [accepts_simps]: "unknown_keys keys obj = [] \<longleftrightarrow> set (map fst obj) \<subseteq> set keys"
  by (auto simp: unknown_keys_def filter_empty_conv)

lemma accepts_union:
  "accepts (z_union key alts m tm) x v \<Longrightarrow> \<exists>(n, s) \<in> set alts. accepts s x v"
  by (fastforce simp: accepts_def z_union_def split: option.splits json.splits dest!: map_of_SomeD)

lemma accepts_enum: "accepts (z_enum names m) x v \<Longrightarrow> v \<in> snd ` set names"
  by (force simp: accepts_def z_enum_def split: option.splits json.splits dest!: map_of_SomeD)

lemma accepts_array_all:
  assumes "accepts (z_array s m) x vs" and "\<And>j v. accepts s j v \<Longrightarrow> P v"
  shows "\<forall>v \<in> set vs. P v"
proof -
  from assms(1) obtain js where "list_all2 (\<lambda>j v. accepts s (Some j) v) js vs"
    by (auto simp: accepts_array)
  then have "list_all2 (\<lambda>j. P) js vs" by (rule list_all2_mono) (rule assms(2))
  then show ?thesis by (auto simp: list_all2_conv_all_nth in_set_conv_nth)
qed

lemma accepts_array_length:
  "accepts (z_array s m) (Some (JArr js)) vs \<Longrightarrow> length vs = length js"
  by (auto simp: accepts_simps list_all2_lengthD)

lemma accepts_record:
  assumes "accepts (z_record key_ok s km m) x vs"
  shows "\<forall>(k, v) \<in> set vs. key_ok k \<and> (\<exists>j. accepts s j v)"
proof -
  from assms obtain obj where x: "x = Some (JObj obj)"
    by (auto simp: accepts_def z_record_def split: option.splits json.splits)
  let ?r = "\<lambda>(k, j). if key_ok k then (under k (fst (s (Some j))), map_option (Pair k) (snd (s (Some j))))
                                else ([([k], Msg km)], None)"
  from assms have all: "\<forall>r \<in> set (map ?r obj). fst r = []" "map snd (map ?r obj) = map Some vs"
    by (simp_all add: accepts_def z_record_def x Let_def all_values_Some)
  have "key_ok k \<and> (\<exists>j. accepts s j v)" if "(k, v) \<in> set vs" for k v
  proof -
    from that have "Some (k, v) \<in> set (map snd (map ?r obj))" unfolding all(2) by auto
    then obtain k' j where j: "(k', j) \<in> set obj" "snd (?r (k', j)) = Some (k, v)" by auto
    from j(1) have "?r (k', j) \<in> set (map ?r obj)" unfolding set_map by (rule imageI)
    with all(1) have "fst (?r (k', j)) = []" by blast
    with j(2) show ?thesis
      by (cases "s (Some j)"; cases "key_ok k'") (auto simp: accepts_def intro!: exI[of _ "Some j"])
  qed
  then show ?thesis by auto
qed

end
