(* ===== verification/Program_Types.thy ===== *)
theory Program_Types
  imports Json_Schemas Seoul_Time
begin

text \<open>
  The kinds of operated content: \<open>src/src/programs/program-types.ts\<close>, \<open>program-type.ts\<close>,
  \<open>program-schema.ts\<close> and the definition files under \<open>src/src/programs/types\<close>. Each kind is a
  \<open>program_type\<close>; the registry \<open>PROGRAM_TYPES\<close> lists them in the order of the code. Korean names
  that reach a screen are their code points; the wording of errors is rendered in English.
\<close>

section \<open>The interface of a kind\<close>

datatype data_source = NONE | COLLECTOR | DATASET | GENERATED

datatype data_state = OK | STALE | FAILING | EMPTY

record data_status =
  ds_state :: data_state
  ds_detail :: msg
  ds_updatedAt :: "time option"

record program_type =
  pt_type :: string
  pt_name :: utext
  pt_defaultDurationSeconds :: int
  pt_params :: "json obj schema"
  pt_dataSource :: data_source
  pt_infoBarItem :: "string option"
  pt_buildData :: "(json obj \<Rightarrow> time \<Rightarrow> json obj) option"
  pt_dataStatus :: "(json obj \<Rightarrow> time \<Rightarrow> data_status) option"

section \<open>D-day\<close>

text \<open>
  \<open>z.iso.date()\<close> accepts a four-digit year and a day that month has. \<open>Date.parse\<close> of such a text
  is the midnight of that day (UTC), \<open>parse_day\<close> days after the epoch.
\<close>

definition iso_date :: "utext \<Rightarrow> bool" where
  "iso_date s \<longleftrightarrow> s \<noteq> [] \<and> 48 \<le> hd s \<and> hd s \<le> 57 \<and> list_all (\<lambda>c. c < 128) s
     \<and> (case parse_day (ascii s) of Some d \<Rightarrow> iso_day d = ascii s | None \<Rightarrow> False)"

definition labelSchema :: "string \<Rightarrow> utext schema" where
  "labelSchema title =
     z_check (\<lambda>s. js_length s \<le> 20) (title @ '' has at most 20 characters'')
       (z_check (\<lambda>s. 1 \<le> js_length s) (title @ '' is missing'')
         (z_map js_trim (z_string (title @ '' is missing''))))"

definition dateSchema :: "string \<Rightarrow> utext schema" where
  "dateSchema title = z_check iso_date (title @ '' must be YYYY-MM-DD'') (z_string (title @ '' must be YYYY-MM-DD''))"

text \<open>The whole days between two dates; \<open>None\<close> is \<open>NaN\<close>.\<close>

definition days_until :: "string \<Rightarrow> time \<Rightarrow> int option" where
  "days_until date t = (case (parse_day date, parse_day (seoulDate t)) of
      (Some a, Some b) \<Rightarrow> Some (a - b) | _ \<Rightarrow> None)"

definition ddayStatus :: "string \<Rightarrow> time \<Rightarrow> data_status" where
  "ddayStatus date t = (case days_until date t of
      None \<Rightarrow> \<lparr>ds_state = OK, ds_detail = Msg ''D-NaN'', ds_updatedAt = None\<rparr>
    | Some days \<Rightarrow>
        if days < 0
        then \<lparr>ds_state = STALE, ds_detail = MsgOf ''days past the date'' (JNum (- days)), ds_updatedAt = None\<rparr>
        else \<lparr>ds_state = OK,
              ds_detail = (if days = 0 then Msg ''D-day'' else MsgOf ''D-'' (JNum days)),
              ds_updatedAt = None\<rparr>)"

definition text_at :: "string \<Rightarrow> json obj \<Rightarrow> utext" where
  "text_at k obj = (case map_of obj k of Some (JStr s) \<Rightarrow> s | _ \<Rightarrow> [])"

definition dday_params :: "json obj schema" where
  "dday_params = strictObject [''label'', ''date'']
     (z_prop (z_prop (no_prop (\<lambda>l d. [(''label'', JStr l), (''date'', JStr d)]))
        ''label'' (labelSchema ''The name''))
        ''date'' (dateSchema ''The date''))
     ''The D-day settings are not valid''"

definition DDAY_PROGRAM :: program_type where
  "DDAY_PROGRAM =
     \<lparr>pt_type = ''DDAY'', pt_name = codes ''D-day'', pt_defaultDurationSeconds = 5, pt_params = dday_params,
      pt_dataSource = NONE, pt_infoBarItem = Some ''DDAY'', pt_buildData = None,
      pt_dataStatus = Some (\<lambda>value t. ddayStatus (ascii (text_at ''date'' value)) t)\<rparr>"

section \<open>Exam cheer\<close>

definition cheer_message :: "utext option schema" where
  "cheer_message =
     z_transform (\<lambda>v. if v = Some [] then None else v)
       (z_nullish (z_check (\<lambda>s. js_length s \<le> 40) ''The cheer has at most 40 characters''
          (z_map js_trim (z_string ''The cheer must be a text''))))"

definition exam_cheer_params :: "json obj schema" where
  "exam_cheer_params = strictObject [''label'', ''date'', ''message'']
     (z_prop (z_prop (z_prop
        (no_prop (\<lambda>l d m. [(''label'', JStr l), (''date'', JStr d),
                           (''message'', case m of None \<Rightarrow> JNull | Some s \<Rightarrow> JStr s)]))
        ''label'' (labelSchema ''The exam name''))
        ''date'' (dateSchema ''The exam date''))
        ''message'' cheer_message)
     ''The exam cheer settings are not valid''"

definition EXAM_CHEER_PROGRAM :: program_type where
  "EXAM_CHEER_PROGRAM =
     \<lparr>pt_type = ''EXAM_CHEER'', pt_name = [49884, 54744, 32, 51025, 50896], pt_defaultDurationSeconds = 8,
      pt_params = exam_cheer_params, pt_dataSource = NONE, pt_infoBarItem = None, pt_buildData = None,
      pt_dataStatus = Some (\<lambda>value t. ddayStatus (ascii (text_at ''date'' value)) t)\<rparr>"

section \<open>The day's pillar\<close>

definition STEMS :: "utext list" where
  "STEMS = [[44049], [51012], [48337], [51221], [47924], [44592], [44221], [49888], [51076], [44228]]"

definition STEMS_HANJA :: "utext list" where
  "STEMS_HANJA = [[30002], [20057], [19993], [19969], [25098], [24049], [24218], [36763], [22764], [30328]]"

definition BRANCHES :: "utext list" where
  "BRANCHES = [[51088], [52629], [51064], [47896], [51652], [49324], [50724], [48120], [49888], [50976], [49696], [54644]]"

definition BRANCHES_HANJA :: "utext list" where
  "BRANCHES_HANJA = [[23376], [19985], [23493], [21359], [36784], [24051], [21320], [26410], [30003], [37193], [25100], [20133]]"

definition ANIMALS :: "utext list" where
  "ANIMALS = [[51536], [49548], [54840, 46993, 51060], [53664, 45180], [50857], [48192], [47568], [50577], [50896, 49709, 51060], [45805], [44060], [46076, 51648]]"

text \<open>The epoch day is the 17th (from 0) of the sixty-day cycle.\<close>

definition EPOCH_INDEX :: int where "EPOCH_INDEX = 17"

text \<open>The remainder of JavaScript, with the sign of the dividend.\<close>

definition js_rem :: "int \<Rightarrow> int \<Rightarrow> int" where
  "js_rem a b = (if a < 0 then - ((- a) mod b) else a mod b)"

definition pillar_index :: "int \<Rightarrow> int" where
  "pillar_index days = js_rem (js_rem (days + EPOCH_INDEX) 60 + 60) 60"

record day_pillar =
  dp_date :: string
  dp_name :: utext
  dp_hanja :: utext
  dp_stem :: utext
  dp_branch :: utext
  dp_animal :: utext

definition dayPillarOf :: "string \<Rightarrow> day_pillar option" where
  "dayPillarOf date = map_option
     (\<lambda>days. let index = pillar_index days; stem = nat (index mod 10); branch = nat (index mod 12)
       in \<lparr>dp_date = date, dp_name = STEMS ! stem @ BRANCHES ! branch,
           dp_hanja = STEMS_HANJA ! stem @ BRANCHES_HANJA ! branch,
           dp_stem = STEMS ! stem, dp_branch = BRANCHES ! branch, dp_animal = ANIMALS ! branch\<rparr>)
     (parse_day date)"

definition pillar_json :: "day_pillar \<Rightarrow> json obj" where
  "pillar_json p = [(''date'', JText (dp_date p)), (''name'', JStr (dp_name p)), (''hanja'', JStr (dp_hanja p)),
     (''stem'', JStr (dp_stem p)), (''branch'', JStr (dp_branch p)), (''animal'', JStr (dp_animal p))]"

definition daily_pillar_params :: "json obj schema" where
  "daily_pillar_params = strictObject [] (no_prop []) ''The daily pillar has no settings''"

definition DAILY_PILLAR_PROGRAM :: program_type where
  "DAILY_PILLAR_PROGRAM =
     \<lparr>pt_type = ''DAILY_PILLAR'', pt_name = [50724, 45720, 51032, 32, 51068, 51652],
      pt_defaultDurationSeconds = 8, pt_params = daily_pillar_params, pt_dataSource = GENERATED,
      pt_infoBarItem = None,
      pt_buildData = Some (\<lambda>value t. case dayPillarOf (seoulDate t) of Some p \<Rightarrow> pillar_json p | None \<Rightarrow> []),
      pt_dataStatus = None\<rparr>"

section \<open>Click battle\<close>

definition roundsSchema :: "int schema" where
  "roundsSchema =
     z_check (\<lambda>n. n \<le> 10) ''At most 10 rounds''
       (z_check (\<lambda>n. 1 \<le> n) ''At least 1 round'' (z_int ''The rounds must be an integer''))"

definition click_battle_params :: "json obj schema" where
  "click_battle_params = strictObject [''rounds'']
     (z_prop (no_prop (\<lambda>n. [(''rounds'', JNum n)])) ''rounds'' roundsSchema)
     ''The click battle settings are not valid''"

definition CLICK_BATTLE_PROGRAM :: program_type where
  "CLICK_BATTLE_PROGRAM =
     \<lparr>pt_type = ''CLICK_BATTLE'', pt_name = [53364, 47533, 32, 48176, 53952],
      pt_defaultDurationSeconds = 90, pt_params = click_battle_params, pt_dataSource = NONE,
      pt_infoBarItem = None, pt_buildData = None, pt_dataStatus = None\<rparr>"

section \<open>The registry\<close>

definition PROGRAM_TYPES :: "program_type list" where
  "PROGRAM_TYPES = [DDAY_PROGRAM, EXAM_CHEER_PROGRAM, DAILY_PILLAR_PROGRAM, CLICK_BATTLE_PROGRAM]"

definition PROGRAM_TYPE_NAMES :: "string list" where
  "PROGRAM_TYPE_NAMES = map pt_type PROGRAM_TYPES"

definition INFO_BAR_ITEMS :: "string list" where
  "INFO_BAR_ITEMS = List.map_filter pt_infoBarItem PROGRAM_TYPES"

definition programTypeOf :: "string \<Rightarrow> program_type option" where
  "programTypeOf type = find (\<lambda>d. pt_type d = type) PROGRAM_TYPES"

definition infoBarItemOf :: "string \<Rightarrow> string option" where
  "infoBarItemOf type = Option.bind (programTypeOf type) pt_infoBarItem"

definition parsedOf :: "program \<Rightarrow> (program_type \<times> json obj) option" where
  "parsedOf p = Option.bind (programTypeOf (p_type p))
     (\<lambda>d. case parse (pt_params d) (JObj (p_params p)) of Inr v \<Rightarrow> Some (d, v) | Inl _ \<Rightarrow> None)"

definition programDataOf :: "program \<Rightarrow> time \<Rightarrow> json obj option" where
  "programDataOf p t = Option.bind (parsedOf p) (\<lambda>(d, v). map_option (\<lambda>f. f v t) (pt_buildData d))"

definition dataStatusOf :: "program \<Rightarrow> time \<Rightarrow> data_status option" where
  "dataStatusOf p t = (case parsedOf p of
      None \<Rightarrow> Some \<lparr>ds_state = FAILING, ds_detail = Msg ''The settings do not fit the kind any more; save them again'',
                    ds_updatedAt = None\<rparr>
    | Some (d, v) \<Rightarrow> map_option (\<lambda>f. f v t) (pt_dataStatus d))"

section \<open>The bodies of a creation and a change\<close>

definition PROGRAM_NAME_MAX :: nat where "PROGRAM_NAME_MAX = 40"

definition nameSchema :: "utext schema" where
  "nameSchema =
     z_check (\<lambda>s. js_length s \<le> PROGRAM_NAME_MAX) ''The name has at most 40 characters''
       (z_check (\<lambda>s. 1 \<le> js_length s) ''The name is missing'' (z_map js_trim (z_string ''The name is missing'')))"

record create_program_input =
  cpi_type :: string
  cpi_name :: utext
  cpi_params :: "json obj"

definition createProgramSchema :: "create_program_input schema" where
  "createProgramSchema = z_union ''type''
     (map (\<lambda>d. (pt_type d,
        strictObject [''type'', ''name'', ''params'']
          (z_prop (z_prop (z_prop
             (no_prop (\<lambda>t n p. \<lparr>cpi_type = t, cpi_name = n, cpi_params = p\<rparr>))
             ''type'' (z_enum [(pt_type d, pt_type d)] ''The program is not valid''))
             ''name'' nameSchema)
             ''params'' (pt_params d))
          ''The program is not valid'')) PROGRAM_TYPES)
     ''The program kind is not valid'' ''Invalid input''"

record update_program_input =
  upi_name :: "utext option"
  upi_params :: "json option"

definition updateProgramSchema :: "update_program_input schema" where
  "updateProgramSchema = strictObject [''name'', ''params'']
     (z_prop (z_prop (no_prop (\<lambda>n p. \<lparr>upi_name = n, upi_params = p\<rparr>))
        ''name'' (z_optional nameSchema))
        ''params'' (z_optional z_unknown))
     ''The program is not valid''"

section \<open>Facts\<close>

lemma js_rem_pos: "0 < b \<Longrightarrow> js_rem (js_rem a b + b) b = a mod b"
proof -
  assume b: "0 < b"
  show ?thesis
  proof (cases "a < 0")
    case True
    have "0 < b - (- a) mod b" using b by simp
    moreover have "(b - (- a) mod b) mod b = a mod b" by (simp add: mod_simps)
    ultimately show ?thesis using True by (simp add: js_rem_def)
  next
    case False
    then have "0 \<le> a mod b + b" using b by simp
    with False show ?thesis by (simp add: js_rem_def)
  qed
qed

lemma pillar_index_eq: "pillar_index days = (days + 17) mod 60"
  by (simp add: pillar_index_def js_rem_pos EPOCH_INDEX_def)

text \<open>
  the pillar of every calendar day is found: stem, branch and animal are entries of their tables,
  each day's index is the next of the cycle, and two days have the same stem and branch exactly when
  they are a multiple of sixty days apart.
\<close>

theorem pillar_cycle:
  "0 \<le> pillar_index a \<and> pillar_index a < 60
     \<and> pillar_index (a + 1) = (pillar_index a + 1) mod 60
     \<and> (pillar_index a mod 10 = pillar_index b mod 10 \<and> pillar_index a mod 12 = pillar_index b mod 12)
         = ((a - b) mod 60 = 0)
     \<and> nat (pillar_index a mod 10) < length STEMS \<and> length STEMS_HANJA = length STEMS
     \<and> nat (pillar_index a mod 12) < length BRANCHES \<and> length BRANCHES_HANJA = length BRANCHES
     \<and> length ANIMALS = length BRANCHES"
proof -
  have l: "length STEMS = 10" "length STEMS_HANJA = 10" "length BRANCHES = 12" "length BRANCHES_HANJA = 12"
      "length ANIMALS = 12"
    by (simp_all add: STEMS_def STEMS_HANJA_def BRANCHES_def BRANCHES_HANJA_def ANIMALS_def)
  have "lcm 10 12 = (60::int)" by (simp add: lcm_int_def lcm_nat_def gcd_nat.simps)
  then have "(10 dvd x \<and> 12 dvd x) = (60 dvd x)" for x :: int
    using lcm_least_iff[of 10 12 x] by simp
  then have "((a + 17) mod 60 mod 10 = (b + 17) mod 60 mod 10 \<and> (a + 17) mod 60 mod 12 = (b + 17) mod 60 mod 12)
      = ((a - b) mod 60 = 0)"
    by (simp add: mod_mod_cancel mod_eq_dvd_iff dvd_eq_mod_eq_0[symmetric])
  then show ?thesis by (simp add: pillar_index_eq l mod_simps nat_less_iff)
qed

lemma dayPillarOf_seoulDate: "dayPillarOf (seoulDate t) = Some p \<Longrightarrow> dp_date p = seoulDate t"
  by (auto simp: dayPillarOf_def Let_def)

lemmas program_type_defs = DDAY_PROGRAM_def EXAM_CHEER_PROGRAM_def DAILY_PILLAR_PROGRAM_def CLICK_BATTLE_PROGRAM_def

lemma PROGRAM_TYPE_NAMES_eq: "PROGRAM_TYPE_NAMES = [''DDAY'', ''EXAM_CHEER'', ''DAILY_PILLAR'', ''CLICK_BATTLE'']"
  by (simp add: PROGRAM_TYPE_NAMES_def PROGRAM_TYPES_def program_type_defs)

lemma programTypeOf_Some: "programTypeOf type = Some d \<Longrightarrow> d \<in> set PROGRAM_TYPES \<and> pt_type d = type"
  by (auto simp: programTypeOf_def find_Some_iff)

lemma programTypeOf_iff: "d \<in> set PROGRAM_TYPES \<Longrightarrow> programTypeOf (pt_type d) = Some d"
  using first_row_key[of pt_type PROGRAM_TYPES d] PROGRAM_TYPE_NAMES_eq
  by (simp add: programTypeOf_def first_row_def PROGRAM_TYPE_NAMES_def)

lemma infoBarItemOf_eq: "infoBarItemOf type = (if type = ''DDAY'' then Some ''DDAY'' else None)"
  by (simp add: infoBarItemOf_def programTypeOf_def PROGRAM_TYPES_def program_type_defs)

lemma js_trim_idem [simp]: "js_trim (js_trim s) = js_trim s"
proof -
  show ?thesis
  proof (cases "js_trim s")
    case Nil
    then show ?thesis by simp (simp add: js_trim_def)
  next
    case (Cons c cs)
    let ?w = js_white
    have lst: "\<not> ?w (last (js_trim s))"
    proof -
      have "rev (js_trim s) = dropWhile ?w (rev (dropWhile ?w s))" by (simp add: js_trim_def)
      moreover have "rev (js_trim s) \<noteq> []" using Cons by simp
      ultimately have "\<not> ?w (hd (rev (js_trim s)))" using hd_dropWhile by metis
      with Cons show ?thesis by (simp only: hd_rev not_False_eq_True)
    qed
    have hd': "\<not> ?w c"
    proof -
      obtain ys where "dropWhile ?w s = js_trim s @ ys"
        using takeWhile_dropWhile_id[of ?w "rev (dropWhile ?w s)"]
        by (metis js_trim_def rev_append rev_rev_ident)
      with Cons have "dropWhile ?w s = c # cs @ ys" by simp
      then show ?thesis using hd_dropWhile[of ?w s] by simp
    qed
    have "dropWhile ?w (js_trim s) = js_trim s" using Cons hd' by simp
    moreover have "dropWhile ?w (rev (js_trim s)) = rev (js_trim s)"
      using lst Cons by (cases "rev (js_trim s)") (auto simp: last_rev hd_rev[symmetric])
    ultimately show ?thesis by (subst (1) js_trim_def) simp
  qed
qed

lemma accepts_label: "accepts (labelSchema m) (Some (JStr s)) s \<longleftrightarrow> js_trim s = s \<and> 1 \<le> js_length s \<and> js_length s \<le> 20"
  by (auto simp: labelSchema_def accepts_simps)

lemma accepts_label_trimmed: "accepts (labelSchema m) x v \<Longrightarrow> accepts (labelSchema m) (Some (JStr v)) v"
  by (auto simp: labelSchema_def accepts_simps)

lemma accepts_date: "accepts (dateSchema m) x v \<longleftrightarrow> x = Some (JStr v) \<and> iso_date v"
  by (auto simp: dateSchema_def accepts_simps)

lemma accepts_cheer_iff:
  "accepts cheer_message x v \<longleftrightarrow> ((x = None \<or> x = Some JNull) \<and> v = None)
     \<or> (\<exists>s. x = Some (JStr s) \<and> js_length (js_trim s) \<le> 40
          \<and> v = (if js_trim s = [] then None else Some (js_trim s)))"
  unfolding cheer_message_def accepts_transform accepts_nullish accepts_refine accepts_map accepts_string
  by (rule iffI; elim exE conjE disjE; simp split: if_splits; blast?)

lemma accepts_cheer:
  assumes "accepts cheer_message x v"
  shows "accepts cheer_message (Some (case v of None \<Rightarrow> JNull | Some s \<Rightarrow> JStr s)) v"
proof (cases v)
  case None
  then show ?thesis by (simp add: accepts_cheer_iff)
next
  case (Some s)
  with assms obtain r where "s = js_trim r" "js_length s \<le> 40" "s \<noteq> []"
    by (auto simp: accepts_cheer_iff split: if_splits)
  then show ?thesis unfolding Some by (simp add: accepts_cheer_iff)
qed

lemma accepts_rounds: "accepts roundsSchema x v \<longleftrightarrow> x = Some (JNum v) \<and> 1 \<le> v \<and> v \<le> 10"
  by (auto simp: roundsSchema_def accepts_simps)

lemma params_stable:
  assumes "d \<in> set PROGRAM_TYPES" and "accepts (pt_params d) x v"
  shows "accepts (pt_params d) (Some (JObj v)) v"
proof -
  consider "d = DDAY_PROGRAM" | "d = EXAM_CHEER_PROGRAM" | "d = DAILY_PILLAR_PROGRAM" | "d = CLICK_BATTLE_PROGRAM"
    using assms(1) by (auto simp: PROGRAM_TYPES_def)
  then show ?thesis
  proof cases
    case 1
    with assms(2) show ?thesis
      by (auto simp: DDAY_PROGRAM_def dday_params_def accepts_simps accepts_date
          dest: accepts_label_trimmed)
  next
    case 2
    from assms(2) obtain l w m where v: "v = [(''label'', JStr l), (''date'', JStr w),
          (''message'', case m of None \<Rightarrow> JNull | Some s \<Rightarrow> JStr s)]"
        and "accepts (labelSchema ''The exam name'') (Some (JStr l)) l" "iso_date w"
          "accepts cheer_message (Some (case m of None \<Rightarrow> JNull | Some s \<Rightarrow> JStr s)) m"
      unfolding 2 EXAM_CHEER_PROGRAM_def exam_cheer_params_def
      by (simp add: accepts_simps accepts_date) (blast dest: accepts_label_trimmed accepts_cheer)
    then show ?thesis
      unfolding 2 EXAM_CHEER_PROGRAM_def exam_cheer_params_def v
      by (simp add: accepts_simps accepts_date) blast
  next
    case 3
    with assms(2) show ?thesis
      by (auto simp: DAILY_PILLAR_PROGRAM_def daily_pillar_params_def accepts_simps)
  next
    case 4
    with assms(2) show ?thesis
      by (auto simp: CLICK_BATTLE_PROGRAM_def click_battle_params_def accepts_simps accepts_rounds)
  qed
qed

text \<open>
  settings a kind accepted once are accepted again as they were stored and mean the same, so an
  operated content that was saved is never reported as not fitting its kind.
\<close>

theorem program_params_roundtrip:
  assumes "programTypeOf type = Some d" and "parse (pt_params d) j = Inr v"
    and "p_type p = type" and "p_params p = v"
  shows "parse (pt_params d) (JObj v) = Inr v \<and> parsedOf p = Some (d, v)
     \<and> map_option ds_state (dataStatusOf p t) \<noteq> Some FAILING"
proof -
  have d: "d \<in> set PROGRAM_TYPES" using programTypeOf_Some[OF assms(1)] by simp
  have v: "parse (pt_params d) (JObj v) = Inr v"
    using params_stable[OF d] assms(2) by (simp add: parse_Inr)
  with assms have p: "parsedOf p = Some (d, v)" by (simp add: parsedOf_def)
  have "map_option (\<lambda>f. ds_state (f v t)) (pt_dataStatus d) \<noteq> Some FAILING"
    using d unfolding PROGRAM_TYPES_def by (auto simp: program_type_defs ddayStatus_def split: option.splits if_splits)
  with p v show ?thesis by (simp add: dataStatusOf_def option.map_comp comp_def)
qed

definition sample_battle :: program where
  "sample_battle = \<lparr>p_id = ''prg_1'', p_type = ''CLICK_BATTLE'', p_name = codes ''battle'',
     p_params = [(''rounds'', JNum 3)], p_createdAt = 0, p_updatedAt = 0\<rparr>"

lemma sample_battle_parses:
  "parse (pt_params CLICK_BATTLE_PROGRAM) (JObj [(''rounds'', JNum 3)]) = Inr (p_params sample_battle)"
  by (simp add: sample_battle_def CLICK_BATTLE_PROGRAM_def click_battle_params_def accepts_simps accepts_rounds)

theorem program_params_roundtrip_witness:
  "parse (pt_params CLICK_BATTLE_PROGRAM) (JObj (p_params sample_battle)) = Inr (p_params sample_battle)
   \<and> parsedOf sample_battle = Some (CLICK_BATTLE_PROGRAM, p_params sample_battle)
   \<and> map_option ds_state (dataStatusOf sample_battle 0) \<noteq> Some FAILING"
  by (rule program_params_roundtrip[OF _ sample_battle_parses])
     (simp_all add: sample_battle_def programTypeOf_def PROGRAM_TYPES_def program_type_defs)

end
