(* ===== verification/Lineup_Schema.thy ===== *)
theory Lineup_Schema
  imports Program_Types
begin

text \<open>
  The shapes of a group's lineup and of a device's overrides, \<open>src/src/lineups/lineup-schema.ts\<close>:
  the constants and the schemas that check both request bodies and what goes into the \<open>jsonb\<close>
  columns, and what every accepted value meets. The wording of the errors is rendered in English.
\<close>

section \<open>Constants\<close>

definition ROTATION_SECONDS_RANGE :: "int \<times> int" where "ROTATION_SECONDS_RANGE = (5, 60)"
definition REFRESH_SECONDS_RANGE :: "int \<times> int" where "REFRESH_SECONDS_RANGE = (15, 300)"
definition BLOCK_DURATION_RANGE :: "int \<times> int" where "BLOCK_DURATION_RANGE = (5, 300)"
definition PER_VISIT_RANGE :: "int \<times> int" where "PER_VISIT_RANGE = (1, 10)"
definition MAX_BLOCKS :: nat where "MAX_BLOCKS = 30"
definition MAX_INFO_BAR_ENTRIES :: nat where "MAX_INFO_BAR_ENTRIES = 4"
definition MAX_QUIET_HOURS :: nat where "MAX_QUIET_HOURS = 4"
definition MAX_SCHEDULE_WINDOWS :: nat where "MAX_SCHEDULE_WINDOWS = 8"

fun DEFAULT_PER_VISIT :: "submission_type \<Rightarrow> int" where
  "DEFAULT_PER_VISIT POSTER = 3"
| "DEFAULT_PER_VISIT EVENT_BANNER = 1"
| "DEFAULT_PER_VISIT STORY = 2"

definition DEFAULT_LINEUP_SETTINGS :: lineup_settings where
  "DEFAULT_LINEUP_SETTINGS =
     \<lparr>ls_posterLayout = LAYOUT_WALL, ls_rotationSeconds = 10, ls_refreshAfterSeconds = 60,
      ls_infoBar = [], ls_quietHours = []\<rparr>"

definition EMPTY_SETTINGS :: partial_settings where
  "EMPTY_SETTINGS = \<lparr>ps_posterLayout = None, ps_rotationSeconds = None, ps_refreshAfterSeconds = None,
     ps_infoBar = None, ps_quietHours = None\<rparr>"

definition EMPTY_OVERRIDES :: device_overrides where
  "EMPTY_OVERRIDES = \<lparr>do_settings = EMPTY_SETTINGS, do_blocks = []\<rparr>"

section \<open>Scalars\<close>

definition within :: "int \<times> int \<Rightarrow> int \<Rightarrow> bool" where
  "within r n \<longleftrightarrow> fst r \<le> n \<and> n \<le> snd r"

definition intIn :: "int \<times> int \<Rightarrow> string \<Rightarrow> int schema" where
  "intIn r subject =
     z_check (\<lambda>n. n \<le> snd r) (subject @ '' is too large'')
       (z_check (\<lambda>n. fst r \<le> n) (subject @ '' is too small'') (z_int (subject @ '' must be an integer'')))"

text \<open>\<open>HH:mm\<close>.\<close>

fun clock_ok :: "utext \<Rightarrow> bool" where
  "clock_ok [a, b, c, d, e] \<longleftrightarrow>
     (((a = 48 \<or> a = 49) \<and> is_digit b) \<or> (a = 50 \<and> 48 \<le> b \<and> b \<le> 51))
     \<and> c = 58 \<and> 48 \<le> d \<and> d \<le> 53 \<and> is_digit e"
| "clock_ok _ \<longleftrightarrow> False"

definition clockSchema :: "string schema" where
  "clockSchema = z_map ascii (z_check clock_ok ''The time must be HH:mm'' (z_string ''The time must be HH:mm''))"

definition timeRangeSchema :: "time_range schema" where
  "timeRangeSchema =
     z_refine [''end''] (\<lambda>r. tr_start r \<noteq> tr_end r) ''Start and end must differ''
       (strictObject [''start'', ''end'']
          (z_prop (z_prop (no_prop (\<lambda>a b. \<lparr>tr_start = a, tr_end = b\<rparr>)) ''start'' clockSchema) ''end'' clockSchema)
          ''The time range is not valid'')"

definition programIdSchema :: "slug schema" where
  "programIdSchema =
     z_map ascii (z_check (\<lambda>s. js_length s \<le> 64) ''Choose a program''
       (z_check (\<lambda>s. 1 \<le> js_length s) ''Choose a program'' (z_string ''Choose a program'')))"

definition block_id_char :: "nat \<Rightarrow> bool" where
  "block_id_char c \<longleftrightarrow> (97 \<le> c \<and> c \<le> 122) \<or> is_digit c \<or> c = 95"

definition block_id_ok :: "utext \<Rightarrow> bool" where
  "block_id_ok s \<longleftrightarrow> take 4 s = codes ''blk_'' \<and> 1 \<le> length (drop 4 s) \<and> length (drop 4 s) \<le> 40
     \<and> list_all block_id_char (drop 4 s)"

definition blockIdSchema :: "string schema" where
  "blockIdSchema = z_map ascii (z_check block_id_ok ''The block id is not valid'' (z_string ''The block id is not valid''))"

definition durationSecondsSchema :: "int schema" where
  "durationSecondsSchema = intIn BLOCK_DURATION_RANGE ''The length of the block''"

definition enabledSchema :: "bool schema" where
  "enabledSchema = z_boolean ''enabled is not valid''"

section \<open>Settings\<close>

definition infoBarEntrySchema :: "info_bar_entry schema" where
  "infoBarEntrySchema = strictObject [''item'', ''programId'']
     (z_prop (z_prop (no_prop (\<lambda>i p. \<lparr>ib_item = i, ib_programId = p\<rparr>))
        ''item'' (z_enum (map (\<lambda>i. (i, i)) INFO_BAR_ITEMS) ''The item is not one of the info bar items''))
        ''programId'' programIdSchema)
     ''The info bar entry is not valid''"

definition posterLayoutSchema :: "poster_layout schema" where
  "posterLayoutSchema = z_enum [(''WALL'', LAYOUT_WALL), (''STRIP'', LAYOUT_STRIP)] ''The poster layout is not valid''"

definition rotationSecondsSchema :: "int schema" where
  "rotationSecondsSchema = intIn ROTATION_SECONDS_RANGE ''The rotation interval''"

definition refreshAfterSecondsSchema :: "int schema" where
  "refreshAfterSecondsSchema = intIn REFRESH_SECONDS_RANGE ''The refresh interval''"

definition infoBarSchema :: "info_bar_entry list schema" where
  "infoBarSchema =
     z_check (\<lambda>es. distinct (map ib_item es)) ''An info bar item can be used once''
       (z_items (\<lambda>n. n \<le> MAX_INFO_BAR_ENTRIES) ''The info bar has at most 4 entries''
         (z_array infoBarEntrySchema ''The info bar is not valid''))"

definition quietHoursSchema :: "time_range list schema" where
  "quietHoursSchema =
     z_items (\<lambda>n. n \<le> MAX_QUIET_HOURS) ''At most 4 quiet hours''
       (z_array timeRangeSchema ''The quiet hours are not valid'')"

abbreviation settings_keys :: "string list" where
  "settings_keys \<equiv> [''posterLayout'', ''rotationSeconds'', ''refreshAfterSeconds'', ''infoBar'', ''quietHours'']"

definition lineupSettingsSchema :: "lineup_settings schema" where
  "lineupSettingsSchema = strictObject settings_keys
     (z_prop (z_prop (z_prop (z_prop (z_prop
        (no_prop (\<lambda>l r f i q. \<lparr>ls_posterLayout = l, ls_rotationSeconds = r, ls_refreshAfterSeconds = f,
                               ls_infoBar = i, ls_quietHours = q\<rparr>))
        ''posterLayout'' posterLayoutSchema)
        ''rotationSeconds'' rotationSecondsSchema)
        ''refreshAfterSeconds'' refreshAfterSecondsSchema)
        ''infoBar'' infoBarSchema)
        ''quietHours'' quietHoursSchema)
     ''The lineup settings are not valid''"

definition partialSettingsSchema :: "partial_settings schema" where
  "partialSettingsSchema = strictObject settings_keys
     (z_prop (z_prop (z_prop (z_prop (z_prop
        (no_prop (\<lambda>l r f i q. \<lparr>ps_posterLayout = l, ps_rotationSeconds = r, ps_refreshAfterSeconds = f,
                               ps_infoBar = i, ps_quietHours = q\<rparr>))
        ''posterLayout'' (z_optional posterLayoutSchema))
        ''rotationSeconds'' (z_optional rotationSecondsSchema))
        ''refreshAfterSeconds'' (z_optional refreshAfterSecondsSchema))
        ''infoBar'' (z_optional infoBarSchema))
        ''quietHours'' (z_optional quietHoursSchema))
     ''The lineup settings are not valid''"

section \<open>Schedules\<close>

definition windowSchema :: "schedule_window schema" where
  "windowSchema =
     z_refine [''end''] (\<lambda>w. tr_start (sw_range w) \<noteq> tr_end (sw_range w)) ''Start and end must differ''
       (strictObject [''days'', ''start'', ''end'']
          (z_prop (z_prop (z_prop
             (no_prop (\<lambda>d a b. \<lparr>sw_days = d, sw_range = \<lparr>tr_start = a, tr_end = b\<rparr>\<rparr>))
             ''days'' (z_check distinct ''A day can be chosen once''
                (z_items (\<lambda>n. 1 \<le> n) ''Choose the days''
                  (z_array (z_check (\<lambda>n. n \<le> 7) ''A day is 1 to 7''
                      (z_check (\<lambda>n. 1 \<le> n) ''A day is 1 to 7'' (z_int ''A day is 1 to 7''))) ''A day is 1 to 7''))))
             ''start'' clockSchema)
             ''end'' clockSchema)
          ''The window is not valid'')"

definition datetimeSchema :: "formats \<Rightarrow> string \<Rightarrow> utext schema" where
  "datetimeSchema fm m = z_check (f_datetime fm) m (z_string m)"

definition date_order :: "formats \<Rightarrow> utext \<Rightarrow> utext \<Rightarrow> bool" where
  "date_order fm a b = (case (Date_parse fm a, Date_parse fm b) of (Some x, Some y) \<Rightarrow> x < y | _ \<Rightarrow> False)"

text \<open>The range keeps the times; when one of its texts is no date, the value is not accepted.\<close>

definition date_range :: "formats \<Rightarrow> utext \<times> utext \<Rightarrow> block_schedule" where
  "date_range fm r = (case (Date_parse fm (fst r), Date_parse fm (snd r)) of
      (Some x, Some y) \<Rightarrow> DATE_RANGE x y | _ \<Rightarrow> ALWAYS)"

definition blockScheduleSchema :: "formats \<Rightarrow> block_schedule schema" where
  "blockScheduleSchema fm = z_union ''type''
     [(''ALWAYS'', strictObject [''type'']
         (z_prop (no_prop (\<lambda>_. ALWAYS)) ''type'' (z_enum [(''ALWAYS'', ())] ''The schedule is not valid''))
         ''The schedule is not valid''),
      (''WINDOWS'', strictObject [''type'', ''windows'']
         (z_prop (z_prop (no_prop (\<lambda>_ w. WINDOWS w))
            ''type'' (z_enum [(''WINDOWS'', ())] ''The schedule is not valid''))
            ''windows'' (z_items (\<lambda>n. n \<le> MAX_SCHEDULE_WINDOWS) ''At most 8 windows''
               (z_items (\<lambda>n. 1 \<le> n) ''Add a window'' (z_array windowSchema ''Add a window''))))
         ''The schedule is not valid''),
      (''DATE_RANGE'', z_map (date_range fm)
         (z_refine [''to''] (\<lambda>r. date_order fm (fst r) (snd r)) ''The end must be after the start''
           (strictObject [''type'', ''from'', ''to'']
             (z_prop (z_prop (z_prop (no_prop (\<lambda>_ a b. (a, b)))
                ''type'' (z_enum [(''DATE_RANGE'', ())] ''The schedule is not valid''))
                ''from'' (datetimeSchema fm ''The start is not valid''))
                ''to'' (datetimeSchema fm ''The end is not valid''))
             ''The schedule is not valid'')))]
     ''The schedule kind is not valid'' ''The schedule kind is not valid''"

section \<open>Blocks\<close>

text \<open>A block of the input: what it shows, and for an existing block its id.\<close>

datatype block_content = SubmissionsBlock submission_type "int option" | ProgramBlock slug

record block_input =
  bi_id :: "string option"
  bi_durationSeconds :: int
  bi_schedule :: block_schedule
  bi_enabled :: bool
  bi_content :: block_content

definition submissionTypeSchema :: "submission_type schema" where
  "submissionTypeSchema =
     z_enum [(''POSTER'', POSTER), (''EVENT_BANNER'', EVENT_BANNER), (''STORY'', STORY)] ''The submission type is not valid''"

definition blockInputSchema :: "formats \<Rightarrow> block_input schema" where
  "blockInputSchema fm = z_union ''source''
     [(''SUBMISSIONS'', strictObject [''id'', ''durationSeconds'', ''schedule'', ''enabled'', ''source'',
                                    ''submissionType'', ''perVisit'', ''programId'']
         (z_prop (z_prop (z_prop (z_prop (z_prop (z_prop (z_prop (z_prop
            (no_prop (\<lambda>i d s e _ t n _. \<lparr>bi_id = i, bi_durationSeconds = d, bi_schedule = s, bi_enabled = e,
                                         bi_content = SubmissionsBlock t n\<rparr>))
            ''id'' (z_optional blockIdSchema))
            ''durationSeconds'' durationSecondsSchema)
            ''schedule'' (z_default ALWAYS (blockScheduleSchema fm)))
            ''enabled'' (z_default True enabledSchema))
            ''source'' (z_enum [(''SUBMISSIONS'', ())] ''The block is not valid''))
            ''submissionType'' submissionTypeSchema)
            ''perVisit'' (z_nullish (intIn PER_VISIT_RANGE ''The number shown at once'')))
            ''programId'' (z_optional (z_null ''A SUBMISSIONS block has no programId'')))
         ''The block is not valid''),
      (''PROGRAM'', strictObject [''id'', ''durationSeconds'', ''schedule'', ''enabled'', ''source'',
                                ''programId'', ''submissionType'', ''perVisit'']
         (z_prop (z_prop (z_prop (z_prop (z_prop (z_prop (z_prop (z_prop
            (no_prop (\<lambda>i d s e _ p _ _. \<lparr>bi_id = i, bi_durationSeconds = d, bi_schedule = s, bi_enabled = e,
                                         bi_content = ProgramBlock p\<rparr>))
            ''id'' (z_optional blockIdSchema))
            ''durationSeconds'' durationSecondsSchema)
            ''schedule'' (z_default ALWAYS (blockScheduleSchema fm)))
            ''enabled'' (z_default True enabledSchema))
            ''source'' (z_enum [(''PROGRAM'', ())] ''The block is not valid''))
            ''programId'' programIdSchema)
            ''submissionType'' (z_optional (z_null ''A PROGRAM block has no submissionType'')))
            ''perVisit'' (z_optional (z_null ''A PROGRAM block has no perVisit'')))
         ''The block is not valid'')]
     ''The block kind is not valid'' ''The block kind is not valid''"

record lineup_input =
  li_version :: int
  li_settings :: lineup_settings
  li_blocks :: "block_input list"

definition lineupInputSchema :: "formats \<Rightarrow> lineup_input schema" where
  "lineupInputSchema fm = strictObject [''version'', ''settings'', ''blocks'']
     (z_prop (z_prop (z_prop (no_prop (\<lambda>v s b. \<lparr>li_version = v, li_settings = s, li_blocks = b\<rparr>))
        ''version'' (z_check (\<lambda>n. 1 \<le> n) ''Send the version'' (z_int ''Send the version'')))
        ''settings'' lineupSettingsSchema)
        ''blocks'' (z_items (\<lambda>n. n \<le> MAX_BLOCKS) ''At most 30 blocks''
           (z_array (blockInputSchema fm) ''The blocks are not valid'')))
     ''The lineup is not valid''"

section \<open>Overrides\<close>

definition blockChangeSchema :: "block_change schema" where
  "blockChangeSchema = strictObject [''enabled'', ''durationSeconds'']
     (z_prop (z_prop (no_prop (\<lambda>e d. \<lparr>bc_enabled = e, bc_durationSeconds = d\<rparr>))
        ''enabled'' (z_optional enabledSchema))
        ''durationSeconds'' (z_optional durationSecondsSchema))
     ''The block override is not valid''"

definition deviceOverridesSchema :: "device_overrides schema" where
  "deviceOverridesSchema = strictObject [''settings'', ''blocks'']
     (z_prop (z_prop (no_prop (\<lambda>s b. \<lparr>do_settings = s, do_blocks = b\<rparr>))
        ''settings'' (z_default EMPTY_SETTINGS partialSettingsSchema))
        ''blocks'' (z_default [] (z_record (\<lambda>k. block_id_ok (codes k)) blockChangeSchema
           ''The block id is not valid'' ''The block override is not valid'')))
     ''The device overrides are not valid''"

section \<open>What an accepted value meets\<close>

definition range_ok :: "time_range \<Rightarrow> bool" where
  "range_ok r \<longleftrightarrow> clock_ok (codes (tr_start r)) \<and> clock_ok (codes (tr_end r)) \<and> tr_start r \<noteq> tr_end r"

definition info_bar_ok :: "info_bar_entry list \<Rightarrow> bool" where
  "info_bar_ok es \<longleftrightarrow> length es \<le> MAX_INFO_BAR_ENTRIES \<and> distinct (map ib_item es)
     \<and> set (map ib_item es) \<subseteq> set INFO_BAR_ITEMS"

definition quiet_ok :: "time_range list \<Rightarrow> bool" where
  "quiet_ok rs \<longleftrightarrow> length rs \<le> MAX_QUIET_HOURS \<and> list_all range_ok rs"

definition settings_ok :: "lineup_settings \<Rightarrow> bool" where
  "settings_ok s \<longleftrightarrow> within ROTATION_SECONDS_RANGE (ls_rotationSeconds s)
     \<and> within REFRESH_SECONDS_RANGE (ls_refreshAfterSeconds s)
     \<and> info_bar_ok (ls_infoBar s) \<and> quiet_ok (ls_quietHours s)"

definition partial_settings_ok :: "partial_settings \<Rightarrow> bool" where
  "partial_settings_ok s \<longleftrightarrow> pred_option (within ROTATION_SECONDS_RANGE) (ps_rotationSeconds s)
     \<and> pred_option (within REFRESH_SECONDS_RANGE) (ps_refreshAfterSeconds s)
     \<and> pred_option info_bar_ok (ps_infoBar s) \<and> pred_option quiet_ok (ps_quietHours s)"

definition overrides_ok :: "device_overrides \<Rightarrow> bool" where
  "overrides_ok o' \<longleftrightarrow> partial_settings_ok (do_settings o')
     \<and> list_all (\<lambda>(k, c). block_id_ok (codes k) \<and> pred_option (within BLOCK_DURATION_RANGE) (bc_durationSeconds c))
         (do_blocks o')"

definition block_input_ok :: "block_input \<Rightarrow> bool" where
  "block_input_ok b \<longleftrightarrow> within BLOCK_DURATION_RANGE (bi_durationSeconds b)
     \<and> (case bi_content b of SubmissionsBlock _ n \<Rightarrow> pred_option (within PER_VISIT_RANGE) n | ProgramBlock _ \<Rightarrow> True)"

definition lineup_input_ok :: "lineup_input \<Rightarrow> bool" where
  "lineup_input_ok l \<longleftrightarrow> 1 \<le> li_version l \<and> settings_ok (li_settings l)
     \<and> length (li_blocks l) \<le> MAX_BLOCKS \<and> list_all block_input_ok (li_blocks l)"

lemma accepts_intIn: "accepts (intIn r m) x v \<Longrightarrow> within r v"
  by (simp add: intIn_def within_def accepts_simps)

lemma codes_ascii: "list_all (\<lambda>c. c < 128) s \<Longrightarrow> codes (ascii s) = s"
  by (induction s) (simp_all add: codes_def ascii_def)

lemma clock_ok_ascii: "clock_ok s \<Longrightarrow> clock_ok (codes (ascii s))"
  by (subst codes_ascii) (auto simp: is_digit_def elim: clock_ok.elims(2))

lemma accepts_clock: "accepts clockSchema x v \<Longrightarrow> clock_ok (codes v)"
  by (auto simp: clockSchema_def accepts_simps clock_ok_ascii)

lemma accepts_timeRange: "accepts timeRangeSchema x v \<Longrightarrow> range_ok v"
  by (auto simp: timeRangeSchema_def accepts_simps range_ok_def dest: accepts_clock)

lemma accepts_infoBarEntry: "accepts infoBarEntrySchema x v \<Longrightarrow> ib_item v \<in> set INFO_BAR_ITEMS"
  by (auto simp: infoBarEntrySchema_def accepts_simps dest!: accepts_enum)

lemma accepts_items_array:
  assumes "accepts (z_items P m (z_array s m')) x vs"
  shows "P (length vs)"
  using assms by (auto simp: accepts_simps list_all2_lengthD)

lemma accepts_infoBar: "accepts infoBarSchema x v \<Longrightarrow> info_bar_ok v"
  unfolding infoBarSchema_def info_bar_ok_def accepts_refine
  by (auto dest: accepts_items_array)
     (auto simp: accepts_items dest!: accepts_array_all[where P = "\<lambda>e. ib_item e \<in> set INFO_BAR_ITEMS", OF _ accepts_infoBarEntry])

lemma accepts_quietHours: "accepts quietHoursSchema x v \<Longrightarrow> quiet_ok v"
  unfolding quietHoursSchema_def quiet_ok_def
  by (frule accepts_items_array)
     (auto simp: accepts_items list_all_iff dest!: accepts_array_all[where P = range_ok, OF _ accepts_timeRange])

lemmas accepts_settings_fields = accepts_intIn accepts_infoBar accepts_quietHours

lemma accepts_settings: "accepts lineupSettingsSchema x v \<Longrightarrow> settings_ok v"
  by (auto simp: lineupSettingsSchema_def rotationSecondsSchema_def refreshAfterSecondsSchema_def settings_ok_def
      accepts_strictObject shape_sat_prop shape_sat_none dest: accepts_settings_fields)

lemma accepts_partial_settings: "accepts partialSettingsSchema x v \<Longrightarrow> partial_settings_ok v"
  by (auto simp: partialSettingsSchema_def rotationSecondsSchema_def refreshAfterSecondsSchema_def
      partial_settings_ok_def accepts_strictObject shape_sat_prop shape_sat_none accepts_optional
      dest: accepts_settings_fields)

lemma accepts_blockChange: "accepts blockChangeSchema x v \<Longrightarrow> pred_option (within BLOCK_DURATION_RANGE) (bc_durationSeconds v)"
  by (auto simp: blockChangeSchema_def durationSecondsSchema_def accepts_strictObject shape_sat_prop shape_sat_none
      accepts_optional dest: accepts_intIn)

lemma EMPTY_SETTINGS_ok [simp]: "partial_settings_ok EMPTY_SETTINGS"
  by (simp add: partial_settings_ok_def EMPTY_SETTINGS_def)

lemma accepts_overrides: "accepts deviceOverridesSchema x v \<Longrightarrow> overrides_ok v"
  by (auto simp: deviceOverridesSchema_def overrides_ok_def list_all_iff accepts_strictObject shape_sat_prop
      shape_sat_none accepts_default dest!: accepts_record accepts_partial_settings)
     (auto dest: accepts_blockChange)

lemma accepts_blockInput: "accepts (blockInputSchema fm) x v \<Longrightarrow> block_input_ok v"
  unfolding blockInputSchema_def
  by (drule accepts_union)
     (auto simp: block_input_ok_def durationSecondsSchema_def accepts_strictObject shape_sat_prop shape_sat_none
      accepts_nullish dest!: accepts_intIn)

lemma accepts_lineupInput: "accepts (lineupInputSchema fm) x v \<Longrightarrow> lineup_input_ok v"
  unfolding lineupInputSchema_def accepts_strictObject shape_sat_prop shape_sat_none lineup_input_ok_def
  by (auto simp: accepts_refine list_all_iff dest: accepts_settings accepts_items_array)
     (auto simp: accepts_items dest!: accepts_array_all[where P = block_input_ok, OF _ accepts_blockInput])

end
