(* ===== verification/Lineups.thy ===== *)
theory Lineups
  imports Lineup_Schema Auth
begin

text \<open>
  The lineup of a group and what a device really follows: \<open>src/src/lineups/lineups.service.ts\<close>,
  \<open>resolve-lineup.ts\<close>, \<open>quiet-hours.ts\<close>, and the changes of \<open>src/src/realtime/signage-changes.ts\<close>
  a handler announces after its commit (its result lists them). Block ids are drawn at random: the
  argument \<open>fresh\<close> gives them by position.
\<close>

section \<open>Announced changes\<close>

datatype signage_change = ChangeAll | ChangeGroup slug | ChangeDevice uuid

section \<open>What a device follows\<close>

record lineup_block_view =
  bv_id :: string
  bv_source :: lineup_block_source
  bv_submissionType :: "submission_type option"
  bv_programId :: "slug option"
  bv_durationSeconds :: int
  bv_perVisit :: "int option"
  bv_schedule :: block_schedule
  bv_enabled :: bool

record lineup =
  ln_settings :: lineup_settings
  ln_blocks :: "lineup_block_view list"

definition or_else :: "'a option \<Rightarrow> 'a \<Rightarrow> 'a" where
  "or_else x d = (case x of Some v \<Rightarrow> v | None \<Rightarrow> d)"

definition resolveSettings :: "lineup_settings \<Rightarrow> device_overrides \<Rightarrow> lineup_settings" where
  "resolveSettings s over =
     (let p = do_settings over
      in \<lparr>ls_posterLayout = or_else (ps_posterLayout p) (ls_posterLayout s),
          ls_rotationSeconds = or_else (ps_rotationSeconds p) (ls_rotationSeconds s),
          ls_refreshAfterSeconds = or_else (ps_refreshAfterSeconds p) (ls_refreshAfterSeconds s),
          ls_infoBar = or_else (ps_infoBar p) (ls_infoBar s),
          ls_quietHours = or_else (ps_quietHours p) (ls_quietHours s)\<rparr>)"

definition apply_change :: "block_change option \<Rightarrow> lineup_block_view \<Rightarrow> lineup_block_view" where
  "apply_change c b = (case c of
      None \<Rightarrow> b
    | Some ch \<Rightarrow> b\<lparr>bv_enabled := or_else (bc_enabled ch) (bv_enabled b),
                  bv_durationSeconds := or_else (bc_durationSeconds ch) (bv_durationSeconds b)\<rparr>)"

definition resolveLineup :: "lineup \<Rightarrow> device_overrides \<Rightarrow> lineup" where
  "resolveLineup l over =
     \<lparr>ln_settings = resolveSettings (ln_settings l) over,
      ln_blocks = map (\<lambda>b. apply_change (map_of (do_blocks over) (bv_id b)) b) (ln_blocks l)\<rparr>"

definition changes_nothing :: "block_change \<Rightarrow> bool" where
  "changes_nothing c \<longleftrightarrow> bc_enabled c = None \<and> bc_durationSeconds c = None"

definition pruneOverrides :: "device_overrides \<Rightarrow> string set \<Rightarrow> device_overrides" where
  "pruneOverrides over blockIds =
     \<lparr>do_settings = do_settings over,
      do_blocks = filter (\<lambda>(k, c). k \<in> blockIds \<and> \<not> changes_nothing c) (do_blocks over)\<rparr>"

section \<open>Quiet hours\<close>

text \<open>\<open>split(':').map(Number)\<close> of a clock; \<open>None\<close> is \<open>NaN\<close>, which no comparison meets.\<close>

fun minutesOf :: "string \<Rightarrow> int option" where
  "minutesOf [a, b, c, d, e] =
     (if c = CHR '':'' then Option.bind (num2 a b) (\<lambda>h. map_option (\<lambda>m. h * 60 + m) (num2 d e)) else None)"
| "minutesOf _ = None"

definition js_less :: "int option \<Rightarrow> int option \<Rightarrow> bool" where
  "js_less x y = (case (x, y) of (Some a, Some b) \<Rightarrow> a < b | _ \<Rightarrow> False)"

definition js_leq :: "int option \<Rightarrow> int option \<Rightarrow> bool" where
  "js_leq x y = (case (x, y) of (Some a, Some b) \<Rightarrow> a \<le> b | _ \<Rightarrow> False)"

definition isQuietAt :: "time_range list \<Rightarrow> time \<Rightarrow> bool" where
  "isQuietAt quietHours t =
     (let minute = Some (seoulMinuteOfDay t)
      in list_ex (\<lambda>range.
           let start = minutesOf (tr_start range); stop = minutesOf (tr_end range)
           in if js_less start stop then js_leq start minute \<and> js_less minute stop
              else js_leq start minute \<or> js_less minute stop) quietHours)"

section \<open>Reading a lineup\<close>

record editor =
  ed_id :: uuid
  ed_name :: utext

record lineup_dto =
  ld_groupId :: slug
  ld_version :: int
  ld_settings :: lineup_settings
  ld_blocks :: "lineup_block_view list"
  ld_updatedAt :: time
  ld_updatedBy :: "editor option"

definition lineup_notFound :: exc where
  "lineup_notFound = app_error 404 NOT_FOUND ''Target group not found''"

definition lineup_toView :: "lineup_block \<Rightarrow> lineup_block_view" where
  "lineup_toView r =
     \<lparr>bv_id = lb_id r, bv_source = lb_source r, bv_submissionType = lb_submissionType r,
      bv_programId = lb_programId r, bv_durationSeconds = lb_durationSeconds r,
      bv_perVisit = lb_perVisit r, bv_schedule = lb_schedule r, bv_enabled = lb_enabled r\<rparr>"

definition blocksOf :: "database \<Rightarrow> slug \<Rightarrow> lineup_block_view list" where
  "blocksOf db groupId =
     map lineup_toView (order_asc lb_position (select (\<lambda>b. lb_groupId b = groupId) (t_lineupBlocks db)))"

definition blockIdsOf :: "database \<Rightarrow> slug \<Rightarrow> string set" where
  "blockIdsOf db groupId = set (map lb_id (select (\<lambda>b. lb_groupId b = groupId) (t_lineupBlocks db)))"

definition editorOf :: "database \<Rightarrow> uuid option \<Rightarrow> editor option" where
  "editorOf db i = Option.bind i (\<lambda>i. map_option (\<lambda>u. \<lparr>ed_id = u_id u, ed_name = u_name u\<rparr>)
     (first_row (\<lambda>u. u_id u = i) (t_users db)))"

definition lineup_get :: "slug \<Rightarrow> database \<Rightarrow> lineup_dto res" where
  "lineup_get groupId db =
     bindE (requireE (first_row (\<lambda>g. gl_groupId g = groupId) (t_groupLineups db)) lineup_notFound) (\<lambda>row.
       Inr \<lparr>ld_groupId = groupId, ld_version = gl_version row, ld_settings = gl_settings row,
            ld_blocks = blocksOf db groupId, ld_updatedAt = gl_updatedAt row,
            ld_updatedBy = editorOf db (gl_updatedBy row)\<rparr>)"

text \<open>The settings of a group; \<open>settingsOf\<close> reads them for many groups at once.\<close>

definition settingsOf :: "database \<Rightarrow> slug \<Rightarrow> lineup_settings option" where
  "settingsOf db groupId = map_option gl_settings (first_row (\<lambda>g. gl_groupId g = groupId) (t_groupLineups db))"

definition effectiveSettings :: "device \<Rightarrow> (slug \<Rightarrow> lineup_settings option) \<Rightarrow> lineup_settings" where
  "effectiveSettings d settingsByGroup =
     resolveSettings (or_else (settingsByGroup (d_programGroupId d)) DEFAULT_LINEUP_SETTINGS) (d_lineupOverrides d)"

definition effectiveSettingsOf :: "device \<Rightarrow> database \<Rightarrow> lineup_settings" where
  "effectiveSettingsOf d db = effectiveSettings d (settingsOf db)"

definition effectiveLineupOf :: "device \<Rightarrow> database \<Rightarrow> lineup" where
  "effectiveLineupOf d db =
     resolveLineup
       \<lparr>ln_settings = or_else (settingsOf db (d_programGroupId d)) DEFAULT_LINEUP_SETTINGS,
        ln_blocks = blocksOf db (d_programGroupId d)\<rparr>
       (d_lineupOverrides d)"

section \<open>References to programs\<close>

record program_reference =
  pr_path :: string
  pr_programId :: slug
  pr_infoBarItem :: "string option"

definition infoBarReferences :: "info_bar_entry list option \<Rightarrow> string \<Rightarrow> program_reference list" where
  "infoBarReferences infoBar prefix =
     map (\<lambda>(i, e). \<lparr>pr_path = prefix @ ''.infoBar.'' @ nat_text i @ ''.programId'',
                     pr_programId = ib_programId e, pr_infoBarItem = Some (ib_item e)\<rparr>)
       (enumerate 0 (or_else infoBar []))"

definition blockReferences :: "block_input list \<Rightarrow> program_reference list" where
  "blockReferences blocks =
     concat (map (\<lambda>(i, b). case bi_content b of
         ProgramBlock p \<Rightarrow> [\<lparr>pr_path = ''blocks.'' @ nat_text i @ ''.programId'', pr_programId = p,
                            pr_infoBarItem = None\<rparr>]
       | SubmissionsBlock _ _ \<Rightarrow> []) (enumerate 0 blocks))"

definition check_reference :: "database \<Rightarrow> program_reference \<Rightarrow> msg option" where
  "check_reference db ref =
     (case first_row (\<lambda>p. p_id p = pr_programId ref) (t_programs db) of
        None \<Rightarrow> Some (Msg ''There is no such program'')
      | Some p \<Rightarrow>
          (case pr_infoBarItem ref of
             None \<Rightarrow> None
           | Some item \<Rightarrow> if infoBarItemOf (p_type p) \<noteq> Some item
               then Some (MsgOf ''This program does not fit the info bar item'' (JText item)) else None))"

definition checkPrograms :: "database \<Rightarrow> program_reference list \<Rightarrow> field_errors" where
  "checkPrograms db refs =
     fold (\<lambda>ref flds. case check_reference db ref of None \<Rightarrow> flds | Some m \<Rightarrow> AList.update (pr_path ref) m flds) refs []"

definition prepareOverrides :: "slug \<Rightarrow> device_overrides \<Rightarrow> database \<Rightarrow> device_overrides res" where
  "prepareOverrides groupId over db =
     (let flds = checkPrograms db (infoBarReferences (ps_infoBar (do_settings over)) ''overrides.settings'')
      in if flds \<noteq> [] then Inl (validationFailed flds)
         else Inr (pruneOverrides over (blockIdsOf db groupId)))"

section \<open>Replacing a lineup\<close>

definition blockRow :: "slug \<Rightarrow> (nat \<Rightarrow> string) \<Rightarrow> nat \<Rightarrow> block_input \<Rightarrow> lineup_block" where
  "blockRow groupId fresh position b =
     (let (source, stype, perVisit, prog) =
            (case bi_content b of
               SubmissionsBlock t n \<Rightarrow> (SUBMISSIONS, Some t, Some (or_else n (DEFAULT_PER_VISIT t)), None)
             | ProgramBlock p \<Rightarrow> (PROGRAM, None, None, Some p))
      in \<lparr>lb_groupId = groupId, lb_id = or_else (bi_id b) (fresh position), lb_position = int position,
          lb_source = source, lb_submissionType = stype, lb_programId = prog,
          lb_durationSeconds = bi_durationSeconds b, lb_perVisit = perVisit,
          lb_schedule = bi_schedule b, lb_enabled = bi_enabled b\<rparr>)"

text \<open>A sent id is one of the group's and comes once.\<close>

fun blockIdErrors_from :: "nat \<Rightarrow> string set \<Rightarrow> string set \<Rightarrow> block_input list \<Rightarrow> field_errors" where
  "blockIdErrors_from n existing seen [] = []"
| "blockIdErrors_from n existing seen (b # bs) =
     (case bi_id b of
        None \<Rightarrow> blockIdErrors_from (n + 1) existing seen bs
      | Some i \<Rightarrow>
          (if i \<notin> existing then [(''blocks.'' @ nat_text n @ ''.id'', Msg ''The group has no such block; send new blocks without id'')]
           else if i \<in> seen then [(''blocks.'' @ nat_text n @ ''.id'', Msg ''The same block twice'')]
           else []) @ blockIdErrors_from (n + 1) existing (insert i seen) bs)"

definition blockIdErrors :: "block_input list \<Rightarrow> string set \<Rightarrow> field_errors" where
  "blockIdErrors blocks existing = blockIdErrors_from 0 existing {} blocks"

text \<open>
  The primary key, the CHECK constraints and the foreign key of \<open>lineup_blocks\<close>; a violation is an
  internal error.
\<close>

definition constraintError :: "string \<Rightarrow> exc" where
  "constraintError name = Thrown None False (Some (Msg name))"

definition insert_blocks :: "lineup_block list \<Rightarrow> database \<Rightarrow> database res" where
  "insert_blocks rows db =
     (let tab = t_lineupBlocks db @ rows
      in if \<not> distinct (map (\<lambda>b. (lb_groupId b, lb_id b)) tab) then Inl (constraintError ''lineup_blocks_pkey'')
         else if \<not> list_all lineup_block_checks rows then Inl (constraintError ''lineup_blocks_check'')
         else if \<not> list_all (\<lambda>b. pred_option (\<lambda>p. p \<in> p_id ` set (t_programs db)) (lb_programId b)) rows
           then Inl (constraintError ''lineup_blocks_program_fk'')
         else Inr (db\<lparr>t_lineupBlocks := tab\<rparr>))"

definition lineup_changed :: exc where
  "lineup_changed = app_error 409 CONFLICT ''Lineup has been changed''"

definition group_audit :: "uuid \<Rightarrow> audit_action \<Rightarrow> slug \<Rightarrow> json option \<Rightarrow> time \<Rightarrow> audit_entry" where
  "group_audit admin action groupId metadata t =
     \<lparr>ae_actorType = ACTOR_USER, ae_actorId = Some admin, ae_action = action, ae_targetType = TARGET_GROUP,
      ae_targetId = IdSlug groupId, ae_reason = None, ae_metadata = metadata, ae_at = t\<rparr>"

definition replace_fields :: "slug \<Rightarrow> lineup_input \<Rightarrow> database \<Rightarrow> field_errors" where
  "replace_fields groupId input db =
     obj_spread (blockIdErrors (li_blocks input) (blockIdsOf db groupId))
       (checkPrograms db (blockReferences (li_blocks input)
          @ infoBarReferences (Some (ls_infoBar (li_settings input))) ''settings''))"

definition replace_commit ::
    "(nat \<Rightarrow> string) \<Rightarrow> ctx \<Rightarrow> uuid \<Rightarrow> slug \<Rightarrow> lineup_input \<Rightarrow> database \<Rightarrow> database res" where
  "replace_commit fresh c admin groupId input db =
     bindE (requireE (first_row (\<lambda>g. gl_groupId g = groupId) (t_groupLineups db)) lineup_notFound) (\<lambda>cur.
       if gl_version cur \<noteq> li_version input then Inl lineup_changed
       else let flds = replace_fields groupId input db in
         if flds \<noteq> [] then Inl (validationFailed flds)
         else bindE (insert_blocks
               (map (\<lambda>(i, b). blockRow groupId fresh i b) (enumerate 0 (li_blocks input)))
               (db\<lparr>t_lineupBlocks := delete_where (\<lambda>b. lb_groupId b = groupId) (t_lineupBlocks db)\<rparr>)) (\<lambda>db1.
           let version = gl_version cur + 1 in
           Inr (record_audit (currentRequestId c) (uuids c 0)
             (group_audit admin LINEUP_UPDATED groupId
               (Some (JObj [(''version'', JNum version), (''blockCount'', JNum (int (length (li_blocks input))))])) (now c))
             (db1\<lparr>t_groupLineups := update_where (\<lambda>g. gl_groupId g = groupId)
                (\<lambda>g. g\<lparr>gl_version := version, gl_settings := li_settings input, gl_updatedBy := Some admin,
                       gl_updatedAt := now c\<rparr>) (t_groupLineups db1)\<rparr>))))"

definition lineup_replace ::
    "(nat \<Rightarrow> string) \<Rightarrow> ctx \<Rightarrow> auth_user \<Rightarrow> slug \<Rightarrow> lineup_input \<Rightarrow> database
       \<Rightarrow> (database \<times> signage_change list \<times> lineup_dto) res" where
  "lineup_replace fresh c admin groupId input db =
     bindE (replace_commit fresh c (au_id admin) groupId input db) (\<lambda>db'.
     bindE (lineup_get groupId db') (\<lambda>dto. Inr (db', [ChangeGroup groupId], dto)))"

text \<open>A new group gets the default settings and one block of posters.\<close>

definition default_block :: block_input where
  "default_block = \<lparr>bi_id = None, bi_durationSeconds = 60, bi_schedule = ALWAYS, bi_enabled = True,
     bi_content = SubmissionsBlock POSTER None\<rparr>"

definition createDefaultLineup :: "(nat \<Rightarrow> string) \<Rightarrow> slug \<Rightarrow> time \<Rightarrow> database \<Rightarrow> database res" where
  "createDefaultLineup fresh groupId t db =
     insert_blocks [blockRow groupId fresh 0 default_block]
       (db\<lparr>t_groupLineups := insert_row
          \<lparr>gl_groupId = groupId, gl_version = 1, gl_settings = DEFAULT_LINEUP_SETTINGS, gl_updatedBy = None,
           gl_updatedAt = t\<rparr> (t_groupLineups db)\<rparr>)"

end
