(* ===== verification/Programs.thy ===== *)
theory Programs
  imports Lineups
begin

text \<open>
  Operated content: \<open>src/src/programs/programs.service.ts\<close> and \<open>program-references.ts\<close>. A handler
  that reads before its transaction is a \<open>..._prepare\<close> and a \<open>..._commit\<close>. The random id of a new
  program is an argument. Names are ordered by code point.
\<close>

section \<open>What points at a program\<close>

record program_usage =
  usedByGroupIds :: "slug list"
  usedByDeviceIds :: "uuid list"

definition mentions :: "slug \<Rightarrow> info_bar_entry list \<Rightarrow> bool" where
  "mentions i es \<longleftrightarrow> list_ex (\<lambda>e. ib_programId e = i) es"

definition device_infoBar :: "device \<Rightarrow> info_bar_entry list" where
  "device_infoBar d = or_else (ps_infoBar (do_settings (d_lineupOverrides d))) []"

text \<open>\<open>programUsageOf\<close> computes this for each of a list of ids.\<close>

definition programUsage :: "database \<Rightarrow> slug \<Rightarrow> program_usage" where
  "programUsage db i =
     \<lparr>usedByGroupIds = sort (remdups
        (map lb_groupId (select (\<lambda>b. lb_programId b = Some i) (t_lineupBlocks db))
         @ map gl_groupId (select (\<lambda>g. mentions i (ls_infoBar (gl_settings g))) (t_groupLineups db)))),
      usedByDeviceIds = sort (remdups
        (map d_id (select (\<lambda>d. mentions i (device_infoBar d)) (t_devices db))))\<rparr>"

definition isUsed :: "program_usage \<Rightarrow> bool" where
  "isUsed u \<longleftrightarrow> usedByGroupIds u \<noteq> [] \<or> usedByDeviceIds u \<noteq> []"

definition live_program :: "live_main option \<Rightarrow> slug option" where
  "live_program m = (case m of Some (SHOW _ p _) \<Rightarrow> p | _ \<Rightarrow> None)"

definition liveScopesUsing :: "database \<Rightarrow> slug \<Rightarrow> (live_scope \<times> ident) list" where
  "liveScopesUsing db i =
     map (\<lambda>l. (lv_scope l, lv_scopeId l)) (select (\<lambda>l. live_program (lv_main l) = Some i) (t_liveStates db))"

section \<open>Answers\<close>

record program_dto =
  pd_id :: slug
  pd_type :: string
  pd_name :: utext
  pd_params :: "json obj"
  pd_usage :: program_usage
  pd_dataStatus :: "data_status option"
  pd_createdAt :: time
  pd_updatedAt :: time

definition program_notFound :: exc where
  "program_notFound = app_error 404 NOT_FOUND ''Program not found''"

definition program_inUse :: "program_usage \<Rightarrow> exc" where
  "program_inUse u = AppException 409 IN_USE (Msg ''Program is used by lineups or devices'') None
     (Some [(''usedByGroupIds'', JArr (map JText (usedByGroupIds u))),
            (''usedByDeviceIds'', JArr (map JUuid (usedByDeviceIds u)))])"

definition program_toDto :: "program \<Rightarrow> program_usage \<Rightarrow> time \<Rightarrow> program_dto" where
  "program_toDto r usage t =
     \<lparr>pd_id = p_id r, pd_type = p_type r, pd_name = p_name r, pd_params = p_params r, pd_usage = usage,
      pd_dataStatus = dataStatusOf r t, pd_createdAt = p_createdAt r, pd_updatedAt = p_updatedAt r\<rparr>"

definition findProgram :: "slug \<Rightarrow> database \<Rightarrow> program res" where
  "findProgram i db = requireE (first_row (\<lambda>p. p_id p = i) (t_programs db)) program_notFound"

definition list_programs :: "time \<Rightarrow> database \<Rightarrow> program_dto list" where
  "list_programs t db =
     map (\<lambda>r. program_toDto r (programUsage db (p_id r)) t) (order_asc (\<lambda>p. (p_name p, p_id p)) (t_programs db))"

definition findOne_program :: "time \<Rightarrow> slug \<Rightarrow> database \<Rightarrow> program_dto res" where
  "findOne_program t i db = bindE (findProgram i db) (\<lambda>r. Inr (program_toDto r (programUsage db i) t))"

section \<open>Writing\<close>

definition program_audit :: "uuid \<Rightarrow> audit_action \<Rightarrow> slug \<Rightarrow> json \<Rightarrow> time \<Rightarrow> audit_entry" where
  "program_audit admin action i metadata t =
     \<lparr>ae_actorType = ACTOR_USER, ae_actorId = Some admin, ae_action = action, ae_targetType = TARGET_PROGRAM,
      ae_targetId = IdSlug i, ae_reason = None, ae_metadata = Some metadata, ae_at = t\<rparr>"

definition create_program_commit ::
    "slug \<Rightarrow> ctx \<Rightarrow> uuid \<Rightarrow> create_program_input \<Rightarrow> database \<Rightarrow> database res" where
  "create_program_commit i c admin input db =
     (if i \<in> p_id ` set (t_programs db) then Inl (constraintError ''programs_pkey'')
      else Inr (record_audit (currentRequestId c) (uuids c 0)
        (program_audit admin PROGRAM_CREATED i
          (JObj [(''type'', JText (cpi_type input)), (''name'', JStr (cpi_name input))]) (now c))
        (db\<lparr>t_programs := insert_row
           \<lparr>p_id = i, p_type = cpi_type input, p_name = cpi_name input, p_params = cpi_params input,
            p_createdAt = now c, p_updatedAt = now c\<rparr> (t_programs db)\<rparr>)))"

definition create_program ::
    "slug \<Rightarrow> ctx \<Rightarrow> auth_user \<Rightarrow> create_program_input \<Rightarrow> database \<Rightarrow> (database \<times> program_dto) res" where
  "create_program i c admin input db =
     bindE (create_program_commit i c (au_id admin) input db) (\<lambda>db'.
     bindE (findOne_program (now c) i db') (\<lambda>dto. Inr (db', dto)))"

definition definitionOf :: "program \<Rightarrow> program_type res" where
  "definitionOf r = requireE (programTypeOf (p_type r))
     (validationFailed [(''params'', MsgOf ''The kind is no longer used; its settings cannot be changed'' (JText (p_type r)))])"

definition update_program_prepare ::
    "slug \<Rightarrow> update_program_input \<Rightarrow> database \<Rightarrow> json obj option res" where
  "update_program_prepare i input db =
     bindE (findProgram i db) (\<lambda>cur.
       case upi_params input of
         None \<Rightarrow> Inr None
       | Some v \<Rightarrow> bindE (definitionOf cur) (\<lambda>d.
           bindE (parseOrFail (parse (pt_params d)) v (Some ''params'')) (\<lambda>p. Inr (Some p))))"

definition changed_program :: "time \<Rightarrow> utext option \<Rightarrow> json obj option \<Rightarrow> program \<Rightarrow> program" where
  "changed_program t name params r =
     r\<lparr>p_name := or_else name (p_name r), p_params := or_else params (p_params r), p_updatedAt := t\<rparr>"

definition update_program_commit ::
    "ctx \<Rightarrow> uuid \<Rightarrow> slug \<Rightarrow> utext option \<Rightarrow> json obj option \<Rightarrow> database \<Rightarrow> database" where
  "update_program_commit c admin i name params db =
     record_audit (currentRequestId c) (uuids c 0)
       (program_audit admin PROGRAM_UPDATED i
         (JObj [(''changedFields'', JArr (map JText ((if name \<noteq> None then [''name''] else [])
                                                 @ (if params \<noteq> None then [''params''] else []))))]) (now c))
       (db\<lparr>t_programs := update_where (\<lambda>p. p_id p = i) (changed_program (now c) name params) (t_programs db)\<rparr>)"

definition scope_change :: "live_scope \<times> ident \<Rightarrow> signage_change list" where
  "scope_change s = (case s of
      (DEVICE, IdUuid i) \<Rightarrow> [ChangeDevice i] | (GROUP, IdSlug g) \<Rightarrow> [ChangeGroup g] | _ \<Rightarrow> [])"

definition notifyUsers :: "slug \<Rightarrow> database \<Rightarrow> signage_change list" where
  "notifyUsers i db =
     map ChangeGroup (usedByGroupIds (programUsage db i)) @ map ChangeDevice (usedByDeviceIds (programUsage db i))
     @ concat (map scope_change (liveScopesUsing db i))"

definition update_program ::
    "ctx \<Rightarrow> auth_user \<Rightarrow> slug \<Rightarrow> update_program_input \<Rightarrow> database
       \<Rightarrow> (database \<times> signage_change list \<times> program_dto) res" where
  "update_program c admin i input db =
     bindE (update_program_prepare i input db) (\<lambda>params.
     let db' = update_program_commit c (au_id admin) i (upi_name input) params db in
     bindE (findOne_program (now c) i db') (\<lambda>dto. Inr (db', notifyUsers i db', dto)))"

text \<open>One transaction: the row is locked, then its uses are counted.\<close>

definition remove_program :: "ctx \<Rightarrow> auth_user \<Rightarrow> slug \<Rightarrow> database \<Rightarrow> database res" where
  "remove_program c admin i db =
     bindE (findProgram i db) (\<lambda>row.
       let usage = programUsage db i in
       if isUsed usage then Inl (program_inUse usage)
       else Inr (record_audit (currentRequestId c) (uuids c 0)
         (program_audit (au_id admin) PROGRAM_DELETED i
           (JObj [(''type'', JText (p_type row)), (''name'', JStr (p_name row))]) (now c))
         (db\<lparr>t_programs := delete_where (\<lambda>p. p_id p = i) (t_programs db)\<rparr>)))"

section \<open>The kinds on offer\<close>

record program_type_dto =
  ptd_type :: string
  ptd_name :: utext
  ptd_defaultDurationSeconds :: int
  ptd_dataSource :: data_source
  ptd_dataset :: "string option"
  ptd_collector :: "string option"
  ptd_infoBarItem :: "string option"

definition typeDtoOf :: "program_type \<Rightarrow> program_type_dto" where
  "typeDtoOf d = \<lparr>ptd_type = pt_type d, ptd_name = pt_name d,
     ptd_defaultDurationSeconds = pt_defaultDurationSeconds d, ptd_dataSource = pt_dataSource d,
     ptd_dataset = None, ptd_collector = None, ptd_infoBarItem = pt_infoBarItem d\<rparr>"

definition program_types :: "program_type_dto list" where
  "program_types = map typeDtoOf PROGRAM_TYPES"

section \<open>Facts\<close>

lemma mentions_iff: "mentions i es \<longleftrightarrow> i \<in> ib_programId ` set es"
  by (auto simp: mentions_def list_ex_iff)

text \<open>A program no lineup block, info bar or override points at.\<close>

definition unused :: "slug \<Rightarrow> database \<Rightarrow> bool" where
  "unused i db \<longleftrightarrow> (\<forall>b \<in> set (t_lineupBlocks db). lb_programId b \<noteq> Some i)
     \<and> (\<forall>g \<in> set (t_groupLineups db). i \<notin> ib_programId ` set (ls_infoBar (gl_settings g)))
     \<and> (\<forall>d \<in> set (t_devices db). i \<notin> ib_programId ` set (device_infoBar d))"

lemma sort_eq_Nil [simp]: "sort xs = [] \<longleftrightarrow> xs = []"
  using length_sort[of "\<lambda>x. x" xs] by (metis length_0_conv)

lemma isUsed_iff: "isUsed (programUsage db i) \<longleftrightarrow> \<not> unused i db"
  by (simp add: isUsed_def programUsage_def unused_def mentions_iff select_def filter_empty_conv)

lemma remove_program_Inr:
  assumes "remove_program c admin i db = Inr db'"
  shows "i \<in> p_id ` set (t_programs db)" and "unused i db"
    and "t_programs db' = delete_where (\<lambda>p. p_id p = i) (t_programs db)"
    and "t_lineupBlocks db' = t_lineupBlocks db" and "t_groupLineups db' = t_groupLineups db"
    and "t_devices db' = t_devices db" and "t_deviceTargetGroups db' = t_deviceTargetGroups db"
    and "t_targetGroups db' = t_targetGroups db"
proof -
  from assms obtain row where row: "first_row (\<lambda>p. p_id p = i) (t_programs db) = Some row"
    by (auto simp: remove_program_def findProgram_def res_simps)
  from first_row_Some[OF row] show "i \<in> p_id ` set (t_programs db)" by (intro image_eqI[of _ _ row]) simp_all
  show "unused i db" "t_programs db' = delete_where (\<lambda>p. p_id p = i) (t_programs db)"
      "t_lineupBlocks db' = t_lineupBlocks db" "t_groupLineups db' = t_groupLineups db" "t_devices db' = t_devices db"
      "t_deviceTargetGroups db' = t_deviceTargetGroups db" "t_targetGroups db' = t_targetGroups db"
    using assms by (auto simp: remove_program_def findProgram_def row Let_def isUsed_iff split: if_splits)
qed

text \<open>
  a program is deleted exactly when nothing points at it: with no use left the request succeeds
  and takes only this row, and with any use, in a block, a group's info bar or a device's overrides,
  it is refused with 409 IN_USE and names every group and device that uses it.
\<close>

theorem remove_program_guarded:
  assumes "i \<in> p_id ` set (t_programs db)"
  shows "(case remove_program c admin i db of
       Inr db' \<Rightarrow> unused i db \<and> set (t_programs db') = {p \<in> set (t_programs db). p_id p \<noteq> i}
         \<and> t_lineupBlocks db' = t_lineupBlocks db \<and> t_groupLineups db' = t_groupLineups db \<and> t_devices db' = t_devices db
     | Inl e \<Rightarrow> \<not> unused i db \<and> e = program_inUse (programUsage db i))
     \<and> set (usedByGroupIds (programUsage db i))
         = lb_groupId ` {b \<in> set (t_lineupBlocks db). lb_programId b = Some i}
           \<union> gl_groupId ` {g \<in> set (t_groupLineups db). i \<in> ib_programId ` set (ls_infoBar (gl_settings g))}
     \<and> set (usedByDeviceIds (programUsage db i))
         = d_id ` {d \<in> set (t_devices db). i \<in> ib_programId ` set (device_infoBar d)}"
proof -
  from assms obtain row where row: "first_row (\<lambda>p. p_id p = i) (t_programs db) = Some row"
    by (cases "first_row (\<lambda>p. p_id p = i) (t_programs db)") (auto simp: first_row_None)
  show ?thesis
    by (auto simp: remove_program_def findProgram_def row Let_def isUsed_iff)
       (auto simp: programUsage_def mentions_iff)
qed

definition sample_used :: database where
  "sample_used = empty_database\<lparr>t_programs := [sample_battle],
     t_lineupBlocks := [blockRow ''grp_a'' (\<lambda>_. ''blk_1'') 0
       \<lparr>bi_id = None, bi_durationSeconds = 90, bi_schedule = ALWAYS, bi_enabled = True,
        bi_content = ProgramBlock ''prg_1''\<rparr>]\<rparr>"

definition manager_ctx :: ctx where
  "manager_ctx = \<lparr>now = 5, currentRequestId = None, uuids = id\<rparr>"

definition sample_manager :: auth_user where
  "sample_manager = \<lparr>au_id = 7, au_idpUuid = codes ''idp_manager'', au_email = codes ''manager@example.org'',
     au_name = codes ''Manager'', au_roles = [Granted SUPER_ADMIN], au_tokenExpiresAt = 1000\<rparr>"

theorem remove_program_guarded_witness:
  "remove_program manager_ctx sample_manager ''prg_1'' sample_used = Inl (program_inUse (programUsage sample_used ''prg_1''))
   \<and> set (usedByGroupIds (programUsage sample_used ''prg_1'')) = {''grp_a''}"
proof -
  have "\<not> unused ''prg_1'' sample_used"
    by (simp add: unused_def sample_used_def blockRow_def)
  have "''prg_1'' \<in> p_id ` set (t_programs sample_used)"
    by (simp add: sample_used_def sample_battle_def)
  note g = remove_program_guarded[OF this, of manager_ctx sample_manager]
  from g \<open>\<not> unused _ _\<close> have "remove_program manager_ctx sample_manager ''prg_1'' sample_used
      = Inl (program_inUse (programUsage sample_used ''prg_1''))"
    by (cases "remove_program manager_ctx sample_manager ''prg_1'' sample_used") simp_all
  moreover have "lb_groupId ` {b \<in> set (t_lineupBlocks sample_used). lb_programId b = Some ''prg_1''} = {''grp_a''}"
      "t_groupLineups sample_used = []"
    by (simp_all add: sample_used_def blockRow_def empty_database_def Collect_conv_if)
  ultimately show ?thesis using g by simp
qed

end
