(* ===== verification/Live.thy ===== *)
theory Live
  imports Programs
begin

text \<open>
  Live states that cover a lineup for a while: \<open>src/src/live/live-schema.ts\<close>,
  \<open>src/src/live/games\<close>, \<open>resolve-live.ts\<close> and \<open>live.service.ts\<close>. A scope is a device or a group
  with its id; an end that has passed is not deleted but left out when it is read.
\<close>

section \<open>Input\<close>

definition MAX_GAME_DURATION_MS :: time where "MAX_GAME_DURATION_MS = 3 * 3600000"
definition ALERT_TEXT_MAX :: nat where "ALERT_TEXT_MAX = 80"

definition untilSchema :: "formats \<Rightarrow> utext schema" where
  "untilSchema fm = z_check (f_datetime fm) ''The end must be an ISO time with a zone'' (z_string ''The end must be an ISO time with a zone'')"

text \<open>The texts of a SHOW: a truthy reference is one that is present and not empty.\<close>

definition live_truthy :: "utext option \<Rightarrow> bool" where
  "live_truthy s \<longleftrightarrow> s \<noteq> None \<and> s \<noteq> Some []"

definition show_main :: "formats \<Rightarrow> utext option \<times> utext option \<times> utext option \<Rightarrow> live_main" where
  "show_main fm s = (case s of (sid, pid, until) \<Rightarrow>
     SHOW (Option.bind sid (f_uuid fm)) (map_option ascii pid) (Option.bind until (Date_parse fm)))"

definition showSchema :: "formats \<Rightarrow> live_main schema" where
  "showSchema fm = z_map (show_main fm)
     (z_refine [''submissionId''] (\<lambda>(sid, pid, _). (\<not> live_truthy sid) \<noteq> (\<not> live_truthy pid)) ''Send one of submissionId and programId''
       (strictObject [''action'', ''submissionId'', ''programId'', ''until'']
         (z_prop (z_prop (z_prop (z_prop (no_prop (\<lambda>_ s p u. (s, p, u)))
            ''action'' (z_enum [(''SHOW'', ())] ''The live content is not valid''))
            ''submissionId'' (z_nullish (z_check (\<lambda>s. f_uuid fm s \<noteq> None) ''The submission id is not valid''
                (z_string ''The submission id is not valid''))))
            ''programId'' (z_nullish (z_check (\<lambda>s. js_length s \<le> 64) ''The program id is not valid''
                (z_check (\<lambda>s. 1 \<le> js_length s) ''The program id is not valid'' (z_string ''The program id is not valid'')))))
            ''until'' (z_nullish (untilSchema fm)))
         ''The live content is not valid''))"

definition CLICK_BATTLE_GAME :: "game_config schema" where
  "CLICK_BATTLE_GAME = strictObject [''type'', ''rounds'']
     (z_prop (z_prop (no_prop (\<lambda>_ n. CLICK_BATTLE n))
        ''type'' (z_enum [(''CLICK_BATTLE'', ())] ''The game settings are not valid''))
        ''rounds'' roundsSchema)
     ''The game settings are not valid''"

definition gameConfigSchema :: "game_config schema" where
  "gameConfigSchema = z_union ''type'' [(''CLICK_BATTLE'', CLICK_BATTLE_GAME)]
     ''The game kind is not valid'' ''The game kind is not valid''"

text \<open>An end that is no date is not accepted; the value beside its issue does not matter.\<close>

definition gameSchema :: "formats \<Rightarrow> live_main schema" where
  "gameSchema fm = strictObject [''action'', ''game'', ''until'']
     (z_prop (z_prop (z_prop (no_prop (\<lambda>_ g u. GAME g (or_else (Date_parse fm u) 0)))
        ''action'' (z_enum [(''GAME'', ())] ''The live content is not valid''))
        ''game'' gameConfigSchema)
        ''until'' (untilSchema fm))
     ''The live content is not valid''"

definition liveMainSchema :: "formats \<Rightarrow> live_main schema" where
  "liveMainSchema fm = z_union ''action'' [(''SHOW'', showSchema fm), (''GAME'', gameSchema fm)]
     ''The live kind is not valid'' ''The live kind is not valid''"

definition liveAlertSchema :: "formats \<Rightarrow> live_alert schema" where
  "liveAlertSchema fm = strictObject [''text'', ''until'']
     (z_prop (z_prop (no_prop (\<lambda>s u. \<lparr>lal_text = s, lal_until = Option.bind u (Date_parse fm)\<rparr>))
        ''text'' (z_check (\<lambda>s. js_length s \<le> ALERT_TEXT_MAX) ''The alert has at most 80 characters''
           (z_check (\<lambda>s. 1 \<le> js_length s) ''The alert is missing'' (z_map js_trim (z_string ''The alert is missing'')))))
        ''until'' (z_nullish (untilSchema fm)))
     ''The alert is not valid''"

record live_input =
  lin_main :: "live_main option"
  lin_alert :: "live_alert option"

definition liveInputSchema :: "formats \<Rightarrow> live_input schema" where
  "liveInputSchema fm = strictObject [''main'', ''alert'']
     (z_prop (z_prop (no_prop (\<lambda>m a. \<lparr>lin_main = m, lin_alert = a\<rparr>))
        ''main'' (z_default None (z_nullable (liveMainSchema fm))))
        ''alert'' (z_default None (z_nullable (liveAlertSchema fm))))
     ''The live state is not valid''"

section \<open>Which live state a device shows\<close>

record live_layer =
  ll_main :: "live_main option"
  ll_alert :: "live_alert option"
  ll_setBy :: editor
  ll_setAt :: time

fun main_until :: "live_main \<Rightarrow> time option" where
  "main_until (SHOW _ _ u) = u"
| "main_until (GAME _ u) = Some u"

definition alive :: "('a \<Rightarrow> time option) \<Rightarrow> 'a option \<Rightarrow> time \<Rightarrow> bool" where
  "alive until part t = (case part of None \<Rightarrow> False | Some p \<Rightarrow> (case until p of None \<Rightarrow> True | Some u \<Rightarrow> t < u))"

abbreviation main_alive :: "time \<Rightarrow> live_layer \<Rightarrow> bool" where
  "main_alive t l \<equiv> alive main_until (ll_main l) t"

abbreviation alert_alive :: "time \<Rightarrow> live_layer \<Rightarrow> bool" where
  "alert_alive t l \<equiv> alive lal_until (ll_alert l) t"

definition activeLayer :: "live_layer option \<Rightarrow> time \<Rightarrow> live_layer option" where
  "activeLayer layer t = (case layer of
      None \<Rightarrow> None
    | Some l \<Rightarrow>
        (let main = (if main_alive t l then ll_main l else None);
             alert = (if alert_alive t l then ll_alert l else None)
         in if main \<noteq> None \<or> alert \<noteq> None then Some (l\<lparr>ll_main := main, ll_alert := alert\<rparr>) else None))"

definition newest_of :: "live_layer \<Rightarrow> live_layer \<Rightarrow> live_layer" where
  "newest_of a b = (if ll_setAt a < ll_setAt b then b else a)"

definition live_order :: "live_layer option \<Rightarrow> live_layer list \<Rightarrow> live_layer list" where
  "live_order device groups =
     (case device of Some l \<Rightarrow> [l] | None \<Rightarrow> []) @ sort_key (\<lambda>l. - ll_setAt l) groups"

definition resolveLive :: "live_layer option \<Rightarrow> live_layer list \<Rightarrow> time \<Rightarrow> live_layer option" where
  "resolveLive device groups t =
     (let layers = live_order device groups
      in case (find (main_alive t) layers, find (alert_alive t) layers) of
           (None, None) \<Rightarrow> None
         | (Some m, None) \<Rightarrow> Some (m\<lparr>ll_alert := None\<rparr>)
         | (None, Some a) \<Rightarrow> Some (a\<lparr>ll_main := None\<rparr>)
         | (Some m, Some a) \<Rightarrow> Some \<lparr>ll_main = ll_main m, ll_alert = ll_alert a,
              ll_setBy = ll_setBy (newest_of m a), ll_setAt = ll_setAt (newest_of m a)\<rparr>)"

section \<open>Reading\<close>

definition live_key :: "live_state \<Rightarrow> live_scope \<times> ident" where
  "live_key l = (lv_scope l, lv_scopeId l)"

definition layerOf :: "database \<Rightarrow> live_scope \<Rightarrow> ident \<Rightarrow> live_layer option" where
  "layerOf db scope i =
     Option.bind (first_row (\<lambda>l. live_key l = (scope, i)) (t_liveStates db)) (\<lambda>l.
       map_option (\<lambda>ed. \<lparr>ll_main = lv_main l, ll_alert = lv_alert l, ll_setBy = ed, ll_setAt = lv_setAt l\<rparr>)
         (editorOf db (Some (lv_setBy l))))"

definition effectiveFor :: "database \<Rightarrow> time \<Rightarrow> slug list \<Rightarrow> uuid \<Rightarrow> live_layer option" where
  "effectiveFor db t groupIds deviceId =
     resolveLive (layerOf db DEVICE (IdUuid deviceId))
       (List.map_filter (\<lambda>g. layerOf db GROUP (IdSlug g)) groupIds) t"

definition groupsOfDevice :: "database \<Rightarrow> uuid \<Rightarrow> slug list" where
  "groupsOfDevice db deviceId = map dtg_targetGroupId (select (\<lambda>r. dtg_deviceId r = deviceId) (t_deviceTargetGroups db))"

definition effectiveForDevice :: "database \<Rightarrow> time \<Rightarrow> uuid \<Rightarrow> live_layer option" where
  "effectiveForDevice db t deviceId = effectiveFor db t (groupsOfDevice db deviceId) deviceId"

definition device_notFound :: exc where
  "device_notFound = app_error 404 NOT_FOUND ''Device not found''"

definition assertTarget :: "live_scope \<Rightarrow> ident \<Rightarrow> database \<Rightarrow> unit res" where
  "assertTarget scope i db = (case scope of
      DEVICE \<Rightarrow> if i \<in> (\<lambda>d. IdUuid (d_id d)) ` set (t_devices db) then Inr () else Inl device_notFound
    | GROUP \<Rightarrow> if i \<in> (\<lambda>g. IdSlug (tg_id g)) ` set (t_targetGroups db) then Inr () else Inl lineup_notFound)"

text \<open>The layer the answer is made of; its body is \<open>live_answer\<close> of \<open>Responses\<close>.\<close>

definition live_get :: "live_scope \<Rightarrow> ident \<Rightarrow> time \<Rightarrow> database \<Rightarrow> live_layer option res" where
  "live_get scope i t db =
     bindE (assertTarget scope i db) (\<lambda>_. Inr (activeLayer (layerOf db scope i) t))"

section \<open>Writing\<close>

definition timeErrors :: "live_main option \<Rightarrow> live_alert option \<Rightarrow> time \<Rightarrow> field_errors" where
  "timeErrors main alert t =
     (case main of
        Some (GAME _ u) \<Rightarrow> if \<not> t < u \<or> t + MAX_GAME_DURATION_MS < u
          then [(''main.until'', Msg ''A game ends within three hours from now'')] else []
      | Some (SHOW _ _ (Some u)) \<Rightarrow> if \<not> t < u then [(''main.until'', Msg ''The end must be later than now'')] else []
      | _ \<Rightarrow> [])
     @ (case Option.bind alert lal_until of
          Some u \<Rightarrow> if \<not> t < u then [(''alert.until'', Msg ''The end must be later than now'')] else []
        | None \<Rightarrow> [])"

definition referenceErrors :: "live_main option \<Rightarrow> database \<Rightarrow> field_errors" where
  "referenceErrors main db = (case main of
      Some (SHOW (Some s) _ _) \<Rightarrow>
        if s \<in> s_id ` set (t_submissions db) then [] else [(''main.submissionId'', Msg ''There is no such submission'')]
    | Some (SHOW None p _) \<Rightarrow>
        if p \<in> (\<lambda>r. Some (p_id r)) ` set (t_programs db) then [] else [(''main.programId'', Msg ''There is no such program'')]
    | _ \<Rightarrow> [])"

definition null_or :: "('a \<Rightarrow> json) \<Rightarrow> 'a option \<Rightarrow> json" where
  "null_or f x = (case x of Some v \<Rightarrow> f v | None \<Rightarrow> JNull)"

fun main_json :: "live_main \<Rightarrow> json" where
  "main_json (SHOW s p u) = JObj [(''action'', JText ''SHOW''), (''submissionId'', null_or JUuid s),
     (''programId'', null_or JText p), (''until'', null_or JTime u)]"
| "main_json (GAME (CLICK_BATTLE n) u) = JObj [(''action'', JText ''GAME''),
     (''game'', JObj [(''type'', JText ''CLICK_BATTLE''), (''rounds'', JNum n)]), (''until'', JTime u)]"

definition alert_json :: "live_alert \<Rightarrow> json" where
  "alert_json a = JObj [(''text'', JStr (lal_text a)), (''until'', null_or JTime (lal_until a))]"

definition live_audit :: "uuid \<Rightarrow> audit_action \<Rightarrow> live_scope \<Rightarrow> ident \<Rightarrow> json option \<Rightarrow> time \<Rightarrow> audit_entry" where
  "live_audit admin action scope i metadata t =
     \<lparr>ae_actorType = ACTOR_USER, ae_actorId = Some admin, ae_action = action,
      ae_targetType = (case scope of DEVICE \<Rightarrow> TARGET_DEVICE | GROUP \<Rightarrow> TARGET_GROUP),
      ae_targetId = i, ae_reason = None, ae_metadata = metadata, ae_at = t\<rparr>"

definition set_prepare :: "time \<Rightarrow> live_scope \<Rightarrow> ident \<Rightarrow> live_input \<Rightarrow> database \<Rightarrow> unit res" where
  "set_prepare t scope i input db =
     bindE (assertTarget scope i db) (\<lambda>_.
       let flds = obj_spread (timeErrors (lin_main input) (lin_alert input) t) (referenceErrors (lin_main input) db)
       in if flds \<noteq> [] then Inl (validationFailed flds) else Inr ())"

definition set_commit :: "ctx \<Rightarrow> uuid \<Rightarrow> live_scope \<Rightarrow> ident \<Rightarrow> live_input \<Rightarrow> database \<Rightarrow> database" where
  "set_commit c admin scope i input db =
     record_audit (currentRequestId c) (uuids c 0)
       (live_audit admin LIVE_SET scope i
         (Some (JObj [(''main'', null_or main_json (lin_main input)), (''alert'', null_or alert_json (lin_alert input))]))
         (now c))
       (db\<lparr>t_liveStates := upsert live_key
          \<lparr>lv_scope = scope, lv_scopeId = i, lv_main = lin_main input, lv_alert = lin_alert input, lv_setBy = admin,
           lv_setAt = now c\<rparr>
          (\<lambda>l. l\<lparr>lv_main := lin_main input, lv_alert := lin_alert input, lv_setBy := admin, lv_setAt := now c\<rparr>)
          (t_liveStates db)\<rparr>)"

definition changeOf :: "live_scope \<Rightarrow> ident \<Rightarrow> signage_change list" where
  "changeOf scope i = scope_change (scope, i)"

definition clear_commit :: "ctx \<Rightarrow> uuid \<Rightarrow> live_scope \<Rightarrow> ident \<Rightarrow> database \<Rightarrow> database \<times> bool" where
  "clear_commit c admin scope i db =
     (let deleted = select (\<lambda>l. live_key l = (scope, i)) (t_liveStates db);
          db1 = db\<lparr>t_liveStates := delete_where (\<lambda>l. live_key l = (scope, i)) (t_liveStates db)\<rparr>
      in if deleted \<noteq> []
         then (record_audit (currentRequestId c) (uuids c 0)
                (live_audit admin LIVE_CLEARED scope i None (now c)) db1, True)
         else (db1, False))"

definition live_clear ::
    "ctx \<Rightarrow> auth_user \<Rightarrow> live_scope \<Rightarrow> ident \<Rightarrow> database \<Rightarrow> (database \<times> signage_change list) res" where
  "live_clear c admin scope i db =
     bindE (assertTarget scope i db) (\<lambda>_.
       let (db', cleared) = clear_commit c (au_id admin) scope i db
       in Inr (db', if cleared then changeOf scope i else []))"

definition live_set ::
    "ctx \<Rightarrow> auth_user \<Rightarrow> live_scope \<Rightarrow> ident \<Rightarrow> live_input \<Rightarrow> database
       \<Rightarrow> (database \<times> signage_change list \<times> live_layer option) res" where
  "live_set c admin scope i input db =
     (if lin_main input = None \<and> lin_alert input = None
      then bindE (live_clear c admin scope i db) (\<lambda>(db', changes). Inr (db', changes, None))
      else bindE (set_prepare (now c) scope i input db) (\<lambda>_.
        let db' = set_commit c (au_id admin) scope i input db in
        bindE (live_get scope i (now c) db') (\<lambda>dto. Inr (db', changeOf scope i, dto))))"

end
