(* ===== verification/Lineup_Properties.thy ===== *)
theory Lineup_Properties
  imports Lineups
begin

text \<open>
  What the lineup operations guarantee: the result of a replacement, that forgetting overrides of
  missing blocks changes no screen, the bounds of every effective lineup, and quiet hours as
  intervals on the clock.
\<close>

section \<open>Replacing\<close>

lemma insert_blocks_Inr:
  "insert_blocks rows db = Inr db' \<longleftrightarrow>
     db' = db\<lparr>t_lineupBlocks := t_lineupBlocks db @ rows\<rparr>
     \<and> distinct (map (\<lambda>b. (lb_groupId b, lb_id b)) (t_lineupBlocks db @ rows))
     \<and> list_all lineup_block_checks rows
     \<and> list_all (\<lambda>b. pred_option (\<lambda>p. p \<in> p_id ` set (t_programs db)) (lb_programId b)) rows"
  by (auto simp: insert_blocks_def Let_def)

definition new_rows :: "(nat \<Rightarrow> string) \<Rightarrow> slug \<Rightarrow> block_input list \<Rightarrow> lineup_block list" where
  "new_rows fresh g bs = map (\<lambda>(i, b). blockRow g fresh i b) (enumerate 0 bs)"

definition other_blocks :: "slug \<Rightarrow> database \<Rightarrow> lineup_block table" where
  "other_blocks g db = delete_where (\<lambda>b. lb_groupId b = g) (t_lineupBlocks db)"

definition replaced_lineup :: "time \<Rightarrow> uuid \<Rightarrow> lineup_input \<Rightarrow> group_lineup \<Rightarrow> group_lineup" where
  "replaced_lineup t admin input g = g\<lparr>gl_version := li_version input + 1, gl_settings := li_settings input,
     gl_updatedBy := Some admin, gl_updatedAt := t\<rparr>"

lemma replace_commit_Inr:
  assumes "replace_commit fresh c admin g input db = Inr db'"
  shows "\<exists>cur. first_row (\<lambda>r. gl_groupId r = g) (t_groupLineups db) = Some cur \<and> gl_version cur = li_version input"
    and "replace_fields g input db = []"
    and "t_groupLineups db' = update_where (\<lambda>r. gl_groupId r = g) (replaced_lineup (now c) admin input) (t_groupLineups db)"
    and "t_lineupBlocks db' = other_blocks g db @ new_rows fresh g (li_blocks input)"
    and "t_programs db' = t_programs db" and "t_devices db' = t_devices db" and "t_users db' = t_users db"
    and "t_targetGroups db' = t_targetGroups db" and "t_deviceTargetGroups db' = t_deviceTargetGroups db"
    and "list_all lineup_block_checks (new_rows fresh g (li_blocks input))"
    and "distinct (map (\<lambda>b. (lb_groupId b, lb_id b)) (t_lineupBlocks db'))"
    and "list_all (\<lambda>b. pred_option (\<lambda>p. p \<in> p_id ` set (t_programs db)) (lb_programId b))
           (new_rows fresh g (li_blocks input))"
  using assms
  by (auto simp: replace_commit_def res_simps Let_def insert_blocks_Inr new_rows_def other_blocks_def
      replaced_lineup_def[abs_def] split: if_splits)

lemma lb_position_new: "map lb_position (new_rows fresh g bs) = map int [0..<length bs]"
  by (rule nth_equalityI) (simp_all add: new_rows_def nth_enumerate_eq blockRow_def split: block_content.split)

lemma group_new: "b \<in> set (new_rows fresh g bs) \<Longrightarrow> lb_groupId b = g"
  by (auto simp: new_rows_def blockRow_def split: block_content.splits)

lemma sort_key_ascending:
  fixes key :: "'a \<Rightarrow> 'b::linorder"
  assumes "sorted (map key xs)"
  shows "sort_key key xs = xs"
  using assms by (induction xs) (auto simp: insort_is_Cons)

lemma blocksOf_replaced:
  assumes "t_lineupBlocks db' = other_blocks g db @ new_rows fresh g bs"
  shows "blocksOf db' g = map lineup_toView (new_rows fresh g bs)"
    and "g' \<noteq> g \<Longrightarrow> blocksOf db' g' = blocksOf db g'"
proof -
  have none: "filter (\<lambda>b. lb_groupId b = g) (other_blocks g db) = []"
    by (auto simp: other_blocks_def delete_where_def filter_empty_conv)
  have all: "filter (\<lambda>b. lb_groupId b = g) (new_rows fresh g bs) = new_rows fresh g bs"
    by (rule filter_True) (auto dest: group_new)
  have "sorted (map lb_position (new_rows fresh g bs))"
    by (simp add: lb_position_new sorted_map sorted_wrt_map flip: map_map)
  then have "sort_key lb_position (new_rows fresh g bs) = new_rows fresh g bs" by (rule sort_key_ascending)
  then show "blocksOf db' g = map lineup_toView (new_rows fresh g bs)"
    by (simp add: blocksOf_def select_def assms none all order_asc_def)
  assume g: "g' \<noteq> g"
  have "filter (\<lambda>b. lb_groupId b = g') (new_rows fresh g bs) = []"
    using g by (auto simp: filter_empty_conv dest: group_new)
  moreover have "filter (\<lambda>b. lb_groupId b = g') (other_blocks g db) = filter (\<lambda>b. lb_groupId b = g') (t_lineupBlocks db)"
    using g by (auto simp: other_blocks_def delete_where_def filter_filter intro: filter_cong)
  ultimately show "blocksOf db' g' = blocksOf db g'"
    by (simp add: blocksOf_def select_def assms)
qed

text \<open>
  A replacement stores exactly what was sent: the next version, the settings, and the blocks in
  the order sent, each with its id or a new one and its defaults filled in; what is answered is what
  a reader then gets, the group is announced, and the lineups of other groups stay as they are.
\<close>

theorem lineup_replace_result:
  assumes "lineup_replace fresh c admin g input db = Inr (db', changes, dto)" and "g' \<noteq> g"
  shows "ld_version dto = li_version input + 1 \<and> ld_settings dto = li_settings input
     \<and> ld_blocks dto = map (\<lambda>(i, b). lineup_toView (blockRow g fresh i b)) (enumerate 0 (li_blocks input))
     \<and> ld_updatedAt dto = now c \<and> lineup_get g db' = Inr dto \<and> changes = [ChangeGroup g]
     \<and> lineup_get g' db' = lineup_get g' db"
proof -
  from assms(1) have r: "replace_commit fresh c (au_id admin) g input db = Inr db'" "lineup_get g db' = Inr dto"
      "changes = [ChangeGroup g]"
    by (auto simp: lineup_replace_def res_simps)
  note f = replace_commit_Inr[OF r(1)]
  from f(1) obtain cur where cur: "first_row (\<lambda>r. gl_groupId r = g) (t_groupLineups db) = Some cur" by blast
  have key: "gl_groupId (replaced_lineup t u i q) = gl_groupId q" for t u i q by (simp add: replaced_lineup_def)
  have row: "first_row (\<lambda>r. gl_groupId r = g) (t_groupLineups db')
      = Some (replaced_lineup (now c) (au_id admin) input cur)"
    unfolding f(3) by (subst first_row_update_where_same)
      (use cur first_row_Some[OF cur] in \<open>simp_all add: key\<close>)
  have other: "first_row (\<lambda>r. gl_groupId r = g') (t_groupLineups db') = first_row (\<lambda>r. gl_groupId r = g') (t_groupLineups db)"
    unfolding f(3) using assms(2)
    by (subst first_row_update_where_same)
       (auto simp: key dest!: first_row_Some intro!: option.map_ident_strong)
  from r(2) row have "dto = \<lparr>ld_groupId = g, ld_version = li_version input + 1, ld_settings = li_settings input,
      ld_blocks = blocksOf db' g, ld_updatedAt = now c, ld_updatedBy = editorOf db' (Some (au_id admin))\<rparr>"
    by (auto simp: lineup_get_def replaced_lineup_def)
  moreover have "blocksOf db' g = map (\<lambda>(i, b). lineup_toView (blockRow g fresh i b)) (enumerate 0 (li_blocks input))"
    by (simp add: blocksOf_replaced(1)[OF f(4)] new_rows_def split_beta comp_def)
  moreover have "lineup_get g' db' = lineup_get g' db"
    by (simp add: lineup_get_def other blocksOf_replaced(2)[OF f(4) assms(2)] editorOf_def f(7))
  ultimately show ?thesis using r by simp
qed

section \<open>Overrides\<close>

lemma map_of_filter_key:
  assumes "distinct (map fst xs)"
  shows "map_of (filter (\<lambda>(k, v). k \<in> K \<and> P v) xs) k
       = (case map_of xs k of Some v \<Rightarrow> if k \<in> K \<and> P v then Some v else None | None \<Rightarrow> None)"
  using assms
proof (induction xs)
  case (Cons x xs)
  then show ?case
    by (cases x) (auto split: option.splits simp: map_of_eq_None_iff dest: map_of_SomeD)
qed simp

lemma apply_change_nothing: "changes_nothing ch \<Longrightarrow> apply_change (Some ch) b = b"
  by (simp add: changes_nothing_def apply_change_def or_else_def)

text \<open>
  dropping the overrides of blocks the lineup does not have, and those that change nothing, as
  is done whenever a device is saved, never changes what the device follows.
\<close>

theorem prune_keeps_lineup:
  assumes "distinct (map fst (do_blocks over))" and "bv_id ` set (ln_blocks l) \<subseteq> ids"
  shows "resolveLineup l (pruneOverrides over ids) = resolveLineup l over"
proof -
  have "apply_change (map_of (do_blocks (pruneOverrides over ids)) (bv_id b)) b
      = apply_change (map_of (do_blocks over) (bv_id b)) b" if "b \<in> set (ln_blocks l)" for b
  proof -
    from that assms(2) have "bv_id b \<in> ids" by auto
    then show ?thesis
      by (auto simp: pruneOverrides_def map_of_filter_key[OF assms(1)] apply_change_nothing
          split: option.splits) (simp add: apply_change_def)
  qed
  then show ?thesis by (auto simp: resolveLineup_def resolveSettings_def pruneOverrides_def Let_def)
qed

section \<open>Bounds\<close>

lemma resolveSettings_ok:
  "settings_ok s \<Longrightarrow> overrides_ok over \<Longrightarrow> settings_ok (resolveSettings s over)"
  by (auto simp: resolveSettings_def Let_def settings_ok_def overrides_ok_def partial_settings_ok_def or_else_def
      split: option.splits)

lemma DEFAULT_ok [simp]: "settings_ok DEFAULT_LINEUP_SETTINGS"
  by (simp add: settings_ok_def DEFAULT_LINEUP_SETTINGS_def within_def ROTATION_SECONDS_RANGE_def
      REFRESH_SECONDS_RANGE_def info_bar_ok_def quiet_ok_def)

definition duration_ok :: "lineup_block_view \<Rightarrow> bool" where
  "duration_ok b \<longleftrightarrow> within BLOCK_DURATION_RANGE (bv_durationSeconds b)"

lemma resolveLineup_durations:
  assumes "list_all duration_ok (ln_blocks l)" and "overrides_ok over"
  shows "list_all duration_ok (ln_blocks (resolveLineup l over))"
proof -
  have "pred_option (within BLOCK_DURATION_RANGE) (bc_durationSeconds c)"
    if "map_of (do_blocks over) k = Some c" for k c
    using assms(2) map_of_SomeD[OF that] by (auto simp: overrides_ok_def list_all_iff)
  with assms(1) show ?thesis
    by (fastforce simp: resolveLineup_def list_all_iff duration_ok_def apply_change_def or_else_def
        split: option.splits)
qed

text \<open>
  Whatever an administrator sends as a lineup and as the overrides of a device, once both are
  accepted the device follows a lineup within the bounds: its intervals, its number of blocks and
  quiet hours, and the length of every block, overridden or not.
\<close>

theorem effective_lineup_in_bounds:
  assumes "parse (lineupInputSchema fm) body = Inr input"
    and "parse deviceOverridesSchema body' = Inr over"
    and "lineup_replace fresh c admin (d_programGroupId d) input db = Inr (db', changes, dto)"
    and "prepareOverrides (d_programGroupId d) over db' = Inr (d_lineupOverrides d)"
  shows "settings_ok (ln_settings (effectiveLineupOf d db'))
     \<and> length (ln_blocks (effectiveLineupOf d db')) \<le> MAX_BLOCKS
     \<and> list_all (\<lambda>b. 5 \<le> bv_durationSeconds b \<and> bv_durationSeconds b \<le> 300) (ln_blocks (effectiveLineupOf d db'))"
proof -
  have i: "lineup_input_ok input" and o': "overrides_ok over"
    using assms(1,2) accepts_lineupInput accepts_overrides unfolding parse_Inr by blast+
  have p: "overrides_ok (d_lineupOverrides d)"
  proof -
    have "overrides_ok (pruneOverrides over ids)" for ids
      using o' by (auto simp: pruneOverrides_def overrides_ok_def list_all_iff)
    moreover have "d_lineupOverrides d = pruneOverrides over (blockIdsOf db' (d_programGroupId d))"
      using assms(4) by (simp add: prepareOverrides_def Let_def split: if_splits)
    ultimately show ?thesis by simp
  qed
  from assms(3) have r: "replace_commit fresh c (au_id admin) (d_programGroupId d) input db = Inr db'"
    by (auto simp: lineup_replace_def res_simps)
  note f = replace_commit_Inr[OF r]
  from f(1) obtain cur where cur: "first_row (\<lambda>r. gl_groupId r = d_programGroupId d) (t_groupLineups db) = Some cur"
    by blast
  have "settingsOf db' (d_programGroupId d) = Some (li_settings input)"
    unfolding settingsOf_def f(3)
    by (subst first_row_update_where_same)
       (use cur first_row_Some[OF cur] in \<open>simp_all add: replaced_lineup_def\<close>)
  moreover have b: "blocksOf db' (d_programGroupId d) = map lineup_toView (new_rows fresh (d_programGroupId d) (li_blocks input))"
    by (rule blocksOf_replaced(1)[OF f(4)])
  moreover have "list_all duration_ok (map lineup_toView (new_rows fresh (d_programGroupId d) (li_blocks input)))"
    using f(10) by (auto simp: list_all_iff duration_ok_def lineup_toView_def lineup_block_checks_def within_def
        BLOCK_DURATION_RANGE_def)
  ultimately have e: "effectiveLineupOf d db' = resolveLineup
        \<lparr>ln_settings = li_settings input, ln_blocks = blocksOf db' (d_programGroupId d)\<rparr> (d_lineupOverrides d)"
      and bs: "list_all duration_ok (blocksOf db' (d_programGroupId d))"
    by (simp_all add: effectiveLineupOf_def or_else_def)
  have "list_all duration_ok (ln_blocks (effectiveLineupOf d db'))"
    unfolding e by (rule resolveLineup_durations[OF _ p]) (simp add: bs)
  moreover have "length (ln_blocks (effectiveLineupOf d db')) = length (li_blocks input)"
    by (simp add: e resolveLineup_def b new_rows_def)
  moreover have "settings_ok (ln_settings (effectiveLineupOf d db'))"
    using i resolveSettings_ok[OF _ p] by (simp add: e resolveLineup_def lineup_input_ok_def)
  ultimately show ?thesis
    using i by (simp add: lineup_input_ok_def duration_ok_def[abs_def] within_def BLOCK_DURATION_RANGE_def)
qed

section \<open>Quiet hours\<close>

definition clock_of :: "string \<Rightarrow> int" where
  "clock_of s = or_else (minutesOf s) 0"

text \<open>The digits of a clock, and the minutes they make.\<close>

lemma digit_char_dig: "48 \<le> (of_char c :: nat) \<Longrightarrow> of_char c \<le> (57 :: nat)
    \<Longrightarrow> \<exists>x. 0 \<le> x \<and> x \<le> 9 \<and> c = dig x \<and> (of_char c :: nat) = 48 + nat x"
proof -
  assume c: "48 \<le> (of_char c :: nat)" "of_char c \<le> (57 :: nat)"
  have "dig (int (of_char c) - 48) = char_of (of_char c :: nat)" using c by (simp add: dig_def nat_diff_distrib)
  then have "c = dig (int (of_char c) - 48)" by simp
  then show ?thesis using c by (intro exI[of _ "int (of_char c) - 48"]) (simp add: nat_diff_distrib)
qed

lemma clock_digits:
  assumes "clock_ok (codes s)"
  obtains x y z w where "s = [dig x, dig y, CHR '':'', dig z, dig w]"
    and "clock_of s = (10 * x + y) * 60 + (10 * z + w)" and "minutesOf s = Some (clock_of s)"
    and "0 \<le> x" "0 \<le> y" "y \<le> 9" "10 * x + y < 24" "0 \<le> z" "z \<le> 5" "0 \<le> w" "w \<le> 9"
proof -
  from assms obtain a b c d e where s: "s = [a, b, c, d, e]"
    by (elim clock_ok.elims(2)) (auto simp: codes_def Cons_eq_map_conv)
  have "of_char c = (of_char CHR '':'' :: nat)" using assms by (simp add: s codes_def)
  then have c: "c = CHR '':''" by (simp only: of_char_eq_iff)
  have rng: "48 \<le> (of_char a :: nat)" "of_char a \<le> (57 :: nat)" "48 \<le> (of_char b :: nat)" "of_char b \<le> (57 :: nat)"
      "48 \<le> (of_char d :: nat)" "of_char d \<le> (57 :: nat)" "48 \<le> (of_char e :: nat)" "of_char e \<le> (57 :: nat)"
    using assms by (auto simp: s codes_def is_digit_def)
  from digit_char_dig[OF rng(1,2)] obtain x where x: "0 \<le> x" "x \<le> 9" "a = dig x" "(of_char a :: nat) = 48 + nat x" by blast
  from digit_char_dig[OF rng(3,4)] obtain y where y: "0 \<le> y" "y \<le> 9" "b = dig y" "(of_char b :: nat) = 48 + nat y" by blast
  from digit_char_dig[OF rng(5,6)] obtain z where z: "0 \<le> z" "z \<le> 9" "d = dig z" "(of_char d :: nat) = 48 + nat z" by blast
  from digit_char_dig[OF rng(7,8)] obtain w where w: "0 \<le> w" "w \<le> 9" "e = dig w" "(of_char e :: nat) = 48 + nat w" by blast
  have m: "minutesOf s = Some ((10 * x + y) * 60 + (10 * z + w))"
    using x y z w by (simp add: s c num2_def undig_dig)
  have "10 * x + y < 24" "z \<le> 5"
    using assms x y z w by (auto simp: s codes_def is_digit_def)
  with m show ?thesis
    using that[of x y z w] x y z w c s by (simp add: clock_of_def or_else_def)
qed

lemma minutesOf_clock:
  assumes "clock_ok (codes s)"
  shows "minutesOf s = Some (clock_of s)" and "0 \<le> clock_of s" and "clock_of s < 1440"
  using assms by (elim clock_digits; simp)+

lemma mixed_radix:
  fixes q r k :: int
  assumes "q * k + r = q' * k + r'" and "0 \<le> r" "r < k" "0 \<le> r'" "r' < k"
  shows "q = q'" and "r = r'"
proof -
  have "(q * k + r) div k = q" "(q' * k + r') div k = q'" using assms(2-5) by simp_all
  with assms(1) show "q = q'" by simp
  with assms(1) show "r = r'" by simp
qed

lemma clock_of_inj:
  assumes "clock_ok (codes s)" and "clock_ok (codes t)" and "clock_of s = clock_of t"
  shows "s = t"
proof -
  have "x = x' \<and> y = y' \<and> z = z' \<and> w = w'"
    if "(10 * x + y) * 60 + (10 * z + w) = (10 * x' + y') * 60 + (10 * z' + w')"
      "0 \<le> y" "y \<le> 9" "0 \<le> z" "z \<le> 5" "0 \<le> w" "w \<le> 9" "0 \<le> y'" "y' \<le> 9" "0 \<le> z'" "z' \<le> 5" "0 \<le> w'" "w' \<le> 9"
    for x y z w x' y' z' w' :: int
  proof -
    have h: "10 * x + y = 10 * x' + y'" "10 * z + w = 10 * z' + w'"
      using mixed_radix[of "10 * x + y" 60 "10 * z + w" "10 * x' + y'" "10 * z' + w'"] that by linarith+
    show ?thesis
      using mixed_radix[of x 10 y x' y'] mixed_radix[of z 10 w z' w'] h that by (simp add: mult.commute)
  qed
  with assms show ?thesis by (elim clock_digits) metis
qed

lemma clock_distance:
  fixes x a :: int
  assumes "0 \<le> x" "x < 1440" "0 \<le> a" "a < 1440"
  shows "(x - a) mod 1440 = (if a \<le> x then x - a else x - a + 1440)"
proof (cases "a \<le> x")
  case False
  have "(x - a) mod 1440 = (x - a + 1440) mod 1440" by simp
  also have "\<dots> = x - a + 1440" using assms False by (intro mod_pos_pos_trivial) auto
  finally show ?thesis using False by simp
qed (use assms in simp)

text \<open>
  a quiet range is the part of the clock from its start up to its end, around midnight when the
  end is earlier: a screen sleeps exactly when the minutes since the start are fewer than the length
  of some range, both taken around the clock.
\<close>

theorem quiet_hours_circular:
  assumes "quiet_ok rs"
  shows "isQuietAt rs t = list_ex (\<lambda>r. (seoulMinuteOfDay t - clock_of (tr_start r)) mod 1440
       < (clock_of (tr_end r) - clock_of (tr_start r)) mod 1440) rs"
proof -
  have "(let start = minutesOf (tr_start r); stop = minutesOf (tr_end r)
           in if js_less start stop then js_leq start (Some m) \<and> js_less (Some m) stop
              else js_leq start (Some m) \<or> js_less (Some m) stop)
      = ((m - clock_of (tr_start r)) mod 1440 < (clock_of (tr_end r) - clock_of (tr_start r)) mod 1440)"
    if "range_ok r" "0 \<le> m" "m < 1440" for r m
  proof -
    let ?a = "clock_of (tr_start r)" and ?b = "clock_of (tr_end r)"
    have m: "minutesOf (tr_start r) = Some ?a" "minutesOf (tr_end r) = Some ?b" "0 \<le> ?a" "?a < 1440" "0 \<le> ?b" "?b < 1440"
      using minutesOf_clock that(1) by (auto simp: range_ok_def)
    have "?a \<noteq> ?b" using clock_of_inj that(1) by (auto simp: range_ok_def)
    have "(m - ?a) mod 1440 = (if ?a \<le> m then m - ?a else m - ?a + 1440)"
        "(?b - ?a) mod 1440 = (if ?a \<le> ?b then ?b - ?a else ?b - ?a + 1440)"
      using clock_distance that m by blast+
    with that(2,3) m \<open>?a \<noteq> ?b\<close> show ?thesis by (auto simp: js_less_def js_leq_def)
  qed
  then show ?thesis
    using assms seoulMinuteOfDay_bounds[of t] unfolding isQuietAt_def quiet_ok_def
    by (auto simp: list_ex_iff list_all_iff Let_def)
qed

theorem quiet_hours_circular_witness:
  "isQuietAt [\<lparr>tr_start = ''22:00'', tr_end = ''06:00''\<rparr>] 0
   = list_ex (\<lambda>r. (seoulMinuteOfDay 0 - clock_of (tr_start r)) mod 1440
       < (clock_of (tr_end r) - clock_of (tr_start r)) mod 1440) [\<lparr>tr_start = ''22:00'', tr_end = ''06:00''\<rparr>]"
  by (rule quiet_hours_circular)
     (simp add: quiet_ok_def MAX_QUIET_HOURS_def range_ok_def codes_def is_digit_def)

section \<open>Concrete instances\<close>

definition sample_overrides :: device_overrides where
  "sample_overrides = \<lparr>do_settings = EMPTY_SETTINGS,
     do_blocks = [(''blk_1'', \<lparr>bc_enabled = Some False, bc_durationSeconds = None\<rparr>),
                  (''blk_gone'', \<lparr>bc_enabled = None, bc_durationSeconds = Some 20\<rparr>)]\<rparr>"

definition sample_view :: lineup_block_view where
  "sample_view = lineup_toView (blockRow ''grp_a'' (\<lambda>_. ''blk_1'') 0 default_block)"

theorem prune_keeps_lineup_witness:
  "pruneOverrides sample_overrides {''blk_1''} \<noteq> sample_overrides
   \<and> resolveLineup \<lparr>ln_settings = DEFAULT_LINEUP_SETTINGS, ln_blocks = [sample_view]\<rparr>
       (pruneOverrides sample_overrides {''blk_1''})
     = resolveLineup \<lparr>ln_settings = DEFAULT_LINEUP_SETTINGS, ln_blocks = [sample_view]\<rparr> sample_overrides"
  by (intro conjI prune_keeps_lineup)
     (simp_all add: sample_overrides_def pruneOverrides_def sample_view_def lineup_toView_def blockRow_def
       default_block_def or_else_def)

text \<open>Two groups, the second with the lineup a new group gets.\<close>

definition sample_lineups :: database where
  "sample_lineups = empty_database\<lparr>
     t_groupLineups := [\<lparr>gl_groupId = ''grp_a'', gl_version = 1, gl_settings = DEFAULT_LINEUP_SETTINGS,
                         gl_updatedBy = None, gl_updatedAt = 0\<rparr>],
     t_lineupBlocks := [blockRow ''grp_a'' (\<lambda>_. ''blk_1'') 0 default_block]\<rparr>"

definition sample_input :: lineup_input where
  "sample_input = \<lparr>li_version = 1, li_settings = DEFAULT_LINEUP_SETTINGS\<lparr>ls_rotationSeconds := 20\<rparr>,
     li_blocks = [\<lparr>bi_id = Some ''blk_1'', bi_durationSeconds = 30, bi_schedule = ALWAYS, bi_enabled = True,
                   bi_content = SubmissionsBlock STORY None\<rparr>]\<rparr>"

definition sample_editor :: auth_user where
  "sample_editor = \<lparr>au_id = 7, au_idpUuid = codes ''idp_editor'', au_email = codes ''editor@example.org'',
     au_name = codes ''Editor'', au_roles = [Granted REVIEWER], au_tokenExpiresAt = 1000\<rparr>"

lemmas lineup_sample_defs = sample_lineups_def sample_input_def empty_database_def blockRow_def default_block_def
  or_else_def Let_def select_def first_row_Cons

lemma sample_replace: "\<exists>db' dto. lineup_replace (\<lambda>_. ''blk_2'') \<lparr>now = 5, currentRequestId = None, uuids = id\<rparr> sample_editor
    ''grp_a'' sample_input sample_lineups = Inr (db', [ChangeGroup ''grp_a''], dto)
    \<and> t_lineupBlocks db' = [blockRow ''grp_a'' (\<lambda>_. ''blk_2'') 0 (hd (li_blocks sample_input))]
    \<and> t_programs db' = []"
  by (simp add: lineup_replace_def replace_commit_def lineup_get_def lineup_sample_defs replace_fields_def
      blockIdErrors_def blockIdsOf_def checkPrograms_def blockReferences_def infoBarReferences_def
      DEFAULT_LINEUP_SETTINGS_def insert_blocks_def lineup_block_checks_def delete_where_def)

theorem lineup_replace_result_witness:
  "\<exists>db' dto. lineup_replace (\<lambda>_. ''blk_2'') \<lparr>now = 5, currentRequestId = None, uuids = id\<rparr> sample_editor ''grp_a''
       sample_input sample_lineups = Inr (db', [ChangeGroup ''grp_a''], dto)
     \<and> ld_version dto = 2 \<and> map bv_durationSeconds (ld_blocks dto) = [30]
     \<and> lineup_get ''grp_b'' db' = Inl lineup_notFound"
proof -
  obtain db' dto where r: "lineup_replace (\<lambda>_. ''blk_2'') \<lparr>now = 5, currentRequestId = None, uuids = id\<rparr> sample_editor
      ''grp_a'' sample_input sample_lineups = Inr (db', [ChangeGroup ''grp_a''], dto)"
    using sample_replace by blast
  have "lineup_get ''grp_b'' sample_lineups = Inl lineup_notFound"
    by (simp add: lineup_get_def sample_lineups_def)
  with lineup_replace_result[OF r, of "''grp_b''"] r show ?thesis
    by (simp add: sample_input_def blockRow_def lineup_toView_def)
qed

definition sample_change :: device_overrides where
  "sample_change = \<lparr>do_settings = EMPTY_SETTINGS\<lparr>ps_rotationSeconds := Some 30\<rparr>,
     do_blocks = [(''blk_2'', \<lparr>bc_enabled = None, bc_durationSeconds = Some 300\<rparr>)]\<rparr>"

lemma sample_change_parses:
  "parse deviceOverridesSchema (JObj [(''settings'', JObj [(''rotationSeconds'', JNum 30)]),
     (''blocks'', JObj [(''blk_2'', JObj [(''durationSeconds'', JNum 300)])])]) = Inr sample_change"
  by (simp add: parse_def sample_change_def deviceOverridesSchema_def strictObject_def z_prop_def no_prop_def
      unknown_keys_def z_int_def z_refine_def z_optional_def z_default_def z_record_def partialSettingsSchema_def
      rotationSecondsSchema_def intIn_def ROTATION_SECONDS_RANGE_def EMPTY_SETTINGS_def under_def
      blockChangeSchema_def durationSecondsSchema_def BLOCK_DURATION_RANGE_def codes_def block_id_ok_def
      block_id_char_def is_digit_def Let_def fail_type_def)

definition sample_device :: device where
  "sample_device = \<lparr>d_id = 70, d_name = codes ''TV'', d_location = None, d_orientation = LANDSCAPE,
     d_programGroupId = ''grp_a'', d_lineupOverrides = sample_change, d_isActive = True, d_tokenHash = ''h'',
     d_tokenIssuedAt = 0, d_lastSeenAt = None, d_appVersion = None, d_resolutionWidth = None,
     d_resolutionHeight = None, d_lastPlaylistVersion = None, d_lastRenderOkAt = None, d_nowPlaying = None,
     d_createdAt = 0, d_updatedAt = 0\<rparr>"

definition new_block_body :: json where
  "new_block_body = JObj [(''version'', JNum 1),
     (''settings'', JObj [(''posterLayout'', JText ''WALL''), (''rotationSeconds'', JNum 20),
        (''refreshAfterSeconds'', JNum 60), (''infoBar'', JArr []), (''quietHours'', JArr [])]),
     (''blocks'', JArr [JObj [(''source'', JText ''SUBMISSIONS''), (''submissionType'', JText ''STORY''),
        (''durationSeconds'', JNum 30)]])]"

definition new_block_input :: lineup_input where
  "new_block_input = sample_input\<lparr>li_blocks := map (\<lambda>b. b\<lparr>bi_id := None\<rparr>) (li_blocks sample_input)\<rparr>"

lemma new_block_parses: "parse (lineupInputSchema fm) new_block_body = Inr new_block_input"
  by (simp add: parse_def new_block_body_def new_block_input_def sample_input_def lineupInputSchema_def
      strictObject_def z_prop_def no_prop_def unknown_keys_def z_int_def z_refine_def z_items_def z_array_def
      z_enum_def z_optional_def z_nullish_def z_default_def z_union_def lineupSettingsSchema_def
      posterLayoutSchema_def rotationSecondsSchema_def refreshAfterSecondsSchema_def infoBarSchema_def
      quietHoursSchema_def intIn_def ROTATION_SECONDS_RANGE_def REFRESH_SECONDS_RANGE_def
      MAX_INFO_BAR_ENTRIES_def MAX_QUIET_HOURS_def MAX_BLOCKS_def blockInputSchema_def JText_def codes_def
      element_issues_def under_def durationSecondsSchema_def BLOCK_DURATION_RANGE_def submissionTypeSchema_def
      DEFAULT_LINEUP_SETTINGS_def Let_def fail_type_def)

lemma new_block_replace: "\<exists>db' dto. lineup_replace (\<lambda>_. ''blk_2'') \<lparr>now = 5, currentRequestId = None, uuids = id\<rparr> admin
    ''grp_a'' new_block_input sample_lineups = Inr (db', [ChangeGroup ''grp_a''], dto)
    \<and> prepareOverrides ''grp_a'' sample_change db' = Inr sample_change"
  by (simp add: lineup_replace_def replace_commit_def lineup_get_def lineup_sample_defs replace_fields_def
      blockIdErrors_def blockIdsOf_def checkPrograms_def blockReferences_def infoBarReferences_def new_block_input_def
      DEFAULT_LINEUP_SETTINGS_def insert_blocks_def lineup_block_checks_def delete_where_def prepareOverrides_def
      pruneOverrides_def sample_change_def EMPTY_SETTINGS_def changes_nothing_def image_iff)

theorem effective_lineup_in_bounds_witness:
  "\<exists>db'. settings_ok (ln_settings (effectiveLineupOf sample_device db'))
     \<and> length (ln_blocks (effectiveLineupOf sample_device db')) \<le> MAX_BLOCKS
     \<and> list_all (\<lambda>b. 5 \<le> bv_durationSeconds b \<and> bv_durationSeconds b \<le> 300)
         (ln_blocks (effectiveLineupOf sample_device db'))"
proof -
  obtain db' dto where r: "lineup_replace (\<lambda>_. ''blk_2'') \<lparr>now = 5, currentRequestId = None, uuids = id\<rparr> admin
      ''grp_a'' new_block_input sample_lineups = Inr (db', [ChangeGroup ''grp_a''], dto)"
    and p: "prepareOverrides ''grp_a'' sample_change db' = Inr sample_change"
    using new_block_replace by blast
  show ?thesis
    by (rule exI, rule effective_lineup_in_bounds[OF new_block_parses sample_change_parses, where d = sample_device])
       (use r p in \<open>simp_all add: sample_device_def\<close>)
qed

end
