(* ===== verification/Live_Properties.thy ===== *)
theory Live_Properties
  imports Live Lineup_Properties Users
begin

text \<open>
  What a screen shows of the live states: the priority between a device and its groups, the three
  hours a game lasts at most, and what is read after a live state was set.
\<close>

section \<open>Priority\<close>

text \<open>
  The layer a part is taken from: the device's when it qualifies, else the latest group layer that
  does.
\<close>

definition picks :: "(live_layer \<Rightarrow> bool) \<Rightarrow> live_layer option \<Rightarrow> live_layer list \<Rightarrow> live_layer option \<Rightarrow> bool" where
  "picks P device groups x \<longleftrightarrow>
     (if pred_option P device \<and> device \<noteq> None then x = device
      else if list_ex P groups
           then \<exists>l \<in> set groups. P l \<and> x = Some l \<and> (\<forall>l' \<in> set groups. P l' \<longrightarrow> ll_setAt l' \<le> ll_setAt l)
           else x = None)"

lemma find_sorted_max:
  fixes key :: "'a \<Rightarrow> int"
  assumes "find P (sort_key (\<lambda>x. - key x) xs) = Some l"
  shows "l \<in> set xs \<and> P l \<and> (\<forall>l' \<in> set xs. P l' \<longrightarrow> key l' \<le> key l)"
proof -
  let ?ys = "sort_key (\<lambda>x. - key x) xs"
  from assms obtain i where i: "i < length ?ys" "P (?ys ! i)" "l = ?ys ! i" "\<forall>j < i. \<not> P (?ys ! j)"
    by (auto simp: find_Some_iff)
  have "key l' \<le> key l" if "l' \<in> set ?ys" "P l'" for l'
  proof -
    from that(1) obtain j where j: "j < length ?ys" "?ys ! j = l'" unfolding in_set_conv_nth by blast
    with i that have "i \<le> j" using not_less by blast
    have "sorted (map (\<lambda>x. - key x) ?ys)" by simp
    then have "- key (?ys ! i) \<le> - key (?ys ! j)"
      using \<open>i \<le> j\<close> j(1) i(1) by (simp add: sorted_iff_nth_mono)
    with i j show ?thesis by simp
  qed
  moreover have "l \<in> set ?ys" unfolding i(3) by (rule nth_mem[OF i(1)])
  ultimately show ?thesis using i by auto
qed

lemma find_sorted_None: "find P (sort_key f xs) = None \<longleftrightarrow> \<not> list_ex P xs"
  by (auto simp: find_None_iff list_ex_iff)

lemma live_order_picks: "picks P device groups (find P (live_order device groups))"
proof (cases "pred_option P device \<and> device \<noteq> None")
  case True
  then show ?thesis by (auto simp: picks_def live_order_def)
next
  case False
  then have "find P (live_order device groups) = find P (sort_key (\<lambda>l. - ll_setAt l) groups)"
    by (auto simp: live_order_def split: option.splits)
  moreover have "picks P device groups (find P (sort_key (\<lambda>l. - ll_setAt l) groups))"
  proof (cases "find P (sort_key (\<lambda>l. - ll_setAt l) groups)")
    case None
    with False show ?thesis by (auto simp: picks_def find_sorted_None)
  next
    case (Some l)
    from find_sorted_max[OF this] False show ?thesis by (auto simp: picks_def Some list_ex_iff)
  qed
  ultimately show ?thesis by simp
qed

text \<open>
  The content and the alert of a screen are chosen independently, each from the device's own
  live state while that is running, else from the latest one that is running among its groups; with
  neither there is no live state.
\<close>

theorem live_priority:
  "\<exists>m a. picks (main_alive t) device groups m \<and> picks (alert_alive t) device groups a
     \<and> Option.bind (resolveLive device groups t) ll_main = Option.bind m ll_main
     \<and> Option.bind (resolveLive device groups t) ll_alert = Option.bind a ll_alert
     \<and> (resolveLive device groups t = None) = (m = None \<and> a = None)"
  by (intro exI[of _ "find (main_alive t) (live_order device groups)"]
      exI[of _ "find (alert_alive t) (live_order device groups)"] conjI live_order_picks)
     (simp_all add: resolveLive_def Let_def split: option.splits)

section \<open>Games end\<close>

inductive live_step :: "database \<Rightarrow> database \<Rightarrow> bool" where
  set: "set_prepare (now c) scope i input db0 = Inr () \<Longrightarrow> live_step db (set_commit c admin scope i input db)"
| clear: "live_step db (fst (clear_commit c admin scope i db))"

definition game_ok :: "live_state \<Rightarrow> bool" where
  "game_ok l \<longleftrightarrow> (case lv_main l of Some (GAME _ u) \<Rightarrow> u \<le> lv_setAt l + MAX_GAME_DURATION_MS | _ \<Rightarrow> True)"

lemma set_prepare_game:
  "set_prepare t scope i input db = Inr () \<Longrightarrow> lin_main input = Some (GAME g u) \<Longrightarrow> u \<le> t + MAX_GAME_DURATION_MS"
  by (auto simp: set_prepare_def res_simps Let_def timeErrors_def split: if_splits)

lemma set_commit_rows:
  assumes "l \<in> set (t_liveStates (set_commit c admin scope i input db))"
  shows "l \<in> set (t_liveStates db) \<or> (lv_main l = lin_main input \<and> lv_alert l = lin_alert input \<and> lv_setAt l = now c)"
  using assms by (auto simp: set_commit_def upsert_def set_update_where split: if_splits)

lemma live_step_game_ok:
  "live_step db db' \<Longrightarrow> \<forall>l \<in> set (t_liveStates db). game_ok l \<Longrightarrow> \<forall>l \<in> set (t_liveStates db'). game_ok l"
proof (induction rule: live_step.induct)
  case (set c scope i input db0 db admin)
  show ?case
  proof
    fix l assume "l \<in> set (t_liveStates (set_commit c admin scope i input db))"
    from set_commit_rows[OF this] set show "game_ok l"
      by (auto simp: game_ok_def split: option.splits live_main.splits dest: set_prepare_game)
  qed
next
  case (clear db c admin scope i)
  then show ?case by (auto simp: clear_commit_def Let_def)
qed

lemma layerOf_row: "layerOf db scope i = Some l \<Longrightarrow> \<exists>r \<in> set (t_liveStates db). ll_main l = lv_main r \<and> ll_setAt l = lv_setAt r"
  by (auto simp: layerOf_def bind_eq_Some_conv dest!: first_row_Some)

lemma live_order_set: "set (live_order device groups) = set_option device \<union> set groups"
  by (auto simp: live_order_def split: option.splits)

lemma set_map_filter: "x \<in> set (List.map_filter f xs) \<longleftrightarrow> (\<exists>y \<in> set xs. f y = Some x)"
  by (force simp: map_filter_def)

lemma effective_main_row:
  assumes "effectiveFor db t gs d = Some l" and "ll_main l = Some m"
  shows "\<exists>r \<in> set (t_liveStates db). lv_main r = Some m" and "alive main_until (Some m) t"
proof -
  let ?dev = "layerOf db DEVICE (IdUuid d)" and ?gs = "List.map_filter (\<lambda>g. layerOf db GROUP (IdSlug g)) gs"
  from assms obtain k where k: "find (main_alive t) (live_order ?dev ?gs) = Some k" "ll_main k = Some m"
    by (auto simp: effectiveFor_def resolveLive_def Let_def split: option.splits)
  then have "k \<in> set (live_order ?dev ?gs)" "main_alive t k" by (auto simp: find_Some_iff)
  then show "\<exists>r \<in> set (t_liveStates db). lv_main r = Some m" "alive main_until (Some m) t"
    using k(2) by (auto simp: live_order_set set_map_filter dest!: layerOf_row)
qed

text \<open>
  No game outlasts its three hours: whatever live states are set and cleared, by any
  interleaving of requests, a game a device shows was set less than three hours ago and its end has
  not come.
\<close>

theorem live_game_bounded:
  assumes "live_step\<^sup>*\<^sup>* db db'" and "t_liveStates db = []"
    and "effectiveForDevice db' t d = Some l" and "ll_main l = Some (GAME g u)"
  shows "\<exists>r \<in> set (t_liveStates db'). lv_main r = Some (GAME g u) \<and> t < u \<and> u \<le> lv_setAt r + 10800000"
proof -
  have "\<forall>l \<in> set (t_liveStates db'). game_ok l"
    using assms(1) by (induction rule: rtranclp_induct) (use assms(2) live_step_game_ok in \<open>auto\<close>)
  with effective_main_row[OF assms(3)[unfolded effectiveForDevice_def] assms(4)] show ?thesis
    by (force simp: game_ok_def alive_def MAX_GAME_DURATION_MS_def)
qed

section \<open>Setting and reading back\<close>

lemma first_row_insert: "\<not> P r \<Longrightarrow> first_row P (insert_row r t) = first_row P t"
  by (induction t) (simp_all add: insert_row_def)

text \<open>
  an accepted live state is what its scope and, when the scope is a device, that device then
  shows: the content and the alert just sent, by this administrator at this time; the scope is
  announced, and nothing of any other scope changes.
\<close>

theorem live_set_shown:
  assumes "live_set c admin scope i input db = Inr (db', changes, dto)"
    and "lin_main input \<noteq> None \<or> lin_alert input \<noteq> None"
    and "distinct (map live_key (t_liveStates db))"
    and "first_row (\<lambda>u. u_id u = au_id admin) (t_users db) = Some v"
    and "(scope', i') \<noteq> (scope, i)"
  shows "dto = Some \<lparr>ll_main = lin_main input, ll_alert = lin_alert input,
              ll_setBy = \<lparr>ed_id = u_id v, ed_name = u_name v\<rparr>, ll_setAt = now c\<rparr>
     \<and> live_get scope i (now c) db' = Inr dto \<and> changes = changeOf scope i
     \<and> layerOf db' scope' i' = layerOf db scope' i'"
proof -
  let ?new = "\<lparr>lv_scope = scope, lv_scopeId = i, lv_main = lin_main input, lv_alert = lin_alert input,
      lv_setBy = au_id admin, lv_setAt = now c\<rparr>"
  let ?f = "\<lambda>l :: live_state. l\<lparr>lv_main := lin_main input, lv_alert := lin_alert input, lv_setBy := au_id admin, lv_setAt := now c\<rparr>"
  from assms(1,2) have p: "set_prepare (now c) scope i input db = Inr ()"
    and db': "db' = set_commit c (au_id admin) scope i input db"
    and g: "live_get scope i (now c) db' = Inr dto" "changes = changeOf scope i"
    by (auto simp: live_set_def res_simps Let_def split: if_splits)
  have tab: "t_liveStates db' = upsert live_key ?new ?f (t_liveStates db)" "t_users db' = t_users db"
    by (simp_all add: db' set_commit_def)
  have key: "live_key (?f l) = live_key l" for l by (simp add: live_key_def)
  have keys: "distinct (map live_key (t_liveStates db'))"
    unfolding tab(1) by (rule distinct_key_upsert[OF assms(3)]) (rule key)
  have ed: "editorOf db' (Some (au_id admin)) = Some \<lparr>ed_id = u_id v, ed_name = u_name v\<rparr>"
    by (simp add: editorOf_def tab(2) assms(4))
  obtain q where q: "q \<in> set (t_liveStates db')" "live_key q = live_key ?new"
    using upsert_key_exists[of live_key ?f ?new, OF key] unfolding tab(1) by blast
  have new: "lv_main q = lin_main input" "lv_alert q = lin_alert input" "lv_setBy q = au_id admin" "lv_setAt q = now c"
    using upsert_row_cases[of q live_key ?new ?f "t_liveStates db", OF _ q(2) key] q(1) unfolding tab(1) by auto
  have "first_row (\<lambda>l. live_key l = (scope, i)) (t_liveStates db') = Some q"
    using first_row_key_iff[OF keys, of "(scope, i)" q] q by (simp add: live_key_def[of ?new])
  then have layer: "layerOf db' scope i = Some \<lparr>ll_main = lin_main input, ll_alert = lin_alert input,
              ll_setBy = \<lparr>ed_id = u_id v, ed_name = u_name v\<rparr>, ll_setAt = now c\<rparr>"
    by (simp add: layerOf_def new ed)
  have "timeErrors (lin_main input) (lin_alert input) (now c) = []"
    using p by (auto simp: set_prepare_def res_simps Let_def split: if_splits)
  then have "alive main_until (lin_main input) (now c) = (lin_main input \<noteq> None)"
      "alive lal_until (lin_alert input) (now c) = (lin_alert input \<noteq> None)"
    by (auto simp: timeErrors_def alive_def split: option.splits live_main.splits if_splits)
  with layer assms(2) have "activeLayer (layerOf db' scope i) (now c) = layerOf db' scope i"
    by (auto simp: activeLayer_def Let_def)
  moreover have "dto = activeLayer (layerOf db' scope i) (now c)"
    using g by (auto simp: live_get_def res_simps)
  moreover have "first_row (\<lambda>l. live_key l = (scope', i')) (t_liveStates db')
      = first_row (\<lambda>l. live_key l = (scope', i')) (t_liveStates db)"
  proof (cases "live_key ?new \<in> live_key ` set (t_liveStates db)")
    case True
    then show ?thesis using assms(5)
      unfolding tab(1) upsert_def
      by (simp add: first_row_update_where_same key)
         (auto simp: live_key_def dest!: first_row_Some intro!: option.map_ident_strong)
  next
    case False
    then show ?thesis using assms(5) unfolding tab(1) upsert_def
      by (auto simp: live_key_def intro!: first_row_insert)
  qed
  ultimately show ?thesis using g layer by (simp add: layerOf_def editorOf_def tab(2))
qed

definition sample_room :: database where
  "sample_room = empty_database\<lparr>t_users := [sample_user], t_devices := [sample_device]\<rparr>"

definition sample_game :: live_input where
  "sample_game = \<lparr>lin_main = Some (GAME (CLICK_BATTLE 3) 1000), lin_alert = None\<rparr>"

lemma sample_game_prepares: "set_prepare 5 DEVICE (IdUuid 70) sample_game sample_room = Inr ()"
  by (simp add: set_prepare_def sample_game_def sample_room_def sample_device_def assertTarget_def timeErrors_def
      referenceErrors_def MAX_GAME_DURATION_MS_def)

abbreviation live_ctx :: ctx where
  "live_ctx \<equiv> \<lparr>now = 5, currentRequestId = None, uuids = id\<rparr>"

lemma sample_game_layer:
  "layerOf (set_commit live_ctx (u_id sample_user) DEVICE (IdUuid 70) sample_game sample_room) DEVICE (IdUuid 70)
   = Some \<lparr>ll_main = Some (GAME (CLICK_BATTLE 3) 1000), ll_alert = None,
           ll_setBy = \<lparr>ed_id = u_id sample_user, ed_name = u_name sample_user\<rparr>, ll_setAt = 5\<rparr>"
  by (simp add: layerOf_def set_commit_def sample_room_def empty_database_def upsert_def insert_row_def live_key_def
      sample_game_def editorOf_def)

theorem live_game_bounded_witness:
  "\<exists>db' l. effectiveForDevice db' 900 70 = Some l \<and> ll_main l = Some (GAME (CLICK_BATTLE 3) 1000)
     \<and> list_ex (\<lambda>r. lv_main r = Some (GAME (CLICK_BATTLE 3) 1000) \<and> 900 < (1000 :: int)
         \<and> 1000 \<le> lv_setAt r + 10800000) (t_liveStates db')"
proof -
  let ?db = "set_commit live_ctx (u_id sample_user) DEVICE (IdUuid 70) sample_game sample_room"
  have s: "live_step\<^sup>*\<^sup>* sample_room ?db"
    using live_step.set[of live_ctx] sample_game_prepares by (intro r_into_rtranclp) simp
  have "groupsOfDevice ?db 70 = []"
    by (simp add: groupsOfDevice_def set_commit_def sample_room_def empty_database_def select_def)
  then obtain l where l: "effectiveForDevice ?db 900 70 = Some l" "ll_main l = Some (GAME (CLICK_BATTLE 3) 1000)"
    by (simp add: effectiveForDevice_def effectiveFor_def sample_game_layer map_filter_def resolveLive_def live_order_def
        alive_def Let_def)
  have "t_liveStates sample_room = []" by (simp add: sample_room_def empty_database_def)
  from live_game_bounded[OF s this l] l show ?thesis by (intro exI[of _ ?db] exI[of _ l]) (auto simp: list_ex_iff)
qed

lemma sample_live_set: "\<exists>dto. live_set live_ctx (sample_admin 7) DEVICE (IdUuid 70) sample_game sample_room
    = Inr (set_commit live_ctx 7 DEVICE (IdUuid 70) sample_game sample_room, [ChangeDevice 70], dto)"
proof -
  obtain m where "lin_main sample_game = Some m" by (simp add: sample_game_def)
  moreover have "assertTarget DEVICE (IdUuid 70) (set_commit live_ctx 7 DEVICE (IdUuid 70) sample_game sample_room) = Inr ()"
    by (simp add: assertTarget_def set_commit_def sample_room_def sample_device_def)
  ultimately show ?thesis
    using sample_game_prepares
    by (simp add: live_set_def live_get_def Let_def changeOf_def scope_change_def sample_admin_def)
qed

theorem live_set_shown_witness:
  "\<exists>db' dto. live_set live_ctx (sample_admin 7) DEVICE (IdUuid 70) sample_game sample_room = Inr (db', [ChangeDevice 70], dto)
     \<and> map_option ll_main dto = Some (lin_main sample_game)
     \<and> layerOf db' DEVICE (IdUuid 71) = layerOf sample_room DEVICE (IdUuid 71)"
proof -
  obtain dto where r: "live_set live_ctx (sample_admin 7) DEVICE (IdUuid 70) sample_game sample_room
    = Inr (set_commit live_ctx 7 DEVICE (IdUuid 70) sample_game sample_room, [ChangeDevice 70], dto)"
    using sample_live_set by blast
  have "lin_main sample_game \<noteq> None \<or> lin_alert sample_game \<noteq> None" by (simp add: sample_game_def)
  moreover have "distinct (map live_key (t_liveStates sample_room))"
    by (simp add: sample_room_def empty_database_def)
  moreover have "first_row (\<lambda>u. u_id u = au_id (sample_admin 7)) (t_users sample_room) = Some sample_user"
    by (simp add: sample_room_def sample_admin_def sample_user_def)
  moreover have "(DEVICE, IdUuid 71) \<noteq> (DEVICE, IdUuid 70)" by simp
  ultimately show ?thesis using live_set_shown[OF r] r by fastforce
qed

end
