(* ===== verification/Target_Groups.thy ===== *)
theory Target_Groups
  imports Live Submissions
begin

text \<open>
  Location groups: \<open>src/src/target-groups/target-groups.service.ts\<close> (\<open>findUnavailable\<close> is in
  \<open>Submissions\<close>). Names are unique up to case; \<open>lower\<close> is the database's \<open>lower\<close>. The identifiers
  of a new group and of its first block are arguments.
\<close>

section \<open>Reading\<close>

record target_group_dto =
  tgd_id :: slug
  tgd_name :: utext
  tgd_deviceCount :: nat
  tgd_isHidden :: bool

definition deviceCount :: "database \<Rightarrow> slug \<Rightarrow> nat" where
  "deviceCount db i = length (filter (\<lambda>r. dtg_targetGroupId r = i
     \<and> (case first_row (\<lambda>d. d_id d = dtg_deviceId r) (t_devices db) of Some d \<Rightarrow> d_isActive d | None \<Rightarrow> False))
     (t_deviceTargetGroups db))"

definition group_summary :: "database \<Rightarrow> target_group \<Rightarrow> target_group_dto" where
  "group_summary db g = \<lparr>tgd_id = tg_id g, tgd_name = tg_name g, tgd_deviceCount = deviceCount db (tg_id g),
     tgd_isHidden = (\<not> tg_isActive g)\<rparr>"

definition findAll_groups :: "database \<Rightarrow> target_group_dto list" where
  "findAll_groups db = map (group_summary db) (order_asc (\<lambda>g. (tg_name g, tg_id g)) (t_targetGroups db))"

definition findOne_group :: "slug \<Rightarrow> database \<Rightarrow> target_group_dto res" where
  "findOne_group i db =
     bindE (requireE (first_row (\<lambda>g. tg_id g = i) (t_targetGroups db)) lineup_notFound) (\<lambda>g. Inr (group_summary db g))"

section \<open>Creating and renaming\<close>

text \<open>The unique index on the lower-case name, and the 422 its violation is turned into.\<close>

definition name_taken :: "(utext \<Rightarrow> utext) \<Rightarrow> slug \<Rightarrow> utext \<Rightarrow> database \<Rightarrow> bool" where
  "name_taken lower i name db \<longleftrightarrow> list_ex (\<lambda>g. tg_id g \<noteq> i \<and> lower (tg_name g) = lower name) (t_targetGroups db)"

definition duplicate_name :: exc where
  "duplicate_name = validationFailed [(''name'', Msg ''There is a group of this name already'')]"

definition create_group_commit ::
    "(utext \<Rightarrow> utext) \<Rightarrow> (nat \<Rightarrow> string) \<Rightarrow> slug \<Rightarrow> ctx \<Rightarrow> uuid \<Rightarrow> utext \<Rightarrow> database \<Rightarrow> database res" where
  "create_group_commit lower fresh i c admin name db =
     (if i \<in> tg_id ` set (t_targetGroups db) then Inl (constraintError ''target_groups_pkey'')
      else if name_taken lower i name db then Inl duplicate_name
      else bindE (createDefaultLineup fresh i (now c)
             (db\<lparr>t_targetGroups := insert_row
                \<lparr>tg_id = i, tg_name = name, tg_sortOrder = 0, tg_isActive = True, tg_createdAt = now c,
                 tg_updatedAt = now c\<rparr> (t_targetGroups db)\<rparr>)) (\<lambda>db1.
        Inr (record_audit (currentRequestId c) (uuids c 0)
          (group_audit admin GROUP_CREATED i (Some (JObj [(''name'', JStr name)])) (now c)) db1)))"

definition create_group ::
    "(utext \<Rightarrow> utext) \<Rightarrow> (nat \<Rightarrow> string) \<Rightarrow> slug \<Rightarrow> ctx \<Rightarrow> auth_user \<Rightarrow> utext \<Rightarrow> database
       \<Rightarrow> (database \<times> target_group_dto) res" where
  "create_group lower fresh i c admin name db =
     bindE (create_group_commit lower fresh i c (au_id admin) name db) (\<lambda>db'.
     bindE (findOne_group i db') (\<lambda>dto. Inr (db', dto)))"

record update_group_dto =
  ug_name :: "utext option"
  ug_isHidden :: "bool option"

definition changed_name :: "update_group_dto \<Rightarrow> target_group \<Rightarrow> utext option" where
  "changed_name dto g = (if ug_name dto = Some (tg_name g) then None else ug_name dto)"

definition changed_hidden :: "update_group_dto \<Rightarrow> target_group \<Rightarrow> bool option" where
  "changed_hidden dto g = (if ug_isHidden dto = Some (\<not> tg_isActive g) then None else ug_isHidden dto)"

definition group_changes :: "update_group_dto \<Rightarrow> target_group \<Rightarrow> json obj" where
  "group_changes dto g =
     (case changed_name dto g of
        Some n \<Rightarrow> [(''name'', JObj [(''from'', JStr (tg_name g)), (''to'', JStr n)])] | None \<Rightarrow> [])
     @ (case changed_hidden dto g of
          Some h \<Rightarrow> [(''isHidden'', JObj [(''from'', JBool (\<not> tg_isActive g)), (''to'', JBool h)])] | None \<Rightarrow> [])"

definition changed_group :: "time \<Rightarrow> update_group_dto \<Rightarrow> target_group \<Rightarrow> target_group" where
  "changed_group t dto g =
     g\<lparr>tg_name := or_else (changed_name dto g) (tg_name g),
       tg_isActive := (case changed_hidden dto g of Some h \<Rightarrow> \<not> h | None \<Rightarrow> tg_isActive g), tg_updatedAt := t\<rparr>"

definition update_group_commit ::
    "(utext \<Rightarrow> utext) \<Rightarrow> ctx \<Rightarrow> uuid \<Rightarrow> slug \<Rightarrow> update_group_dto \<Rightarrow> database \<Rightarrow> database res" where
  "update_group_commit lower c admin i dto db =
     bindE (requireE (first_row (\<lambda>g. tg_id g = i) (t_targetGroups db)) lineup_notFound) (\<lambda>cur.
       if group_changes dto cur = [] then Inr db
       else if (case changed_name dto cur of Some n \<Rightarrow> name_taken lower i n db | None \<Rightarrow> False) then Inl duplicate_name
       else Inr (record_audit (currentRequestId c) (uuids c 0)
         (group_audit admin GROUP_UPDATED i (Some (JObj [(''changes'', JObj (group_changes dto cur))])) (now c))
         (db\<lparr>t_targetGroups := update_where (\<lambda>g. tg_id g = i) (changed_group (now c) dto) (t_targetGroups db)\<rparr>)))"

definition update_group ::
    "(utext \<Rightarrow> utext) \<Rightarrow> ctx \<Rightarrow> auth_user \<Rightarrow> slug \<Rightarrow> update_group_dto \<Rightarrow> database
       \<Rightarrow> (database \<times> target_group_dto) res" where
  "update_group lower c admin i dto db =
     bindE (update_group_commit lower c (au_id admin) i dto db) (\<lambda>db'.
     bindE (findOne_group i db') (\<lambda>r. Inr (db', r)))"

section \<open>Removing\<close>

record group_usage =
  gu_deviceIds :: "uuid list"
  gu_submissionCount :: nat

definition usageOf :: "database \<Rightarrow> slug \<Rightarrow> group_usage" where
  "usageOf db i =
     \<lparr>gu_deviceIds = sort (remdups (map d_id (select
        (\<lambda>d. d_programGroupId d = i \<or> list_ex (\<lambda>r. dtg_deviceId r = d_id d \<and> dtg_targetGroupId r = i) (t_deviceTargetGroups db))
        (t_devices db)))),
      gu_submissionCount = length (select (\<lambda>r. stg_targetGroupId r = i) (t_submissionTargetGroups db))\<rparr>"

definition group_inUse :: "group_usage \<Rightarrow> exc" where
  "group_inUse u = AppException 409 IN_USE (Msg ''Target group is used by devices or submissions'') None
     (Some [(''deviceIds'', JArr (map JUuid (gu_deviceIds u))), (''submissionCount'', JNum (int (gu_submissionCount u)))])"

text \<open>
  The foreign keys that point at a group (\<open>GROUP_REFERENCES\<close>): a deletion they forbid fails and is
  answered as in use. The lineup and its blocks go with the group.
\<close>

definition group_referenced :: "database \<Rightarrow> slug \<Rightarrow> bool" where
  "group_referenced db i \<longleftrightarrow> list_ex (\<lambda>r. dtg_targetGroupId r = i) (t_deviceTargetGroups db)
     \<or> list_ex (\<lambda>r. stg_targetGroupId r = i) (t_submissionTargetGroups db)
     \<or> list_ex (\<lambda>d. d_programGroupId d = i) (t_devices db)"

definition delete_group :: "slug \<Rightarrow> database \<Rightarrow> database" where
  "delete_group i db =
     db\<lparr>t_targetGroups := delete_where (\<lambda>g. tg_id g = i) (t_targetGroups db),
        t_groupLineups := delete_where (\<lambda>g. gl_groupId g = i) (t_groupLineups db),
        t_lineupBlocks := delete_where (\<lambda>b. lb_groupId b = i) (t_lineupBlocks db),
        t_liveStates := delete_where (\<lambda>l. live_key l = (GROUP, IdSlug i)) (t_liveStates db)\<rparr>"

definition remove_group :: "ctx \<Rightarrow> auth_user \<Rightarrow> slug \<Rightarrow> database \<Rightarrow> database res" where
  "remove_group c admin i db =
     bindE (requireE (first_row (\<lambda>g. tg_id g = i) (t_targetGroups db)) lineup_notFound) (\<lambda>g.
       let usage = usageOf db i in
       if gu_deviceIds usage \<noteq> [] \<or> gu_submissionCount usage > 0 \<or> group_referenced db i
       then Inl (group_inUse usage)
       else Inr (record_audit (currentRequestId c) (uuids c 0)
         (group_audit (au_id admin) GROUP_DELETED i (Some (JObj [(''name'', JStr (tg_name g))])) (now c))
         (delete_group i db)))"

section \<open>Facts\<close>

lemma create_group_Inr:
  assumes "create_group_commit lower fresh i c admin name db = Inr db'"
  shows "i \<notin> tg_id ` set (t_targetGroups db)" and "\<not> name_taken lower i name db"
    and "map tg_id (t_targetGroups db') = map tg_id (t_targetGroups db) @ [i]"
    and "map tg_name (t_targetGroups db') = map tg_name (t_targetGroups db) @ [name]"
    and "t_groupLineups db' = insert_row \<lparr>gl_groupId = i, gl_version = 1, gl_settings = DEFAULT_LINEUP_SETTINGS,
           gl_updatedBy = None, gl_updatedAt = now c\<rparr> (t_groupLineups db)"
    and "t_lineupBlocks db' = t_lineupBlocks db @ [blockRow i fresh 0 default_block]"
    and "t_programs db' = t_programs db" and "t_devices db' = t_devices db"
    and "t_deviceTargetGroups db' = t_deviceTargetGroups db" and "t_users db' = t_users db"
  using assms
  by (auto simp: create_group_commit_def createDefaultLineup_def res_simps insert_blocks_def Let_def insert_row_def
      split: if_splits)

lemma update_group_Inr:
  assumes "update_group_commit lower c admin i dto db = Inr db'"
  shows "map tg_id (t_targetGroups db') = map tg_id (t_targetGroups db)"
    and "t_groupLineups db' = t_groupLineups db" and "t_lineupBlocks db' = t_lineupBlocks db"
    and "t_programs db' = t_programs db" and "t_devices db' = t_devices db"
    and "t_deviceTargetGroups db' = t_deviceTargetGroups db"
proof -
  have m: "map tg_id (update_where (\<lambda>g. tg_id g = i) (changed_group (now c) dto) tab) = map tg_id tab" for tab
    by (rule map_update_where) (simp add: changed_group_def)
  show "map tg_id (t_targetGroups db') = map tg_id (t_targetGroups db)"
    "t_groupLineups db' = t_groupLineups db" "t_lineupBlocks db' = t_lineupBlocks db"
    "t_programs db' = t_programs db" "t_devices db' = t_devices db"
    "t_deviceTargetGroups db' = t_deviceTargetGroups db"
    using assms m by (auto simp: update_group_commit_def res_simps split: if_splits)
qed

lemma remove_group_Inr:
  assumes "remove_group c admin i db = Inr db'"
  shows "\<not> group_referenced db i"
    and "t_targetGroups db' = delete_where (\<lambda>g. tg_id g = i) (t_targetGroups db)"
    and "t_groupLineups db' = delete_where (\<lambda>g. gl_groupId g = i) (t_groupLineups db)"
    and "t_lineupBlocks db' = delete_where (\<lambda>b. lb_groupId b = i) (t_lineupBlocks db)"
    and "t_programs db' = t_programs db" and "t_devices db' = t_devices db"
    and "t_deviceTargetGroups db' = t_deviceTargetGroups db"
    and "t_submissionTargetGroups db' = t_submissionTargetGroups db"
  using assms by (auto simp: remove_group_def delete_group_def res_simps Let_def split: if_splits)

section \<open>Names\<close>

definition names_unique :: "(utext \<Rightarrow> utext) \<Rightarrow> database \<Rightarrow> bool" where
  "names_unique lower db \<longleftrightarrow> distinct (map tg_id (t_targetGroups db))
     \<and> distinct (map (\<lambda>g. lower (tg_name g)) (t_targetGroups db))"

end
