(* ===== verification/Devices.thy ===== *)
theory Devices
  imports Target_Groups
begin

text \<open>
  Devices: \<open>src/src/devices/devices.service.ts\<close>, \<open>device-status.ts\<close>, \<open>auth/device-token.ts\<close> and
  \<open>auth/device-auth.ts\<close>. The SHA-256 of a token (\<open>sha\<close>), the token drawn and the set of devices that
  have a control channel open (\<open>connected\<close>) are arguments. A handler that reads before its
  transaction is a \<open>..._prepare\<close> and a \<open>..._commit\<close>; what it does to control channels and announces
  is listed in its result.
\<close>

section \<open>Status\<close>

definition ONLINE_WITHIN_MS :: time where "ONLINE_WITHIN_MS = 90000"

definition hasRecentHeartbeat :: "device \<Rightarrow> time \<Rightarrow> bool" where
  "hasRecentHeartbeat d t = (case d_lastSeenAt d of None \<Rightarrow> False | Some s \<Rightarrow> t - s \<le> ONLINE_WITHIN_MS)"

definition deviceStatusOf :: "device \<Rightarrow> lineup_settings \<Rightarrow> time \<Rightarrow> device_status" where
  "deviceStatusOf d settings t =
     (if \<not> d_isActive d then DISABLED
      else if isQuietAt (ls_quietHours settings) t then SLEEPING
      else if hasRecentHeartbeat d t then ONLINE else OFFLINE)"

section \<open>Tokens\<close>

definition token_char :: "char \<Rightarrow> bool" where
  "token_char c \<longleftrightarrow> (let n = of_char c :: nat in
     (48 \<le> n \<and> n \<le> 57) \<or> (65 \<le> n \<and> n \<le> 90) \<or> (97 \<le> n \<and> n \<le> 122) \<or> c = CHR ''_'' \<or> c = CHR ''-'')"

definition looksLikeDeviceToken :: "string \<Rightarrow> bool" where
  "looksLikeDeviceToken s \<longleftrightarrow> take 4 s = ''fgd_'' \<and> length (drop 4 s) = 43 \<and> list_all token_char (drop 4 s)"

definition unauthenticated :: "string \<Rightarrow> exc" where
  "unauthenticated m = app_error 401 UNAUTHENTICATED m"

text \<open>The guard of the routes a screen calls; \<open>path\<close> is the \<open>:deviceId\<close> of the route, if it has one.\<close>

definition deviceAuthGuard ::
    "(string \<Rightarrow> string) \<Rightarrow> string option \<Rightarrow> uuid option \<Rightarrow> database \<Rightarrow> device res" where
  "deviceAuthGuard sha header path db = (case header of
      None \<Rightarrow> Inl (unauthenticated ''Missing or malformed device token'')
    | Some token \<Rightarrow>
        if \<not> looksLikeDeviceToken token then Inl (unauthenticated ''Missing or malformed device token'')
        else bindE (requireE (first_row (\<lambda>d. d_tokenHash d = sha token \<and> d_isActive d) (t_devices db))
                     (unauthenticated ''Invalid device token'')) (\<lambda>d.
          if path \<noteq> None \<and> path \<noteq> Some (d_id d)
          then Inl (app_error 403 FORBIDDEN ''Device token does not match this device'')
          else Inr d))"

section \<open>Answers\<close>

record device_dto =
  dd_row :: device
  dd_groupIds :: "slug list"
  dd_resolution :: "(int \<times> int) option"
  dd_live :: "live_layer option"
  dd_status :: device_status
  dd_controlConnected :: bool
  dd_posterLayout :: poster_layout
  dd_rotationSeconds :: int
  dd_refreshAfterSeconds :: int

text \<open>The row without its token hash; the other columns are answered as they are, but the resolution.\<close>

definition without_token :: "device \<Rightarrow> device" where
  "without_token d = d\<lparr>d_tokenHash := []\<rparr>"

definition device_toDto ::
    "device \<Rightarrow> slug list \<Rightarrow> lineup_settings \<Rightarrow> live_layer option \<Rightarrow> bool \<Rightarrow> time \<Rightarrow> device_dto" where
  "device_toDto d groupIds settings live controlConnected t =
     \<lparr>dd_row = without_token d, dd_groupIds = groupIds,
      dd_resolution = (case (d_resolutionWidth d, d_resolutionHeight d) of
          (Some w, Some h) \<Rightarrow> if w \<noteq> 0 \<and> h \<noteq> 0 then Some (w, h) else None | _ \<Rightarrow> None),
      dd_live = live, dd_status = deviceStatusOf d settings t,
      dd_controlConnected = controlConnected, dd_posterLayout = ls_posterLayout settings,
      dd_rotationSeconds = ls_rotationSeconds settings, dd_refreshAfterSeconds = ls_refreshAfterSeconds settings\<rparr>"

definition groupIdsOf :: "database \<Rightarrow> uuid \<Rightarrow> slug list" where
  "groupIdsOf db i = order_asc (\<lambda>g. g) (groupsOfDevice db i)"

definition dtosOf :: "(uuid \<Rightarrow> bool) \<Rightarrow> time \<Rightarrow> database \<Rightarrow> device list \<Rightarrow> device_dto list" where
  "dtosOf connected t db rows =
     map (\<lambda>d. device_toDto d (groupIdsOf db (d_id d)) (effectiveSettings d (settingsOf db))
            (effectiveFor db t (groupIdsOf db (d_id d)) (d_id d)) (connected (d_id d)) t) rows"

definition list_devices :: "(uuid \<Rightarrow> bool) \<Rightarrow> time \<Rightarrow> database \<Rightarrow> device_dto list \<times> time" where
  "list_devices connected t db = (dtosOf connected t db (order_asc (\<lambda>d. (d_name d, d_id d)) (t_devices db)), t)"

definition findDevice :: "uuid \<Rightarrow> database \<Rightarrow> device res" where
  "findDevice i db = requireE (first_row (\<lambda>d. d_id d = i) (t_devices db)) device_notFound"

definition findOne_device :: "(uuid \<Rightarrow> bool) \<Rightarrow> time \<Rightarrow> uuid \<Rightarrow> database \<Rightarrow> device_dto res" where
  "findOne_device connected t i db = bindE (findDevice i db) (\<lambda>d. Inr (hd (dtosOf connected t db [d])))"

section \<open>Registering\<close>

datatype device_effect = Announce signage_change | Disconnect uuid

record create_device_dto =
  cdv_name :: utext
  cdv_location :: "utext option"
  cdv_orientation :: "device_orientation option"
  cdv_groupIds :: "slug list option"
  cdv_programGroupId :: "slug option"

definition assertProgramGroupIn :: "slug \<Rightarrow> slug list \<Rightarrow> unit res" where
  "assertProgramGroupIn p gs =
     (if p \<in> set gs then Inr ()
      else Inl (validationFailed [(''programGroupId'', Msg ''The lineup group must be one of the location groups'')]))"

definition assertGroups :: "database \<Rightarrow> slug list \<Rightarrow> unit res" where
  "assertGroups db gs =
     (let unavailable = findUnavailable db gs
      in if unavailable = [] then Inr ()
         else Inl (validationFailed [(''groupIds'', MsgOf ''There are location groups that cannot be chosen''
                (JArr (map JText unavailable)))]))"

text \<open>Primary and foreign key of \<open>device_target_groups\<close>.\<close>

definition replaceGroups :: "uuid \<Rightarrow> slug list \<Rightarrow> database \<Rightarrow> database res" where
  "replaceGroups i gs db =
     (if \<not> distinct gs then Inl (constraintError ''device_target_groups_pkey'')
      else if \<not> set gs \<subseteq> tg_id ` set (t_targetGroups db) then Inl (constraintError ''device_target_groups_fk'')
      else Inr (db\<lparr>t_deviceTargetGroups := delete_where (\<lambda>r. dtg_deviceId r = i) (t_deviceTargetGroups db)
           @ map (\<lambda>g. \<lparr>dtg_deviceId = i, dtg_targetGroupId = g\<rparr>) gs\<rparr>))"

definition device_audit :: "uuid \<Rightarrow> audit_action \<Rightarrow> uuid \<Rightarrow> json option \<Rightarrow> time \<Rightarrow> audit_entry" where
  "device_audit admin action i metadata t =
     \<lparr>ae_actorType = ACTOR_USER, ae_actorId = Some admin, ae_action = action, ae_targetType = TARGET_DEVICE,
      ae_targetId = IdUuid i, ae_reason = None, ae_metadata = metadata, ae_at = t\<rparr>"

definition create_device_prepare :: "create_device_dto \<Rightarrow> database \<Rightarrow> (slug list \<times> slug) res" where
  "create_device_prepare dto db =
     (let gs = or_else (cdv_groupIds dto) [];
          p = (case cdv_programGroupId dto of Some p \<Rightarrow> Some p | None \<Rightarrow> (case gs of [] \<Rightarrow> None | g # _ \<Rightarrow> Some g))
      in bindE (requireE p (validationFailed
           [(''programGroupId'', Msg ''Choose a lineup group; there must be a location group'')])) (\<lambda>p.
         bindE (assertProgramGroupIn p gs) (\<lambda>_.
         bindE (assertGroups db gs) (\<lambda>_. Inr (gs, p)))))"

definition new_device :: "(string \<Rightarrow> string) \<Rightarrow> uuid \<Rightarrow> string \<Rightarrow> time \<Rightarrow> slug \<Rightarrow> create_device_dto \<Rightarrow> device" where
  "new_device sha i token t p dto =
     \<lparr>d_id = i, d_name = cdv_name dto, d_location = cdv_location dto,
      d_orientation = or_else (cdv_orientation dto) LANDSCAPE, d_programGroupId = p,
      d_lineupOverrides = EMPTY_OVERRIDES, d_isActive = True, d_tokenHash = sha token, d_tokenIssuedAt = t,
      d_lastSeenAt = None, d_appVersion = None, d_resolutionWidth = None, d_resolutionHeight = None,
      d_lastPlaylistVersion = None, d_lastRenderOkAt = None, d_nowPlaying = None, d_createdAt = t, d_updatedAt = t\<rparr>"

definition create_device_commit ::
    "(string \<Rightarrow> string) \<Rightarrow> string \<Rightarrow> ctx \<Rightarrow> uuid \<Rightarrow> create_device_dto \<Rightarrow> slug list \<times> slug \<Rightarrow> database \<Rightarrow> database res" where
  "create_device_commit sha token c admin dto plan db =
     (let i = uuids c 0; gs = fst plan; p = snd plan in
      if i \<in> d_id ` set (t_devices db) then Inl (constraintError ''devices_pkey'')
      else if sha token \<in> d_tokenHash ` set (t_devices db) then Inl (constraintError ''devices_token_hash_unique'')
      else if p \<notin> tg_id ` set (t_targetGroups db) then Inl (constraintError ''devices_program_group_fk'')
      else bindE (replaceGroups i gs
             (db\<lparr>t_devices := insert_row (new_device sha i token (now c) p dto) (t_devices db)\<rparr>)) (\<lambda>db1.
        Inr (record_audit (currentRequestId c) (uuids c 1)
          (device_audit admin DEVICE_REGISTERED i
            (Some (JObj [(''name'', JStr (cdv_name dto)), (''groupIds'', JArr (map JText gs)), (''programGroupId'', JText p)]))
            (now c)) db1)))"

definition create_device ::
    "(string \<Rightarrow> string) \<Rightarrow> (uuid \<Rightarrow> bool) \<Rightarrow> string \<Rightarrow> ctx \<Rightarrow> auth_user \<Rightarrow> create_device_dto \<Rightarrow> database
       \<Rightarrow> (database \<times> device_dto \<times> string) res" where
  "create_device sha connected token c admin dto db =
     bindE (create_device_prepare dto db) (\<lambda>plan.
     bindE (create_device_commit sha token c (au_id admin) dto plan db) (\<lambda>db'.
     bindE (findOne_device connected (now c) (uuids c 0) db') (\<lambda>r. Inr (db', r, token))))"

section \<open>Changing\<close>

record update_device_dto =
  udv_name :: "utext option"
  udv_location :: "utext option option"
  udv_orientation :: "device_orientation option"
  udv_isActive :: "bool option"
  udv_programGroupId :: "slug option"
  udv_groupIds :: "slug list option"
  udv_overrides :: "json option"

definition update_device_prepare ::
    "uuid \<Rightarrow> update_device_dto \<Rightarrow> database \<Rightarrow> (slug \<times> device_overrides) res" where
  "update_device_prepare i dto db =
     bindE (findDevice i db) (\<lambda>cur.
       let currentGroups = groupIdsOf db i; p = or_else (udv_programGroupId dto) (d_programGroupId cur)
       in bindE (assertProgramGroupIn p (or_else (udv_groupIds dto) currentGroups)) (\<lambda>_.
          bindE (case udv_groupIds dto of
                   None \<Rightarrow> Inr ()
                 | Some gs \<Rightarrow> assertGroups db (filter (\<lambda>g. g \<notin> set currentGroups) gs)) (\<lambda>_.
          bindE (case udv_overrides dto of
                   None \<Rightarrow> Inr (d_lineupOverrides cur)
                 | Some v \<Rightarrow> parseOrFail (parse deviceOverridesSchema) v (Some ''overrides'')) (\<lambda>over.
          Inr (p, over)))))"

definition changed_device :: "time \<Rightarrow> update_device_dto \<Rightarrow> device_overrides \<Rightarrow> device \<Rightarrow> device" where
  "changed_device t dto over d =
     d\<lparr>d_name := or_else (udv_name dto) (d_name d), d_location := or_else (udv_location dto) (d_location d),
       d_orientation := or_else (udv_orientation dto) (d_orientation d),
       d_isActive := or_else (udv_isActive dto) (d_isActive d),
       d_programGroupId := or_else (udv_programGroupId dto) (d_programGroupId d),
       d_lineupOverrides := over, d_updatedAt := t\<rparr>"

definition changedFields :: "update_device_dto \<Rightarrow> string list" where
  "changedFields dto =
     (if udv_name dto \<noteq> None then [''name''] else []) @ (if udv_location dto \<noteq> None then [''location''] else [])
     @ (if udv_orientation dto \<noteq> None then [''orientation''] else [])
     @ (if udv_isActive dto \<noteq> None then [''isActive''] else [])
     @ (if udv_programGroupId dto \<noteq> None then [''programGroupId''] else [])
     @ (if udv_groupIds dto \<noteq> None then [''groupIds''] else [])
     @ (if udv_overrides dto \<noteq> None then [''overrides''] else [])"

definition update_device_commit ::
    "ctx \<Rightarrow> uuid \<Rightarrow> uuid \<Rightarrow> update_device_dto \<Rightarrow> slug \<times> device_overrides \<Rightarrow> database \<Rightarrow> database res" where
  "update_device_commit c admin i dto plan db =
     bindE (prepareOverrides (fst plan) (snd plan) db) (\<lambda>over.
       if (case udv_programGroupId dto of Some p \<Rightarrow> p \<notin> tg_id ` set (t_targetGroups db) | None \<Rightarrow> False)
       then Inl (constraintError ''devices_program_group_fk'')
       else let db1 = db\<lparr>t_devices := update_where (\<lambda>d. d_id d = i) (changed_device (now c) dto over) (t_devices db)\<rparr> in
         bindE (case udv_groupIds dto of None \<Rightarrow> Inr db1 | Some gs \<Rightarrow> replaceGroups i gs db1) (\<lambda>db2.
         Inr (record_audit (currentRequestId c) (uuids c 0)
           (device_audit admin DEVICE_UPDATED i
             (Some (JObj [(''changedFields'', JArr (map JText (changedFields dto)))])) (now c)) db2)))"

definition update_device ::
    "(uuid \<Rightarrow> bool) \<Rightarrow> ctx \<Rightarrow> auth_user \<Rightarrow> uuid \<Rightarrow> update_device_dto \<Rightarrow> database
       \<Rightarrow> (database \<times> device_effect list \<times> device_dto) res" where
  "update_device connected c admin i dto db =
     bindE (update_device_prepare i dto db) (\<lambda>plan.
     bindE (update_device_commit c (au_id admin) i dto plan db) (\<lambda>db'.
     bindE (findOne_device connected (now c) i db') (\<lambda>r.
     Inr (db', if udv_isActive dto = Some False then [Disconnect i] else [Announce (ChangeDevice i)], r))))"

section \<open>Tokens again, reload and session\<close>

definition rotated_device :: "(string \<Rightarrow> string) \<Rightarrow> string \<Rightarrow> time \<Rightarrow> device \<Rightarrow> device" where
  "rotated_device sha token t d = d\<lparr>d_tokenHash := sha token, d_tokenIssuedAt := t, d_updatedAt := t\<rparr>"

definition rotateToken_commit :: "(string \<Rightarrow> string) \<Rightarrow> string \<Rightarrow> ctx \<Rightarrow> uuid \<Rightarrow> uuid \<Rightarrow> database \<Rightarrow> database res" where
  "rotateToken_commit sha token c admin i db =
     (if list_ex (\<lambda>d. d_id d \<noteq> i \<and> d_tokenHash d = sha token) (t_devices db)
      then Inl (constraintError ''devices_token_hash_unique'')
      else Inr (record_audit (currentRequestId c) (uuids c 0)
        (device_audit admin DEVICE_TOKEN_ROTATED i None (now c))
        (db\<lparr>t_devices := update_where (\<lambda>d. d_id d = i) (rotated_device sha token (now c)) (t_devices db)\<rparr>)))"

definition rotateToken ::
    "(string \<Rightarrow> string) \<Rightarrow> (uuid \<Rightarrow> bool) \<Rightarrow> string \<Rightarrow> ctx \<Rightarrow> auth_user \<Rightarrow> uuid \<Rightarrow> database
       \<Rightarrow> (database \<times> device_effect list \<times> device_dto \<times> string) res" where
  "rotateToken sha connected token c admin i db =
     bindE (findDevice i db) (\<lambda>_.
     bindE (rotateToken_commit sha token c (au_id admin) i db) (\<lambda>db'.
     bindE (findOne_device connected (now c) i db') (\<lambda>r. Inr (db', [Disconnect i], r, token))))"

definition reload_device :: "(uuid \<Rightarrow> bool) \<Rightarrow> uuid \<Rightarrow> database \<Rightarrow> bool res" where
  "reload_device connected i db = bindE (findDevice i db) (\<lambda>_. Inr (connected i))"

record device_session_dto =
  dse_deviceId :: uuid
  dse_name :: utext
  dse_location :: "utext option"
  dse_orientation :: device_orientation
  dse_serverTime :: time

definition device_session :: "time \<Rightarrow> device \<Rightarrow> device_session_dto" where
  "device_session t d = \<lparr>dse_deviceId = d_id d, dse_name = d_name d, dse_location = d_location d,
     dse_orientation = d_orientation d, dse_serverTime = t\<rparr>"

end
