(* ===== verification/Signage_Integrity.thy ===== *)
theory Signage_Integrity
  imports Devices Lineup_Properties
begin

text \<open>
  What stays true while administrators change programs, lineups, groups and devices at the same
  time: \<open>signage_step\<close> is one committed transaction of any of these services, with whatever the
  handler had read before it. The references hidden in \<open>jsonb\<close> columns, which no foreign key
  guards, stay as sound as those the database checks.
\<close>

section \<open>Steps\<close>

inductive signage_step :: "database \<Rightarrow> database \<Rightarrow> bool" where
  replace: "replace_commit fresh c admin g input db = Inr db' \<Longrightarrow> signage_step db db'"
| program_created: "create_program_commit i c admin pinput db = Inr db' \<Longrightarrow> signage_step db db'"
| program_updated: "signage_step db (update_program_commit c admin i name params db)"
| program_removed: "remove_program c user i db = Inr db' \<Longrightarrow> signage_step db db'"
| group_created: "create_group_commit lower fresh i c admin gname db = Inr db' \<Longrightarrow> signage_step db db'"
| group_updated: "update_group_commit lower c admin i gdto db = Inr db' \<Longrightarrow> signage_step db db'"
| group_removed: "remove_group c user i db = Inr db' \<Longrightarrow> signage_step db db'"
| device_created: "create_device_commit sha token c admin cdto plan db = Inr db' \<Longrightarrow> signage_step db db'"
| device_updated: "update_device_commit c admin d udto uplan db = Inr db' \<Longrightarrow> signage_step db db'"
| token_rotated: "rotateToken_commit sha token c admin d db = Inr db' \<Longrightarrow> signage_step db db'"

section \<open>Sound references\<close>

definition fits :: "program table \<Rightarrow> info_bar_entry \<Rightarrow> bool" where
  "fits programs e \<longleftrightarrow> (\<exists>p \<in> set programs. p_id p = ib_programId e \<and> infoBarItemOf (p_type p) = Some (ib_item e))"

definition programs_exist :: "database \<Rightarrow> bool" where
  "programs_exist db \<longleftrightarrow>
     (\<forall>b \<in> set (t_lineupBlocks db). pred_option (\<lambda>p. p \<in> p_id ` set (t_programs db)) (lb_programId b))
     \<and> (\<forall>g \<in> set (t_groupLineups db). \<forall>e \<in> set (ls_infoBar (gl_settings g)). fits (t_programs db) e)
     \<and> (\<forall>d \<in> set (t_devices db). \<forall>e \<in> set (device_infoBar d). fits (t_programs db) e)"

definition chosen_groups_exist :: "database \<Rightarrow> bool" where
  "chosen_groups_exist db \<longleftrightarrow>
     distinct (map tg_id (t_targetGroups db)) \<and> distinct (map gl_groupId (t_groupLineups db))
     \<and> set (map gl_groupId (t_groupLineups db)) = set (map tg_id (t_targetGroups db))
     \<and> (\<forall>b \<in> set (t_lineupBlocks db). lb_groupId b \<in> tg_id ` set (t_targetGroups db))
     \<and> (\<forall>d \<in> set (t_devices db). d_programGroupId d \<in> tg_id ` set (t_targetGroups db))
     \<and> (\<forall>r \<in> set (t_deviceTargetGroups db). dtg_targetGroupId r \<in> tg_id ` set (t_targetGroups db))"

section \<open>What the checks establish\<close>

lemma checkPrograms_Nil: "checkPrograms db refs = [] \<Longrightarrow> \<forall>r \<in> set refs. check_reference db r = None"
proof -
  have "fold (\<lambda>ref flds. case check_reference db ref of None \<Rightarrow> flds | Some m \<Rightarrow> AList.update (pr_path ref) m flds) refs fs = []
      \<Longrightarrow> fs = [] \<and> (\<forall>r \<in> set refs. check_reference db r = None)" for fs
  proof (induction refs arbitrary: fs)
    case (Cons r refs)
    show ?case
    proof (cases "check_reference db r")
      case None
      with Cons.prems Cons.IH[of fs] show ?thesis by simp
    next
      case (Some m)
      with Cons.prems Cons.IH[of "AList.update (pr_path r) m fs"] show ?thesis by simp
    qed
  qed simp
  then show "checkPrograms db refs = [] \<Longrightarrow> ?thesis" unfolding checkPrograms_def by blast
qed

lemma check_reference_fits:
  assumes "check_reference db \<lparr>pr_path = path, pr_programId = ib_programId e, pr_infoBarItem = Some (ib_item e)\<rparr> = None"
  shows "fits (t_programs db) e"
  using assms by (auto simp: check_reference_def fits_def split: option.splits if_splits dest!: first_row_Some)

lemma infoBar_checked:
  assumes "\<forall>r \<in> set (infoBarReferences es prefix). check_reference db r = None" and "e \<in> set (or_else es [])"
  shows "fits (t_programs db) e"
proof -
  from assms(2) obtain i where "i < length (or_else es [])" "or_else es [] ! i = e" by (auto simp: in_set_conv_nth)
  then have "(i, e) \<in> set (enumerate 0 (or_else es []))" by (auto simp: in_set_enumerate_eq)
  with assms(1) show ?thesis by (auto simp: infoBarReferences_def intro!: check_reference_fits)
qed

lemma prepareOverrides_Inr:
  assumes "prepareOverrides g over db = Inr over'" and "e \<in> set (or_else (ps_infoBar (do_settings over')) [])"
  shows "fits (t_programs db) e"
proof -
  from assms(1) have "checkPrograms db (infoBarReferences (ps_infoBar (do_settings over)) ''overrides.settings'') = []"
    and "do_settings over' = do_settings over"
    by (auto simp: prepareOverrides_def Let_def pruneOverrides_def split: if_splits)
  then show ?thesis using infoBar_checked[OF checkPrograms_Nil] assms(2) by simp
qed

lemma replace_fields_infoBar:
  assumes "replace_fields g input db = []" and "e \<in> set (ls_infoBar (li_settings input))"
  shows "fits (t_programs db) e"
proof -
  from assms(1) have "checkPrograms db (blockReferences (li_blocks input)
      @ infoBarReferences (Some (ls_infoBar (li_settings input))) ''settings'') = []"
    by (simp add: replace_fields_def)
  from checkPrograms_Nil[OF this] show ?thesis
    by (intro infoBar_checked[where es = "Some (ls_infoBar (li_settings input))" and prefix = "''settings''"])
       (use assms(2) in \<open>auto simp: or_else_def\<close>)
qed

section \<open>Programs keep their identity\<close>

lemma fits_updated: "fits (update_where P (changed_program t name params) ps) e = fits ps e"
  by (simp add: fits_def set_update_where bex_Un changed_program_def) blast

lemma ids_updated: "p_id ` set (update_where P (changed_program t name params) ps) = p_id ` set ps"
proof -
  have "map p_id (update_where P (changed_program t name params) ps) = map p_id ps"
    by (rule map_update_where) (simp add: changed_program_def)
  then show ?thesis by (metis set_map)
qed

lemma fits_mono: "fits ps e \<Longrightarrow> set ps \<subseteq> set qs \<Longrightarrow> fits qs e"
  by (auto simp: fits_def)

lemma fits_delete: "fits ps e \<Longrightarrow> ib_programId e \<noteq> i \<Longrightarrow> fits (delete_where (\<lambda>p. p_id p = i) ps) e"
  by (auto simp: fits_def)

lemma pred_option_mono': "pred_option P x \<Longrightarrow> (\<And>y. P y \<Longrightarrow> Q y) \<Longrightarrow> pred_option Q x"
  by (cases x) auto

section \<open>Devices\<close>

text \<open>The groups a row may have come to.\<close>

definition new_memberships :: "database \<Rightarrow> database \<Rightarrow> bool" where
  "new_memberships db db' \<longleftrightarrow> (\<forall>r \<in> set (t_deviceTargetGroups db').
     r \<in> set (t_deviceTargetGroups db) \<or> dtg_targetGroupId r \<in> tg_id ` set (t_targetGroups db))"

lemma replaceGroups_Inr:
  assumes "replaceGroups i gs db = Inr db'"
  shows "new_memberships db db'" and "t_devices db' = t_devices db" and "t_programs db' = t_programs db"
    and "t_groupLineups db' = t_groupLineups db" and "t_lineupBlocks db' = t_lineupBlocks db"
    and "t_targetGroups db' = t_targetGroups db"
proof -
  from assms have gs: "set gs \<subseteq> tg_id ` set (t_targetGroups db)"
    and db': "db' = db\<lparr>t_deviceTargetGroups := delete_where (\<lambda>r. dtg_deviceId r = i) (t_deviceTargetGroups db)
           @ map (\<lambda>g. \<lparr>dtg_deviceId = i, dtg_targetGroupId = g\<rparr>) gs\<rparr>"
    by (simp_all add: replaceGroups_def split: if_splits)
  have "dtg_targetGroupId r \<in> tg_id ` set (t_targetGroups db)"
    if "r \<in> set (map (\<lambda>g. \<lparr>dtg_deviceId = i, dtg_targetGroupId = g\<rparr>) gs)" for r :: device_target_group
    using that gs by (simp add: image_def) fastforce
  then show "new_memberships db db'" unfolding new_memberships_def db' by auto
qed (use assms in \<open>auto simp: replaceGroups_def split: if_splits\<close>)

lemma create_device_Inr:
  assumes "create_device_commit sha token c admin dto plan db = Inr db'"
  shows "t_devices db' = t_devices (db\<lparr>t_devices := insert_row (new_device sha (uuids c 0) token (now c) (snd plan) dto) (t_devices db)\<rparr>)"
    and "snd plan \<in> tg_id ` set (t_targetGroups db)"
    and "new_memberships db db'"
    and "t_programs db' = t_programs db" and "t_groupLineups db' = t_groupLineups db"
    and "t_lineupBlocks db' = t_lineupBlocks db" and "t_targetGroups db' = t_targetGroups db"
proof -
  let ?db1 = "db\<lparr>t_devices := insert_row (new_device sha (uuids c 0) token (now c) (snd plan) dto) (t_devices db)\<rparr>"
  from assms obtain db1 e where g: "replaceGroups (uuids c 0) (fst plan) ?db1 = Inr db1"
      "db' = record_audit (currentRequestId c) (uuids c 1) e db1" "snd plan \<in> tg_id ` set (t_targetGroups db)"
    by (auto simp: create_device_commit_def Let_def res_simps split: if_splits)
  then show "t_devices db' = t_devices ?db1" "snd plan \<in> tg_id ` set (t_targetGroups db)" "new_memberships db db'"
      "t_programs db' = t_programs db" "t_groupLineups db' = t_groupLineups db"
      "t_lineupBlocks db' = t_lineupBlocks db" "t_targetGroups db' = t_targetGroups db"
    using replaceGroups_Inr[OF g(1)] by (simp_all add: new_memberships_def)
qed

lemma update_device_Inr:
  assumes "update_device_commit c admin i dto plan db = Inr db'"
  obtains over where "prepareOverrides (fst plan) (snd plan) db = Inr over"
    and "t_devices db' = update_where (\<lambda>d. d_id d = i) (changed_device (now c) dto over) (t_devices db)"
    and "pred_option (\<lambda>p. p \<in> tg_id ` set (t_targetGroups db)) (udv_programGroupId dto)"
    and "new_memberships db db'"
    and "t_programs db' = t_programs db" "t_groupLineups db' = t_groupLineups db"
    and "t_lineupBlocks db' = t_lineupBlocks db" "t_targetGroups db' = t_targetGroups db"
proof -
  from assms obtain over db2 e where o': "prepareOverrides (fst plan) (snd plan) db = Inr over"
      "pred_option (\<lambda>p. p \<in> tg_id ` set (t_targetGroups db)) (udv_programGroupId dto)"
      "db' = record_audit (currentRequestId c) (uuids c 0) e db2"
    and g: "(case udv_groupIds dto of
         None \<Rightarrow> Inr (db\<lparr>t_devices := update_where (\<lambda>d. d_id d = i) (changed_device (now c) dto over) (t_devices db)\<rparr>)
       | Some gs \<Rightarrow> replaceGroups i gs (db\<lparr>t_devices := update_where (\<lambda>d. d_id d = i) (changed_device (now c) dto over) (t_devices db)\<rparr>))
       = Inr db2"
    by (auto simp: update_device_commit_def Let_def res_simps split: if_splits option.splits)
  have "t_devices db2 = update_where (\<lambda>d. d_id d = i) (changed_device (now c) dto over) (t_devices db)"
      "new_memberships db db2" "t_programs db2 = t_programs db" "t_groupLineups db2 = t_groupLineups db"
      "t_lineupBlocks db2 = t_lineupBlocks db" "t_targetGroups db2 = t_targetGroups db"
    using g replaceGroups_Inr[of i _ "db\<lparr>t_devices := update_where (\<lambda>d. d_id d = i) (changed_device (now c) dto over) (t_devices db)\<rparr>" db2]
    by (simp_all add: new_memberships_def split: option.splits) auto
  with o' show ?thesis by (intro that[of over]) (simp_all add: new_memberships_def)
qed

lemma device_infoBar_changed: "device_infoBar (changed_device t dto over d) = or_else (ps_infoBar (do_settings over)) []"
  by (simp add: device_infoBar_def changed_device_def)

lemma device_infoBar_new [simp]: "device_infoBar (new_device sha i token t p dto) = []"
  by (simp add: device_infoBar_def new_device_def EMPTY_OVERRIDES_def EMPTY_SETTINGS_def or_else_def)

lemma device_infoBar_rotated [simp]: "device_infoBar (rotated_device sha token t d) = device_infoBar d"
  by (simp add: device_infoBar_def rotated_device_def)

section \<open>The invariants\<close>

lemma step_programs_exist: "signage_step db db' \<Longrightarrow> programs_exist db \<Longrightarrow> programs_exist db'"
proof (induction rule: signage_step.induct)
  case (replace fresh c admin g input db db')
  note f = replace_commit_Inr[OF replace(1)]
  from f(12) have "\<forall>b \<in> set (new_rows fresh g (li_blocks input)). pred_option (\<lambda>p. p \<in> p_id ` set (t_programs db)) (lb_programId b)"
    by (simp add: list_all_iff)
  moreover have "\<forall>r \<in> set (t_groupLineups db'). \<forall>e \<in> set (ls_infoBar (gl_settings r)). fits (t_programs db) e"
    using replace(2) replace_fields_infoBar[OF f(2)] unfolding f(3) programs_exist_def
    by (auto simp: set_update_where replaced_lineup_def)
  ultimately show ?case using replace(2) unfolding programs_exist_def f(4-6) by (auto simp: other_blocks_def)
next
  case (program_created i c admin pinput db db')
  then have p: "set (t_programs db) \<subseteq> set (t_programs db')" and t: "t_lineupBlocks db' = t_lineupBlocks db"
      "t_groupLineups db' = t_groupLineups db" "t_devices db' = t_devices db"
    by (auto simp: create_program_commit_def split: if_splits)
  from program_created(2) show ?case
    unfolding programs_exist_def t by (meson fits_mono[OF _ p] image_mono[OF p] pred_option_mono' subsetD)
next
  case (program_updated db c admin i name params)
  then show ?case by (simp add: programs_exist_def update_program_commit_def fits_updated ids_updated)
next
  case (program_removed c user i db db')
  note r = remove_program_Inr[OF program_removed(1)]
  have "pred_option (\<lambda>p. p \<in> p_id ` set (t_programs db')) x"
    if "pred_option (\<lambda>p. p \<in> p_id ` set (t_programs db)) x" "x \<noteq> Some i" for x
    using that unfolding r(3) by (cases x) auto
  with program_removed(2) r(2) show ?case
    unfolding programs_exist_def unused_def r(3-6) by (auto intro!: fits_delete)
next
  case (group_created lower fresh i c admin gname db db')
  note r = create_group_Inr[OF group_created(1)]
  from group_created(2) show ?case
    unfolding programs_exist_def r(5-8)
    by (auto simp: blockRow_def default_block_def DEFAULT_LINEUP_SETTINGS_def)
next
  case (group_updated lower c admin i gdto db db')
  then show ?case using update_group_Inr[OF group_updated(1)] by (simp add: programs_exist_def)
next
  case (group_removed c user i db db')
  then show ?case using remove_group_Inr[OF group_removed(1)] by (auto simp: programs_exist_def)
next
  case (device_created sha token c admin cdto plan db db')
  then show ?case using create_device_Inr[OF device_created(1)] by (simp add: programs_exist_def)
next
  case (device_updated c admin d udto uplan db db')
  from device_updated(1) obtain over where over: "prepareOverrides (fst uplan) (snd uplan) db = Inr over"
      "t_devices db' = update_where (\<lambda>r. d_id r = d) (changed_device (now c) udto over) (t_devices db)"
      "t_programs db' = t_programs db" "t_groupLineups db' = t_groupLineups db" "t_lineupBlocks db' = t_lineupBlocks db"
    by (rule update_device_Inr) blast
  from device_updated(2) prepareOverrides_Inr[OF over(1)] show ?case
    unfolding programs_exist_def over(3-5) by (auto simp: over(2) set_update_where device_infoBar_changed)
next
  case (token_rotated sha token c admin d db db')
  then show ?case
    by (auto simp: programs_exist_def rotateToken_commit_def set_update_where split: if_splits)
qed

lemma ids_map: "map f xs = map f ys \<Longrightarrow> f ` set xs = f ` set ys"
  by (metis set_map)

lemma step_groups_exist: "signage_step db db' \<Longrightarrow> chosen_groups_exist db \<Longrightarrow> chosen_groups_exist db'"
proof (induction rule: signage_step.induct)
  case (replace fresh c admin g input db db')
  note f = replace_commit_Inr[OF replace(1)]
  from f(1) obtain cur where "first_row (\<lambda>r. gl_groupId r = g) (t_groupLineups db) = Some cur" by blast
  from first_row_Some[OF this] have "g \<in> gl_groupId ` set (t_groupLineups db)"
    by (intro image_eqI[of _ _ cur]) simp_all
  then have g: "g \<in> tg_id ` set (t_targetGroups db)" using replace(2) by (simp add: chosen_groups_exist_def)
  have m: "map gl_groupId (t_groupLineups db') = map gl_groupId (t_groupLineups db)"
    unfolding f(3) by (rule map_update_where) (simp add: replaced_lineup_def)
  from replace(2) g show ?case
    unfolding chosen_groups_exist_def m f(4,6,8,9) by (auto simp: other_blocks_def dest: group_new)
next
  case (program_created i c admin pinput db db')
  then have "t_targetGroups db' = t_targetGroups db" "t_groupLineups db' = t_groupLineups db"
      "t_lineupBlocks db' = t_lineupBlocks db" "t_devices db' = t_devices db"
      "t_deviceTargetGroups db' = t_deviceTargetGroups db"
    by (auto simp: create_program_commit_def split: if_splits)
  with program_created(2) show ?case by (simp add: chosen_groups_exist_def)
next
  case (program_updated db c admin i name params)
  then show ?case by (simp add: chosen_groups_exist_def update_program_commit_def)
next
  case (program_removed c user i db db')
  then show ?case using remove_program_Inr[OF program_removed(1)] by (simp add: chosen_groups_exist_def)
next
  case (group_created lower fresh i c admin gname db db')
  note r = create_group_Inr[OF group_created(1)]
  have t: "tg_id ` set (t_targetGroups db') = insert i (tg_id ` set (t_targetGroups db))"
    using arg_cong[OF r(3), of set] by simp
  have gl: "map gl_groupId (t_groupLineups db') = map gl_groupId (t_groupLineups db) @ [i]"
    unfolding r(5) by (simp add: insert_row_def)
  have "i \<notin> set (map gl_groupId (t_groupLineups db))"
    using group_created(2) r(1) unfolding chosen_groups_exist_def by simp
  with group_created(2) r(1) show ?case
    unfolding chosen_groups_exist_def set_map t r(3,6,8,9) gl by (auto simp: blockRow_def default_block_def)
next
  case (group_updated lower c admin i gdto db db')
  note r = update_group_Inr[OF group_updated(1)]
  from group_updated(2) show ?case unfolding chosen_groups_exist_def set_map r(2-6) r(1) ids_map[OF r(1)] by simp
next
  case (group_removed c user i db db')
  note r = remove_group_Inr[OF group_removed(1)]
  have d: "map tg_id (t_targetGroups db') = filter (\<lambda>x. x \<noteq> i) (map tg_id (t_targetGroups db))"
      "map gl_groupId (t_groupLineups db') = filter (\<lambda>x. x \<noteq> i) (map gl_groupId (t_groupLineups db))"
    by (simp_all add: r delete_where_def filter_map comp_def)
  have "tg_id ` set (t_targetGroups db') = tg_id ` set (t_targetGroups db) - {i}"
    using arg_cong[OF d(1), of set] by auto
  with group_removed(2) r(1) show ?case
    unfolding chosen_groups_exist_def d r(4,6,7) by (auto simp: group_referenced_def list_ex_iff)
next
  case (device_created sha token c admin cdto plan db db')
  note r = create_device_Inr[OF device_created(1)]
  from device_created(2) r(2) show ?case
    using r(3) unfolding chosen_groups_exist_def r(1,5-7) new_memberships_def by (auto simp: new_device_def)
next
  case (device_updated c admin d udto uplan db db')
  from device_updated(1) obtain over where over:
      "t_devices db' = update_where (\<lambda>r. d_id r = d) (changed_device (now c) udto over) (t_devices db)"
      "pred_option (\<lambda>p. p \<in> tg_id ` set (t_targetGroups db)) (udv_programGroupId udto)" "new_memberships db db'"
      "t_groupLineups db' = t_groupLineups db" "t_lineupBlocks db' = t_lineupBlocks db" "t_targetGroups db' = t_targetGroups db"
    by (rule update_device_Inr) blast
  have "d_programGroupId (changed_device (now c) udto over q) \<in> tg_id ` set (t_targetGroups db)"
    if "q \<in> set (t_devices db)" for q
    using that device_updated(2) over(2) by (cases "udv_programGroupId udto") (auto simp: chosen_groups_exist_def changed_device_def or_else_def)
  with device_updated(2) over(3) show ?case
    unfolding chosen_groups_exist_def over(4-6) new_memberships_def by (auto simp: over(1) set_update_where)
next
  case (token_rotated sha token c admin d db db')
  then have t: "t_targetGroups db' = t_targetGroups db" "t_groupLineups db' = t_groupLineups db"
      "t_lineupBlocks db' = t_lineupBlocks db" "t_deviceTargetGroups db' = t_deviceTargetGroups db"
      "t_devices db' = update_where (\<lambda>r. d_id r = d) (rotated_device sha token (now c)) (t_devices db)"
    by (auto simp: rotateToken_commit_def split: if_splits)
  from token_rotated(2) show ?case
    unfolding chosen_groups_exist_def t by (simp add: set_update_where rotated_device_def ball_Un)
qed

text \<open>
  C40: no screen is ever left pointing at something that is gone: from a state in which every lineup
  block, info bar and device override points at programs that exist and fit, every group has exactly
  one lineup, and every device belongs to groups that exist, no interleaving of the requests that
  create, change and delete programs, lineups, groups and devices leads out of such states.
\<close>

theorem signage_references_intact:
  assumes "signage_step\<^sup>*\<^sup>* db db'" and "programs_exist db" and "chosen_groups_exist db"
  shows "programs_exist db' \<and> chosen_groups_exist db'"
  using assms(1)
  by (induction rule: rtranclp_induct) (use assms(2,3) step_programs_exist step_groups_exist in blast)+

definition sample_group :: database where
  "sample_group = sample_lineups\<lparr>t_targetGroups := [\<lparr>tg_id = ''grp_a'', tg_name = codes ''A'', tg_sortOrder = 0,
     tg_isActive = True, tg_createdAt = 0, tg_updatedAt = 0\<rparr>]\<rparr>"

definition sample_program_input :: create_program_input where
  "sample_program_input = \<lparr>cpi_type = ''DDAY'', cpi_name = codes ''exam'', cpi_params = []\<rparr>"

theorem signage_references_intact_witness:
  "\<exists>db'. signage_step\<^sup>*\<^sup>* sample_group db' \<and> p_id ` set (t_programs db') = {''prg_1''}
     \<and> programs_exist db' \<and> chosen_groups_exist db'"
proof -
  have "\<exists>db'. create_program_commit ''prg_1'' \<lparr>now = 5, currentRequestId = None, uuids = id\<rparr> 7 sample_program_input
      sample_group = Inr db' \<and> p_id ` set (t_programs db') = {''prg_1''}"
    by (simp add: create_program_commit_def sample_group_def sample_lineups_def empty_database_def)
  then obtain db' where s: "signage_step sample_group db'" "p_id ` set (t_programs db') = {''prg_1''}"
    using signage_step.program_created by metis
  have "programs_exist sample_group" "chosen_groups_exist sample_group"
    by (simp_all add: programs_exist_def chosen_groups_exist_def sample_group_def sample_lineups_def empty_database_def
        blockRow_def default_block_def DEFAULT_LINEUP_SETTINGS_def)
  moreover have "signage_step\<^sup>*\<^sup>* sample_group db'" using s(1) by (rule r_into_rtranclp)
  ultimately show ?thesis using signage_references_intact s(2) by blast
qed

end
