(* ===== verification/Device_Properties.thy ===== *)
theory Device_Properties
  imports Signage_Integrity
begin

text \<open>
  Which device a token opens, what a rotation and a deactivation do to it, and the race that leaves a
  device outside its lineup group.
\<close>

section \<open>Tokens\<close>

definition tokens_unique :: "database \<Rightarrow> bool" where
  "tokens_unique db \<longleftrightarrow> distinct (map d_id (t_devices db)) \<and> distinct (map d_tokenHash (t_devices db))"

lemma guard_row:
  assumes "distinct (map d_tokenHash (t_devices db))"
  shows "first_row (\<lambda>d. d_tokenHash d = h \<and> d_isActive d) (t_devices db) = Some d
     \<longleftrightarrow> d \<in> set (t_devices db) \<and> d_tokenHash d = h \<and> d_isActive d"
proof
  assume "d \<in> set (t_devices db) \<and> d_tokenHash d = h \<and> d_isActive d"
  then have d: "d \<in> set (t_devices db)" "d_tokenHash d = h" "d_isActive d" by auto
  then obtain r :: device where r: "first_row (\<lambda>d. d_tokenHash d = h \<and> d_isActive d) (t_devices db) = Some r"
    by (cases "first_row (\<lambda>d. d_tokenHash d = h \<and> d_isActive d) (t_devices db)") (auto simp: first_row_None)
  from first_row_Some[OF this] have "r \<in> set (t_devices db)" "d_tokenHash r = h" by auto
  with d assms have "r = d" by (metis distinct_map inj_onD)
  with r show "first_row (\<lambda>d. d_tokenHash d = h \<and> d_isActive d) (t_devices db) = Some d" by simp
qed (auto dest: first_row_Some)

lemma guard_lets_in:
  assumes "distinct (map d_tokenHash (t_devices db))"
  shows "(deviceAuthGuard sha header path db = Inr d) =
     (\<exists>token. header = Some token \<and> looksLikeDeviceToken token \<and> d \<in> set (t_devices db)
        \<and> d_isActive d \<and> d_tokenHash d = sha token \<and> (path = None \<or> path = Some (d_id d)))"
  by (auto simp: deviceAuthGuard_def res_simps guard_row[OF assms] split: option.splits if_splits)

text \<open>
  A screen's request is let in as a device exactly when the device is active, its stored hash is
  that of the well-formed token sent, and the route names this device or none.
\<close>

theorem device_guard_exact:
  assumes "distinct (map d_tokenHash (t_devices db))"
  shows "(deviceAuthGuard sha header path db = Inr d) =
     (\<exists>token. header = Some token \<and> looksLikeDeviceToken token \<and> d \<in> set (t_devices db)
        \<and> d_isActive d \<and> d_tokenHash d = sha token \<and> (path = None \<or> path = Some (d_id d)))"
  by (rule guard_lets_in[OF assms])

definition sample_token :: string where
  "sample_token = ''fgd_0123456789012345678901234567890123456789abc''"

definition sample_screen :: database where
  "sample_screen = empty_database\<lparr>t_devices := [sample_device\<lparr>d_tokenHash := rev sample_token\<rparr>]\<rparr>"

theorem device_guard_exact_witness:
  "deviceAuthGuard rev (Some sample_token) (Some 70) sample_screen = Inr (sample_device\<lparr>d_tokenHash := rev sample_token\<rparr>)"
proof -
  have "distinct (map d_tokenHash (t_devices sample_screen))" by (simp add: sample_screen_def)
  moreover have "looksLikeDeviceToken sample_token"
    by (simp add: looksLikeDeviceToken_def sample_token_def token_char_def Let_def)
  ultimately show ?thesis
    unfolding device_guard_exact[OF \<open>distinct (map d_tokenHash (t_devices sample_screen))\<close>]
    by (auto simp: sample_screen_def sample_device_def)
qed

lemma rotate_rows:
  assumes "rotateToken_commit sha token c admin i db = Inr db'"
  shows "t_devices db' = update_where (\<lambda>d. d_id d = i) (rotated_device sha token (now c)) (t_devices db)"
    and "\<forall>d \<in> set (t_devices db). d_id d \<noteq> i \<longrightarrow> d_tokenHash d \<noteq> sha token"
  using assms by (auto simp: rotateToken_commit_def list_ex_iff split: if_splits)

lemma rotate_tokens_unique:
  assumes "rotateToken_commit sha token c admin i db = Inr db'" and "tokens_unique db"
  shows "tokens_unique db'"
proof -
  let ?r = "rotated_device sha token (now c)"
  have other: "\<forall>d \<in> set (t_devices db). d_id d \<noteq> i \<longrightarrow> d_tokenHash d \<noteq> sha token" by (rule rotate_rows(2)[OF assms(1)])
  have "distinct (map d_id tab) \<Longrightarrow> distinct (map d_tokenHash tab)
      \<Longrightarrow> \<forall>d \<in> set tab. d_id d \<noteq> i \<longrightarrow> d_tokenHash d \<noteq> sha token
      \<Longrightarrow> distinct (map d_tokenHash (update_where (\<lambda>d. d_id d = i) ?r tab))" for tab
  proof (induction tab)
    case (Cons d tab)
    have hash: "d_tokenHash ` set (update_where (\<lambda>d. d_id d = i) ?r tab) \<subseteq> insert (sha token) (d_tokenHash ` set tab)"
      by (auto simp: set_update_where rotated_device_def)
    show ?case
    proof (cases "d_id d = i")
      case True
      have other: "\<forall>q \<in> set tab. d_id q \<noteq> i" using Cons.prems(1) True by (simp; metis imageI)
      then have "update_where (\<lambda>d. d_id d = i) ?r tab = tab" by (rule update_where_none)
      moreover have "sha token \<notin> d_tokenHash ` set tab" using other Cons.prems(3) by auto
      moreover have "d_tokenHash (?r d) = sha token" by (simp add: rotated_device_def)
      ultimately show ?thesis using True Cons.prems(2) by simp
    next
      case False
      with Cons hash show ?thesis by auto
    qed
  qed simp
  moreover have "map d_id (t_devices db') = map d_id (t_devices db)"
    unfolding rotate_rows(1)[OF assms(1)] by (rule map_update_where) (simp add: rotated_device_def)
  ultimately show ?thesis using assms(2) other by (simp add: tokens_unique_def rotate_rows(1)[OF assms(1)])
qed

text \<open>
  when a device gets a new token, the old one opens nothing from that moment on, whatever route it
  is sent to; the new one opens this device if it is active; and the control channel that the old
  token had opened is closed.
\<close>

theorem rotated_token_dead:
  assumes "rotateToken sha connected token c admin i db = Inr (db', effects, dto, shown)"
    and "tokens_unique db" and "d \<in> set (t_devices db)" and "d_id d = i" and "d_tokenHash d = sha old"
    and "sha old \<noteq> sha token"
  shows "deviceAuthGuard sha (Some old) path db' \<noteq> Inr d' \<and> shown = token \<and> effects = [Disconnect i]
     \<and> (deviceAuthGuard sha (Some token) (Some i) db' = Inr (rotated_device sha token (now c) d))
        = (looksLikeDeviceToken token \<and> d_isActive d)"
proof -
  from assms(1) have r: "rotateToken_commit sha token c (au_id admin) i db = Inr db'" "effects = [Disconnect i]" "shown = token"
    by (auto simp: rotateToken_def res_simps)
  have u: "tokens_unique db'" by (rule rotate_tokens_unique[OF r(1) assms(2)])
  note rows = rotate_rows(1)[OF r(1)]
  have "d_tokenHash q \<noteq> sha old" if "q \<in> set (t_devices db')" for q :: device
  proof -
    from that rows consider p where "q = rotated_device sha token (now c) p" | "q \<in> set (t_devices db)" "d_id q \<noteq> i"
      by (auto simp: set_update_where)
    then show ?thesis
    proof cases
      case 2
      with assms(2-5) show ?thesis by (metis tokens_unique_def distinct_map inj_onD)
    qed (use assms(6) in \<open>auto simp: rotated_device_def\<close>)
  qed
  then have "deviceAuthGuard sha (Some old) path db' \<noteq> Inr d'"
    using guard_lets_in[of db' sha "Some old" path d'] u by (auto simp: tokens_unique_def)
  moreover have "rotated_device sha token (now c) d \<in> set (t_devices db')"
    using assms(3,4) by (auto simp: rows set_update_where)
  then have "(deviceAuthGuard sha (Some token) (Some i) db' = Inr (rotated_device sha token (now c) d))
        = (looksLikeDeviceToken token \<and> d_isActive d)"
    using guard_lets_in[of db' sha "Some token" "Some i" "rotated_device sha token (now c) d"] u assms(4)
    by (auto simp: tokens_unique_def rotated_device_def)
  ultimately show ?thesis using r by simp
qed

definition other_token :: string where
  "other_token = ''fgd_xxxxxxxxxxxxxxxxxxxxxxxxxxxxxxxxxxxxxxxxxxx''"

theorem rotated_token_dead_witness:
  "\<exists>db' dto. rotateToken rev (\<lambda>_. False) other_token \<lparr>now = 5, currentRequestId = None, uuids = id\<rparr>
       sample_editor 70 sample_screen = Inr (db', [Disconnect 70], dto, other_token)
     \<and> (\<forall>d'. deviceAuthGuard rev (Some sample_token) None db' \<noteq> Inr d')"
proof -
  let ?t = other_token and ?c = "\<lparr>now = 5, currentRequestId = None, uuids = id\<rparr> :: ctx"
  have n: "rev sample_token \<noteq> rev ?t" by (simp add: sample_token_def other_token_def)
  have t: "t_devices sample_screen = [sample_device\<lparr>d_tokenHash := rev sample_token\<rparr>]" and i: "d_id sample_device = 70"
    by (simp_all add: sample_screen_def sample_device_def)
  obtain db' dto where r: "rotateToken rev (\<lambda>_. False) ?t ?c sample_editor 70 sample_screen = Inr (db', [Disconnect 70], dto, ?t)"
    using that by (simp add: rotateToken_def rotateToken_commit_def findDevice_def findOne_device_def t i rotated_device_def)
  have "tokens_unique sample_screen" by (simp add: tokens_unique_def t)
  from rotated_token_dead[OF r this, of "sample_device\<lparr>d_tokenHash := rev sample_token\<rparr>" sample_token None] n r
  show ?thesis by (auto simp: t i)
qed

section \<open>The lineup group of a device\<close>

definition in_own_group :: "database \<Rightarrow> uuid \<Rightarrow> bool" where
  "in_own_group db i \<longleftrightarrow> (case first_row (\<lambda>d. d_id d = i) (t_devices db) of
      None \<Rightarrow> True | Some d \<Rightarrow> d_programGroupId d \<in> set (groupsOfDevice db i))"

text \<open>
  One request at a time keeps the lineup group of a device among its location groups. Two at once do
  not: one moves the device out of a group while the other, checked before that commit, makes the
  group its lineup group. Nothing is locked between the check and the commit.
\<close>

definition race_group :: "slug \<Rightarrow> target_group" where
  "race_group i = \<lparr>tg_id = i, tg_name = [], tg_sortOrder = 0, tg_isActive = True, tg_createdAt = 0, tg_updatedAt = 0\<rparr>"

definition race_start :: database where
  "race_start = empty_database\<lparr>t_targetGroups := [race_group ''grp_a'', race_group ''grp_b''],
     t_devices := [sample_device\<lparr>d_lineupOverrides := EMPTY_OVERRIDES\<rparr>],
     t_deviceTargetGroups := [\<lparr>dtg_deviceId = 70, dtg_targetGroupId = ''grp_a''\<rparr>, \<lparr>dtg_deviceId = 70, dtg_targetGroupId = ''grp_b''\<rparr>]\<rparr>"

definition no_change :: update_device_dto where
  "no_change = \<lparr>udv_name = None, udv_location = None, udv_orientation = None, udv_isActive = None,
     udv_programGroupId = None, udv_groupIds = None, udv_overrides = None\<rparr>"

lemmas race_defs = race_start_def race_group_def no_change_def sample_device_def empty_database_def
  update_device_prepare_def update_device_commit_def findDevice_def groupIdsOf_def groupsOfDevice_def
  assertProgramGroupIn_def assertGroups_def findUnavailable_def order_asc_def select_def or_else_def
  prepareOverrides_def pruneOverrides_def checkPrograms_def infoBarReferences_def EMPTY_OVERRIDES_def
  EMPTY_SETTINGS_def replaceGroups_def delete_where_def changed_device_def Let_def

lemma concurrent_updates_leave_group:
  "let to_b = no_change\<lparr>udv_programGroupId := Some ''grp_b''\<rparr>; only_a = no_change\<lparr>udv_groupIds := Some [''grp_a'']\<rparr>
   in \<exists>db1 db2. update_device_prepare 70 to_b race_start = Inr (''grp_b'', EMPTY_OVERRIDES)
      \<and> update_device_prepare 70 only_a race_start = Inr (''grp_a'', EMPTY_OVERRIDES)
      \<and> update_device_commit c admin 70 to_b (''grp_b'', EMPTY_OVERRIDES) race_start = Inr db1
      \<and> update_device_commit c admin 70 only_a (''grp_a'', EMPTY_OVERRIDES) db1 = Inr db2
      \<and> in_own_group race_start 70 \<and> \<not> in_own_group db2 70"
  by (simp add: race_defs in_own_group_def)

end
