(* ===== verification/Game_Relay.thy ===== *)
theory Game_Relay
  imports App_Errors Complex_Main
begin

text \<open>
  The relay of game messages (\<open>realtime/game-relay.ts\<close>): rooms of one screen (the host) and many
  phones (the players), and the limits on connections and messages.

  A JavaScript \<open>Map\<close> is an association list: \<open>AList.update\<close> keeps the place of a present key and
  appends a new one, as \<open>Map.set\<close> does. Every operation returns the rooms it leaves and what it
  makes sockets do, in order. A frame is the value whose JSON text is sent.
\<close>

section \<open>Sockets, limits and frames\<close>

text \<open>
  A socket object: its public id and the connection behind it. Two sockets are the same object exactly
  when both agree, since the object of a connection is made once.
\<close>

record relay_socket =
  sk_id :: uuid
  sk_conn :: nat

definition maxPlayersPerRoom :: nat where "maxPlayersPerRoom = 30"
definition maxConnections :: nat where "maxConnections = 500"
definition maxConnectionsPerIp :: nat where "maxConnectionsPerIp = 50"
definition maxConnectionsPerIpPerRoom :: nat where "maxConnectionsPerIpPerRoom = 12"
definition maxMessageBytes :: nat where "maxMessageBytes = 4096"
definition messagesPerSecond :: nat where "messagesPerSecond = 20"
definition authTimeoutMs :: int where "authTimeoutMs = 5000"
definition heartbeatMs :: int where "heartbeatMs = 25000"

datatype relay_close = Unauthorized | Forbidden | RoomFull | Replaced | ServerFull | ShuttingDown

fun close_code :: "relay_close \<Rightarrow> nat" where
  "close_code Unauthorized = 4001"
| "close_code Forbidden = 4003"
| "close_code RoomFull = 4009"
| "close_code Replaced = 4010"
| "close_code ServerFull = 4013"
| "close_code ShuttingDown = 1001"

datatype player_frame = HostOnline bool | FromHost json

datatype control_frame = ProgramChanged | Reload

datatype host_frame = Ready | Join uuid | FromPlayer uuid json | Left uuid | Control control_frame

datatype frame = ToPlayer player_frame | ToHost host_frame

datatype socket_effect = Send frame | Close relay_close

type_synonym effects = "(relay_socket \<times> socket_effect) list"

section \<open>Rooms\<close>

record relay_room =
  rm_host :: "relay_socket option"
  rm_players :: "(uuid \<times> relay_socket) list"

type_synonym relay = "(string \<times> relay_room) list"

text \<open>\<open>room\<close>: the room of that id, made when it is missing.\<close>

definition room_at :: "string \<Rightarrow> relay \<Rightarrow> relay_room" where
  "room_at i rooms = (case map_of rooms i of Some x \<Rightarrow> x | None \<Rightarrow> \<lparr>rm_host = None, rm_players = []\<rparr>)"

definition room :: "string \<Rightarrow> relay \<Rightarrow> relay \<times> relay_room" where
  "room i rooms = (case map_of rooms i of
      Some x \<Rightarrow> (rooms, x)
    | None \<Rightarrow> (let x = \<lparr>rm_host = None, rm_players = []\<rparr> in (AList.update i x rooms, x)))"

definition dropIfEmpty :: "string \<Rightarrow> relay \<Rightarrow> relay" where
  "dropIfEmpty i rooms = (case map_of rooms i of
      Some x \<Rightarrow> if rm_host x = None \<and> rm_players x = [] then AList.delete i rooms else rooms
    | None \<Rightarrow> rooms)"

definition toHostOf :: "relay_room \<Rightarrow> host_frame \<Rightarrow> effects" where
  "toHostOf x f = (case rm_host x of Some h \<Rightarrow> [(h, Send (ToHost f))] | None \<Rightarrow> [])"

definition toPlayers :: "relay_room \<Rightarrow> player_frame \<Rightarrow> effects" where
  "toPlayers x f = map (\<lambda>(_, p). (p, Send (ToPlayer f))) (rm_players x)"

definition addHost :: "string \<Rightarrow> relay_socket \<Rightarrow> relay \<Rightarrow> relay \<times> effects" where
  "addHost i s rooms = (let (rooms, x) = room i rooms; previous = rm_host x; x = x\<lparr>rm_host := Some s\<rparr> in
     (AList.update i x rooms,
      (case previous of
         Some p \<Rightarrow> if p \<noteq> s then [(p, Close Replaced)] else []
       | None \<Rightarrow> [])
      @ [(s, Send (ToHost Ready))] @ toPlayers x (HostOnline True)))"

definition addPlayer :: "string \<Rightarrow> relay_socket \<Rightarrow> relay \<Rightarrow> relay \<times> effects \<times> bool" where
  "addPlayer i s rooms = (let (rooms, x) = room i rooms in
     if maxPlayersPerRoom \<le> length (rm_players x) then (dropIfEmpty i rooms, [], False)
     else let x = x\<lparr>rm_players := AList.update (sk_id s) s (rm_players x)\<rparr> in
       (AList.update i x rooms,
        toHostOf x (Join (sk_id s)) @ [(s, Send (ToPlayer (HostOnline (rm_host x \<noteq> None))))], True))"

definition remove_socket :: "string \<Rightarrow> relay_socket \<Rightarrow> relay \<Rightarrow> relay \<times> effects" where
  "remove_socket i s rooms = (case map_of rooms i of
      None \<Rightarrow> (rooms, [])
    | Some x \<Rightarrow>
        if rm_host x = Some s then
          let x = x\<lparr>rm_host := None\<rparr> in
          (dropIfEmpty i (AList.update i x rooms), toPlayers x (HostOnline False))
        else if map_of (rm_players x) (sk_id s) = Some s then
          let x = x\<lparr>rm_players := AList.delete (sk_id s) (rm_players x)\<rparr> in
          (dropIfEmpty i (AList.update i x rooms), toHostOf x (Left (sk_id s)))
        else (dropIfEmpty i rooms, []))"

definition fromHost :: "string \<Rightarrow> relay_socket \<Rightarrow> json \<Rightarrow> relay \<Rightarrow> effects" where
  "fromHost i s d rooms = (case map_of rooms i of
      None \<Rightarrow> []
    | Some x \<Rightarrow> if rm_host x \<noteq> Some s then [] else toPlayers x (FromHost d))"

definition fromPlayer :: "string \<Rightarrow> relay_socket \<Rightarrow> json \<Rightarrow> relay \<Rightarrow> effects" where
  "fromPlayer i s d rooms = (case map_of rooms i of
      None \<Rightarrow> []
    | Some x \<Rightarrow>
        if rm_host x = None \<or> map_of (rm_players x) (sk_id s) \<noteq> Some s then []
        else toHostOf x (FromPlayer (sk_id s) d))"

definition hostIds :: "relay \<Rightarrow> string list" where
  "hostIds rooms = map fst (filter (\<lambda>(_, x). rm_host x \<noteq> None) rooms)"

definition hasHost :: "string \<Rightarrow> relay \<Rightarrow> bool" where
  "hasHost i rooms \<longleftrightarrow> (case map_of rooms i of Some x \<Rightarrow> rm_host x \<noteq> None | None \<Rightarrow> False)"

definition toHost :: "string \<Rightarrow> control_frame \<Rightarrow> relay \<Rightarrow> effects \<times> bool" where
  "toHost i f rooms = (case map_of rooms i of
      Some x \<Rightarrow> if rm_host x = None then ([], False) else (toHostOf x (Control f), True)
    | None \<Rightarrow> ([], False))"

definition closeHost :: "string \<Rightarrow> relay_close \<Rightarrow> relay \<Rightarrow> effects" where
  "closeHost i code rooms = (case map_of rooms i of
      Some x \<Rightarrow> (case rm_host x of Some h \<Rightarrow> [(h, Close code)] | None \<Rightarrow> [])
    | None \<Rightarrow> [])"

definition relay_stats :: "relay \<Rightarrow> nat \<times> nat" where
  "relay_stats rooms = (length rooms,
     sum_list (map (\<lambda>(_, x). length (rm_players x) + (if rm_host x = None then 0 else 1)) rooms))"

section \<open>Message budget\<close>

text \<open>
  A token bucket per connection. The tokens are JavaScript numbers; the model computes with exact
  rationals, as every number here is a small multiple of 1/50 and the rounding stays far below one
  token.
\<close>

record message_budget =
  mb_tokens :: rat
  mb_refilledAt :: time

definition new_budget :: "time \<Rightarrow> message_budget" where
  "new_budget t = \<lparr>mb_tokens = of_nat messagesPerSecond, mb_refilledAt = t\<rparr>"

definition take_token :: "time \<Rightarrow> message_budget \<Rightarrow> message_budget \<times> bool" where
  "take_token t b = (let elapsed = of_int (t - mb_refilledAt b) / 1000;
       tokens = min (of_nat messagesPerSecond) (mb_tokens b + elapsed * of_nat messagesPerSecond) in
     if tokens < 1 then (\<lparr>mb_tokens = tokens, mb_refilledAt = t\<rparr>, False)
     else (\<lparr>mb_tokens = tokens - 1, mb_refilledAt = t\<rparr>, True))"

section \<open>Connections per address\<close>

type_synonym counter = "(string \<times> int) list"

definition counter_get :: "string \<Rightarrow> counter \<Rightarrow> int" where
  "counter_get k c = (case map_of c k of Some n \<Rightarrow> n | None \<Rightarrow> 0)"

definition counter_add :: "string \<Rightarrow> counter \<Rightarrow> counter" where
  "counter_add k c = AList.update k (counter_get k c + 1) c"

definition counter_remove :: "string \<Rightarrow> counter \<Rightarrow> counter" where
  "counter_remove k c = (let next = counter_get k c - 1 in
     if next \<le> 0 then AList.delete k c else AList.update k next c)"

section \<open>Addresses and room ids\<close>

fun split_commas :: "string \<Rightarrow> string list" where
  "split_commas [] = [[]]"
| "split_commas (x # xs) = (if x = CHR '','' then [] # split_commas xs
     else (x # hd (split_commas xs)) # tl (split_commas xs))"

text \<open>The blanks a header value can hold.\<close>

definition trim_blanks :: "string \<Rightarrow> string" where
  "trim_blanks s = (let blank = (\<lambda>x. of_char x \<in> {9, 32, 160 :: nat}) in
     rev (dropWhile blank (rev (dropWhile blank s))))"

datatype header_value = NoHeader | OneHeader string | Headers "string list"

definition clientIp :: "header_value \<Rightarrow> string option \<Rightarrow> string" where
  "clientIp forwardedFor remoteAddress = (
     let header = (case forwardedFor of
           Headers hs \<Rightarrow> if hs = [] then None else Some (last hs)
         | OneHeader h \<Rightarrow> Some h
         | NoHeader \<Rightarrow> None);
         address = map_option (\<lambda>h. trim_blanks (last (split_commas h))) header in
     if address \<noteq> None \<and> address \<noteq> Some [] then the address
     else if remoteAddress \<noteq> None \<and> remoteAddress \<noteq> Some [] then the remoteAddress
     else ''unknown'')"

definition room_char :: "char \<Rightarrow> bool" where
  "room_char x \<longleftrightarrow> (let n = of_char x :: nat in
     (48 \<le> n \<and> n \<le> 57) \<or> (65 \<le> n \<and> n \<le> 90) \<or> (97 \<le> n \<and> n \<le> 122) \<or> x = CHR ''_'' \<or> x = CHR ''-'')"

definition isValidRoomId :: "string option \<Rightarrow> bool" where
  "isValidRoomId s \<longleftrightarrow> (case s of None \<Rightarrow> False
     | Some t \<Rightarrow> 1 \<le> length t \<and> length t \<le> 64 \<and> list_all room_char t)"

end
