(* ===== verification/Relay_Laws.thy ===== *)
theory Relay_Laws
  imports Game_Relay
begin

text \<open>
  Laws of the relay: its invariant, who an operation can reach, the rate of the message budget, the
  counter of connections and the address a request is counted under.
\<close>

section \<open>The invariant of the rooms\<close>

text \<open>
  A room is known under one id, holds at most thirty players under the ids of their sockets, and
  exists only while somebody is in it.
\<close>

definition room_ok :: "relay_room \<Rightarrow> bool" where
  "room_ok x \<longleftrightarrow> distinct (map fst (rm_players x)) \<and> length (rm_players x) \<le> maxPlayersPerRoom
     \<and> list_all (\<lambda>(k, s). sk_id s = k) (rm_players x)"

definition occupied :: "relay_room \<Rightarrow> bool" where
  "occupied x \<longleftrightarrow> rm_host x \<noteq> None \<or> rm_players x \<noteq> []"

definition relay_ok :: "relay \<Rightarrow> bool" where
  "relay_ok rooms \<longleftrightarrow> distinct (map fst rooms) \<and> (\<forall>i x. map_of rooms i = Some x \<longrightarrow> room_ok x \<and> occupied x)"

lemma relay_okD:
  assumes "relay_ok rooms" and "map_of rooms i = Some x"
  shows "room_ok x" and "occupied x"
  using assms by (auto simp: relay_ok_def)

lemma relay_ok_Nil [inv_intros]: "relay_ok []"
  by (simp add: relay_ok_def)

lemma relay_ok_update [inv_intros]:
  "relay_ok rooms \<Longrightarrow> room_ok x \<Longrightarrow> occupied x \<Longrightarrow> relay_ok (AList.update i x rooms)"
  by (auto simp: relay_ok_def update_conv' distinct_update)

lemma relay_ok_delete [inv_intros]: "relay_ok rooms \<Longrightarrow> relay_ok (AList.delete i rooms)"
  by (auto simp: relay_ok_def delete_conv' distinct_delete split: if_splits)

lemma relay_ok_leave:
  assumes "relay_ok rooms" and "room_ok x"
  shows "relay_ok (dropIfEmpty i (AList.update i x rooms))"
proof (cases "occupied x")
  case True
  then show ?thesis using assms by (auto simp: dropIfEmpty_def update_conv' occupied_def intro: inv_intros)
next
  case False
  have "distinct (map fst (AList.delete i (AList.update i x rooms)))"
    using assms(1) by (simp add: distinct_delete distinct_update relay_ok_def)
  moreover have "map_of (AList.delete i (AList.update i x rooms)) j = (if j = i then None else map_of rooms j)" for j
    by (simp add: delete_conv' update_conv')
  ultimately have "relay_ok (AList.delete i (AList.update i x rooms))"
    using assms(1) by (auto simp: relay_ok_def)
  then show ?thesis using False by (auto simp: dropIfEmpty_def update_conv' occupied_def)
qed

lemma set_AList_delete: "set (AList.delete k xs) = {p \<in> set xs. fst p \<noteq> k}"
  by (auto simp: AList.delete_eq)

lemma room_cases:
  obtains x where "map_of rooms i = Some x" and "room i rooms = (rooms, x)" and "room_at i rooms = x"
  | "map_of rooms i = None" and "room_at i rooms = \<lparr>rm_host = None, rm_players = []\<rparr>"
    and "room i rooms = (AList.update i (room_at i rooms) rooms, room_at i rooms)"
  by (cases "map_of rooms i") (auto simp: room_def room_at_def Let_def)

lemma room_ok_empty: "room_ok \<lparr>rm_host = h, rm_players = []\<rparr>"
  by (simp add: room_ok_def)

lemma room_ok_host: "room_ok (x\<lparr>rm_host := h\<rparr>) = room_ok x"
  by (simp add: room_ok_def)

lemma room_at_ok: "relay_ok rooms \<Longrightarrow> room_ok (room_at i rooms)"
  by (auto simp: room_at_def relay_ok_def room_ok_empty split: option.splits)

lemma AList_update_update: "AList.update i y (AList.update i x xs) = AList.update i y xs"
  by (induction xs) auto

lemma addHost_eq:
  "addHost i s rooms = (AList.update i ((room_at i rooms)\<lparr>rm_host := Some s\<rparr>) rooms,
     (case rm_host (room_at i rooms) of Some p \<Rightarrow> if p \<noteq> s then [(p, Close Replaced)] else [] | None \<Rightarrow> [])
     @ (s, Send (ToHost Ready)) # toPlayers (room_at i rooms) (HostOnline True))"
  by (rule room_cases[of rooms i]) (auto simp: addHost_def Let_def toPlayers_def AList_update_update)

lemma addPlayer_eq:
  assumes "relay_ok rooms"
  shows "addPlayer i s rooms = (let x = room_at i rooms in
     if maxPlayersPerRoom \<le> length (rm_players x) then (rooms, [], False)
     else (AList.update i (x\<lparr>rm_players := AList.update (sk_id s) s (rm_players x)\<rparr>) rooms,
       toHostOf x (Join (sk_id s)) @ [(s, Send (ToPlayer (HostOnline (rm_host x \<noteq> None))))], True))"
proof (rule room_cases[of rooms i])
  fix x assume x: "map_of rooms i = Some x" "room i rooms = (rooms, x)" "room_at i rooms = x"
  have "dropIfEmpty i rooms = rooms"
    using relay_okD(2)[OF assms x(1)] by (auto simp: dropIfEmpty_def x(1) occupied_def)
  then show ?thesis by (simp add: addPlayer_def x(2,3) Let_def toHostOf_def)
next
  assume x: "map_of rooms i = None" "room_at i rooms = \<lparr>rm_host = None, rm_players = []\<rparr>"
    "room i rooms = (AList.update i (room_at i rooms) rooms, room_at i rooms)"
  show ?thesis
    by (simp add: addPlayer_def x(3) Let_def toHostOf_def AList_update_update x(2) maxPlayersPerRoom_def)
qed

lemma addHost_ok [inv_intros]: "relay_ok rooms \<Longrightarrow> relay_ok (fst (addHost i s rooms))"
  by (auto simp: addHost_eq room_ok_host occupied_def room_at_ok intro!: relay_ok_update)

lemma length_AList_update: "length (AList.update k v xs) \<le> Suc (length xs)"
  by (induction xs) auto

lemma room_ok_join:
  assumes "room_ok x" and "length (rm_players x) < maxPlayersPerRoom"
  shows "room_ok (x\<lparr>rm_players := AList.update (sk_id s) s (rm_players x)\<rparr>)"
proof -
  have "list_all (\<lambda>(k, s). sk_id s = k) ps \<Longrightarrow> list_all (\<lambda>(k, s). sk_id s = k) (AList.update (sk_id s) s ps)" for ps
    by (induction ps) auto
  then show ?thesis
    using assms length_AList_update[of "sk_id s" s "rm_players x"] by (simp add: room_ok_def distinct_update)
qed

lemma addPlayer_ok [inv_intros]: "relay_ok rooms \<Longrightarrow> relay_ok (fst (addPlayer i s rooms))"
  using room_ok_join[OF room_at_ok, of rooms i s]
  by (auto simp: addPlayer_eq Let_def occupied_def intro!: relay_ok_update)

lemma room_ok_leave: "room_ok x \<Longrightarrow> room_ok (x\<lparr>rm_players := AList.delete k (rm_players x)\<rparr>)"
  using length_delete_le[of k "rm_players x"]
  by (auto simp: room_ok_def distinct_delete set_AList_delete list_all_iff)

lemma remove_socket_ok [inv_intros]:
  assumes "relay_ok rooms"
  shows "relay_ok (fst (remove_socket i s rooms))"
proof (cases "map_of rooms i")
  case (Some x)
  note ok = relay_okD[OF assms Some]
  have "dropIfEmpty i rooms = rooms" using ok(2) by (auto simp: dropIfEmpty_def Some occupied_def)
  then show ?thesis
    using assms ok(1) by (auto simp: remove_socket_def Some Let_def room_ok_host intro!: relay_ok_leave room_ok_leave)
qed (use assms in \<open>simp add: remove_socket_def\<close>)

section \<open>What an operation changes\<close>

lemma map_of_addHost:
  "map_of (fst (addHost i s rooms)) j
     = (if j = i then Some ((room_at i rooms)\<lparr>rm_host := Some s\<rparr>) else map_of rooms j)"
  by (simp add: addHost_eq update_conv')

lemma map_of_addPlayer:
  assumes "relay_ok rooms"
  shows "map_of (fst (addPlayer i s rooms)) j
     = (if j = i \<and> snd (snd (addPlayer i s rooms))
        then Some ((room_at i rooms)\<lparr>rm_players := AList.update (sk_id s) s (rm_players (room_at i rooms))\<rparr>)
        else map_of rooms j)"
  by (simp add: addPlayer_eq[OF assms] Let_def update_conv')

lemma map_of_remove_socket:
  assumes "relay_ok rooms" and "map_of (fst (remove_socket i s rooms)) j = Some x"
  shows "\<exists>y. map_of rooms j = Some y \<and> (rm_host x = rm_host y \<or> rm_host x = None \<and> rm_host y = Some s \<and> j = i)
     \<and> set (rm_players x) \<subseteq> set (rm_players y)
     \<and> (j = i \<longrightarrow> rm_host x \<noteq> Some s
          \<and> (rm_host y \<noteq> Some s \<longrightarrow> (sk_id s, s) \<notin> set (rm_players x)))"
proof (cases "map_of rooms i")
  case None
  then show ?thesis using assms(2) by (auto simp: remove_socket_def)
next
  case (Some y)
  note ok = relay_okD[OF assms(1) Some]
  have d: "dropIfEmpty i rooms = rooms" using ok(2) by (auto simp: dropIfEmpty_def Some occupied_def)
  have m: "map_of (rm_players y) (sk_id s) \<noteq> Some s \<Longrightarrow> (sk_id s, s) \<notin> set (rm_players y)"
    using ok(1) by (auto simp: room_ok_def)
  show ?thesis
  proof (cases "j = i")
    case True
    then show ?thesis
      using assms(2) Some m
      by (auto simp: remove_socket_def d Let_def dropIfEmpty_def update_conv' delete_conv' set_AList_delete split: if_splits)
  next
    case False
    then show ?thesis
      using assms(2) Some
      by (auto simp: remove_socket_def d Let_def dropIfEmpty_def update_conv' delete_conv' split: if_splits)
  qed
qed

section \<open>The rate of the budget\<close>

fun taken :: "time list \<Rightarrow> message_budget \<Rightarrow> nat" where
  "taken [] b = 0"
| "taken (t # ts) b = (let (b', ok) = take_token t b in (if ok then 1 else 0) + taken ts b')"

definition budget_ok :: "message_budget \<Rightarrow> bool" where
  "budget_ok b \<longleftrightarrow> 0 \<le> mb_tokens b \<and> mb_tokens b \<le> 20"

lemma new_budget_ok: "budget_ok (new_budget t)"
  by (simp add: budget_ok_def new_budget_def messagesPerSecond_def)

lemma take_token_ok: "budget_ok b \<Longrightarrow> mb_refilledAt b \<le> t \<Longrightarrow> budget_ok (fst (take_token t b))"
  by (auto simp: budget_ok_def take_token_def Let_def messagesPerSecond_def min_def)

lemma taken_bounded:
  assumes "budget_ok b" and "sorted (mb_refilledAt b # ts)" and "\<forall>t \<in> set ts. t \<le> u" and "mb_refilledAt b \<le> u"
  shows "of_nat (taken ts b) \<le> mb_tokens b + of_int (u - mb_refilledAt b) / 50"
  using assms
proof (induction ts arbitrary: b)
  case (Cons t ts)
  let ?b = "fst (take_token t b)"
  have ok: "budget_ok ?b" "mb_refilledAt ?b = t"
    using Cons.prems take_token_ok[of b t] by (simp_all add: take_token_def Let_def)
  have "of_nat (taken ts ?b) \<le> mb_tokens ?b + of_int (u - t) / 50"
    using Cons.IH[OF ok(1)] Cons.prems ok(2) by simp
  moreover have "(if snd (take_token t b) then 1 else 0) + mb_tokens ?b
      \<le> mb_tokens b + of_int (t - mb_refilledAt b) / 50"
    by (auto simp: take_token_def Let_def messagesPerSecond_def min_def field_simps)
  ultimately show ?case
    by (cases "snd (take_token t b)") (simp_all add: split_beta Let_def diff_divide_distrib)
qed (simp add: budget_ok_def)

section \<open>Addresses\<close>

lemma split_commas_not_Nil [simp]: "split_commas s \<noteq> []"
  by (cases s) auto

lemma tl_split_commas: "tl (split_commas (s @ CHR '','' # t)) \<noteq> []"
  by (induction s) auto

lemma last_split_commas: "last (split_commas (s @ CHR '','' # t)) = last (split_commas t)"
proof (induction s)
  case (Cons x s)
  then show ?case using tl_split_commas[of s t] by (simp add: last_tl)
qed simp

lemma split_commas_single: "CHR '','' \<notin> set s \<Longrightarrow> split_commas s = [s]"
  by (induction s) auto

end
