(* ===== verification/Device_Control.thy ===== *)
theory Device_Control
  imports Relay_Laws Devices Lineup_Properties
begin

text \<open>
  Announcements of changes (\<open>realtime/signage-changes.ts\<close>) and the control channel of the screens
  (\<open>realtime/device-control.service.ts\<close>): changes are collected for a second and every connected
  screen they concern is told once to read its program again.

  A room of the relay is named by the text of a device id; \<open>idText\<close> is the text Postgres prints for a
  uuid.
\<close>

section \<open>Announcements\<close>

text \<open>
  The listeners are the subscribed functions, each under a number that stands for its identity; an
  announcement runs them one after the other.
\<close>

type_synonym 's listeners = "(nat \<times> (signage_change \<Rightarrow> 's \<Rightarrow> 's)) list"

definition subscribe :: "nat \<Rightarrow> (signage_change \<Rightarrow> 's \<Rightarrow> 's) \<Rightarrow> 's listeners \<Rightarrow> 's listeners" where
  "subscribe i listener listeners = listeners @ [(i, listener)]"

definition unsubscribe :: "nat \<Rightarrow> 's listeners \<Rightarrow> 's listeners" where
  "unsubscribe i listeners = filter (\<lambda>(j, _). j \<noteq> i) listeners"

definition emit :: "'s listeners \<Rightarrow> signage_change \<Rightarrow> 's \<Rightarrow> 's" where
  "emit listeners change s = fold (\<lambda>(_, listener). listener change) listeners s"

section \<open>The control service\<close>

record device_control =
  dc_pending :: "signage_change list"
  dc_timer :: bool

definition CHANGE_BATCH_MS :: int where "CHANGE_BATCH_MS = 1000"

definition isConnected :: "(uuid \<Rightarrow> string) \<Rightarrow> uuid \<Rightarrow> relay \<Rightarrow> bool" where
  "isConnected idText d rooms = hasHost (idText d) rooms"

definition reload :: "(uuid \<Rightarrow> string) \<Rightarrow> uuid \<Rightarrow> relay \<Rightarrow> effects \<times> bool" where
  "reload idText d rooms = toHost (idText d) Reload rooms"

definition disconnect :: "(uuid \<Rightarrow> string) \<Rightarrow> uuid \<Rightarrow> relay \<Rightarrow> effects" where
  "disconnect idText d rooms = closeHost (idText d) Unauthorized rooms"

text \<open>\<open>queue\<close>: the timer is started by the first change of a batch.\<close>

definition queue :: "signage_change \<Rightarrow> device_control \<Rightarrow> device_control" where
  "queue change s = (let s = s\<lparr>dc_pending := dc_pending s @ [change]\<rparr> in
     if dc_timer s then s else s\<lparr>dc_timer := True\<rparr>)"

definition onModuleInit :: "nat \<Rightarrow> device_control listeners \<Rightarrow> device_control listeners" where
  "onModuleInit i listeners = subscribe i queue listeners"

definition onModuleDestroy :: "nat \<Rightarrow> device_control listeners \<Rightarrow> device_control
    \<Rightarrow> device_control listeners \<times> device_control" where
  "onModuleDestroy i listeners s = (unsubscribe i listeners, s\<lparr>dc_timer := False\<rparr>)"

text \<open>
  \<open>targetsOf\<close>: of the connected screens, those a change names and those of a changed group. The
  insertion order of the set of targets is the order of the list.
\<close>

definition changedDeviceIds :: "signage_change list \<Rightarrow> uuid list" where
  "changedDeviceIds changes = concat (map (\<lambda>ch. case ch of ChangeDevice d \<Rightarrow> [d] | _ \<Rightarrow> []) changes)"

definition changedGroupIds :: "signage_change list \<Rightarrow> slug list" where
  "changedGroupIds changes = concat (map (\<lambda>ch. case ch of ChangeGroup g \<Rightarrow> [g] | _ \<Rightarrow> []) changes)"

definition concernedRows :: "(uuid \<Rightarrow> string) \<Rightarrow> string list \<Rightarrow> slug list \<Rightarrow> database \<Rightarrow> device list" where
  "concernedRows idText online groupIds db = select (\<lambda>d. idText (d_id d) \<in> set online
     \<and> (d_programGroupId d \<in> set groupIds
        \<or> list_ex (\<lambda>m. dtg_deviceId m = d_id d \<and> dtg_targetGroupId m \<in> set groupIds) (t_deviceTargetGroups db)))
     (t_devices db)"

text \<open>The elements of a \<open>Set\<close> filled in that order.\<close>

definition distinct_first :: "'a list \<Rightarrow> 'a list" where
  "distinct_first xs = rev (remdups (rev xs))"

definition targetsOf :: "(uuid \<Rightarrow> string) \<Rightarrow> signage_change list \<Rightarrow> string list \<Rightarrow> database \<Rightarrow> string list" where
  "targetsOf idText changes online db = (
     if online = [] then []
     else if list_ex (\<lambda>ch. ch = ChangeAll) changes then online
     else let targets = filter (\<lambda>i. i \<in> set online) (map idText (changedDeviceIds changes));
              groupIds = changedGroupIds changes in
       distinct_first (if groupIds \<noteq> []
         then targets @ map (\<lambda>d. idText (d_id d)) (concernedRows idText online groupIds db)
         else targets))"

text \<open>
  \<open>flush\<close>: the batch is taken and the timer forgotten before the database is asked. \<open>asked\<close> is the
  relay when the question is put and \<open>rooms\<close> the relay when the answer arrives; \<open>None\<close> is a failed
  query, which is logged.
\<close>

definition flush_take :: "device_control \<Rightarrow> device_control \<times> signage_change list" where
  "flush_take s = (s\<lparr>dc_pending := [], dc_timer := False\<rparr>, dc_pending s)"

definition flush :: "(uuid \<Rightarrow> string) \<Rightarrow> signage_change list \<Rightarrow> relay \<Rightarrow> database option \<Rightarrow> relay \<Rightarrow> effects" where
  "flush idText changes asked db rooms = (case db of
      None \<Rightarrow> []
    | Some db \<Rightarrow> concat (map (\<lambda>i. fst (toHost i ProgramChanged rooms)) (targetsOf idText changes (hostIds asked) db)))"

section \<open>Every concerned screen is told once\<close>

text \<open>Whether a change concerns a device: its lineup group and its location groups follow a group.\<close>

definition concerns :: "database \<Rightarrow> device \<Rightarrow> signage_change \<Rightarrow> bool" where
  "concerns db d change = (case change of
      ChangeAll \<Rightarrow> True
    | ChangeDevice i \<Rightarrow> i = d_id d
    | ChangeGroup g \<Rightarrow> g = d_programGroupId d \<or> g \<in> set (groupsOfDevice db (d_id d)))"

lemma in_changedDeviceIds: "d \<in> set (changedDeviceIds changes) \<longleftrightarrow> ChangeDevice d \<in> set changes"
  by (force simp: changedDeviceIds_def split: signage_change.splits)

lemma in_changedGroupIds: "g \<in> set (changedGroupIds changes) \<longleftrightarrow> ChangeGroup g \<in> set changes"
  by (force simp: changedGroupIds_def split: signage_change.splits)

lemma distinct_hostIds: "relay_ok rooms \<Longrightarrow> distinct (hostIds rooms)"
  by (simp add: hostIds_def relay_ok_def distinct_map_filter)

lemma in_hostIds: "relay_ok rooms \<Longrightarrow> i \<in> set (hostIds rooms) \<longleftrightarrow> hasHost i rooms"
proof -
  assume "relay_ok rooms"
  then have "(i, x) \<in> set rooms \<longleftrightarrow> map_of rooms i = Some x" for x
    by (simp add: relay_ok_def map_of_eq_Some_iff)
  then show ?thesis by (auto simp: hostIds_def hasHost_def image_iff split: option.splits)
qed

lemma distinct_targetsOf: "distinct online \<Longrightarrow> distinct (targetsOf idText changes online db)"
  by (simp add: targetsOf_def distinct_first_def Let_def)

lemma in_targetsOf:
  assumes "inj idText" and "distinct (map d_id (t_devices db))" and "d \<in> set (t_devices db)"
  shows "idText (d_id d) \<in> set (targetsOf idText changes online db)
     \<longleftrightarrow> idText (d_id d) \<in> set online \<and> (\<exists>ch \<in> set changes. concerns db d ch)"
proof -
  have i: "idText a = idText b \<longleftrightarrow> a = b" for a b using assms(1) by (simp add: inj_eq)
  have row: "e = d" if "e \<in> set (t_devices db)" "d_id e = d_id d" for e
    using assms(2,3) that by (auto simp: distinct_map inj_on_def)
  have dev: "idText (d_id d) \<in> idText ` set (changedDeviceIds changes) \<longleftrightarrow> ChangeDevice (d_id d) \<in> set changes"
    using i by (auto simp: in_changedDeviceIds)
  have rows: "idText (d_id d) \<in> (\<lambda>e. idText (d_id e)) ` set (concernedRows idText online (changedGroupIds changes) db)
     \<longleftrightarrow> idText (d_id d) \<in> set online
       \<and> (\<exists>g. ChangeGroup g \<in> set changes \<and> (g = d_programGroupId d \<or> g \<in> set (groupsOfDevice db (d_id d))))"
    (is "?l \<longleftrightarrow> ?r")
  proof
    assume ?l
    then obtain e where e: "e \<in> set (concernedRows idText online (changedGroupIds changes) db)" "d_id e = d_id d"
      using i by auto
    with row[of e] have "e = d" by (simp add: concernedRows_def)
    with e(1) show ?r by (auto simp: concernedRows_def list_ex_iff in_changedGroupIds groupsOfDevice_def)
  next
    assume ?r
    then have "d \<in> set (concernedRows idText online (changedGroupIds changes) db)"
      using assms(3) by (auto simp: concernedRows_def list_ex_iff in_changedGroupIds groupsOfDevice_def)
    then show ?l by blast
  qed
  have con: "(\<exists>ch \<in> set changes. concerns db d ch) \<longleftrightarrow> ChangeAll \<in> set changes \<or> ChangeDevice (d_id d) \<in> set changes
     \<or> (\<exists>g. ChangeGroup g \<in> set changes \<and> (g = d_programGroupId d \<or> g \<in> set (groupsOfDevice db (d_id d))))"
    by (auto simp: concerns_def split: signage_change.splits) (metis (full_types) signage_change.exhaust)+
  show ?thesis
  proof (cases "ChangeAll \<in> set changes")
    case True
    then show ?thesis using con by (simp add: targetsOf_def list_ex_iff)
  next
    case False
    then show ?thesis using con dev rows in_changedGroupIds[of _ changes]
      by (auto simp: targetsOf_def list_ex_iff distinct_first_def Let_def)
  qed
qed

text \<open>No socket is the host of two rooms.\<close>

definition hosts_unique :: "relay \<Rightarrow> bool" where
  "hosts_unique rooms \<longleftrightarrow> (\<forall>i j h. rm_host (room_at i rooms) = Some h \<longrightarrow> rm_host (room_at j rooms) = Some h \<longrightarrow> i = j)"

lemma hosts_uniqueD:
  "hosts_unique rooms \<Longrightarrow> rm_host (room_at i rooms) = Some h \<Longrightarrow> rm_host (room_at j rooms) = Some h \<Longrightarrow> i = j"
  by (auto simp: hosts_unique_def)

lemma toHost_room_at:
  "fst (toHost i f rooms) = (case rm_host (room_at i rooms) of Some h \<Rightarrow> [(h, Send (ToHost (Control f)))] | None \<Rightarrow> [])"
  by (auto simp: toHost_def toHostOf_def room_at_def split: option.splits)

lemma hasHost_room_at: "hasHost i rooms \<longleftrightarrow> rm_host (room_at i rooms) \<noteq> None"
  by (simp add: hasHost_def room_at_def split: option.splits)

lemma distinct_told:
  assumes "hosts_unique rooms" and "distinct is"
  shows "distinct (concat (map (\<lambda>i. fst (toHost i f rooms)) is))"
  using assms(2)
proof (induction "is")
  case (Cons i "is")
  have "j \<noteq> i" if "j \<in> set is" for j using Cons.prems that by auto
  then have "e \<notin> set (fst (toHost i f rooms))" if "j \<in> set is" "e \<in> set (fst (toHost j f rooms))" for j e
    using that hosts_uniqueD[OF assms(1), of i _ j]
    by (cases "rm_host (room_at i rooms)"; cases "rm_host (room_at j rooms)") (auto simp: toHost_room_at)
  moreover have "distinct (fst (toHost i f rooms))" by (simp add: toHost_room_at split: option.split)
  ultimately show ?case using Cons by auto
qed simp

lemma fold_queue: "flush_take (fold queue changes s) = (s\<lparr>dc_pending := [], dc_timer := False\<rparr>, dc_pending s @ changes)"
proof (induction changes arbitrary: s)
  case (Cons change changes)
  then show ?case by (simp add: queue_def flush_take_def Let_def)
qed (simp add: flush_take_def)


text \<open>A screen in its room, and two announcements in one batch.\<close>

definition sample_text :: "uuid \<Rightarrow> string" where
  "sample_text i = replicate i (CHR ''7'')"

definition sample_screen_socket :: relay_socket where
  "sample_screen_socket = \<lparr>sk_id = 900, sk_conn = 1\<rparr>"

definition sample_rooms :: relay where
  "sample_rooms = [(sample_text 70, \<lparr>rm_host = Some sample_screen_socket, rm_players = []\<rparr>)]"


end
