(* ===== verification/Realtime_Socket.thy ===== *)
theory Realtime_Socket
  imports Relay_Laws Devices
begin

text \<open>
  The web sockets of screens and phones (\<open>realtime/realtime-socket.service.ts\<close>) as a state machine:
  the connections being opened, the open ones, the counters and the rooms they stand in. Every
  callback is one function of the state; what happens between an \<open>await\<close> and its answer is left to the
  step relation at the end.

  Parameters: \<open>originOf\<close> is the origin of a URL (\<open>None\<close> when \<open>new URL\<close> throws), \<open>sha\<close> the SHA-256 of a
  token, \<open>idText\<close> the text Postgres prints for a uuid and \<open>readId\<close> how it reads one. A message is the
  JSON value of its text, \<open>None\<close> when the text is not JSON; texts longer than the limit do not arrive,
  the library closes such a connection.
\<close>

section \<open>State\<close>

datatype socket_role = HostRole | PlayerRole

text \<open>How far a screen is: the timer runs, the token of its first message is looked up, done.\<close>

datatype auth_state = NoAuth | AwaitingToken | CheckingToken "string option" | AuthDone

record client =
  cl_socket :: relay_socket
  cl_role :: socket_role
  cl_requested :: "string option"
  cl_room :: "string option"
  cl_budget :: message_budget
  cl_keys :: "string list"
  cl_alive :: bool
  cl_open :: bool
  cl_auth :: auth_state

datatype room_check = Answered bool | AskDatabase string

record upgrade =
  up_conn :: nat
  up_room :: "string option"
  up_role :: socket_role
  up_keys :: "string list"
  up_check :: room_check

record socket_server =
  ss_listening :: bool
  ss_relay :: relay
  ss_clients :: "client list"
  ss_pending :: "upgrade list"
  ss_perIp :: counter
  ss_knownRooms :: "(string \<times> bool \<times> time) list"

definition DEVICE_SOCKET_PATH :: string where "DEVICE_SOCKET_PATH = ''/devices/ws''"
definition GAME_SOCKET_PATH :: string where "GAME_SOCKET_PATH = ''/games/ws''"
definition ROOM_CACHE_MS :: int where "ROOM_CACHE_MS = 60000"
definition ROOM_CACHE_LIMIT :: nat where "ROOM_CACHE_LIMIT = 1000"

definition hex_char :: "char \<Rightarrow> bool" where
  "hex_char x \<longleftrightarrow> (let n = of_char x :: nat in
     (48 \<le> n \<and> n \<le> 57) \<or> (65 \<le> n \<and> n \<le> 70) \<or> (97 \<le> n \<and> n \<le> 102))"

text \<open>The shape \<open>UUID\<close>: hexadecimal digits with dashes at four places.\<close>

definition is_uuid_text :: "string \<Rightarrow> bool" where
  "is_uuid_text s \<longleftrightarrow> length s = 36
     \<and> list_all (\<lambda>(i, x). if i \<in> {8, 13, 18, 23 :: nat} then x = CHR ''-'' else hex_char x) (enumerate 0 s)"

text \<open>
  \<open>ss_listening\<close> is that the socket server exists and is not shutting down; the library refuses an
  upgrade of a closed server with the same 503.
\<close>

section \<open>What a server makes its sockets do\<close>

text \<open>A frame is sent only while the socket is open, and a closed socket is no longer open.\<close>

fun perform :: "effects \<Rightarrow> client list \<Rightarrow> client list \<times> effects" where
  "perform [] cs = (cs, [])"
| "perform ((s, Send f) # es) cs = (let (cs', sent) = perform es cs in
     (cs', if list_ex (\<lambda>c. cl_socket c = s \<and> cl_open c) cs then (s, Send f) # sent else sent))"
| "perform ((s, Close code) # es) cs =
     (let (cs', sent) = perform es (update_where (\<lambda>c. cl_socket c = s) (cl_open_update (\<lambda>_. False)) cs) in
      (cs', (s, Close code) # sent))"

definition run_effects :: "effects \<Rightarrow> socket_server \<Rightarrow> socket_server \<times> effects" where
  "run_effects es sv = (let (cs, sent) = perform es (ss_clients sv) in (sv\<lparr>ss_clients := cs\<rparr>, sent))"

definition put_client :: "relay_socket \<Rightarrow> (client \<Rightarrow> client) \<Rightarrow> socket_server \<Rightarrow> socket_server" where
  "put_client s f sv = sv\<lparr>ss_clients := update_where (\<lambda>c. cl_socket c = s) f (ss_clients sv)\<rparr>"

definition reserve :: "string list \<Rightarrow> counter \<Rightarrow> counter" where
  "reserve keys c = fold counter_add keys c"

definition release_keys :: "string list \<Rightarrow> counter \<Rightarrow> counter" where
  "release_keys keys c = fold counter_remove keys c"

section \<open>Opening a connection\<close>

definition allowedOrigin :: "(string \<Rightarrow> string option) \<Rightarrow> string list \<Rightarrow> string option \<Rightarrow> bool" where
  "allowedOrigin originOf allowed origin = (
     if allowed = [] then True
     else case origin of
         None \<Rightarrow> False
       | Some t \<Rightarrow> t \<noteq> [] \<and> (case originOf t of Some u \<Rightarrow> u \<in> set allowed | None \<Rightarrow> False))"

text \<open>
  The listener of \<open>upgrade\<close> requests: which of the two paths, and the query parameters of the second.
  \<open>OtherPath\<close> leaves the connection to the other listeners and destroys it when there are none.
\<close>

datatype upgrade_route = RejectUpgrade nat | HandleUpgrade "string option" socket_role | OtherPath bool

definition upgradeRoute :: "nat \<Rightarrow> string \<Rightarrow> string option \<Rightarrow> string option \<Rightarrow> upgrade_route" where
  "upgradeRoute listeners pathname roomId role = (
     if pathname = DEVICE_SOCKET_PATH then HandleUpgrade None HostRole
     else if pathname = GAME_SOCKET_PATH then
       (if \<not> isValidRoomId roomId \<or> (role \<noteq> Some ''host'' \<and> role \<noteq> Some ''player'') then RejectUpgrade 400
        else HandleUpgrade roomId (if role = Some ''host'' then HostRole else PlayerRole))
     else OtherPath (listeners = 1))"

definition roomExists_lookup :: "time \<Rightarrow> string \<Rightarrow> (string \<times> bool \<times> time) list \<Rightarrow> room_check" where
  "roomExists_lookup t roomId known = (
     case map_of known roomId of
       Some (active, since) \<Rightarrow>
         if t - since < ROOM_CACHE_MS then Answered active
         else if \<not> is_uuid_text roomId then Answered False else AskDatabase roomId
     | None \<Rightarrow> if \<not> is_uuid_text roomId then Answered False else AskDatabase roomId)"

definition deviceActive :: "(string \<Rightarrow> uuid option) \<Rightarrow> string \<Rightarrow> database \<Rightarrow> bool" where
  "deviceActive readId roomId db =
     (first_row (\<lambda>d. Some (d_id d) = readId roomId \<and> d_isActive d) (t_devices db) \<noteq> None)"

definition roomExists_store :: "time \<Rightarrow> string \<Rightarrow> bool \<Rightarrow> (string \<times> bool \<times> time) list \<Rightarrow> (string \<times> bool \<times> time) list" where
  "roomExists_store t roomId active known =
     AList.update roomId (active, t) (if ROOM_CACHE_LIMIT < length known then [] else known)"

text \<open>The keys a connection is counted under: the room is known only for the path that names it.\<close>

definition keys_for :: "string \<Rightarrow> string option \<Rightarrow> string list" where
  "keys_for ip roomId = (case roomId of None \<Rightarrow> [ip] | Some r \<Rightarrow> [ip, ip @ ''|'' @ r])"

definition handleUpgrade ::
    "(string \<Rightarrow> string option) \<Rightarrow> string list \<Rightarrow> string option \<Rightarrow> string \<Rightarrow> time \<Rightarrow> nat \<Rightarrow> string option
       \<Rightarrow> socket_role \<Rightarrow> socket_server \<Rightarrow> nat + socket_server" where
  "handleUpgrade originOf allowed origin ip t conn roomId role sv = (
     if \<not> allowedOrigin originOf allowed origin then Inl 403
     else if \<not> ss_listening sv then Inl 503
     else if maxConnections \<le> length (ss_clients sv) then Inl 503
     else let keys = keys_for ip roomId in
       if int maxConnectionsPerIp \<le> counter_get ip (ss_perIp sv)
          \<or> (roomId \<noteq> None \<and> int maxConnectionsPerIpPerRoom \<le> counter_get (keys ! 1) (ss_perIp sv))
       then Inl 429
       else Inr (sv\<lparr>ss_perIp := reserve keys (ss_perIp sv),
         ss_pending := ss_pending sv @ [\<lparr>up_conn = conn, up_room = roomId, up_role = role, up_keys = keys,
           up_check = (if role = PlayerRole \<and> roomId \<noteq> None
                       then roomExists_lookup t (the roomId) (ss_knownRooms sv) else Answered True)\<rparr>]\<rparr>))"

text \<open>The answer of the database, \<open>None\<close> when the query failed.\<close>

definition roomAnswered :: "time \<Rightarrow> upgrade \<Rightarrow> bool option \<Rightarrow> socket_server \<Rightarrow> socket_server" where
  "roomAnswered t p answer sv = (case up_check p of
      Answered _ \<Rightarrow> sv
    | AskDatabase roomId \<Rightarrow>
        sv\<lparr>ss_pending := update_where (\<lambda>q. up_conn q = up_conn p)
             (up_check_update (\<lambda>_. Answered (answer = Some True))) (ss_pending sv),
           ss_knownRooms := (case answer of
               None \<Rightarrow> ss_knownRooms sv
             | Some active \<Rightarrow> roomExists_store t roomId active (ss_knownRooms sv))\<rparr>)"

datatype outcome = Opened | Gone | Rejected nat

definition accept :: "time \<Rightarrow> uuid \<Rightarrow> upgrade \<Rightarrow> socket_server \<Rightarrow> socket_server \<times> effects \<times> string option" where
  "accept t sid p sv = (
     let s = \<lparr>sk_id = sid, sk_conn = up_conn p\<rparr>;
         c = \<lparr>cl_socket = s, cl_role = up_role p, cl_requested = up_room p, cl_room = None,
              cl_budget = new_budget t, cl_keys = up_keys p, cl_alive = True, cl_open = True,
              cl_auth = (if up_role p = HostRole then AwaitingToken else NoAuth)\<rparr>;
         sv = sv\<lparr>ss_clients := ss_clients sv @ [c]\<rparr> in
     if up_role p = PlayerRole then
       let (rooms, es, joined) = addPlayer (the (up_room p)) s (ss_relay sv);
           (sv, sent) = run_effects es (sv\<lparr>ss_relay := rooms\<rparr>) in
       if \<not> joined then
         let (sv, sent) = run_effects [(s, Close RoomFull)] sv in (sv, sent, None)
       else (put_client s (cl_room_update (\<lambda>_. up_room p)) sv, sent, up_room p)
     else (sv, [], None))"

text \<open>
  The end of an upgrade: the requester has left, the room does not exist, or the connection opens. The
  last part of the result is the room a visit is recorded for.
\<close>

definition finishUpgrade :: "bool \<Rightarrow> time \<Rightarrow> uuid \<Rightarrow> upgrade \<Rightarrow> bool \<Rightarrow> socket_server
    \<Rightarrow> socket_server \<times> effects \<times> string option \<times> outcome" where
  "finishUpgrade destroyed t sid p exists sv = (
     let sv = sv\<lparr>ss_pending := filter (\<lambda>q. up_conn q \<noteq> up_conn p) (ss_pending sv)\<rparr>;
         released = sv\<lparr>ss_perIp := release_keys (up_keys p) (ss_perIp sv)\<rparr> in
     if destroyed then (released, [], None, Gone)
     else if \<not> exists then (released, [], None, Rejected 404)
     else let (sv, sent, visit) = accept t sid p sv in (sv, sent, visit, Opened))"

text \<open>
  The library calls back only after a handshake it accepts. It answers a malformed one (wrong method, key
  or version) itself, and then neither the callback nor \<open>release\<close> runs.
\<close>

definition handshakeFailed :: "upgrade \<Rightarrow> socket_server \<Rightarrow> socket_server" where
  "handshakeFailed p sv = sv\<lparr>ss_pending := filter (\<lambda>q. up_conn q \<noteq> up_conn p) (ss_pending sv)\<rparr>"

text \<open>The row of a visit, added in the background; its id and time are defaults of the table.\<close>

definition recordVisit :: "uuid \<Rightarrow> uuid \<Rightarrow> time \<Rightarrow> database \<Rightarrow> database" where
  "recordVisit fresh deviceId t db = (if deviceId \<in> d_id ` set (t_devices db)
     then db\<lparr>t_games := insert_row \<lparr>g_id = fresh, g_deviceId = deviceId, g_connectedAt = t\<rparr> (t_games db)\<rparr>
     else db)"

section \<open>Messages\<close>

definition frame_of :: "json option \<Rightarrow> json obj option" where
  "frame_of m = (case m of Some (JObj kvs) \<Rightarrow> Some kvs | _ \<Rightarrow> None)"

definition readSend :: "json option \<Rightarrow> json option" where
  "readSend m = (case frame_of m of
      None \<Rightarrow> None
    | Some f \<Rightarrow> if map_of f ''type'' = Some (JText ''send'') then map_of f ''data'' else None)"

definition tokenOf :: "json option \<Rightarrow> string option" where
  "tokenOf m = (case frame_of m of
      None \<Rightarrow> None
    | Some f \<Rightarrow> if map_of f ''type'' = Some (JText ''auth'')
        then (case map_of f ''token'' of Some (JStr t) \<Rightarrow> Some (ascii t) | _ \<Rightarrow> None) else None)"

text \<open>\<open>authenticateHost\<close>: a failed query (\<open>None\<close>) is a refusal.\<close>

definition authenticateHost :: "(string \<Rightarrow> string) \<Rightarrow> string option \<Rightarrow> database option \<Rightarrow> uuid option" where
  "authenticateHost sha token db = (case token of
      None \<Rightarrow> None
    | Some s \<Rightarrow> if s = [] \<or> \<not> looksLikeDeviceToken s then None
        else case db of None \<Rightarrow> None
          | Some db \<Rightarrow> map_option d_id (first_row (\<lambda>d. d_tokenHash d = sha s \<and> d_isActive d) (t_devices db)))"

text \<open>
  A message meets the handler that waits for the token and the handler of the game. The first message
  of a screen reaches both, and the second one ignores it: the room is not known yet.
\<close>

definition onMessage :: "time \<Rightarrow> json option \<Rightarrow> client \<Rightarrow> socket_server \<Rightarrow> socket_server \<times> effects" where
  "onMessage t m c sv = (
     let sv = (if cl_auth c = AwaitingToken
               then put_client (cl_socket c) (cl_auth_update (\<lambda>_. CheckingToken (tokenOf m))) sv else sv) in
     case cl_room c of
       None \<Rightarrow> (sv, [])
     | Some roomId \<Rightarrow>
         let (budget, taken) = take_token t (cl_budget c);
             sv = put_client (cl_socket c) (cl_budget_update (\<lambda>_. budget)) sv in
         if \<not> taken then (sv, [])
         else case readSend m of
             None \<Rightarrow> (sv, [])
           | Some data \<Rightarrow> run_effects
               (if cl_role c = HostRole then fromHost roomId (cl_socket c) data (ss_relay sv)
                else fromPlayer roomId (cl_socket c) data (ss_relay sv)) sv)"

definition hostAuthenticated :: "(uuid \<Rightarrow> string) \<Rightarrow> uuid option \<Rightarrow> client \<Rightarrow> socket_server \<Rightarrow> socket_server \<times> effects" where
  "hostAuthenticated idText deviceId c sv = (
     let s = cl_socket c; sv = put_client s (cl_auth_update (\<lambda>_. AuthDone)) sv in
     if \<not> cl_open c then (sv, [])
     else case deviceId of
         None \<Rightarrow> run_effects [(s, Close Unauthorized)] sv
       | Some d \<Rightarrow>
           if cl_requested c \<noteq> None \<and> cl_requested c \<noteq> Some (idText d)
           then run_effects [(s, Close Forbidden)] sv
           else let sv = put_client s (cl_room_update (\<lambda>_. Some (idText d))) sv;
                    (rooms, es) = addHost (idText d) s (ss_relay sv) in
                run_effects es (sv\<lparr>ss_relay := rooms\<rparr>))"

section \<open>Timers and the end of a connection\<close>

definition authTimeout :: "client \<Rightarrow> socket_server \<Rightarrow> socket_server \<times> effects" where
  "authTimeout c sv = run_effects [(cl_socket c, Close Unauthorized)] sv"

definition onPong :: "client \<Rightarrow> socket_server \<Rightarrow> socket_server" where
  "onPong c sv = put_client (cl_socket c) (cl_alive_update (\<lambda>_. True)) sv"

text \<open>A client that did not answer the last ping is terminated; the others are asked again.\<close>

definition heartbeat :: "socket_server \<Rightarrow> socket_server" where
  "heartbeat sv = sv\<lparr>ss_clients := map (\<lambda>c. if \<not> cl_alive c then c\<lparr>cl_open := False\<rparr> else c\<lparr>cl_alive := False\<rparr>)
     (ss_clients sv)\<rparr>"

definition onClose :: "client \<Rightarrow> socket_server \<Rightarrow> socket_server \<times> effects" where
  "onClose c sv = (
     let sv = sv\<lparr>ss_clients := filter (\<lambda>x. cl_socket x \<noteq> cl_socket c) (ss_clients sv),
                 ss_perIp := release_keys (cl_keys c) (ss_perIp sv)\<rparr> in
     case cl_room c of
       None \<Rightarrow> (sv, [])
     | Some roomId \<Rightarrow> let (rooms, es) = remove_socket roomId (cl_socket c) (ss_relay sv) in
         run_effects es (sv\<lparr>ss_relay := rooms\<rparr>))"

definition onApplicationShutdown :: "socket_server \<Rightarrow> socket_server \<times> effects" where
  "onApplicationShutdown sv =
     run_effects (map (\<lambda>c. (cl_socket c, Close ShuttingDown)) (ss_clients sv)) (sv\<lparr>ss_listening := False\<rparr>)"

end
