(* ===== verification/Realtime_Inv.thy ===== *)
theory Realtime_Inv
  imports Device_Control Realtime_Socket "HOL-Library.Multiset"
begin

text \<open>
  The steps of the socket server, in any order and with any answers of the database, and the invariant
  of every state they reach: who sits in the rooms, and how many connections an address has.
\<close>

section \<open>Steps\<close>

text \<open>
  Each callback is one step. A new connection and its socket id are new among the present ones; every
  question to the database may be answered from any state of it, or fail. \<open>out\<close> is what sockets are
  made to do. The last rules are the control frames of \<open>DeviceControlService\<close>.
\<close>

definition fresh_socket :: "uuid \<Rightarrow> socket_server \<Rightarrow> bool" where
  "fresh_socket sid sv \<longleftrightarrow> sid \<notin> (\<lambda>c. sk_id (cl_socket c)) ` set (ss_clients sv)"

definition conns :: "socket_server \<Rightarrow> nat list" where
  "conns sv = map up_conn (ss_pending sv) @ map (\<lambda>c. sk_conn (cl_socket c)) (ss_clients sv)"

inductive realtime_step ::
    "(string \<Rightarrow> string) \<Rightarrow> (uuid \<Rightarrow> string) \<Rightarrow> (string \<Rightarrow> uuid option) \<Rightarrow> socket_server \<Rightarrow> effects \<Rightarrow> socket_server \<Rightarrow> bool"
  for sha idText readId where
  request: "handleUpgrade originOf allowed origin ip t conn roomId role sv = Inr sv' \<Longrightarrow> conn \<notin> set (conns sv)
    \<Longrightarrow> upgradeRoute listeners pathname room_param role_param = HandleUpgrade roomId role
    \<Longrightarrow> realtime_step sha idText readId sv [] sv'"
| room_answered: "p \<in> set (ss_pending sv)
    \<Longrightarrow> answer = None \<or> (\<exists>db r. up_check p = AskDatabase r \<and> answer = Some (deviceActive readId r db))
    \<Longrightarrow> realtime_step sha idText readId sv [] (roomAnswered t p answer sv)"
| finished: "p \<in> set (ss_pending sv) \<Longrightarrow> up_check p = Answered e \<Longrightarrow> fresh_socket sid sv
    \<Longrightarrow> finishUpgrade destroyed t sid p e sv = (sv', out, visit, result) \<Longrightarrow> realtime_step sha idText readId sv out sv'"
| handshake_failed: "p \<in> set (ss_pending sv) \<Longrightarrow> up_check p = Answered True
    \<Longrightarrow> realtime_step sha idText readId sv [] (handshakeFailed p sv)"
| message: "c \<in> set (ss_clients sv) \<Longrightarrow> onMessage t m c sv = (sv', out) \<Longrightarrow> realtime_step sha idText readId sv out sv'"
| authenticated: "c \<in> set (ss_clients sv) \<Longrightarrow> cl_auth c = CheckingToken token
    \<Longrightarrow> hostAuthenticated idText (authenticateHost sha token db) c sv = (sv', out)
    \<Longrightarrow> realtime_step sha idText readId sv out sv'"
| timed_out: "c \<in> set (ss_clients sv) \<Longrightarrow> cl_auth c = AwaitingToken \<Longrightarrow> authTimeout c sv = (sv', out)
    \<Longrightarrow> realtime_step sha idText readId sv out sv'"
| pong: "c \<in> set (ss_clients sv) \<Longrightarrow> realtime_step sha idText readId sv [] (onPong c sv)"
| heartbeat: "realtime_step sha idText readId sv [] (heartbeat sv)"
| closed: "c \<in> set (ss_clients sv) \<Longrightarrow> onClose c sv = (sv', out) \<Longrightarrow> realtime_step sha idText readId sv out sv'"
| shutdown: "onApplicationShutdown sv = (sv', out) \<Longrightarrow> realtime_step sha idText readId sv out sv'"
| told: "run_effects (fst (toHost i frame (ss_relay sv))) sv = (sv', out) \<Longrightarrow> realtime_step sha idText readId sv out sv'"
| disconnected: "run_effects (disconnect idText d (ss_relay sv)) sv = (sv', out)
    \<Longrightarrow> realtime_step sha idText readId sv out sv'"

definition started :: socket_server where
  "started = \<lparr>ss_listening = True, ss_relay = [], ss_clients = [], ss_pending = [], ss_perIp = [], ss_knownRooms = []\<rparr>"

inductive served :: "(string \<Rightarrow> string) \<Rightarrow> (uuid \<Rightarrow> string) \<Rightarrow> (string \<Rightarrow> uuid option) \<Rightarrow> socket_server \<Rightarrow> bool"
  for sha idText readId where
  start: "served sha idText readId started"
| step: "served sha idText readId sv \<Longrightarrow> realtime_step sha idText readId sv out sv' \<Longrightarrow> served sha idText readId sv'"

section \<open>Effects keep everything but the open sockets\<close>

lemma perform_keeps:
  assumes "\<And>c b. f (c\<lparr>cl_open := b\<rparr>) = f c"
  shows "map f (fst (perform es cs)) = map f cs"
proof (induction es cs rule: perform.induct)
  case (3 s code es cs)
  then show ?case by (simp add: split_beta Let_def) (simp add: update_where_def assms)
qed (simp_all add: split_beta Let_def)

definition seat_of :: "client \<Rightarrow> relay_socket \<times> string list \<times> socket_role \<times> string option \<times> auth_state" where
  "seat_of c = (cl_socket c, cl_keys c, cl_role c, cl_room c, cl_auth c)"

text \<open>What the invariant speaks about.\<close>

definition core :: "socket_server \<Rightarrow> _" where
  "core sv = (ss_relay sv, map seat_of (ss_clients sv), ss_pending sv, ss_perIp sv)"

lemma run_effects_core: "run_effects es sv = (sv', out) \<Longrightarrow> core sv' = core sv"
  using perform_keeps[of seat_of es "ss_clients sv"]
  by (auto simp: run_effects_def core_def seat_of_def split_beta Let_def)

section \<open>Who sits in the rooms\<close>

text \<open>
  The host of a room is a present connection of a screen that has this room, the players are present
  connections of phones that have it. A screen has a room only after its token was accepted.
\<close>

definition seated :: "client list \<Rightarrow> relay_socket \<Rightarrow> string \<Rightarrow> socket_role \<Rightarrow> bool" where
  "seated cs s i role \<longleftrightarrow> (\<exists>c \<in> set cs. cl_socket c = s \<and> cl_room c = Some i \<and> cl_role c = role)"

definition relay_seated :: "relay \<Rightarrow> client list \<Rightarrow> bool" where
  "relay_seated rooms cs \<longleftrightarrow> (\<forall>i x. map_of rooms i = Some x \<longrightarrow>
     (\<forall>s. rm_host x = Some s \<longrightarrow> seated cs s i HostRole)
     \<and> (\<forall>k s. (k, s) \<in> set (rm_players x) \<longrightarrow> seated cs s i PlayerRole))"

definition auth_ok :: "client \<Rightarrow> bool" where
  "auth_ok c \<longleftrightarrow> (if cl_role c = PlayerRole then cl_auth c = NoAuth
     else cl_auth c \<noteq> NoAuth \<and> (cl_auth c \<noteq> AuthDone \<longrightarrow> cl_room c = None))"

definition seats_ok :: "socket_server \<Rightarrow> bool" where
  "seats_ok sv \<longleftrightarrow> relay_ok (ss_relay sv) \<and> relay_seated (ss_relay sv) (ss_clients sv)
     \<and> (\<forall>c \<in> set (ss_clients sv). auth_ok c) \<and> distinct (conns sv)
     \<and> (\<forall>p \<in> set (ss_pending sv). up_role p = PlayerRole \<longrightarrow> up_room p \<noteq> None)"

lemma seated_seats: "seated cs s i role \<longleftrightarrow> (\<exists>ks a. (s, ks, role, Some i, a) \<in> set (map seat_of cs))"
  by (force simp: seated_def seat_of_def)

lemma auth_seats: "(\<forall>c \<in> set cs. auth_ok c) \<longleftrightarrow> (\<forall>(s, ks, role, i, a) \<in> set (map seat_of cs).
    if role = PlayerRole then a = NoAuth else a \<noteq> NoAuth \<and> (a \<noteq> AuthDone \<longrightarrow> i = None))"
  by (simp add: auth_ok_def seat_of_def)

lemma conns_seats: "map (\<lambda>c. sk_conn (cl_socket c)) cs = map (\<lambda>x. sk_conn (fst x)) (map seat_of cs)"
  by (simp add: seat_of_def)

lemma seats_ok_core: "core sv' = core sv \<Longrightarrow> seats_ok sv' = seats_ok sv"
  unfolding seats_ok_def relay_seated_def seated_seats auth_seats conns_def conns_seats by (simp only: core_def prod.inject)

lemma client_unique:
  assumes "distinct (conns sv)" and "c \<in> set (ss_clients sv)" and "c' \<in> set (ss_clients sv)"
    and "cl_socket c = cl_socket c'"
  shows "c = c'"
  using assms by (auto simp: conns_def distinct_map inj_on_def)

lemma set_put_client:
  "set (ss_clients (put_client s f sv)) = (\<lambda>c. if cl_socket c = s then f c else c) ` set (ss_clients sv)"
  by (auto simp: put_client_def update_where_def)

text \<open>A change of one client that keeps its seat, up to the progress of its authentication.\<close>

lemma put_client_seats_ok:
  assumes "seats_ok sv"
    and f: "\<And>c. c \<in> set (ss_clients sv) \<Longrightarrow> cl_socket c = s \<Longrightarrow>
      cl_socket (f c) = s \<and> cl_role (f c) = cl_role c \<and> cl_room (f c) = cl_room c \<and> auth_ok (f c)"
  shows "seats_ok (put_client s f sv)"
proof -
  let ?g = "\<lambda>c. if cl_socket c = s then f c else c"
  have g: "cl_socket (?g c) = cl_socket c" "cl_role (?g c) = cl_role c" "cl_room (?g c) = cl_room c"
    if "c \<in> set (ss_clients sv)" for c using f[OF that] by auto
  have "seated (ss_clients sv) h i role \<Longrightarrow> seated (ss_clients (put_client s f sv)) h i role" for h i role
    unfolding seated_def set_put_client using g by fastforce
  moreover have "map (\<lambda>c. sk_conn (cl_socket c)) (ss_clients (put_client s f sv))
      = map (\<lambda>c. sk_conn (cl_socket c)) (ss_clients sv)"
    using g(1) by (simp add: put_client_def update_where_def)
  moreover have "\<forall>c \<in> set (ss_clients (put_client s f sv)). auth_ok c"
    unfolding set_put_client using assms(1) f by (auto simp: seats_ok_def)
  ultimately show ?thesis
    using assms(1) by (auto simp: seats_ok_def relay_seated_def conns_def put_client_def)
qed

subsection \<open>A new connection\<close>

lemma seated_append: "seated cs s i role \<Longrightarrow> seated (cs @ ds) s i role"
  by (auto simp: seated_def)

lemma relay_seated_append: "relay_seated rooms cs \<Longrightarrow> relay_seated rooms (cs @ ds)"
  by (fastforce simp: relay_seated_def intro: seated_append)

lemma seats_of_room: "map seat_of (update_where (\<lambda>c. cl_socket c = s) (cl_room_update (\<lambda>_. r)) cs)
    = map (\<lambda>(s', ks, role, i, a). if s' = s then (s', ks, role, r, a) else (s', ks, role, i, a)) (map seat_of cs)"
  by (simp add: update_where_def seat_of_def)

lemma relay_seated_room_at:
  assumes "relay_seated rooms cs"
  shows "rm_host (room_at i rooms) = Some s \<Longrightarrow> seated cs s i HostRole"
    and "(k, s) \<in> set (rm_players (room_at i rooms)) \<Longrightarrow> seated cs s i PlayerRole"
  using assms by (auto simp: relay_seated_def room_at_def split: option.splits)

lemma set_AList_update: "set (AList.update k v xs) \<subseteq> insert (k, v) (set xs)"
  by (induction xs) auto

lemma addPlayer_seated:
  assumes "relay_ok rooms" and "relay_seated rooms cs" and "snd (snd (addPlayer i s rooms)) \<Longrightarrow> seated cs s i PlayerRole"
  shows "relay_seated (fst (addPlayer i s rooms)) cs"
proof -
  have "seated cs q i PlayerRole" if "(k, q) \<in> set (AList.update (sk_id s) s (rm_players (room_at i rooms)))"
      "snd (snd (addPlayer i s rooms))" for k q
    using that assms(3) set_AList_update[of "sk_id s" s "rm_players (room_at i rooms)"] relay_seated_room_at(2)[OF assms(2)] by auto
  then show ?thesis
    using assms(2) relay_seated_room_at(1)[OF assms(2), of i]
    unfolding relay_seated_def map_of_addPlayer[OF assms(1)] by auto
qed

lemma accept_seats_ok:
  assumes "seats_ok sv" and "up_conn p \<notin> set (conns sv)" and "up_role p = PlayerRole \<longrightarrow> up_room p \<noteq> None"
    and "accept t sid p sv = (sv', out, visit)"
  shows "seats_ok sv'"
proof -
  define s :: relay_socket where "s = \<lparr>sk_id = sid, sk_conn = up_conn p\<rparr>"
  define c where "c = \<lparr>cl_socket = s, cl_role = up_role p, cl_requested = up_room p, cl_room = None,
              cl_budget = new_budget t, cl_keys = up_keys p, cl_alive = True, cl_open = True,
              cl_auth = (if up_role p = HostRole then AwaitingToken else NoAuth)\<rparr>"
  let ?sv = "sv\<lparr>ss_clients := ss_clients sv @ [c]\<rparr>"
  have other: "cl_socket x \<noteq> s" if "x \<in> set (ss_clients sv)" for x
  proof
    assume "cl_socket x = s"
    then have "up_conn p = sk_conn (cl_socket x)" by (simp add: s_def)
    then show False using assms(2) that by (auto simp: conns_def)
  qed
  have a: "auth_ok c" by (cases "up_role p") (simp_all add: auth_ok_def c_def)
  have d: "distinct (conns ?sv)" using assms(1,2) by (auto simp: seats_ok_def conns_def c_def s_def)
  have ok: "seats_ok ?sv" using assms(1) a d by (auto simp: seats_ok_def relay_seated_append)
  show ?thesis
  proof (cases "up_role p = PlayerRole")
    case False
    then show ?thesis using assms(4) ok by (auto simp: accept_def Let_def c_def s_def)
  next
    case True
    then obtain i where i: "up_room p = Some i" using assms(3) by auto
    obtain rooms es joined where add: "addPlayer i s (ss_relay sv) = (rooms, es, joined)" by (cases "addPlayer i s (ss_relay sv)")
    obtain sv1 sent where run: "run_effects es (?sv\<lparr>ss_relay := rooms\<rparr>) = (sv1, sent)" by fastforce
    note core1 = run_effects_core[OF run]
    let ?c = "if joined then c\<lparr>cl_room := Some i\<rparr> else c"
    let ?j = "?sv\<lparr>ss_relay := rooms, ss_clients := ss_clients sv @ [?c]\<rparr>"
    have rel: "relay_ok (ss_relay sv)" "relay_seated (ss_relay sv) (ss_clients sv @ [?c])"
      using assms(1) by (auto simp: seats_ok_def relay_seated_append)
    have "joined \<Longrightarrow> seated (ss_clients sv @ [?c]) s i PlayerRole"
      by (auto simp: seated_def c_def True)
    then have "relay_seated rooms (ss_clients sv @ [?c])"
      using addPlayer_seated[OF rel, of i s] add by simp
    moreover have "relay_ok rooms" using addPlayer_ok[OF rel(1), of i s] add by simp
    moreover have "auth_ok ?c" using a True by (simp add: auth_ok_def c_def)
    ultimately have j: "seats_ok ?j"
      using ok d by (auto simp: seats_ok_def conns_def c_def)
    have "core sv' = core ?j"
    proof (cases joined)
      case True
      then have "sv' = put_client s (cl_room_update (\<lambda>_. Some i)) sv1"
        using assms(4) i add run \<open>up_role p = PlayerRole\<close> by (auto simp: accept_def Let_def c_def s_def)
      then show ?thesis
        using core1 True other
        by (auto simp: core_def put_client_def seats_of_room) (auto simp: seat_of_def c_def)
    next
      case False
      then have "fst (run_effects [(s, Close RoomFull)] sv1) = sv' \<and> snd (run_effects [(s, Close RoomFull)] sv1) = out"
        using assms(4) i add run \<open>up_role p = PlayerRole\<close> by (simp add: accept_def Let_def split_beta c_def s_def)
      then have "run_effects [(s, Close RoomFull)] sv1 = (sv', out)" by (metis prod.collapse)
      from run_effects_core[OF this] core1 False show ?thesis by (simp add: core_def)
    qed
    from seats_ok_core[OF this] j show ?thesis by (rule iffD2)
  qed
qed

subsection \<open>A screen in its room, and the end of a connection\<close>

lemma addHost_seated:
  assumes "relay_seated rooms cs" and "seated cs s i HostRole"
  shows "relay_seated (fst (addHost i s rooms)) cs"
  using assms relay_seated_room_at(2)[OF assms(1)] unfolding relay_seated_def map_of_addHost by auto

lemma put_client_room_seats_ok:
  assumes "seats_ok sv" and "c \<in> set (ss_clients sv)" and "cl_room c = None" and "cl_auth c = AuthDone"
  shows "seats_ok (put_client (cl_socket c) (cl_room_update (\<lambda>_. r)) sv)"
proof -
  let ?cs = "ss_clients (put_client (cl_socket c) (cl_room_update (\<lambda>_. r)) sv)"
  have one: "x = c" if "x \<in> set (ss_clients sv)" "cl_socket x = cl_socket c" for x
    using client_unique[of sv x c] assms(1,2) that by (auto simp: seats_ok_def)
  have "seated ?cs h i role" if "seated (ss_clients sv) h i role" for h i role
  proof -
    from that obtain x where x: "x \<in> set (ss_clients sv)" "cl_socket x = h" "cl_room x = Some i" "cl_role x = role"
      by (auto simp: seated_def)
    then have "cl_socket x \<noteq> cl_socket c" using one[of x] assms(3) by auto
    with x show ?thesis unfolding seated_def set_put_client by (intro bexI[of _ x]) (auto intro: image_eqI[of _ _ x])
  qed
  moreover have "auth_ok x" if "x \<in> set ?cs" for x
  proof -
    from that obtain y where y: "y \<in> set (ss_clients sv)" "x = (if cl_socket y = cl_socket c then y\<lparr>cl_room := r\<rparr> else y)"
      unfolding set_put_client by blast
    moreover have "auth_ok y" using y(1) assms(1) by (simp add: seats_ok_def)
    ultimately show ?thesis using one[of y] assms(4) by (auto simp: auth_ok_def)
  qed
  moreover have "map (\<lambda>c. sk_conn (cl_socket c)) ?cs = map (\<lambda>c. sk_conn (cl_socket c)) (ss_clients sv)"
    by (simp add: put_client_def update_where_def)
  ultimately show ?thesis
    using assms(1) by (auto simp: seats_ok_def relay_seated_def conns_def put_client_def)
qed

lemma hostAuthenticated_seats_ok:
  assumes "seats_ok sv" and "c \<in> set (ss_clients sv)" and "cl_auth c = CheckingToken token"
    and "hostAuthenticated idText d c sv = (sv', out)"
  shows "seats_ok sv'"
proof -
  have host: "cl_role c = HostRole" "cl_room c = None"
    using assms(1-3) by (cases "cl_role c"; auto simp: seats_ok_def auth_ok_def)+
  have one: "x = c" if "x \<in> set (ss_clients sv)" "cl_socket x = cl_socket c" for x
    using client_unique[of sv x c] assms(1,2) that by (auto simp: seats_ok_def)
  let ?done = "put_client (cl_socket c) (cl_auth_update (\<lambda>_. AuthDone)) sv"
  have done_ok: "seats_ok ?done"
  proof (rule put_client_seats_ok[OF assms(1)])
    fix x assume "x \<in> set (ss_clients sv)" "cl_socket x = cl_socket c"
    with one have "x = c" by blast
    then show "cl_socket (x\<lparr>cl_auth := AuthDone\<rparr>) = cl_socket c \<and> cl_role (x\<lparr>cl_auth := AuthDone\<rparr>) = cl_role x
        \<and> cl_room (x\<lparr>cl_auth := AuthDone\<rparr>) = cl_room x \<and> auth_ok (x\<lparr>cl_auth := AuthDone\<rparr>)"
      using host by (simp add: auth_ok_def)
  qed
  have c': "c\<lparr>cl_auth := AuthDone\<rparr> \<in> set (ss_clients ?done)"
    using assms(2) unfolding set_put_client by (auto intro: image_eqI[of _ _ c])
  show ?thesis
  proof (cases "cl_open c \<and> (\<exists>e. d = Some e \<and> (cl_requested c = None \<or> cl_requested c = Some (idText e)))")
    case False
    then consider "sv' = ?done" | code where "run_effects [(cl_socket c, Close code)] ?done = (sv', out)"
      using assms(4) by (auto simp: hostAuthenticated_def Let_def split: option.splits if_splits)
    then show ?thesis by cases (use done_ok seats_ok_core[OF run_effects_core] in auto)
  next
    case True
    then obtain e where e: "d = Some e" "cl_requested c = None \<or> cl_requested c = Some (idText e)" "cl_open c" by blast
    let ?in = "put_client (cl_socket c) (cl_room_update (\<lambda>_. Some (idText e))) ?done"
    have in_ok: "seats_ok ?in" using put_client_room_seats_ok[OF done_ok c', of "Some (idText e)"] host by simp
    obtain rooms es where add: "addHost (idText e) (cl_socket c) (ss_relay ?in) = (rooms, es)" by fastforce
    have "seated (ss_clients ?in) (cl_socket c) (idText e) HostRole"
      using c' host unfolding seated_def set_put_client[of _ _ ?done]
      by (intro bexI[of _ "c\<lparr>cl_auth := AuthDone, cl_room := Some (idText e)\<rparr>"] image_eqI[of _ _ "c\<lparr>cl_auth := AuthDone\<rparr>"]) simp_all
    then have "seats_ok (?in\<lparr>ss_relay := rooms\<rparr>)"
      using in_ok addHost_seated[of "ss_relay ?in" "ss_clients ?in" "cl_socket c" "idText e"]
        addHost_ok[of "ss_relay ?in" "idText e" "cl_socket c"] add by (simp add: seats_ok_def conns_def)
    moreover have "run_effects es (?in\<lparr>ss_relay := rooms\<rparr>) = (sv', out)"
      using assms(4) e add by (auto simp: hostAuthenticated_def Let_def)
    ultimately show ?thesis using seats_ok_core[OF run_effects_core] by metis
  qed
qed

lemma onClose_seats_ok:
  assumes "seats_ok sv" and "c \<in> set (ss_clients sv)" and "onClose c sv = (sv', out)"
  shows "seats_ok sv'"
proof -
  let ?cs = "filter (\<lambda>x. cl_socket x \<noteq> cl_socket c) (ss_clients sv)"
  let ?sv = "sv\<lparr>ss_clients := ?cs, ss_perIp := release_keys (cl_keys c) (ss_perIp sv)\<rparr>"
  have ok: "relay_ok (ss_relay sv)" "relay_seated (ss_relay sv) (ss_clients sv)"
    and rest: "distinct (conns ?sv)" "\<forall>x \<in> set ?cs. auth_ok x"
    using assms(1) by (auto simp: seats_ok_def conns_def distinct_map_filter)
  have one: "x = c" if "x \<in> set (ss_clients sv)" "cl_socket x = cl_socket c" for x
    using client_unique[of sv x c] assms(1,2) that by (auto simp: seats_ok_def)
  have stay: "seated ?cs h i role" if "seated (ss_clients sv) h i role" "h \<noteq> cl_socket c \<or> cl_room c \<noteq> Some i \<or> cl_role c \<noteq> role" for h i role
    using that one by (auto simp: seated_def)
  show ?thesis
  proof (cases "cl_room c")
    case None
    then have "relay_seated (ss_relay sv) ?cs" using ok(2) stay by (auto simp: relay_seated_def)
    then have "seats_ok ?sv" using assms(1) rest by (auto simp: seats_ok_def)
    moreover have "sv' = ?sv" using None assms(3) by (simp add: onClose_def)
    ultimately show ?thesis by simp
  next
    case (Some i)
    obtain rooms es where rem: "remove_socket i (cl_socket c) (ss_relay sv) = (rooms, es)" by fastforce
    have key: "k = sk_id s" if "map_of (ss_relay sv) j = Some x" "(k, s) \<in> set (rm_players x)" for j x k s
      using relay_okD(1)[OF ok(1) that(1)] that(2) by (auto simp: room_ok_def list_all_iff)
    have "relay_seated rooms ?cs"
      unfolding relay_seated_def
    proof (intro allI impI)
      fix j x assume "map_of rooms j = Some x"
      then obtain y where y: "map_of (ss_relay sv) j = Some y"
          "rm_host x = rm_host y \<or> rm_host x = None" "set (rm_players x) \<subseteq> set (rm_players y)"
          "j = i \<Longrightarrow> rm_host x \<noteq> Some (cl_socket c)"
          "j = i \<Longrightarrow> rm_host y \<noteq> Some (cl_socket c) \<Longrightarrow> (sk_id (cl_socket c), cl_socket c) \<notin> set (rm_players x)"
        using map_of_remove_socket[OF ok(1), of i "cl_socket c" j x] rem by auto
      have host: "rm_host y = Some s \<Longrightarrow> seated (ss_clients sv) s j HostRole"
        and pl: "(k, s) \<in> set (rm_players y) \<Longrightarrow> seated (ss_clients sv) s j PlayerRole" for k s
        using ok(2) y(1) by (auto simp: relay_seated_def)
      show "(\<forall>s. rm_host x = Some s \<longrightarrow> seated ?cs s j HostRole)
          \<and> (\<forall>k s. (k, s) \<in> set (rm_players x) \<longrightarrow> seated ?cs s j PlayerRole)"
      proof (intro conjI allI impI)
        fix s assume s: "rm_host x = Some s"
        with y(2) have "rm_host y = Some s" by auto
        from stay[OF host[OF this]] s y(4) Some show "seated ?cs s j HostRole" by auto
      next
        fix k s assume s: "(k, s) \<in> set (rm_players x)"
        with y(3) have p: "seated (ss_clients sv) s j PlayerRole" and k: "k = sk_id s" using pl key[OF y(1)] by auto
        show "seated ?cs s j PlayerRole"
        proof (rule stay[OF p], rule ccontr)
          assume "\<not> (s \<noteq> cl_socket c \<or> cl_room c \<noteq> Some j \<or> cl_role c \<noteq> PlayerRole)"
          then have c: "s = cl_socket c" "j = i" "cl_role c = PlayerRole" using Some by auto
          with y(5) s k have "rm_host y = Some (cl_socket c)" by auto
          from host[OF this] obtain z where "z \<in> set (ss_clients sv)" "cl_socket z = cl_socket c" "cl_role z = HostRole"
            by (auto simp: seated_def)
          with one[of z] c(3) show False by auto
        qed
      qed
    qed
    moreover have "relay_ok rooms" using remove_socket_ok[OF ok(1), of i "cl_socket c"] rem by simp
    ultimately have "seats_ok (?sv\<lparr>ss_relay := rooms\<rparr>)" using assms(1) rest by (auto simp: seats_ok_def conns_def)
    moreover have "run_effects es (?sv\<lparr>ss_relay := rooms\<rparr>) = (sv', out)"
      using assms(3) Some rem by (simp add: onClose_def Let_def)
    ultimately show ?thesis using seats_ok_core[OF run_effects_core] by metis
  qed
qed

section \<open>How many connections an address has\<close>

text \<open>The keys of all connections, being opened or open, and how often a key occurs among them.\<close>

definition keys_of :: "socket_server \<Rightarrow> string list multiset" where
  "keys_of sv = mset (map up_keys (ss_pending sv)) + mset (map cl_keys (ss_clients sv))"

definition uses_key :: "string \<Rightarrow> string list multiset \<Rightarrow> int" where
  "uses_key k M = (\<Sum>ks \<in># M. int (count_list ks k))"

definition counts_ok :: "string list multiset \<Rightarrow> counter \<Rightarrow> bool" where
  "counts_ok M c \<longleftrightarrow> (\<forall>k. uses_key k M \<le> counter_get k c)
     \<and> (\<forall>ks \<in># M. ks \<noteq> [])
     \<and> (\<forall>ip. size {#ks \<in># M. hd ks = ip#} \<le> maxConnectionsPerIp)
     \<and> (\<forall>key. size {#ks \<in># M. tl ks = [key]#} \<le> maxConnectionsPerIpPerRoom)"

lemma uses_key_add: "uses_key k (add_mset ks M) = int (count_list ks k) + uses_key k M"
  by (simp add: uses_key_def)

lemma uses_key_ge: "ks \<in># M \<Longrightarrow> int (count_list ks k) \<le> uses_key k M"
proof -
  assume "ks \<in># M"
  then obtain N where "M = add_mset ks N" by (meson multi_member_split)
  moreover have "0 \<le> uses_key k N" by (induction N) (simp_all add: uses_key_def)
  ultimately show ?thesis by (simp add: uses_key_add)
qed

lemma counter_get_add: "counter_get k (counter_add j c) = counter_get k c + (if k = j then 1 else 0)"
  by (simp add: counter_get_def counter_add_def update_conv')

lemma counter_get_remove:
  "0 < counter_get j c \<Longrightarrow> counter_get k (counter_remove j c) = counter_get k c - (if k = j then 1 else 0)"
  by (auto simp: counter_get_def counter_remove_def Let_def update_conv' delete_conv' split: if_splits)

lemma counter_get_reserve: "counter_get k (reserve keys c) = counter_get k c + int (count_list keys k)"
  by (induction keys arbitrary: c) (auto simp: reserve_def counter_get_add)

lemma counter_get_release:
  "\<forall>j. int (count_list keys j) \<le> counter_get j c \<Longrightarrow> counter_get k (release_keys keys c) = counter_get k c - int (count_list keys k)"
proof (induction keys arbitrary: c)
  case (Cons key keys)
  have "0 < counter_get key c" using Cons.prems[rule_format, of key] by simp
  note rem = counter_get_remove[OF this]
  have "int (count_list keys j) \<le> counter_get j (counter_remove key c)" for j
    using Cons.prems[rule_format, of j] by (simp add: rem split: if_splits)
  then show ?case using Cons.IH[of "counter_remove key c"] by (auto simp: release_keys_def rem)
qed (simp add: release_keys_def)

lemma counts_okD: "counts_ok (add_mset keys M) c \<Longrightarrow> int (count_list keys k) + uses_key k M \<le> counter_get k c"
  unfolding counts_ok_def uses_key_add[symmetric] by blast

lemma uses_key_nonneg: "0 \<le> uses_key k M"
  by (induction M) (simp_all add: uses_key_def)

lemma counts_ok_release:
  assumes "counts_ok (add_mset keys M) c"
  shows "counts_ok M (release_keys keys c)"
proof -
  have "int (count_list keys j) \<le> counter_get j c" for j
    using counts_okD[OF assms, of j] uses_key_nonneg[of j M] by simp
  then have "uses_key k M \<le> counter_get k (release_keys keys c)" for k
    using counts_okD[OF assms, of k] by (simp add: counter_get_release)
  then show ?thesis using assms by (auto simp: counts_ok_def split: if_splits intro: Suc_leD)
qed

lemma counts_ok_mono:
  assumes "counts_ok (add_mset keys M) c"
  shows "counts_ok M c"
proof -
  have "uses_key k M \<le> counter_get k c" for k
    using counts_okD[OF assms, of k] by simp
  then show ?thesis using assms by (auto simp: counts_ok_def split: if_splits intro: Suc_leD)
qed

lemma hd_count:
  "\<forall>ks \<in># M. ks \<noteq> [] \<Longrightarrow> int (size {#ks \<in># M. hd ks = k#}) \<le> uses_key k M"
  "\<forall>ks \<in># M. ks \<noteq> [] \<Longrightarrow> int (size {#ks \<in># M. tl ks = [k]#}) \<le> uses_key k M"
proof (induction M)
  case (add ks M)
  { case 1 with add(1) show ?case by (cases ks) (auto simp: uses_key_add) }
  { case 2 with add(2) show ?case by (cases ks) (auto simp: uses_key_add) }
qed (simp_all add: uses_key_def)

lemma counts_ok_reserve:
  assumes "counts_ok M c" and "counter_get ip c < int maxConnectionsPerIp"
    and "\<And>r. roomId = Some r \<Longrightarrow> counter_get (ip @ ''|'' @ r) c < int maxConnectionsPerIpPerRoom"
  shows "counts_ok (add_mset (keys_for ip roomId) M) (reserve (keys_for ip roomId) c)"
proof -
  have ne: "\<forall>ks \<in># M. ks \<noteq> []" and get: "uses_key k M \<le> counter_get k c" for k
    using assms(1) by (auto simp: counts_ok_def)
  have "size {#ks \<in># M. hd ks = ip#} < maxConnectionsPerIp"
    using hd_count(1)[OF ne, of ip] assms(2) get[of ip] by simp
  moreover have "size {#ks \<in># M. tl ks = [ip @ ''|'' @ r]#} < maxConnectionsPerIpPerRoom" if "roomId = Some r" for r
    using hd_count(2)[OF ne, of "ip @ ''|'' @ r"] assms(3)[OF that] get[of "ip @ ''|'' @ r"] by simp
  ultimately show ?thesis
    using assms(1) by (cases roomId) (auto simp: counts_ok_def counter_get_reserve uses_key_add keys_for_def)
qed

lemma mset_remove_key:
  assumes "distinct (map key xs)" and "x \<in> set xs"
  shows "mset xs = add_mset x (mset (filter (\<lambda>y. key y \<noteq> key x) xs))"
  using assms
proof (induction xs)
  case (Cons y xs)
  show ?case
  proof (cases "y = x")
    case True
    then have "filter (\<lambda>z. key z \<noteq> key x) xs = xs" using Cons.prems(1) by (auto simp: filter_id_conv image_iff)
    then show ?thesis using True by simp
  qed (use Cons in \<open>auto simp: image_iff\<close>)
qed simp

lemma mset_map_remove_key:
  assumes "distinct (map key xs)" and "x \<in> set xs"
  shows "mset (map f xs) = add_mset (f x) (mset (map f (filter (\<lambda>y. key y \<noteq> key x) xs)))"
  using arg_cong[OF mset_remove_key[OF assms], of "image_mset f"] by simp

section \<open>Every step keeps both\<close>

definition realtime_ok :: "socket_server \<Rightarrow> bool" where
  "realtime_ok sv \<longleftrightarrow> seats_ok sv \<and> counts_ok (keys_of sv) (ss_perIp sv)"

lemma realtime_ok_core: "core sv' = core sv \<Longrightarrow> realtime_ok sv' = realtime_ok sv"
proof -
  assume c: "core sv' = core sv"
  have "map cl_keys cs = map (\<lambda>x. fst (snd x)) (map seat_of cs)" for cs by (simp add: seat_of_def)
  with c have "keys_of sv' = keys_of sv" unfolding keys_of_def by (simp only: core_def prod.inject)
  then show ?thesis using seats_ok_core[OF c] c by (simp add: realtime_ok_def core_def)
qed

lemma run_effects_ok: "run_effects es sv = (sv', out) \<Longrightarrow> realtime_ok sv \<Longrightarrow> realtime_ok sv'"
  using realtime_ok_core[OF run_effects_core] by blast

lemma run_effects_keys:
  "keys_of (fst (run_effects es sv)) = keys_of sv" "ss_perIp (fst (run_effects es sv)) = ss_perIp sv"
  using perform_keeps[of cl_keys es "ss_clients sv"]
  by (simp_all add: run_effects_def keys_of_def split_beta Let_def mset_map[symmetric] del: mset_map)

lemma put_client_keys:
  assumes "\<And>c. cl_keys (f c) = cl_keys c"
  shows "keys_of (put_client s f sv) = keys_of sv \<and> ss_perIp (put_client s f sv) = ss_perIp sv"
proof -
  have "map cl_keys (update_where P f cs) = map cl_keys cs" for P and cs :: "client list"
    by (simp add: map_update_where assms)
  then show ?thesis by (simp add: keys_of_def put_client_def mset_map[symmetric] del: mset_map)
qed

lemma hostAuthenticated_keys:
  assumes "hostAuthenticated idText d c sv = (sv', out)"
  shows "keys_of sv' = keys_of sv \<and> ss_perIp sv' = ss_perIp sv"
proof -
  have relay: "keys_of (sv\<lparr>ss_relay := rooms\<rparr>) = keys_of sv" for rooms and sv :: socket_server
    by (simp add: keys_of_def)
  have "keys_of (fst (hostAuthenticated idText d c sv)) = keys_of sv
      \<and> ss_perIp (fst (hostAuthenticated idText d c sv)) = ss_perIp sv"
    by (simp add: hostAuthenticated_def Let_def split_beta put_client_keys relay run_effects_keys split: option.split)
  then show ?thesis using assms by simp
qed

lemma keys_of_relay: "keys_of (sv\<lparr>ss_relay := rooms\<rparr>) = keys_of sv"
  by (simp add: keys_of_def)

lemma onMessage_keys:
  "keys_of (fst (onMessage t m c sv)) = keys_of sv" "ss_perIp (fst (onMessage t m c sv)) = ss_perIp sv"
  by (simp_all add: onMessage_def Let_def split_beta put_client_keys run_effects_keys split: option.split)

lemma accept_keys:
  "keys_of (fst (accept t sid p sv)) = add_mset (up_keys p) (keys_of sv)"
  "ss_perIp (fst (accept t sid p sv)) = ss_perIp sv"
  by (simp_all add: accept_def Let_def split_beta put_client_keys run_effects_keys keys_of_relay)
     (simp_all add: keys_of_def)

lemma keys_of_pending:
  assumes "distinct (conns sv)" and "p \<in> set (ss_pending sv)"
  shows "keys_of sv = add_mset (up_keys p)
     (keys_of (sv\<lparr>ss_pending := filter (\<lambda>q. up_conn q \<noteq> up_conn p) (ss_pending sv)\<rparr>))"
  using mset_map_remove_key[OF _ assms(2), of up_conn up_keys] assms(1)
  by (simp add: keys_of_def conns_def del: mset_map)

lemma keys_of_client:
  assumes "distinct (conns sv)" and "c \<in> set (ss_clients sv)"
  shows "keys_of sv = add_mset (cl_keys c)
     (keys_of (sv\<lparr>ss_clients := filter (\<lambda>x. cl_socket x \<noteq> cl_socket c) (ss_clients sv)\<rparr>))"
proof -
  have "distinct (map cl_socket (ss_clients sv))"
    using assms(1) by (auto simp: conns_def distinct_map inj_on_def)
  from mset_map_remove_key[OF this assms(2), of cl_keys] show ?thesis by (simp add: keys_of_def del: mset_map)
qed

lemma seats_ok_perIp: "seats_ok (sv\<lparr>ss_perIp := c\<rparr>) = seats_ok sv"
  by (simp add: seats_ok_def conns_def)

lemma seats_ok_pending:
  assumes "seats_ok sv" and "distinct (map up_conn ps)" and "up_conn ` set ps \<subseteq> up_conn ` set (ss_pending sv)"
    and "\<And>q. q \<in> set ps \<Longrightarrow> up_role q = PlayerRole \<Longrightarrow> up_room q \<noteq> None"
  shows "seats_ok (sv\<lparr>ss_pending := ps\<rparr>)"
proof -
  let ?cs = "(\<lambda>c. sk_conn (cl_socket c)) ` set (ss_clients sv)"
  have "up_conn ` set (ss_pending sv) \<inter> ?cs = {}" using assms(1) by (simp add: seats_ok_def conns_def)
  with assms(3) have "up_conn ` set ps \<inter> ?cs = {}" by blast
  then show ?thesis using assms(1,2,4) by (simp add: seats_ok_def conns_def)
qed

lemma upgrade_requested_ok:
  assumes "realtime_ok sv" and "handleUpgrade originOf allowed origin ip t conn roomId role sv = Inr sv'"
    and "conn \<notin> set (conns sv)" and "role = PlayerRole \<longrightarrow> roomId \<noteq> None"
  shows "realtime_ok sv'"
proof -
  let ?keys = "keys_for ip roomId"
  define p where "p = \<lparr>up_conn = conn, up_room = roomId, up_role = role, up_keys = ?keys,
           up_check = (if role = PlayerRole \<and> roomId \<noteq> None
                       then roomExists_lookup t (the roomId) (ss_knownRooms sv) else Answered True)\<rparr>"
  from assms(2) have p: "up_conn p = conn" "up_role p = role" "up_room p = roomId" "up_keys p = ?keys"
      "sv' = sv\<lparr>ss_perIp := reserve ?keys (ss_perIp sv), ss_pending := ss_pending sv @ [p]\<rparr>"
    and room: "counter_get ip (ss_perIp sv) < int maxConnectionsPerIp"
      "\<And>r. roomId = Some r \<Longrightarrow> counter_get (ip @ ''|'' @ r) (ss_perIp sv) < int maxConnectionsPerIpPerRoom"
    by (auto simp: handleUpgrade_def Let_def keys_for_def p_def split: if_splits)
  have "seats_ok sv'" using assms(1,3,4) p by (auto simp: realtime_ok_def seats_ok_def conns_def)
  moreover have "keys_of sv' = add_mset ?keys (keys_of sv)" using p by (simp add: keys_of_def)
  ultimately show ?thesis
    using counts_ok_reserve[OF _ room, of "keys_of sv" roomId] assms(1) p(5) by (auto simp: realtime_ok_def)
qed

lemma finished_ok:
  assumes "realtime_ok sv" and "p \<in> set (ss_pending sv)"
    and "finishUpgrade destroyed t sid p e sv = (sv', out, visit, result)"
  shows "realtime_ok sv'"
proof -
  let ?sv = "sv\<lparr>ss_pending := filter (\<lambda>q. up_conn q \<noteq> up_conn p) (ss_pending sv)\<rparr>"
  let ?released = "?sv\<lparr>ss_perIp := release_keys (up_keys p) (ss_perIp sv)\<rparr>"
  have d: "distinct (conns sv)" and up: "up_role p = PlayerRole \<longrightarrow> up_room p \<noteq> None"
    using assms(1,2) by (auto simp: realtime_ok_def seats_ok_def)
  note keys = keys_of_pending[OF d assms(2)]
  have seats: "seats_ok ?sv"
    using assms(1) by (intro seats_ok_pending) (auto simp: realtime_ok_def seats_ok_def conns_def distinct_map_filter)
  show ?thesis
  proof (cases "destroyed \<or> \<not> e")
    case True
    have "keys_of ?released = keys_of ?sv" by (simp add: keys_of_def)
    then have "realtime_ok ?released"
      using seats counts_ok_release[of "up_keys p" "keys_of ?sv" "ss_perIp sv"] assms(1) keys
      by (simp add: realtime_ok_def seats_ok_perIp)
    moreover have "sv' = ?released" using True assms(3) by (auto simp: finishUpgrade_def Let_def split: if_splits)
    ultimately show ?thesis by simp
  next
    case False
    then have a: "accept t sid p ?sv = (sv', out, visit)"
      using assms(3) by (simp add: finishUpgrade_def Let_def split_beta prod_eq_iff)
    have "up_conn p \<notin> set (conns ?sv)" using d assms(2) by (auto simp: conns_def)
    from accept_seats_ok[OF seats this up a] have "seats_ok sv'" .
    moreover have "keys_of sv' = keys_of sv" "ss_perIp sv' = ss_perIp sv"
      using accept_keys[of t sid p ?sv] a keys by simp_all
    ultimately show ?thesis using assms(1) by (simp add: realtime_ok_def)
  qed
qed

lemma handshake_failed_ok:
  assumes "realtime_ok sv" and "p \<in> set (ss_pending sv)"
  shows "realtime_ok (handshakeFailed p sv)"
proof -
  have d: "distinct (conns sv)" using assms(1) by (auto simp: realtime_ok_def seats_ok_def)
  have "seats_ok (handshakeFailed p sv)" unfolding handshakeFailed_def
    using assms(1) by (intro seats_ok_pending) (auto simp: realtime_ok_def seats_ok_def conns_def distinct_map_filter)
  moreover have "counts_ok (keys_of (handshakeFailed p sv)) (ss_perIp sv)" unfolding handshakeFailed_def
    by (rule counts_ok_mono[of "up_keys p"]) (use assms(1) keys_of_pending[OF d assms(2)] in \<open>simp add: realtime_ok_def\<close>)
  ultimately show ?thesis by (simp add: realtime_ok_def handshakeFailed_def)
qed

lemma put_client_ok:
  assumes "realtime_ok sv" and "\<And>c. cl_keys (f c) = cl_keys c"
    and "\<And>c. c \<in> set (ss_clients sv) \<Longrightarrow> cl_socket c = s \<Longrightarrow>
      cl_socket (f c) = s \<and> cl_role (f c) = cl_role c \<and> cl_room (f c) = cl_room c \<and> auth_ok (f c)"
  shows "realtime_ok (put_client s f sv)"
  using assms put_client_seats_ok[of sv s f] put_client_keys[of f s sv] by (simp add: realtime_ok_def)

lemma message_ok:
  assumes "realtime_ok sv" and "c \<in> set (ss_clients sv)" and "onMessage t m c sv = (sv', out)"
  shows "realtime_ok sv'"
proof -
  have auth: "auth_ok x" if "x \<in> set (ss_clients sv)" for x
    using assms(1) that by (auto simp: realtime_ok_def seats_ok_def)
  have one: "x = c" if "x \<in> set (ss_clients sv)" "cl_socket x = cl_socket c" for x
    using client_unique[of sv x c] assms(1,2) that by (auto simp: realtime_ok_def seats_ok_def)
  define sv1 where "sv1 = (if cl_auth c = AwaitingToken
       then put_client (cl_socket c) (cl_auth_update (\<lambda>_. CheckingToken (tokenOf m))) sv else sv)"
  have ok1: "realtime_ok sv1"
  proof (cases "cl_auth c = AwaitingToken")
    case True
    have "auth_ok (x\<lparr>cl_auth := CheckingToken (tokenOf m)\<rparr>)"
      if "x \<in> set (ss_clients sv)" "cl_socket x = cl_socket c" for x
      using auth[OF that(1)] one[OF that] True by (auto simp: auth_ok_def split: if_splits)
    then show ?thesis using True by (simp add: sv1_def put_client_ok[OF assms(1)])
  qed (use assms(1) in \<open>simp add: sv1_def\<close>)
  have auth1: "auth_ok x" if "x \<in> set (ss_clients sv1)" for x
    using ok1 that by (auto simp: realtime_ok_def seats_ok_def)
  have "realtime_ok (put_client (cl_socket c) (cl_budget_update (\<lambda>_. b)) sv1)" for b
    by (rule put_client_ok[OF ok1]) (use auth1 in \<open>auto simp: auth_ok_def\<close>)
  then show ?thesis
    using assms(3) ok1 run_effects_ok
    by (auto simp: onMessage_def sv1_def[symmetric] Let_def split_beta split: option.splits if_splits)
qed

lemma closed_ok:
  assumes "realtime_ok sv" and "c \<in> set (ss_clients sv)" and "onClose c sv = (sv', out)"
  shows "realtime_ok sv'"
proof -
  have "distinct (conns sv)" using assms(1) by (simp add: realtime_ok_def seats_ok_def)
  note keys = keys_of_client[OF this assms(2)]
  let ?sv = "sv\<lparr>ss_clients := filter (\<lambda>x. cl_socket x \<noteq> cl_socket c) (ss_clients sv)\<rparr>"
  have "keys_of (fst (onClose c sv)) = keys_of ?sv"
    by (simp add: onClose_def Let_def split_beta run_effects_keys keys_of_relay split: option.split) (simp add: keys_of_def)
  moreover have "ss_perIp (fst (onClose c sv)) = release_keys (cl_keys c) (ss_perIp sv)"
    by (simp add: onClose_def Let_def split_beta run_effects_keys split: option.split)
  ultimately show ?thesis
    using onClose_seats_ok[OF _ assms(2,3)] assms(1,3) counts_ok_release[of "cl_keys c" "keys_of ?sv" "ss_perIp sv"] keys
    by (simp add: realtime_ok_def)
qed

end
