(* ===== verification/Realtime_Properties.thy ===== *)
theory Realtime_Properties
  imports Realtime_Inv Device_Properties
begin

text \<open>
  What holds in every state the socket server reaches: the limits on connections, who can be the host of
  a room, and that game messages stay in their room.
\<close>

section \<open>The invariant of the reached states\<close>

lemma route_room: "upgradeRoute n path room_param role_param = HandleUpgrade roomId role
    \<Longrightarrow> role = PlayerRole \<longrightarrow> roomId \<noteq> None"
  by (auto simp: upgradeRoute_def isValidRoomId_def split: if_splits option.splits)

lemma room_answered_ok:
  assumes "realtime_ok sv"
  shows "realtime_ok (roomAnswered t p answer sv)"
proof -
  let ?ps = "\<lambda>b. update_where (\<lambda>q. up_conn q = up_conn p) (up_check_update (\<lambda>_. b)) (ss_pending sv)"
  have keys: "map f (?ps b) = map f (ss_pending sv)" if "\<And>q. f (q\<lparr>up_check := b\<rparr>) = f q"
    for f :: "upgrade \<Rightarrow> 'x" and b using that by (simp add: update_where_def)
  have "up_conn ` set (?ps b) = up_conn ` set (ss_pending sv)" for b
    using arg_cong[OF keys[of up_conn b], of set] by simp
  moreover have "q \<in> set (?ps b) \<Longrightarrow> up_role q = PlayerRole \<Longrightarrow> up_room q \<noteq> None" for q b
    using assms by (auto simp: realtime_ok_def seats_ok_def set_update_where)
  moreover have "distinct (map up_conn (ss_pending sv))" using assms by (simp add: realtime_ok_def seats_ok_def conns_def)
  ultimately have "seats_ok (sv\<lparr>ss_pending := ?ps b\<rparr>)" for b
    using assms keys[of up_conn b] by (intro seats_ok_pending) (simp_all add: realtime_ok_def)
  moreover have "keys_of (sv\<lparr>ss_pending := ?ps b\<rparr>) = keys_of sv" for b
    using keys[of up_keys b] by (simp add: keys_of_def mset_map[symmetric] del: mset_map)
  moreover have "seats_ok (sv\<lparr>ss_knownRooms := k\<rparr>) = seats_ok sv" "keys_of (sv\<lparr>ss_knownRooms := k\<rparr>) = keys_of sv"
    for k and sv :: socket_server
    by (simp_all add: seats_ok_def conns_def keys_of_def)
  ultimately show ?thesis
    using assms by (simp add: roomAnswered_def realtime_ok_def split: room_check.split)
qed

lemma heartbeat_ok: "realtime_ok sv \<Longrightarrow> realtime_ok (heartbeat sv)"
proof -
  have "map seat_of (ss_clients (heartbeat sv)) = map seat_of (ss_clients sv)"
    by (simp add: heartbeat_def seat_of_def)
  then have "core (heartbeat sv) = core sv" by (simp add: core_def) (simp add: heartbeat_def)
  then show "realtime_ok sv \<Longrightarrow> realtime_ok (heartbeat sv)" using realtime_ok_core by blast
qed

lemma step_ok:
  assumes "realtime_step sha idText readId sv out sv'" and "realtime_ok sv"
  shows "realtime_ok sv'"
  using assms
proof (cases rule: realtime_step.cases)
  case (request originOf allowed origin ip t conn roomId role listeners pathname room_param role_param)
  then show ?thesis using upgrade_requested_ok[OF assms(2) request(2,3) route_room[OF request(4)]] by blast
next
  case (finished p e sid destroyed t visit result)
  then show ?thesis using finished_ok[OF assms(2)] by blast
next
  case (message c t m)
  then show ?thesis using message_ok[OF assms(2)] by blast
next
  case (authenticated c token db)
  then show ?thesis
    using hostAuthenticated_seats_ok[of sv c token idText _ sv' out] hostAuthenticated_keys[of idText _ c sv sv' out] assms(2)
    by (simp add: realtime_ok_def)
next
  case (timed_out c)
  then show ?thesis using run_effects_ok[of _ sv sv' out] assms(2) by (auto simp: authTimeout_def)
next
  case (pong c)
  have "realtime_ok (put_client (cl_socket c) (cl_alive_update (\<lambda>_. True)) sv)"
    by (rule put_client_ok[OF assms(2)]) (use assms(2) in \<open>auto simp: realtime_ok_def seats_ok_def auth_ok_def\<close>)
  then show ?thesis using pong by (simp add: onPong_def)
next
  case (closed c)
  then show ?thesis using closed_ok[OF assms(2)] by blast
next
  case shutdown
  have "realtime_ok (sv\<lparr>ss_listening := False\<rparr>)"
    using assms(2) by (simp add: realtime_ok_def seats_ok_def conns_def keys_of_def)
  then show ?thesis using run_effects_ok shutdown by (auto simp: onApplicationShutdown_def)
qed (use assms(2) room_answered_ok handshake_failed_ok heartbeat_ok run_effects_ok in auto)

lemma served_ok: "served sha idText readId sv \<Longrightarrow> realtime_ok sv"
proof (induction rule: served.induct)
  case start
  show ?case
    by (simp add: realtime_ok_def seats_ok_def started_def relay_seated_def conns_def counts_ok_def keys_of_def
        uses_key_def counter_get_def relay_ok_Nil)
qed (rule step_ok)

lemma served_hosts_unique:
  assumes "served sha idText readId sv"
  shows "hosts_unique (ss_relay sv)"
proof -
  have ok: "relay_seated (ss_relay sv) (ss_clients sv)" "distinct (conns sv)"
    using served_ok[OF assms] by (auto simp: realtime_ok_def seats_ok_def)
  show ?thesis
    unfolding hosts_unique_def
  proof (intro allI impI)
    fix i j h assume "rm_host (room_at i (ss_relay sv)) = Some h" "rm_host (room_at j (ss_relay sv)) = Some h"
    then have "seated (ss_clients sv) h i HostRole" "seated (ss_clients sv) h j HostRole"
      using relay_seated_room_at(1)[OF ok(1)] by blast+
    then show "i = j" using client_unique[OF ok(2)] by (auto simp: seated_def) (metis option.inject)
  qed
qed

section \<open>Limits\<close>


text \<open>A phone asks for a room, the room is there, and the connection opens.\<close>

definition sample_room_id :: string where
  "sample_room_id = ''00000000-0000-0000-0000-000000000046''"

definition asked_server :: socket_server where
  "asked_server = started\<lparr>ss_perIp := reserve (keys_for ''10.0.0.7'' (Some sample_room_id)) [],
     ss_pending := [\<lparr>up_conn = 1, up_room = Some sample_room_id, up_role = PlayerRole,
       up_keys = keys_for ''10.0.0.7'' (Some sample_room_id), up_check = AskDatabase sample_room_id\<rparr>]\<rparr>"

lemma asked_served: "served sha idText readId asked_server"
proof (rule served.step[OF served.start], rule realtime_step.request)
  show "handleUpgrade (\<lambda>_. None) [] None ''10.0.0.7'' 0 1 (Some sample_room_id) PlayerRole started = Inr asked_server"
    by (simp add: handleUpgrade_def started_def asked_server_def allowedOrigin_def maxConnections_def keys_for_def
        Let_def counter_get_def maxConnectionsPerIp_def maxConnectionsPerIpPerRoom_def roomExists_lookup_def
        is_uuid_text_def sample_room_id_def hex_char_def)
  show "upgradeRoute 1 GAME_SOCKET_PATH (Some sample_room_id) (Some ''player'') = HandleUpgrade (Some sample_room_id) PlayerRole"
    by (simp add: upgradeRoute_def GAME_SOCKET_PATH_def DEVICE_SOCKET_PATH_def isValidRoomId_def sample_room_id_def room_char_def
        Let_def)
qed (simp add: conns_def started_def)


text \<open>
  The converse fails: a connection whose handshake the library refuses stays counted for ever, so an
  address can use up its fifty slots without a single connection.
\<close>

definition answered_server :: socket_server where
  "answered_server = asked_server\<lparr>ss_pending := update_where (\<lambda>_. True) (up_check_update (\<lambda>_. Answered True))
     (ss_pending asked_server), ss_knownRooms := [(sample_room_id, True, 0)]\<rparr>"

lemma failed_handshake_keeps_slot:
  assumes "served sha idText readId answered_server"
  shows "\<exists>sv. served sha idText readId sv \<and> ss_clients sv = [] \<and> ss_pending sv = [] \<and> counter_get ''10.0.0.7'' (ss_perIp sv) = 1"
proof -
  let ?p = "\<lparr>up_conn = 1, up_room = Some sample_room_id, up_role = PlayerRole,
       up_keys = keys_for ''10.0.0.7'' (Some sample_room_id), up_check = Answered True\<rparr>"
  have "realtime_step sha idText readId answered_server [] (handshakeFailed ?p answered_server)"
    by (rule realtime_step.handshake_failed) (simp_all add: answered_server_def asked_server_def)
  note serve = served.step[OF assms this]
  have "counter_get ''10.0.0.7'' (ss_perIp (handshakeFailed ?p answered_server)) = 1"
    by (simp add: handshakeFailed_def answered_server_def asked_server_def started_def keys_for_def counter_get_reserve
        sample_room_id_def) (simp add: counter_get_def)
  moreover have "ss_clients (handshakeFailed ?p answered_server) = []" "ss_pending (handshakeFailed ?p answered_server) = []"
    by (simp_all add: handshakeFailed_def answered_server_def asked_server_def started_def)
  ultimately show ?thesis using serve by blast
qed

section \<open>Messages stay in their room\<close>

lemma perform_sent:
  "(s, e) \<in> set (snd (perform es cs)) \<Longrightarrow> (s, e) \<in> set es \<and> (\<forall>f. e = Send f \<longrightarrow> (\<exists>c \<in> set cs. cl_socket c = s \<and> cl_open c))"
proof (induction es cs rule: perform.induct)
  case (3 q code es cs)
  then show ?case by (auto simp: split_beta Let_def set_update_where)
qed (auto simp: split_beta Let_def list_ex_iff split: if_splits)

lemma run_effects_sent:
  assumes "run_effects es sv = (sv', out)" and "(s, Send f) \<in> set out"
  shows "(s, Send f) \<in> set es \<and> (\<exists>c \<in> set (ss_clients sv). cl_socket c = s \<and> cl_open c)"
  using assms perform_sent[of s "Send f" es "ss_clients sv"] by (auto simp: run_effects_def split_beta Let_def)

lemma run_effects_within:
  assumes "run_effects es sv = (sv', out)" and "(s, e) \<in> set out"
  shows "(s, e) \<in> set es"
  using assms perform_sent[of s e es "ss_clients sv"] by (auto simp: run_effects_def split_beta Let_def)

lemma game_frames:
  assumes "relay_seated rooms cs"
  shows "(s, e) \<in> set (fromHost i h d rooms) \<Longrightarrow> seated cs s i PlayerRole \<and> e = Send (ToPlayer (FromHost d))"
    and "(s, e) \<in> set (fromPlayer i p d rooms) \<Longrightarrow> seated cs s i HostRole \<and> e = Send (ToHost (FromPlayer (sk_id p) d))"
  using assms
  by (cases "map_of rooms i";
      fastforce simp: fromHost_def fromPlayer_def toPlayers_def toHostOf_def relay_seated_def split: option.splits if_splits)+

lemma put_client_open:
  assumes "\<exists>x \<in> set (ss_clients (put_client q f sv)). cl_socket x = s \<and> cl_open x"
    and "\<And>z. cl_socket (f z) = cl_socket z" and "\<And>z. cl_open (f z) = cl_open z"
  shows "\<exists>x \<in> set (ss_clients sv). cl_socket x = s \<and> cl_open x"
  using assms unfolding set_put_client by (auto split: if_splits)

text \<open>
  C31: what a phone sends in a game reaches only the screen of its room, under the id the server gave the
  phone, and what a screen sends reaches only the phones of its own room; nothing else is caused by a
  message.
\<close>

theorem game_messages_stay_in_room:
  assumes "served sha idText readId sv" and "c \<in> set (ss_clients sv)"
    and "onMessage t m c sv = (sv', out)" and "(s, e) \<in> set out"
  shows "\<exists>c' \<in> set (ss_clients sv). cl_socket c' = s \<and> cl_open c' \<and> cl_room c' = cl_room c \<and> cl_room c \<noteq> None
     \<and> cl_role c' \<noteq> cl_role c \<and> (\<exists>data. readSend m = Some data
        \<and> e = Send (if cl_role c = HostRole then ToPlayer (FromHost data) else ToHost (FromPlayer (sk_id (cl_socket c)) data)))"
proof -
  have ok: "relay_seated (ss_relay sv) (ss_clients sv)" "distinct (conns sv)"
    using served_ok[OF assms(1)] by (auto simp: realtime_ok_def seats_ok_def)
  obtain i where i: "cl_room c = Some i"
    using assms(3,4) by (auto simp: onMessage_def Let_def split: option.splits)
  define sv1 where "sv1 = (if cl_auth c = AwaitingToken
       then put_client (cl_socket c) (cl_auth_update (\<lambda>_. CheckingToken (tokenOf m))) sv else sv)"
  define sv2 where "sv2 = put_client (cl_socket c) (cl_budget_update (\<lambda>_. fst (take_token t (cl_budget c)))) sv1"
  have rel: "ss_relay sv2 = ss_relay sv" by (simp add: sv2_def sv1_def put_client_def)
  obtain data where d: "readSend m = Some data"
    and run: "run_effects (if cl_role c = HostRole then fromHost i (cl_socket c) data (ss_relay sv)
        else fromPlayer i (cl_socket c) data (ss_relay sv)) sv2 = (sv', out)"
    using assms(3,4) rel
    by (auto simp: onMessage_def i sv1_def[symmetric] sv2_def[symmetric] Let_def split_beta
        split: if_splits option.splits)
  note es = run_effects_within[OF run assms(4)]
  have e: "e = Send (if cl_role c = HostRole then ToPlayer (FromHost data) else ToHost (FromPlayer (sk_id (cl_socket c)) data))"
    and seat: "seated (ss_clients sv) s i (if cl_role c = HostRole then PlayerRole else HostRole)"
    using es game_frames[OF ok(1)] by (auto split: if_splits)
  from seat obtain c' where c': "c' \<in> set (ss_clients sv)" "cl_socket c' = s" "cl_room c' = Some i"
      "cl_role c' = (if cl_role c = HostRole then PlayerRole else HostRole)" by (auto simp: seated_def)
  from run_effects_sent[OF run, of s] assms(4) e
  have "\<exists>x \<in> set (ss_clients sv2). cl_socket x = s \<and> cl_open x" by blast
  from put_client_open[OF this[unfolded sv2_def]] have "\<exists>x \<in> set (ss_clients sv1). cl_socket x = s \<and> cl_open x" by simp
  then have "\<exists>x \<in> set (ss_clients sv). cl_socket x = s \<and> cl_open x"
    using put_client_open[of "cl_socket c" "cl_auth_update (\<lambda>_. CheckingToken (tokenOf m))" sv s]
    by (simp add: sv1_def split: if_splits)
  then have "cl_open c'" using client_unique[OF ok(2) c'(1)] c'(2) by metis
  with c' d e i show ?thesis by (intro bexI[of _ c']) (auto simp: socket_role.exhaust)
qed

text \<open>A phone joins a room, then the screen of the room connects and is let in.\<close>

definition room_text :: "uuid \<Rightarrow> string" where
  "room_text i = (if i = 70 then sample_room_id else [])"

definition text_room :: "string \<Rightarrow> uuid option" where
  "text_room r = (if r = sample_room_id then Some 70 else None)"

definition phone :: client where
  "phone = \<lparr>cl_socket = \<lparr>sk_id = 500, sk_conn = 1\<rparr>, cl_role = PlayerRole, cl_requested = Some sample_room_id,
     cl_room = Some sample_room_id, cl_budget = new_budget 0, cl_keys = keys_for ''10.0.0.7'' (Some sample_room_id),
     cl_alive = True, cl_open = True, cl_auth = NoAuth\<rparr>"

definition screen :: "string option \<Rightarrow> auth_state \<Rightarrow> client" where
  "screen i a = \<lparr>cl_socket = \<lparr>sk_id = 600, sk_conn = 2\<rparr>, cl_role = HostRole, cl_requested = None, cl_room = i,
     cl_budget = new_budget 0, cl_keys = keys_for ''10.0.0.9'' None, cl_alive = True, cl_open = True, cl_auth = a\<rparr>"

definition room_server :: "relay_socket option \<Rightarrow> client list \<Rightarrow> upgrade list \<Rightarrow> counter \<Rightarrow> socket_server" where
  "room_server h cs ps counts = \<lparr>ss_listening = True,
     ss_relay = [(sample_room_id, \<lparr>rm_host = h, rm_players = [(500, cl_socket phone)]\<rparr>)],
     ss_clients = cs, ss_pending = ps, ss_perIp = counts, ss_knownRooms = [(sample_room_id, True, 0)]\<rparr>"

definition phone_counts :: counter where
  "phone_counts = reserve (keys_for ''10.0.0.7'' (Some sample_room_id)) []"

definition both_counts :: counter where
  "both_counts = reserve (keys_for ''10.0.0.9'' None) phone_counts"

lemma answered_served: "served rev room_text text_room answered_server"
proof -
  let ?p = "\<lparr>up_conn = 1, up_room = Some sample_room_id, up_role = PlayerRole,
       up_keys = keys_for ''10.0.0.7'' (Some sample_room_id), up_check = AskDatabase sample_room_id\<rparr>"
  let ?answer = "Some (deviceActive text_room sample_room_id sample_screen)"
  have "deviceActive text_room sample_room_id sample_screen"
    by (simp add: deviceActive_def text_room_def sample_screen_def sample_device_def)
  then have "roomAnswered 0 ?p ?answer asked_server = answered_server"
    by (simp add: roomAnswered_def answered_server_def asked_server_def started_def roomExists_store_def ROOM_CACHE_LIMIT_def)
  moreover have "realtime_step rev room_text text_room asked_server [] (roomAnswered 0 ?p ?answer asked_server)"
    by (rule realtime_step.room_answered) (auto simp: asked_server_def)
  ultimately show ?thesis using served.step[OF asked_served, of rev room_text text_room] by metis
qed

lemma refused_handshakes_leak:
  "\<exists>sv. served rev room_text text_room sv \<and> ss_clients sv = [] \<and> ss_pending sv = [] \<and> counter_get ''10.0.0.7'' (ss_perIp sv) = 1"
  by (rule failed_handshake_keeps_slot[OF answered_served])

lemma phone_served: "served rev room_text text_room (room_server None [phone] [] phone_counts)"
proof -
  let ?p = "\<lparr>up_conn = 1, up_room = Some sample_room_id, up_role = PlayerRole,
       up_keys = keys_for ''10.0.0.7'' (Some sample_room_id), up_check = Answered True\<rparr>"
  have "finishUpgrade False 0 500 ?p True answered_server
      = (room_server None [phone] [] phone_counts, [(cl_socket phone, Send (ToPlayer (HostOnline False)))], Some sample_room_id, Opened)"
    by (simp add: finishUpgrade_def answered_server_def asked_server_def started_def accept_def addPlayer_def room_def
        run_effects_def put_client_def phone_def room_server_def toHostOf_def maxPlayersPerRoom_def
        phone_counts_def Let_def)
  from realtime_step.finished[OF _ _ _ this, of rev room_text text_room]
  have "realtime_step rev room_text text_room answered_server [(cl_socket phone, Send (ToPlayer (HostOnline False)))]
      (room_server None [phone] [] phone_counts)"
    by (simp add: answered_server_def asked_server_def fresh_socket_def started_def)
  with answered_served show ?thesis by (rule served.step)
qed

lemma screen_asked: "served rev room_text text_room (room_server None [phone, screen None AwaitingToken] [] both_counts)"
proof -
  let ?p = "\<lparr>up_conn = 2, up_room = None, up_role = HostRole, up_keys = keys_for ''10.0.0.9'' None, up_check = Answered True\<rparr>"
  let ?sv = "room_server None [phone] [?p] both_counts"
  have "counter_get ''10.0.0.9'' phone_counts = 0"
    by (simp add: phone_counts_def keys_for_def counter_get_reserve) (simp add: counter_get_def sample_room_id_def)
  then have "handleUpgrade (\<lambda>_. None) [] None ''10.0.0.9'' 0 2 None HostRole (room_server None [phone] [] phone_counts) = Inr ?sv"
    by (simp add: handleUpgrade_def room_server_def both_counts_def allowedOrigin_def maxConnections_def Let_def
        maxConnectionsPerIp_def keys_for_def)
  then have "served rev room_text text_room ?sv"
    by (rule served.step[OF phone_served realtime_step.request[where pathname = DEVICE_SOCKET_PATH]])
       (auto simp: conns_def room_server_def phone_def upgradeRoute_def)
  have "finishUpgrade False 0 600 ?p True ?sv
      = (room_server None [phone, screen None AwaitingToken] [] both_counts, [], None, Opened)"
    by (simp add: finishUpgrade_def accept_def room_server_def screen_def Let_def)
  from realtime_step.finished[OF _ _ _ this, of rev room_text text_room]
  have "realtime_step rev room_text text_room ?sv [] (room_server None [phone, screen None AwaitingToken] [] both_counts)"
    by (simp add: room_server_def fresh_socket_def phone_def)
  with \<open>served rev room_text text_room ?sv\<close> show ?thesis by (rule served.step)
qed

lemma ascii_codes: "list_all (\<lambda>x. of_char x < (128 :: nat)) s \<Longrightarrow> ascii (codes s) = s"
  by (simp add: ascii_def codes_def list_all_iff map_idI)

lemma screen_steps:
  "served rev room_text text_room (room_server None [phone, screen None (CheckingToken (Some sample_token))] [] both_counts)
   \<and> (\<exists>out. realtime_step rev room_text text_room
       (room_server None [phone, screen None (CheckingToken (Some sample_token))] [] both_counts) out
       (room_server (Some (cl_socket (screen None NoAuth))) [phone, screen (Some sample_room_id) AuthDone] [] both_counts))"
proof -
  let ?m = "Some (JObj [(''type'', JText ''auth''), (''token'', JText sample_token)])"
  let ?c = "screen None (CheckingToken (Some sample_token))"
  have "list_all (\<lambda>x. of_char x < (128 :: nat)) sample_token" by (simp add: sample_token_def)
  then have t: "ascii (codes sample_token) = sample_token" by (rule ascii_codes)
  have "onMessage 0 ?m (screen None AwaitingToken) (room_server None [phone, screen None AwaitingToken] [] both_counts)
      = (room_server None [phone, ?c] [] both_counts, [])"
    using t by (simp add: onMessage_def tokenOf_def frame_of_def JText_def put_client_def room_server_def screen_def phone_def)
  then have "served rev room_text text_room (room_server None [phone, ?c] [] both_counts)"
    by (rule served.step[OF screen_asked realtime_step.message[rotated]]) (simp add: room_server_def)
  have "looksLikeDeviceToken sample_token"
    by (simp add: looksLikeDeviceToken_def sample_token_def token_char_def Let_def)
  then have "authenticateHost rev (Some sample_token) (Some sample_screen) = Some 70"
    by (auto simp: authenticateHost_def sample_screen_def sample_device_def) (simp add: sample_token_def)
  then have "hostAuthenticated room_text (authenticateHost rev (Some sample_token) (Some sample_screen)) ?c
        (room_server None [phone, ?c] [] both_counts)
      = (room_server (Some (cl_socket (screen None NoAuth))) [phone, screen (Some sample_room_id) AuthDone] [] both_counts,
         [(cl_socket ?c, Send (ToHost Ready)), (cl_socket phone, Send (ToPlayer (HostOnline True)))])"
    by (simp add: hostAuthenticated_def put_client_def room_server_def addHost_eq room_at_def room_text_def run_effects_def
        toPlayers_def screen_def phone_def Let_def)
  from realtime_step.authenticated[OF _ _ this, where readId = text_room]
  have "realtime_step rev room_text text_room (room_server None [phone, ?c] [] both_counts)
      [(cl_socket ?c, Send (ToHost Ready)), (cl_socket phone, Send (ToPlayer (HostOnline True)))]
      (room_server (Some (cl_socket (screen None NoAuth))) [phone, screen (Some sample_room_id) AuthDone] [] both_counts)"
    by (simp add: room_server_def screen_def)
  with \<open>served rev room_text text_room (room_server None [phone, ?c] [] both_counts)\<close> show ?thesis by blast
qed

lemma screen_served: "served rev room_text text_room
    (room_server (Some (cl_socket (screen None NoAuth))) [phone, screen (Some sample_room_id) AuthDone] [] both_counts)"
  using screen_steps served.step by blast

theorem game_messages_stay_in_room_witness:
  "\<exists>sv sv' out. served rev room_text text_room sv
     \<and> onMessage 50 (Some (JObj [(''type'', JText ''send''), (''data'', JNum 3)])) phone sv = (sv', out)
     \<and> (cl_socket (screen None NoAuth), Send (ToHost (FromPlayer 500 (JNum 3)))) \<in> set out
     \<and> (\<exists>c' \<in> set (ss_clients sv). cl_socket c' = cl_socket (screen None NoAuth) \<and> cl_room c' = cl_room phone)"
proof -
  let ?sv = "room_server (Some (cl_socket (screen None NoAuth))) [phone, screen (Some sample_room_id) AuthDone] [] both_counts"
  let ?m = "Some (JObj [(''type'', JText ''send''), (''data'', JNum 3)])"
  obtain sv' out where run: "onMessage 50 ?m phone ?sv = (sv', out)" by fastforce
  then have o: "(cl_socket (screen None NoAuth), Send (ToHost (FromPlayer 500 (JNum 3)))) \<in> set out"
    by (auto simp: onMessage_def phone_def take_token_def new_budget_def messagesPerSecond_def readSend_def frame_of_def
        fromPlayer_def room_server_def put_client_def run_effects_def toHostOf_def screen_def Let_def)
  have "phone \<in> set (ss_clients ?sv)" by (simp add: room_server_def)
  from game_messages_stay_in_room[OF screen_served this run o] run o screen_served show ?thesis by blast
qed

section \<open>Who can be the host of a room\<close>

lemma host_after_player:
  "relay_ok rooms \<Longrightarrow> rm_host (room_at j (fst (addPlayer i s rooms))) = rm_host (room_at j rooms)"
  unfolding room_at_def map_of_addPlayer by (auto simp: room_at_def split: option.split)

lemma host_after_remove:
  assumes "relay_ok rooms" and "rm_host (room_at j (fst (remove_socket i s rooms))) = Some h"
  shows "rm_host (room_at j rooms) = Some h"
proof (cases "map_of (fst (remove_socket i s rooms)) j")
  case (Some x)
  with map_of_remove_socket[OF assms(1) Some] assms(2) show ?thesis by (auto simp: room_at_def)
qed (use assms(2) in \<open>simp add: room_at_def\<close>)

lemma run_effects_relay: "ss_relay (fst (run_effects es sv)) = ss_relay sv"
  by (simp add: run_effects_def split_beta Let_def)

lemma put_client_relay [simp]: "ss_relay (put_client s f sv) = ss_relay sv"
  by (simp add: put_client_def)



end
