(* ===== verification/Playlist.thy ===== *)
theory Playlist
  imports Devices
begin

text \<open>
  What a screen plays (\<open>playlist/playlist.service.ts\<close>): the approved submissions that run now and
  address the screen, its effective lineup, its live state and the programs they name. The first version
  of the answer holds posters only.

  Parameters: \<open>pub\<close> gives the public URL of a stored file, \<open>sha\<close> the hash of a JSON value and \<open>ver1\<close> and
  \<open>ver2\<close> the version hashes of an answer's content, the SHA-256 of its JSON text.
\<close>

section \<open>What is on air\<close>

definition PUBLISHABLE_STATUSES :: "submission_status list" where
  "PUBLISHABLE_STATUSES = [APPROVED, SCHEDULED, PUBLISHED]"

definition targetsDevice :: "database \<Rightarrow> uuid \<Rightarrow> submission \<Rightarrow> bool" where
  "targetsDevice db deviceId s \<longleftrightarrow>
     \<not> list_ex (\<lambda>r. stg_submissionId r = s_id s) (t_submissionTargetGroups db)
     \<or> list_ex (\<lambda>r. stg_submissionId r = s_id s
         \<and> list_ex (\<lambda>q. dtg_targetGroupId q = stg_targetGroupId r \<and> dtg_deviceId q = deviceId) (t_deviceTargetGroups db))
       (t_submissionTargetGroups db)"

definition assetOf :: "database \<Rightarrow> submission \<Rightarrow> asset option" where
  "assetOf db s = Option.bind (s_assetId s) (\<lambda>i. first_row (\<lambda>a. a_id a = i) (t_assets db))"

text \<open>A comparison with a missing time is never true in SQL.\<close>

definition on_air :: "database \<Rightarrow> time \<Rightarrow> submission \<Rightarrow> bool" where
  "on_air db t s \<longleftrightarrow> s_status s \<in> set PUBLISHABLE_STATUSES
     \<and> (case s_startAt s of Some a \<Rightarrow> a \<le> t | None \<Rightarrow> False)
     \<and> (case s_endAt s of Some e \<Rightarrow> t < e | None \<Rightarrow> False)
     \<and> (s_assetId s = None \<or> (case assetOf db s of Some a \<Rightarrow> a_status a = READY | None \<Rightarrow> False))"

definition playlistRow :: "database \<Rightarrow> submission \<Rightarrow> playlist_row" where
  "playlistRow db s = \<lparr>pr_sub = s, pr_startAt = the (s_startAt s), pr_endAt = the (s_endAt s),
     pr_categoryName = Option.bind (s_categoryId s) (\<lambda>i. map_option c_name (first_row (\<lambda>c. c_id c = i) (t_categories db))),
     pr_asset = assetOf db s\<rparr>"

definition liveSubmissions :: "time \<Rightarrow> (submission \<Rightarrow> bool) \<Rightarrow> database \<Rightarrow> playlist_row list" where
  "liveSubmissions t wanted db = map (playlistRow db)
     (order_asc (\<lambda>s. (- s_priority s, the (s_startAt s), s_id s))
       (select (\<lambda>s. wanted s \<and> on_air db t s) (t_submissions db)))"

section \<open>Items and programs\<close>

definition submissionTypes :: "submission_type list" where
  "submissionTypes = [POSTER, EVENT_BANNER, STORY]"

definition itemOf :: "(storage_key \<Rightarrow> string) \<Rightarrow> (json \<Rightarrow> string) \<Rightarrow> database \<Rightarrow> playlist_row \<Rightarrow> playlist_item" where
  "itemOf pub sha db row = (let s = pr_sub row in
     sk_toPlaylistItem (kindOf (s_type s)) row (detailOf db (s_type s) (s_id s)) pub sha)"

definition submissionItems ::
    "(storage_key \<Rightarrow> string) \<Rightarrow> (json \<Rightarrow> string) \<Rightarrow> database \<Rightarrow> playlist_row list \<Rightarrow> (submission_type \<times> playlist_item list) list" where
  "submissionItems pub sha db rows =
     map (\<lambda>type. (type, map (itemOf pub sha db) (filter (\<lambda>row. s_type (pr_sub row) = type) rows))) submissionTypes"

record playlist_program =
  pp_type :: string
  pp_name :: utext
  pp_params :: "json obj"
  pp_data :: "json obj option"

definition programsOf :: "slug list \<Rightarrow> time \<Rightarrow> database \<Rightarrow> playlist_program obj" where
  "programsOf ids t db =
     map (\<lambda>p. (p_id p, \<lparr>pp_type = p_type p, pp_name = p_name p, pp_params = p_params p, pp_data = programDataOf p t\<rparr>))
       (order_asc p_id (select (\<lambda>p. p_id p \<in> set ids) (t_programs db)))"

section \<open>The first version\<close>

record playlist_content =
  pc_items :: "poster_item list"
  pc_deviceName :: utext
  pc_layoutType :: poster_layout
  pc_rotationSeconds :: int
  pc_refreshAfterSeconds :: int

record playlist_dto =
  pd_serverTime :: time
  pd_playlistVersion :: string
  pd_content :: playlist_content

definition forDevice ::
    "(storage_key \<Rightarrow> string) \<Rightarrow> (playlist_content \<Rightarrow> string) \<Rightarrow> time \<Rightarrow> device \<Rightarrow> database \<Rightarrow> playlist_dto" where
  "forDevice pub ver1 t d db = (
     let settings = effectiveSettingsOf d db;
         rows = liveSubmissions t (\<lambda>s. s_type s = POSTER \<and> targetsDevice db (d_id d) s) db;
         content = \<lparr>pc_items = map (posterPlaylistItem pub) rows, pc_deviceName = d_name d,
           pc_layoutType = ls_posterLayout settings, pc_rotationSeconds = ls_rotationSeconds settings,
           pc_refreshAfterSeconds = ls_refreshAfterSeconds settings\<rparr> in
     \<lparr>pd_serverTime = t, pd_playlistVersion = ver1 content, pd_content = content\<rparr>)"

section \<open>The second version\<close>

record playlist_live =
  plv_main :: "live_main option"
  plv_alert :: "live_alert option"
  plv_setAt :: time

record playlist_v2_content =
  p2_deviceName :: utext
  p2_refreshAfterSeconds :: int
  p2_settings :: lineup_settings
  p2_blocks :: "lineup_block_view list"
  p2_submissions :: "(submission_type \<times> playlist_item list) list"
  p2_programs :: "playlist_program obj"
  p2_live :: "playlist_live option"

record playlist_v2_dto =
  pd2_serverTime :: time
  pd2_content :: playlist_v2_content
  pd2_playlistVersion :: string

fun shownSubmission :: "live_main option \<Rightarrow> uuid option" where
  "shownSubmission (Some (SHOW i _ _)) = i"
| "shownSubmission _ = None"

fun shownProgram :: "live_main option \<Rightarrow> slug option" where
  "shownProgram (Some (SHOW _ p _)) = p"
| "shownProgram _ = None"

text \<open>
  The rows and what is left of \<open>main\<close>: a submission the live state shows comes along although it
  addresses other screens, and when it is not on air \<open>main\<close> is dropped.
\<close>

definition rowsAndMain ::
    "time \<Rightarrow> playlist_row list \<Rightarrow> live_main option \<Rightarrow> database \<Rightarrow> playlist_row list \<times> live_main option" where
  "rowsAndMain t targeted main db = (case shownSubmission main of
      None \<Rightarrow> (targeted, main)
    | Some i \<Rightarrow>
        if list_ex (\<lambda>row. s_id (pr_sub row) = i) targeted then (targeted, main)
        else (case liveSubmissions t (\<lambda>s. s_id s = i) db of
            row # _ \<Rightarrow> (targeted @ [row], main)
          | [] \<Rightarrow> (targeted, None)))"

definition programIdsOf :: "lineup_block_view list \<Rightarrow> lineup_settings \<Rightarrow> slug option \<Rightarrow> slug list" where
  "programIdsOf blocks settings shown = List.map_filter bv_programId blocks
     @ map ib_programId (ls_infoBar settings) @ (case shown of Some p \<Rightarrow> [p] | None \<Rightarrow> [])"

definition contentV2 ::
    "(storage_key \<Rightarrow> string) \<Rightarrow> (json \<Rightarrow> string) \<Rightarrow> time \<Rightarrow> device \<Rightarrow> database \<Rightarrow> playlist_v2_content" where
  "contentV2 pub sha t d db = (
     let lineup = effectiveLineupOf d db;
         targeted = liveSubmissions t (targetsDevice db (d_id d)) db;
         live = effectiveForDevice db t (d_id d);
         blocks = filter bv_enabled (ln_blocks lineup);
         (rows, main) = rowsAndMain t targeted (Option.bind live ll_main) db;
         shown = shownProgram main;
         programs = programsOf (programIdsOf blocks (ln_settings lineup) shown) t db;
         main = (case shown of Some p \<Rightarrow> if map_of programs p = None then None else main | None \<Rightarrow> main);
         alert = Option.bind live ll_alert in
     \<lparr>p2_deviceName = d_name d, p2_refreshAfterSeconds = ls_refreshAfterSeconds (ln_settings lineup),
      p2_settings = ln_settings lineup, p2_blocks = blocks,
      p2_submissions = submissionItems pub sha db rows, p2_programs = programs,
      p2_live = (case live of
          Some l \<Rightarrow> if main \<noteq> None \<or> alert \<noteq> None
            then Some \<lparr>plv_main = main, plv_alert = alert, plv_setAt = ll_setAt l\<rparr> else None
        | None \<Rightarrow> None)\<rparr>)"

definition forDeviceV2 ::
    "(storage_key \<Rightarrow> string) \<Rightarrow> (json \<Rightarrow> string) \<Rightarrow> (playlist_v2_content \<Rightarrow> string) \<Rightarrow> time \<Rightarrow> device \<Rightarrow> database
       \<Rightarrow> playlist_v2_dto" where
  "forDeviceV2 pub sha ver2 t d db = (let content = contentV2 pub sha t d db in
     \<lparr>pd2_serverTime = t, pd2_content = content, pd2_playlistVersion = ver2 content\<rparr>)"

definition preview ::
    "(storage_key \<Rightarrow> string) \<Rightarrow> (json \<Rightarrow> string) \<Rightarrow> (playlist_v2_content \<Rightarrow> string) \<Rightarrow> time \<Rightarrow> uuid \<Rightarrow> database
       \<Rightarrow> playlist_v2_dto res" where
  "preview pub sha ver2 t deviceId db =
     bindE (requireE (first_row (\<lambda>d. d_id d = deviceId) (t_devices db)) device_notFound) (\<lambda>d.
       Inr (forDeviceV2 pub sha ver2 t d db))"

end
