(* ===== verification/Playlist_Properties.thy ===== *)
theory Playlist_Properties
  imports Playlist Signage_Integrity Live_Properties
begin

text \<open>
  A screen plays exactly what is on air for it, each submission once; what its answer refers to is in the
  answer; and the first version of the answer is the poster part of the second.
\<close>

section \<open>Which submissions are listed\<close>

fun item_id :: "playlist_item \<Rightarrow> uuid" where
  "item_id (PosterItem p) = pi_submissionId p"
| "item_id (BannerItem e _ _ _ _ _) = pen_submissionId e"
| "item_id (StoryItem e _) = pen_submissionId e"

lemma item_id_itemOf [simp]: "item_id (itemOf pub sha db row) = s_id (pr_sub row)"
  by (cases "s_type (pr_sub row)")
     (simp_all add: itemOf_def Let_def kindOf_def POSTER_KIND_def EVENT_BANNER_KIND_def STORY_KIND_def
       posterPlaylistItem_def banner_toPlaylistItem_def story_toPlaylistItem_def playlistEntry_def)

lemma pr_sub_playlistRow [simp]: "pr_sub (playlistRow db s) = s"
  by (simp add: playlistRow_def)

lemma subs_liveSubmissions: "pr_sub ` set (liveSubmissions t P db) = {s \<in> set (t_submissions db). P s \<and> on_air db t s}"
  by (auto simp: liveSubmissions_def order_asc_def image_iff)

lemma distinct_liveSubmissions:
  "distinct (map s_id (t_submissions db)) \<Longrightarrow> distinct (map (\<lambda>row. s_id (pr_sub row)) (liveSubmissions t P db))"
  by (auto simp: liveSubmissions_def order_asc_def select_def distinct_map o_def inj_on_def)

lemma liveSubmissions_one:
  assumes "distinct (map s_id (t_submissions db))"
  shows "liveSubmissions t (\<lambda>s. s_id s = i) db = [] \<or> (\<exists>row. liveSubmissions t (\<lambda>s. s_id s = i) db = [row])"
proof -
  let ?rows = "liveSubmissions t (\<lambda>s. s_id s = i) db"
  have "distinct (map (\<lambda>row. s_id (pr_sub row)) ?rows)" by (rule distinct_liveSubmissions[OF assms])
  moreover have "\<forall>row \<in> set ?rows. s_id (pr_sub row) = i"
    by (simp add: liveSubmissions_def order_asc_def select_def)
  ultimately show ?thesis by (cases ?rows; cases "tl ?rows") auto
qed

text \<open>The rows of an answer: those that address the screen, and the one a live state shows.\<close>

definition plays :: "time \<Rightarrow> device \<Rightarrow> database \<Rightarrow> submission \<Rightarrow> bool" where
  "plays t d db s \<longleftrightarrow> on_air db t s \<and> (targetsDevice db (d_id d) s
     \<or> shownSubmission (Option.bind (effectiveForDevice db t (d_id d)) ll_main) = Some (s_id s))"

definition rows_of :: "time \<Rightarrow> device \<Rightarrow> database \<Rightarrow> playlist_row list" where
  "rows_of t d db = fst (rowsAndMain t (liveSubmissions t (targetsDevice db (d_id d)) db)
     (Option.bind (effectiveForDevice db t (d_id d)) ll_main) db)"

lemma rows_of_subs:
  assumes "distinct (map s_id (t_submissions db))"
  shows "pr_sub ` set (rows_of t d db) = {s \<in> set (t_submissions db). plays t d db s}"
    and "distinct (map (\<lambda>row. s_id (pr_sub row)) (rows_of t d db))"
proof -
  let ?main = "Option.bind (effectiveForDevice db t (d_id d)) ll_main"
  let ?targeted = "liveSubmissions t (targetsDevice db (d_id d)) db"
  have row: "s = s'" if "s \<in> set (t_submissions db)" "s' \<in> set (t_submissions db)" "s_id s = s_id s'" for s s'
    using that assms by (auto simp: distinct_map inj_on_def)
  note sub = subs_liveSubmissions[of t "targetsDevice db (d_id d)" db]
  note dist = distinct_liveSubmissions[OF assms, of t "targetsDevice db (d_id d)"]
  have "pr_sub ` set (rows_of t d db) = {s \<in> set (t_submissions db). plays t d db s}
      \<and> distinct (map (\<lambda>row. s_id (pr_sub row)) (rows_of t d db))"
  proof (cases "shownSubmission ?main")
    case None
    then show ?thesis using sub dist by (auto simp: rows_of_def rowsAndMain_def plays_def)
  next
    case (Some i)
    let ?shown = "liveSubmissions t (\<lambda>s. s_id s = i) db"
    note shown = subs_liveSubmissions[of t "\<lambda>s. s_id s = i" db]
    show ?thesis
    proof (cases "\<exists>row \<in> set ?targeted. s_id (pr_sub row) = i")
      case True
      then obtain s where "s \<in> pr_sub ` set ?targeted" "s_id s = i" by blast
      then have s: "s \<in> set (t_submissions db)" "s_id s = i" "targetsDevice db (d_id d) s" by (auto simp: sub)
      have "rows_of t d db = ?targeted" using Some True by (simp add: rows_of_def rowsAndMain_def list_ex_iff)
      moreover have "plays t d db q = (targetsDevice db (d_id d) q \<and> on_air db t q)" if "q \<in> set (t_submissions db)" for q
      proof (cases "s_id q = i")
        case True
        then have "q = s" using row[OF that s(1)] s(2) by simp
        then show ?thesis using s(3) by (auto simp: plays_def)
      qed (use Some in \<open>auto simp: plays_def\<close>)
      then have "{q \<in> set (t_submissions db). plays t d db q}
          = {q \<in> set (t_submissions db). targetsDevice db (d_id d) q \<and> on_air db t q}" by blast
      ultimately show ?thesis using sub dist by (simp only:)
    next
      case False
      from liveSubmissions_one[OF assms, of t i] show ?thesis
      proof (elim disjE exE)
        assume e: "?shown = []"
        then have "rows_of t d db = ?targeted" using Some False by (simp add: rows_of_def rowsAndMain_def list_ex_iff)
        moreover have "\<not> on_air db t q" if "q \<in> set (t_submissions db)" "s_id q = i" for q
          using shown e that by auto
        then have "{q \<in> set (t_submissions db). plays t d db q}
            = {q \<in> set (t_submissions db). targetsDevice db (d_id d) q \<and> on_air db t q}"
          using Some by (auto simp: plays_def)
        ultimately show ?thesis using sub dist by (simp only:)
      next
        fix r assume e: "?shown = [r]"
        then have "rows_of t d db = ?targeted @ [r]" using Some False by (simp add: rows_of_def rowsAndMain_def list_ex_iff)
        moreover have one: "{s \<in> set (t_submissions db). s_id s = i \<and> on_air db t s} = {pr_sub r}" using shown e by simp
        then have "{q \<in> set (t_submissions db). plays t d db q}
            = insert (pr_sub r) {q \<in> set (t_submissions db). targetsDevice db (d_id d) q \<and> on_air db t q}"
          using Some by (auto simp: plays_def set_eq_iff)
        moreover have "s_id (pr_sub r) = i" using one by auto
        ultimately show ?thesis using sub dist False by auto
      qed
    qed
  qed
  then show "pr_sub ` set (rows_of t d db) = {s \<in> set (t_submissions db). plays t d db s}"
    "distinct (map (\<lambda>row. s_id (pr_sub row)) (rows_of t d db))" by blast+
qed

lemma items_of_type:
  "map_of (p2_submissions (contentV2 pub sha t d db)) type
     = Some (map (itemOf pub sha db) (filter (\<lambda>row. s_type (pr_sub row) = type) (rows_of t d db)))"
  by (cases type) (simp_all add: contentV2_def Let_def split_beta submissionItems_def submissionTypes_def rows_of_def)


text \<open>A poster of an hour, asked for during it and after it.\<close>

definition hour_poster :: submission where
  "hour_poster = \<lparr>s_id = 5, s_type = POSTER, s_requesterId = 7, s_ziggleNoticeId = None, s_title = codes ''Concert'',
     s_categoryId = None, s_assetId = None, s_detailUrl = None, s_startAt = Some 0, s_endAt = Some 3600000,
     s_status = PUBLISHED, s_priority = 0, s_organizerName = None, s_subtitle = None, s_location = None,
     s_description = None, s_version = 2, s_submittedAt = Some 0, s_createdAt = 0, s_updatedAt = 0\<rparr>"

definition hour_db :: database where
  "hour_db = empty_database\<lparr>t_submissions := [hour_poster], t_devices := [sample_device]\<rparr>"


section \<open>What an answer refers to\<close>

lemma programsOf_keys: "fst ` set (programsOf ids t db) = set ids \<inter> p_id ` set (t_programs db)"
  by (auto simp: programsOf_def order_asc_def image_iff)

lemma map_of_programsOf_None:
  "map_of (programsOf ids t db) p = None \<longleftrightarrow> p \<notin> set ids \<inter> p_id ` set (t_programs db)"
  by (simp add: map_of_eq_None_iff programsOf_keys)

lemma lineup_programs_exist:
  assumes "programs_exist db" and "d \<in> set (t_devices db)"
  shows "b \<in> set (ln_blocks (effectiveLineupOf d db)) \<Longrightarrow> pred_option (\<lambda>p. p \<in> p_id ` set (t_programs db)) (bv_programId b)"
    and "e \<in> set (ls_infoBar (ln_settings (effectiveLineupOf d db))) \<Longrightarrow> ib_programId e \<in> p_id ` set (t_programs db)"
proof -
  { assume "b \<in> set (ln_blocks (effectiveLineupOf d db))"
    then obtain r where "r \<in> set (t_lineupBlocks db)" "bv_programId b = lb_programId r"
      by (auto simp: effectiveLineupOf_def resolveLineup_def blocksOf_def order_asc_def apply_change_def lineup_toView_def
          split: option.splits)
    then show "pred_option (\<lambda>p. p \<in> p_id ` set (t_programs db)) (bv_programId b)"
      using assms(1) by (auto simp: programs_exist_def) }
  { assume e: "e \<in> set (ls_infoBar (ln_settings (effectiveLineupOf d db)))"
    have "fits (t_programs db) e"
    proof (cases "ps_infoBar (do_settings (d_lineupOverrides d))")
      case None
      then have "e \<in> set (ls_infoBar (or_else (settingsOf db (d_programGroupId d)) DEFAULT_LINEUP_SETTINGS))"
        using e by (simp add: effectiveLineupOf_def resolveLineup_def resolveSettings_def or_else_def Let_def)
      then obtain g where "g \<in> set (t_groupLineups db)" "e \<in> set (ls_infoBar (gl_settings g))"
        by (auto simp: settingsOf_def or_else_def DEFAULT_LINEUP_SETTINGS_def split: option.splits dest: first_row_Some)
      then show ?thesis using assms(1) by (auto simp: programs_exist_def)
    next
      case (Some entries)
      then have "e \<in> set (device_infoBar d)"
        using e by (simp add: effectiveLineupOf_def resolveLineup_def resolveSettings_def or_else_def device_infoBar_def Let_def)
      then show ?thesis using assms by (auto simp: programs_exist_def)
    qed
    then show "ib_programId e \<in> p_id ` set (t_programs db)" unfolding fits_def by (metis imageI) }
qed

lemma rowsAndMain_shown:
  assumes "shownSubmission (snd (rowsAndMain t targeted main db)) = Some i"
  shows "\<exists>row \<in> set (fst (rowsAndMain t targeted main db)). s_id (pr_sub row) = i"
proof (cases "shownSubmission main")
  case None
  then show ?thesis using assms by (simp add: rowsAndMain_def)
next
  case (Some j)
  show ?thesis
  proof (cases "list_ex (\<lambda>row. s_id (pr_sub row) = j) targeted")
    case True
    then show ?thesis using assms Some by (auto simp: rowsAndMain_def list_ex_iff)
  next
    case False
    show ?thesis
    proof (cases "liveSubmissions t (\<lambda>s. s_id s = j) db")
      case Nil
      then show ?thesis using assms Some False by (simp add: rowsAndMain_def)
    next
      case (Cons row rows)
      then have "pr_sub row \<in> pr_sub ` set (liveSubmissions t (\<lambda>s. s_id s = j) db)" by simp
      then have "s_id (pr_sub row) = j" by (simp add: subs_liveSubmissions)
      then show ?thesis using assms Some False Cons by (simp add: rowsAndMain_def)
    qed
  qed
qed

definition main_of :: "playlist_v2_content \<Rightarrow> live_main option" where
  "main_of content = Option.bind (p2_live content) plv_main"

text \<open>
  C35: whatever an answer refers to is in the answer: the programs of its blocks and its information bar,
  and the submission or program its live state shows.
\<close>

theorem playlist_references_resolve:
  assumes "programs_exist db" and "d \<in> set (t_devices db)" and "distinct (map s_id (t_submissions db))"
    and "content = contentV2 pub sha t d db"
  shows "List.map_filter bv_programId (p2_blocks content) @ map ib_programId (ls_infoBar (p2_settings content))
        @ (case shownProgram (main_of content) of Some p \<Rightarrow> [p] | None \<Rightarrow> []) \<in> lists (fst ` set (p2_programs content))
     \<and> (case shownSubmission (main_of content) of
          Some i \<Rightarrow> \<exists>(type, items) \<in> set (p2_submissions content). i \<in> item_id ` set items
        | None \<Rightarrow> True)"
proof -
  define lineup where "lineup = effectiveLineupOf d db"
  define blocks where "blocks = filter bv_enabled (ln_blocks lineup)"
  define live where "live = effectiveForDevice db t (d_id d)"
  define rm where "rm = rowsAndMain t (liveSubmissions t (targetsDevice db (d_id d)) db) (Option.bind live ll_main) db"
  define shown where "shown = shownProgram (snd rm)"
  define ids where "ids = programIdsOf blocks (ln_settings lineup) shown"
  define final where "final = (case shown of Some p \<Rightarrow> if map_of (programsOf ids t db) p = None then None else snd rm
       | None \<Rightarrow> snd rm)"
  have c: "p2_blocks content = blocks" "p2_settings content = ln_settings lineup" "p2_programs content = programsOf ids t db"
    "p2_submissions content = submissionItems pub sha db (fst rm)"
    by (simp_all add: assms(4) contentV2_def Let_def split_beta lineup_def blocks_def live_def rm_def shown_def ids_def)
  have m: "main_of content = None \<or> main_of content = final"
    by (auto simp: main_of_def assms(4) contentV2_def Let_def split_beta lineup_def blocks_def live_def rm_def shown_def
        ids_def final_def split: option.splits if_splits)
  note exist = lineup_programs_exist[OF assms(1,2), folded lineup_def]
  have "p \<in> p_id ` set (t_programs db)" if "b \<in> set blocks" "bv_programId b = Some p" for b p
    using exist(1)[of b] that by (auto simp: blocks_def)
  then have blocks_in: "set (List.map_filter bv_programId blocks) \<subseteq> p_id ` set (t_programs db)"
    by (auto simp: set_map_filter)
  have bar_in: "ib_programId ` set (ls_infoBar (ln_settings lineup)) \<subseteq> p_id ` set (t_programs db)"
    using exist(2) by blast
  have "p \<in> fst ` set (programsOf ids t db)" if "shownProgram (main_of content) = Some p" for p
  proof -
    from that m have "final \<noteq> None" "shownProgram final = Some p" by (cases "main_of content"; auto)+
    then have "shown = Some p" "map_of (programsOf ids t db) p \<noteq> None"
      by (auto simp: final_def shown_def split: option.splits if_splits)
    then show ?thesis by (meson map_of_eq_None_iff)
  qed
  moreover have "set (List.map_filter bv_programId blocks) \<subseteq> fst ` set (programsOf ids t db)"
    "ib_programId ` set (ls_infoBar (ln_settings lineup)) \<subseteq> fst ` set (programsOf ids t db)"
    using blocks_in bar_in by (auto simp: programsOf_keys ids_def programIdsOf_def)
  moreover have "\<exists>(type, items) \<in> set (p2_submissions content). i \<in> item_id ` set items"
    if "shownSubmission (main_of content) = Some i" for i
  proof -
    from that m have "shownSubmission (snd rm) = Some i"
      by (auto simp: final_def split: option.splits if_splits)
    then have "\<exists>row \<in> set (fst rm). s_id (pr_sub row) = i" unfolding rm_def by (rule rowsAndMain_shown)
    then obtain row where "row \<in> set (fst rm)" "s_id (pr_sub row) = i" by blast
    then have "i \<in> item_id ` set (map (itemOf pub sha db) (filter (\<lambda>r. s_type (pr_sub r) = s_type (pr_sub row)) (fst rm)))"
      by (force simp: image_image)
    moreover have "(s_type (pr_sub row), map (itemOf pub sha db) (filter (\<lambda>r. s_type (pr_sub r) = s_type (pr_sub row)) (fst rm)))
        \<in> set (submissionItems pub sha db (fst rm))"
      by (cases "s_type (pr_sub row)") (simp_all add: submissionItems_def submissionTypes_def)
    ultimately show ?thesis unfolding c(4) by blast
  qed
  ultimately show ?thesis unfolding c by (auto simp: lists_eq_set split: option.split)
qed

definition battle_db :: database where
  "battle_db = sample_used\<lparr>t_devices := [sample_device], t_submissions := [hour_poster]\<rparr>"

theorem playlist_references_resolve_witness:
  "''prg_1'' \<in> fst ` set (p2_programs (contentV2 (\<lambda>_. []) (\<lambda>_. []) 1000 sample_device battle_db))"
proof -
  let ?c = "contentV2 (\<lambda>_. []) (\<lambda>_. []) 1000 sample_device battle_db"
  have "programs_exist battle_db" "sample_device \<in> set (t_devices battle_db)" "distinct (map s_id (t_submissions battle_db))"
    by (simp_all add: programs_exist_def battle_db_def sample_used_def sample_battle_def blockRow_def empty_database_def
        device_infoBar_def or_else_def sample_device_def sample_change_def EMPTY_SETTINGS_def)
  note resolve = playlist_references_resolve[OF this, of ?c "\<lambda>_. []" "\<lambda>_. []" 1000, OF refl]
  have "''prg_1'' \<in> set (List.map_filter bv_programId (p2_blocks ?c))"
    by (simp add: contentV2_def Let_def split_beta effectiveLineupOf_def resolveLineup_def blocksOf_def battle_db_def
        sample_used_def blockRow_def lineup_toView_def apply_change_def or_else_def select_def order_asc_def empty_database_def
        sample_device_def sample_change_def map_filter_simps)
  with resolve show ?thesis by (auto simp: lists_eq_set)
qed

section \<open>The two versions agree\<close>

lemma liveSubmissions_filter:
  "filter (\<lambda>row. Q (pr_sub row)) (liveSubmissions t P db) = liveSubmissions t (\<lambda>s. Q s \<and> P s) db"
  by (simp add: liveSubmissions_def order_asc_def select_def filter_map o_def filter_sort conj_ac)

fun poster_of :: "playlist_item \<Rightarrow> poster_item list" where
  "poster_of (PosterItem p) = [p]"
| "poster_of _ = []"

text \<open>
  a screen that still asks for the first version gets the same posters in the same order, the same
  layout and the same refresh interval as one that asks for the second, unless a live state shows a
  submission, which the first version does not know.
\<close>

theorem first_version_is_poster_part:
  assumes "shownSubmission (Option.bind (effectiveForDevice db t (d_id d)) ll_main) = None"
  shows "map PosterItem (pc_items (pd_content (forDevice pub ver1 t d db)))
       = the (map_of (p2_submissions (contentV2 pub sha t d db)) POSTER)
     \<and> pc_refreshAfterSeconds (pd_content (forDevice pub ver1 t d db)) = p2_refreshAfterSeconds (contentV2 pub sha t d db)
     \<and> pc_layoutType (pd_content (forDevice pub ver1 t d db)) = ls_posterLayout (p2_settings (contentV2 pub sha t d db))
     \<and> pc_rotationSeconds (pd_content (forDevice pub ver1 t d db)) = ls_rotationSeconds (p2_settings (contentV2 pub sha t d db))"
proof -
  have "rows_of t d db = liveSubmissions t (targetsDevice db (d_id d)) db"
    using assms by (simp add: rows_of_def rowsAndMain_def)
  then have "the (map_of (p2_submissions (contentV2 pub sha t d db)) POSTER)
      = map (itemOf pub sha db) (liveSubmissions t (\<lambda>s. s_type s = POSTER \<and> targetsDevice db (d_id d) s) db)"
    using liveSubmissions_filter[of "\<lambda>s. s_type s = POSTER" t "targetsDevice db (d_id d)" db] by (simp add: items_of_type)
  also have "\<dots> = map (\<lambda>row. PosterItem (posterPlaylistItem pub row))
      (liveSubmissions t (\<lambda>s. s_type s = POSTER \<and> targetsDevice db (d_id d) s) db)"
  proof (rule map_cong[OF refl])
    fix row assume "row \<in> set (liveSubmissions t (\<lambda>s. s_type s = POSTER \<and> targetsDevice db (d_id d) s) db)"
    then have "pr_sub row \<in> pr_sub ` set (liveSubmissions t (\<lambda>s. s_type s = POSTER \<and> targetsDevice db (d_id d) s) db)" by simp
    then have "s_type (pr_sub row) = POSTER" by (simp add: subs_liveSubmissions)
    then show "itemOf pub sha db row = PosterItem (posterPlaylistItem pub row)"
      by (simp add: itemOf_def Let_def kindOf_def POSTER_KIND_def)
  qed
  finally have "map PosterItem (pc_items (pd_content (forDevice pub ver1 t d db)))
       = the (map_of (p2_submissions (contentV2 pub sha t d db)) POSTER)"
    by (simp add: forDevice_def Let_def o_def)
  moreover have "effectiveSettingsOf d db = ln_settings (effectiveLineupOf d db)"
    by (simp add: effectiveSettingsOf_def effectiveSettings_def effectiveLineupOf_def resolveLineup_def)
  ultimately show ?thesis by (simp add: forDevice_def contentV2_def Let_def split_beta)
qed

theorem first_version_is_poster_part_witness:
  "map PosterItem (pc_items (pd_content (forDevice (\<lambda>_. []) (\<lambda>_. []) 1000 sample_device hour_db)))
     = the (map_of (p2_submissions (contentV2 (\<lambda>_. []) (\<lambda>_. []) 1000 sample_device hour_db)) POSTER)"
proof -
  have "effectiveForDevice hour_db 1000 (d_id sample_device) = None"
    by (simp add: effectiveForDevice_def effectiveFor_def layerOf_def groupsOfDevice_def hour_db_def empty_database_def
        select_def map_filter_simps resolveLive_def live_order_def)
  then show ?thesis using first_version_is_poster_part[of hour_db 1000 sample_device "\<lambda>_. []" "\<lambda>_. []" "\<lambda>_. []"] by simp
qed

end
