(* ===== verification/Assets.thy ===== *)
theory Assets
  imports Submissions
begin

text \<open>
  Uploads (\<open>assets/assets.service.ts\<close>, \<open>asset-files.ts\<close>, \<open>storage/storage-deletions.ts\<close>): a presigned
  upload, its completion, and what becomes of the stored files.

  Every statement against the database or the file store is a function of its own, so that statements of
  other requests may run between two of them; \<open>Asset_Steps\<close> composes them. Parameters: the id the
  database gives a new row, the signed URL, and the outcome of reading and processing an image: the image
  library either refuses the picture with a message, fails, or gives the variants and their data.
\<close>

section \<open>Files\<close>

definition VARIANTS :: "variant_name list" where
  "VARIANTS = [THUMB, PREVIEW, TV]"

definition uploadKey :: "uuid \<Rightarrow> storage_key" where "uploadKey i = UploadKey i"

definition variantKeysOf :: "uuid \<Rightarrow> storage_key list" where
  "variantKeysOf i = map (VariantKey i) VARIANTS @ [VideoKey i]"

definition enqueueStorageDeletions :: "storage_key list \<Rightarrow> time \<Rightarrow> database \<Rightarrow> database" where
  "enqueueStorageDeletions keys t db = db\<lparr>t_storageDeletions :=
     fold (\<lambda>k. insert_or_ignore sd_key
            \<lparr>sd_key = k, sd_attempts = 0, sd_lastError = None, sd_lastAttemptAt = None, sd_createdAt = t\<rparr>)
       keys (t_storageDeletions db)\<rparr>"

text \<open>\<open>deleteOriginal\<close>: the file store may fail; then the key is queued.\<close>

type_synonym store = "database \<times> storage_key set"

definition deleteOriginal :: "bool \<Rightarrow> uuid \<Rightarrow> time \<Rightarrow> store \<Rightarrow> store" where
  "deleteOriginal deleted i t w = (if deleted then (fst w, snd w - {uploadKey i})
     else (enqueueStorageDeletions [uploadKey i] t (fst w), snd w))"

definition rejection :: "msg \<Rightarrow> exc" where
  "rejection reason = AppException 422 VALIDATION_FAILED (Msg ''Uploaded image was rejected'') (Some [(''file'', reason)]) None"

definition rejected_asset :: "msg \<Rightarrow> time \<Rightarrow> asset \<Rightarrow> asset" where
  "rejected_asset reason t a =
     a\<lparr>a_status := ASSET_REJECTED, a_rejectionReason := Some reason, a_processedAt := Some t, a_updatedAt := t\<rparr>"

definition mark_rejected_rows :: "uuid \<Rightarrow> asset_status \<Rightarrow> msg \<Rightarrow> time \<Rightarrow> database \<Rightarrow> database" where
  "mark_rejected_rows i from_status reason t db = db\<lparr>t_assets :=
     update_where (\<lambda>a. a_id a = i \<and> a_status a = from_status)
       (rejected_asset reason t) (t_assets db)\<rparr>"

definition markRejected :: "bool \<Rightarrow> uuid \<Rightarrow> asset_status \<Rightarrow> msg \<Rightarrow> time \<Rightarrow> store \<Rightarrow> store" where
  "markRejected deleted i from_status reason t w =
     deleteOriginal deleted i t (mark_rejected_rows i from_status reason t (fst w), snd w)"

text \<open>The public files of an asset, as they are put before its row is marked ready.\<close>

definition put_files :: "asset_kind \<Rightarrow> uuid \<Rightarrow> store \<Rightarrow> store" where
  "put_files k i w = (fst w, snd w \<union> VariantKey i ` set VARIANTS \<union> (if k = VIDEO then {VideoKey i} else {}))"

section \<open>Presigning\<close>

definition UPLOAD_URL_TTL_SECONDS :: int where "UPLOAD_URL_TTL_SECONDS = 15 * 60"
definition PROCESSING_RETRY_AFTER_SECONDS :: int where "PROCESSING_RETRY_AFTER_SECONDS = 5"

record presign_request =
  pq_fileName :: utext
  pq_mimeType :: string
  pq_sizeBytes :: int
  pq_checksum :: "string option"

record presign_response =
  ps_assetId :: uuid
  ps_uploadUrl :: string
  ps_contentType :: string
  ps_expiresAt :: time

text \<open>The defaults of a new row are those of its columns.\<close>

definition new_asset :: "uuid \<Rightarrow> uuid \<Rightarrow> presign_request \<Rightarrow> time \<Rightarrow> asset" where
  "new_asset i ownerId dto t =
     \<lparr>a_id = i, a_ownerId = ownerId, a_status = PENDING_UPLOAD, a_kind = mediaKindOf (pq_mimeType dto),
      a_fileName = pq_fileName dto, a_declaredMimeType = pq_mimeType dto, a_declaredSizeBytes = pq_sizeBytes dto,
      a_declaredChecksum = pq_checksum dto, a_uploadExpiresAt = t + UPLOAD_URL_TTL_SECONDS * 1000,
      a_mimeType = None, a_width = None, a_height = None, a_sizeBytes = None, a_checksum = None,
      a_durationMs = None, a_hasAudio = None, a_processingAttempts = 0, a_processingStartedAt = None,
      a_rejectionReason = None, a_processedAt = None, a_createdAt = t, a_updatedAt = t\<rparr>"

definition size_message :: "int \<Rightarrow> msg" where
  "size_message limit = MsgOf ''The file may have at most this many MB'' (JNum (limit div 1024 div 1024))"

definition presign ::
    "bool \<Rightarrow> (storage_key \<Rightarrow> string) \<Rightarrow> uuid \<Rightarrow> uuid \<Rightarrow> presign_request \<Rightarrow> time \<Rightarrow> database
       \<Rightarrow> (database \<times> presign_response) res" where
  "presign videoUploadsEnabled presignPut i ownerId dto t db = (
     if pq_mimeType dto \<notin> set (allowedMimeTypes videoUploadsEnabled)
     then Inl (AppException 422 VALIDATION_FAILED (Msg ''Media type is not accepted'')
            (Some [(''mimeType'', acceptedFormatsMessage videoUploadsEnabled)]) None)
     else let limit = maxUploadBytesOf (mediaKindOf (pq_mimeType dto)) in
       if limit < pq_sizeBytes dto
       then Inl (AppException 413 PAYLOAD_TOO_LARGE (MsgOf ''File exceeds this many bytes'' (JNum limit))
            (Some [(''sizeBytes'', size_message limit)]) None)
       else Inr (db\<lparr>t_assets := insert_row (new_asset i ownerId dto t) (t_assets db)\<rparr>,
            \<lparr>ps_assetId = i, ps_uploadUrl = presignPut (uploadKey i), ps_contentType = pq_mimeType dto,
             ps_expiresAt = t + UPLOAD_URL_TTL_SECONDS * 1000\<rparr>))"

section \<open>Reading\<close>

definition findById_asset :: "uuid \<Rightarrow> database \<Rightarrow> asset option" where
  "findById_asset i db = first_row (\<lambda>a. a_id a = i) (t_assets db)"

definition asset_notFound :: exc where
  "asset_notFound = app_error 404 NOT_FOUND ''Asset not found''"

definition findOwned :: "uuid \<Rightarrow> uuid \<Rightarrow> database \<Rightarrow> asset res" where
  "findOwned ownerId i db = requireE (findOwnedOrNull db ownerId i) asset_notFound"

definition variantUrls :: "(storage_key \<Rightarrow> string) \<Rightarrow> uuid \<Rightarrow> (variant_name \<times> string) list" where
  "variantUrls pub i = map (\<lambda>v. (v, pub (VariantKey i v))) VARIANTS"

definition asset_videoUrl :: "(storage_key \<Rightarrow> string) \<Rightarrow> asset \<Rightarrow> string option" where
  "asset_videoUrl pub a = (if a_kind a = VIDEO then Some (pub (VideoKey (a_id a))) else None)"

text \<open>
  The answer for a finished asset. Its data are the columns as they are: \<open>width!\<close> and the like are not
  checked when the program runs.
\<close>

record asset_dto =
  ad_assetId :: uuid
  ad_kind :: asset_kind
  ad_url :: string
  ad_mimeType :: "string option"
  ad_width :: "int option"
  ad_height :: "int option"
  ad_sizeBytes :: "int option"
  ad_checksum :: "string option"
  ad_variants :: "(variant_name \<times> string) list"
  ad_videoUrl :: "string option"
  ad_durationMs :: "int option"
  ad_hasAudio :: "bool option"

definition asset_toDto :: "(storage_key \<Rightarrow> string) \<Rightarrow> asset \<Rightarrow> asset_dto" where
  "asset_toDto pub a =
     \<lparr>ad_assetId = a_id a, ad_kind = a_kind a, ad_url = pub (VariantKey (a_id a) PREVIEW), ad_mimeType = a_mimeType a,
      ad_width = a_width a, ad_height = a_height a, ad_sizeBytes = a_sizeBytes a, ad_checksum = a_checksum a,
      ad_variants = variantUrls pub (a_id a), ad_videoUrl = asset_videoUrl pub a, ad_durationMs = a_durationMs a,
      ad_hasAudio = a_hasAudio a\<rparr>"

record processing_dto =
  apd_assetId :: uuid
  apd_retryAfterSeconds :: int

definition asset_processing :: "asset \<Rightarrow> processing_dto" where
  "asset_processing a = \<lparr>apd_assetId = a_id a, apd_retryAfterSeconds = PROCESSING_RETRY_AFTER_SECONDS\<rparr>"

section \<open>Completing\<close>

datatype complete_answer = AssetReady asset_dto | AssetProcessing processing_dto

text \<open>The first part: what the row already says, or that the upload is to be looked at.\<close>

definition complete_start :: "(storage_key \<Rightarrow> string) \<Rightarrow> uuid \<Rightarrow> uuid \<Rightarrow> database \<Rightarrow> (complete_answer + asset) res" where
  "complete_start pub ownerId i db = bindE (findOwned ownerId i db) (\<lambda>a. case a_status a of
      READY \<Rightarrow> Inr (Inl (AssetReady (asset_toDto pub a)))
    | ASSET_REJECTED \<Rightarrow> Inl (rejection (case a_rejectionReason a of Some r \<Rightarrow> r | None \<Rightarrow> Msg ''This file cannot be uploaded.''))
    | PROCESSING \<Rightarrow> Inr (Inl (AssetProcessing (asset_processing a)))
    | PENDING_UPLOAD \<Rightarrow> Inr (Inr a))"

text \<open>What the size of the uploaded file leads to; \<open>None\<close> is a file that is not there.\<close>

datatype upload_check = NotUploaded exc | RejectUpload msg | EnqueueVideo | ReadImage

definition upload_size_check :: "asset \<Rightarrow> int option \<Rightarrow> upload_check" where
  "upload_size_check a bytes = (case bytes of
      None \<Rightarrow> NotUploaded (app_error 400 INVALID_REQUEST ''File has not been uploaded yet'')
    | Some n \<Rightarrow>
        if maxUploadBytesOf (a_kind a) < n then RejectUpload (size_message (maxUploadBytesOf (a_kind a)))
        else if a_kind a = VIDEO then EnqueueVideo else ReadImage)"

text \<open>What processing the bytes gives.\<close>

record processed_media =
  pm_mimeType :: string
  pm_width :: int
  pm_height :: int
  pm_sizeBytes :: int
  pm_checksum :: string
  pm_durationMs :: "int option"
  pm_hasAudio :: "bool option"

datatype media_outcome = MediaDone processed_media | MediaRejected msg | MediaFailed exc

definition image_check :: "asset \<Rightarrow> string \<Rightarrow> media_outcome \<Rightarrow> media_outcome" where
  "image_check a checksum outcome = (
     if a_declaredChecksum a \<noteq> None \<and> a_declaredChecksum a \<noteq> Some [] \<and> a_declaredChecksum a \<noteq> Some checksum
     then MediaRejected (Msg ''The file was damaged during the upload. Upload it again.'')
     else outcome)"

definition ready_asset :: "processed_media \<Rightarrow> time \<Rightarrow> asset \<Rightarrow> asset" where
  "ready_asset m t a = a\<lparr>a_status := READY, a_mimeType := Some (pm_mimeType m), a_width := Some (pm_width m),
     a_height := Some (pm_height m), a_sizeBytes := Some (pm_sizeBytes m), a_checksum := Some (pm_checksum m),
     a_processedAt := Some t, a_updatedAt := t\<rparr>"

definition image_ready :: "uuid \<Rightarrow> processed_media \<Rightarrow> time \<Rightarrow> database \<Rightarrow> database \<times> asset option" where
  "image_ready i m t db = (
     let open_row = (\<lambda>a. a_id a = i \<and> a_status a = PENDING_UPLOAD) in
     (db\<lparr>t_assets := update_where open_row (ready_asset m t) (t_assets db)\<rparr>,
      map_option (ready_asset m t) (first_row open_row (t_assets db))))"

text \<open>
  The answer after the row was written or not: the row as another request left it, or, when the cleanup
  has removed it, an error, with the files just written queued for deletion.
\<close>

definition complete_finish :: "(storage_key \<Rightarrow> string) \<Rightarrow> uuid \<Rightarrow> uuid \<Rightarrow> asset option \<Rightarrow> time \<Rightarrow> database
    \<Rightarrow> database \<times> complete_answer res" where
  "complete_finish pub ownerId i written t db = (case written of
      Some a \<Rightarrow> (db, Inr (AssetReady (asset_toDto pub a)))
    | None \<Rightarrow> (case findOwnedOrNull db ownerId i of
        Some current \<Rightarrow> (db, Inr (AssetReady (asset_toDto pub current)))
      | None \<Rightarrow> (enqueueStorageDeletions (variantKeysOf i) t db, Inl asset_notFound)))"

text \<open>\<open>enqueueVideo\<close>: \<open>None\<close> is that another request was first, and \<open>complete\<close> starts again.\<close>

definition enqueueVideo :: "uuid \<Rightarrow> time \<Rightarrow> database \<Rightarrow> database \<times> complete_answer option" where
  "enqueueVideo i t db = (
     let open_row = (\<lambda>a. a_id a = i \<and> a_status a = PENDING_UPLOAD);
         queued = (\<lambda>a. a\<lparr>a_status := PROCESSING, a_updatedAt := t\<rparr>) in
     (db\<lparr>t_assets := update_where open_row queued (t_assets db)\<rparr>,
      map_option (\<lambda>a. AssetProcessing (asset_processing (queued a))) (first_row open_row (t_assets db))))"

section \<open>Converting videos\<close>

definition STALE_AFTER_MS :: int where "STALE_AFTER_MS = 15 * 60 * 1000"
definition MAX_PROCESSING_ATTEMPTS :: int where "MAX_PROCESSING_ATTEMPTS = 3"

text \<open>
  \<open>claim\<close>: the oldest video nobody works on, or works on for too long, is taken by writing the time. The
  row is locked by the statement, so two workers do not take the same one.
\<close>

definition claimable :: "time \<Rightarrow> uuid list \<Rightarrow> asset \<Rightarrow> bool" where
  "claimable t exclude a \<longleftrightarrow> a_status a = PROCESSING
     \<and> (case a_processingStartedAt a of None \<Rightarrow> True | Some since \<Rightarrow> since < t - STALE_AFTER_MS)
     \<and> a_id a \<notin> set exclude"

definition claimed_asset :: "time \<Rightarrow> asset \<Rightarrow> asset" where
  "claimed_asset t a = a\<lparr>a_processingStartedAt := Some t, a_processingAttempts := a_processingAttempts a + 1, a_updatedAt := t\<rparr>"

definition claim_video :: "time \<Rightarrow> uuid list \<Rightarrow> database \<Rightarrow> database \<times> asset option" where
  "claim_video t exclude db = (case order_asc a_createdAt (select (claimable t exclude) (t_assets db)) of
      [] \<Rightarrow> (db, None)
    | a # _ \<Rightarrow> (db\<lparr>t_assets := update_where (\<lambda>x. a_id x = a_id a) (claimed_asset t) (t_assets db)\<rparr>, Some (claimed_asset t a)))"

definition stillClaimed :: "asset \<Rightarrow> asset \<Rightarrow> bool" where
  "stillClaimed claim a \<longleftrightarrow> a_id a = a_id claim \<and> a_status a = PROCESSING
     \<and> a_processingStartedAt a \<noteq> None \<and> a_processingStartedAt a = a_processingStartedAt claim"

definition ready_video :: "processed_media \<Rightarrow> time \<Rightarrow> asset \<Rightarrow> asset" where
  "ready_video m t a = (ready_asset m t a)\<lparr>a_durationMs := pm_durationMs m, a_hasAudio := pm_hasAudio m\<rparr>"

definition video_ready :: "asset \<Rightarrow> processed_media \<Rightarrow> time \<Rightarrow> database \<Rightarrow> database \<times> bool" where
  "video_ready claim m t db = (db\<lparr>t_assets := update_where (stillClaimed claim) (ready_video m t) (t_assets db)\<rparr>,
     list_ex (stillClaimed claim) (t_assets db))"

definition reject_video :: "bool \<Rightarrow> uuid \<Rightarrow> msg \<Rightarrow> time \<Rightarrow> store \<Rightarrow> store" where
  "reject_video deleted i reason t w = markRejected deleted i PROCESSING reason t w"

definition retry_video :: "asset \<Rightarrow> database \<Rightarrow> database" where
  "retry_video claim db = db\<lparr>t_assets :=
     update_where (stillClaimed claim) (\<lambda>a. a\<lparr>a_processingStartedAt := None\<rparr>) (t_assets db)\<rparr>"

definition handleLostClaim :: "uuid \<Rightarrow> time \<Rightarrow> database \<Rightarrow> database" where
  "handleLostClaim i t db = (if findById_asset i db = None
     then enqueueStorageDeletions (variantKeysOf i) t db else db)"

text \<open>
  What a claimed video comes to before anything is written: given up, refused, done, or failed. The download
  may fail too; else it has a size and a checksum, and these are the ones of the finished row.
\<close>

definition GAVE_UP_REASON :: msg where
  "GAVE_UP_REASON = Msg ''The video could not be processed. Upload it again shortly.''"

definition video_check :: "asset \<Rightarrow> (exc + int \<times> string) \<Rightarrow> media_outcome \<Rightarrow> media_outcome" where
  "video_check a downloaded outcome = (
     if MAX_PROCESSING_ATTEMPTS < a_processingAttempts a then MediaRejected GAVE_UP_REASON
     else case downloaded of
        Inl e \<Rightarrow> MediaFailed e
      | Inr (bytes, checksum) \<Rightarrow>
          if maxVideoUploadBytes < bytes then MediaRejected (size_message maxVideoUploadBytes)
          else (case image_check a checksum outcome of
              MediaDone m \<Rightarrow> MediaDone (m\<lparr>pm_sizeBytes := bytes, pm_checksum := checksum\<rparr>)
            | other \<Rightarrow> other))"

datatype video_result = VideoReady | VideoRejected | VideoRetried

text \<open>
  \<open>process\<close> when nobody interferes: the work, whose result is the download, what the conversion and the
  writing of the files came to, and whether the store would delete the original; then its statements in order.
\<close>

type_synonym conversion = "asset \<Rightarrow> (exc + int \<times> string) \<times> media_outcome \<times> bool"

definition process_video :: "conversion \<Rightarrow> time \<Rightarrow> asset \<Rightarrow> store \<Rightarrow> store \<times> video_result" where
  "process_video convert t a w = (case convert a of (downloaded, outcome, deleted) \<Rightarrow>
     (case video_check a downloaded outcome of
        MediaRejected reason \<Rightarrow> (reject_video deleted (a_id a) reason t w, VideoRejected)
      | MediaDone m \<Rightarrow>
          (let w = put_files VIDEO (a_id a) w; (db, ready) = video_ready a m t (fst w);
               w = deleteOriginal deleted (a_id a) t (db, snd w) in
           if ready then (w, VideoReady) else ((handleLostClaim (a_id a) t (fst w), snd w), VideoRetried))
      | MediaFailed _ \<Rightarrow> ((retry_video a (fst w), snd w), VideoRetried)))"

text \<open>
  \<open>drainOnce\<close>: one video after the other until none is left or the service stops; the times of the claims
  and the moment of the stop are arguments. A video that failed is not taken again in the same run.
\<close>

record processing_result =
  vr_ready :: nat
  vr_rejected :: nat
  vr_retried :: nat

definition count_result :: "video_result \<Rightarrow> processing_result \<Rightarrow> processing_result" where
  "count_result v r = (case v of
      VideoReady \<Rightarrow> r\<lparr>vr_ready := vr_ready r + 1\<rparr>
    | VideoRejected \<Rightarrow> r\<lparr>vr_rejected := vr_rejected r + 1\<rparr>
    | VideoRetried \<Rightarrow> r\<lparr>vr_retried := vr_retried r + 1\<rparr>)"

partial_function (option) drain_from ::
    "conversion \<Rightarrow> (nat \<Rightarrow> time) \<Rightarrow> (nat \<Rightarrow> bool) \<Rightarrow> nat \<Rightarrow> uuid list \<Rightarrow> processing_result
       \<Rightarrow> store \<Rightarrow> (store \<times> processing_result) option" where
  "drain_from convert clock stopping n failed result w = (
     if stopping n then Some (w, result)
     else case claim_video (clock n) failed (fst w) of
         (db, None) \<Rightarrow> Some ((db, snd w), result)
       | (db, Some a) \<Rightarrow> (case process_video convert (clock n) a (db, snd w) of (w', v) \<Rightarrow>
           drain_from convert clock stopping (n + 1) (if v = VideoRetried then failed @ [a_id a] else failed)
             (count_result v result) w'))"

definition drainOnce :: "conversion \<Rightarrow> (nat \<Rightarrow> time) \<Rightarrow> (nat \<Rightarrow> bool) \<Rightarrow> store \<Rightarrow> (store \<times> processing_result) option" where
  "drainOnce convert clock stopping w =
     drain_from convert clock stopping 0 [] \<lparr>vr_ready = 0, vr_rejected = 0, vr_retried = 0\<rparr> w"

section \<open>Cleaning up\<close>

definition PENDING_GRACE_MS :: int where "PENDING_GRACE_MS = 60 * 60 * 1000"
definition UNUSED_READY_AFTER_MS :: int where "UNUSED_READY_AFTER_MS = 3 * 24 * 60 * 60 * 1000"
definition REJECTED_KEEP_MS :: int where "REJECTED_KEEP_MS = 7 * 24 * 60 * 60 * 1000"
definition CLEANUP_BATCH :: nat where "CLEANUP_BATCH = 100"
definition DELETION_BATCH :: nat where "DELETION_BATCH = 500"

text \<open>\<open>remove\<close>: rows no submission points at, at most a batch of them; which ones is up to the database.\<close>

definition removable :: "(asset \<Rightarrow> bool) \<Rightarrow> database \<Rightarrow> asset list" where
  "removable P db = take CLEANUP_BATCH
     (select (\<lambda>a. P a \<and> \<not> list_ex (\<lambda>s. s_assetId s = Some (a_id a)) (t_submissions db)) (t_assets db))"

definition remove_assets :: "(asset \<Rightarrow> bool) \<Rightarrow> database \<Rightarrow> database \<times> uuid list" where
  "remove_assets P db = (let ids = map a_id (removable P db) in
     (db\<lparr>t_assets := delete_where (\<lambda>a. a_id a \<in> set ids) (t_assets db)\<rparr>, ids))"

definition stale_upload :: "time \<Rightarrow> asset \<Rightarrow> bool" where
  "stale_upload t a \<longleftrightarrow> a_status a = PENDING_UPLOAD \<and> a_uploadExpiresAt a < t - PENDING_GRACE_MS"

definition stale_unused :: "time \<Rightarrow> asset \<Rightarrow> bool" where
  "stale_unused t a \<longleftrightarrow> a_status a = READY \<and> a_createdAt a < t - UNUSED_READY_AFTER_MS"

definition stale_rejected :: "time \<Rightarrow> asset \<Rightarrow> bool" where
  "stale_rejected t a \<longleftrightarrow> a_status a = ASSET_REJECTED \<and> a_createdAt a < t - REJECTED_KEEP_MS"

definition cleanup_rows :: "time \<Rightarrow> database \<Rightarrow> database \<times> (nat \<times> nat \<times> nat)" where
  "cleanup_rows t db = (
     let (db, pending) = remove_assets (stale_upload t) db;
         (db, unused) = remove_assets (stale_unused t) db;
         (db, rejected) = remove_assets (stale_rejected t) db in
     (enqueueStorageDeletions (map uploadKey pending @ concat (map variantKeysOf unused)) t db,
      (length pending, length unused, length rejected)))"

text \<open>One key of the queue: deleted and forgotten, or kept with the error.\<close>

definition drain_key :: "time \<Rightarrow> (storage_key \<Rightarrow> utext option) \<Rightarrow> storage_key \<Rightarrow> store \<Rightarrow> store" where
  "drain_key t failure k w = (case failure k of
      None \<Rightarrow> ((fst w)\<lparr>t_storageDeletions := delete_where (\<lambda>r. sd_key r = k) (t_storageDeletions (fst w))\<rparr>, snd w - {k})
    | Some e \<Rightarrow> ((fst w)\<lparr>t_storageDeletions := update_where (\<lambda>r. sd_key r = k)
          (\<lambda>r. r\<lparr>sd_attempts := sd_attempts r + 1, sd_lastError := Some (take 500 e), sd_lastAttemptAt := Some t\<rparr>)
          (t_storageDeletions (fst w))\<rparr>, snd w))"

definition drainStorageDeletions :: "time \<Rightarrow> (storage_key \<Rightarrow> utext option) \<Rightarrow> store \<Rightarrow> store \<times> (nat \<times> nat)" where
  "drainStorageDeletions t failure w = (
     let queued = take DELETION_BATCH (map sd_key (order_asc sd_createdAt (t_storageDeletions (fst w)))) in
     (fold (drain_key t failure) queued w,
      (length (filter (\<lambda>k. failure k = None) queued), length (filter (\<lambda>k. failure k \<noteq> None) queued))))"

record asset_cleanup_result =
  acr_pending :: nat
  acr_unused :: nat
  acr_rejected :: nat
  acr_filesDeleted :: nat
  acr_filesFailed :: nat

text \<open>\<open>run\<close>: two locked transactions; \<open>None\<close> when the first lock is not free, the second then only skips.\<close>

definition asset_cleanup :: "bool \<Rightarrow> bool \<Rightarrow> time \<Rightarrow> (storage_key \<Rightarrow> utext option) \<Rightarrow> store
    \<Rightarrow> store \<times> asset_cleanup_result option" where
  "asset_cleanup locked locked_again t failure w = (
     if \<not> locked then (w, None)
     else let (db, pending, unused, rejected) = cleanup_rows t (fst w);
              (w, done, failed) = (if locked_again then drainStorageDeletions t failure (db, snd w) else ((db, snd w), 0, 0)) in
       (w, Some \<lparr>acr_pending = pending, acr_unused = unused, acr_rejected = rejected, acr_filesDeleted = done,
                acr_filesFailed = failed\<rparr>))"

end
