(* ===== verification/Asset_Steps.thy ===== *)
theory Asset_Steps
  imports Assets
begin

text \<open>
  Uploads under any interleaving: every statement of \<open>complete\<close>, of the video workers and of the cleanup
  job is one step, and other requests may run between two of them. A handler only acts on rows it has read
  before; \<open>aw_read\<close> remembers the rows read so far, \<open>aw_put\<close> whose public files some handler has put, and
  \<open>aw_used\<close> the ids the database has given out. The handlers' statements are those of \<open>Assets\<close>.
\<close>

section \<open>Steps\<close>

record asset_world =
  aw_store :: store
  aw_used :: "uuid set"
  aw_read :: "asset set"
  aw_put :: "(uuid \<times> asset_kind) set"

abbreviation aw_db :: "asset_world \<Rightarrow> database" where "aw_db w \<equiv> fst (aw_store w)"
abbreviation aw_files :: "asset_world \<Rightarrow> storage_key set" where "aw_files w \<equiv> snd (aw_store w)"

definition set_db :: "database \<Rightarrow> asset_world \<Rightarrow> asset_world" where
  "set_db db w = w\<lparr>aw_store := (db, aw_files w)\<rparr>"

definition referenced :: "database \<Rightarrow> uuid set" where
  "referenced db = {i. \<exists>s \<in> set (t_submissions db). s_assetId s = Some i}"

text \<open>
  The file store gives back an error or deletes; a client may put its upload at any time. Requests that
  change other tables bring in an asset only after they read it as ready (\<open>checkMediaAsset\<close>), and
  the foreign key refuses one whose row is gone by then: that is \<open>referring\<close>.
\<close>

inductive asset_step :: "asset_world \<Rightarrow> asset_world \<Rightarrow> bool" where
  presigned: "presign enabled url i owner dto t (aw_db w) = Inr (db', answer) \<Longrightarrow> i \<notin> aw_used w
    \<Longrightarrow> asset_step w ((set_db db' w)\<lparr>aw_used := insert i (aw_used w)\<rparr>)"
| uploaded: "asset_step w (w\<lparr>aw_store := (aw_db w, insert (uploadKey i) (aw_files w))\<rparr>)"
| read: "a \<in> set (t_assets (aw_db w)) \<Longrightarrow> asset_step w (w\<lparr>aw_read := insert a (aw_read w)\<rparr>)"
| put: "a \<in> aw_read w
    \<Longrightarrow> asset_step w (w\<lparr>aw_store := put_files (a_kind a) (a_id a) (aw_store w),
          aw_put := insert (a_id a, a_kind a) (aw_put w)\<rparr>)"
| image_written: "a \<in> aw_read w \<Longrightarrow> a_kind a = IMAGE \<Longrightarrow> (a_id a, IMAGE) \<in> aw_put w
    \<Longrightarrow> asset_step w (set_db (fst (image_ready (a_id a) m t (aw_db w))) w)"
| image_finished: "a \<in> aw_read w
    \<Longrightarrow> asset_step w (set_db (fst (complete_finish pub (a_ownerId a) (a_id a) None t (aw_db w))) w)"
| queued: "a \<in> aw_read w \<Longrightarrow> a_kind a = VIDEO
    \<Longrightarrow> asset_step w (set_db (fst (enqueueVideo (a_id a) t (aw_db w))) w)"
| claimed: "claim_video t exclude (aw_db w) = (db', Some a)
    \<Longrightarrow> asset_step w ((set_db db' w)\<lparr>aw_read := insert a (aw_read w)\<rparr>)"
| video_written: "a \<in> aw_read w \<Longrightarrow> (a_id a, VIDEO) \<in> aw_put w
    \<Longrightarrow> asset_step w (set_db (fst (video_ready a m t (aw_db w))) w)"
| retried: "a \<in> aw_read w \<Longrightarrow> asset_step w (set_db (retry_video a (aw_db w)) w)"
| lost_claim: "a \<in> aw_read w \<Longrightarrow> asset_step w (set_db (handleLostClaim (a_id a) t (aw_db w)) w)"
| rejected: "a \<in> aw_read w \<Longrightarrow> from_status \<in> {PENDING_UPLOAD, PROCESSING}
    \<Longrightarrow> asset_step w (set_db (mark_rejected_rows (a_id a) from_status reason t (aw_db w)) w)"
| original_deleted: "a \<in> aw_read w
    \<Longrightarrow> asset_step w (w\<lparr>aw_store := deleteOriginal deleted (a_id a) t (aw_store w)\<rparr>)"
| cleaned: "asset_step w (set_db (fst (cleanup_rows t (aw_db w))) w)"
| file_deleted: "k \<in> sd_key ` set (t_storageDeletions (aw_db w))
    \<Longrightarrow> asset_step w (w\<lparr>aw_store := (aw_db w, aw_files w - {k})\<rparr>)"
| drained: "k \<in> sd_key ` set (t_storageDeletions (aw_db w))
    \<Longrightarrow> asset_step w (w\<lparr>aw_store := drain_key t failure k (aw_store w)\<rparr>)"
| elsewhere: "t_assets db' = t_assets (aw_db w) \<Longrightarrow> t_storageDeletions db' = t_storageDeletions (aw_db w)
    \<Longrightarrow> referenced db' \<subseteq> referenced (aw_db w) \<Longrightarrow> asset_step w (set_db db' w)"
| referring: "a \<in> aw_read w \<Longrightarrow> a_status a = READY \<Longrightarrow> a_id a \<in> a_id ` set (t_assets (aw_db w))
    \<Longrightarrow> t_assets db' = t_assets (aw_db w) \<Longrightarrow> t_storageDeletions db' = t_storageDeletions (aw_db w)
    \<Longrightarrow> referenced db' \<subseteq> insert (a_id a) (referenced (aw_db w)) \<Longrightarrow> asset_step w (set_db db' w)"

section \<open>The invariant\<close>

definition files_of :: "uuid \<Rightarrow> asset_kind \<Rightarrow> storage_key set" where
  "files_of i k = VariantKey i ` {THUMB, PREVIEW, TV} \<union> (if k = VIDEO then {VideoKey i} else {})"

fun public_id :: "storage_key \<Rightarrow> uuid option" where
  "public_id (UploadKey _) = None"
| "public_id (VariantKey i _) = Some i"
| "public_id (VideoKey i) = Some i"

definition ids :: "asset_world \<Rightarrow> uuid set" where
  "ids w = a_id ` set (t_assets (aw_db w))"

definition ready_ids :: "database \<Rightarrow> uuid set" where
  "ready_ids db = a_id ` {a \<in> set (t_assets db). a_status a = READY}"

definition refs_ready :: "database \<Rightarrow> bool" where
  "refs_ready db \<longleftrightarrow> referenced db \<subseteq> ready_ids db"

definition rows_ok :: "asset_world \<Rightarrow> bool" where
  "rows_ok w \<longleftrightarrow> distinct (map a_id (t_assets (aw_db w))) \<and> refs_ready (aw_db w) \<and> ids w \<subseteq> aw_used w
     \<and> (\<forall>a \<in> set (t_assets (aw_db w)). a_status a = PROCESSING \<longrightarrow> a_kind a = VIDEO)"

definition files_ok :: "asset_world \<Rightarrow> bool" where
  "files_ok w \<longleftrightarrow> (\<forall>a \<in> set (t_assets (aw_db w)). a_status a = READY \<longrightarrow> files_of (a_id a) (a_kind a) \<subseteq> aw_files w)
     \<and> (\<forall>(i, k) \<in> aw_put w. i \<in> ids w \<longrightarrow> files_of i k \<subseteq> aw_files w)"

definition handlers_ok :: "asset_world \<Rightarrow> bool" where
  "handlers_ok w \<longleftrightarrow> a_id ` aw_read w \<subseteq> aw_used w \<and> fst ` aw_put w \<subseteq> aw_used w
     \<and> (\<forall>a \<in> aw_read w. \<forall>b \<in> set (t_assets (aw_db w)). a_id b = a_id a \<longrightarrow> a_kind b = a_kind a \<and> a_ownerId b = a_ownerId a
           \<and> (a_status a = READY \<longrightarrow> a_status b = READY))"

definition queue_ok :: "asset_world \<Rightarrow> bool" where
  "queue_ok w \<longleftrightarrow> (\<forall>k \<in> sd_key ` set (t_storageDeletions (aw_db w)). pred_option (\<lambda>i. i \<in> aw_used w \<and> i \<notin> ids w) (public_id k))"

definition assets_ok :: "asset_world \<Rightarrow> bool" where
  "assets_ok w \<longleftrightarrow> rows_ok w \<and> files_ok w \<and> handlers_ok w \<and> queue_ok w"

lemma files_okI:
  assumes "\<And>a. a \<in> set (t_assets (aw_db w)) \<Longrightarrow> a_status a = READY \<Longrightarrow> files_of (a_id a) (a_kind a) \<subseteq> aw_files w"
    and "\<And>i k. (i, k) \<in> aw_put w \<Longrightarrow> i \<in> ids w \<Longrightarrow> files_of i k \<subseteq> aw_files w"
  shows "files_ok w"
  using assms unfolding files_ok_def by blast

lemma files_okD:
  assumes "files_ok w"
  shows "a \<in> set (t_assets (aw_db w)) \<Longrightarrow> a_status a = READY \<Longrightarrow> files_of (a_id a) (a_kind a) \<subseteq> aw_files w"
    and "(i, k) \<in> aw_put w \<Longrightarrow> i \<in> ids w \<Longrightarrow> files_of i k \<subseteq> aw_files w"
  using assms unfolding files_ok_def by blast+

lemma handlers_okD:
  assumes "handlers_ok w" and "a \<in> aw_read w"
  shows "a_id a \<in> aw_used w"
    and "b \<in> set (t_assets (aw_db w)) \<Longrightarrow> a_id b = a_id a \<Longrightarrow> a_kind b = a_kind a \<and> a_ownerId b = a_ownerId a
      \<and> (a_status a = READY \<longrightarrow> a_status b = READY)"
  using assms unfolding handlers_ok_def by blast+

lemma row_id: "a \<in> set (t_assets (aw_db w)) \<Longrightarrow> a_id a \<in> ids w"
  by (simp add: ids_def)

lemma files_of_public: "k \<in> files_of i q \<Longrightarrow> public_id k = Some i"
  by (auto simp: files_of_def split: if_splits)

lemma public_uploadKey [simp]: "public_id (uploadKey i) = None"
  by (simp add: uploadKey_def)

lemma variantKeysOf_public: "k \<in> set (variantKeysOf i) \<Longrightarrow> public_id k = Some i"
  by (auto simp: variantKeysOf_def VARIANTS_def)

lemma keys_enqueued: "sd_key ` set (t_storageDeletions (enqueueStorageDeletions keys t db))
    = set keys \<union> sd_key ` set (t_storageDeletions db)"
proof -
  have "sd_key ` set (fold (\<lambda>k. insert_or_ignore sd_key (row k)) keys tab) = set keys \<union> sd_key ` set tab"
    if "\<And>k. sd_key (row k) = k" for row and tab :: "storage_deletion table"
    by (induction keys arbitrary: tab) (auto simp: that set_insert_or_ignore)
  from this[of "\<lambda>k. \<lparr>sd_key = k, sd_attempts = 0, sd_lastError = None, sd_lastAttemptAt = None, sd_createdAt = t\<rparr>"]
  show ?thesis by (simp add: enqueueStorageDeletions_def)
qed

lemma tables_enqueued [simp]:
  "t_assets (enqueueStorageDeletions keys t db) = t_assets db"
  "t_submissions (enqueueStorageDeletions keys t db) = t_submissions db"
  by (simp_all add: enqueueStorageDeletions_def)

text \<open>
  Rows of a table are changed by a function that keeps their identity; the status goes where the new files
  and kinds allow.
\<close>

definition same_identity :: "(asset \<Rightarrow> asset) \<Rightarrow> bool" where
  "same_identity f \<longleftrightarrow> (\<forall>a. a_id (f a) = a_id a \<and> a_kind (f a) = a_kind a \<and> a_ownerId (f a) = a_ownerId a)"

lemma assets_ok_update:
  assumes "assets_ok w" and "same_identity f"
    and db: "t_assets db' = update_where P f (t_assets (aw_db w))" "t_submissions db' = t_submissions (aw_db w)"
      "t_storageDeletions db' = t_storageDeletions (aw_db w)"
    and st: "\<And>a. a \<in> set (t_assets (aw_db w)) \<Longrightarrow> P a \<Longrightarrow>
        a_status a \<noteq> READY \<and> (a_status (f a) = PROCESSING \<longrightarrow> a_kind a = VIDEO)
        \<and> (a_status (f a) = READY \<longrightarrow> files_of (a_id a) (a_kind a) \<subseteq> aw_files w)"
  shows "assets_ok (set_db db' w)"
proof -
  have f: "a_id (f a) = a_id a" "a_kind (f a) = a_kind a" "a_ownerId (f a) = a_ownerId a" for a
    using assms(2) by (auto simp: same_identity_def)
  have m: "map a_id (t_assets db') = map a_id (t_assets (aw_db w))" unfolding db by (rule map_update_where) (rule f(1))
  have i: "a_id ` set (t_assets db') = ids w" using arg_cong[OF m, of set] by (simp add: ids_def)
  have row: "\<exists>b \<in> set (t_assets (aw_db w)). a = (if P b then f b else b)" if "a \<in> set (t_assets db')" for a
    using that unfolding db by (auto simp: update_where_def)
  have ids': "ids (set_db db' w) = ids w" using i by (simp add: ids_def set_db_def)
  have st': "(a_status a = PROCESSING \<longrightarrow> a_kind a = VIDEO) \<and> (a_status a = READY \<longrightarrow> files_of (a_id a) (a_kind a) \<subseteq> aw_files w)"
    if a: "a \<in> set (t_assets db')" for a
  proof -
    from row[OF a] obtain b where b: "b \<in> set (t_assets (aw_db w))" "a = (if P b then f b else b)" by blast
    show ?thesis
    proof (cases "P b")
      case True
      with st[OF b(1)] b(2) f show ?thesis by simp
    next
      case False
      with b assms(1) show ?thesis by (auto simp: assets_ok_def rows_ok_def files_ok_def)
    qed
  qed
  have same: "a_kind b = a_kind a \<and> a_ownerId b = a_ownerId a \<and> (a_status a = READY \<longrightarrow> a_status b = READY)"
    if "a \<in> aw_read w" "b \<in> set (t_assets db')" "a_id b = a_id a" for a b
  proof -
    from row[OF that(2)] obtain c where c: "c \<in> set (t_assets (aw_db w))" "b = (if P c then f c else c)" by blast
    with that f have "a_id c = a_id a" by (auto split: if_splits)
    with handlers_okD(2)[OF _ that(1) c(1)] assms(1)
    have "a_kind c = a_kind a \<and> a_ownerId c = a_ownerId a \<and> (a_status a = READY \<longrightarrow> a_status c = READY)"
      by (simp add: assets_ok_def)
    with c f st[OF c(1)] show ?thesis by (cases "P c") auto
  qed
  have "ready_ids (aw_db w) \<subseteq> ready_ids db'"
  proof (unfold ready_ids_def, safe)
    fix a assume a: "a \<in> set (t_assets (aw_db w))" "a_status a = READY"
    with st[OF a(1)] have "\<not> P a" by blast
    with a have "a \<in> set (t_assets db')" by (auto simp: db(1) set_update_where)
    with a(2) show "a_id a \<in> a_id ` {a \<in> set (t_assets db'). a_status a = READY}" by blast
  qed
  then have refs: "refs_ready db'" using assms(1) by (auto simp: assets_ok_def rows_ok_def refs_ready_def referenced_def db(2))
  have "rows_ok (set_db db' w)" using assms(1) m i ids' st' refs by (auto simp: assets_ok_def rows_ok_def set_db_def ids_def)
  moreover have "files_ok (set_db db' w)"
    using st' files_okD(2)[of w] assms(1) unfolding assets_ok_def
    by (intro files_okI) (simp_all add: ids' , simp_all add: set_db_def)
  moreover have "handlers_ok (set_db db' w)"
    using same assms(1) by (auto simp: assets_ok_def handlers_ok_def set_db_def)
  moreover have "queue_ok (set_db db' w)" using assms(1) by (simp add: assets_ok_def queue_ok_def ids') (simp add: set_db_def db(3))
  ultimately show ?thesis by (simp add: assets_ok_def)
qed

text \<open>Files may be added, and those of ids that have no row may go.\<close>

lemma assets_ok_files:
  assumes "assets_ok w" and "\<And>k i. public_id k = Some i \<Longrightarrow> i \<in> ids w \<Longrightarrow> k \<in> aw_files w \<Longrightarrow> k \<in> files"
  shows "assets_ok (w\<lparr>aw_store := (aw_db w, files)\<rparr>)"
proof -
  have keep: "files_of i k \<subseteq> files" if "files_of i k \<subseteq> aw_files w" "i \<in> ids w" for i k
    using that assms(2) files_of_public by blast
  have ids': "ids (w\<lparr>aw_store := (aw_db w, files)\<rparr>) = ids w" by (simp add: ids_def)
  have "files_ok (w\<lparr>aw_store := (aw_db w, files)\<rparr>)"
    using keep files_okD[of w] assms(1) row_id[of _ w] unfolding assets_ok_def
    by (intro files_okI) (simp_all add: ids')
  then show ?thesis
    using assms(1) by (simp add: assets_ok_def rows_ok_def handlers_ok_def queue_ok_def ids')
qed

text \<open>The rows may become fewer, and keys of ids without a row, or of uploads, may be queued.\<close>

lemma assets_ok_shrink:
  assumes "assets_ok w" and "t_assets db' = delete_where P (t_assets (aw_db w))" and "refs_ready db'"
    and "\<And>k. k \<in> sd_key ` set (t_storageDeletions db') \<Longrightarrow> k \<notin> sd_key ` set (t_storageDeletions (aw_db w)) \<Longrightarrow>
       pred_option (\<lambda>i. i \<in> aw_used w \<and> i \<notin> a_id ` set (t_assets db')) (public_id k)"
  shows "assets_ok (set_db db' w)"
proof -
  have sub: "set (t_assets db') \<subseteq> set (t_assets (aw_db w))" by (auto simp: assms(2))
  then have i: "a_id ` set (t_assets db') \<subseteq> ids w" by (auto simp: ids_def)
  have "pred_option (\<lambda>i. i \<in> aw_used w \<and> i \<notin> a_id ` set (t_assets db')) (public_id k)"
    if "k \<in> sd_key ` set (t_storageDeletions db')" for k
  proof (cases "k \<in> sd_key ` set (t_storageDeletions (aw_db w))")
    case True
    then have "pred_option (\<lambda>i. i \<in> aw_used w \<and> i \<notin> ids w) (public_id k)"
      using assms(1) unfolding assets_ok_def queue_ok_def by blast
    then show ?thesis using i by (auto simp: pred_option_def)
  qed (use assms(4) that in blast)
  then have "queue_ok (set_db db' w)" by (simp add: queue_ok_def set_db_def ids_def)
  moreover have "rows_ok (set_db db' w)"
    using assms(1,3) sub i distinct_key_delete_where[of a_id "t_assets (aw_db w)" P]
    by (auto simp: assets_ok_def rows_ok_def set_db_def ids_def assms(2))
  moreover have "files_ok (set_db db' w)"
  proof (rule files_okI)
    have ok: "files_ok w" using assms(1) by (simp add: assets_ok_def)
    show "files_of (a_id a) (a_kind a) \<subseteq> aw_files (set_db db' w)"
      if "a \<in> set (t_assets (aw_db (set_db db' w)))" "a_status a = READY" for a
      using files_okD(1)[OF ok, of a] that sub by (auto simp: set_db_def)
    show "files_of j k \<subseteq> aw_files (set_db db' w)" if "(j, k) \<in> aw_put (set_db db' w)" "j \<in> ids (set_db db' w)" for j k
    proof -
      have "j \<in> ids w" using that(2) i by (auto simp: ids_def set_db_def)
      with files_okD(2)[OF ok, of j k] that(1) show ?thesis by (simp add: set_db_def)
    qed
  qed
  moreover have "handlers_ok (set_db db' w)"
    using assms(1) sub by (auto simp: assets_ok_def handlers_ok_def set_db_def)
  ultimately show ?thesis by (simp add: assets_ok_def)
qed

lemma ok_enqueue:
  assumes "assets_ok w" and "\<And>k. k \<in> set keys \<Longrightarrow> pred_option (\<lambda>i. i \<in> aw_used w \<and> i \<notin> ids w) (public_id k)"
  shows "assets_ok (set_db (enqueueStorageDeletions keys t (aw_db w)) w)"
proof (rule assets_ok_shrink[OF assms(1)])
  show "t_assets (enqueueStorageDeletions keys t (aw_db w)) = delete_where (\<lambda>_. False) (t_assets (aw_db w))"
    by (simp add: delete_where_def)
  show "refs_ready (enqueueStorageDeletions keys t (aw_db w))"
    using assms(1) by (simp add: assets_ok_def rows_ok_def refs_ready_def referenced_def ready_ids_def)
qed (use assms(2) in \<open>auto simp: keys_enqueued ids_def\<close>)

section \<open>Every step keeps it\<close>

lemma remove_assets_props:
  assumes "remove_assets P db = (db', gone)"
  shows "t_assets db' = delete_where (\<lambda>a. a_id a \<in> set gone) (t_assets db)"
    and "t_submissions db' = t_submissions db" and "t_storageDeletions db' = t_storageDeletions db"
    and "set gone \<subseteq> a_id ` set (t_assets db)" and "refs_ready db \<Longrightarrow> refs_ready db'"
proof -
  have g: "gone = map a_id (removable P db)" and
    d: "db' = db\<lparr>t_assets := delete_where (\<lambda>a. a_id a \<in> set (map a_id (removable P db))) (t_assets db)\<rparr>"
    using assms by (auto simp: remove_assets_def Let_def)
  have rem: "a \<in> set (t_assets db) \<and> (\<forall>s \<in> set (t_submissions db). s_assetId s \<noteq> Some (a_id a))"
    if "a \<in> set (removable P db)" for a
    using in_set_takeD[OF that[unfolded removable_def]] by (auto simp: list_ex_iff)
  show "t_assets db' = delete_where (\<lambda>a. a_id a \<in> set gone) (t_assets db)" "t_submissions db' = t_submissions db"
    "t_storageDeletions db' = t_storageDeletions db"
    by (simp_all add: d g)
  show "set gone \<subseteq> a_id ` set (t_assets db)" using rem by (auto simp: g)
  assume fk: "refs_ready db"
  have "i \<in> ready_ids db'" if "i \<in> referenced db" for i
  proof -
    from fk that obtain a where a: "a \<in> set (t_assets db)" "a_status a = READY" "a_id a = i"
      by (auto simp: refs_ready_def ready_ids_def)
    have "i \<notin> set gone" using rem that by (auto simp: g referenced_def)
    with a have "a \<in> set (t_assets db')" by (auto simp: d g)
    with a show ?thesis by (auto simp: ready_ids_def)
  qed
  then show "refs_ready db'" by (auto simp: refs_ready_def referenced_def d)
qed

lemma cleanup_ok:
  assumes "assets_ok w"
  shows "assets_ok (set_db (fst (cleanup_rows t (aw_db w))) w)"
proof -
  obtain d1 g1 where r1: "remove_assets (stale_upload t) (aw_db w) = (d1, g1)" by fastforce
  obtain d2 g2 where r2: "remove_assets (stale_unused t) d1 = (d2, g2)" by fastforce
  obtain d3 g3 where r3: "remove_assets (stale_rejected t) d2 = (d3, g3)" by fastforce
  note p1 = remove_assets_props[OF r1] note p2 = remove_assets_props[OF r2] note p3 = remove_assets_props[OF r3]
  let ?keys = "map uploadKey g1 @ concat (map variantKeysOf g2)"
  have db: "fst (cleanup_rows t (aw_db w)) = enqueueStorageDeletions ?keys t d3"
    by (simp add: cleanup_rows_def r1 r2 r3)
  show ?thesis unfolding db
  proof (rule assets_ok_shrink[OF assms])
    show "t_assets (enqueueStorageDeletions ?keys t d3)
        = delete_where (\<lambda>a. a_id a \<in> set g1 \<union> set g2 \<union> set g3) (t_assets (aw_db w))"
      by (simp add: p1(1) p2(1) p3(1) delete_where_def conj_ac)
    have "refs_ready (aw_db w)" using assms by (simp add: assets_ok_def rows_ok_def)
    then have "refs_ready d3" using p1(5) p2(5) p3(5) by blast
    then show "refs_ready (enqueueStorageDeletions ?keys t d3)"
      by (simp add: refs_ready_def referenced_def ready_ids_def)
    have gone: "i \<in> aw_used w \<and> i \<notin> a_id ` set (t_assets d3)" if "i \<in> set g2" for i
      using that p2(4) assms by (auto simp: assets_ok_def rows_ok_def p1(1) p2(1) p3(1) ids_def)
    fix k assume k: "k \<in> sd_key ` set (t_storageDeletions (enqueueStorageDeletions ?keys t d3))"
      "k \<notin> sd_key ` set (t_storageDeletions (aw_db w))"
    then have "k \<in> uploadKey ` set g1 \<or> (\<exists>i \<in> set g2. k \<in> set (variantKeysOf i))"
      by (auto simp: keys_enqueued p1(3) p2(3) p3(3))
    then show "pred_option (\<lambda>i. i \<in> aw_used w \<and> i \<notin> a_id ` set (t_assets (enqueueStorageDeletions ?keys t d3))) (public_id k)"
      using gone variantKeysOf_public by fastforce
  qed
qed

lemma ok_parts:
  assumes "assets_ok w"
  shows "distinct (map a_id (t_assets (aw_db w)))" and "refs_ready (aw_db w)" and "ids w \<subseteq> aw_used w"
    and "a \<in> set (t_assets (aw_db w)) \<Longrightarrow> a_status a = PROCESSING \<Longrightarrow> a_kind a = VIDEO"
    and "files_ok w" and "handlers_ok w" and "queue_ok w"
  using assms by (simp_all add: assets_ok_def rows_ok_def)

lemma ok_claimed:
  assumes "assets_ok w" and c: "claim_video t exclude (aw_db w) = (db', Some a)"
  shows "assets_ok ((set_db db' w)\<lparr>aw_read := insert a (aw_read w)\<rparr>)"
proof -
  from c obtain b rest where b: "order_asc a_createdAt (select (claimable t exclude) (t_assets (aw_db w))) = b # rest"
    and a: "a = claimed_asset t b"
    and db: "db' = (aw_db w)\<lparr>t_assets := update_where (\<lambda>x. a_id x = a_id b) (claimed_asset t) (t_assets (aw_db w))\<rparr>"
    by (auto simp: claim_video_def split: list.splits)
  have "b \<in> set (order_asc a_createdAt (select (claimable t exclude) (t_assets (aw_db w))))" by (simp add: b)
  then have bin: "b \<in> set (t_assets (aw_db w))" and st: "a_status b = PROCESSING" by (auto simp: claimable_def)
  note ok = ok_parts[OF assms(1)]
  have one: "x = b" if "x \<in> set (t_assets (aw_db w))" "a_id x = a_id b" for x
    using that bin ok(1) by (auto simp: distinct_map dest: inj_onD)
  have "assets_ok (set_db db' w)"
  proof (rule assets_ok_update[OF assms(1), of "claimed_asset t" db' "\<lambda>x. a_id x = a_id b"])
    fix x assume "x \<in> set (t_assets (aw_db w))" "a_id x = a_id b"
    then have "x = b" by (rule one)
    then show "a_status x \<noteq> READY \<and> (a_status (claimed_asset t x) = PROCESSING \<longrightarrow> a_kind x = VIDEO)
        \<and> (a_status (claimed_asset t x) = READY \<longrightarrow> files_of (a_id x) (a_kind x) \<subseteq> aw_files w)"
      using st ok(4)[OF bin] by (simp add: claimed_asset_def)
  qed (simp_all add: same_identity_def claimed_asset_def db)
  moreover have "a_id c = a_id b \<Longrightarrow> c \<in> set (t_assets db') \<Longrightarrow> c = a" for c
    using one by (auto simp: db set_update_where a claimed_asset_def)
  moreover have "a_id a = a_id b" by (simp add: a claimed_asset_def)
  moreover have "a_id b \<in> aw_used w" using ok(3) row_id[OF bin] by blast
  ultimately show ?thesis
    by (auto simp: assets_ok_def rows_ok_def files_ok_def handlers_ok_def queue_ok_def ids_def set_db_def)
qed

lemma ok_presigned:
  assumes "assets_ok w" and p: "presign enabled url i owner dto t (aw_db w) = Inr (db', answer)" and "i \<notin> aw_used w"
  shows "assets_ok ((set_db db' w)\<lparr>aw_used := insert i (aw_used w)\<rparr>)"
proof -
  let ?a = "new_asset i owner dto t"
  from p have db: "db' = (aw_db w)\<lparr>t_assets := insert_row ?a (t_assets (aw_db w))\<rparr>"
    by (auto simp: presign_def Let_def split: if_splits)
  note ok = ok_parts[OF assms(1)]
  have a: "a_id ?a = i" "a_status ?a = PENDING_UPLOAD" by (simp_all add: new_asset_def)
  have new: "i \<notin> ids w" using ok(3) assms(3) by blast
  have refs: "refs_ready db'" using ok(2) by (auto simp: refs_ready_def referenced_def ready_ids_def db)
  have ids': "ids ((set_db db' w)\<lparr>aw_used := insert i (aw_used w)\<rparr>) = insert i (ids w)"
    by (simp add: ids_def set_db_def db a)
  have put: "(i, k) \<notin> aw_put w" for k using ok(6) assms(3) by (force simp: handlers_ok_def)
  have rd: "a_id b \<noteq> i" if "b \<in> aw_read w" for b using handlers_okD(1)[OF ok(6) that] assms(3) by auto
  have "rows_ok ((set_db db' w)\<lparr>aw_used := insert i (aw_used w)\<rparr>)"
    using ok(1,3,4) refs new by (auto simp: rows_ok_def ids' set_db_def db a ids_def insert_row_def)
  moreover have "files_ok ((set_db db' w)\<lparr>aw_used := insert i (aw_used w)\<rparr>)"
  proof (rule files_okI)
    fix b assume "b \<in> set (t_assets (aw_db ((set_db db' w)\<lparr>aw_used := insert i (aw_used w)\<rparr>)))" "a_status b = READY"
    then show "files_of (a_id b) (a_kind b) \<subseteq> aw_files ((set_db db' w)\<lparr>aw_used := insert i (aw_used w)\<rparr>)"
      using files_okD(1)[OF ok(5)] a by (auto simp: set_db_def db)
  next
    fix j k assume j: "(j, k) \<in> aw_put ((set_db db' w)\<lparr>aw_used := insert i (aw_used w)\<rparr>)"
      "j \<in> ids ((set_db db' w)\<lparr>aw_used := insert i (aw_used w)\<rparr>)"
    then have "j \<in> ids w" using put[of k] unfolding ids' by (auto simp: set_db_def)
    with j files_okD(2)[OF ok(5)] show "files_of j k \<subseteq> aw_files ((set_db db' w)\<lparr>aw_used := insert i (aw_used w)\<rparr>)"
      by (simp add: set_db_def)
  qed
  moreover have "handlers_ok ((set_db db' w)\<lparr>aw_used := insert i (aw_used w)\<rparr>)"
    using ok(6) rd a by (auto simp: handlers_ok_def set_db_def db)
  moreover have "queue_ok ((set_db db' w)\<lparr>aw_used := insert i (aw_used w)\<rparr>)"
    using ok(7) assms(3) unfolding queue_ok_def ids' by (fastforce simp: set_db_def db pred_option_def)
  ultimately show ?thesis by (simp add: assets_ok_def)
qed

lemma ok_read:
  assumes "assets_ok w" and "a \<in> set (t_assets (aw_db w))"
  shows "assets_ok (w\<lparr>aw_read := insert a (aw_read w)\<rparr>)"
proof -
  note ok = ok_parts[OF assms(1)]
  have one: "x = a" if "x \<in> set (t_assets (aw_db w))" "a_id x = a_id a" for x
    using that assms(2) ok(1) by (auto simp: distinct_map dest: inj_onD)
  show ?thesis
    using assms(1) ok(3) row_id[OF assms(2)] one
    by (auto simp: assets_ok_def rows_ok_def files_ok_def handlers_ok_def queue_ok_def ids_def)
qed

lemma files_put: "snd (put_files k i w) = snd w \<union> files_of i k" "fst (put_files k i w) = fst w"
  by (auto simp: put_files_def files_of_def VARIANTS_def)

lemma ok_put:
  assumes "assets_ok w" and "a \<in> aw_read w"
  shows "assets_ok (w\<lparr>aw_store := put_files (a_kind a) (a_id a) (aw_store w), aw_put := insert (a_id a, a_kind a) (aw_put w)\<rparr>)"
proof -
  have s: "put_files (a_kind a) (a_id a) (aw_store w) = (aw_db w, aw_files w \<union> files_of (a_id a) (a_kind a))"
    by (simp add: files_put prod_eq_iff)
  note ok = ok_parts[OF assms(1)]
  have "assets_ok (w\<lparr>aw_store := put_files (a_kind a) (a_id a) (aw_store w)\<rparr>)"
    unfolding s by (rule assets_ok_files[OF assms(1)]) blast
  then show ?thesis
    using handlers_okD(1)[OF ok(6) assms(2)]
    by (auto simp: assets_ok_def rows_ok_def files_ok_def handlers_ok_def queue_ok_def ids_def files_put)
qed

lemma ok_gone_keys:
  assumes "assets_ok w" and "i \<in> aw_used w" and "i \<notin> ids w"
  shows "assets_ok (set_db (enqueueStorageDeletions (variantKeysOf i) t (aw_db w)) w)"
  by (rule ok_enqueue[OF assms(1)]) (use assms(2,3) variantKeysOf_public in \<open>fastforce\<close>)

lemma ok_elsewhere:
  assumes "assets_ok w" and "t_assets db' = t_assets (aw_db w)" "t_storageDeletions db' = t_storageDeletions (aw_db w)"
    and "referenced db' \<subseteq> ready_ids (aw_db w)"
  shows "assets_ok (set_db db' w)"
  using assms by (auto simp: assets_ok_def rows_ok_def files_ok_def handlers_ok_def queue_ok_def ids_def set_db_def
      refs_ready_def ready_ids_def)

lemma set_db_same [simp]: "set_db (aw_db w) w = w"
  by (simp add: set_db_def)

lemma ok_image_written:
  assumes "assets_ok w" and "a \<in> aw_read w" and "a_kind a = IMAGE" and "(a_id a, IMAGE) \<in> aw_put w"
  shows "assets_ok (set_db (fst (image_ready (a_id a) m t (aw_db w))) w)"
proof (rule assets_ok_update[OF assms(1), of "ready_asset m t" _ "\<lambda>x. a_id x = a_id a \<and> a_status x = PENDING_UPLOAD"])
  note ok = ok_parts[OF assms(1)]
  fix x assume x: "x \<in> set (t_assets (aw_db w))" "a_id x = a_id a \<and> a_status x = PENDING_UPLOAD"
  then have "a_kind x = IMAGE" using handlers_okD(2)[OF ok(6) assms(2), of x] assms(3) by simp
  moreover have "files_of (a_id a) IMAGE \<subseteq> aw_files w"
    using files_okD(2)[OF ok(5) assms(4)] row_id[OF x(1)] x(2) by simp
  ultimately show "a_status x \<noteq> READY \<and> (a_status (ready_asset m t x) = PROCESSING \<longrightarrow> a_kind x = VIDEO)
      \<and> (a_status (ready_asset m t x) = READY \<longrightarrow> files_of (a_id x) (a_kind x) \<subseteq> aw_files w)"
    using x(2) by (simp add: ready_asset_def)
qed (simp_all add: same_identity_def ready_asset_def image_ready_def Let_def)

lemma ok_video_written:
  assumes "assets_ok w" and "(a_id a, VIDEO) \<in> aw_put w"
  shows "assets_ok (set_db (fst (video_ready a m t (aw_db w))) w)"
proof (rule assets_ok_update[OF assms(1), of "ready_video m t" _ "stillClaimed a"])
  note ok = ok_parts[OF assms(1)]
  fix x assume x: "x \<in> set (t_assets (aw_db w))" "stillClaimed a x"
  then have p: "a_status x = PROCESSING" "a_id x = a_id a" by (simp_all add: stillClaimed_def)
  then have "a_kind x = VIDEO" using ok(4)[OF x(1)] by simp
  moreover have "files_of (a_id a) VIDEO \<subseteq> aw_files w"
    using files_okD(2)[OF ok(5) assms(2)] row_id[OF x(1)] p(2) by simp
  ultimately show "a_status x \<noteq> READY \<and> (a_status (ready_video m t x) = PROCESSING \<longrightarrow> a_kind x = VIDEO)
      \<and> (a_status (ready_video m t x) = READY \<longrightarrow> files_of (a_id x) (a_kind x) \<subseteq> aw_files w)"
    using p by (simp add: ready_video_def ready_asset_def)
qed (simp_all add: same_identity_def ready_video_def ready_asset_def video_ready_def)

lemma ok_queued:
  assumes "assets_ok w" and "a \<in> aw_read w" and "a_kind a = VIDEO"
  shows "assets_ok (set_db (fst (enqueueVideo (a_id a) t (aw_db w))) w)"
proof (rule assets_ok_update[OF assms(1), of "\<lambda>x. x\<lparr>a_status := PROCESSING, a_updatedAt := t\<rparr>" _
      "\<lambda>x. a_id x = a_id a \<and> a_status x = PENDING_UPLOAD"])
  note ok = ok_parts[OF assms(1)]
  fix x assume x: "x \<in> set (t_assets (aw_db w))" "a_id x = a_id a \<and> a_status x = PENDING_UPLOAD"
  then have "a_kind x = VIDEO" using handlers_okD(2)[OF ok(6) assms(2), of x] assms(3) by simp
  then show "a_status x \<noteq> READY \<and> (a_status (x\<lparr>a_status := PROCESSING, a_updatedAt := t\<rparr>) = PROCESSING \<longrightarrow> a_kind x = VIDEO)
      \<and> (a_status (x\<lparr>a_status := PROCESSING, a_updatedAt := t\<rparr>) = READY \<longrightarrow> files_of (a_id x) (a_kind x) \<subseteq> aw_files w)"
    using x(2) by simp
qed (simp_all add: same_identity_def enqueueVideo_def Let_def)

lemma ok_retried: "assets_ok w \<Longrightarrow> assets_ok (set_db (retry_video a (aw_db w)) w)"
  by (rule assets_ok_update[of _ "\<lambda>x. x\<lparr>a_processingStartedAt := None\<rparr>" _ "stillClaimed a"])
     (auto simp: same_identity_def retry_video_def stillClaimed_def dest: ok_parts(4))

lemma ok_rejected:
  "assets_ok w \<Longrightarrow> st \<in> {PENDING_UPLOAD, PROCESSING} \<Longrightarrow> assets_ok (set_db (mark_rejected_rows i st reason t (aw_db w)) w)"
  by (rule assets_ok_update[of _ "rejected_asset reason t" _ "\<lambda>x. a_id x = i \<and> a_status x = st"])
     (auto simp: same_identity_def mark_rejected_rows_def rejected_asset_def)

lemma ok_image_finished:
  assumes "assets_ok w" and "a \<in> aw_read w"
  shows "assets_ok (set_db (fst (complete_finish pub (a_ownerId a) (a_id a) None t (aw_db w))) w)"
proof (cases "findOwnedOrNull (aw_db w) (a_ownerId a) (a_id a)")
  case None
  note ok = ok_parts[OF assms(1)]
  have "a_id a \<notin> ids w"
  proof
    assume "a_id a \<in> ids w"
    then obtain b where b: "b \<in> set (t_assets (aw_db w))" "a_id b = a_id a" by (auto simp: ids_def)
    with handlers_okD(2)[OF ok(6) assms(2)] have "a_ownerId b = a_ownerId a" by blast
    with None b show False by (auto simp: findOwnedOrNull_def first_row_None)
  qed
  with None ok_gone_keys[OF assms(1) handlers_okD(1)[OF ok(6) assms(2)]] show ?thesis
    by (simp add: complete_finish_def)
qed (use assms(1) in \<open>simp add: complete_finish_def\<close>)

lemma ok_lost_claim:
  assumes "assets_ok w" and "a \<in> aw_read w"
  shows "assets_ok (set_db (handleLostClaim (a_id a) t (aw_db w)) w)"
proof (cases "findById_asset (a_id a) (aw_db w)")
  case None
  then have "a_id a \<notin> ids w" by (auto simp: findById_asset_def first_row_None ids_def)
  with None ok_gone_keys[OF assms(1) handlers_okD(1)[OF ok_parts(6)[OF assms(1)] assms(2)]] show ?thesis
    by (simp add: handleLostClaim_def)
qed (use assms(1) in \<open>simp add: handleLostClaim_def\<close>)

lemma ok_file_deleted:
  assumes "assets_ok w" and "k \<in> sd_key ` set (t_storageDeletions (aw_db w))"
  shows "assets_ok (w\<lparr>aw_store := (aw_db w, aw_files w - {k})\<rparr>)"
  by (rule assets_ok_files[OF assms(1)])
     (use ok_parts(7)[OF assms(1)] assms(2) in \<open>auto simp: queue_ok_def\<close>)

lemma ok_original_deleted:
  assumes "assets_ok w"
  shows "assets_ok (w\<lparr>aw_store := deleteOriginal deleted i t (aw_store w)\<rparr>)"
proof (cases deleted)
  case True
  then show ?thesis
    using assets_ok_files[OF assms, of "aw_files w - {uploadKey i}"] by (fastforce simp: deleteOriginal_def)
next
  case False
  then show ?thesis
    using ok_enqueue[OF assms, of "[uploadKey i]" t] by (simp add: deleteOriginal_def set_db_def)
qed

lemma ok_drained:
  assumes "assets_ok w" and "k \<in> sd_key ` set (t_storageDeletions (aw_db w))"
  shows "assets_ok (w\<lparr>aw_store := drain_key t failure k (aw_store w)\<rparr>)"
proof (cases "failure k")
  case None
  let ?db = "(aw_db w)\<lparr>t_storageDeletions := delete_where (\<lambda>r. sd_key r = k) (t_storageDeletions (aw_db w))\<rparr>"
  let ?v = "w\<lparr>aw_store := (aw_db w, aw_files w - {k})\<rparr>"
  have "assets_ok ?v" by (rule ok_file_deleted[OF assms])
  then have "assets_ok (set_db ?db ?v)"
    by (rule assets_ok_shrink[of _ _ "\<lambda>_. False"])
       (use ok_parts(2)[OF assms(1)] in \<open>auto simp: delete_where_def refs_ready_def referenced_def ready_ids_def\<close>)
  then show ?thesis using None by (simp add: drain_key_def set_db_def)
next
  case (Some e)
  let ?db = "(aw_db w)\<lparr>t_storageDeletions := update_where (\<lambda>r. sd_key r = k)
      (\<lambda>r. r\<lparr>sd_attempts := sd_attempts r + 1, sd_lastError := Some (take 500 e), sd_lastAttemptAt := Some t\<rparr>)
      (t_storageDeletions (aw_db w))\<rparr>"
  have "sd_key ` set (t_storageDeletions ?db) = sd_key ` set (t_storageDeletions (aw_db w))"
    by (simp add: set_update_where image_Un image_image) (simp add: image_def, blast)
  then have "assets_ok (set_db ?db w)"
    by (intro assets_ok_shrink[OF assms(1), of _ "\<lambda>_. False"])
       (use ok_parts(2)[OF assms(1)] in \<open>auto simp: delete_where_def refs_ready_def referenced_def ready_ids_def\<close>)
  then show ?thesis using Some by (simp add: drain_key_def set_db_def)
qed

lemma asset_step_ok: "asset_step w w' \<Longrightarrow> assets_ok w \<Longrightarrow> assets_ok w'"
proof (induction rule: asset_step.induct)
  case (uploaded w i)
  then show ?case by (intro assets_ok_files) auto
next
  case (elsewhere db' w)
  then show ?case using ok_parts(2)[OF elsewhere(4)] by (intro ok_elsewhere) (auto simp: refs_ready_def)
next
  case (referring a w db')
  note ok = ok_parts[OF referring(7)]
  obtain b where b: "b \<in> set (t_assets (aw_db w))" "a_id b = a_id a" using referring(3) by auto
  with handlers_okD(2)[OF ok(6) referring(1) b] referring(2) have "a_id a \<in> ready_ids (aw_db w)"
    by (auto simp: ready_ids_def intro!: image_eqI[of _ _ b])
  with referring ok(2) show ?case by (intro ok_elsewhere) (auto simp: refs_ready_def)
qed (blast intro: ok_presigned ok_read ok_put ok_image_written ok_image_finished ok_queued ok_claimed ok_video_written
      ok_retried ok_lost_claim ok_rejected ok_original_deleted cleanup_ok ok_file_deleted ok_drained)+

text \<open>The service starts with no upload.\<close>

definition asset_start :: "asset_world \<Rightarrow> bool" where
  "asset_start w \<longleftrightarrow> t_assets (aw_db w) = [] \<and> t_storageDeletions (aw_db w) = [] \<and> referenced (aw_db w) = {}
     \<and> aw_read w = {} \<and> aw_put w = {}"

lemma asset_start_ok: "asset_start w \<Longrightarrow> assets_ok w"
  by (simp add: asset_start_def assets_ok_def rows_ok_def files_ok_def handlers_ok_def queue_ok_def ids_def refs_ready_def)

lemma asset_reachable_ok: "asset_step\<^sup>*\<^sup>* w0 w \<Longrightarrow> asset_start w0 \<Longrightarrow> assets_ok w"
  by (induction rule: rtranclp_induct) (auto intro: asset_step_ok asset_start_ok)

end
