(* ===== verification/Asset_Properties.thy ===== *)
theory Asset_Properties
  imports Asset_Steps
begin

text \<open>
  What the interleaved uploads of \<open>Asset_Steps\<close> keep: the files of a submission stay, rows move along the
  states of an upload, and a run over the waiting videos ends and leaves none behind but for a retry.
\<close>

section \<open>A sample upload\<close>

definition sample_upload :: presign_request where
  "sample_upload = \<lparr>pq_fileName = [97], pq_mimeType = ''image/png'', pq_sizeBytes = 10, pq_checksum = None\<rparr>"

definition waiting_picture :: asset where
  "waiting_picture = new_asset 5 7 sample_upload 0"

definition sample_media :: processed_media where
  "sample_media = \<lparr>pm_mimeType = ''image/png'', pm_width = 8, pm_height = 8, pm_sizeBytes = 10,
     pm_checksum = ''aa'', pm_durationMs = None, pm_hasAudio = None\<rparr>"

definition ready_picture :: asset where
  "ready_picture = ready_asset sample_media 1 waiting_picture"

definition picture_poster :: submission where
  "picture_poster = \<lparr>s_id = 9, s_type = POSTER, s_requesterId = 7, s_ziggleNoticeId = None, s_title = [65],
     s_categoryId = None, s_assetId = Some 5, s_detailUrl = None, s_startAt = Some 0, s_endAt = Some 3600000,
     s_status = PENDING_REVIEW, s_priority = 0, s_organizerName = None, s_subtitle = None, s_location = None,
     s_description = None, s_version = 1, s_submittedAt = Some 0, s_createdAt = 0, s_updatedAt = 0\<rparr>"

definition world :: "asset list \<Rightarrow> submission list \<Rightarrow> storage_key set \<Rightarrow> uuid set \<Rightarrow> asset set \<Rightarrow> (uuid \<times> asset_kind) set \<Rightarrow> asset_world" where
  "world rows posters files used seen written = \<lparr>aw_store = (empty_database\<lparr>t_submissions := posters, t_assets := rows\<rparr>, files),
     aw_used = used, aw_read = seen, aw_put = written\<rparr>"

definition first_world :: asset_world where
  "first_world = world [] [] {} {} {} {}"

definition picture_world :: asset_world where
  "picture_world = world [ready_picture] [picture_poster] (files_of 5 IMAGE) {5} {waiting_picture, ready_picture} {(5, IMAGE)}"

lemma first_world_start: "asset_start first_world"
  by (simp add: asset_start_def first_world_def world_def empty_database_def referenced_def)

lemma empty_database_tables: "empty_database\<lparr>t_assets := []\<rparr> = empty_database" "empty_database\<lparr>t_submissions := []\<rparr> = empty_database"
  by (simp_all add: empty_database_def)

lemma picture_world_reached: "asset_step\<^sup>*\<^sup>* first_world picture_world"
proof -
  let ?w1 = "world [waiting_picture] [] {} {5} {} {}"
  let ?w2 = "world [waiting_picture] [] {} {5} {waiting_picture} {}"
  let ?w3 = "world [waiting_picture] [] (files_of 5 IMAGE) {5} {waiting_picture} {(5, IMAGE)}"
  let ?w4 = "world [ready_picture] [] (files_of 5 IMAGE) {5} {waiting_picture} {(5, IMAGE)}"
  let ?w5 = "world [ready_picture] [] (files_of 5 IMAGE) {5} {waiting_picture, ready_picture} {(5, IMAGE)}"
  have a: "a_id waiting_picture = 5" "a_kind waiting_picture = IMAGE" "a_status waiting_picture = PENDING_UPLOAD"
    "a_id ready_picture = 5" "a_status ready_picture = READY"
    by (simp_all add: waiting_picture_def ready_picture_def ready_asset_def new_asset_def sample_upload_def mediaKindOf_def
        IMAGE_MIME_TYPES_def VIDEO_MIME_TYPES_def)
  have "asset_step first_world ?w1"
  proof -
    have q: "pq_mimeType sample_upload = ''image/png''" "pq_sizeBytes sample_upload = 10" by (simp_all add: sample_upload_def)
    have "''image/png'' \<in> set (allowedMimeTypes True)" "10 \<le> maxUploadBytesOf (mediaKindOf ''image/png'')" by code_simp+
    then have "\<exists>answer. presign True (\<lambda>_. []) 5 7 sample_upload 0 (aw_db first_world) = Inr (aw_db ?w1, answer)"
      by (simp add: presign_def q first_world_def world_def waiting_picture_def Let_def insert_row_def empty_database_tables)
         (simp add: empty_database_def)
    then obtain answer where p: "presign True (\<lambda>_. []) 5 7 sample_upload 0 (aw_db first_world) = Inr (aw_db ?w1, answer)" ..
    have "5 \<notin> aw_used first_world" by (simp add: first_world_def world_def)
    from presigned[OF p this] show ?thesis by (simp add: first_world_def world_def set_db_def)
  qed
  moreover have "asset_step ?w1 ?w2" using asset_step.read[of waiting_picture ?w1] by (simp add: world_def)
  moreover have "asset_step ?w2 ?w3"
    using asset_step.put[of waiting_picture ?w2] by (simp add: world_def a put_files_def files_of_def VARIANTS_def)
  moreover have "asset_step ?w3 ?w4"
    using asset_step.image_written[of waiting_picture ?w3 sample_media 1]
    by (simp add: world_def a set_db_def image_ready_def ready_picture_def Let_def)
  moreover have "asset_step ?w4 ?w5"
    using asset_step.read[of ready_picture ?w4] by (simp add: world_def insert_commute)
  moreover have "asset_step ?w5 picture_world"
    using asset_step.referring[of ready_picture ?w5 "aw_db picture_world"]
    by (simp add: world_def a picture_world_def set_db_def referenced_def picture_poster_def)
  ultimately show ?thesis by (meson converse_rtranclp_into_rtranclp rtranclp.rtrancl_refl)
qed

section \<open>The files of a submission\<close>

text \<open>
  C24: In every state the uploads can reach, with any interleaving of uploads, completions, workers and the
  cleanup job, the asset a submission points at is there and ready, and every public file of it (the three
  variants, and the video) is in the store.
\<close>

theorem submission_files_stay:
  assumes "asset_start w0" and "asset_step\<^sup>*\<^sup>* w0 w" and "s \<in> set (t_submissions (aw_db w))" and "s_assetId s = Some i"
  shows "\<exists>a \<in> set (t_assets (aw_db w)). a_id a = i \<and> a_status a = READY \<and> files_of i (a_kind a) \<subseteq> aw_files w"
proof -
  note ok = ok_parts[OF asset_reachable_ok[OF assms(2,1)]]
  from ok(2) assms(3,4) obtain a where a: "a \<in> set (t_assets (aw_db w))" "a_status a = READY" "a_id a = i"
    by (auto simp: refs_ready_def referenced_def ready_ids_def)
  with files_okD(1)[OF ok(5) a(1,2)] show ?thesis by blast
qed

theorem submission_files_stay_witness:
  "\<exists>a \<in> set (t_assets (aw_db picture_world)). a_id a = 5 \<and> a_status a = READY \<and> files_of 5 (a_kind a) \<subseteq> aw_files picture_world"
  by (rule submission_files_stay[OF first_world_start picture_world_reached, of picture_poster])
     (simp_all add: picture_world_def world_def picture_poster_def)

section \<open>The states of an upload\<close>

definition asset_change :: "asset \<Rightarrow> asset \<Rightarrow> bool" where
  "asset_change a b \<longleftrightarrow> a_kind b = a_kind a \<and> a_ownerId b = a_ownerId a \<and> (case a_status a of
      READY \<Rightarrow> b = a
    | ASSET_REJECTED \<Rightarrow> b = a
    | PROCESSING \<Rightarrow> a_status b \<noteq> PENDING_UPLOAD
    | PENDING_UPLOAD \<Rightarrow> b = a \<or> a_status b = ASSET_REJECTED \<or> a_status b = (if a_kind a = VIDEO then PROCESSING else READY))"

lemma asset_change_refl: "asset_change a a"
  by (simp add: asset_change_def split: asset_status.split)

lemma change_of_update:
  assumes "distinct (map a_id rows)" and "\<And>x. a_id (f x) = a_id x" and "\<And>x. x \<in> set rows \<Longrightarrow> P x \<Longrightarrow> asset_change x (f x)"
    and "a \<in> set rows" and "b \<in> set (update_where P f rows)" and "a_id b = a_id a"
  shows "asset_change a b"
proof -
  from assms(5) obtain c where c: "c \<in> set rows" "b = (if P c then f c else c)" by (auto simp: update_where_def)
  with assms(2,6) have "a_id c = a_id a" by (simp split: if_splits)
  with assms(1,4) c have "c = a" by (auto simp: distinct_map dest: inj_onD)
  with c assms(3,4) show ?thesis by (simp add: asset_change_refl)
qed

lemma same_rows:
  "distinct (map a_id rows) \<Longrightarrow> a \<in> set rows \<Longrightarrow> b \<in> set rows \<Longrightarrow> a_id b = a_id a \<Longrightarrow> asset_change a b"
  by (metis asset_change_refl distinct_map inj_onD)

lemma change_of_claim:
  assumes "distinct (map a_id rows)" and c: "claim_video t exclude db = (db', Some v)" and "rows = t_assets db"
    and ab: "a \<in> set rows" "b \<in> set (t_assets db')" "a_id b = a_id a"
  shows "asset_change a b"
proof -
  from c obtain x rest where x: "order_asc a_createdAt (select (claimable t exclude) rows) = x # rest"
    and db: "t_assets db' = update_where (\<lambda>y. a_id y = a_id x) (claimed_asset t) rows"
    by (auto simp: claim_video_def assms(3) split: list.splits)
  have "x \<in> set (order_asc a_createdAt (select (claimable t exclude) rows))" by (simp add: x)
  then have xin: "x \<in> set rows" and st: "a_status x = PROCESSING" by (auto simp: claimable_def)
  show ?thesis
  proof (rule change_of_update[OF assms(1) _ _ ab(1) ab(2)[unfolded db] ab(3)])
    fix y assume "y \<in> set rows" "a_id y = a_id x"
    with assms(1) xin have "y = x" by (auto simp: distinct_map dest: inj_onD)
    with st show "asset_change y (claimed_asset t y)" by (simp add: asset_change_def claimed_asset_def)
  qed (simp add: claimed_asset_def)
qed

lemma cleanup_rows_subset: "set (t_assets (fst (cleanup_rows t db))) \<subseteq> set (t_assets db)"
proof -
  obtain d1 g1 where r1: "remove_assets (stale_upload t) db = (d1, g1)" by fastforce
  obtain d2 g2 where r2: "remove_assets (stale_unused t) d1 = (d2, g2)" by fastforce
  obtain d3 g3 where r3: "remove_assets (stale_rejected t) d2 = (d3, g3)" by fastforce
  note remove_assets_props(1)[OF r1] remove_assets_props(1)[OF r2] remove_assets_props(1)[OF r3]
  then show ?thesis by (auto simp: cleanup_rows_def r1 r2 r3)
qed

lemma step_changes:
  "asset_step w w' \<Longrightarrow> assets_ok w \<Longrightarrow> a \<in> set (t_assets (aw_db w)) \<Longrightarrow> b \<in> set (t_assets (aw_db w')) \<Longrightarrow> a_id b = a_id a
    \<Longrightarrow> asset_change a b"
proof (induction rule: asset_step.induct)
  case (presigned enabled url i owner dto t w db' answer)
  note ok = ok_parts[OF presigned(3)]
  have "t_assets db' = insert_row (new_asset i owner dto t) (t_assets (aw_db w))"
    using presigned(1) by (auto simp: presign_def Let_def split: if_splits)
  then have "b = new_asset i owner dto t \<or> b \<in> set (t_assets (aw_db w))" using presigned(5) by (simp add: set_db_def)
  moreover have "a_id a \<noteq> i" using ok(3) presigned(2) row_id[OF presigned(4)] by auto
  ultimately have "b \<in> set (t_assets (aw_db w))" using presigned(6) by (auto simp: new_asset_def)
  with same_rows[OF ok(1) presigned(4) _ presigned(6)] show ?case by simp
next
  case (image_written c w m t)
  note ok = ok_parts[OF image_written(4)]
  show ?case
  proof (rule change_of_update[OF ok(1) _ _ image_written(5) _ image_written(7)])
    show "b \<in> set (update_where (\<lambda>x. a_id x = a_id c \<and> a_status x = PENDING_UPLOAD) (ready_asset m t) (t_assets (aw_db w)))"
      using image_written(6) by (simp add: set_db_def image_ready_def Let_def)
    fix x assume x: "x \<in> set (t_assets (aw_db w))" "a_id x = a_id c \<and> a_status x = PENDING_UPLOAD"
    then have "a_kind x = IMAGE" using handlers_okD(2)[OF ok(6) image_written(1), of x] image_written(2) by simp
    with x show "asset_change x (ready_asset m t x)" by (simp add: asset_change_def ready_asset_def)
  qed (simp add: ready_asset_def)
next
  case (queued c w t)
  note ok = ok_parts[OF queued(3)]
  show ?case
  proof (rule change_of_update[OF ok(1) _ _ queued(4) _ queued(6)])
    show "b \<in> set (update_where (\<lambda>x. a_id x = a_id c \<and> a_status x = PENDING_UPLOAD)
        (\<lambda>x. x\<lparr>a_status := PROCESSING, a_updatedAt := t\<rparr>) (t_assets (aw_db w)))"
      using queued(5) by (simp add: set_db_def enqueueVideo_def Let_def)
    fix x assume x: "x \<in> set (t_assets (aw_db w))" "a_id x = a_id c \<and> a_status x = PENDING_UPLOAD"
    then have "a_kind x = VIDEO" using handlers_okD(2)[OF ok(6) queued(1), of x] queued(2) by simp
    with x show "asset_change x (x\<lparr>a_status := PROCESSING, a_updatedAt := t\<rparr>)" by (simp add: asset_change_def)
  qed simp
next
  case (claimed t exclude w db' v)
  then show ?case
    using change_of_claim[OF ok_parts(1)[OF claimed(2)] claimed(1) refl claimed(3) _ claimed(5)] by (simp add: set_db_def)
next
  case (video_written c w m t)
  have "b \<in> set (update_where (stillClaimed c) (ready_video m t) (t_assets (aw_db w)))"
    using video_written(5) by (simp add: set_db_def video_ready_def)
  from change_of_update[OF ok_parts(1)[OF video_written(3)] _ _ video_written(4) this video_written(6)] show ?case
    by (simp add: ready_video_def ready_asset_def asset_change_def stillClaimed_def)
next
  case (retried c w)
  have "b \<in> set (update_where (stillClaimed c) (\<lambda>a. a\<lparr>a_processingStartedAt := None\<rparr>) (t_assets (aw_db w)))"
    using retried(4) by (simp add: set_db_def retry_video_def)
  from change_of_update[OF ok_parts(1)[OF retried(2)] _ _ retried(3) this retried(5)] show ?case
    by (simp add: asset_change_def stillClaimed_def)
next
  case (rejected c w st reason t)
  have "b \<in> set (update_where (\<lambda>x. a_id x = a_id c \<and> a_status x = st) (rejected_asset reason t) (t_assets (aw_db w)))"
    using rejected(5) by (simp add: set_db_def mark_rejected_rows_def)
  then show ?case
    by (rule change_of_update[OF ok_parts(1)[OF rejected(3)] _ _ rejected(4) _ rejected(6), rotated 2])
       (use rejected(2) in \<open>auto simp: asset_change_def rejected_asset_def\<close>)
next
  case (cleaned w t)
  then show ?case using cleanup_rows_subset[of t "aw_db w"] same_rows[OF ok_parts(1)[OF cleaned(1)] cleaned(2) _ cleaned(4)]
    by (auto simp: set_db_def)
qed (auto intro: same_rows[OF ok_parts(1)] simp: set_db_def files_put complete_finish_def handleLostClaim_def
      deleteOriginal_def drain_key_def split: option.splits if_splits)

text \<open>
  C25: Whatever step comes next in a reachable state, a row that stays keeps its owner and kind and moves only
  along the states of an upload: a finished one, ready or rejected, does not change at all; a video waiting
  for its conversion does not go back; and a waiting upload becomes rejected, or, an image, ready, or, a
  video, queued for conversion.
\<close>

theorem uploads_follow_states:
  assumes "asset_start w0" and "asset_step\<^sup>*\<^sup>* w0 w" and "asset_step w w'"
    and "a \<in> set (t_assets (aw_db w))" and "b \<in> set (t_assets (aw_db w'))" and "a_id b = a_id a"
  shows "asset_change a b"
  by (rule step_changes[OF assms(3) asset_reachable_ok[OF assms(2,1)] assms(4-6)])

theorem uploads_follow_states_witness: "asset_change ready_picture ready_picture"
proof (rule uploads_follow_states[OF first_world_start picture_world_reached])
  show "asset_step picture_world (picture_world\<lparr>aw_store := (aw_db picture_world, insert (uploadKey 5) (aw_files picture_world))\<rparr>)"
    by (rule uploaded)
qed (simp_all add: picture_world_def world_def)

section \<open>A run over the waiting videos\<close>

definition waiting :: "uuid list \<Rightarrow> asset \<Rightarrow> bool" where
  "waiting failed a \<longleftrightarrow> a_status a = PROCESSING \<and> a_id a \<notin> set failed"

text \<open>What is left of a video after an attempt that was not to its end.\<close>

definition left_to_retry :: "asset \<Rightarrow> bool" where
  "left_to_retry a \<longleftrightarrow> a_processingAttempts a \<le> MAX_PROCESSING_ATTEMPTS \<and> a_processingStartedAt a = None"

definition claimed_elsewhere :: "time \<Rightarrow> asset \<Rightarrow> bool" where
  "claimed_elsewhere t a \<longleftrightarrow> (case a_processingStartedAt a of None \<Rightarrow> False | Some since \<Rightarrow> t - STALE_AFTER_MS \<le> since)"

definition retries_only :: "uuid list \<Rightarrow> database \<Rightarrow> bool" where
  "retries_only failed db \<longleftrightarrow> (\<forall>a \<in> set (t_assets db). a_status a = PROCESSING \<longrightarrow> a_id a \<in> set failed \<longrightarrow> left_to_retry a)"

lemma claim_none:
  assumes "claim_video t failed db = (db', None)"
  shows "db' = db" and "a \<in> set (t_assets db) \<Longrightarrow> waiting failed a \<Longrightarrow> claimed_elsewhere t a"
proof -
  from assms have o: "order_asc a_createdAt (select (claimable t failed) (t_assets db)) = []" and "db' = db"
    by (auto simp: claim_video_def split: list.splits)
  then show "db' = db" by simp
  have "\<not> claimable t failed a" if "a \<in> set (t_assets db)" for a
    using arg_cong[OF o, of set] that by auto
  then show "a \<in> set (t_assets db) \<Longrightarrow> waiting failed a \<Longrightarrow> claimed_elsewhere t a"
    by (fastforce simp: claimable_def waiting_def claimed_elsewhere_def split: option.splits)
qed

lemma claim_some:
  assumes "claim_video t failed db = (db', Some a)"
  obtains b where "b \<in> set (t_assets db)" and "waiting failed b" and "a = claimed_asset t b"
    and "t_assets db' = update_where (\<lambda>x. a_id x = a_id b) (claimed_asset t) (t_assets db)"
proof -
  from assms obtain b rest where b: "order_asc a_createdAt (select (claimable t failed) (t_assets db)) = b # rest"
    and a: "a = claimed_asset t b" "t_assets db' = update_where (\<lambda>x. a_id x = a_id b) (claimed_asset t) (t_assets db)"
    by (auto simp: claim_video_def split: list.splits)
  have "b \<in> set (order_asc a_createdAt (select (claimable t failed) (t_assets db)))" by (simp add: b)
  with that[OF _ _ a] show ?thesis by (auto simp: claimable_def waiting_def)
qed

text \<open>A table whose rows change one by one, at least one of them out of those that count.\<close>

lemma length_filter_map_less:
  assumes "\<And>r. r \<in> set t \<Longrightarrow> Q' (g r) \<Longrightarrow> Q r" and "r \<in> set t" and "Q r" and "\<not> Q' (g r)"
  shows "length (filter Q' (map g t)) < length (filter Q t)"
proof -
  have le: "length (filter Q' (map g u)) \<le> length (filter Q u)" if "set u \<subseteq> set t" for u
    using that assms(1) by (induction u) auto
  obtain u v where t: "t = u @ r # v" using split_list[OF assms(2)] by blast
  have "length (filter Q' (map g u)) \<le> length (filter Q u)" "length (filter Q' (map g v)) \<le> length (filter Q v)"
    by (rule le, force simp: t)+
  with assms(3,4) show ?thesis by (simp add: t)
qed

text \<open>
  One attempt, seen row by row: the rows of the claimed id leave the state, or are released for a retry and
  the run remembers the id; all other rows stay as they are.
\<close>

definition attempt_row :: "video_result \<Rightarrow> asset \<Rightarrow> asset \<Rightarrow> bool" where
  "attempt_row v a b \<longleftrightarrow> a_id b = a_id a \<and> (a_status b = PROCESSING \<longrightarrow>
     v = VideoRetried \<and> a_status a = PROCESSING \<and> (a_processingStartedAt a \<noteq> None \<longrightarrow> a_processingStartedAt b = None)
       \<and> a_processingAttempts b = a_processingAttempts a)"

lemma attempt_of_update:
  assumes "tab' = update_where P f tab"
    and "\<And>a. a \<in> set tab \<Longrightarrow> P a \<Longrightarrow> a_id a = i" and "\<And>a. a \<in> set tab \<Longrightarrow> P a \<Longrightarrow> attempt_row v a (f a)"
    and "\<And>a. a \<in> set tab \<Longrightarrow> a_id a = i \<Longrightarrow> \<not> P a \<Longrightarrow> a_status a \<noteq> PROCESSING"
  shows "\<exists>g. tab' = map g tab \<and> (\<forall>a \<in> set tab. if a_id a = i then attempt_row v a (g a) else g a = a)"
proof (intro exI conjI)
  show "tab' = map (\<lambda>r. if P r then f r else r) tab" by (simp add: assms(1) update_where_def)
  show "\<forall>a \<in> set tab. if a_id a = i then attempt_row v a (if P a then f a else a) else (if P a then f a else a) = a"
    using assms(2-4) by (auto simp: attempt_row_def)
qed

lemma process_video_rows:
  assumes "process_video convert t c w = (w', v)" and "a_processingStartedAt c = Some t"
    and claimed: "\<And>a. a \<in> set (t_assets (fst w)) \<Longrightarrow> a_id a = a_id c \<Longrightarrow> a_processingStartedAt a = Some t"
    and there: "c \<in> set (t_assets (fst w))" "a_status c = PROCESSING"
  shows "\<exists>g. t_assets (fst w') = map g (t_assets (fst w)) \<and>
     (\<forall>a \<in> set (t_assets (fst w)). if a_id a = a_id c then attempt_row v a (g a) else g a = a)"
    and "v = VideoRetried \<Longrightarrow> a_processingAttempts c \<le> MAX_PROCESSING_ATTEMPTS"
proof -
  obtain downloaded outcome deleted where conv: "convert c = (downloaded, outcome, deleted)"
    by (cases "convert c")
  have still: "list_ex (stillClaimed c) (t_assets (fst w))"
    using there assms(2) by (auto simp: list_ex_iff stillClaimed_def intro!: bexI[of _ c])
  have orig: "t_assets (fst (deleteOriginal d i t u)) = t_assets (fst u)" for d i u
    by (simp add: deleteOriginal_def)
  note p = assms(1)[unfolded process_video_def conv prod.case]
  consider (no) reason where "video_check c downloaded outcome = MediaRejected reason"
    | (finished) m where "video_check c downloaded outcome = MediaDone m"
    | (fail) e where "video_check c downloaded outcome = MediaFailed e"
    by (cases "video_check c downloaded outcome") auto
  then show "\<exists>g. t_assets (fst w') = map g (t_assets (fst w)) \<and>
     (\<forall>a \<in> set (t_assets (fst w)). if a_id a = a_id c then attempt_row v a (g a) else g a = a)"
  proof cases
    case no
    with p have v: "v = VideoRejected" and "t_assets (fst w') = update_where (\<lambda>a. a_id a = a_id c \<and> a_status a = PROCESSING)
        (rejected_asset reason t) (t_assets (fst w))"
      by (auto simp: reject_video_def markRejected_def orig mark_rejected_rows_def)
    from this(2) show ?thesis by (rule attempt_of_update) (auto simp: attempt_row_def rejected_asset_def)
  next
    case finished
    with p still have v: "v = VideoReady" and "t_assets (fst w') = update_where (stillClaimed c) (ready_video m t) (t_assets (fst w))"
      by (auto simp: Let_def video_ready_def orig files_put)
    from this(2) show ?thesis
      by (rule attempt_of_update)
         (use claimed assms(2) in \<open>auto simp: attempt_row_def ready_video_def ready_asset_def stillClaimed_def\<close>)
  next
    case fail
    with p have v: "v = VideoRetried" and "t_assets (fst w') = update_where (stillClaimed c)
        (\<lambda>a. a\<lparr>a_processingStartedAt := None\<rparr>) (t_assets (fst w))"
      by (auto simp: retry_video_def)
    from this(2) show ?thesis
      by (rule attempt_of_update) (use claimed assms(2) v in \<open>auto simp: attempt_row_def stillClaimed_def\<close>)
  qed
  show "v = VideoRetried \<Longrightarrow> a_processingAttempts c \<le> MAX_PROCESSING_ATTEMPTS"
    using p still by (auto simp: video_check_def Let_def video_ready_def files_put split: if_splits media_outcome.splits)
qed

text \<open>The result of one turn of the loop: fewer videos are waiting, and what may be retried was released.\<close>

lemma turn:
  assumes c: "claim_video t failed (fst w) = (db, Some a)" and p: "process_video convert t a (db, snd w) = (w', v)"
    and inv: "retries_only failed (fst w)"
  defines "failed' \<equiv> if v = VideoRetried then failed @ [a_id a] else failed"
  shows "length (filter (waiting failed') (t_assets (fst w'))) < length (filter (waiting failed) (t_assets (fst w)))"
    and "distinct (map a_id (t_assets (fst w))) \<Longrightarrow> retries_only failed' (fst w')"
    and "map a_id (t_assets (fst w')) = map a_id (t_assets (fst w))"
proof -
  obtain b where b: "b \<in> set (t_assets (fst w))" "waiting failed b" and a: "a = claimed_asset t b"
    and db: "t_assets db = update_where (\<lambda>x. a_id x = a_id b) (claimed_asset t) (t_assets (fst w))"
    using claim_some[OF c] by blast
  have a': "a_id a = a_id b" "a_status a = PROCESSING" "a_processingStartedAt a = Some t"
    using b(2) by (simp_all add: a claimed_asset_def waiting_def)
  have ain: "a \<in> set (t_assets db)" using b(1) by (auto simp: db set_update_where a)
  have st: "a_processingStartedAt x = Some t" if "x \<in> set (t_assets db)" "a_id x = a_id a" for x
    using that by (auto simp: db set_update_where a' claimed_asset_def)
  have rows: "\<exists>g. t_assets (fst w') = map g (t_assets db) \<and>
      (\<forall>x \<in> set (t_assets db). if a_id x = a_id a then attempt_row v x (g x) else g x = x)"
    using process_video_rows(1)[OF p a'(3)] st ain a'(2) by simp
  then obtain g where g: "t_assets (fst w') = map g (t_assets db)"
    and g': "\<And>x. x \<in> set (t_assets db) \<Longrightarrow> if a_id x = a_id a then attempt_row v x (g x) else g x = x"
    by blast
  let ?h = "\<lambda>x. g (if a_id x = a_id b then claimed_asset t x else x)"
  have h: "t_assets (fst w') = map ?h (t_assets (fst w))" by (simp add: g db update_where_def)
  have row: "if a_id x = a_id b then attempt_row v (claimed_asset t x) (?h x) else ?h x = x" if "x \<in> set (t_assets (fst w))" for x
  proof -
    have "(if a_id x = a_id b then claimed_asset t x else x) \<in> set (t_assets db)"
      using that by (auto simp: db set_update_where)
    from g'[OF this] show ?thesis by (auto simp: a' claimed_asset_def split: if_splits)
  qed
  show "length (filter (waiting failed') (t_assets (fst w'))) < length (filter (waiting failed) (t_assets (fst w)))"
    unfolding h
  proof (rule length_filter_map_less[of _ _ ?h _ b])
    fix r assume "r \<in> set (t_assets (fst w))" "waiting failed' (?h r)"
    with row[of r] show "waiting failed r"
      by (auto simp: waiting_def failed'_def attempt_row_def claimed_asset_def split: if_splits)
    next
    show "\<not> waiting failed' (?h b)"
      using row[OF b(1)] by (auto simp: waiting_def failed'_def attempt_row_def claimed_asset_def a' split: if_splits)
  qed (use b in auto)
  have hid: "a_id (?h x) = a_id x" if "x \<in> set (t_assets (fst w))" for x
    using row[OF that] by (auto simp: attempt_row_def claimed_asset_def split: if_splits)
  then show "map a_id (t_assets (fst w')) = map a_id (t_assets (fst w))" unfolding h by simp
  assume d: "distinct (map a_id (t_assets (fst w)))"
  show "retries_only failed' (fst w')"
    unfolding retries_only_def
  proof (intro ballI impI)
    fix y assume y: "y \<in> set (t_assets (fst w'))" "a_status y = PROCESSING" "a_id y \<in> set failed'"
    then obtain x where x: "x \<in> set (t_assets (fst w))" "y = ?h x" by (auto simp: h)
    show "left_to_retry y"
    proof (cases "a_id x = a_id b")
      case True
      with d b(1) x(1) have "x = b" by (auto simp: distinct_map dest: inj_onD)
      with row[OF x(1)] x(2) y(2) have r: "attempt_row v a y" "v = VideoRetried" by (auto simp: a attempt_row_def)
      with process_video_rows(2)[OF p a'(3)] ain st a'(2)
      have "a_processingAttempts a \<le> MAX_PROCESSING_ATTEMPTS" by simp
      with r y(2) a'(3) show ?thesis by (auto simp: attempt_row_def left_to_retry_def)
    next
      case False
      with row[OF x(1)] x(2) have "y = x" by simp
      moreover have "a_id y \<in> set failed" using y(3) False \<open>y = x\<close> a'(1) by (auto simp: failed'_def split: if_splits)
      ultimately show ?thesis using inv x(1) y(2) by (auto simp: retries_only_def)
    qed
  qed
qed

text \<open>
  The loop by induction on the number of waiting videos. The run ends at some turn \<open>n\<close>, because the service
  stops there or because no video can be claimed at that turn's time.
\<close>

definition run_end :: "(nat \<Rightarrow> time) \<Rightarrow> (nat \<Rightarrow> bool) \<Rightarrow> database \<Rightarrow> nat \<Rightarrow> bool" where
  "run_end clock stopping db n \<longleftrightarrow> stopping n \<or>
     list_all (\<lambda>a. a_status a = PROCESSING \<longrightarrow> left_to_retry a \<or> claimed_elsewhere (clock n) a) (t_assets db)"

lemma drain_from_ends:
  "distinct (map a_id (t_assets (fst w))) \<Longrightarrow> retries_only failed (fst w) \<Longrightarrow>
   \<exists>w' r m. drain_from convert clock stopping n failed result w = Some (w', r) \<and> run_end clock stopping (fst w') m"
proof (induction "length (filter (waiting failed) (t_assets (fst w)))" arbitrary: n failed result w rule: less_induct)
  case less
  show ?case
  proof (cases "stopping n")
    case True
    then have "drain_from convert clock stopping n failed result w = Some (w, result)" by (simp add: drain_from.simps)
    with True show ?thesis by (auto simp: run_end_def intro!: exI[of _ n])
  next
    case False
    obtain db o' where c: "claim_video (clock n) failed (fst w) = (db, o')" by fastforce
    show ?thesis
    proof (cases o')
      case None
      note none = claim_none[OF c[unfolded None]]
      have "drain_from convert clock stopping n failed result w = Some ((db, snd w), result)"
        using False c None by (simp add: drain_from.simps)
      moreover have "run_end clock stopping db n"
        using none less.prems(2) by (auto simp: run_end_def list_all_iff retries_only_def waiting_def)
      ultimately show ?thesis by auto
    next
      case (Some a)
      obtain w' v where p: "process_video convert (clock n) a (db, snd w) = (w', v)" by fastforce
      note t = turn[OF c[unfolded Some] p less.prems(2)]
      have "distinct (map a_id (t_assets (fst w')))" using t(3) less.prems(1) by simp
      from less.hyps[OF t(1) this t(2)[OF less.prems(1)], of "n + 1" "count_result v result"]
      show ?thesis using False c Some p by (simp add: drain_from.simps[of _ _ _ n])
    qed
  qed
qed


definition waiting_video :: asset where
  "waiting_video = waiting_picture\<lparr>a_kind := VIDEO, a_status := PROCESSING\<rparr>"

definition video_store :: store where
  "video_store = aw_store (world [waiting_video, waiting_picture\<lparr>a_id := 6\<rparr>] [] {} {5, 6} {} {})"


end
