(* ===== verification/Telemetry.thy ===== *)
theory Telemetry
  imports Devices
begin

text \<open>
  What the screens report and what becomes of it: \<open>device-telemetry/device-telemetry.service.ts\<close>, the daily
  aggregation \<open>jobs/play-event-aggregation.job.ts\<close> and the statistics \<open>stats/stats.service.ts\<close>.

  Reported times are times already (the request schema admits only full ISO times with an offset). The
  database's Seoul day of an event is \<open>seoulDate\<close>: the offset has been the same since 1988, and older days
  are never counted.
\<close>

section \<open>Reports\<close>

record heartbeat_dto =
  hb_appVersion :: utext
  hb_playlistVersion :: "utext option"
  hb_lastRenderOkAt :: "time option"
  hb_width :: "int option"
  hb_height :: "int option"
  hb_now :: "now_playing option"

definition nowPlayingOf :: "now_playing \<Rightarrow> now_playing" where
  "nowPlayingOf n = \<lparr>np_blockId = np_blockId n, np_live = np_live n, np_kind = np_kind n, np_label = np_label n,
     np_submissionIds = np_submissionIds n, np_startedAt = np_startedAt n, np_endsAt = np_endsAt n\<rparr>"

text \<open>An update leaves a column alone whose new value is \<open>undefined\<close>.\<close>

definition device_heartbeat :: "uuid \<Rightarrow> heartbeat_dto \<Rightarrow> time \<Rightarrow> database \<Rightarrow> database" where
  "device_heartbeat deviceId dto t db = db\<lparr>t_devices := update_where (\<lambda>d. d_id d = deviceId)
     (\<lambda>d. d\<lparr>d_lastSeenAt := Some t, d_appVersion := Some (hb_appVersion dto),
        d_resolutionWidth := (if hb_width dto = None then d_resolutionWidth d else hb_width dto),
        d_resolutionHeight := (if hb_height dto = None then d_resolutionHeight d else hb_height dto),
        d_lastPlaylistVersion := hb_playlistVersion dto, d_lastRenderOkAt := hb_lastRenderOkAt dto,
        d_nowPlaying := map_option nowPlayingOf (hb_now dto)\<rparr>)
     (t_devices db)\<rparr>"

record play_event_dto =
  ev_eventId :: uuid
  ev_sessionId :: utext
  ev_submissionId :: uuid
  ev_revision :: "int option"
  ev_startedAt :: time
  ev_durationMs :: int
  ev_completed :: bool
  ev_placement :: "play_placement option"

record play_events_result =
  pr_accepted :: int
  pr_duplicates :: int

definition play_event_row :: "uuid \<Rightarrow> time \<Rightarrow> play_event_dto \<Rightarrow> play_event" where
  "play_event_row deviceId receivedAt e =
     \<lparr>pe_deviceId = deviceId, pe_eventId = ev_eventId e, pe_sessionId = ev_sessionId e,
      pe_submissionId = ev_submissionId e, pe_revision = ev_revision e, pe_startedAt = ev_startedAt e,
      pe_durationMs = ev_durationMs e, pe_completed = ev_completed e, pe_placement = ev_placement e,
      pe_receivedAt = receivedAt\<rparr>"

definition event_key :: "play_event \<Rightarrow> uuid \<times> uuid" where
  "event_key e = (pe_deviceId e, pe_eventId e)"

definition recordPlayEvents :: "uuid \<Rightarrow> play_event_dto list \<Rightarrow> time \<Rightarrow> database \<Rightarrow> database \<times> play_events_result" where
  "recordPlayEvents deviceId events receivedAt db = (
     if events = [] then (db, \<lparr>pr_accepted = 0, pr_duplicates = 0\<rparr>)
     else let tab = fold (insert_or_ignore event_key) (map (play_event_row deviceId receivedAt) events) (t_playEvents db);
              inserted = int (length tab) - int (length (t_playEvents db)) in
       (db\<lparr>t_playEvents := tab\<rparr>, \<lparr>pr_accepted = inserted, pr_duplicates = int (length events) - inserted\<rparr>))"

section \<open>The daily aggregation\<close>

definition PLAY_EVENT_WATERMARK :: string where "PLAY_EVENT_WATERMARK = ''play-event-daily''"
definition PLAY_EVENT_RETENTION_DAYS :: int where "PLAY_EVENT_RETENTION_DAYS = 90"
definition WATERMARK_OVERLAP_MS :: int where "WATERMARK_OVERLAP_MS = 5 * 60 * 1000"
definition RETENTION_BATCH :: nat where "RETENTION_BATCH = 50000"

definition seoulDay :: "play_event \<Rightarrow> string" where
  "seoulDay e = seoulDate (pe_startedAt e)"

definition notWall :: "play_event \<Rightarrow> bool" where
  "notWall e \<longleftrightarrow> pe_placement e \<noteq> Some WALL"

definition daily_key :: "play_event \<Rightarrow> string \<times> uuid \<times> uuid" where
  "daily_key e = (seoulDay e, pe_submissionId e, pe_deviceId e)"

definition daily_row :: "time \<Rightarrow> play_event list \<Rightarrow> string \<times> uuid \<times> uuid \<Rightarrow> play_event_daily" where
  "daily_row t evs k = (let group = filter (\<lambda>e. daily_key e = k) evs in
     \<lparr>pd_day = fst k, pd_submissionId = fst (snd k), pd_deviceId = snd (snd k),
      pd_impressions = int (length (filter notWall group)),
      pd_completedImpressions = int (length (filter (\<lambda>e. notWall e \<and> pe_completed e) group)),
      pd_totalDurationMs = sum_list (map pe_durationMs (filter notWall group)),
      pd_wallImpressions = int (length (filter (\<lambda>e. \<not> notWall e) group)), pd_updatedAt = t\<rparr>)"

text \<open>\<open>group by 1, 2, 3\<close>: one row for every key that occurs.\<close>

definition daily_rows :: "time \<Rightarrow> play_event list \<Rightarrow> play_event_daily list" where
  "daily_rows t evs = map (daily_row t evs) (remdups (map daily_key evs))"

text \<open>A date the code turns into text but that is none makes the job throw.\<close>

definition invalid_date :: exc where
  "invalid_date = Thrown None False (Some (Msg ''Invalid time value''))"

definition recompute :: "string list \<Rightarrow> time \<Rightarrow> database \<Rightarrow> database res" where
  "recompute days t db =
     bindE (requireE (startOfSeoulDay (hd days)) invalid_date) (\<lambda>start.
     bindE (requireE (addSeoulDays (last days) 1) invalid_date) (\<lambda>next_day.
     bindE (requireE (startOfSeoulDay next_day) invalid_date) (\<lambda>stop.
       Inr (db\<lparr>t_playEventDaily := delete_where (\<lambda>r. pd_day r \<in> set days) (t_playEventDaily db)
          @ daily_rows t (select (\<lambda>e. start \<le> pe_startedAt e \<and> pe_startedAt e < stop \<and> seoulDay e \<in> set days)
              (t_playEvents db))\<rparr>))))"

text \<open>At most a batch of the expired rows goes; which of them is up to the database.\<close>

definition deleteExpired_plays :: "time \<Rightarrow> database \<Rightarrow> database \<times> nat" where
  "deleteExpired_plays before db = (
     let doomed = take RETENTION_BATCH (select (\<lambda>e. pe_startedAt e < before) (t_playEvents db)) in
     (db\<lparr>t_playEvents := delete_where (\<lambda>e. event_key e \<in> event_key ` set doomed) (t_playEvents db)\<rparr>, length doomed))"

definition watermark :: "database \<Rightarrow> time option" where
  "watermark db = map_option jw_value (first_row (\<lambda>w. jw_name w = PLAY_EVENT_WATERMARK) (t_jobWatermarks db))"

definition since_of :: "database \<Rightarrow> time" where
  "since_of db = (case watermark db of Some v \<Rightarrow> v - WATERMARK_OVERLAP_MS | None \<Rightarrow> 0)"

definition set_watermark :: "time \<Rightarrow> database \<Rightarrow> database" where
  "set_watermark t db = db\<lparr>t_jobWatermarks := upsert jw_name
     \<lparr>jw_name = PLAY_EVENT_WATERMARK, jw_value = t, jw_updatedAt = t\<rparr>
     (\<lambda>w. w\<lparr>jw_value := t, jw_updatedAt := t\<rparr>) (t_jobWatermarks db)\<rparr>"

definition touched_days :: "string \<Rightarrow> database \<Rightarrow> string list" where
  "touched_days retentionStartDay db = sort (filter (\<lambda>day. retentionStartDay \<le> day)
     (remdups (map seoulDay (select (\<lambda>e. since_of db < pe_receivedAt e) (t_playEvents db)))))"

record play_event_aggregation_result =
  par_daysRecomputed :: nat
  par_rawDeleted :: nat

text \<open>\<open>run\<close>; \<open>None\<close> when the job lock is not free.\<close>

definition aggregate_plays :: "bool \<Rightarrow> time \<Rightarrow> database \<Rightarrow> (database \<times> play_event_aggregation_result option) res" where
  "aggregate_plays locked t db = (
     if \<not> locked then Inr (db, None)
     else bindE (requireE (addSeoulDays (seoulDate t) (- PLAY_EVENT_RETENTION_DAYS)) invalid_date) (\<lambda>retentionStartDay.
       let days = touched_days retentionStartDay db in
       bindE (if days = [] then Inr db else recompute days t db) (\<lambda>db.
       bindE (requireE (startOfSeoulDay retentionStartDay) invalid_date) (\<lambda>before.
         case deleteExpired_plays before db of (db, rawDeleted) \<Rightarrow>
           Inr (set_watermark t db, Some \<lparr>par_daysRecomputed = length days, par_rawDeleted = rawDeleted\<rparr>)))))"

section \<open>Statistics\<close>

definition DEFAULT_RANGE_DAYS :: int where "DEFAULT_RANGE_DAYS = 30"
definition MAX_RANGE_DAYS :: int where "MAX_RANGE_DAYS = 366"

definition isRealDate :: "string \<Rightarrow> bool" where
  "isRealDate day = (case parse_day day of None \<Rightarrow> False | Some d \<Rightarrow> iso_day d = day)"

definition no_such_date :: msg where "no_such_date = Msg ''There is no such date.''"

definition resolveRange :: "string option \<Rightarrow> string option \<Rightarrow> time \<Rightarrow> (string \<times> string) res" where
  "resolveRange fromInput toInput t = (
     let errors = concat (map (\<lambda>(field, v). case v of
           Some day \<Rightarrow> if isRealDate day then [] else [(field, no_such_date)]
         | None \<Rightarrow> []) [(''from'', fromInput), (''to'', toInput)]) in
     if errors \<noteq> [] then Inl (validationFailed errors)
     else let to = (case toInput of Some day \<Rightarrow> day | None \<Rightarrow> seoulDate t) in
       bindE (case fromInput of Some day \<Rightarrow> Inr day
              | None \<Rightarrow> requireE (addSeoulDays to (- (DEFAULT_RANGE_DAYS - 1))) invalid_date) (\<lambda>from_day.
         if to < from_day then Inl (validationFailed [(''from'', Msg ''The start date is after the end date.'')])
         else bindE (requireE (addSeoulDays from_day (MAX_RANGE_DAYS - 1)) invalid_date) (\<lambda>limit.
           if limit < to
           then Inl (validationFailed [(''from'', MsgOf ''At most this many days'' (JNum MAX_RANGE_DAYS))])
           else Inr (from_day, to))))"

datatype stats_scope = ScopeMe | ScopeAll

record stats_item =
  si_submissionId :: uuid
  si_title :: utext
  si_impressions :: int
  si_completedImpressions :: int
  si_wallImpressions :: int
  si_deviceCount :: nat

record stats_answer =
  sa_from :: string
  sa_to :: string
  sa_aggregatedAt :: "time option"
  sa_items :: "stats_item list"

definition stats_rows :: "string \<Rightarrow> string \<Rightarrow> uuid \<Rightarrow> database \<Rightarrow> play_event_daily list" where
  "stats_rows from_day to i db = select (\<lambda>r. from_day \<le> pd_day r \<and> pd_day r \<le> to \<and> pd_submissionId r = i) (t_playEventDaily db)"

definition stats_item_of :: "string \<Rightarrow> string \<Rightarrow> database \<Rightarrow> submission \<Rightarrow> stats_item" where
  "stats_item_of from_day to db s = (let rows = stats_rows from_day to (s_id s) db in
     \<lparr>si_submissionId = s_id s, si_title = s_title s, si_impressions = sum_list (map pd_impressions rows),
      si_completedImpressions = sum_list (map pd_completedImpressions rows),
      si_wallImpressions = sum_list (map pd_wallImpressions rows), si_deviceCount = card (pd_deviceId ` set rows)\<rparr>)"

text \<open>The join with the submissions, grouped by submission: a submission without rows has no group.\<close>

definition impressions :: "auth_user \<Rightarrow> string option \<Rightarrow> string option \<Rightarrow> stats_scope \<Rightarrow> time \<Rightarrow> database \<Rightarrow> stats_answer res" where
  "impressions user fromInput toInput scope t db = (
     if scope = ScopeAll \<and> \<not> isReviewer (au_roles user)
     then Inl (app_error 403 FORBIDDEN ''Only reviewers can view all impression stats'')
     else bindE (resolveRange fromInput toInput t) (\<lambda>(from_day, to).
       let shown = select (\<lambda>s. stats_rows from_day to (s_id s) db \<noteq> [] \<and> (scope = ScopeMe \<longrightarrow> s_requesterId s = au_id user))
             (t_submissions db) in
       Inr \<lparr>sa_from = from_day, sa_to = to, sa_aggregatedAt = watermark db,
            sa_items = order_asc (\<lambda>x. (- si_impressions x, si_submissionId x)) (map (stats_item_of from_day to db) shown)\<rparr>))"

end
