(* ===== verification/Day_Order.thy ===== *)
theory Day_Order
  imports Seoul_Time Prelude
begin

text \<open>
  Dates compared as text: for years of four digits the order of the strings is the order of the days. The
  aggregation of plays and the statistics compare days this way, in JavaScript and in SQL.
\<close>

lemma dig_less_iff: "0 \<le> a \<Longrightarrow> a \<le> 9 \<Longrightarrow> 0 \<le> b \<Longrightarrow> b \<le> 9 \<Longrightarrow> dig a < dig b \<longleftrightarrow> a < b"
  by (drule (1) digit_cases, drule (1) digit_cases) (elim disjE; simp add: dig_def less_char_def)

lemma dig_eq_iff: "0 \<le> a \<Longrightarrow> a \<le> 9 \<Longrightarrow> 0 \<le> b \<Longrightarrow> b \<le> 9 \<Longrightarrow> dig a = dig b \<longleftrightarrow> a = b"
  by (metis undig_dig option.inject)

lemma quotient_less:
  fixes a b k :: int
  assumes "0 < k"
  shows "a div k < b div k \<or> a div k = b div k \<and> (a mod k < b mod k \<or> a mod k = b mod k \<and> P) \<longleftrightarrow> a < b \<or> a = b \<and> P"
proof -
  have step: "x < y" if "x div k < y div k" for x y :: int
  proof -
    from that have "k * (x div k + 1) \<le> k * (y div k)" using assms by (intro mult_left_mono) auto
    with int_div_bounds[OF assms, of x] int_div_bounds[OF assms, of y] show ?thesis by (simp add: algebra_simps)
  qed
  consider "a div k < b div k" | "b div k < a div k" | "a div k = b div k" by linarith
  then show ?thesis
  proof cases
    case 3
    then have "k * (a div k) = k * (b div k)" by simp
    with mult_div_mod_eq[of k a] mult_div_mod_eq[of k b] have "a - b = a mod k - b mod k" by linarith
    with 3 show ?thesis by auto
  qed (use step[of a b] step[of b a] in \<open>simp_all\<close>)
qed

lemma quotient_bounds:
  fixes a :: int
  assumes "0 \<le> a" and "a < k * q" and "0 < k"
  shows "0 \<le> a div k" "a div k < q" "0 \<le> a mod k" "a mod k < k"
proof -
  show "a div k < q"
  proof (rule ccontr)
    assume "\<not> a div k < q"
    then have "k * q \<le> k * (a div k)" using assms(3) by (intro mult_left_mono) auto
    with int_div_bounds(1)[OF assms(3), of a] assms(2) show False by simp
  qed
qed (use assms in \<open>simp_all add: pos_imp_zdiv_nonneg_iff\<close>)

lemma pad2_less:
  assumes "0 \<le> a" "a \<le> 99" "0 \<le> b" "b \<le> 99"
  shows "pad2 a @ u < pad2 b @ v \<longleftrightarrow> a < b \<or> a = b \<and> u < v"
proof -
  have a: "0 \<le> a div 10" "a div 10 < 10" "0 \<le> a mod 10" "a mod 10 < 10"
    using quotient_bounds[of a 10 10] assms by simp_all
  have b: "0 \<le> b div 10" "b div 10 < 10" "0 \<le> b mod 10" "b mod 10 < 10"
    using quotient_bounds[of b 10 10] assms by simp_all
  show ?thesis
    using a b quotient_less[of 10 a b "u < v"] by (simp add: pad2_def dig_less_iff dig_eq_iff)
qed

lemma pad4_split: "pad4 a @ u = pad2 (a div 100) @ pad2 (a mod 100) @ u"
proof -
  have "a div 100 div 10 = a div 1000" by (simp add: zdiv_zmult2_eq[symmetric])
  moreover have "a mod 100 mod 10 = a mod 10" by (simp add: mod_mod_cancel)
  moreover have "a mod 100 div 10 = a div 10 mod 10"
    using zmod_zmult2_eq[of 10 a 10] pos_mod_bound[of 10 a] by simp
  ultimately show ?thesis by (simp add: pad4_def pad2_def)
qed

lemma pad4_less:
  assumes "0 \<le> a" "a \<le> 9999" "0 \<le> b" "b \<le> 9999"
  shows "pad4 a @ u < pad4 b @ v \<longleftrightarrow> a < b \<or> a = b \<and> u < v"
proof -
  have a: "0 \<le> a div 100" "a div 100 < 100" "0 \<le> a mod 100" "a mod 100 < 100"
    using quotient_bounds[of a 100 100] assms by simp_all
  have b: "0 \<le> b div 100" "b div 100 < 100" "0 \<le> b mod 100" "b mod 100 < 100"
    using quotient_bounds[of b 100 100] assms by simp_all
  show ?thesis using a b quotient_less[of 100 a b "u < v"] by (simp add: pad4_split pad2_less)
qed

definition plain_day :: "int \<Rightarrow> bool" where
  "plain_day d \<longleftrightarrow> 0 \<le> fst (civil d) \<and> fst (civil d) \<le> 9999"

lemma civil_less:
  assumes "d < e" "civil d = (y, m, dt)" "civil e = (y', m', dt')"
  shows "y < y' \<or> y = y' \<and> (m < m' \<or> m = m' \<and> dt < dt')"
proof -
  note b = civil_bounds[OF assms(2)] and b' = civil_bounds[OF assms(3)]
  have yd: "year_of_day d = y" "year_of_day e = y'" using assms(2,3) by (auto simp: civil_def Let_def)
  consider "y' < y" | "y < y'" | "y = y'" by linarith
  then show ?thesis
  proof cases
    case 1
    then have "day_from_year (y' + 1) \<le> day_from_year y" by (rule day_from_year_less)
    with year_of_day_bounds[of d] year_of_day_bounds[of e] assms(1) yd show ?thesis by simp
  next
    case 3
    have mono: "month_start (leap_day y) (i + 1) \<le> month_start (leap_day y) j" if "i < j" "0 \<le> i" "j \<le> 11" for i j :: int
    proof -
      have i: "0 \<le> i" "i \<le> 11" and j: "0 \<le> j" "j \<le> 11" using that by auto
      from month_cases[OF i] month_cases[OF j] leap_day_cases[of y] that show ?thesis
        by (elim disjE; simp add: month_start_def)
    qed
    have "\<not> m' < m"
      using mono[of m' m] b b' assms(1) 3 by force
    with b b' assms(1) 3 show ?thesis by force
  qed simp
qed

lemma iso_day_mono: "d < e \<Longrightarrow> plain_day d \<Longrightarrow> plain_day e \<Longrightarrow> iso_day d < iso_day e"
proof -
  assume a: "d < e" and p: "plain_day d" "plain_day e"
  obtain y m dt y' m' dt' where c: "civil d = (y, m, dt)" "civil e = (y', m', dt')" by (metis prod_cases3)
  note b = civil_bounds[OF c(1)] and b' = civil_bounds[OF c(2)]
  note l = month_length_bounds[OF b(1,2), unfolded month_length_def, of y] month_length_bounds[OF b'(1,2), unfolded month_length_def, of y']
  have r: "0 \<le> m + 1" "m + 1 \<le> 99" "0 \<le> m' + 1" "m' + 1 \<le> 99" "0 \<le> dt" "dt \<le> 99" "0 \<le> dt'" "dt' \<le> 99"
    "0 \<le> y" "y \<le> 9999" "0 \<le> y'" "y' \<le> 9999"
    using b b' l p c by (auto simp: plain_day_def)
  have "pad2 dt < pad2 dt' \<longleftrightarrow> dt < dt'" using pad2_less[OF r(5-8), of "[]" "[]"] by simp
  with civil_less[OF a c] r show ?thesis
    by (auto simp: iso_day_def c pad4_less pad2_less)
qed

lemma iso_day_less_iff: "plain_day d \<Longrightarrow> plain_day e \<Longrightarrow> iso_day d < iso_day e \<longleftrightarrow> d < e"
  by (metis iso_day_mono less_asym less_linear)

lemma iso_day_le_iff: "plain_day d \<Longrightarrow> plain_day e \<Longrightarrow> iso_day d \<le> iso_day e \<longleftrightarrow> d \<le> e"
  by (metis iso_day_less_iff not_less)

lemma iso_day_eq_iff: "plain_day d \<Longrightarrow> plain_day e \<Longrightarrow> iso_day d = iso_day e \<longleftrightarrow> d = e"
  by (metis iso_day_le_iff order_antisym order_refl)

text \<open>The same for instants: their Seoul day, and where it starts.\<close>

definition seoul_day :: "time \<Rightarrow> int" where
  "seoul_day t = day_of (t + SEOUL_OFFSET_MS)"

definition plain_time :: "time \<Rightarrow> bool" where
  "plain_time t \<longleftrightarrow> plain_day (seoul_day t) \<and> plain_day (seoul_day t + 1)"

definition day_start :: "int \<Rightarrow> time" where
  "day_start d = d * msPerDay - SEOUL_OFFSET_MS"

lemma seoulDate_day: "seoulDate t = iso_day (seoul_day t)"
  by (simp add: seoulDate_def seoul_day_def)

lemma startOfSeoulDay_day: "plain_day d \<Longrightarrow> startOfSeoulDay (iso_day d) = Some (day_start d)"
  by (simp add: startOfSeoulDay_def parse_day_iso_day plain_day_def day_start_def)

lemma seoul_day_start: "seoul_day (day_start d + k * 86400000) = d + k"
proof -
  have "day_start d + k * 86400000 + SEOUL_OFFSET_MS = (d + k) * msPerDay"
    by (simp add: day_start_def msPerDay_def algebra_simps)
  then show ?thesis by (simp add: seoul_day_def day_of_start)
qed

lemma addSeoulDays_day: "plain_day d \<Longrightarrow> addSeoulDays (iso_day d) k = Some (iso_day (d + k))"
  by (simp add: addSeoulDays_def startOfSeoulDay_day seoulDate_day seoul_day_start)

lemma day_start_le_iff: "day_start d \<le> t \<longleftrightarrow> d \<le> seoul_day t"
  by (simp add: day_start_def seoul_day_def day_of_def msPerDay_def SEOUL_OFFSET_MS_def) linarith

lemma less_day_start_iff: "t < day_start d \<longleftrightarrow> seoul_day t < d"
  using day_start_le_iff[of d t] by linarith

lemma plain_between: "plain_day d \<Longrightarrow> plain_day e \<Longrightarrow> d \<le> i \<Longrightarrow> i \<le> e \<Longrightarrow> plain_day i"
proof -
  assume p: "plain_day d" "plain_day e" and i: "d \<le> i" "i \<le> e"
  have mono: "fst (civil a) \<le> fst (civil b)" if "a \<le> b" for a b
  proof (cases "a = b")
    case False
    with that have "a < b" by simp
    obtain y m dt y' m' dt' where "civil a = (y, m, dt)" "civil b = (y', m', dt')" by (metis prod_cases3)
    with civil_less[OF \<open>a < b\<close> this] show ?thesis by auto
  qed simp
  from mono[OF i(1)] mono[OF i(2)] p show ?thesis by (auto simp: plain_day_def)
qed

end
