(* ===== verification/Telemetry_Properties.thy ===== *)
theory Telemetry_Properties
  imports Telemetry Day_Order Playlist_Properties
begin

text \<open>
  From the reports of the screens to the statistics: the daily counts are those of the stored events for every
  day the raw events are kept, however late reports come in, and the statistics add them up.
\<close>

section \<open>Reports are stored once\<close>

lemma fold_insert_keys:
  "key ` set (fold (insert_or_ignore key) rs tab) = key ` set tab \<union> key ` set rs"
  by (induction rs arbitrary: tab) (auto simp: insert_or_ignore_def)

lemma fold_insert_known: "key ` set rs \<subseteq> key ` set tab \<Longrightarrow> fold (insert_or_ignore key) rs tab = tab"
  by (induction rs arbitrary: tab) (auto simp: insert_or_ignore_def)

lemma fold_insert_extends: "\<exists>new. fold (insert_or_ignore key) rs tab = tab @ new \<and> set new \<subseteq> set rs"
proof (induction rs arbitrary: tab)
  case (Cons r rs)
  obtain new where n: "fold (insert_or_ignore key) rs (insert_or_ignore key r tab) = insert_or_ignore key r tab @ new" "set new \<subseteq> set rs"
    using Cons.IH by blast
  show ?case
  proof (cases "key r \<in> key ` set tab")
    case True
    then have "insert_or_ignore key r tab = tab" by (simp add: insert_or_ignore_def)
    with n show ?thesis by auto
  next
    case False
    then have "insert_or_ignore key r tab = tab @ [r]" by (simp add: insert_or_ignore_def insert_row_def)
    with n show ?thesis by (auto intro!: exI[of _ "r # new"])
  qed
qed simp

lemma fold_insert_distinct:
  "distinct (map key tab) \<Longrightarrow> distinct (map key (fold (insert_or_ignore key) rs tab))"
  by (induction rs arbitrary: tab) (auto simp: insert_or_ignore_def insert_row_def)

text \<open>
  Sending a report again changes nothing: the events are stored once, and the second answer counts all of
  them as duplicates.
\<close>

theorem repeated_report_ignored:
  "recordPlayEvents dev evs t' (fst (recordPlayEvents dev evs t db))
     = (fst (recordPlayEvents dev evs t db), \<lparr>pr_accepted = 0, pr_duplicates = int (length evs)\<rparr>)"
proof (cases "evs = []")
  case False
  let ?tab = "fold (insert_or_ignore event_key) (map (play_event_row dev t) evs) (t_playEvents db)"
  have k: "event_key (play_event_row dev u e) = (dev, ev_eventId e)" for u e
    by (simp add: event_key_def play_event_row_def)
  have "fold (insert_or_ignore event_key) (map (play_event_row dev t') evs) ?tab = ?tab"
    by (rule fold_insert_known) (auto simp: fold_insert_keys image_image k)
  then show ?thesis using False by (simp add: recordPlayEvents_def Let_def)
qed (simp add: recordPlayEvents_def)

section \<open>One run of the aggregation\<close>

definition day_events :: "string \<Rightarrow> database \<Rightarrow> play_event list" where
  "day_events d db = filter (\<lambda>e. seoulDay e = d) (t_playEvents db)"

definition day_rows :: "string \<Rightarrow> database \<Rightarrow> play_event_daily list" where
  "day_rows d db = filter (\<lambda>r. pd_day r = d) (t_playEventDaily db)"

lemma daily_row_day [simp]: "pd_day (daily_row t evs k) = fst k"
  by (simp add: daily_row_def Let_def)

lemma daily_rows_filter:
  "filter (\<lambda>r. pd_day r = d) (daily_rows t evs) = daily_rows t (filter (\<lambda>e. seoulDay e = d) evs)"
proof -
  have row: "daily_row t evs k = daily_row t (filter (\<lambda>e. seoulDay e = d) evs) k" if "fst k = d" for k
  proof -
    have "filter (\<lambda>e. daily_key e = k) evs = filter (\<lambda>e. daily_key e = k) (filter (\<lambda>e. seoulDay e = d) evs)"
      using that by (auto simp: daily_key_def intro: filter_cong)
    then show ?thesis by (simp add: daily_row_def)
  qed
  have keys: "filter (\<lambda>k. fst k = d) (remdups (map daily_key evs)) = remdups (map daily_key (filter (\<lambda>e. seoulDay e = d) evs))"
    by (simp add: remdups_filter[symmetric] filter_map o_def daily_key_def)
  show ?thesis
    unfolding daily_rows_def filter_map o_def daily_row_day keys[symmetric]
    by (rule map_cong) (use row in auto)
qed

definition plain_events :: "database \<Rightarrow> bool" where
  "plain_events db \<longleftrightarrow> (\<forall>e \<in> set (t_playEvents db). plain_time (pe_startedAt e))"

lemma seoulDay_day: "seoulDay e = iso_day (seoul_day (pe_startedAt e))"
  by (simp add: seoulDay_def seoulDate_day)

text \<open>The range that lets the database use an index never cuts off an event of the days in question.\<close>

lemma recompute_result:
  assumes "recompute days t db = Inr db'" and p: "plain_events db" and "sorted days" and "days \<noteq> []"
    and "\<And>d. d \<in> set days \<Longrightarrow> \<exists>i. plain_day i \<and> plain_day (i + 1) \<and> d = iso_day i"
  shows "t_playEvents db' = t_playEvents db" and "t_jobWatermarks db' = t_jobWatermarks db"
    and "day_rows d db' = (if d \<in> set days then daily_rows t (day_events d db) else day_rows d db)"
proof -
  obtain i j where i: "plain_day i" "hd days = iso_day i" and j: "plain_day j" "plain_day (j + 1)" "last days = iso_day j"
    using assms(5)[OF hd_in_set[OF assms(4)]] assms(5)[OF last_in_set[OF assms(4)]] by blast
  obtain next_day stop where n: "addSeoulDays (last days) 1 = Some next_day" "startOfSeoulDay next_day = Some stop"
    and db': "db' = db\<lparr>t_playEventDaily := delete_where (\<lambda>r. pd_day r \<in> set days) (t_playEventDaily db)
          @ daily_rows t (select (\<lambda>e. day_start i \<le> pe_startedAt e \<and> pe_startedAt e < stop \<and> seoulDay e \<in> set days)
              (t_playEvents db))\<rparr>"
    using assms(1) startOfSeoulDay_day[OF i(1)] i(2)
    by (auto simp: recompute_def requireE_def split: option.splits)
  have nd: "next_day = iso_day (j + 1)" using n(1) addSeoulDays_day[OF j(1)] j(3) by simp
  with n(2) have stop: "stop = day_start (j + 1)" by (simp add: startOfSeoulDay_day j(2))
  have range: "day_start i \<le> pe_startedAt e \<and> pe_startedAt e < stop"
    if e: "e \<in> set (t_playEvents db)" "seoulDay e \<in> set days" for e
  proof -
    let ?d = "seoul_day (pe_startedAt e)"
    have pd: "plain_day ?d" using p e(1) by (simp add: plain_events_def plain_time_def)
    have "hd days \<le> seoulDay e" using assms(3) e(2) by (cases days) auto
    then have "i \<le> ?d" using iso_day_le_iff[OF i(1) pd] i(2) by (simp add: seoulDay_day)
    moreover have "seoulDay e \<le> last days"
      using assms(3) e(2) by (cases days rule: rev_cases) (auto simp: sorted_append)
    then have "?d \<le> j" using iso_day_le_iff[OF pd j(1)] j(3) by (simp add: seoulDay_day)
    ultimately show ?thesis by (simp add: day_start_le_iff less_day_start_iff stop)
  qed
  show "t_playEvents db' = t_playEvents db" "t_jobWatermarks db' = t_jobWatermarks db" by (simp_all add: db')
  show "day_rows d db' = (if d \<in> set days then daily_rows t (day_events d db) else day_rows d db)"
  proof -
    have "select (\<lambda>e. day_start i \<le> pe_startedAt e \<and> pe_startedAt e < stop \<and> seoulDay e \<in> set days) (t_playEvents db)
        = filter (\<lambda>e. seoulDay e \<in> set days) (t_playEvents db)"
      unfolding select_def by (rule filter_cong) (use range in auto)
    moreover have "filter (\<lambda>e. seoulDay e = d) (filter (\<lambda>e. seoulDay e \<in> set days) (t_playEvents db))
        = (if d \<in> set days then day_events d db else [])"
      by (auto simp: day_events_def filter_empty_conv intro: filter_cong)
    ultimately show ?thesis
      by (auto simp: day_rows_def db' daily_rows_filter delete_where_def filter_empty_conv)
        (auto simp: daily_rows_def intro: filter_cong)
  qed
qed

lemma deleteExpired_plays_result:
  assumes "deleteExpired_plays (day_start i) db = (db', n)" and "plain_day i" and "plain_events db"
    and d: "distinct (map event_key (t_playEvents db))"
  shows "set (t_playEvents db') \<subseteq> set (t_playEvents db)" and "distinct (map event_key (t_playEvents db'))"
    and "t_playEventDaily db' = t_playEventDaily db" and "t_jobWatermarks db' = t_jobWatermarks db"
    and "iso_day i \<le> day \<Longrightarrow> day_events day db' = day_events day db"
proof -
  let ?doomed = "take RETENTION_BATCH (select (\<lambda>e. pe_startedAt e < day_start i) (t_playEvents db))"
  have db': "db' = db\<lparr>t_playEvents := delete_where (\<lambda>e. event_key e \<in> event_key ` set ?doomed) (t_playEvents db)\<rparr>"
    using assms(1) by (simp add: deleteExpired_plays_def Let_def)
  show "set (t_playEvents db') \<subseteq> set (t_playEvents db)" "t_playEventDaily db' = t_playEventDaily db"
    "t_jobWatermarks db' = t_jobWatermarks db"
    by (auto simp: db')
  show "distinct (map event_key (t_playEvents db'))" using d by (simp add: db' distinct_key_delete_where)
  assume day: "iso_day i \<le> day"
  have "event_key e \<notin> event_key ` set ?doomed" if e: "e \<in> set (t_playEvents db)" "seoulDay e = day" for e
  proof
    assume "event_key e \<in> event_key ` set ?doomed"
    then obtain x where x: "x \<in> set ?doomed" "event_key x = event_key e" by auto
    then have "x \<in> set (t_playEvents db)" "pe_startedAt x < day_start i" by (auto dest: in_set_takeD)
    moreover from this(1) x(2) e(1) d have "x = e" by (auto simp: distinct_map dest: inj_onD)
    ultimately have l: "seoul_day (pe_startedAt e) < i" by (simp add: less_day_start_iff)
    have "plain_day (seoul_day (pe_startedAt e))" using assms(3) e(1) by (simp add: plain_events_def plain_time_def)
    from iso_day_mono[OF l this assms(2)] day e(2) show False by (simp add: seoulDay_day)
  qed
  then show "day_events day db' = day_events day db"
    by (auto simp: day_events_def db' delete_where_def intro: filter_cong)
qed

lemma watermark_set [simp]: "watermark (set_watermark t db) = Some t"
proof -
  let ?r = "\<lparr>jw_name = PLAY_EVENT_WATERMARK, jw_value = t, jw_updatedAt = t\<rparr>"
  let ?f = "\<lambda>w. w\<lparr>jw_value := t, jw_updatedAt := t\<rparr>"
  let ?tab = "upsert jw_name ?r ?f (t_jobWatermarks db)"
  have "\<exists>q \<in> set ?tab. jw_name q = jw_name ?r" by (rule upsert_key_exists) simp
  then obtain q where q: "first_row (\<lambda>w. jw_name w = PLAY_EVENT_WATERMARK) ?tab = Some q"
    by (cases "first_row (\<lambda>w. jw_name w = PLAY_EVENT_WATERMARK) ?tab") (auto simp: first_row_None)
  have "q = ?r \<or> (\<exists>p \<in> set (t_jobWatermarks db). jw_name p = jw_name ?r \<and> q = ?f p)"
    by (rule upsert_row_cases) (use first_row_Some[OF q] in simp_all)
  then have "jw_value q = t" by auto
  with q show ?thesis by (simp add: watermark_def set_watermark_def)
qed

definition touched :: "string \<Rightarrow> database \<Rightarrow> bool" where
  "touched d db \<longleftrightarrow> (\<exists>e \<in> set (day_events d db). since_of db < pe_receivedAt e)"

lemma run_result:
  assumes run: "aggregate_plays True t db = Inr (db', Some r)" and p: "plain_events db"
    and d: "distinct (map event_key (t_playEvents db))" and t: "plain_time t" "plain_day (seoul_day t - PLAY_EVENT_RETENTION_DAYS)"
  shows "set (t_playEvents db') \<subseteq> set (t_playEvents db)" and "distinct (map event_key (t_playEvents db'))"
    and "watermark db' = Some t"
    and "iso_day (seoul_day t - PLAY_EVENT_RETENTION_DAYS) \<le> day \<Longrightarrow> day_events day db' = day_events day db"
    and "iso_day (seoul_day t - PLAY_EVENT_RETENTION_DAYS) \<le> day \<Longrightarrow>
       day_rows day db' = (if touched day db then daily_rows t (day_events day db) else day_rows day db)"
proof -
  let ?i = "seoul_day t - PLAY_EVENT_RETENTION_DAYS"
  have R: "addSeoulDays (seoulDate t) (- PLAY_EVENT_RETENTION_DAYS) = Some (iso_day ?i)"
    using addSeoulDays_day[of "seoul_day t" "- PLAY_EVENT_RETENTION_DAYS"] t(1) by (simp add: seoulDate_day plain_time_def)
  have S: "startOfSeoulDay (iso_day ?i) = Some (day_start ?i)" by (rule startOfSeoulDay_day[OF t(2)])
  define days where "days = touched_days (iso_day ?i) db"
  obtain db1 db2 n where c: "(if touched_days (iso_day ?i) db = [] then Inr db
        else recompute (touched_days (iso_day ?i) db) t db) = Inr db1"
    and e: "deleteExpired_plays (day_start ?i) db1 = (db2, n)" and db': "db' = set_watermark t db2"
    using run unfolding aggregate_plays_def
    by (auto simp: R S Let_def requireE_def bindE_def split: sum.splits prod.splits)
  note c = c[folded days_def]
  have days: "day \<in> set days \<longleftrightarrow> iso_day ?i \<le> day \<and> touched day db" for day
    by (auto simp: days_def touched_days_def touched_def day_events_def)
  have rows1: "t_playEvents db1 = t_playEvents db"
    "day_rows day db1 = (if day \<in> set days then daily_rows t (day_events day db) else day_rows day db)" for day
  proof -
    have "t_playEvents db1 = t_playEvents db \<and>
        day_rows day db1 = (if day \<in> set days then daily_rows t (day_events day db) else day_rows day db)" for day
    proof (cases "days = []")
      case False
      have s: "sorted days" by (simp add: days_def touched_days_def)
      have pl: "\<exists>i. plain_day i \<and> plain_day (i + 1) \<and> d = iso_day i" if "d \<in> set days" for d
        using that p by (auto simp: days touched_def day_events_def plain_events_def plain_time_def seoulDay_day)
      show ?thesis using recompute_result[OF _ p s False pl] c False by auto
    qed (use c in simp)
    then show "t_playEvents db1 = t_playEvents db"
      "day_rows day db1 = (if day \<in> set days then daily_rows t (day_events day db) else day_rows day db)" by auto
  qed
  have p1: "plain_events db1" "distinct (map event_key (t_playEvents db1))" using p d by (simp_all add: plain_events_def rows1)
  note del = deleteExpired_plays_result[OF e t(2) p1]
  have ev: "day_events day db' = day_events day db2" "day_rows day db' = day_rows day db2" for day
    by (simp_all add: db' set_watermark_def day_events_def day_rows_def)
  show "set (t_playEvents db') \<subseteq> set (t_playEvents db)" "distinct (map event_key (t_playEvents db'))"
    using del(1,2) by (simp_all add: rows1 db' set_watermark_def)
  show "watermark db' = Some t" by (simp add: db')
  show "day_events day db' = day_events day db" if "iso_day ?i \<le> day"
    using del(5)[OF that] by (simp add: ev) (simp add: day_events_def rows1)
  show "day_rows day db' = (if touched day db then daily_rows t (day_events day db) else day_rows day db)"
    if "iso_day ?i \<le> day"
    using rows1(2)[of day] that by (simp add: ev days) (simp add: day_rows_def del(3))
qed

section \<open>Reports and runs in any order\<close>

text \<open>
  A report is received within five minutes before the last run or after it (that is the overlap of the code),
  from a screen whose clock shows a year of four digits; runs follow the clock of the server.
\<close>

definition run_time :: "time \<Rightarrow> database \<Rightarrow> bool" where
  "run_time t db \<longleftrightarrow> plain_time t \<and> plain_day (seoul_day t - PLAY_EVENT_RETENTION_DAYS) \<and> (case watermark db of None \<Rightarrow> True | Some v \<Rightarrow> v \<le> t)"

inductive telemetry_step :: "database \<Rightarrow> database \<Rightarrow> bool" where
  reported: "since_of db < t \<Longrightarrow> list_all (\<lambda>e. plain_time (ev_startedAt e)) evs
    \<Longrightarrow> telemetry_step db (fst (recordPlayEvents dev evs t db))"
| aggregated: "run_time t db \<Longrightarrow> aggregate_plays locked t db = Inr (db', r) \<Longrightarrow> telemetry_step db db'"
| elsewhere: "t_playEvents db' = t_playEvents db \<Longrightarrow> t_playEventDaily db' = t_playEventDaily db
    \<Longrightarrow> t_jobWatermarks db' = t_jobWatermarks db \<Longrightarrow> telemetry_step db db'"

definition telemetry_start :: "database \<Rightarrow> bool" where
  "telemetry_start db \<longleftrightarrow> t_playEvents db = [] \<and> t_playEventDaily db = [] \<and> t_jobWatermarks db = []"

definition kept_day :: "time \<Rightarrow> string \<Rightarrow> bool" where
  "kept_day t d \<longleftrightarrow> iso_day (seoul_day t - PLAY_EVENT_RETENTION_DAYS) \<le> d"

definition day_counted :: "string \<Rightarrow> database \<Rightarrow> bool" where
  "day_counted d db \<longleftrightarrow> (\<exists>t. day_rows d db = daily_rows t (day_events d db))"

definition telemetry_ok :: "database \<Rightarrow> bool" where
  "telemetry_ok db \<longleftrightarrow> plain_events db \<and> distinct (map event_key (t_playEvents db))
     \<and> (\<forall>v. watermark db = Some v \<longrightarrow> plain_day (seoul_day v - PLAY_EVENT_RETENTION_DAYS))
     \<and> (\<forall>d. (\<forall>v. watermark db = Some v \<longrightarrow> kept_day v d) \<longrightarrow> day_counted d db \<or> touched d db)"

lemma kept_day_mono:
  assumes "v \<le> t" "plain_day (seoul_day v - PLAY_EVENT_RETENTION_DAYS)" "plain_day (seoul_day t - PLAY_EVENT_RETENTION_DAYS)" "kept_day t d"
  shows "kept_day v d"
proof -
  have "seoul_day v \<le> seoul_day t" using assms(1) by (simp add: seoul_day_def day_of_def zdiv_mono1 msPerDay_def)
  with iso_day_le_iff[OF assms(2,3)] assms(4) show ?thesis by (simp add: kept_day_def)
qed

lemma run_counts:
  assumes ok: "telemetry_ok db" and t: "run_time t db" and run: "aggregate_plays True t db = Inr (db', Some r)" and "kept_day t d"
  shows "day_counted d db'"
proof -
  have p: "plain_events db" "distinct (map event_key (t_playEvents db))" "plain_time t" "plain_day (seoul_day t - PLAY_EVENT_RETENTION_DAYS)"
    using ok t by (simp_all add: telemetry_ok_def run_time_def)
  note res = run_result[OF run p]
  have "day_counted d db \<or> touched d db"
  proof -
    have "kept_day v d" if "watermark db = Some v" for v
      by (rule kept_day_mono[OF _ _ p(4) assms(4)]) (use that t ok in \<open>auto simp: run_time_def telemetry_ok_def\<close>)
    with ok show ?thesis by (auto simp: telemetry_ok_def)
  qed
  then show ?thesis
    using res(4,5)[of d] assms(4) by (auto simp: day_counted_def kept_day_def)
qed

lemma telemetry_step_ok: "telemetry_step db db' \<Longrightarrow> telemetry_ok db \<Longrightarrow> telemetry_ok db'"
proof (induction rule: telemetry_step.induct)
  case (reported db t evs dev)
  show ?case
  proof (cases "evs = []")
    case True
    with reported(3) show ?thesis by (simp add: recordPlayEvents_def)
  next
    case False
    let ?rows = "map (play_event_row dev t) evs"
    let ?db = "fst (recordPlayEvents dev evs t db)"
    obtain new where new: "t_playEvents ?db = t_playEvents db @ new" "set new \<subseteq> set ?rows"
      using fold_insert_extends[of event_key ?rows "t_playEvents db"] False by (auto simp: recordPlayEvents_def Let_def)
    have same: "watermark ?db = watermark db" "since_of ?db = since_of db" "day_rows d ?db = day_rows d db" for d
      by (simp_all add: recordPlayEvents_def Let_def since_of_def watermark_def day_rows_def)
    have "distinct (map event_key (t_playEvents ?db))"
      using fold_insert_distinct[of event_key "t_playEvents db" ?rows] reported(3) False
      by (simp add: telemetry_ok_def recordPlayEvents_def Let_def)
    moreover have "plain_events ?db"
      using reported(2,3) new by (auto simp: telemetry_ok_def plain_events_def list_all_iff play_event_row_def)
    moreover have "day_counted d ?db \<or> touched d ?db" if c: "day_counted d db \<or> touched d db" for d
    proof (cases "filter (\<lambda>e. seoulDay e = d) new = []")
      case True
      then have "day_events d ?db = day_events d db" by (simp add: day_events_def new(1))
      with c show ?thesis by (simp add: day_counted_def touched_def same)
    next
      case False
      then obtain e where "e \<in> set new" "seoulDay e = d" by (auto simp: filter_empty_conv)
      with new reported(1) have "e \<in> set (day_events d ?db)" "since_of ?db < pe_receivedAt e"
        by (auto simp: day_events_def same play_event_row_def)
      then show ?thesis by (auto simp: touched_def)
    qed
    ultimately show ?thesis using reported(3) by (auto simp: telemetry_ok_def same)
  qed
next
  case (aggregated t db locked db' r)
  show ?case
  proof (cases locked)
    case False
    with aggregated show ?thesis by (simp add: aggregate_plays_def)
  next
    case True
    with aggregated(2) obtain r' where r: "aggregate_plays True t db = Inr (db', Some r')"
      by (cases r) (auto simp: aggregate_plays_def Let_def bindE_def split: sum.splits prod.splits)
    have p: "plain_events db" "distinct (map event_key (t_playEvents db))" "plain_time t" "plain_day (seoul_day t - PLAY_EVENT_RETENTION_DAYS)"
      using aggregated by (simp_all add: telemetry_ok_def run_time_def)
    note res = run_result[OF r p]
    have "plain_events db'" using res(1) p(1) by (auto simp: plain_events_def)
    with res(2,3) p(4) run_counts[OF aggregated(3,1) r] show ?thesis by (auto simp: telemetry_ok_def)
  qed
next
  case (elsewhere db' db)
  then show ?case
    by (simp add: telemetry_ok_def plain_events_def watermark_def day_counted_def day_rows_def day_events_def touched_def since_of_def)
qed

lemma telemetry_reachable_ok: "telemetry_step\<^sup>*\<^sup>* db0 db \<Longrightarrow> telemetry_start db0 \<Longrightarrow> telemetry_ok db"
proof (induction rule: rtranclp_induct)
  case base
  then show ?case
    by (auto simp: telemetry_start_def telemetry_ok_def plain_events_def watermark_def day_counted_def day_rows_def
        day_events_def daily_rows_def)
qed (auto intro: telemetry_step_ok)

section \<open>Counts\<close>

lemma sum_by_key:
  fixes f :: "'x \<Rightarrow> int"
  assumes "finite K"
  shows "sum_list (map f (filter (\<lambda>x. key x \<in> K \<and> P x) xs)) = (\<Sum>k\<in>K. sum_list (map f (filter (\<lambda>x. key x = k \<and> P x) xs)))"
proof (induction xs)
  case (Cons x xs)
  show ?case
  proof (cases "key x \<in> K \<and> P x")
    case True
    have "(\<Sum>k\<in>K. sum_list (map f (filter (\<lambda>x. key x = k \<and> P x) (x # xs))))
        = (\<Sum>k\<in>K. (if k = key x then f x else 0) + sum_list (map f (filter (\<lambda>x. key x = k \<and> P x) xs)))"
      by (rule sum.cong) (use True in auto)
    with True Cons.IH assms show ?thesis by (simp add: sum.distrib)
  next
    case False
    have "(\<Sum>k\<in>K. sum_list (map f (filter (\<lambda>x. key x = k \<and> P x) (x # xs))))
        = (\<Sum>k\<in>K. sum_list (map f (filter (\<lambda>x. key x = k \<and> P x) xs)))"
      by (rule sum.cong) (use False in auto)
    then show ?thesis by (simp only:) (use False Cons.IH in auto)
  qed
qed simp

lemma count_by_key:
  assumes "finite K"
  shows "int (length (filter (\<lambda>x. key x \<in> K \<and> P x) xs)) = (\<Sum>k\<in>K. int (length (filter (\<lambda>x. key x = k \<and> P x) xs)))"
  using sum_by_key[OF assms, of "\<lambda>_. 1" key P xs] by (simp add: sum_list_triv)

text \<open>The rows of one day add up to the events of the day.\<close>

lemma daily_rows_sum:
  "sum_list (map pd_impressions (filter (\<lambda>r. pd_submissionId r = i) (daily_rows t evs)))
     = int (length (filter (\<lambda>e. pe_submissionId e = i \<and> notWall e) evs))"
proof -
  let ?K = "{k \<in> set (map daily_key evs). fst (snd k) = i}"
  have "filter (\<lambda>r. pd_submissionId r = i) (daily_rows t evs) = map (daily_row t evs) (filter (\<lambda>k. fst (snd k) = i) (remdups (map daily_key evs)))"
    by (simp add: daily_rows_def filter_map o_def daily_row_def Let_def)
  then have "sum_list (map pd_impressions (filter (\<lambda>r. pd_submissionId r = i) (daily_rows t evs)))
      = sum_list (map (\<lambda>k. int (length (filter (\<lambda>e. daily_key e = k \<and> notWall e) evs))) (filter (\<lambda>k. fst (snd k) = i) (remdups (map daily_key evs))))"
    by (simp add: o_def daily_row_def Let_def conj_commute)
  also have "\<dots> = (\<Sum>k\<in>?K. int (length (filter (\<lambda>e. daily_key e = k \<and> notWall e) evs)))"
    by (subst sum_list_distinct_conv_sum_set) auto
  also have "\<dots> = int (length (filter (\<lambda>e. daily_key e \<in> ?K \<and> notWall e) evs))"
    by (rule count_by_key[symmetric]) simp
  also have "filter (\<lambda>e. daily_key e \<in> ?K \<and> notWall e) evs = filter (\<lambda>e. pe_submissionId e = i \<and> notWall e) evs"
    by (rule filter_cong) (auto simp: daily_key_def)
  finally show ?thesis .
qed

lemma counted_range:
  assumes "\<And>d. f \<le> d \<Longrightarrow> d \<le> u \<Longrightarrow> day_counted d db"
  shows "sum_list (map pd_impressions (stats_rows f u i db))
     = int (length (filter (\<lambda>e. f \<le> seoulDay e \<and> seoulDay e \<le> u \<and> pe_submissionId e = i \<and> notWall e) (t_playEvents db)))"
proof -
  define K where "K = {d. f \<le> d \<and> d \<le> u} \<inter> (pd_day ` set (t_playEventDaily db) \<union> seoulDay ` set (t_playEvents db))"
  have K: "finite K" by (simp add: K_def)
  have "stats_rows f u i db = filter (\<lambda>r. pd_day r \<in> K \<and> pd_submissionId r = i) (t_playEventDaily db)"
    unfolding stats_rows_def select_def by (rule filter_cong) (auto simp: K_def)
  then have "sum_list (map pd_impressions (stats_rows f u i db))
      = (\<Sum>d\<in>K. sum_list (map pd_impressions (filter (\<lambda>r. pd_day r = d \<and> pd_submissionId r = i) (t_playEventDaily db))))"
    by (simp add: sum_by_key[OF K])
  also have "\<dots> = (\<Sum>d\<in>K. int (length (filter (\<lambda>e. seoulDay e = d \<and> (pe_submissionId e = i \<and> notWall e)) (t_playEvents db))))"
  proof (rule sum.cong[OF refl])
    fix d assume "d \<in> K"
    then obtain t where t: "day_rows d db = daily_rows t (day_events d db)"
      using assms[of d] by (auto simp: K_def day_counted_def)
    have "filter (\<lambda>r. pd_day r = d \<and> pd_submissionId r = i) (t_playEventDaily db) = filter (\<lambda>r. pd_submissionId r = i) (day_rows d db)"
      by (simp add: day_rows_def conj_commute)
    moreover have "filter (\<lambda>e. seoulDay e = d \<and> (pe_submissionId e = i \<and> notWall e)) (t_playEvents db)
        = filter (\<lambda>e. pe_submissionId e = i \<and> notWall e) (day_events d db)"
      by (auto simp: day_events_def intro: filter_cong)
    ultimately show "sum_list (map pd_impressions (filter (\<lambda>r. pd_day r = d \<and> pd_submissionId r = i) (t_playEventDaily db)))
        = int (length (filter (\<lambda>e. seoulDay e = d \<and> (pe_submissionId e = i \<and> notWall e)) (t_playEvents db)))"
      by (simp add: t daily_rows_sum)
  qed
  also have "\<dots> = int (length (filter (\<lambda>e. seoulDay e \<in> K \<and> (pe_submissionId e = i \<and> notWall e)) (t_playEvents db)))"
    by (rule count_by_key[OF K, symmetric])
  also have "filter (\<lambda>e. seoulDay e \<in> K \<and> (pe_submissionId e = i \<and> notWall e)) (t_playEvents db)
      = filter (\<lambda>e. f \<le> seoulDay e \<and> seoulDay e \<le> u \<and> pe_submissionId e = i \<and> notWall e) (t_playEvents db)"
    by (rule filter_cong) (auto simp: K_def)
  finally show ?thesis .
qed

section \<open>What the statistics say\<close>

text \<open>
  C36: After a run of the aggregation, in any history of reports (late, repeated, of many days) and runs, the
  statistics of a range of days whose raw events are still kept count for every submission exactly the stored
  events of the range that were not on the wall: none is missed, and none counted twice.
\<close>

theorem statistics_count_plays:
  assumes "telemetry_start db0" and "telemetry_step\<^sup>*\<^sup>* db0 db" and "run_time t db"
    and "aggregate_plays True t db = Inr (db', Some r)"
    and "impressions user f u scope t' db' = Inr answer" and "kept_day t (sa_from answer)" and "item \<in> set (sa_items answer)"
  shows "si_impressions item = int (length (filter (\<lambda>e. sa_from answer \<le> seoulDay e \<and> seoulDay e \<le> sa_to answer
      \<and> pe_submissionId e = si_submissionId item \<and> notWall e) (t_playEvents db')))"
proof -
  have ok: "telemetry_ok db" by (rule telemetry_reachable_ok[OF assms(2,1)])
  obtain s where s: "item = stats_item_of (sa_from answer) (sa_to answer) db' s"
    using assms(5,7) by (auto simp: impressions_def bindE_def split: if_splits sum.splits)
  have "day_counted d db'" if "sa_from answer \<le> d" for d
    by (rule run_counts[OF ok assms(3,4)]) (use assms(6) that in \<open>simp add: kept_day_def\<close>)
  from counted_range[of "sa_from answer" "sa_to answer" db' "s_id s", OF this] show ?thesis
    by (simp add: s stats_item_of_def Let_def)
qed

definition one_play :: play_event_dto where
  "one_play = \<lparr>ev_eventId = 1, ev_sessionId = [115], ev_submissionId = 5, ev_revision = None, ev_startedAt = 0,
     ev_durationMs = 10000, ev_completed = True, ev_placement = Some SPOTLIGHT\<rparr>"

definition poster_db :: database where
  "poster_db = empty_database\<lparr>t_submissions := [hour_poster]\<rparr>"

definition played_db :: database where
  "played_db = fst (recordPlayEvents 3 [one_play, one_play] 1000000 poster_db)"

definition counted_db :: database where
  "counted_db = played_db\<lparr>t_playEventDaily := [\<lparr>pd_day = ''1970-01-01'', pd_submissionId = 5, pd_deviceId = 3,
       pd_impressions = 1, pd_completedImpressions = 1, pd_totalDurationMs = 10000, pd_wallImpressions = 0, pd_updatedAt = 2000000\<rparr>],
     t_jobWatermarks := [\<lparr>jw_name = PLAY_EVENT_WATERMARK, jw_value = 2000000, jw_updatedAt = 2000000\<rparr>]\<rparr>"

definition requester :: auth_user where
  "requester = \<lparr>au_id = 7, au_idpUuid = [], au_email = [], au_name = [], au_roles = [], au_tokenExpiresAt = 0\<rparr>"

definition poster_stats :: stats_answer where
  "poster_stats = \<lparr>sa_from = ''1970-01-01'', sa_to = ''1970-01-01'', sa_aggregatedAt = Some 2000000,
     sa_items = [\<lparr>si_submissionId = 5, si_title = codes ''Concert'', si_impressions = 1, si_completedImpressions = 1,
       si_wallImpressions = 0, si_deviceCount = 1\<rparr>]\<rparr>"

lemma played_db_events:
  "played_db = poster_db\<lparr>t_playEvents := [play_event_row 3 1000000 one_play]\<rparr>"
  by (simp add: played_db_def recordPlayEvents_def insert_or_ignore_def insert_row_def poster_db_def empty_database_def)

lemma sample_isos: "iso_day 0 = ''1970-01-01''" "iso_day (- 90) = ''1969-10-03''" "iso_day 1 = ''1970-01-02''"
  by code_simp+

lemma sample_plain: "plain_day 0" "plain_day (- 90)" "plain_day 1"
  by code_simp+

lemma sample_seoul: "seoul_day 2000000 = 0" "seoul_day 0 = 0"
  by (simp_all add: seoul_day_def day_of_def SEOUL_OFFSET_MS_def msPerDay_def)

lemma seoulDate_start: "seoulDate 2000000 = ''1970-01-01''" "seoulDate 0 = ''1970-01-01''"
  by (simp_all add: seoulDate_day sample_seoul sample_isos)

lemma sample_days: "addSeoulDays ''1970-01-01'' (- 90) = Some ''1969-10-03''" "startOfSeoulDay ''1969-10-03'' = Some (- 7808400000)"
  "startOfSeoulDay ''1970-01-01'' = Some (- 32400000)"
  "addSeoulDays ''1970-01-01'' 1 = Some ''1970-01-02''" "startOfSeoulDay ''1970-01-02'' = Some 54000000"
  using addSeoulDays_day[OF sample_plain(1), of "- 90"] addSeoulDays_day[OF sample_plain(1), of 1]
    startOfSeoulDay_day[OF sample_plain(1)] startOfSeoulDay_day[OF sample_plain(2)] startOfSeoulDay_day[OF sample_plain(3)]
  by (simp_all add: sample_isos day_start_def msPerDay_def SEOUL_OFFSET_MS_def)

lemma play_day: "seoulDay (play_event_row 3 1000000 one_play) = ''1970-01-01''"
  by (simp add: seoulDay_def play_event_row_def one_play_def seoulDate_start)

lemma sample_run: "aggregate_plays True 2000000 played_db = Inr (counted_db, Some \<lparr>par_daysRecomputed = 1, par_rawDeleted = 0\<rparr>)"
proof -
  have w: "since_of played_db = 0" by (simp add: since_of_def watermark_def played_db_events poster_db_def empty_database_def)
  have t: "touched_days ''1969-10-03'' played_db = [''1970-01-01'']"
    by (simp add: touched_days_def w) (simp add: played_db_events play_day select_def, simp add: play_event_row_def)
  have d: "daily_rows 2000000 [play_event_row 3 1000000 one_play] = t_playEventDaily counted_db"
    by (simp add: daily_rows_def daily_row_def daily_key_def play_day counted_db_def)
       (simp add: play_event_row_def one_play_def notWall_def)
  have r: "recompute [''1970-01-01''] 2000000 played_db = Inr (played_db\<lparr>t_playEventDaily := t_playEventDaily counted_db\<rparr>)"
    by (simp add: recompute_def sample_days requireE_def d[symmetric])
       (simp add: played_db_events play_day select_def poster_db_def empty_database_def delete_where_def,
        simp add: play_event_row_def one_play_def)
  show ?thesis
    by (simp add: aggregate_plays_def PLAY_EVENT_RETENTION_DAYS_def seoulDate_start sample_days requireE_def t r deleteExpired_plays_def Let_def)
       (simp add: played_db_events select_def delete_where_def play_event_row_def one_play_def set_watermark_def upsert_def
         insert_row_def poster_db_def empty_database_def counted_db_def)
qed

lemma sample_stats: "impressions requester (Some ''1970-01-01'') (Some ''1970-01-01'') ScopeMe 3000000 counted_db = Inr poster_stats"
  by code_simp

lemma play_history: "telemetry_start poster_db" "telemetry_step\<^sup>*\<^sup>* poster_db played_db" "run_time 2000000 played_db"
proof -
  have w: "watermark poster_db = None" by (simp add: watermark_def poster_db_def empty_database_def)
  show "telemetry_start poster_db" by (simp add: telemetry_start_def poster_db_def empty_database_def)
  have "telemetry_step poster_db played_db"
    unfolding played_db_def
    by (rule reported) (simp_all add: since_of_def w one_play_def plain_time_def sample_seoul sample_plain)
  then show "telemetry_step\<^sup>*\<^sup>* poster_db played_db" by blast
  have "watermark played_db = None" by (simp add: watermark_def played_db_events poster_db_def empty_database_def)
  then show "run_time 2000000 played_db"
    by (simp add: run_time_def plain_time_def sample_seoul sample_plain PLAY_EVENT_RETENTION_DAYS_def)
qed

theorem statistics_count_plays_witness:
  "si_impressions (hd (sa_items poster_stats)) = int (length (filter (\<lambda>e. sa_from poster_stats \<le> seoulDay e
      \<and> seoulDay e \<le> sa_to poster_stats \<and> pe_submissionId e = si_submissionId (hd (sa_items poster_stats)) \<and> notWall e)
      (t_playEvents counted_db)))"
proof (rule statistics_count_plays[OF play_history sample_run sample_stats])
  show "kept_day 2000000 (sa_from poster_stats)"
    by (simp add: kept_day_def sample_seoul PLAY_EVENT_RETENTION_DAYS_def sample_isos poster_stats_def)
qed (simp add: poster_stats_def)

end
