(* ===== verification/Notifications.thy ===== *)
theory Notifications
  imports Devices Submission_Changes
begin

text \<open>
  What is announced to the administrators' channel: the alert policy of a screen
  (\<open>notifications/device-alert-policy.ts\<close>), the messages (\<open>notification-messages.ts\<close>), the webhook
  (\<open>slack-notification.service.ts\<close>) and the two jobs that queue notifications
  (\<open>jobs/device-offline-alert.job.ts\<close>, \<open>jobs/review-reminder.job.ts\<close>).

  A message is kept as what it says (\<open>notification_text\<close>); \<open>Slack_Layout\<close> has its wording and card. Random
  ids are arguments: \<open>incident\<close> gives the id of a new incident of a device, \<open>fresh\<close> that of a new row.
\<close>

section \<open>The alert policy\<close>

definition recentlySleeping :: "lineup_settings \<Rightarrow> time \<Rightarrow> bool" where
  "recentlySleeping settings t = list_ex (\<lambda>offset. isQuietAt (ls_quietHours settings) (t - offset)) [0, 30000, 60000, 90000]"

record device_alert =
  da_state :: device_alert_state
  da_shouldAlert :: bool
  da_recoveredIncidentId :: "uuid option"

definition heartbeat_since :: "device \<Rightarrow> device_alert_state option \<Rightarrow> bool" where
  "heartbeat_since d previous = (case d_lastSeenAt d of None \<Rightarrow> False
     | Some s \<Rightarrow> (case Option.bind previous das_observedLastSeenAt of None \<Rightarrow> 0 | Some o' \<Rightarrow> o') < s)"

definition evaluateDeviceAlert :: "device \<Rightarrow> lineup_settings \<Rightarrow> device_alert_state option \<Rightarrow> time \<Rightarrow> device_alert" where
  "evaluateDeviceAlert d settings previous t = (
     let status = deviceStatusOf d settings t;
         recovered = heartbeat_since d previous;
         kept = (if recovered then None else Option.bind previous das_incidentId);
         incidentId = (if status = ONLINE \<or> status = DISABLED then None else kept);
         grace = (case previous of None \<Rightarrow> t | Some p \<Rightarrow> das_graceUntil p);
         graceUntil =
           (if d_lastSeenAt d = None \<or> status = DISABLED \<or> status = SLEEPING then t + ONLINE_WITHIN_MS
            else case previous of None \<Rightarrow> grace
              | Some p \<Rightarrow> if das_status p = DISABLED \<or> das_status p = SLEEPING \<or> das_checkedAt p < d_updatedAt d
                  then t + ONLINE_WITHIN_MS else grace) in
     \<lparr>da_state = \<lparr>das_deviceId = d_id d, das_status = status, das_observedLastSeenAt = d_lastSeenAt d,
        das_graceUntil = graceUntil, das_incidentId = incidentId, das_checkedAt = t\<rparr>,
      da_shouldAlert = (status = OFFLINE \<and> d_lastSeenAt d \<noteq> None \<and> incidentId = None \<and> graceUntil \<le> t
        \<and> \<not> recentlySleeping settings t \<and> ONLINE_WITHIN_MS < t - d_updatedAt d),
      da_recoveredIncidentId = (if recovered \<and> d_isActive d \<and> hasRecentHeartbeat d t
        then Option.bind previous das_incidentId else None)\<rparr>)"

section \<open>Messages\<close>

definition offlineMessage :: "device \<Rightarrow> time \<Rightarrow> notification_kind \<times> notification_text" where
  "offlineMessage d t = (let seen = (case d_lastSeenAt d of Some s \<Rightarrow> s | None \<Rightarrow> 0) in
     (DEVICE_OFFLINE, OfflineText (d_name d) (d_location d) seen ((t - seen) div 1000) t))"

definition recoveredMessage :: "device \<Rightarrow> time \<Rightarrow> time \<Rightarrow> notification_kind \<times> notification_text" where
  "recoveredMessage d detectedAt t =
     (DEVICE_RECOVERED, RecoveredText (d_name d) (d_location d) detectedAt t (max 0 ((t - detectedAt) div 1000)))"

definition count_of :: "(submission_type \<times> nat \<times> time) list \<Rightarrow> submission_type \<Rightarrow> int" where
  "count_of rows ty = (case map_of rows ty of Some (n, _) \<Rightarrow> int n | None \<Rightarrow> 0)"

definition reviewMessage :: "(submission_type \<times> nat \<times> time) list \<Rightarrow> time \<Rightarrow> notification_kind \<times> notification_text" where
  "reviewMessage rows t = (
     let amount = sum_list (map (\<lambda>(_, n, _). int n) rows);
         oldest = (case map (\<lambda>(_, _, w). w) rows of [] \<Rightarrow> 0 | w # ws \<Rightarrow> fold min ws w);
         minutes = max 0 ((t - oldest) div 60000) in
     (REVIEW_REMINDER, ReviewText amount (count_of rows POSTER) (count_of rows EVENT_BANNER) (count_of rows STORY) oldest minutes t))"

text \<open>\<open>reviewReminderSlot\<close>: weekdays at 10:00 and 16:00 Seoul time, to the minute.\<close>

definition getUTCDay :: "time \<Rightarrow> int" where
  "getUTCDay t = (day_of t + 4) mod 7"

definition reviewReminderSlot :: "time \<Rightarrow> string option" where
  "reviewReminderSlot t = (
     let loc = t + 9 * 3600000; weekday = getUTCDay loc in
     if weekday = 0 \<or> weekday = 6 \<or> getUTCMinutes loc \<noteq> 0 \<or> getUTCHours loc \<notin> {10, 16} then None
     else Some (iso_day (day_of loc) @ ''T'' @ pad2 (getUTCHours loc) @ '':'' @ pad2 (getUTCMinutes loc)))"

section \<open>The webhook\<close>

record slack_config =
  sc_url :: string
  sc_deviceAlerts :: bool
  sc_reviewReminders :: bool

definition slack_enabled :: "slack_config \<Rightarrow> bool" where
  "slack_enabled cfg \<longleftrightarrow> sc_url cfg \<noteq> []"

definition enabledFor :: "slack_config \<Rightarrow> notification_kind \<Rightarrow> bool" where
  "enabledFor cfg k \<longleftrightarrow> slack_enabled cfg \<and> (if k = REVIEW_REMINDER then sc_reviewReminders cfg else sc_deviceAlerts cfg)"

record slack_error =
  se_code :: string
  se_retryable :: bool
  se_retryAfterMs :: time

text \<open>
  What the request comes to: no response (also a redirect or a timeout), or a status, the \<open>Retry-After\<close> header
  as a number of seconds in milliseconds (\<open>None\<close> when it is no finite number; absent it is 0), and the body.
\<close>

datatype slack_response = NoResponse | Response int "time option" utext

definition status_digits :: "int \<Rightarrow> string" where
  "status_digits n = [dig (n div 100), dig (n div 10 mod 10), dig (n mod 10)]"

definition slack_send :: "slack_config \<Rightarrow> slack_response \<Rightarrow> slack_error + unit" where
  "slack_send cfg response = (
     if sc_url cfg = [] then Inl \<lparr>se_code = ''SLACK_NOT_CONFIGURED'', se_retryable = False, se_retryAfterMs = 0\<rparr>
     else case response of
       NoResponse \<Rightarrow> Inl \<lparr>se_code = ''SLACK_NETWORK_ERROR'', se_retryable = True, se_retryAfterMs = 0\<rparr>
     | Response status retryAfter body \<Rightarrow>
         if status = 429
         then Inl \<lparr>se_code = ''SLACK_RATE_LIMITED'', se_retryable = True,
                se_retryAfterMs = (case retryAfter of Some ms \<Rightarrow> if 0 < ms then ms else 60000 | None \<Rightarrow> 60000)\<rparr>
         else if status < 200 \<or> 299 < status
         then Inl \<lparr>se_code = ''SLACK_HTTP_'' @ status_digits status, se_retryable = (500 \<le> status), se_retryAfterMs = 0\<rparr>
         else if js_trim body \<noteq> codes ''ok''
         then Inl \<lparr>se_code = ''SLACK_UNEXPECTED_RESPONSE'', se_retryable = False, se_retryAfterMs = 0\<rparr>
         else Inr ())"

section \<open>Queueing\<close>

definition NOTIFICATION_TTL_MS :: time where "NOTIFICATION_TTL_MS = 3600000"

definition new_notification :: "uuid \<Rightarrow> dedupe_key \<Rightarrow> (uuid \<times> uuid) option \<Rightarrow> notification_kind \<times> notification_text \<Rightarrow> time \<Rightarrow> slack_notification" where
  "new_notification i key incident message t =
     \<lparr>sn_id = i, sn_dedupeKey = key, sn_kind = fst message, sn_deviceId = map_option fst incident, sn_incidentId = map_option snd incident,
      sn_text = snd message, sn_status = SLACK_PENDING, sn_attempts = 0, sn_availableAt = t, sn_expiresAt = t + NOTIFICATION_TTL_MS,
      sn_claimToken = None, sn_lastError = None, sn_sentAt = None, sn_createdAt = t\<rparr>"

text \<open>\<open>onConflictDoNothing\<close>, and how many rows it inserted.\<close>

definition queue_notification :: "slack_notification \<Rightarrow> database \<Rightarrow> database \<times> nat" where
  "queue_notification n db = (if sn_dedupeKey n \<in> sn_dedupeKey ` set (t_slackNotifications db) then (db, 0)
     else (db\<lparr>t_slackNotifications := insert_row n (t_slackNotifications db)\<rparr>, 1))"

definition alertSettingsOf :: "database \<Rightarrow> device \<Rightarrow> lineup_settings" where
  "alertSettingsOf db d = resolveSettings
     (case first_row (\<lambda>g. gl_groupId g = d_programGroupId d) (t_groupLineups db) of Some g \<Rightarrow> gl_settings g | None \<Rightarrow> DEFAULT_LINEUP_SETTINGS)
     (d_lineupOverrides d)"

definition alertStateOf :: "database \<Rightarrow> uuid \<Rightarrow> device_alert_state option" where
  "alertStateOf db i = first_row (\<lambda>s. das_deviceId s = i) (t_deviceAlertStates db)"

definition queue_recovery :: "(dedupe_key \<Rightarrow> uuid) \<Rightarrow> device \<Rightarrow> uuid option \<Rightarrow> time \<Rightarrow> database \<Rightarrow> database \<times> nat" where
  "queue_recovery fresh d recoveredIncidentId t db = (case recoveredIncidentId of
      None \<Rightarrow> (db, 0)
    | Some i \<Rightarrow> (case first_row (\<lambda>n. sn_dedupeKey n = DeviceKey (d_id d) i) (t_slackNotifications db) of
        None \<Rightarrow> (db, 0)
      | Some offline \<Rightarrow>
          if sn_status offline \<in> {SLACK_SENT, SLACK_SENDING, SLACK_PENDING}
          then queue_notification (new_notification (fresh (RecoveredKey (d_id d) i)) (RecoveredKey (d_id d) i) (Some (d_id d, i))
                 (recoveredMessage d (sn_createdAt offline) t) t) db
          else (db, 0)))"

definition queue_offline :: "(dedupe_key \<Rightarrow> uuid) \<Rightarrow> device \<Rightarrow> uuid \<Rightarrow> time \<Rightarrow> database \<Rightarrow> database" where
  "queue_offline fresh d i t db = db\<lparr>t_slackNotifications := insert_row
     (new_notification (fresh (DeviceKey (d_id d) i)) (DeviceKey (d_id d) i) (Some (d_id d, i)) (offlineMessage d t) t) (t_slackNotifications db)\<rparr>"

definition save_alert_state :: "device_alert_state \<Rightarrow> database \<Rightarrow> database" where
  "save_alert_state s db = db\<lparr>t_deviceAlertStates := upsert das_deviceId s (\<lambda>_. s) (t_deviceAlertStates db)\<rparr>"

definition checked_state :: "uuid \<Rightarrow> device_alert \<Rightarrow> device_alert_state" where
  "checked_state incidentId result =
     (if da_shouldAlert result then (da_state result)\<lparr>das_incidentId := Some incidentId\<rparr> else da_state result)"

definition check_device :: "(dedupe_key \<Rightarrow> uuid) \<Rightarrow> (uuid \<Rightarrow> uuid) \<Rightarrow> time
    \<Rightarrow> device \<times> lineup_settings \<times> device_alert_state option \<Rightarrow> database \<times> nat \<Rightarrow> database \<times> nat" where
  "check_device fresh incident t = (\<lambda>(d, settings, previous) (db, queued).
     let result = evaluateDeviceAlert d settings previous t;
         (db, n) = queue_recovery fresh d (da_recoveredIncidentId result) t db in
     if da_shouldAlert result
     then (save_alert_state (checked_state (incident (d_id d)) result) (queue_offline fresh d (incident (d_id d)) t db), queued + n + 1)
     else (save_alert_state (checked_state (incident (d_id d)) result) db, queued + n))"

definition device_offline_alert :: "slack_config \<Rightarrow> bool \<Rightarrow> (dedupe_key \<Rightarrow> uuid) \<Rightarrow> (uuid \<Rightarrow> uuid) \<Rightarrow> time \<Rightarrow> database
    \<Rightarrow> database \<times> nat option" where
  "device_offline_alert cfg locked fresh incident t db = (
     if \<not> enabledFor cfg DEVICE_OFFLINE \<or> \<not> locked then (db, None)
     else let rows = map (\<lambda>d. (d, alertSettingsOf db d, alertStateOf db (d_id d))) (t_devices db);
              (db, queued) = fold (check_device fresh incident t) rows (db, 0) in
       (db, Some queued))"

definition review_reminder :: "slack_config \<Rightarrow> bool \<Rightarrow> (dedupe_key \<Rightarrow> uuid) \<Rightarrow> time \<Rightarrow> database \<Rightarrow> database \<times> nat option" where
  "review_reminder cfg locked fresh t db = (case reviewReminderSlot t of
      None \<Rightarrow> (db, None)
    | Some slot \<Rightarrow>
        if \<not> enabledFor cfg REVIEW_REMINDER \<or> \<not> locked then (db, None)
        else (case pendingReviewSummary (\<lambda>_. True) db of
            [] \<Rightarrow> (db, Some 0)
          | rows \<Rightarrow> (case queue_notification (new_notification (fresh (ReviewKey slot)) (ReviewKey slot) None (reviewMessage rows t) t) db of
              (db, n) \<Rightarrow> (db, Some n))))"

end
