(* ===== verification/Dispatcher.thy ===== *)
theory Dispatcher
  imports Notifications
begin

text \<open>
  Sending the queued notifications (\<open>notifications/notification-dispatcher.service.ts\<close>). A run claims one
  notification in a transaction of its own, decides whether it still matters, posts it, and writes the result
  in a second transaction, if the lease is still its own. \<open>token\<close> is the random id of the claim.
\<close>

definition MAX_ATTEMPTS :: int where "MAX_ATTEMPTS = 5"
definition LEASE_MS :: time where "LEASE_MS = 60000"
definition DELIVERY_ROW :: string where "DELIVERY_ROW = ''slack''"

definition open_status :: "slack_status \<Rightarrow> bool" where
  "open_status s \<longleftrightarrow> s \<in> {SLACK_PENDING, SLACK_SENDING}"

section \<open>Claiming\<close>

definition delivery_row :: "time \<Rightarrow> database \<Rightarrow> database" where
  "delivery_row t db = db\<lparr>t_slackDeliveryState := insert_or_ignore sl_id
     \<lparr>sl_id = DELIVERY_ROW, sl_claimToken = None, sl_lockedUntil = t, sl_nextSendAt = t\<rparr> (t_slackDeliveryState db)\<rparr>"

definition lease_free :: "time \<Rightarrow> slack_delivery_state \<Rightarrow> bool" where
  "lease_free t s \<longleftrightarrow> sl_id s = DELIVERY_ROW \<and> sl_lockedUntil s \<le> t \<and> sl_nextSendAt s \<le> t"

definition take_lease :: "uuid \<Rightarrow> time \<Rightarrow> database \<Rightarrow> database" where
  "take_lease token t db = db\<lparr>t_slackDeliveryState := update_where (lease_free t)
     (\<lambda>s. s\<lparr>sl_claimToken := Some token, sl_lockedUntil := t + LEASE_MS\<rparr>) (t_slackDeliveryState db)\<rparr>"

definition expired_notification :: "time \<Rightarrow> slack_notification \<Rightarrow> bool" where
  "expired_notification t n \<longleftrightarrow> open_status (sn_status n) \<and> sn_expiresAt n \<le> t"

definition expire_notifications :: "time \<Rightarrow> database \<Rightarrow> database" where
  "expire_notifications t db = db\<lparr>t_slackNotifications := update_where (expired_notification t)
     (\<lambda>n. n\<lparr>sn_status := SLACK_CANCELED, sn_claimToken := None, sn_lastError := Some ''NOTIFICATION_EXPIRED''\<rparr>)
     (t_slackNotifications db)\<rparr>"

definition unsettledOffline :: "database \<Rightarrow> slack_notification \<Rightarrow> bool" where
  "unsettledOffline db n = list_ex (\<lambda>o'. (case (sn_deviceId n, sn_incidentId n) of
       (Some d, Some i) \<Rightarrow> sn_dedupeKey o' = DeviceKey d i | _ \<Rightarrow> False) \<and> open_status (sn_status o'))
     (t_slackNotifications db)"

definition due :: "time \<Rightarrow> database \<Rightarrow> slack_notification \<Rightarrow> bool" where
  "due t db n \<longleftrightarrow> open_status (sn_status n) \<and> sn_availableAt n \<le> t
     \<and> (sn_kind n \<noteq> DEVICE_RECOVERED \<or> \<not> unsettledOffline db n)"

definition next_notification :: "time \<Rightarrow> database \<Rightarrow> slack_notification option" where
  "next_notification t db = (case order_asc (\<lambda>n. (sn_createdAt n, sn_id n)) (select (due t db) (t_slackNotifications db)) of
     [] \<Rightarrow> None | n # _ \<Rightarrow> Some n)"

definition set_notification :: "uuid \<Rightarrow> (slack_notification \<Rightarrow> slack_notification) \<Rightarrow> database \<Rightarrow> database" where
  "set_notification i f db = db\<lparr>t_slackNotifications := update_where (\<lambda>n. sn_id n = i) f (t_slackNotifications db)\<rparr>"

definition release_lease :: "time \<Rightarrow> database \<Rightarrow> database" where
  "release_lease t db = db\<lparr>t_slackDeliveryState := update_where (\<lambda>s. sl_id s = DELIVERY_ROW)
     (\<lambda>s. s\<lparr>sl_claimToken := None, sl_lockedUntil := t, sl_nextSendAt := t + 1100\<rparr>) (t_slackDeliveryState db)\<rparr>"

definition claimed_notification :: "uuid \<Rightarrow> int \<Rightarrow> slack_notification \<Rightarrow> slack_notification" where
  "claimed_notification token attempts n = n\<lparr>sn_status := SLACK_SENDING, sn_claimToken := Some token, sn_attempts := attempts + 1\<rparr>"

definition exhausted :: "slack_notification \<Rightarrow> slack_notification" where
  "exhausted n = n\<lparr>sn_status := SLACK_FAILED, sn_claimToken := None, sn_lastError := Some ''NOTIFICATION_ATTEMPTS_EXHAUSTED''\<rparr>"

definition claim_notification :: "uuid \<Rightarrow> time \<Rightarrow> database \<Rightarrow> database \<times> slack_notification option" where
  "claim_notification token t db = (
     let db = delivery_row t db in
     if \<not> list_ex (lease_free t) (t_slackDeliveryState db) then (db, None)
     else let db = expire_notifications t (take_lease token t db) in
       case next_notification t db of
         None \<Rightarrow> (release_lease t db, None)
       | Some n \<Rightarrow>
           if MAX_ATTEMPTS \<le> sn_attempts n then (release_lease t (set_notification (sn_id n) exhausted db), None)
           else (set_notification (sn_id n) (claimed_notification token (sn_attempts n)) db,
                 Some (claimed_notification token (sn_attempts n) n)))"

section \<open>Whether it still matters\<close>

definition latestOffline :: "database \<Rightarrow> uuid option \<Rightarrow> slack_notification option" where
  "latestOffline db deviceId = (case order_desc (\<lambda>n. (sn_createdAt n, sn_id n))
       (select (\<lambda>n. deviceId \<noteq> None \<and> sn_deviceId n = deviceId \<and> sn_kind n = DEVICE_OFFLINE) (t_slackNotifications db)) of
     [] \<Rightarrow> None | n # _ \<Rightarrow> Some n)"

definition isRelevant :: "slack_config \<Rightarrow> slack_notification \<Rightarrow> time \<Rightarrow> database \<Rightarrow> bool" where
  "isRelevant cfg n t db = (
     if \<not> enabledFor cfg (sn_kind n) then False
     else if sn_kind n = REVIEW_REMINDER then True
     else let row = Option.bind (first_row (\<lambda>d. sn_deviceId n = Some (d_id d)) (t_devices db))
            (\<lambda>d. map_option (\<lambda>s. (d, s)) (alertStateOf db (d_id d))) in
       case row of
         None \<Rightarrow> False
       | Some (d, s) \<Rightarrow>
           if sn_kind n = DEVICE_RECOVERED
           then d_isActive d \<and> das_incidentId s = None \<and> hasRecentHeartbeat d t
             \<and> (case latestOffline db (sn_deviceId n) of None \<Rightarrow> False
                | Some o' \<Rightarrow> sn_incidentId o' = sn_incidentId n \<and> sn_status o' = SLACK_SENT)
           else das_incidentId s = sn_incidentId n \<and> d_lastSeenAt d = das_observedLastSeenAt s
             \<and> deviceStatusOf d (alertSettingsOf db d) t = OFFLINE)"

section \<open>The result\<close>

datatype delivery = Skipped | Posted slack_response | Broken

text \<open>What a run comes to: its status, and the error of a failed try. \<open>Broken\<close> is any other exception.\<close>

definition delivery_result :: "slack_config \<Rightarrow> slack_notification \<Rightarrow> delivery \<Rightarrow> slack_status \<times> slack_error option" where
  "delivery_result cfg n outcome = (
     let failed = (\<lambda>e. (if se_retryable e \<and> sn_attempts n < MAX_ATTEMPTS then SLACK_PENDING else SLACK_FAILED, Some e)) in
     case outcome of
       Skipped \<Rightarrow> (SLACK_CANCELED, None)
     | Posted r \<Rightarrow> (case slack_send cfg r of Inr _ \<Rightarrow> (SLACK_SENT, None) | Inl e \<Rightarrow> failed e)
     | Broken \<Rightarrow> failed \<lparr>se_code = ''NOTIFICATION_INTERNAL_ERROR'', se_retryable = True, se_retryAfterMs = 0\<rparr>)"

definition retry_after :: "slack_error option \<Rightarrow> time" where
  "retry_after e = (case e of None \<Rightarrow> 0 | Some x \<Rightarrow> se_retryAfterMs x)"

definition retryDelay :: "slack_notification \<Rightarrow> slack_error option \<Rightarrow> time" where
  "retryDelay n e = max (retry_after e) (60000 * 2 ^ nat (sn_attempts n - 1))"

definition own_lease :: "slack_notification \<Rightarrow> slack_delivery_state \<Rightarrow> bool" where
  "own_lease n s \<longleftrightarrow> sl_id s = DELIVERY_ROW \<and> sl_claimToken s \<noteq> None \<and> sl_claimToken s = sn_claimToken n"

definition settled_notification :: "slack_notification \<Rightarrow> time \<Rightarrow> slack_status \<Rightarrow> slack_error option \<Rightarrow> slack_notification \<Rightarrow> slack_notification" where
  "settled_notification n finishedAt status e x = x\<lparr>sn_status := status, sn_claimToken := None,
     sn_lastError := map_option se_code e, sn_sentAt := (if status = SLACK_SENT then Some finishedAt else None),
     sn_availableAt := (if status = SLACK_PENDING then finishedAt + retryDelay n e else sn_availableAt n)\<rparr>"

definition finish_notification :: "slack_notification \<Rightarrow> time \<Rightarrow> slack_status \<times> slack_error option \<Rightarrow> database \<Rightarrow> database" where
  "finish_notification n finishedAt result db = (case result of (status, e) \<Rightarrow>
     if \<not> list_ex (own_lease n) (t_slackDeliveryState db) then db
     else db\<lparr>
       t_slackDeliveryState := update_where (own_lease n)
         (\<lambda>s. s\<lparr>sl_claimToken := None, sl_lockedUntil := finishedAt, sl_nextSendAt := finishedAt + max 1100 (retry_after e)\<rparr>)
         (t_slackDeliveryState db),
       t_slackNotifications := update_where (\<lambda>x. sn_id x = sn_id n \<and> sn_claimToken x \<noteq> None \<and> sn_claimToken x = sn_claimToken n)
         (settled_notification n finishedAt status e) (t_slackNotifications db)\<rparr>)"

record dispatch_result =
  dr_sent :: nat
  dr_failed :: nat
  dr_retried :: nat
  dr_canceled :: nat

definition dispatch_counts :: "slack_status \<Rightarrow> dispatch_result" where
  "dispatch_counts s = \<lparr>dr_sent = of_bool (s = SLACK_SENT), dr_failed = of_bool (s = SLACK_FAILED),
     dr_retried = of_bool (s = SLACK_PENDING), dr_canceled = of_bool (s = SLACK_CANCELED)\<rparr>"

text \<open>\<open>run\<close> alone: the post takes \<open>elapsed\<close>.\<close>

definition dispatch :: "slack_config \<Rightarrow> uuid \<Rightarrow> time \<Rightarrow> time \<Rightarrow> slack_response \<Rightarrow> database \<Rightarrow> database \<times> dispatch_result option" where
  "dispatch cfg token t elapsed response db = (
     if \<not> slack_enabled cfg then (db, None)
     else case claim_notification token t db of
       (db, None) \<Rightarrow> (db, None)
     | (db, Some n) \<Rightarrow>
         let result = delivery_result cfg n (if isRelevant cfg n t db then Posted response else Skipped) in
         (finish_notification n (t + elapsed) result db, Some (dispatch_counts (fst result))))"

end
