(* ===== verification/Dispatch_Steps.thy ===== *)
theory Dispatch_Steps
  imports Dispatcher
begin

text \<open>
  Runs of the dispatcher on several pods, the jobs that queue, and everything else, in any order. A run that
  claimed a notification is in \<open>nw_ready\<close> until it posted or gave up, then in \<open>nw_out\<close> until it wrote the
  result; it may die in between. \<open>nw_posted\<close> lists every notification as it was posted. A transaction that would store the same
  \<open>dedupeKey\<close> twice fails on the unique index and is rolled back.
\<close>

section \<open>Steps\<close>

record notify_world =
  nw_db :: database
  nw_ready :: "slack_notification list"
  nw_out :: "(slack_notification \<times> delivery) list"
  nw_posted :: "slack_notification list"

text \<open>The ids of new rows are new; a transaction stores at most one row per key.\<close>

definition fresh_rows :: "(dedupe_key \<Rightarrow> uuid) \<Rightarrow> database \<Rightarrow> database \<Rightarrow> bool" where
  "fresh_rows fresh db db' \<longleftrightarrow> (let new = sn_dedupeKey ` set (t_slackNotifications db') - sn_dedupeKey ` set (t_slackNotifications db) in
     inj_on fresh new \<and> fresh ` new \<inter> sn_id ` set (t_slackNotifications db) = {})"

inductive notify_step :: "slack_config \<Rightarrow> notify_world \<Rightarrow> notify_world \<Rightarrow> bool" for cfg where
  claimed: "claim_notification token t (nw_db w) = (db', Some n) \<Longrightarrow> notify_step cfg w (w\<lparr>nw_db := db', nw_ready := n # nw_ready w\<rparr>)"
| no_claim: "claim_notification token t (nw_db w) = (db', None) \<Longrightarrow> notify_step cfg w (w\<lparr>nw_db := db'\<rparr>)"
| skipped: "n \<in> set (nw_ready w) \<Longrightarrow> \<not> isRelevant cfg n t (nw_db w)
    \<Longrightarrow> notify_step cfg w (w\<lparr>nw_ready := remove1 n (nw_ready w), nw_out := (n, Skipped) # nw_out w\<rparr>)"
| posted: "n \<in> set (nw_ready w) \<Longrightarrow> isRelevant cfg n t (nw_db w)
    \<Longrightarrow> notify_step cfg w (w\<lparr>nw_ready := remove1 n (nw_ready w), nw_out := (n, Posted r) # nw_out w, nw_posted := n # nw_posted w\<rparr>)"
| broken: "n \<in> set (nw_ready w) \<Longrightarrow> notify_step cfg w (w\<lparr>nw_ready := remove1 n (nw_ready w), nw_out := (n, Broken) # nw_out w\<rparr>)"
| finished: "(n, o') \<in> set (nw_out w) \<Longrightarrow> notify_step cfg w
    (w\<lparr>nw_db := finish_notification n t (delivery_result cfg n o') (nw_db w), nw_out := remove1 (n, o') (nw_out w)\<rparr>)"
| died: "notify_step cfg w (w\<lparr>nw_ready := filter P (nw_ready w), nw_out := filter Q (nw_out w)\<rparr>)"
| alerts: "device_offline_alert cfg locked fresh incident t (nw_db w) = (db', q) \<Longrightarrow> fresh_rows fresh (nw_db w) db'
    \<Longrightarrow> distinct (map sn_dedupeKey (t_slackNotifications db')) \<Longrightarrow> notify_step cfg w (w\<lparr>nw_db := db'\<rparr>)"
| reminder: "review_reminder cfg locked fresh t (nw_db w) = (db', q) \<Longrightarrow> fresh_rows fresh (nw_db w) db'
    \<Longrightarrow> notify_step cfg w (w\<lparr>nw_db := db'\<rparr>)"
| elsewhere: "t_slackNotifications db' = t_slackNotifications (nw_db w) \<Longrightarrow> notify_step cfg w (w\<lparr>nw_db := db'\<rparr>)"

section \<open>Changes of the rows\<close>

abbreviation note_rows :: "database \<Rightarrow> slack_notification list" where
  "note_rows db \<equiv> t_slackNotifications db"

definition note_ok :: "slack_notification \<Rightarrow> bool" where
  "note_ok n \<longleftrightarrow> 0 \<le> sn_attempts n \<and> sn_attempts n \<le> MAX_ATTEMPTS \<and> (sn_claimToken n \<noteq> None \<longrightarrow> open_status (sn_status n))"

text \<open>What any step may do to a row: a closed one stays as it is, and attempts only grow.\<close>

definition note_change :: "slack_notification \<Rightarrow> slack_notification \<Rightarrow> bool" where
  "note_change n m \<longleftrightarrow> sn_id m = sn_id n \<and> sn_kind m = sn_kind n \<and> sn_deviceId m = sn_deviceId n \<and> sn_incidentId m = sn_incidentId n
     \<and> sn_dedupeKey m = sn_dedupeKey n \<and> sn_attempts n \<le> sn_attempts m \<and> (note_ok n \<longrightarrow> note_ok m) \<and> (note_ok n \<longrightarrow> \<not> open_status (sn_status n) \<longrightarrow> m = n)"

definition notes_change :: "slack_notification list \<Rightarrow> slack_notification list \<Rightarrow> bool" where
  "notes_change xs ys \<longleftrightarrow> list_all2 note_change xs ys"

lemma note_change_refl: "note_change n n"
  by (simp add: note_change_def)

lemma note_change_trans: "note_change a b \<Longrightarrow> note_change b c \<Longrightarrow> note_change a c"
  by (auto simp: note_change_def)

lemma notes_change_refl: "notes_change xs xs"
  by (simp add: notes_change_def list_all2_refl note_change_refl)

lemma notes_change_trans: "notes_change xs ys \<Longrightarrow> notes_change ys zs \<Longrightarrow> notes_change xs zs"
  unfolding notes_change_def by (rule list_all2_trans[where ?P1.0 = note_change and ?P2.0 = note_change]) (auto intro: note_change_trans)

lemma notes_change_update: "(\<And>n. n \<in> set xs \<Longrightarrow> P n \<Longrightarrow> note_change n (f n)) \<Longrightarrow> notes_change xs (update_where P f xs)"
  by (induction xs) (auto simp: notes_change_def note_change_refl)

lemma notes_change_row:
  assumes "notes_change xs ys"
  shows "n \<in> set xs \<Longrightarrow> \<exists>m \<in> set ys. note_change n m" and "m \<in> set ys \<Longrightarrow> \<exists>n \<in> set xs. note_change n m"
  using assms unfolding notes_change_def by (force simp: list_all2_conv_all_nth in_set_conv_nth)+

lemma notes_change_ids: "notes_change xs ys \<Longrightarrow> map sn_id ys = map sn_id xs"
  unfolding notes_change_def by (induction rule: list_all2_induct) (auto simp: note_change_def)

section \<open>The dispatcher's transactions\<close>

lemma notes_tables [simp]:
  "note_rows (delivery_row t db) = note_rows db" "note_rows (take_lease token t db) = note_rows db" "note_rows (release_lease t db) = note_rows db"
  by (simp_all add: delivery_row_def take_lease_def release_lease_def)

lemma expire_change: "notes_change (note_rows db) (note_rows (expire_notifications t db))"
  unfolding expire_notifications_def
  by (simp, rule notes_change_update) (auto simp: expired_notification_def note_change_def note_ok_def)

lemma same_note: "distinct (map sn_id xs) \<Longrightarrow> a \<in> set xs \<Longrightarrow> b \<in> set xs \<Longrightarrow> sn_id a = sn_id b \<Longrightarrow> a = b"
  by (auto simp: distinct_map dest: inj_onD)

lemma note_change_one:
  assumes "distinct (map sn_id xs)" and "n \<in> set xs" and "note_change n (f n)"
  shows "notes_change xs (update_where (\<lambda>x. sn_id x = sn_id n) f xs)"
proof (rule notes_change_update)
  fix x assume "x \<in> set xs" "sn_id x = sn_id n"
  with assms same_note[OF assms(1)] show "note_change x (f x)" by metis
qed

lemma exhausted_change: "open_status (sn_status n) \<Longrightarrow> note_change n (exhausted n)"
  by (simp add: exhausted_def note_change_def note_ok_def)

lemma claimed_change:
  "open_status (sn_status n) \<Longrightarrow> sn_attempts n < MAX_ATTEMPTS \<Longrightarrow> note_change n (claimed_notification token (sn_attempts n) n)"
  by (simp add: claimed_notification_def note_change_def note_ok_def open_status_def)

lemma next_notification_due:
  assumes "next_notification t db = Some n"
  shows "n \<in> set (note_rows db)" and "due t db n"
proof -
  obtain rest where r: "order_asc (\<lambda>n. (sn_createdAt n, sn_id n)) (select (due t db) (note_rows db)) = n # rest"
    using assms by (auto simp: next_notification_def split: list.splits)
  have "n \<in> set (order_asc (\<lambda>n. (sn_createdAt n, sn_id n)) (select (due t db) (note_rows db)))" by (simp add: r)
  then show "n \<in> set (note_rows db)" "due t db n" by auto
qed

lemma claim_change:
  assumes "claim_notification token t db = (db', o')" and d: "distinct (map sn_id (note_rows db))"
  shows "notes_change (note_rows db) (note_rows db')"
    and "o' = Some n \<Longrightarrow> n \<in> set (note_rows db') \<and> (\<exists>m \<in> set (note_rows db). sn_id m = sn_id n \<and> sn_attempts n = sn_attempts m + 1)"
proof -
  let ?e = "expire_notifications t (take_lease token t (delivery_row t db))"
  have e: "notes_change (note_rows db) (note_rows ?e)" using expire_change[of "take_lease token t (delivery_row t db)" t] by simp
  have de: "distinct (map sn_id (note_rows ?e))" using d notes_change_ids[OF e] by simp
  have "notes_change (note_rows db) (note_rows db') \<and> (o' = Some n \<longrightarrow> n \<in> set (note_rows db')
      \<and> (\<exists>m \<in> set (note_rows db). sn_id m = sn_id n \<and> sn_attempts n = sn_attempts m + 1))" for n
  proof (cases "list_ex (lease_free t) (t_slackDeliveryState (delivery_row t db))")
    case False
    with assms(1) show ?thesis by (auto simp: claim_notification_def notes_change_refl)
  next
    case True
    show ?thesis
    proof (cases "next_notification t ?e")
      case None
      with True assms(1) e show ?thesis by (auto simp: claim_notification_def)
    next
      case (Some x)
      note x = next_notification_due[OF Some]
      then have op: "open_status (sn_status x)" by (simp add: due_def)
      show ?thesis
      proof (cases "MAX_ATTEMPTS \<le> sn_attempts x")
        case True
        with \<open>list_ex _ _\<close> Some assms(1) have "db' = release_lease t (set_notification (sn_id x) exhausted ?e)" "o' = None"
          by (auto simp: claim_notification_def)
        with notes_change_trans[OF e note_change_one[where f = exhausted, OF de x(1) exhausted_change[OF op]]] show ?thesis by (simp add: set_notification_def)
      next
        case False
        with \<open>list_ex _ _\<close> Some assms(1) have r: "db' = set_notification (sn_id x) (claimed_notification token (sn_attempts x)) ?e"
          "o' = Some (claimed_notification token (sn_attempts x) x)"
          by (auto simp: claim_notification_def)
        obtain m where m: "m \<in> set (note_rows db)" "note_change m x" using notes_change_row(2)[OF e x(1)] by blast
        have "sn_attempts m = sn_attempts x"
        proof -
          have "note_rows ?e = update_where (expired_notification t)
              (\<lambda>n. n\<lparr>sn_status := SLACK_CANCELED, sn_claimToken := None, sn_lastError := Some ''NOTIFICATION_EXPIRED''\<rparr>) (note_rows db)"
            by (simp add: expire_notifications_def)
          then obtain y where y: "y \<in> set (note_rows db)" "sn_id x = sn_id y" "sn_attempts x = sn_attempts y"
            using x(1) by (auto simp: update_where_def)
          with d m have "y = m" by (auto simp: note_change_def distinct_map dest: inj_onD)
          with y show ?thesis by simp
        qed
        moreover have "claimed_notification token (sn_attempts x) x \<in> set (note_rows db')"
          using x(1) by (auto simp: r set_notification_def set_update_where)
        moreover have "notes_change (note_rows db) (note_rows db')"
          using notes_change_trans[OF e note_change_one[where f = "claimed_notification token (sn_attempts x)", OF de x(1) claimed_change[OF op]]] False by (simp add: r set_notification_def)
        ultimately show ?thesis using m by (auto simp: r claimed_notification_def note_change_def)
      qed
    qed
  qed
  then show "notes_change (note_rows db) (note_rows db')"
    "o' = Some n \<Longrightarrow> n \<in> set (note_rows db') \<and> (\<exists>m \<in> set (note_rows db). sn_id m = sn_id n \<and> sn_attempts n = sn_attempts m + 1)"
    by blast+
qed

lemma finish_change: "notes_change (note_rows db) (note_rows (finish_notification n t r db))"
proof (cases r)
  case (Pair status e)
  show ?thesis
  proof (cases "list_ex (own_lease n) (t_slackDeliveryState db)")
    case True
    then show ?thesis
      by (simp add: finish_notification_def Pair)
        (rule notes_change_update, auto simp: note_change_def note_ok_def settled_notification_def)
  qed (simp add: finish_notification_def Pair notes_change_refl)
qed

section \<open>The jobs only add\<close>

definition adds_new :: "(dedupe_key \<Rightarrow> uuid) \<Rightarrow> database \<Rightarrow> database \<Rightarrow> bool" where
  "adds_new fresh db db' \<longleftrightarrow> (\<exists>new. note_rows db' = note_rows db @ new \<and> (\<forall>n \<in> set new. note_ok n \<and> sn_attempts n = 0 \<and> sn_id n = fresh (sn_dedupeKey n)))"

lemma adds_new_refl: "adds_new fresh db db"
  by (simp add: adds_new_def)

lemma adds_new_trans: "adds_new fresh a b \<Longrightarrow> adds_new fresh b c \<Longrightarrow> adds_new fresh a c"
  unfolding adds_new_def by (elim exE conjE, rule_tac x = "new @ newa" in exI) auto

lemma adds_new_same: "note_rows b = note_rows b' \<Longrightarrow> adds_new fresh a b \<Longrightarrow> adds_new fresh a b'"
  by (simp add: adds_new_def)

lemma new_notification_ok: "note_ok (new_notification i key inc msg t)"
  by (simp add: new_notification_def note_ok_def MAX_ATTEMPTS_def)

lemma queue_adds: "adds_new fresh db (fst (queue_notification (new_notification (fresh key) key inc msg t) db))"
  by (auto simp: queue_notification_def adds_new_def insert_row_def new_notification_ok) (auto simp: new_notification_def)

lemma recovery_adds: "adds_new fresh db (fst (queue_recovery fresh d r t db))"
  by (auto simp: queue_recovery_def queue_adds adds_new_refl split: option.split)

lemma offline_adds: "adds_new fresh db (queue_offline fresh d i t db)"
proof -
  have "sn_id (new_notification (fresh key) key inc msg t) = fresh (sn_dedupeKey (new_notification (fresh key) key inc msg t))"
    "sn_attempts (new_notification (fresh key) key inc msg t) = 0" for key inc msg
    by (simp_all add: new_notification_def)
  then show ?thesis by (auto simp: queue_offline_def adds_new_def insert_row_def new_notification_ok)
qed

lemma check_device_adds: "adds_new fresh (fst q) (fst (check_device fresh incident t row q))"
proof -
  obtain d settings previous db queued where e: "row = (d, settings, previous)" "q = (db, queued)" by (metis prod_cases3 prod.exhaust)
  define result where "result = evaluateDeviceAlert d settings previous t"
  obtain db1 n where q: "queue_recovery fresh d (da_recoveredIncidentId result) t db = (db1, n)" by fastforce
  have 1: "adds_new fresh db db1" using recovery_adds[of fresh db d "da_recoveredIncidentId result" t] q by simp
  show ?thesis
  proof (cases "da_shouldAlert result")
    case True
    then have "fst (check_device fresh incident t row q) = save_alert_state (checked_state (incident (d_id d)) result)
        (queue_offline fresh d (incident (d_id d)) t db1)"
      using q by (simp add: check_device_def e result_def)
    then show ?thesis
      using adds_new_trans[OF 1 offline_adds] by (simp add: e save_alert_state_def adds_new_def)
  next
    case False
    then have "fst (check_device fresh incident t row q) = save_alert_state (checked_state (incident (d_id d)) result) db1"
      using q by (simp add: check_device_def e result_def)
    with 1 show ?thesis by (simp add: e save_alert_state_def adds_new_def)
  qed
qed

lemma alerts_add: "adds_new fresh db (fst (device_offline_alert cfg locked fresh incident t db))"
proof -
  have "adds_new fresh (fst q) (fst (fold (check_device fresh incident t) rows q))" for rows q
  proof (induction rows arbitrary: q)
    case (Cons row rows)
    show ?case using adds_new_trans[OF check_device_adds Cons.IH] by simp
  qed (simp add: adds_new_refl)
  note all = this
  have "adds_new fresh db (fst (fold (check_device fresh incident t) rows (db, 0)))" for rows
    using all[of "(db, 0)" rows] by simp
  then show ?thesis
    by (simp add: device_offline_alert_def Let_def adds_new_refl case_prod_unfold)
qed

lemma reminder_adds: "adds_new fresh db (fst (review_reminder cfg locked fresh t db))"
proof (cases "reviewReminderSlot t")
  case (Some slot)
  show ?thesis
  proof (cases "pendingReviewSummary (\<lambda>_. True) db")
    case (Cons r rs)
    obtain db' n where q: "queue_notification (new_notification (fresh (ReviewKey slot)) (ReviewKey slot) None (reviewMessage (r # rs) t) t) db = (db', n)"
      by fastforce
    have "adds_new fresh db db'" using queue_adds[of fresh db "ReviewKey slot" None "reviewMessage (r # rs) t" t] by (simp add: q)
    then show ?thesis by (simp add: review_reminder_def Some Cons q adds_new_refl)
  qed (simp add: review_reminder_def Some adds_new_refl)
qed (simp add: review_reminder_def adds_new_refl)

lemma reminder_keys:
  "distinct (map sn_dedupeKey (note_rows db)) \<Longrightarrow> distinct (map sn_dedupeKey (note_rows (fst (review_reminder cfg locked fresh t db))))"
  by (auto simp: review_reminder_def queue_notification_def insert_row_def split: option.splits list.splits prod.splits if_splits)

section \<open>The invariant\<close>

definition count_id :: "uuid \<Rightarrow> slack_notification list \<Rightarrow> int" where
  "count_id i xs = int (length (filter (\<lambda>n. sn_id n = i) xs))"

definition tries_ok :: "notify_world \<Rightarrow> bool" where
  "tries_ok w \<longleftrightarrow> (\<forall>n \<in> set (note_rows (nw_db w)). count_id (sn_id n) (nw_posted w) + count_id (sn_id n) (nw_ready w) \<le> sn_attempts n)"

definition known_ok :: "notify_world \<Rightarrow> bool" where
  "known_ok w \<longleftrightarrow> (\<forall>n \<in> set (nw_ready w) \<union> set (nw_posted w). \<exists>m \<in> set (note_rows (nw_db w)). sn_id m = sn_id n)"

definition offline_sent :: "database \<Rightarrow> slack_notification \<Rightarrow> bool" where
  "offline_sent db n \<longleftrightarrow> (\<exists>m \<in> set (note_rows db). sn_kind m = DEVICE_OFFLINE \<and> sn_deviceId m = sn_deviceId n
     \<and> sn_incidentId m = sn_incidentId n \<and> sn_status m = SLACK_SENT)"

definition recoveries_ok :: "notify_world \<Rightarrow> bool" where
  "recoveries_ok w \<longleftrightarrow> (\<forall>n \<in> set (nw_posted w). sn_kind n = DEVICE_RECOVERED \<longrightarrow> offline_sent (nw_db w) n)"

definition notes_ok :: "database \<Rightarrow> bool" where
  "notes_ok db \<longleftrightarrow> distinct (map sn_id (note_rows db)) \<and> distinct (map sn_dedupeKey (note_rows db)) \<and> (\<forall>n \<in> set (note_rows db). note_ok n)"

definition notify_ok :: "notify_world \<Rightarrow> bool" where
  "notify_ok w \<longleftrightarrow> notes_ok (nw_db w) \<and> tries_ok w \<and> known_ok w \<and> recoveries_ok w"

lemma offline_sent_change:
  assumes "notes_change (note_rows db) (note_rows db')" and "notes_ok db" and "offline_sent db n"
  shows "offline_sent db' n"
proof -
  from assms(3) obtain m where m: "m \<in> set (note_rows db)" "sn_kind m = DEVICE_OFFLINE" "sn_deviceId m = sn_deviceId n"
    "sn_incidentId m = sn_incidentId n" "sn_status m = SLACK_SENT"
    by (auto simp: offline_sent_def)
  obtain x where x: "x \<in> set (note_rows db')" "note_change m x" using notes_change_row(1)[OF assms(1) m(1)] by blast
  have "note_ok m" "\<not> open_status (sn_status m)" using assms(2) m by (simp_all add: notes_ok_def open_status_def)
  with x have "x = m" by (simp add: note_change_def)
  with x m show ?thesis by (auto simp: offline_sent_def)
qed

lemma notes_ok_change: "notes_change (note_rows db) (note_rows db') \<Longrightarrow> notes_ok db \<Longrightarrow> notes_ok db'"
proof -
  assume c: "notes_change (note_rows db) (note_rows db')" and ok: "notes_ok db"
  have "map sn_dedupeKey (note_rows db') = map sn_dedupeKey (note_rows db)"
    using c unfolding notes_change_def by (induction rule: list_all2_induct) (auto simp: note_change_def)
  moreover have "note_ok m" if "m \<in> set (note_rows db')" for m
    using notes_change_row(2)[OF c that] ok by (auto simp: note_change_def notes_ok_def)
  ultimately show ?thesis using ok notes_change_ids[OF c] by (simp add: notes_ok_def)
qed

text \<open>Changing the rows keeps the invariant; so does using up what is under way.\<close>

lemma notify_ok_db:
  assumes "notify_ok w" and c: "notes_change (note_rows (nw_db w)) (note_rows db')"
  shows "notify_ok (w\<lparr>nw_db := db'\<rparr>)"
proof -
  have n: "notes_ok (nw_db w)" using assms(1) by (simp add: notify_ok_def)
  have "tries_ok (w\<lparr>nw_db := db'\<rparr>)"
    unfolding tries_ok_def
  proof
    fix m assume "m \<in> set (note_rows (nw_db (w\<lparr>nw_db := db'\<rparr>)))"
    then obtain x where x: "x \<in> set (note_rows (nw_db w))" "note_change x m" using notes_change_row(2)[OF c, of m] by auto
    then have "sn_id m = sn_id x" "sn_attempts x \<le> sn_attempts m" by (simp_all add: note_change_def)
    moreover have "count_id (sn_id x) (nw_posted w) + count_id (sn_id x) (nw_ready w) \<le> sn_attempts x"
      using assms(1) x(1) by (simp add: notify_ok_def tries_ok_def)
    ultimately show "count_id (sn_id m) (nw_posted (w\<lparr>nw_db := db'\<rparr>)) + count_id (sn_id m) (nw_ready (w\<lparr>nw_db := db'\<rparr>)) \<le> sn_attempts m"
      by simp
  qed
  moreover have "known_ok (w\<lparr>nw_db := db'\<rparr>)"
    unfolding known_ok_def
  proof
    fix n assume "n \<in> set (nw_ready (w\<lparr>nw_db := db'\<rparr>)) \<union> set (nw_posted (w\<lparr>nw_db := db'\<rparr>))"
    then obtain m where m: "m \<in> set (note_rows (nw_db w))" "sn_id m = sn_id n"
      using assms(1) by (auto simp: notify_ok_def known_ok_def)
    obtain x where "x \<in> set (note_rows db')" "note_change m x" using notes_change_row(1)[OF c m(1)] by blast
    with m(2) show "\<exists>m \<in> set (note_rows (nw_db (w\<lparr>nw_db := db'\<rparr>))). sn_id m = sn_id n" by (auto simp: note_change_def)
  qed
  moreover have "recoveries_ok (w\<lparr>nw_db := db'\<rparr>)"
    using assms(1) offline_sent_change[OF c n] by (simp add: notify_ok_def recoveries_ok_def)
  ultimately show ?thesis using notes_ok_change[OF c n] by (simp add: notify_ok_def)
qed

end
