(* ===== verification/Slack_Layout.thy ===== *)
theory Slack_Layout
  imports Notifications
begin

text \<open>
  How a notification reads (\<open>notifications/notification-messages.ts\<close>) and how it is laid out for the channel
  (\<open>notification-presentation.ts\<close>). The wording is Korean: the \<open>kr_\<close> definitions are its pieces as code points.
  \<open>koreanTime\<close> (\<open>Intl.DateTimeFormat\<close>) is an argument.
\<close>

section \<open>The wording\<close>

definition kr_device :: utext where "kr_device = [0xAE30, 0xAE30]" \<comment> \<open>device\<close>
definition kr_place :: utext where "kr_place = [0xC704, 0xCE58]" \<comment> \<open>place\<close>
definition kr_unassigned :: utext where "kr_unassigned = [0xBBF8, 0xC9C0, 0xC815]" \<comment> \<open>not given\<close>
definition kr_seconds :: utext where "kr_seconds = [0xCD08]" \<comment> \<open>s\<close>
definition kr_minutes :: utext where "kr_minutes = [0xBD84]" \<comment> \<open>min\<close>
definition kr_hours :: utext where "kr_hours = [0xC2DC, 0xAC04]" \<comment> \<open>h\<close>
definition kr_days :: utext where "kr_days = [0xC77C]" \<comment> \<open>d\<close>
definition kr_cases :: utext where "kr_cases = [0xAC74]" \<comment> \<open>(a count of cases)\<close>
definition kr_time_zone :: utext where \<comment> \<open>(Korean time)\<close>
  "kr_time_zone = codes '' ('' @ [0xD55C, 0xAD6D, 0x20, 0xC2DC, 0xAC04] @ codes '')''"
definition kr_time_note :: utext where \<comment> \<open>- Korean time\<close>
  "kr_time_note = codes '' '' @ [0xB7, 0x20, 0xD55C, 0xAD6D, 0x20, 0xC2DC, 0xAC04]"
definition kr_product :: utext where "kr_product = codes ''Flyer-G '' @ [0xB7, 0x20]" \<comment> \<open>Flyer-G -\<close>
definition kr_lost_seen :: utext where \<comment> \<open>TV found disconnected\<close>
  "kr_lost_seen = codes ''TV '' @ [0xC5F0, 0xACB0, 0x20, 0xB04A, 0xAE40, 0x20, 0xAC10, 0xC9C0]"
definition kr_last_heartbeat :: utext where \<comment> \<open>last heartbeat:\<close>
  "kr_last_heartbeat = [0xB9C8, 0xC9C0, 0xB9C9, 0x20] @ codes ''heartbeat: ''"
definition kr_no_heartbeat :: utext where \<comment> \<open>no heartbeat for:\<close>
  "kr_no_heartbeat = codes ''heartbeat '' @ [0xBBF8, 0xC218, 0xC2E0] @ codes '': ''"
definition kr_checked_at :: utext where "kr_checked_at = [0xD655, 0xC778, 0x20, 0xC2DC,
    0xAC01] @ codes '': ''" \<comment> \<open>checked at:\<close>
definition kr_lost :: utext where \<comment> \<open>TV disconnected\<close>
  "kr_lost = [0x1F4FA, 0x20] @ codes ''TV '' @ [0xC5F0, 0xACB0, 0x20, 0xB04A, 0xAE40]"
definition kr_no_answer :: utext where \<comment> \<open>without an answer; please check power and network of the TV\<close>
  "kr_no_answer = codes '' '' @ [0xB3D9, 0xC548, 0x20, 0xC751, 0xB2F5, 0xC774, 0x20, 0xC5C6, 0xC5B4,
    0xC694] @ codes ''.*'' @ [0xA] @ codes ''TV'' @ [0xC758, 0x20, 0xC804, 0xC6D0, 0xACFC, 0x20, 0xB124, 0xD2B8, 0xC6CC,
    0xD06C, 0x20, 0xC5F0, 0xACB0, 0xC744, 0x20, 0xD655, 0xC778, 0xD574, 0x20, 0xC8FC, 0xC138, 0xC694] @ codes ''.''"
definition kr_last_answer :: utext where "kr_last_answer = [0xB9C8, 0xC9C0, 0xB9C9, 0x20, 0xC751,
    0xB2F5]" \<comment> \<open>last answer\<close>
definition kr_connection :: utext where "kr_connection = [0xC5F0, 0xACB0, 0x20, 0xC0C1,
    0xD0DC]" \<comment> \<open>state of the connection\<close>
definition kr_offline :: utext where "kr_offline = [0xC624, 0xD504, 0xB77C, 0xC778]" \<comment> \<open>offline\<close>
definition kr_detected :: utext where "kr_detected = codes '' '' @ [0xAC10, 0xC9C0]" \<comment> \<open>detected\<close>
definition kr_back_resolved :: utext where \<comment> \<open>TV reconnected (Resolved)\<close>
  "kr_back_resolved = codes ''TV '' @ [0xC5F0, 0xACB0, 0x20, 0xBCF5, 0xAD6C, 0x20] @ codes ''(Resolved)''"
definition kr_outage_at :: utext where \<comment> \<open>outage detected:\<close>
  "kr_outage_at = [0xC7A5, 0xC560, 0x20, 0xAC10, 0xC9C0] @ codes '': ''"
definition kr_recovered_at :: utext where \<comment> \<open>recovery confirmed:\<close>
  "kr_recovered_at = [0xBCF5, 0xAD6C, 0x20, 0xD655, 0xC778] @ codes '': ''"
definition kr_outage_length :: utext where \<comment> \<open>from detection to recovery\<close>
  "kr_outage_length = [0xC7A5, 0xC560, 0x20, 0xAC10, 0xC9C0, 0xBD80, 0xD130, 0x20, 0xBCF5, 0xAD6C, 0x20, 0xD655, 0xC778,
    0xAE4C, 0xC9C0]"
definition kr_back :: utext where \<comment> \<open>TV reconnected\<close>
  "kr_back = [0x2705, 0x20] @ codes ''TV '' @ [0xC5F0, 0xACB0, 0x20, 0xBCF5, 0xAD6C]"
definition kr_back_summary :: utext where \<comment> \<open>the TV is connected again; a new heartbeat confirmed it\<close>
  "kr_back_summary = codes ''*TV'' @ [0xAC00, 0x20, 0xB2E4, 0xC2DC, 0x20, 0xC5F0, 0xACB0, 0xB410, 0xC5B4,
    0xC694] @ codes ''.*'' @ [0xA, 0xC0C8, 0x20] @ codes ''heartbeat'' @ [0xAC00, 0x20, 0xC218, 0xC2E0, 0xB418, 0xC5B4, 0x20,
    0xC5F0, 0xACB0, 0x20, 0xBCF5, 0xAD6C, 0xB97C, 0x20, 0xD655, 0xC778, 0xD588, 0xC5B4, 0xC694] @ codes ''.''"
definition kr_resolved :: utext where \<comment> \<open>resolved\<close>
  "kr_resolved = [0xBCF5, 0xAD6C, 0x20, 0xC644, 0xB8CC, 0x20] @ codes ''(Resolved)''"
definition kr_recovered :: utext where \<comment> \<open>recovery confirmed\<close>
  "kr_recovered = codes '' '' @ [0xBCF5, 0xAD6C, 0x20, 0xD655, 0xC778]"
definition kr_waiting_1 :: utext where \<comment> \<open>requests waiting for approval:\<close>
  "kr_waiting_1 = [0xC2B9, 0xC778, 0x20, 0xB300, 0xAE30, 0x20, 0xC694, 0xCCAD, 0xC774, 0x20]"
definition kr_waiting_2 :: utext where \<comment> \<open>there are (so many)\<close>
  "kr_waiting_2 = [0xAC74, 0x20, 0xC788, 0xC2B5, 0xB2C8, 0xB2E4] @ codes ''.''"
definition kr_posters :: utext where "kr_posters = [0xD3EC, 0xC2A4, 0xD130, 0x20]" \<comment> \<open>posters\<close>
definition kr_banners :: utext where \<comment> \<open>- event banners\<close>
  "kr_banners = [0xAC74, 0x20, 0xB7, 0x20, 0xC774, 0xBCA4, 0xD2B8, 0x20, 0xBC30, 0xB108, 0x20]"
definition kr_stories :: utext where "kr_stories = [0xAC74, 0x20, 0xB7, 0x20, 0xC81C, 0xBCF4,
    0x20]" \<comment> \<open>- stories\<close>
definition kr_oldest :: utext where \<comment> \<open>oldest request:\<close>
  "kr_oldest = [0xAC00, 0xC7A5, 0x20, 0xC624, 0xB798, 0xB41C, 0x20, 0xC694, 0xCCAD] @ codes '': ''"
definition kr_waits :: utext where "kr_waits = codes '' ('' @ [0xB300, 0xAE30, 0x20]" \<comment> \<open>(waiting\<close>
definition kr_hours_and :: utext where "kr_hours_and = [0xC2DC, 0xAC04, 0x20]" \<comment> \<open>h\<close>
definition kr_minutes_end :: utext where "kr_minutes_end = [0xBD84] @ codes '')''" \<comment> \<open>min)\<close>
definition kr_counted_at :: utext where "kr_counted_at = [0xC9D1, 0xACC4, 0x20, 0xC2DC,
    0xAC01] @ codes '': ''" \<comment> \<open>counted at:\<close>
definition kr_reminder :: utext where \<comment> \<open>reminder of waiting approvals\<close>
  "kr_reminder = [0x1F4CB, 0x20, 0xC2B9, 0xC778, 0x20, 0xB300, 0xAE30, 0x20, 0xB9AC, 0xB9C8, 0xC778, 0xB4DC]"
definition kr_summary_1 :: utext where \<comment> \<open>requests wait for approval; posters\<close>
  "kr_summary_1 = [0xAC74, 0xC758, 0x20, 0xC694, 0xCCAD, 0xC774, 0x20, 0xC2B9, 0xC778, 0xC744, 0x20, 0xAE30, 0xB2E4, 0xB9AC,
    0xACE0, 0x20, 0xC788, 0xC5B4, 0xC694] @ codes ''.*'' @ [0xA, 0xD3EC, 0xC2A4, 0xD130, 0x20] @ codes ''*''"
definition kr_summary_2 :: utext where \<comment> \<open>- event banners\<close>
  "kr_summary_2 = [0xAC74] @ codes ''*  '' @ [0xB7, 0x20, 0x20, 0xC774, 0xBCA4, 0xD2B8, 0x20, 0xBC30, 0xB108, 0x20] @ codes ''*''"
definition kr_summary_3 :: utext where \<comment> \<open>- stories\<close>
  "kr_summary_3 = [0xAC74] @ codes ''*  '' @ [0xB7, 0x20, 0x20, 0xC81C, 0xBCF4, 0x20] @ codes ''*''"
definition kr_summary_4 :: utext where "kr_summary_4 = [0xAC74] @ codes ''*''" \<comment> \<open>(a count)\<close>
definition kr_longest :: utext where \<comment> \<open>the request that waited longest\<close>
  "kr_longest = [0xAC00, 0xC7A5, 0x20, 0xC624, 0xB798, 0x20, 0xAE30, 0xB2E4, 0xB9B0, 0x20, 0xC694, 0xCCAD]"
definition kr_received :: utext where \<comment> \<open>when it was received\<close>
  "kr_received = [0xD574, 0xB2F9, 0x20, 0xC694, 0xCCAD, 0x20, 0xC811, 0xC218, 0x20, 0xC2DC, 0xAC01]"
definition kr_counted :: utext where "kr_counted = codes '' '' @ [0xC9D1, 0xACC4]" \<comment> \<open>counted\<close>
definition kr_check_device :: utext where \<comment> \<open>check the device\<close>
  "kr_check_device = [0xAE30, 0xAE30, 0x20, 0xC0C1, 0xD0DC, 0x20, 0xD655, 0xC778, 0xD558, 0xAE30]"
definition kr_check_requests :: utext where \<comment> \<open>check the requests\<close>
  "kr_check_requests = [0xC2B9, 0xC778, 0x20, 0xC694, 0xCCAD, 0x20, 0xD655, 0xC778, 0xD558, 0xAE30]"

section \<open>Messages\<close>

definition num_text :: "int \<Rightarrow> utext" where
  "num_text n = codes (nat_text (nat n))"

definition elapsedLabel :: "int \<Rightarrow> utext" where
  "elapsedLabel seconds = (
     if seconds < 60 then num_text seconds @ kr_seconds
     else let minutes = seconds div 60 in
       if minutes < 60 then num_text minutes @ kr_minutes
       else let hours = minutes div 60 in
         if hours < 24 then num_text hours @ kr_hours
           @ (if minutes mod 60 \<noteq> 0 then codes '' '' @ num_text (minutes mod 60) @ kr_minutes else [])
         else num_text (hours div 24) @ kr_days
           @ (if hours mod 24 \<noteq> 0 then codes '' '' @ num_text (hours mod 24) @ kr_hours else []))"

record presentation =
  pt_title :: utext
  pt_color :: string
  pt_summary :: utext
  pt_fields :: "(utext \<times> utext) list"
  pt_context :: utext

definition offline_card :: "(time \<Rightarrow> utext) \<Rightarrow> utext \<Rightarrow> utext option \<Rightarrow> time \<Rightarrow> int \<Rightarrow> time \<Rightarrow> presentation" where
  "offline_card koreanTime name loc seen elapsed t =
     \<lparr>pt_title = kr_lost, pt_color = ''#E01E5A'',
      pt_summary = codes ''*'' @ elapsedLabel elapsed @ kr_no_answer,
      pt_fields = [(kr_device, name), (kr_place, or_else loc kr_unassigned),
        (kr_last_answer, koreanTime seen), (kr_connection, kr_offline)],
      pt_context = kr_product @ koreanTime t @ kr_detected @ kr_time_note\<rparr>"

definition recovered_card :: "(time \<Rightarrow> utext) \<Rightarrow> utext \<Rightarrow> utext option \<Rightarrow> time \<Rightarrow> time \<Rightarrow> int \<Rightarrow> presentation" where
  "recovered_card koreanTime name loc detectedAt t elapsed =
     \<lparr>pt_title = kr_back, pt_color = ''#2EB67D'',
      pt_summary = kr_back_summary,
      pt_fields = [(kr_device, name), (kr_place, or_else loc kr_unassigned),
        (kr_outage_length, elapsedLabel elapsed), (kr_connection, kr_resolved)],
      pt_context = kr_product @ koreanTime t @ kr_recovered @ kr_time_note\<rparr>"

definition review_card :: "(time \<Rightarrow> utext) \<Rightarrow> int \<Rightarrow> int \<Rightarrow> int \<Rightarrow> int \<Rightarrow> time \<Rightarrow> int \<Rightarrow> time \<Rightarrow> presentation" where
  "review_card koreanTime amount posters banners stories oldest minutes t =
     \<lparr>pt_title = kr_reminder, pt_color = ''#2EB67D'',
      pt_summary = codes ''*'' @ num_text amount @ kr_summary_1 @ num_text posters @ kr_summary_2 @ num_text banners
        @ kr_summary_3 @ num_text stories @ kr_summary_4,
      pt_fields = [(kr_longest, elapsedLabel (minutes * 60)), (kr_received, koreanTime oldest)],
      pt_context = kr_product @ koreanTime t @ kr_counted @ kr_time_note\<rparr>"

fun presentation_of :: "(time \<Rightarrow> utext) \<Rightarrow> notification_text \<Rightarrow> presentation" where
  "presentation_of koreanTime (OfflineText name loc seen elapsed t) = offline_card koreanTime name loc seen elapsed t"
| "presentation_of koreanTime (RecoveredText name loc detectedAt t elapsed) = recovered_card koreanTime name loc detectedAt t elapsed"
| "presentation_of koreanTime (ReviewText amount posters banners stories oldest minutes t) = review_card koreanTime amount posters banners stories oldest minutes t"

text \<open>The whole text of a message, for push notices and screen readers, line by line.\<close>

definition lines_of :: "utext list \<Rightarrow> utext" where
  "lines_of ls = concat (map (\<lambda>l. l @ [10]) (butlast ls)) @ last ls"

definition offline_lines :: "(time \<Rightarrow> utext) \<Rightarrow> utext \<Rightarrow> utext option \<Rightarrow> time \<Rightarrow> int \<Rightarrow> time \<Rightarrow> utext" where
  "offline_lines koreanTime name loc seen elapsed t =
     lines_of
     [kr_lost_seen, kr_device @ codes '': '' @ name, kr_place @ codes '': '' @ or_else loc kr_unassigned,
      kr_last_heartbeat @ koreanTime seen @ kr_time_zone, kr_no_heartbeat @ num_text elapsed @ kr_seconds,
      kr_checked_at @ koreanTime t @ kr_time_zone]"

definition recovered_lines :: "(time \<Rightarrow> utext) \<Rightarrow> utext \<Rightarrow> utext option \<Rightarrow> time \<Rightarrow> time \<Rightarrow> int \<Rightarrow> utext" where
  "recovered_lines koreanTime name loc detectedAt t elapsed =
     lines_of
     [kr_back_resolved, kr_device @ codes '': '' @ name, kr_place @ codes '': '' @ or_else loc kr_unassigned,
      kr_outage_at @ koreanTime detectedAt @ kr_time_zone, kr_recovered_at @ koreanTime t @ kr_time_zone,
      kr_outage_length @ codes '': '' @ elapsedLabel elapsed]"

definition review_lines :: "(time \<Rightarrow> utext) \<Rightarrow> int \<Rightarrow> int \<Rightarrow> int \<Rightarrow> int \<Rightarrow> time \<Rightarrow> int \<Rightarrow> time \<Rightarrow> utext" where
  "review_lines koreanTime amount posters banners stories oldest minutes t =
     lines_of
     [kr_waiting_1 @ num_text amount @ kr_waiting_2,
      kr_posters @ num_text posters @ kr_banners @ num_text banners @ kr_stories @ num_text stories @ kr_cases,
      kr_oldest @ koreanTime oldest @ kr_waits @ num_text (minutes div 60) @ kr_hours_and @ num_text (minutes mod 60) @ kr_minutes_end,
      kr_counted_at @ koreanTime t @ kr_time_zone]"

fun text_of :: "(time \<Rightarrow> utext) \<Rightarrow> notification_text \<Rightarrow> utext" where
  "text_of koreanTime (OfflineText name loc seen elapsed t) = offline_lines koreanTime name loc seen elapsed t"
| "text_of koreanTime (RecoveredText name loc detectedAt t elapsed) = recovered_lines koreanTime name loc detectedAt t elapsed"
| "text_of koreanTime (ReviewText amount posters banners stories oldest minutes t) = review_lines koreanTime amount posters banners stories oldest minutes t"

section \<open>Layout\<close>

text \<open>User text in a field of the card loses its meaning for the channel: \<open>&\<close>, \<open><\<close> and \<open>>\<close> are entities.\<close>

definition replaceAll1 :: "nat \<Rightarrow> utext \<Rightarrow> utext \<Rightarrow> utext" where
  "replaceAll1 c by text = concat (map (\<lambda>x. if x = c then by else [x]) text)"

definition escapeText :: "utext \<Rightarrow> utext" where
  "escapeText text = replaceAll1 62 (codes ''&gt;'') (replaceAll1 60 (codes ''&lt;'') (replaceAll1 38 (codes ''&amp;'') text))"

datatype slack_text = PlainText utext | Mrkdwn utext

datatype slack_block = Header slack_text | SectionText slack_text | SectionFields "slack_text list" | Context slack_text | Button utext string

text \<open>The attachment is its color and its blocks.\<close>

record slack_payload =
  sp_text :: utext
  sp_mrkdwn :: bool
  sp_parse :: string
  sp_unfurl_links :: bool
  sp_unfurl_media :: bool
  sp_blocks :: "slack_block list"
  sp_attachment :: "(string \<times> slack_block list) option"

fun NOTIFICATION_ACTIONS :: "notification_kind \<Rightarrow> utext \<times> string" where
  "NOTIFICATION_ACTIONS DEVICE_OFFLINE = (kr_check_device, ''https://flyer-g.gistory.me/tv'')"
| "NOTIFICATION_ACTIONS DEVICE_RECOVERED = (kr_check_device, ''https://flyer-g.gistory.me/tv'')"
| "NOTIFICATION_ACTIONS REVIEW_REMINDER = (kr_check_requests, ''https://flyer-g.gistory.me/review'')"

definition action_button :: "notification_kind \<Rightarrow> slack_block" where
  "action_button k = (case NOTIFICATION_ACTIONS k of (label, url) \<Rightarrow> Button label url)"

definition card_field :: "utext \<times> utext \<Rightarrow> slack_text" where
  "card_field = (\<lambda>(label, value). Mrkdwn (codes ''*'' @ escapeText label @ codes ''*'' @ [10] @ escapeText value))"

definition slackPayload :: "notification_kind \<Rightarrow> utext \<Rightarrow> presentation option \<Rightarrow> slack_payload" where
  "slackPayload k text layout = (case layout of
      None \<Rightarrow> \<lparr>sp_text = text, sp_mrkdwn = False, sp_parse = ''none'', sp_unfurl_links = False, sp_unfurl_media = False,
        sp_blocks = [SectionText (PlainText text), action_button k], sp_attachment = None\<rparr>
    | Some p \<Rightarrow> \<lparr>sp_text = text, sp_mrkdwn = False, sp_parse = ''none'', sp_unfurl_links = False, sp_unfurl_media = False,
        sp_blocks = [Header (PlainText (pt_title p))],
        sp_attachment = Some (pt_color p, [SectionText (Mrkdwn (pt_summary p)), SectionFields (map card_field (pt_fields p)),
          Context (PlainText (pt_context p)), action_button k])\<rparr>)"

definition payload_of :: "(time \<Rightarrow> utext) \<Rightarrow> slack_notification \<Rightarrow> slack_payload" where
  "payload_of koreanTime n = slackPayload (sn_kind n) (text_of koreanTime (sn_text n)) (Some (presentation_of koreanTime (sn_text n)))"

section \<open>No text of a user is markup\<close>

definition no_markup :: "utext \<Rightarrow> bool" where
  "no_markup s \<longleftrightarrow> 60 \<notin> set s \<and> 62 \<notin> set s"

lemma plain_notifications: "\<not> sp_mrkdwn (payload_of koreanTime n)"
  by (simp add: payload_of_def slackPayload_def)

lemma no_markup_app [simp]: "no_markup (a @ b) \<longleftrightarrow> no_markup a \<and> no_markup b"
  by (auto simp: no_markup_def)

lemma no_markup_escape [simp]: "no_markup (escapeText s)"
  by (induction s) (auto simp: escapeText_def replaceAll1_def no_markup_def codes_def)

lemma nat_text_digits: "c \<in> set (codes (nat_text n)) \<Longrightarrow> 48 \<le> c \<and> c \<le> 57"
proof (induction n rule: nat_text.induct)
  case (1 n)
  have "n mod 10 < 10" by simp
  with 1 show ?case by (cases "n < 10") (auto simp: nat_text.simps[of n] codes_def of_char_of take_bit_nat_def simp del: nat_text.simps)
qed

lemma no_markup_num [simp]: "no_markup (num_text n)"
  using nat_text_digits[of 60 "nat n"] nat_text_digits[of 62 "nat n"] by (auto simp: no_markup_def num_text_def)

lemma no_markup_elapsed [simp]: "no_markup (elapsedLabel n)"
  by (simp add: elapsedLabel_def Let_def) (simp add: no_markup_def kr_seconds_def kr_minutes_def kr_hours_def kr_days_def codes_def)

lemma no_markup_pieces:
  "no_markup kr_no_answer" "no_markup kr_back_summary" "no_markup kr_summary_1" "no_markup kr_summary_2" "no_markup kr_summary_3" "no_markup kr_summary_4" "no_markup (codes ''*'')"
  by (simp_all add: no_markup_def kr_no_answer_def kr_back_summary_def kr_summary_1_def kr_summary_2_def kr_summary_3_def kr_summary_4_def codes_def)

lemma no_markup_summary: "no_markup (pt_summary (presentation_of koreanTime m))"
  by (cases m) (simp_all add: offline_card_def recovered_card_def review_card_def no_markup_pieces)

fun texts_of :: "slack_block \<Rightarrow> slack_text list" where
  "texts_of (Header x) = [x]"
| "texts_of (SectionText x) = [x]"
| "texts_of (SectionFields xs) = xs"
| "texts_of (Context x) = [x]"
| "texts_of (Button label url) = [PlainText label]"

definition payload_texts :: "slack_payload \<Rightarrow> slack_text list" where
  "payload_texts p = concat (map texts_of (sp_blocks p @ (case sp_attachment p of None \<Rightarrow> [] | Some (_, bs) \<Rightarrow> bs)))"


definition tag_notification :: slack_notification where
  "tag_notification = new_notification 1 (DeviceKey 70 5) (Some (70, 5)) (DEVICE_OFFLINE, OfflineText (codes ''<!channel>'') None 0 60 60000) 60000"


end
