(* ===== verification/Notification_Properties.thy ===== *)
theory Notification_Properties
  imports Dispatch_Steps Slack_Layout Lineup_Properties
begin

text \<open>
  What the administrators see: no notification is posted more than five times, a recovery only after its
  outage, one alert per outage, and no text of a user that the channel reads as markup.
\<close>

section \<open>Every step keeps the invariant\<close>

lemma count_id_Cons: "count_id i (n # xs) = count_id i xs + (if sn_id n = i then 1 else 0)"
  by (simp add: count_id_def)

lemma count_id_remove1: "n \<in> set xs \<Longrightarrow> count_id i xs = count_id i (remove1 n xs) + (if sn_id n = i then 1 else 0)"
  by (induction xs) (auto simp: count_id_def)

lemma count_id_filter: "count_id i (filter P xs) \<le> count_id i xs"
  by (induction xs) (auto simp: count_id_def)

lemma count_id_remove1_le: "count_id i (remove1 n xs) \<le> count_id i xs"
  by (induction xs) (auto simp: count_id_def)

lemma notify_ok_drop:
  assumes "notify_ok w" and "set ready \<subseteq> set (nw_ready w)" and "\<And>i. count_id i ready \<le> count_id i (nw_ready w)"
  shows "notify_ok (w\<lparr>nw_ready := ready, nw_out := out'\<rparr>)"
  using assms unfolding notify_ok_def tries_ok_def known_ok_def recoveries_ok_def
  by (auto intro: order_trans[OF add_left_mono[OF assms(3)]])

lemma notify_ok_post:
  assumes "notify_ok w" and n: "n \<in> set (nw_ready w)" and rel: "isRelevant cfg n t (nw_db w)"
  shows "notify_ok (w\<lparr>nw_ready := remove1 n (nw_ready w), nw_out := out', nw_posted := n # nw_posted w\<rparr>)"
proof -
  have "offline_sent (nw_db w) n" if k: "sn_kind n = DEVICE_RECOVERED"
  proof -
    obtain o' where o: "latestOffline (nw_db w) (sn_deviceId n) = Some o'" "sn_incidentId o' = sn_incidentId n" "sn_status o' = SLACK_SENT"
      using rel by (auto simp: isRelevant_def Let_def k split: if_splits option.splits)
    then obtain rest where "order_desc (\<lambda>n. (sn_createdAt n, sn_id n))
        (select (\<lambda>m. sn_deviceId n \<noteq> None \<and> sn_deviceId m = sn_deviceId n \<and> sn_kind m = DEVICE_OFFLINE) (note_rows (nw_db w))) = o' # rest"
      by (auto simp: latestOffline_def split: list.splits)
    then have "o' \<in> set (order_desc (\<lambda>n. (sn_createdAt n, sn_id n))
        (select (\<lambda>m. sn_deviceId n \<noteq> None \<and> sn_deviceId m = sn_deviceId n \<and> sn_kind m = DEVICE_OFFLINE) (note_rows (nw_db w))))"
      by simp
    with o show ?thesis by (auto simp: offline_sent_def)
  qed
  moreover have "known_ok (w\<lparr>nw_ready := remove1 n (nw_ready w), nw_out := out', nw_posted := n # nw_posted w\<rparr>)"
    using assms(1) n set_remove1_subset[of n "nw_ready w"] unfolding notify_ok_def known_ok_def by auto
  ultimately show ?thesis
    using assms(1) count_id_remove1[OF n]
    by (auto simp: notify_ok_def tries_ok_def recoveries_ok_def count_id_Cons)
qed

lemma notify_ok_claim:
  assumes ok: "notify_ok w" and c: "claim_notification token t (nw_db w) = (db', Some n)"
  shows "notify_ok (w\<lparr>nw_db := db', nw_ready := n # nw_ready w\<rparr>)"
proof -
  have d: "distinct (map sn_id (note_rows (nw_db w)))" using ok by (simp add: notify_ok_def notes_ok_def)
  note ch = claim_change(1)[OF c d]
  obtain m where n: "n \<in> set (note_rows db')" and m: "m \<in> set (note_rows (nw_db w))" "sn_id m = sn_id n" "sn_attempts n = sn_attempts m + 1"
    using claim_change(2)[OF c d refl] by blast
  have base: "notify_ok (w\<lparr>nw_db := db'\<rparr>)" by (rule notify_ok_db[OF ok ch])
  have d': "distinct (map sn_id (note_rows db'))" using d notes_change_ids[OF ch] by simp
  have "tries_ok (w\<lparr>nw_db := db', nw_ready := n # nw_ready w\<rparr>)"
    unfolding tries_ok_def
  proof
    fix x assume x: "x \<in> set (note_rows (nw_db (w\<lparr>nw_db := db', nw_ready := n # nw_ready w\<rparr>)))"
    show "count_id (sn_id x) (nw_posted (w\<lparr>nw_db := db', nw_ready := n # nw_ready w\<rparr>))
        + count_id (sn_id x) (nw_ready (w\<lparr>nw_db := db', nw_ready := n # nw_ready w\<rparr>)) \<le> sn_attempts x"
    proof (cases "sn_id x = sn_id n")
      case True
      with x n same_note[OF d'] have "x = n" by simp
      moreover have "count_id (sn_id m) (nw_posted w) + count_id (sn_id m) (nw_ready w) \<le> sn_attempts m"
        using ok m(1) by (simp add: notify_ok_def tries_ok_def)
      ultimately show ?thesis using m by (simp add: count_id_Cons)
    next
      case False
      with base x show ?thesis by (simp add: notify_ok_def tries_ok_def count_id_Cons)
    qed
  qed
  moreover have "known_ok (w\<lparr>nw_db := db', nw_ready := n # nw_ready w\<rparr>)"
    using base n by (auto simp: notify_ok_def known_ok_def)
  moreover have "recoveries_ok (w\<lparr>nw_db := db', nw_ready := n # nw_ready w\<rparr>)"
    using base by (simp add: notify_ok_def recoveries_ok_def)
  ultimately show ?thesis using base by (simp add: notify_ok_def)
qed

lemma notify_ok_adds:
  assumes ok: "notify_ok w" and a: "adds_new fresh (nw_db w) db'" and f: "fresh_rows fresh (nw_db w) db'"
    and k: "distinct (map sn_dedupeKey (note_rows db'))"
  shows "notify_ok (w\<lparr>nw_db := db'\<rparr>)"
proof -
  obtain new where new: "note_rows db' = note_rows (nw_db w) @ new"
    and n: "\<And>n. n \<in> set new \<Longrightarrow> note_ok n \<and> sn_attempts n = 0 \<and> sn_id n = fresh (sn_dedupeKey n)"
    using a by (auto simp: adds_new_def)
  have ids: "map sn_id new = map fresh (map sn_dedupeKey new)" using n by simp
  have new_key: "sn_dedupeKey n \<in> sn_dedupeKey ` set (note_rows db') - sn_dedupeKey ` set (note_rows (nw_db w))" if "n \<in> set new" for n
    using k that by (auto simp: new)
  have gone: "sn_id n \<notin> sn_id ` set (note_rows (nw_db w))" if "n \<in> set new" for n
    using n[OF that] f new_key[OF that] by (auto simp: fresh_rows_def Let_def)
  have "distinct (map sn_id new)"
  proof -
    have "distinct (map sn_dedupeKey new)" using k by (simp add: new)
    moreover have "inj_on fresh (sn_dedupeKey ` set new)"
      by (rule inj_on_subset[of fresh "sn_dedupeKey ` set (note_rows db') - sn_dedupeKey ` set (note_rows (nw_db w))"])
        (use f new_key in \<open>auto simp: fresh_rows_def Let_def\<close>)
    ultimately show ?thesis unfolding ids by (simp only: distinct_map set_map simp_thms)
  qed
  moreover have "set (map sn_id (note_rows (nw_db w))) \<inter> set (map sn_id new) = {}"
  proof (rule equals0I)
    fix x assume "x \<in> set (map sn_id (note_rows (nw_db w))) \<inter> set (map sn_id new)"
    then have x: "x \<in> sn_id ` set new" "x \<in> sn_id ` set (note_rows (nw_db w))" by simp_all
    from x(1) obtain n where "n \<in> set new" "x = sn_id n" by blast
    with gone[of n] x(2) show False by simp
  qed
  ultimately have "distinct (map sn_id (note_rows db'))" using ok by (simp add: notify_ok_def notes_ok_def new)
  then have "notes_ok db'" using ok n k by (auto simp: notify_ok_def notes_ok_def new)
  moreover have "count_id (sn_id m) (nw_posted w) + count_id (sn_id m) (nw_ready w) \<le> sn_attempts m" if m: "m \<in> set new" for m
  proof -
    have "sn_id x \<noteq> sn_id m" if x: "x \<in> set (nw_ready w) \<union> set (nw_posted w)" for x
    proof -
      have "sn_id x \<in> sn_id ` set (note_rows (nw_db w))"
        using ok x unfolding notify_ok_def known_ok_def by (metis imageI)
      with gone[OF m] show ?thesis by metis
    qed
    then have "filter (\<lambda>x. sn_id x = sn_id m) (nw_posted w) = []" "filter (\<lambda>x. sn_id x = sn_id m) (nw_ready w) = []"
      by (simp_all add: filter_empty_conv)
    then show ?thesis using n[OF m] by (simp add: count_id_def)
  qed
  ultimately show ?thesis
    using ok by (auto simp: notify_ok_def tries_ok_def known_ok_def recoveries_ok_def offline_sent_def new)
qed

lemma notify_step_ok: "notify_step cfg w w' \<Longrightarrow> notify_ok w \<Longrightarrow> notify_ok w'"
proof (induction rule: notify_step.induct)
  case (claimed token t w db' n)
  then show ?case by (rule_tac notify_ok_claim)
next
  case (no_claim token t w db')
  then have "distinct (map sn_id (note_rows (nw_db w)))" by (simp add: notify_ok_def notes_ok_def)
  from notify_ok_db[OF no_claim(2) claim_change(1)[OF no_claim(1) this]] show ?case .
next
  case (skipped n w t)
  show ?case by (rule notify_ok_drop[OF skipped(3)]) (simp_all add: count_id_remove1_le set_remove1_subset)
next
  case (posted n w t r)
  then show ?case by (rule_tac notify_ok_post)
next
  case (broken n w)
  show ?case by (rule notify_ok_drop[OF broken(2)]) (simp_all add: count_id_remove1_le set_remove1_subset)
next
  case (finished n o' w t)
  have "notify_ok (w\<lparr>nw_db := finish_notification n t (delivery_result cfg n o') (nw_db w)\<rparr>)"
    by (rule notify_ok_db[OF finished(2) finish_change])
  then show ?case by (simp add: notify_ok_def tries_ok_def known_ok_def recoveries_ok_def)
next
  case (died w P Q)
  show ?case by (rule notify_ok_drop[OF died]) (auto simp: count_id_filter)
next
  case (alerts locked fresh incident t w db' q)
  then have "adds_new fresh (nw_db w) db'" using alerts_add[of fresh "nw_db w" cfg locked incident t] by simp
  with alerts show ?case by (blast intro: notify_ok_adds)
next
  case (reminder locked fresh t w db' q)
  then have "adds_new fresh (nw_db w) db'" using reminder_adds[of fresh "nw_db w" cfg locked t] by simp
  moreover have "distinct (map sn_dedupeKey (note_rows db'))"
    using reminder_keys[of "nw_db w" cfg locked fresh t] reminder by (simp add: notify_ok_def notes_ok_def)
  ultimately show ?case using reminder by (blast intro: notify_ok_adds)
next
  case (elsewhere db' w)
  show ?case by (rule notify_ok_db[OF elsewhere(2)]) (simp add: elsewhere(1) notes_change_refl)
qed

definition notify_start :: "notify_world \<Rightarrow> bool" where
  "notify_start w \<longleftrightarrow> note_rows (nw_db w) = [] \<and> nw_ready w = [] \<and> nw_out w = [] \<and> nw_posted w = []"

lemma notify_reachable_ok: "(notify_step cfg)\<^sup>*\<^sup>* w0 w \<Longrightarrow> notify_start w0 \<Longrightarrow> notify_ok w"
proof (induction rule: rtranclp_induct)
  case base
  then show ?case by (simp add: notify_start_def notify_ok_def notes_ok_def tries_ok_def known_ok_def recoveries_ok_def)
next
  case (step y z)
  then show ?case by (blast intro: notify_step_ok)
qed

section \<open>Deliveries\<close>

text \<open>
  A run: an outage is announced, posted and marked sent, then a heartbeat comes, the recovery is queued and posted.
\<close>

definition sample_slack :: slack_config where
  "sample_slack = \<lparr>sc_url = ''hook'', sc_deviceAlerts = True, sc_reviewReminders = True\<rparr>"

definition tv_at :: "time \<Rightarrow> device" where
  "tv_at t = sample_device\<lparr>d_lastSeenAt := Some t\<rparr>"

definition tv_state :: "device_status \<Rightarrow> time \<Rightarrow> uuid option \<Rightarrow> time \<Rightarrow> device_alert_state" where
  "tv_state status seen incident t = \<lparr>das_deviceId = 70, das_status = status, das_observedLastSeenAt = Some seen, das_graceUntil = 1000000,
     das_incidentId = incident, das_checkedAt = t\<rparr>"

definition tv_lease :: "uuid option \<Rightarrow> time \<Rightarrow> time \<Rightarrow> slack_delivery_state" where
  "tv_lease token until next = \<lparr>sl_id = ''slack'', sl_claimToken = token, sl_lockedUntil = until, sl_nextSendAt = next\<rparr>"

definition tv_db :: "time \<Rightarrow> device_alert_state list \<Rightarrow> slack_notification list \<Rightarrow> slack_delivery_state list \<Rightarrow> database" where
  "tv_db seen states rows lease = empty_database\<lparr>t_devices := [tv_at seen], t_deviceAlertStates := states,
     t_slackNotifications := rows, t_slackDeliveryState := lease\<rparr>"

definition outage :: slack_notification where
  "outage = new_notification 1 (DeviceKey 70 5) (Some (70, 5)) (offlineMessage (tv_at 1000) 1000000) 1000000"

definition outage_tried :: slack_notification where
  "outage_tried = claimed_notification 9 0 outage"

definition outage_sent :: slack_notification where
  "outage_sent = settled_notification outage_tried 1000100 SLACK_SENT None outage_tried"

definition recovery :: slack_notification where
  "recovery = new_notification 2 (RecoveredKey 70 5) (Some (70, 5)) (recoveredMessage (tv_at 2000000) 1000000 2000010) 2000010"

definition recovery_tried :: slack_notification where
  "recovery_tried = claimed_notification 10 0 recovery"

definition tv_world :: "database \<Rightarrow> slack_notification list \<Rightarrow> (slack_notification \<times> delivery) list \<Rightarrow> slack_notification list \<Rightarrow> notify_world" where
  "tv_world db ready sending posts = \<lparr>nw_db = db, nw_ready = ready, nw_out = sending, nw_posted = posts\<rparr>"

lemmas tv_defs = tv_db_def empty_database_def tv_at_def sample_device_def tv_state_def tv_lease_def sample_slack_def

lemma tv_quiet: "ls_quietHours (alertSettingsOf (tv_db seen states rows lease) (tv_at t)) = []"
  by (simp add: alertSettingsOf_def tv_defs sample_change_def EMPTY_SETTINGS_def DEFAULT_LINEUP_SETTINGS_def resolveSettings_def or_else_def)

lemma never_quiet: "ls_quietHours settings = [] \<Longrightarrow> \<not> isQuietAt (ls_quietHours settings) t \<and> \<not> recentlySleeping settings t"
  by (simp add: recentlySleeping_def isQuietAt_def Let_def)

lemmas policy_defs = evaluateDeviceAlert_def Let_def deviceStatusOf_def heartbeat_since_def hasRecentHeartbeat_def ONLINE_WITHIN_MS_def

lemma outage_found: "ls_quietHours settings = [] \<Longrightarrow> evaluateDeviceAlert (tv_at 1000) settings None 1000000
    = \<lparr>da_state = tv_state OFFLINE 1000 None 1000000, da_shouldAlert = True, da_recoveredIncidentId = None\<rparr>"
  by (simp add: policy_defs recentlySleeping_def isQuietAt_def tv_at_def sample_device_def tv_state_def)

lemma recovery_found: "ls_quietHours settings = [] \<Longrightarrow> evaluateDeviceAlert (tv_at 2000000) settings (Some (tv_state OFFLINE 1000 (Some 5) 1000000)) 2000010
    = \<lparr>da_state = tv_state ONLINE 2000000 None 2000010, da_shouldAlert = False, da_recoveredIncidentId = Some 5\<rparr>"
  by (simp add: policy_defs recentlySleeping_def isQuietAt_def tv_at_def sample_device_def tv_state_def)

lemma sample_alert: "device_offline_alert sample_slack True (\<lambda>_. 1) (\<lambda>_. 5) 1000000 (tv_db 1000 [] [] [])
    = (tv_db 1000 [tv_state OFFLINE 1000 (Some 5) 1000000] [outage] [], Some 1)"
proof -
  have r: "t_devices (tv_db 1000 [] [] []) = [tv_at 1000]" "alertStateOf (tv_db 1000 [] [] []) 70 = None" "d_id (tv_at 1000) = 70"
    by (simp_all add: tv_defs alertStateOf_def)
  show ?thesis
    by (simp add: device_offline_alert_def r check_device_def outage_found[OF tv_quiet] queue_recovery_def checked_state_def)
      (simp add: tv_defs enabledFor_def slack_enabled_def save_alert_state_def queue_offline_def upsert_def insert_row_def outage_def)
qed

lemma sample_claim: "claim_notification 9 1000000 (tv_db 1000 [tv_state OFFLINE 1000 (Some 5) 1000000] [outage] [])
    = (tv_db 1000 [tv_state OFFLINE 1000 (Some 5) 1000000] [outage_tried] [tv_lease (Some 9) 1060000 1000000], Some outage_tried)"
  by (simp add: claim_notification_def Let_def tv_defs delivery_row_def insert_or_ignore_def insert_row_def lease_free_def take_lease_def
      LEASE_MS_def DELIVERY_ROW_def expire_notifications_def expired_notification_def next_notification_def select_def due_def
      outage_def new_notification_def NOTIFICATION_TTL_MS_def open_status_def offlineMessage_def order_asc_def MAX_ATTEMPTS_def
      set_notification_def outage_tried_def claimed_notification_def)

lemma sample_relevant: "isRelevant sample_slack outage_tried 1000050
    (tv_db 1000 [tv_state OFFLINE 1000 (Some 5) 1000000] [outage_tried] [tv_lease (Some 9) 1060000 1000000])"
proof -
  have o: "sn_kind outage_tried = DEVICE_OFFLINE" "sn_deviceId outage_tried = Some 70" "sn_incidentId outage_tried = Some 5"
    by (simp_all add: outage_tried_def claimed_notification_def outage_def new_notification_def offlineMessage_def Let_def)
  have d: "t_devices (tv_db 1000 ss ns ls) = [tv_at 1000]" "d_id (tv_at 1000) = 70" "d_lastSeenAt (tv_at 1000) = Some 1000"
    "d_isActive (tv_at 1000)" for ss ns ls by (simp_all add: tv_defs)
  have s: "alertStateOf (tv_db 1000 [tv_state OFFLINE 1000 (Some 5) 1000000] ns ls) 70 = Some (tv_state OFFLINE 1000 (Some 5) 1000000)" for ns ls
    by (simp add: alertStateOf_def tv_db_def tv_state_def)
  show ?thesis
    by (simp add: isRelevant_def o d s deviceStatusOf_def hasRecentHeartbeat_def ONLINE_WITHIN_MS_def never_quiet[OF tv_quiet] Let_def)
      (simp add: enabledFor_def slack_enabled_def sample_slack_def tv_state_def)
qed

lemma sample_finish: "finish_notification outage_tried 1000100 (delivery_result sample_slack outage_tried (Posted (Response 200 (Some 0) (codes ''ok''))))
      (tv_db 1000 [tv_state OFFLINE 1000 (Some 5) 1000000] [outage_tried] [tv_lease (Some 9) 1060000 1000000])
    = tv_db 1000 [tv_state OFFLINE 1000 (Some 5) 1000000] [outage_sent] [tv_lease None 1000100 1001200]"
proof -
  have r: "delivery_result sample_slack outage_tried (Posted (Response 200 (Some 0) (codes ''ok''))) = (SLACK_SENT, None)"
    by (simp add: delivery_result_def slack_send_def sample_slack_def Let_def js_trim_def js_white_def codes_def)
  show ?thesis
    by (simp add: r finish_notification_def tv_db_def empty_database_def own_lease_def tv_lease_def DELIVERY_ROW_def retry_after_def outage_sent_def)
      (simp add: outage_tried_def claimed_notification_def)
qed

lemma sample_recovery: "device_offline_alert sample_slack True (\<lambda>_. 2) (\<lambda>_. 6) 2000010
      (tv_db 2000000 [tv_state OFFLINE 1000 (Some 5) 1000000] [outage_sent] [tv_lease None 1000100 1001200])
    = (tv_db 2000000 [tv_state ONLINE 2000000 None 2000010] [outage_sent, recovery] [tv_lease None 1000100 1001200], Some 1)"
proof -
  have o: "sn_dedupeKey outage_sent = DeviceKey 70 5" "sn_status outage_sent = SLACK_SENT" "sn_createdAt outage_sent = 1000000"
    by (simp_all add: outage_sent_def outage_tried_def claimed_notification_def outage_def new_notification_def settled_notification_def)
  have r: "t_devices (tv_db 2000000 ss ns ls) = [tv_at 2000000]" "alertStateOf (tv_db 2000000 [tv_state OFFLINE 1000 (Some 5) 1000000] ns ls) 70 = Some (tv_state OFFLINE 1000 (Some 5) 1000000)"
    "d_id (tv_at 2000000) = 70" "t_slackNotifications (tv_db 2000000 ss ns ls) = ns" for ss ns ls
    by (simp_all add: tv_defs alertStateOf_def)
  have k: "sn_dedupeKey recovery = RecoveredKey 70 5" by (simp add: recovery_def new_notification_def)
  have q: "queue_recovery (\<lambda>_. 2) (tv_at 2000000) (Some 5) 2000010 (tv_db 2000000 [tv_state OFFLINE 1000 (Some 5) 1000000] [outage_sent] ls)
      = (tv_db 2000000 [tv_state OFFLINE 1000 (Some 5) 1000000] [outage_sent, recovery] ls, 1)" for ls
    by (simp add: queue_recovery_def r o recovery_def[symmetric] queue_notification_def k) (simp add: tv_db_def empty_database_def insert_row_def)
  show ?thesis
    by (simp add: device_offline_alert_def r check_device_def recovery_found[OF tv_quiet] q checked_state_def)
      (simp add: tv_db_def empty_database_def tv_state_def enabledFor_def slack_enabled_def sample_slack_def save_alert_state_def upsert_def)
qed

lemma sample_recovery_claim: "claim_notification 10 2000010 (tv_db 2000000 [tv_state ONLINE 2000000 None 2000010] [outage_sent, recovery] [tv_lease None 1000100 1001200])
    = (tv_db 2000000 [tv_state ONLINE 2000000 None 2000010] [outage_sent, recovery_tried] [tv_lease (Some 10) 2060010 1001200], Some recovery_tried)"
proof -
  have o: "sn_dedupeKey outage_sent = DeviceKey 70 5" "sn_status outage_sent = SLACK_SENT" "sn_id outage_sent = 1"
    by (simp_all add: outage_sent_def outage_tried_def claimed_notification_def outage_def new_notification_def settled_notification_def)
  show ?thesis
    by (simp add: claim_notification_def Let_def tv_db_def empty_database_def delivery_row_def insert_or_ignore_def lease_free_def take_lease_def
        tv_lease_def LEASE_MS_def DELIVERY_ROW_def expire_notifications_def expired_notification_def next_notification_def select_def due_def
        recovery_def new_notification_def NOTIFICATION_TTL_MS_def open_status_def recoveredMessage_def order_asc_def MAX_ATTEMPTS_def
        set_notification_def recovery_tried_def claimed_notification_def unsettledOffline_def o)
qed

lemma sample_recovery_relevant: "isRelevant sample_slack recovery_tried 2000020
    (tv_db 2000000 [tv_state ONLINE 2000000 None 2000010] [outage_sent, recovery_tried] [tv_lease (Some 10) 2060010 1001200])"
proof -
  have o: "sn_kind recovery_tried = DEVICE_RECOVERED" "sn_deviceId recovery_tried = Some 70" "sn_incidentId recovery_tried = Some 5"
    "sn_kind outage_sent = DEVICE_OFFLINE" "sn_status outage_sent = SLACK_SENT" "sn_deviceId outage_sent = Some 70" "sn_incidentId outage_sent = Some 5"
    by (simp_all add: outage_sent_def outage_tried_def settled_notification_def recovery_tried_def claimed_notification_def
      outage_def recovery_def new_notification_def offlineMessage_def recoveredMessage_def Let_def)
  have d: "t_devices (tv_db 2000000 ss ns ls) = [tv_at 2000000]" "t_slackNotifications (tv_db 2000000 ss ns ls) = ns"
    "d_id (tv_at 2000000) = 70" "d_lastSeenAt (tv_at 2000000) = Some 2000000" "d_isActive (tv_at 2000000)" for ss ns ls by (simp_all add: tv_defs)
  have s: "alertStateOf (tv_db 2000000 [tv_state ONLINE 2000000 None 2000010] ns ls) 70 = Some (tv_state ONLINE 2000000 None 2000010)" for ns ls
    by (simp add: alertStateOf_def tv_db_def tv_state_def)
  have l: "latestOffline (tv_db 2000000 ss [outage_sent, recovery_tried] ls) (Some 70) = Some outage_sent" for ss ls
    by (simp add: latestOffline_def d o select_def order_desc_def)
  show ?thesis
    by (simp add: isRelevant_def o d s l hasRecentHeartbeat_def ONLINE_WITHIN_MS_def Let_def)
      (simp add: enabledFor_def slack_enabled_def sample_slack_def tv_state_def)
qed

lemma world_steps:
  "device_offline_alert cfg locked fresh incident t db = (db', q) \<Longrightarrow> fresh_rows fresh db db' \<Longrightarrow> distinct (map sn_dedupeKey (note_rows db'))
    \<Longrightarrow> notify_step cfg (tv_world db ready sending posts) (tv_world db' ready sending posts)"
  "claim_notification token t db = (db', Some n) \<Longrightarrow> notify_step cfg (tv_world db [] sending posts) (tv_world db' [n] sending posts)"
  "isRelevant cfg n t db \<Longrightarrow> notify_step cfg (tv_world db [n] sending posts) (tv_world db [] ((n, Posted r) # sending) (n # posts))"
  "finish_notification n t (delivery_result cfg n o') db = db' \<Longrightarrow> notify_step cfg (tv_world db [] [(n, o')] posts) (tv_world db' [] [] posts)"
  "note_rows db' = note_rows db \<Longrightarrow> notify_step cfg (tv_world db ready sending posts) (tv_world db' ready sending posts)"
  using alerts[of cfg locked fresh incident t "tv_world db ready sending posts" db' q] claimed[of token t "tv_world db [] sending posts" db' n cfg]
    posted[of n "tv_world db [n] sending posts" cfg t r] finished[of n o' "tv_world db [] [(n, o')] posts" cfg t]
    elsewhere[of db' "tv_world db ready sending posts" cfg]
  by (auto simp: tv_world_def)

abbreviation outage_posted :: notify_world where
  "outage_posted \<equiv> tv_world (tv_db 1000 [tv_state OFFLINE 1000 (Some 5) 1000000] [outage_tried] [tv_lease (Some 9) 1060000 1000000]) []
     [(outage_tried, Posted (Response 200 (Some 0) (codes ''ok'')))] [outage_tried]"

abbreviation recovery_posted :: notify_world where
  "recovery_posted \<equiv> tv_world (tv_db 2000000 [tv_state ONLINE 2000000 None 2000010] [outage_sent, recovery_tried] [tv_lease (Some 10) 2060010 1001200]) []
     [(recovery_tried, Posted NoResponse)] [recovery_tried, outage_tried]"

lemma sample_rows: "note_rows (tv_db seen states rows lease) = rows" "sn_dedupeKey outage = DeviceKey 70 5" "sn_dedupeKey outage_sent = DeviceKey 70 5"
  "sn_dedupeKey recovery = RecoveredKey 70 5" "sn_id outage_sent = 1" "sn_kind recovery_tried = DEVICE_RECOVERED"
  by (simp_all add: tv_db_def outage_sent_def outage_tried_def settled_notification_def recovery_tried_def claimed_notification_def
      outage_def recovery_def new_notification_def recoveredMessage_def)

lemma sample_outage_run: "(notify_step sample_slack)\<^sup>*\<^sup>* (tv_world (tv_db 1000 [] [] []) [] [] []) outage_posted"
proof -
  have 1: "notify_step sample_slack (tv_world (tv_db 1000 [] [] []) [] [] []) (tv_world (tv_db 1000 [tv_state OFFLINE 1000 (Some 5) 1000000] [outage] []) [] [] [])"
    by (rule world_steps(1)[OF sample_alert]) (simp_all add: fresh_rows_def sample_rows)
  note 2 = world_steps(2)[OF sample_claim, where cfg = sample_slack and sending = "[]" and posts = "[]"]
  note 3 = world_steps(3)[OF sample_relevant, where sending = "[]" and posts = "[]" and r = "Response 200 (Some 0) (codes ''ok'')"]
  from 1 2 3 show ?thesis by (meson converse_rtranclp_into_rtranclp rtranclp.rtrancl_refl)
qed

lemma sample_recovery_run: "(notify_step sample_slack)\<^sup>*\<^sup>* outage_posted recovery_posted"
proof -
  let ?s = "[tv_state OFFLINE 1000 (Some 5) 1000000]" and ?l = "[tv_lease None 1000100 1001200]"
  have 1: "notify_step sample_slack outage_posted (tv_world (tv_db 1000 ?s [outage_sent] ?l) [] [] [outage_tried])"
    by (rule world_steps(4)[OF sample_finish])
  have 2: "notify_step sample_slack (tv_world (tv_db 1000 ?s [outage_sent] ?l) [] [] [outage_tried]) (tv_world (tv_db 2000000 ?s [outage_sent] ?l) [] [] [outage_tried])"
    by (rule world_steps(5)) (simp add: sample_rows)
  have 3: "notify_step sample_slack (tv_world (tv_db 2000000 ?s [outage_sent] ?l) [] [] [outage_tried])
      (tv_world (tv_db 2000000 [tv_state ONLINE 2000000 None 2000010] [outage_sent, recovery] ?l) [] [] [outage_tried])"
    by (rule world_steps(1)[OF sample_recovery]) (simp_all add: fresh_rows_def sample_rows)
  note 4 = world_steps(2)[OF sample_recovery_claim, where cfg = sample_slack and sending = "[]" and posts = "[outage_tried]"]
  note 5 = world_steps(3)[OF sample_recovery_relevant, where sending = "[]" and posts = "[outage_tried]" and r = NoResponse]
  from 1 2 3 4 5 show ?thesis by (meson converse_rtranclp_into_rtranclp rtranclp.rtrancl_refl)
qed

lemma sample_start: "notify_start (tv_world (tv_db 1000 [] [] []) [] [] [])"
  by (simp add: notify_start_def tv_world_def sample_rows)

text \<open>
  C37: Whatever pods do, also when they die while sending, lose their lease or run at the same time, no
  notification is posted to the channel more than five times.
\<close>

theorem posted_at_most_five:
  assumes "notify_start w0" and "(notify_step cfg)\<^sup>*\<^sup>* w0 w"
  shows "count_id i (nw_posted w) \<le> 5"
proof (cases "filter (\<lambda>n. sn_id n = i) (nw_posted w)")
  case (Cons n rest)
  note ok = notify_reachable_ok[OF assms(2,1)]
  have "n \<in> set (filter (\<lambda>n. sn_id n = i) (nw_posted w))" by (simp add: Cons)
  then have "n \<in> set (nw_posted w)" "sn_id n = i" by auto
  then obtain m where m: "m \<in> set (note_rows (nw_db w))" "sn_id m = i" using ok by (auto simp: notify_ok_def known_ok_def)
  have "count_id i (nw_posted w) + count_id i (nw_ready w) \<le> sn_attempts m" "sn_attempts m \<le> 5"
    using ok m by (auto simp: notify_ok_def tries_ok_def notes_ok_def note_ok_def MAX_ATTEMPTS_def)
  moreover have "0 \<le> count_id i (nw_ready w)" by (simp add: count_id_def)
  ultimately show ?thesis by simp
qed (simp add: count_id_def)

theorem posted_at_most_five_witness:
  "notify_start (tv_world (tv_db 1000 [] [] []) [] [] []) \<and> (notify_step sample_slack)\<^sup>*\<^sup>* (tv_world (tv_db 1000 [] [] []) [] [] []) outage_posted
   \<and> count_id (sn_id outage_tried) (nw_posted outage_posted) = 1 \<and> count_id (sn_id outage_tried) (nw_posted outage_posted) \<le> 5"
  using posted_at_most_five[OF sample_start sample_outage_run] sample_start sample_outage_run by (simp add: count_id_def tv_world_def)

text \<open>
  C38: A recovery is posted only when the outage of the same incident was delivered: its notification is
  marked sent, and stays so, whatever happens between.
\<close>

theorem recovery_after_outage:
  assumes "notify_start w0" and "(notify_step cfg)\<^sup>*\<^sup>* w0 w" and "n \<in> set (nw_posted w)" and "sn_kind n = DEVICE_RECOVERED"
  shows "\<exists>m \<in> set (note_rows (nw_db w)). sn_kind m = DEVICE_OFFLINE \<and> sn_deviceId m = sn_deviceId n
     \<and> sn_incidentId m = sn_incidentId n \<and> sn_status m = SLACK_SENT"
  using notify_reachable_ok[OF assms(2,1)] assms(3,4) by (simp add: notify_ok_def recoveries_ok_def offline_sent_def)

theorem recovery_after_outage_witness:
  "recovery_tried \<in> set (nw_posted recovery_posted) \<and> sn_kind recovery_tried = DEVICE_RECOVERED
   \<and> (\<exists>m \<in> set (note_rows (nw_db recovery_posted)). sn_kind m = DEVICE_OFFLINE \<and> sn_deviceId m = sn_deviceId recovery_tried
     \<and> sn_incidentId m = sn_incidentId recovery_tried \<and> sn_status m = SLACK_SENT)"
  using recovery_after_outage[OF sample_start rtranclp_trans[OF sample_outage_run sample_recovery_run], of recovery_tried]
  by (simp add: tv_world_def sample_rows)

section \<open>One alert per outage\<close>

text \<open>The checks of one screen by consecutive runs of the job, and whether each announced an outage.\<close>

type_synonym alert_check = "device \<times> lineup_settings \<times> uuid \<times> time"

fun alerts_of :: "device_alert_state option \<Rightarrow> alert_check list \<Rightarrow> bool list" where
  "alerts_of previous [] = []"
| "alerts_of previous ((d, settings, i, t) # cs) = (let result = evaluateDeviceAlert d settings previous t in
     da_shouldAlert result # alerts_of (Some (checked_state i result)) cs)"

definition silent :: "time option \<Rightarrow> alert_check list \<Rightarrow> bool" where
  "silent seen cs \<longleftrightarrow> list_all (\<lambda>(d, _). d_isActive d \<and> d_lastSeenAt d = seen) cs"

lemma check_keeps_incident:
  assumes "d_isActive d" and "d_lastSeenAt d = das_observedLastSeenAt p" and "das_incidentId p \<noteq> None" and "\<not> hasRecentHeartbeat d t"
  shows "\<not> da_shouldAlert (evaluateDeviceAlert d settings (Some p) t)"
    and "das_incidentId (checked_state i (evaluateDeviceAlert d settings (Some p) t)) = das_incidentId p"
  using assms by (auto simp: evaluateDeviceAlert_def checked_state_def Let_def deviceStatusOf_def heartbeat_since_def split: option.splits)

lemma observed_checked [simp]:
  "das_observedLastSeenAt (da_state (evaluateDeviceAlert d settings previous t)) = d_lastSeenAt d"
  "das_observedLastSeenAt (checked_state i (evaluateDeviceAlert d settings previous t)) = d_lastSeenAt d"
  by (simp_all add: evaluateDeviceAlert_def checked_state_def Let_def)

lemma alert_means_offline: "da_shouldAlert (evaluateDeviceAlert d settings previous t) \<Longrightarrow> \<not> hasRecentHeartbeat d t \<and> d_lastSeenAt d \<noteq> None"
  by (auto simp: evaluateDeviceAlert_def Let_def deviceStatusOf_def split: if_splits)

lemma no_alert_while_open:
  assumes "silent seen cs" and "das_incidentId p \<noteq> None" and "das_observedLastSeenAt p = seen" and "seen = Some s"
    and "list_all (\<lambda>(_, _, _, t). ONLINE_WITHIN_MS < t - s) cs"
  shows "True \<notin> set (alerts_of (Some p) cs)"
  using assms
proof (induction cs arbitrary: p)
  case (Cons c cs)
  obtain d settings i t where c: "c = (d, settings, i, t)" by (metis prod_cases4)
  have "\<not> hasRecentHeartbeat d t" using Cons.prems by (auto simp: c silent_def hasRecentHeartbeat_def)
  moreover have "d_isActive d" "d_lastSeenAt d = das_observedLastSeenAt p" "d_lastSeenAt d = seen" using Cons.prems by (auto simp: c silent_def)
  ultimately have r: "\<not> da_shouldAlert (evaluateDeviceAlert d settings (Some p) t)"
    "das_incidentId (checked_state i (evaluateDeviceAlert d settings (Some p) t)) = das_incidentId p" "d_lastSeenAt d = seen"
    using check_keeps_incident[of d p t] Cons.prems by auto
  have "True \<notin> set (alerts_of (Some (checked_state i (evaluateDeviceAlert d settings (Some p) t))) cs)"
    by (rule Cons.IH) (use Cons.prems r in \<open>simp_all add: c silent_def\<close>)
  with r show ?case by (simp add: c Let_def)
qed simp

text \<open>
  While a screen sends no heartbeat, any number of runs of the alert job, whatever becomes of its quiet
  hours and the rest of its row, announces at most one outage.
\<close>

theorem one_alert_per_outage:
  assumes "silent seen cs" and "sorted (map (\<lambda>(_, _, _, t). t) cs)"
  shows "count_list (alerts_of previous cs) True \<le> 1"
  using assms
proof (induction cs arbitrary: previous)
  case (Cons c cs)
  obtain d settings i t where c: "c = (d, settings, i, t)" by (metis prod_cases4)
  let ?r = "evaluateDeviceAlert d settings previous t"
  show ?case
  proof (cases "da_shouldAlert ?r")
    case True
    then obtain s where s: "seen = Some s" "ONLINE_WITHIN_MS < t - s" "d_lastSeenAt d = seen"
      using alert_means_offline[of d settings previous t] Cons.prems(1) by (auto simp: c silent_def hasRecentHeartbeat_def)
    have "True \<notin> set (alerts_of (Some (checked_state i ?r)) cs)"
      by (rule no_alert_while_open[where seen = seen and s = s])
        (use Cons.prems s True in \<open>auto simp: c silent_def checked_state_def list_all_iff\<close>)
    then have "count_list (alerts_of (Some (checked_state i ?r)) cs) True = 0" by (simp add: count_list_0_iff)
    then show ?thesis by (simp add: c Let_def)
  next
    case False
    with Cons show ?thesis by (simp add: c Let_def silent_def)
  qed
qed simp

definition two_checks :: "alert_check list" where
  "two_checks = [(tv_at 1000, DEFAULT_LINEUP_SETTINGS, 5, 1000000), (tv_at 1000, DEFAULT_LINEUP_SETTINGS, 6, 1060000)]"

theorem one_alert_per_outage_witness:
  "silent (Some 1000) two_checks \<and> sorted (map (\<lambda>(_, _, _, t). t) two_checks) \<and> hd (alerts_of None two_checks) \<and> count_list (alerts_of None two_checks) True \<le> 1"
proof -
  have q: "ls_quietHours DEFAULT_LINEUP_SETTINGS = []" by (simp add: DEFAULT_LINEUP_SETTINGS_def)
  have s: "silent (Some 1000) two_checks" "sorted (map (\<lambda>(_, _, _, t). t) two_checks)"
    by (simp_all add: silent_def two_checks_def tv_at_def sample_device_def)
  moreover have "hd (alerts_of None two_checks)" by (simp add: two_checks_def Let_def outage_found[OF q])
  ultimately show ?thesis using one_alert_per_outage[OF s, of None] by simp
qed

end
