(* ===== verification/Js_Number.thy ===== *)
theory Js_Number
  imports Prelude Complex_Main
begin

text \<open>
  The numbers that texts are: the function \<open>Number\<close> of ECMAScript on a string. Values are exact rationals
  where the language rounds to doubles.
\<close>

section \<open>Values\<close>

datatype js_num = NaN | Infinite bool | Num rat

fun js_gt :: "js_num \<Rightarrow> rat \<Rightarrow> bool" where
  "js_gt NaN _ = False"
| "js_gt (Infinite pos) _ = pos"
| "js_gt (Num x) y = (y < x)"

text \<open>Division of two values greater than 0.\<close>

fun js_div_pos :: "js_num \<Rightarrow> js_num \<Rightarrow> js_num" where
  "js_div_pos (Num x) (Num y) = Num (x / y)"
| "js_div_pos (Num x) (Infinite _) = Num 0"
| "js_div_pos (Infinite p) (Num y) = Infinite p"
| "js_div_pos _ _ = NaN"

text \<open>\<open>Math.round\<close>: the nearest whole number, the greater one of two.\<close>

definition math_round :: "rat \<Rightarrow> int" where
  "math_round x = \<lfloor>x + 1 / 2\<rfloor>"

lemma math_round_mono: "x \<le> y \<Longrightarrow> math_round x \<le> math_round y"
  by (simp add: math_round_def floor_mono)

lemma math_round_of_int [simp]: "math_round (of_int n) = n"
  by (simp add: math_round_def floor_eq_iff)

lemma math_round_numeral [simp]: "math_round (numeral n) = numeral n"
  using math_round_of_int[of "numeral n"] by simp

section \<open>Number\<close>

definition ascii_digit :: "char \<Rightarrow> bool" where
  "ascii_digit c \<longleftrightarrow> 48 \<le> (of_char c :: nat) \<and> of_char c \<le> (57 :: nat)"

definition digit_of :: "char \<Rightarrow> nat option" where
  "digit_of c = (let n = of_char c in
     if 48 \<le> n \<and> n \<le> 57 then Some (n - 48) else if 97 \<le> n \<and> n \<le> 102 then Some (n - 87)
     else if 65 \<le> n \<and> n \<le> 70 then Some (n - 55) else None)"

fun digits_val :: "nat \<Rightarrow> nat \<Rightarrow> string \<Rightarrow> nat option" where
  "digits_val b acc [] = Some acc"
| "digits_val b acc (c # cs) = (case digit_of c of
     Some d \<Rightarrow> if d < b then digits_val b (acc * b + d) cs else None | None \<Rightarrow> None)"

definition whole :: "nat \<Rightarrow> string \<Rightarrow> js_num" where
  "whole b s = (if s = [] then NaN else case digits_val b 0 s of Some n \<Rightarrow> Num (of_nat n) | None \<Rightarrow> NaN)"

text \<open>An exponent: a sign or none, then digits.\<close>

definition whole_of :: "string \<Rightarrow> nat option" where
  "whole_of s = (if s = [] then None else digits_val 10 0 s)"

definition exponent_of :: "string \<Rightarrow> int option" where
  "exponent_of s = (
     if take 1 s = ''-'' then map_option (\<lambda>n. - int n) (whole_of (drop 1 s))
     else if take 1 s = ''+'' then map_option int (whole_of (drop 1 s))
     else map_option int (whole_of s))"

definition decimal_of :: "string \<Rightarrow> rat option" where
  "decimal_of s = (
     let i = takeWhile ascii_digit s; r = dropWhile ascii_digit s;
         f = (if take 1 r = ''.'' then takeWhile ascii_digit (drop 1 r) else []);
         r = (if take 1 r = ''.'' then dropWhile ascii_digit (drop 1 r) else r) in
     if i = [] \<and> f = [] then None
     else case digits_val 10 0 (i @ f) of
       None \<Rightarrow> None
     | Some m \<Rightarrow> (let v = of_nat m / 10 ^ length f in
         if r = [] then Some v
         else if take 1 r \<in> {''e'', ''E''} then map_option (\<lambda>k. v * (10 powi k)) (exponent_of (drop 1 r)) else None))"

definition unsigned_of :: "string \<Rightarrow> js_num" where
  "unsigned_of s = (if s = ''Infinity'' then Infinite True else case decimal_of s of Some v \<Rightarrow> Num v | None \<Rightarrow> NaN)"

fun negated :: "js_num \<Rightarrow> js_num" where
  "negated NaN = NaN" | "negated (Infinite p) = Infinite (\<not> p)" | "negated (Num x) = Num (- x)"

definition blank_char :: "char \<Rightarrow> bool" where
  "blank_char c \<longleftrightarrow> of_char c \<in> {9, 10, 11, 12, 13, 32 :: nat}"

definition trim_ascii :: "string \<Rightarrow> string" where
  "trim_ascii s = rev (dropWhile blank_char (rev (dropWhile blank_char s)))"

definition js_Number :: "string \<Rightarrow> js_num" where
  "js_Number text = (let s = trim_ascii text; radix = take 2 s in
     if s = [] then Num 0
     else if radix \<in> {''0x'', ''0X''} then whole 16 (drop 2 s)
     else if radix \<in> {''0o'', ''0O''} then whole 8 (drop 2 s)
     else if radix \<in> {''0b'', ''0B''} then whole 2 (drop 2 s)
     else if take 1 s = ''-'' then negated (unsigned_of (drop 1 s))
     else if take 1 s = ''+'' then unsigned_of (drop 1 s)
     else unsigned_of s)"

lemmas js_Number_defs = js_Number_def trim_ascii_def blank_char_def unsigned_of_def decimal_of_def whole_def whole_of_def
  exponent_of_def ascii_digit_def digit_of_def Let_def

lemma js_Number_samples:
  "js_Number ''12.345'' = Num (12345 / 1000)" "js_Number '' -90 '' = Num (-90)" "js_Number ''N/A'' = NaN" "js_Number [] = Num 0"
  "js_Number ''0x1F'' = Num 31" "js_Number ''1e3'' = Num 1000" "js_Number ''.5'' = Num (1 / 2)" "js_Number ''5.'' = Num 5" "js_Number ''.'' = NaN"
  by (simp_all add: js_Number_defs)

end
