(* ===== verification/Media.thy ===== *)
theory Media
  imports Assets Lineups Js_Number "HOL-Library.Word"
begin

text \<open>
  What becomes of an uploaded file: \<open>assets/image-processor.ts\<close> and \<open>assets/video-processor.ts\<close>.

  The libraries are arguments: \<open>meta\<close> reads the head of an image under a limit of pixels, \<open>render\<close> makes one
  variant, \<open>sha\<close> is SHA-256 in hex, and \<open>tool\<close> runs a command on the files of the work directory: how it ended,
  and the files afterwards. \<open>readProbe\<close> is the JSON that \<open>ffprobe\<close> printed. Every command run is kept in
  \<open>wk_runs\<close>.
\<close>

type_synonym bytes = "8 word list"

datatype media_error = RejectedMedia msg | TransientVideo | ExitError | OtherFailure

section \<open>Images\<close>

record variant_spec =
  vsp_width :: int
  vsp_height :: int
  vsp_quality :: int

definition VARIANT_SPECS :: "(variant_name \<times> variant_spec) list" where
  "VARIANT_SPECS = [(THUMB, \<lparr>vsp_width = 400, vsp_height = 400, vsp_quality = 75\<rparr>),
     (PREVIEW, \<lparr>vsp_width = 1280, vsp_height = 1280, vsp_quality = 80\<rparr>),
     (TV, \<lparr>vsp_width = 1920, vsp_height = 1080, vsp_quality = 85\<rparr>)]"

definition MAX_IMAGE_PIXELS :: int where "MAX_IMAGE_PIXELS = 50000000"

definition MIME_BY_FORMAT :: "string \<rightharpoonup> string" where
  "MIME_BY_FORMAT = map_of [(''jpeg'', ''image/jpeg''), (''png'', ''image/png''), (''webp'', ''image/webp'')]"

record image_metadata =
  im_format :: "string option"
  im_pages :: "int option"
  im_autoOrient :: "int \<times> int"

type_synonym variants = "(variant_name \<times> bytes) list"

record processed_image =
  pri_mimeType :: string
  pri_width :: int
  pri_height :: int
  pri_checksum :: string
  pri_variants :: variants

definition sha256Checksum :: "(bytes \<Rightarrow> string) \<Rightarrow> bytes \<Rightarrow> string" where
  "sha256Checksum sha bs = ''sha256:'' @ sha bs"

fun render_all :: "(bytes \<Rightarrow> variant_spec \<Rightarrow> bytes option) \<Rightarrow> bytes \<Rightarrow> (variant_name \<times> variant_spec) list \<Rightarrow> variants option" where
  "render_all render input [] = Some []"
| "render_all render input ((name, spec) # rest) = (case render input spec of None \<Rightarrow> None
     | Some b \<Rightarrow> map_option (\<lambda>vs. (name, b) # vs) (render_all render input rest))"

definition makeVariants :: "(bytes \<Rightarrow> variant_spec \<Rightarrow> bytes option) \<Rightarrow> bytes \<Rightarrow> msg \<Rightarrow> media_error + variants" where
  "makeVariants render input corruptMessage = (case render_all render input VARIANT_SPECS of
      None \<Rightarrow> Inl (RejectedMedia corruptMessage) | Some vs \<Rightarrow> Inr vs)"

definition processImage :: "(int \<Rightarrow> bytes \<Rightarrow> image_metadata option) \<Rightarrow> (bytes \<Rightarrow> variant_spec \<Rightarrow> bytes option) \<Rightarrow> (bytes \<Rightarrow> string)
    \<Rightarrow> bytes \<Rightarrow> media_error + processed_image" where
  "processImage meta render sha bs = (case meta MAX_IMAGE_PIXELS bs of
      None \<Rightarrow> Inl (RejectedMedia (Msg ''The image cannot be read. Only JPEG, PNG and WebP files can be uploaded.''))
    | Some m \<Rightarrow> (case MIME_BY_FORMAT (or_else (im_format m) []) of
        None \<Rightarrow> Inl (RejectedMedia (Msg ''The format is not supported. Only JPEG, PNG and WebP files can be uploaded.''))
      | Some mimeType \<Rightarrow>
          if 1 < or_else (im_pages m) 1 then Inl (RejectedMedia (Msg ''Animated images cannot be uploaded.''))
          else (case makeVariants render bs (Msg ''The image is damaged and cannot be opened. Check the file and upload it again.'') of
              Inl e \<Rightarrow> Inl e
            | Inr vs \<Rightarrow> Inr \<lparr>pri_mimeType = mimeType, pri_width = fst (im_autoOrient m), pri_height = snd (im_autoOrient m),
                pri_checksum = sha256Checksum sha bs, pri_variants = vs\<rparr>)))"

section \<open>Commands\<close>

datatype command = Ffmpeg | Ffprobe

record command_run =
  cr_command :: command
  cr_args :: "string list"
  cr_timeoutMs :: time

datatype command_end = NotStarted | TimedOut | KilledBy string | Exited int utext

record work_dir =
  wk_files :: "string \<rightharpoonup> bytes"
  wk_runs :: "command_run list"

type_synonym tool = "(string \<rightharpoonup> bytes) \<Rightarrow> command_run \<Rightarrow> command_end \<times> (string \<rightharpoonup> bytes)"

type_synonym 'a media_step = "work_dir \<Rightarrow> (media_error + 'a) \<times> work_dir"

definition and_then :: "'a media_step \<Rightarrow> ('a \<Rightarrow> 'b media_step) \<Rightarrow> 'b media_step" where
  "and_then m f w = (case m w of (Inl e, w) \<Rightarrow> (Inl e, w) | (Inr x, w) \<Rightarrow> f x w)"

definition give :: "media_error + 'a \<Rightarrow> 'a media_step" where
  "give r w = (r, w)"

definition run_command :: "tool \<Rightarrow> command \<Rightarrow> string list \<Rightarrow> time \<Rightarrow> utext media_step" where
  "run_command tool c args timeoutMs w = (
     let r = \<lparr>cr_command = c, cr_args = args, cr_timeoutMs = timeoutMs\<rparr>; (ended, files) = tool (wk_files w) r;
         w = \<lparr>wk_files = files, wk_runs = wk_runs w @ [r]\<rparr> in
     (case ended of
        NotStarted \<Rightarrow> Inl TransientVideo
      | TimedOut \<Rightarrow> Inl TransientVideo
      | KilledBy _ \<Rightarrow> Inl TransientVideo
      | Exited code stdout \<Rightarrow> if code \<noteq> 0 then Inl ExitError else Inr stdout, w))"

text \<open>A failure of the command on this file is the fault of the file.\<close>

definition blame_file :: "msg \<Rightarrow> 'a media_step \<Rightarrow> 'a media_step" where
  "blame_file message m w = (case m w of (Inl ExitError, w) \<Rightarrow> (Inl (RejectedMedia message), w) | r \<Rightarrow> r)"

section \<open>Containers\<close>

datatype demuxer = DemuxMov | DemuxMatroska

record video_container =
  vc_mimeType :: string
  vc_demuxer :: demuxer

fun demuxer_name :: "demuxer \<Rightarrow> string" where
  "demuxer_name DemuxMov = ''mov''" | "demuxer_name DemuxMatroska = ''matroska''"

definition readUInt32BE :: "bytes \<Rightarrow> 32 word" where
  "readUInt32BE bs = word_rcat (take 4 bs)"

definition latin1 :: "bytes \<Rightarrow> string" where
  "latin1 bs = map (\<lambda>b. char_of (unat b)) bs"

definition detectContainer :: "bytes \<Rightarrow> video_container option" where
  "detectContainer file = (let head = take 12 file in
     if length head < 12 then None
     else if readUInt32BE head = 0x1a45dfa3 then Some \<lparr>vc_mimeType = ''video/webm'', vc_demuxer = DemuxMatroska\<rparr>
     else let box = latin1 (take 4 (drop 4 head)) in
       if box = ''ftyp''
       then Some \<lparr>vc_mimeType = if latin1 (drop 8 head) = ''qt  '' then ''video/quicktime'' else ''video/mp4'', vc_demuxer = DemuxMov\<rparr>
       else if box \<in> {''moov'', ''mdat'', ''wide'', ''free'', ''skip''} then Some \<lparr>vc_mimeType = ''video/quicktime'', vc_demuxer = DemuxMov\<rparr>
       else None)"

section \<open>What a probe found\<close>

record probe_stream =
  st_codec_type :: "string option"
  st_codec_name :: "string option"
  st_width :: "int option"
  st_height :: "int option"
  st_avg_frame_rate :: "string option"
  st_duration :: "string option"
  st_attached_pic :: "int option"
  st_rotations :: "int option list"
  st_rotate_tag :: "string option"

record probe_result =
  pb_streams :: "probe_stream list"
  pb_duration :: "string option"

record probed_video =
  pbv_width :: int
  pbv_height :: int
  pbv_durationMs :: int
  pbv_fps :: js_num
  pbv_hasAudio :: bool

definition MAX_VIDEO_PIXELS :: int where "MAX_VIDEO_PIXELS = 4096 * 2160"
definition MAX_OUTPUT_FPS :: rat where "MAX_OUTPUT_FPS = 30"
definition PROBE_TIMEOUT_MS :: time where "PROBE_TIMEOUT_MS = 30 * 1000"
definition TRANSCODE_TIMEOUT_MS :: time where "TRANSCODE_TIMEOUT_MS = 5 * 60 * 1000"
definition POSTER_FRAME_SECONDS :: rat where "POSTER_FRAME_SECONDS = 1"
definition maxVideoDurationSeconds :: rat where "maxVideoDurationSeconds = 30"

definition ACCEPTED_VIDEO_CODECS :: "string set" where
  "ACCEPTED_VIDEO_CODECS = {''h264'', ''hevc'', ''vp8'', ''vp9'', ''av1'', ''mpeg4'', ''prores''}"

definition nonzero_opt :: "int option \<Rightarrow> bool" where
  "nonzero_opt n \<longleftrightarrow> n \<noteq> None \<and> n \<noteq> Some 0"

definition is_video_stream :: "probe_stream \<Rightarrow> bool" where
  "is_video_stream s \<longleftrightarrow> st_codec_type s = Some ''video'' \<and> \<not> nonzero_opt (st_attached_pic s)"

fun split_slash :: "string \<Rightarrow> string list" where
  "split_slash [] = [[]]"
| "split_slash (c # cs) = (if c = CHR 0x2F then [] # split_slash cs
     else case split_slash cs of [] \<Rightarrow> [[c]] | p # ps \<Rightarrow> (c # p) # ps)"

definition parseFrameRate :: "string option \<Rightarrow> js_num" where
  "parseFrameRate value = (case map js_Number (split_slash (or_else value [])) of
      num # den # _ \<Rightarrow> if js_gt num 0 \<and> js_gt den 0 then js_div_pos num den else Num 0
    | _ \<Rightarrow> Num 0)"

text \<open>The rotation turns the picture to its side.\<close>

definition sideways_rotation :: "probe_stream \<Rightarrow> bool" where
  "sideways_rotation s = (case List.find (\<lambda>r. r \<noteq> None) (st_rotations s) of
      Some (Some r) \<Rightarrow> \<bar>r\<bar> mod 180 = 90
    | _ \<Rightarrow> (case js_Number (or_else (st_rotate_tag s) ''0'') of
        Num r \<Rightarrow> (let turned = \<bar>r\<bar> / 180 in turned - of_int \<lfloor>turned\<rfloor> = 1 / 2)
      | _ \<Rightarrow> False))"

definition probed_of :: "probe_result \<Rightarrow> probe_stream \<Rightarrow> int \<Rightarrow> int \<Rightarrow> rat \<Rightarrow> probed_video" where
  "probed_of result video w h seconds =
     \<lparr>pbv_width = (if sideways_rotation video then h else w), pbv_height = (if sideways_rotation video then w else h),
      pbv_durationMs = math_round (seconds * 1000), pbv_fps = parseFrameRate (st_avg_frame_rate video),
      pbv_hasAudio = list_ex (\<lambda>s. st_codec_type s = Some ''audio'') (pb_streams result)\<rparr>"

definition inspect :: "probe_result \<Rightarrow> rat \<Rightarrow> media_error + probed_video" where
  "inspect result maxSeconds = (case List.find is_video_stream (pb_streams result) of
      None \<Rightarrow> Inl (RejectedMedia (Msg ''There is no video track.''))
    | Some video \<Rightarrow>
        if \<not> nonzero_opt (st_width video) \<or> \<not> nonzero_opt (st_height video) then Inl (RejectedMedia (Msg ''There is no video track.''))
        else let w = the (st_width video); h = the (st_height video) in
          if or_else (st_codec_name video) [] \<notin> ACCEPTED_VIDEO_CODECS
          then Inl (RejectedMedia (MsgOf ''The video codec is not supported.'' (JText (or_else (st_codec_name video) ''unknown''))))
          else if MAX_VIDEO_PIXELS < w * h
          then Inl (RejectedMedia (MsgOf ''The resolution is too high. Upload a video of at most 4K (4096x2160).'' (JArr [JNum w, JNum h])))
          else case js_Number (or_else (or_else (map_option Some (pb_duration result)) (st_duration video)) ''N/A'') of
              Num seconds \<Rightarrow>
                if seconds \<le> 0 then Inl (RejectedMedia (Msg ''The length of the video is not known. Check the file and upload it again.''))
                else if maxSeconds < seconds then Inl (RejectedMedia (MsgOf ''A video may last at most the given seconds.'' (JNum (math_round maxSeconds))))
                else Inr (probed_of result video w h seconds)
            | _ \<Rightarrow> Inl (RejectedMedia (Msg ''The length of the video is not known. Check the file and upload it again.'')))"

section \<open>Making the files\<close>

text \<open>\<open>toFixed(3)\<close> of a number of thousandths.\<close>

definition thousandths :: "int \<Rightarrow> string" where
  "thousandths n = nat_text (nat (n div 1000)) @ ''.'' @ [dig (n div 100 mod 10), dig (n div 10 mod 10), dig (n mod 10)]"

definition join_path :: "string \<Rightarrow> string \<Rightarrow> string" where
  "join_path dir name = dir @ ''/'' @ name"

definition scale_filter :: string where
  "scale_filter = ''scale=w='' @ [CHR 0x27] @ ''min(1920,iw)'' @ [CHR 0x27] @ '':h='' @ [CHR 0x27] @ ''min(1080,ih)'' @ [CHR 0x27]
     @ '':force_original_aspect_ratio=decrease:force_divisible_by=2''"

definition video_filters :: "probed_video \<Rightarrow> string" where
  "video_filters probed = scale_filter @ (if js_gt (pbv_fps probed) MAX_OUTPUT_FPS then '',fps=30'' else []) @ '',format=yuv420p''"

definition damaged_video :: msg where
  "damaged_video = Msg ''The video is damaged and cannot be converted. Check the file and upload it again.''"

definition probe :: "tool \<Rightarrow> (utext \<Rightarrow> probe_result option) \<Rightarrow> string \<Rightarrow> video_container \<Rightarrow> rat \<Rightarrow> probed_video media_step" where
  "probe tool readProbe path c maxSeconds = and_then
     (blame_file (Msg ''The video cannot be read. Check the file and upload it again.'')
       (run_command tool Ffprobe [''-v'', ''error'', ''-protocol_whitelist'', ''file'', ''-f'', demuxer_name (vc_demuxer c),
          ''-show_streams'', ''-show_format'', ''-of'', ''json'', path] PROBE_TIMEOUT_MS))
     (\<lambda>output. give (case readProbe output of None \<Rightarrow> Inl OtherFailure | Some result \<Rightarrow> inspect result maxSeconds))"

definition transcode_args :: "string \<Rightarrow> video_container \<Rightarrow> probed_video \<Rightarrow> string \<Rightarrow> string list" where
  "transcode_args inputPath c probed outputPath =
     [''-hide_banner'', ''-nostdin'', ''-v'', ''error'',
      ''-protocol_whitelist'', ''file'', ''-f'', demuxer_name (vc_demuxer c), ''-i'', inputPath,
      ''-map'', ''0:v:0'', ''-map'', ''0:a:0?'',
      ''-map_metadata'', ''-1'', ''-map_chapters'', ''-1'', ''-sn'', ''-dn'',
      ''-vf'', video_filters probed,
      ''-c:v'', ''libx264'', ''-preset'', ''veryfast'', ''-crf'', ''23'',
      ''-maxrate'', ''6M'', ''-bufsize'', ''12M'', ''-profile:v'', ''high'',
      ''-c:a'', ''aac'', ''-b:a'', ''128k'', ''-ac'', ''2'',
      ''-t'', thousandths (pbv_durationMs probed),
      ''-movflags'', ''+faststart'', ''-f'', ''mp4'', ''-y'', outputPath]"

definition transcode :: "tool \<Rightarrow> string \<Rightarrow> video_container \<Rightarrow> probed_video \<Rightarrow> string \<Rightarrow> unit media_step" where
  "transcode tool inputPath c probed outputPath = and_then
     (blame_file damaged_video (run_command tool Ffmpeg (transcode_args inputPath c probed outputPath) TRANSCODE_TIMEOUT_MS))
     (\<lambda>_. give (Inr ()))"

definition measureDuration :: "tool \<Rightarrow> (utext \<Rightarrow> probe_result option) \<Rightarrow> string \<Rightarrow> int media_step" where
  "measureDuration tool readProbe videoPath = and_then
     (run_command tool Ffprobe [''-v'', ''error'', ''-protocol_whitelist'', ''file'', ''-f'', ''mp4'',
        ''-show_entries'', ''format=duration'', ''-of'', ''json'', videoPath] PROBE_TIMEOUT_MS)
     (\<lambda>output. give (case readProbe output of None \<Rightarrow> Inl OtherFailure
       | Some result \<Rightarrow> (case js_Number (or_else (pb_duration result) ''N/A'') of
            Num seconds \<Rightarrow> if seconds \<le> 0 then Inl (RejectedMedia damaged_video) else Inr (math_round (seconds * 1000))
          | _ \<Rightarrow> Inl (RejectedMedia damaged_video))))"

definition extractPosterFrame :: "tool \<Rightarrow> string \<Rightarrow> rat \<Rightarrow> string \<Rightarrow> unit media_step" where
  "extractPosterFrame tool videoPath atSeconds outputPath = and_then
     (run_command tool Ffmpeg [''-hide_banner'', ''-nostdin'', ''-v'', ''error'', ''-protocol_whitelist'', ''file'', ''-f'', ''mp4'',
        ''-ss'', thousandths (math_round (atSeconds * 1000)), ''-i'', videoPath,
        ''-frames:v'', ''1'', ''-map_metadata'', ''-1'', ''-y'', outputPath] PROBE_TIMEOUT_MS)
     (\<lambda>_. give (Inr ()))"

definition read_file :: "string \<Rightarrow> bytes media_step" where
  "read_file path w = (case wk_files w path of None \<Rightarrow> Inl OtherFailure | Some b \<Rightarrow> Inr b, w)"

record processed_video =
  prv_mimeType :: string
  prv_width :: int
  prv_height :: int
  prv_durationMs :: int
  prv_hasAudio :: bool
  prv_videoPath :: string
  prv_variants :: variants

definition processVideo :: "tool \<Rightarrow> (utext \<Rightarrow> probe_result option) \<Rightarrow> (bytes \<Rightarrow> variant_spec \<Rightarrow> bytes option)
    \<Rightarrow> string \<Rightarrow> string \<Rightarrow> rat \<Rightarrow> processed_video media_step" where
  "processVideo tool readProbe render inputPath workDir maxSeconds =
     and_then (read_file inputPath) (\<lambda>file.
       case detectContainer file of
         None \<Rightarrow> give (Inl (RejectedMedia (Msg ''The format is not supported. Only MP4, MOV and WebM videos can be uploaded.'')))
       | Some c \<Rightarrow>
         and_then (probe tool readProbe inputPath c maxSeconds) (\<lambda>probed.
         and_then (transcode tool inputPath c probed (join_path workDir ''video.mp4'')) (\<lambda>_.
         and_then (measureDuration tool readProbe (join_path workDir ''video.mp4'')) (\<lambda>durationMs.
         and_then (extractPosterFrame tool (join_path workDir ''video.mp4'') (min POSTER_FRAME_SECONDS (of_int durationMs / 2000))
             (join_path workDir ''poster.png'')) (\<lambda>_.
         and_then (read_file (join_path workDir ''poster.png'')) (\<lambda>poster.
         and_then (give (makeVariants render poster damaged_video)) (\<lambda>vs.
           give (Inr \<lparr>prv_mimeType = vc_mimeType c, prv_width = pbv_width probed, prv_height = pbv_height probed,
             prv_durationMs = durationMs, prv_hasAudio = pbv_hasAudio probed, prv_videoPath = join_path workDir ''video.mp4'',
             prv_variants = vs\<rparr>))))))))"

section \<open>As the services use it\<close>

definition failure_of :: "media_error \<Rightarrow> media_outcome" where
  "failure_of e = (case e of RejectedMedia m \<Rightarrow> MediaRejected m | _ \<Rightarrow> MediaFailed (Thrown None False None))"

definition image_outcome :: "bytes \<Rightarrow> media_error + processed_image \<Rightarrow> media_outcome" where
  "image_outcome bs r = (case r of Inl e \<Rightarrow> failure_of e
     | Inr p \<Rightarrow> MediaDone \<lparr>pm_mimeType = pri_mimeType p, pm_width = pri_width p, pm_height = pri_height p,
         pm_sizeBytes = int (length bs), pm_checksum = pri_checksum p, pm_durationMs = None, pm_hasAudio = None\<rparr>)"

definition video_outcome :: "int \<Rightarrow> string \<Rightarrow> media_error + processed_video \<Rightarrow> media_outcome" where
  "video_outcome fileBytes checksum r = (case r of Inl e \<Rightarrow> failure_of e
     | Inr p \<Rightarrow> MediaDone \<lparr>pm_mimeType = prv_mimeType p, pm_width = prv_width p, pm_height = prv_height p,
         pm_sizeBytes = fileBytes, pm_checksum = checksum, pm_durationMs = Some (prv_durationMs p), pm_hasAudio = Some (prv_hasAudio p)\<rparr>)"

text \<open>The work on a claimed video: the download, then the conversion in a directory of its own.\<close>

definition convert_video :: "tool \<Rightarrow> (utext \<Rightarrow> probe_result option) \<Rightarrow> (bytes \<Rightarrow> variant_spec \<Rightarrow> bytes option) \<Rightarrow> (bytes \<Rightarrow> string)
    \<Rightarrow> (asset \<Rightarrow> exc + bytes) \<Rightarrow> string \<Rightarrow> bool \<Rightarrow> conversion" where
  "convert_video tool readProbe render sha download workDir deleted a = (case download a of
      Inl e \<Rightarrow> (Inl e, MediaFailed e, deleted)
    | Inr bs \<Rightarrow>
        (let inputPath = join_path workDir ''original''; checksum = sha256Checksum sha bs;
             processed = fst (processVideo tool readProbe render inputPath workDir maxVideoDurationSeconds
               \<lparr>wk_files = [inputPath \<mapsto> bs], wk_runs = []\<rparr>) in
         (Inr (int (length bs), checksum), video_outcome (int (length bs)) checksum processed, deleted)))"

end
