(* ===== verification/Media_Properties.thy ===== *)
theory Media_Properties
  imports Media
begin

text \<open>
  What the processing of uploads guarantees: commands on an untrusted file are confined, what passes is within
  the policy, and so is every row that becomes ready.
\<close>

section \<open>Steps that fail\<close>

lemma and_then_ok: "and_then m f w = (Inr y, w') \<longleftrightarrow> (\<exists>x v. m w = (Inr x, v) \<and> f x v = (Inr y, w'))"
  by (auto simp: and_then_def split: prod.splits sum.splits)

lemma give_ok [simp]: "give r w = (Inr y, w') \<longleftrightarrow> r = Inr y \<and> w' = w"
  by (auto simp: give_def)

lemma read_file_ok [simp]: "read_file path w = (Inr b, w') \<longleftrightarrow> wk_files w path = Some b \<and> w' = w"
  by (auto simp: read_file_def split: option.splits)

lemma blame_file_ok [simp]: "blame_file message m w = (Inr y, w') \<longleftrightarrow> m w = (Inr y, w')"
  by (auto simp: blame_file_def split: prod.splits sum.splits media_error.splits)

section \<open>Commands are confined\<close>

text \<open>The file a command reads: what follows \<open>-i\<close>, and the last argument of \<open>ffprobe\<close>.\<close>

definition input_of :: "command_run \<Rightarrow> string" where
  "input_of r = (if cr_command r = Ffprobe then last (cr_args r) else hd (tl (dropWhile (\<lambda>a. a \<noteq> ''-i'') (cr_args r))))"

definition protocol_args :: "command_run \<Rightarrow> string list" where
  "protocol_args r = take 4 (dropWhile (\<lambda>a. a \<noteq> ''-protocol_whitelist'') (takeWhile (\<lambda>a. a \<noteq> ''-i'') (cr_args r)))"

text \<open>
  Only local files, a demuxer chosen by us before the input is named, a time limit; the upload itself is read
  with the demuxer of its signature, everything else read is what we made.
\<close>

definition confined :: "string \<Rightarrow> bytes \<Rightarrow> string \<Rightarrow> command_run \<Rightarrow> bool" where
  "confined inputPath file workDir r \<longleftrightarrow>
     cr_timeoutMs r \<le> TRANSCODE_TIMEOUT_MS
   \<and> (\<exists>d. protocol_args r = [''-protocol_whitelist'', ''file'', ''-f'', d]
       \<and> (input_of r = inputPath \<and> map_option (\<lambda>c. demuxer_name (vc_demuxer c)) (detectContainer file) = Some d
          \<or> input_of r = join_path workDir ''video.mp4'' \<and> d = ''mp4''))"

definition keeps :: "(command_run \<Rightarrow> bool) \<Rightarrow> 'a media_step \<Rightarrow> bool" where
  "keeps P m \<longleftrightarrow> (\<forall>w. list_all P (wk_runs w) \<longrightarrow> list_all P (wk_runs (snd (m w))))"

lemma keeps_then [intro]: "keeps P m \<Longrightarrow> (\<And>x. keeps P (f x)) \<Longrightarrow> keeps P (and_then m f)"
  unfolding keeps_def and_then_def by (fastforce split: prod.splits sum.splits)

lemma keeps_give [intro]: "keeps P (give r)"
  by (simp add: keeps_def give_def)

lemma keeps_read [intro]: "keeps P (read_file path)"
  by (simp add: keeps_def read_file_def)

lemma keeps_blame [intro]: "keeps P m \<Longrightarrow> keeps P (blame_file message m)"
  unfolding keeps_def blame_file_def by (fastforce split: prod.splits sum.splits media_error.splits)

lemma keeps_run: "P \<lparr>cr_command = c, cr_args = args, cr_timeoutMs = t\<rparr> \<Longrightarrow> keeps P (run_command tool c args t)"
  by (auto simp: keeps_def run_command_def Let_def split: prod.splits)

lemma thousandths_not_flag [simp]: "thousandths n \<noteq> ''-i''" "thousandths n \<noteq> ''-protocol_whitelist''"
proof -
  have "CHR ''.'' \<in> set (thousandths n)" by (simp add: thousandths_def)
  then show "thousandths n \<noteq> ''-i''" "thousandths n \<noteq> ''-protocol_whitelist''" by auto
qed

lemma confined_runs:
  assumes "detectContainer file = Some c"
  shows "confined inputPath file workDir \<lparr>cr_command = Ffprobe, cr_args = [''-v'', ''error'', ''-protocol_whitelist'', ''file'', ''-f'', demuxer_name (vc_demuxer c),
          ''-show_streams'', ''-show_format'', ''-of'', ''json'', inputPath], cr_timeoutMs = PROBE_TIMEOUT_MS\<rparr>"
    and "confined inputPath file workDir \<lparr>cr_command = Ffmpeg, cr_args = transcode_args inputPath c probed out, cr_timeoutMs = TRANSCODE_TIMEOUT_MS\<rparr>"
  using assms by (cases "vc_demuxer c"; simp add: confined_def protocol_args_def input_of_def PROBE_TIMEOUT_MS_def TRANSCODE_TIMEOUT_MS_def transcode_args_def)+

lemma keeps_processVideo:
  assumes "detectContainer file = Some c"
  shows "keeps (confined inputPath file workDir) (probe tool readProbe inputPath c maxSeconds)"
    and "keeps (confined inputPath file workDir) (transcode tool inputPath c probed out)"
    and "keeps (confined inputPath file workDir) (measureDuration tool readProbe (join_path workDir ''video.mp4''))"
    and "keeps (confined inputPath file workDir) (extractPosterFrame tool (join_path workDir ''video.mp4'') at_seconds png)"
proof -
  show "keeps (confined inputPath file workDir) (probe tool readProbe inputPath c maxSeconds)"
    unfolding probe_def by (intro keeps_then keeps_blame keeps_run keeps_give confined_runs(1)[OF assms])
  show "keeps (confined inputPath file workDir) (transcode tool inputPath c probed out)"
    unfolding transcode_def by (intro keeps_then keeps_blame keeps_run keeps_give confined_runs(2)[OF assms])
  show "keeps (confined inputPath file workDir) (measureDuration tool readProbe (join_path workDir ''video.mp4''))"
    unfolding measureDuration_def
    by (intro keeps_then keeps_run keeps_give)
      (simp add: confined_def protocol_args_def input_of_def PROBE_TIMEOUT_MS_def TRANSCODE_TIMEOUT_MS_def)
  show "keeps (confined inputPath file workDir) (extractPosterFrame tool (join_path workDir ''video.mp4'') at_seconds png)"
    unfolding extractPosterFrame_def
    by (intro keeps_then keeps_run keeps_give)
      (simp add: confined_def protocol_args_def input_of_def PROBE_TIMEOUT_MS_def TRANSCODE_TIMEOUT_MS_def)
qed

text \<open>
  C27: Whatever an uploaded video contains, every command run on it may open local files only, has its demuxer
  fixed before the file is named, for the upload by its signature, and has a time limit.
\<close>

theorem commands_confined:
  assumes "wk_files w inputPath = Some file" and "wk_runs w = []"
  shows "list_all (confined inputPath file workDir) (wk_runs (snd (processVideo tool readProbe render inputPath workDir maxSeconds w)))"
proof (cases "detectContainer file")
  case None
  with assms show ?thesis by (simp add: processVideo_def and_then_def read_file_def give_def)
next
  case (Some c)
  note k = keeps_processVideo[OF Some, of inputPath workDir]
  let ?rest = "and_then (probe tool readProbe inputPath c maxSeconds) (\<lambda>probed.
         and_then (transcode tool inputPath c probed (join_path workDir ''video.mp4'')) (\<lambda>_.
         and_then (measureDuration tool readProbe (join_path workDir ''video.mp4'')) (\<lambda>durationMs.
         and_then (extractPosterFrame tool (join_path workDir ''video.mp4'') (min POSTER_FRAME_SECONDS (of_int durationMs / 2000))
             (join_path workDir ''poster.png'')) (\<lambda>_.
         and_then (read_file (join_path workDir ''poster.png'')) (\<lambda>poster.
         and_then (give (makeVariants render poster damaged_video)) (\<lambda>vs.
           give (Inr \<lparr>prv_mimeType = vc_mimeType c, prv_width = pbv_width probed, prv_height = pbv_height probed,
             prv_durationMs = durationMs, prv_hasAudio = pbv_hasAudio probed, prv_videoPath = join_path workDir ''video.mp4'',
             prv_variants = vs\<rparr>)))))))"
  have "processVideo tool readProbe render inputPath workDir maxSeconds w = ?rest w"
    using assms Some by (simp add: processVideo_def and_then_def[of "read_file inputPath"] read_file_def)
  moreover have "keeps (confined inputPath file workDir) ?rest"
    by (intro keeps_then k keeps_give keeps_read)
  ultimately show ?thesis using assms(2) by (simp add: keeps_def)
qed

text \<open>Commands that work, on the head of an MP4 file.\<close>

definition working_tool :: tool where
  "working_tool files r = (if cr_command r = Ffprobe then (Exited 0 (codes ''{}''), files) else (Exited 0 [], files(last (cr_args r) \<mapsto> [1])))"

definition sample_stream :: probe_stream where
  "sample_stream = \<lparr>st_codec_type = Some ''video'', st_codec_name = Some ''h264'', st_width = Some 1920, st_height = Some 1080,
     st_avg_frame_rate = Some ''60/1'', st_duration = None, st_attached_pic = Some 0, st_rotations = [Some (-90)], st_rotate_tag = None\<rparr>"

definition sample_probe :: "utext \<Rightarrow> probe_result option" where
  "sample_probe = (\<lambda>_. Some \<lparr>pb_streams = [sample_stream], pb_duration = Some ''12.5''\<rparr>)"

definition mp4_head :: bytes where
  "mp4_head = [0, 0, 0, 24, 102, 116, 121, 112, 105, 115, 111, 109]"

definition mp4_dir :: work_dir where
  "mp4_dir = \<lparr>wk_files = [''w/original'' \<mapsto> mp4_head], wk_runs = []\<rparr>"

lemma mp4_detected: "detectContainer mp4_head = Some \<lparr>vc_mimeType = ''video/mp4'', vc_demuxer = DemuxMov\<rparr>"
  by code_simp

theorem commands_confined_witness:
  "wk_files mp4_dir ''w/original'' = Some mp4_head \<and> wk_runs mp4_dir = []
   \<and> list_all (confined ''w/original'' mp4_head ''w'')
       (wk_runs (snd (processVideo working_tool sample_probe (\<lambda>_ _. Some [1]) ''w/original'' ''w'' 30 mp4_dir)))"
  using commands_confined[of mp4_dir "''w/original''" mp4_head "''w''" working_tool sample_probe "\<lambda>_ _. Some [1]" 30] by (simp add: mp4_dir_def)

section \<open>Within the policy\<close>

lemma inspect_ok:
  assumes "inspect result maxSeconds = Inr p"
  shows "pbv_width p * pbv_height p \<le> MAX_VIDEO_PIXELS" and "pbv_width p \<noteq> 0" and "pbv_height p \<noteq> 0"
    and "0 \<le> pbv_durationMs p" and "pbv_durationMs p \<le> math_round (maxSeconds * 1000)"
proof -
  obtain v w h s where v: "st_width v = Some w" "st_height v = Some h" "w \<noteq> 0" "h \<noteq> 0" "w * h \<le> MAX_VIDEO_PIXELS" "0 < s" "s \<le> maxSeconds"
    "p = probed_of result v w h s"
    using assms by (auto simp: inspect_def nonzero_opt_def Let_def not_less not_le split: option.splits if_splits js_num.splits)
  then show "pbv_width p * pbv_height p \<le> MAX_VIDEO_PIXELS" "pbv_width p \<noteq> 0" "pbv_height p \<noteq> 0"
    by (simp_all add: probed_of_def mult.commute)
  have "math_round 0 \<le> math_round (s * 1000)" using v by (intro math_round_mono) simp
  moreover have "math_round (0 :: rat) = 0" using math_round_of_int[of 0] by simp
  ultimately show "0 \<le> pbv_durationMs p" using v by (simp add: probed_of_def)
  show "pbv_durationMs p \<le> math_round (maxSeconds * 1000)" using v by (auto simp: probed_of_def intro: math_round_mono)
qed

lemma render_all_names: "render_all render input specs = Some vs \<Longrightarrow> map fst vs = map fst specs"
  by (induction specs arbitrary: vs) (auto split: option.splits)

lemma makeVariants_ok: "makeVariants render input m = Inr vs \<Longrightarrow> map fst vs = [THUMB, PREVIEW, TV]"
  by (auto simp: makeVariants_def VARIANT_SPECS_def split: option.splits dest!: render_all_names)

lemma detect_mime: "detectContainer file = Some c \<Longrightarrow> vc_mimeType c \<in> set VIDEO_MIME_TYPES"
  by (auto simp: detectContainer_def VIDEO_MIME_TYPES_def Let_def split: if_splits)

lemma measured_positive:
  assumes "measureDuration tool readProbe path w = (Inr d, w')"
  shows "\<exists>s > 0. d = math_round (s * 1000)"
  using assms by (auto simp: measureDuration_def and_then_ok split: option.splits) (auto simp: not_le split: js_num.splits if_splits)

lemma processVideo_ok:
  assumes "processVideo tool readProbe render inputPath workDir maxSeconds w = (Inr v, w')"
  shows "prv_mimeType v \<in> set VIDEO_MIME_TYPES" and "prv_width v * prv_height v \<le> MAX_VIDEO_PIXELS" and "prv_width v \<noteq> 0" and "prv_height v \<noteq> 0"
    and "0 \<le> prv_durationMs v" and "map fst (prv_variants v) = [THUMB, PREVIEW, TV]"
proof -
  obtain bs where f: "wk_files w inputPath = Some bs"
    using assms by (auto simp: processVideo_def and_then_ok)
  obtain c where c: "detectContainer bs = Some c"
    using assms f by (cases "detectContainer bs") (auto simp: processVideo_def and_then_ok)
  obtain result probed w1 w2 where p: "inspect result maxSeconds = Inr probed" and
    v: "prv_mimeType v = vc_mimeType c" "prv_width v = pbv_width probed" "prv_height v = pbv_height probed"
      "measureDuration tool readProbe (join_path workDir ''video.mp4'') w1 = (Inr (prv_durationMs v), w2)"
      "\<exists>poster. makeVariants render poster damaged_video = Inr (prv_variants v)"
    using assms f c by (auto simp: processVideo_def and_then_ok probe_def split: option.splits) blast
  show "prv_mimeType v \<in> set VIDEO_MIME_TYPES" using v detect_mime[OF c] by simp
  show "prv_width v * prv_height v \<le> MAX_VIDEO_PIXELS" "prv_width v \<noteq> 0" "prv_height v \<noteq> 0" using inspect_ok[OF p] v by simp_all
  show "map fst (prv_variants v) = [THUMB, PREVIEW, TV]" using v(5) makeVariants_ok by blast
  obtain s :: rat where "0 < s" "prv_durationMs v = math_round (s * 1000)"
    using measured_positive[OF v(4)] by blast
  moreover have "math_round (0 :: rat) = 0" using math_round_of_int[of 0] by simp
  ultimately show "0 \<le> prv_durationMs v" using math_round_mono[of 0 "s * 1000"] by simp
qed

section \<open>Ready videos\<close>

definition video_in_policy :: "asset \<Rightarrow> bool" where
  "video_in_policy b \<longleftrightarrow> (case (a_mimeType b, a_width b, a_height b, a_durationMs b, a_sizeBytes b, a_checksum b) of
      (Some m, Some w, Some h, Some d, Some n, Some c) \<Rightarrow> m \<in> set VIDEO_MIME_TYPES \<and> w \<noteq> 0 \<and> h \<noteq> 0 \<and> w * h \<le> 4096 * 2160 \<and> 0 \<le> d
        \<and> n \<le> maxVideoUploadBytes \<and> (a_declaredChecksum b = None \<or> a_declaredChecksum b = Some [] \<or> a_declaredChecksum b = Some c)
    | _ \<Rightarrow> False)"

lemma video_check_done:
  assumes "video_check a downloaded outcome = MediaDone m"
  shows "\<exists>n c m'. downloaded = Inr (n, c) \<and> n \<le> maxVideoUploadBytes \<and> outcome = MediaDone m' \<and> m = m'\<lparr>pm_sizeBytes := n, pm_checksum := c\<rparr>
    \<and> (a_declaredChecksum a = None \<or> a_declaredChecksum a = Some [] \<or> a_declaredChecksum a = Some c)"
  using assms by (auto simp: video_check_def image_check_def not_less split: if_splits sum.splits media_outcome.splits)

lemma ready_rows:
  "b \<in> set (t_assets (fst (video_ready a m t db))) \<Longrightarrow> b \<in> set (t_assets db) \<or> (\<exists>x. stillClaimed a x \<and> x \<in> set (t_assets db) \<and> b = ready_video m t x)"
  by (auto simp: video_ready_def set_update_where)

lemma tables_kept [simp]: "t_assets (enqueueStorageDeletions ks t db) = t_assets db" "t_assets (handleLostClaim i t db) = t_assets db"
  by (simp_all add: enqueueStorageDeletions_def handleLostClaim_def)

lemma converted_rows:
  assumes "b \<in> set (t_assets (fst (fst (process_video convert t a w))))" and "a_status b = READY" and "b \<notin> set (t_assets (fst w))"
  shows "\<exists>m x. video_check a (fst (convert a)) (fst (snd (convert a))) = MediaDone m \<and> stillClaimed a x \<and> x \<in> set (t_assets (fst w)) \<and> b = ready_video m t x"
proof -
  obtain downloaded outcome deleted where c: "convert a = (downloaded, outcome, deleted)" by (metis prod_cases3)
  show ?thesis
  proof (cases "video_check a downloaded outcome")
    case (MediaDone m)
    with assms show ?thesis
      using ready_rows[of b a m t "fst w"]
      by (fastforce simp: process_video_def c Let_def put_files_def deleteOriginal_def split: if_splits prod.splits)
  next
    case (MediaRejected reason)
    with assms show ?thesis
      by (auto simp: process_video_def c reject_video_def markRejected_def deleteOriginal_def mark_rejected_rows_def rejected_asset_def set_update_where split: if_splits)
  next
    case (MediaFailed e)
    with assms show ?thesis
      by (auto simp: process_video_def c retry_video_def stillClaimed_def set_update_where)
  qed
qed

lemma ready_video_fields:
  assumes "stillClaimed a x" and "a_declaredChecksum x = a_declaredChecksum a" and "video_check a downloaded (video_outcome n c (fst (processVideo tool readProbe render inputPath workDir maxSeconds w))) = MediaDone m"
  shows "video_in_policy (ready_video m t x)"
proof -
  obtain n' c' m' where d: "downloaded = Inr (n', c')" "n' \<le> maxVideoUploadBytes" "m = m'\<lparr>pm_sizeBytes := n', pm_checksum := c'\<rparr>"
    "video_outcome n c (fst (processVideo tool readProbe render inputPath workDir maxSeconds w)) = MediaDone m'"
    "a_declaredChecksum a = None \<or> a_declaredChecksum a = Some [] \<or> a_declaredChecksum a = Some c'"
    using video_check_done[OF assms(3)] by blast
  obtain v w' where p: "processVideo tool readProbe render inputPath workDir maxSeconds w = (Inr v, w')"
    using d(4) by (cases "processVideo tool readProbe render inputPath workDir maxSeconds w"; cases "fst (processVideo tool readProbe render inputPath workDir maxSeconds w)")
      (auto simp: video_outcome_def failure_of_def split: media_error.splits)
  show ?thesis using processVideo_ok[OF p] d assms(2)
    by (auto simp: video_in_policy_def ready_video_def ready_asset_def p video_outcome_def MAX_VIDEO_PIXELS_def)
qed


definition claimed_video :: asset where
  "claimed_video = \<lparr>a_id = 40, a_ownerId = 7, a_status = PROCESSING, a_kind = VIDEO, a_fileName = codes ''clip'', a_declaredMimeType = ''video/mp4'',
     a_declaredSizeBytes = 12, a_declaredChecksum = None, a_uploadExpiresAt = 900, a_mimeType = None, a_width = None, a_height = None,
     a_sizeBytes = None, a_checksum = None, a_durationMs = None, a_hasAudio = None, a_processingAttempts = 1, a_processingStartedAt = Some 5,
     a_rejectionReason = None, a_processedAt = None, a_createdAt = 0, a_updatedAt = 5\<rparr>"

definition claimed_db :: database where
  "claimed_db = empty_database\<lparr>t_assets := [claimed_video]\<rparr>"

definition sample_conversion :: conversion where
  "sample_conversion = convert_video working_tool sample_probe (\<lambda>_ _. Some [1]) (\<lambda>_. ''ab'') (\<lambda>_. Inr mp4_head) ''w'' True"

definition converted_media :: processed_media where
  "converted_media = \<lparr>pm_mimeType = ''video/mp4'', pm_width = 1080, pm_height = 1920, pm_sizeBytes = 12, pm_checksum = ''sha256:ab'',
     pm_durationMs = Some 12500, pm_hasAudio = Some False\<rparr>"

lemma sample_inspect: "inspect \<lparr>pb_streams = [sample_stream], pb_duration = Some ''12.5''\<rparr> maxVideoDurationSeconds
    = Inr \<lparr>pbv_width = 1080, pbv_height = 1920, pbv_durationMs = 12500, pbv_fps = Num 60, pbv_hasAudio = False\<rparr>"
  by (simp add: inspect_def sample_stream_def is_video_stream_def nonzero_opt_def or_else_def ACCEPTED_VIDEO_CODECS_def MAX_VIDEO_PIXELS_def
      js_Number_defs maxVideoDurationSeconds_def probed_of_def sideways_rotation_def parseFrameRate_def)

lemma sample_processed: "\<exists>w. processVideo working_tool sample_probe (\<lambda>_ _. Some [1]) ''w/original'' ''w'' maxVideoDurationSeconds mp4_dir
    = (Inr \<lparr>prv_mimeType = ''video/mp4'', prv_width = 1080, prv_height = 1920, prv_durationMs = 12500, prv_hasAudio = False,
        prv_videoPath = ''w/video.mp4'', prv_variants = [(THUMB, [1]), (PREVIEW, [1]), (TV, [1])]\<rparr>, w)"
  by (simp add: processVideo_def and_then_def read_file_def mp4_dir_def mp4_detected probe_def blame_file_def run_command_def working_tool_def
      sample_probe_def give_def sample_inspect transcode_def transcode_args_def measureDuration_def or_else_def js_Number_defs
      extractPosterFrame_def join_path_def makeVariants_def VARIANT_SPECS_def)

lemma sample_converted: "sample_conversion claimed_video = (Inr (12, ''sha256:ab''), MediaDone converted_media, True)"
proof -
  obtain w where "processVideo working_tool sample_probe (\<lambda>_ _. Some [1]) ''w/original'' ''w'' maxVideoDurationSeconds \<lparr>wk_files = [''w/original'' \<mapsto> mp4_head], wk_runs = []\<rparr>
    = (Inr \<lparr>prv_mimeType = ''video/mp4'', prv_width = 1080, prv_height = 1920, prv_durationMs = 12500, prv_hasAudio = False,
        prv_videoPath = ''w/video.mp4'', prv_variants = [(THUMB, [1]), (PREVIEW, [1]), (TV, [1])]\<rparr>, w)"
    using sample_processed by (auto simp: mp4_dir_def)
  then show ?thesis
    by (simp add: sample_conversion_def convert_video_def Let_def join_path_def sha256Checksum_def video_outcome_def converted_media_def mp4_head_def)
qed


end
