(* ===== verification/Routes.thy ===== *)
theory Routes
  imports Devices
begin

text \<open>
  The HTTP surface: the routes the controllers declare, each with the guard in front of it, the pipes of its
  parameters, its status and whether it is idempotent, and how a request reaches a handler: the global guards
  (\<open>JwtAuthGuard\<close>, \<open>RolesGuard\<close>) or the device guard, then the pipes, then the handler.

  A path is the list of its segments. The router takes the first route that fits, as Express does. The bodies
  of the handlers are the services of the other theories.
\<close>

section \<open>Routes\<close>

datatype verb = HttpGet | HttpPost | HttpPut | HttpPatch | HttpDelete

datatype segment = Lit string | Param string

text \<open>\<open>@Public()\<close>, the roles of \<open>@Roles\<close> (none: any signed-in user), or \<open>@DeviceAuth()\<close>.\<close>

datatype access = PublicRoute | UserRoute "role list" | DeviceRoute

text \<open>A \<open>ParseUUIDPipe\<close> of a parameter with the message of its 404, or the pipe of a role.\<close>

datatype pipe = UuidPipe string string | RolePipe string

datatype idempotence = Plain | Idempotent

record route =
  rt_verb :: verb
  rt_path :: "segment list"
  rt_access :: access
  rt_status :: int
  rt_idempotence :: idempotence
  rt_pipes :: "pipe list"
  rt_handler :: "string \<times> string"

definition mk_route :: "string \<Rightarrow> verb \<Rightarrow> segment list \<Rightarrow> access \<Rightarrow> int \<Rightarrow> idempotence \<Rightarrow> pipe list \<Rightarrow> string \<Rightarrow> route" where
  "mk_route controller v path acc status idem pipes handler = \<lparr>rt_verb = v, rt_path = path, rt_access = acc, rt_status = status,
     rt_idempotence = idem, rt_pipes = pipes, rt_handler = (controller, handler)\<rparr>"

abbreviation signed_in :: access where "signed_in \<equiv> UserRoute []"
abbreviation reviewers :: access where "reviewers \<equiv> UserRoute [Granted REVIEWER]"
abbreviation super_admins :: access where "super_admins \<equiv> UserRoute [Granted SUPER_ADMIN]"

definition AppController :: "route list" where
  "AppController = [mk_route ''AppController'' HttpGet [] PublicRoute 200 Plain [] ''getHello'']"

definition HealthController :: "route list" where
  "HealthController = [mk_route ''HealthController'' HttpGet [Lit ''health''] PublicRoute 200 Plain [] ''check'']"

definition AuthController :: "route list" where
  "AuthController = (let r = mk_route ''AuthController''; base = Lit ''auth'' in
     [r HttpPost [base, Lit ''login''] PublicRoute 200 Plain [] ''login'',
      r HttpPost [base, Lit ''refresh''] PublicRoute 200 Plain [] ''refresh'',
      r HttpGet [base, Lit ''session''] signed_in 200 Plain [] ''getSession'',
      r HttpPost [base, Lit ''logout''] PublicRoute 204 Plain [] ''logout''])"

definition UsersController :: "route list" where
  "UsersController = (let r = mk_route ''UsersController''; users = [Lit ''signage'', Lit ''users''];
     role = users @ [Param ''id'', Lit ''roles'', Param ''role''];
     pipes = [UuidPipe ''id'' ''User not found'', RolePipe ''role''] in
     [r HttpGet users super_admins 200 Plain [] ''list'',
      r HttpPut role super_admins 200 Plain pipes ''grant'',
      r HttpDelete role super_admins 204 Plain pipes ''revoke''])"

definition AuditLogsController :: "route list" where
  "AuditLogsController = [mk_route ''AuditLogsController'' HttpGet [Lit ''signage'', Lit ''audit-logs''] signed_in 200 Plain [] ''list'']"

definition PolicyController :: "route list" where
  "PolicyController = [mk_route ''PolicyController'' HttpGet [Lit ''signage'', Lit ''config''] signed_in 200 Plain [] ''getConfig'']"

definition CategoriesController :: "route list" where
  "CategoriesController = [mk_route ''CategoriesController'' HttpGet [Lit ''signage'', Lit ''categories''] signed_in 200 Plain [] ''findAll'']"

definition TargetGroupsController :: "route list" where
  "TargetGroupsController = (let r = mk_route ''TargetGroupsController''; groups = [Lit ''signage'', Lit ''target-groups''] in
     [r HttpGet groups signed_in 200 Plain [] ''findAll'',
      r HttpPost groups super_admins 201 Plain [] ''create'',
      r HttpPatch (groups @ [Param ''id'']) super_admins 200 Plain [] ''update'',
      r HttpDelete (groups @ [Param ''id'']) super_admins 204 Plain [] ''remove''])"

definition LineupsController :: "route list" where
  "LineupsController = (let r = mk_route ''LineupsController''; lineup = [Lit ''signage'', Lit ''target-groups'', Param ''id'', Lit ''lineup''] in
     [r HttpGet lineup super_admins 200 Plain [] ''get'',
      r HttpPut lineup super_admins 200 Plain [] ''replace''])"

definition LiveController :: "route list" where
  "LiveController = (let r = mk_route ''LiveController'';
     device = [Lit ''signage'', Lit ''devices'', Param ''id'', Lit ''live''];
     group = [Lit ''signage'', Lit ''target-groups'', Param ''id'', Lit ''live''];
     pipes = [UuidPipe ''id'' ''Device not found''] in
     [r HttpPut device super_admins 200 Plain pipes ''setDevice'',
      r HttpDelete device super_admins 204 Plain pipes ''clearDevice'',
      r HttpGet group super_admins 200 Plain [] ''getGroup'',
      r HttpPut group super_admins 200 Plain [] ''setGroup'',
      r HttpDelete group super_admins 204 Plain [] ''clearGroup''])"

definition ProgramsController :: "route list" where
  "ProgramsController = (let r = mk_route ''ProgramsController''; programs = [Lit ''signage'', Lit ''programs''] in
     [r HttpGet [Lit ''signage'', Lit ''program-types''] super_admins 200 Plain [] ''types'',
      r HttpGet programs super_admins 200 Plain [] ''list'',
      r HttpGet (programs @ [Param ''id'']) super_admins 200 Plain [] ''findOne'',
      r HttpPost programs super_admins 201 Plain [] ''create'',
      r HttpPatch (programs @ [Param ''id'']) super_admins 200 Plain [] ''update'',
      r HttpDelete (programs @ [Param ''id'']) super_admins 204 Plain [] ''remove''])"

definition AssetsController :: "route list" where
  "AssetsController = (let r = mk_route ''AssetsController''; assets = [Lit ''signage'', Lit ''assets''] in
     [r HttpPost (assets @ [Lit ''presign'']) signed_in 201 Plain [] ''presign'',
      r HttpPost (assets @ [Param ''assetId'', Lit ''complete'']) signed_in 200 Plain [UuidPipe ''assetId'' ''Asset not found''] ''complete''])"

definition submissions_routes :: "route list" where
  "submissions_routes = (let r = mk_route ''SubmissionsController''; submissions = [Lit ''signage'', Lit ''submissions''];
     one = submissions @ [Param ''id'']; pipes = [UuidPipe ''id'' ''Submission not found''] in
     [r HttpPost submissions signed_in 201 Idempotent [] ''create'',
      r HttpGet submissions signed_in 200 Plain [] ''list'',
      r HttpGet (submissions @ [Lit ''summary'']) signed_in 200 Plain [] ''summary'',
      r HttpGet one signed_in 200 Plain pipes ''findOne'',
      r HttpPatch one signed_in 200 Plain pipes ''update''])"

definition submission_action_routes :: "route list" where
  "submission_action_routes = (let r = mk_route ''SubmissionsController'';
     one = [Lit ''signage'', Lit ''submissions'', Param ''id'']; pipes = [UuidPipe ''id'' ''Submission not found''] in
     [r HttpPost (one @ [Lit ''submit'']) signed_in 200 Idempotent pipes ''submit'',
      r HttpPost (one @ [Lit ''cancel'']) signed_in 200 Idempotent pipes ''cancel'',
      r HttpPost (one @ [Lit ''reveal-author'']) super_admins 200 Plain pipes ''revealAuthor''])"

definition SubmissionsController :: "route list" where
  "SubmissionsController = submissions_routes @ submission_action_routes"

definition StoriesController :: "route list" where
  "StoriesController = [mk_route ''StoriesController'' HttpGet [Lit ''signage'', Lit ''stories'', Lit ''recent''] signed_in 200 Plain [] ''recent'']"

definition ReviewsController :: "route list" where
  "ReviewsController = (let r = mk_route ''ReviewsController''; one = [Lit ''signage'', Lit ''submissions'', Param ''id''];
     pipes = [UuidPipe ''id'' ''Submission not found''] in
     [r HttpGet [Lit ''signage'', Lit ''reviews''] reviewers 200 Plain [] ''queue'',
      r HttpPost (one @ [Lit ''approve'']) reviewers 200 Idempotent pipes ''approve'',
      r HttpPost (one @ [Lit ''reject'']) reviewers 200 Idempotent pipes ''reject'',
      r HttpPost (one @ [Lit ''suspend'']) signed_in 200 Idempotent pipes ''suspend'',
      r HttpGet (one @ [Lit ''reviews'']) signed_in 200 Plain pipes ''history''])"

definition DevicesController :: "route list" where
  "DevicesController = (let r = mk_route ''DevicesController''; devices = [Lit ''signage'', Lit ''devices'']; one = devices @ [Param ''id''];
     pipes = [UuidPipe ''id'' ''Device not found''] in
     [r HttpGet devices reviewers 200 Plain [] ''list'',
      r HttpGet one reviewers 200 Plain pipes ''findOne'',
      r HttpPost devices super_admins 201 Plain [] ''create'',
      r HttpPatch one super_admins 200 Plain pipes ''update'',
      r HttpPost (one @ [Lit ''rotate-token'']) super_admins 200 Plain pipes ''rotateToken'',
      r HttpPost (one @ [Lit ''reload'']) super_admins 200 Plain pipes ''reload''])"

definition DeviceRuntimeController :: "route list" where
  "DeviceRuntimeController = [mk_route ''DeviceRuntimeController'' HttpGet
     [Lit ''signage'', Lit ''devices'', Param ''deviceId'', Lit ''session''] DeviceRoute 200 Plain [] ''session'']"

definition PlaylistController :: "route list" where
  "PlaylistController = [mk_route ''PlaylistController'' HttpGet
     [Lit ''signage'', Lit ''devices'', Param ''deviceId'', Lit ''playlist''] DeviceRoute 200 Plain [] ''playlist'']"

definition PlaylistPreviewController :: "route list" where
  "PlaylistPreviewController = [mk_route ''PlaylistPreviewController'' HttpGet
     [Lit ''signage'', Lit ''devices'', Param ''id'', Lit ''playlist-preview''] reviewers 200 Plain [UuidPipe ''id'' ''Device not found''] ''preview'']"

definition DeviceTelemetryController :: "route list" where
  "DeviceTelemetryController = (let r = mk_route ''DeviceTelemetryController''; one = [Lit ''signage'', Lit ''devices'', Param ''deviceId''] in
     [r HttpPost (one @ [Lit ''heartbeat'']) DeviceRoute 204 Plain [] ''heartbeat'',
      r HttpPost (one @ [Lit ''play-events'']) DeviceRoute 200 Plain [] ''playEvents''])"

definition StatsController :: "route list" where
  "StatsController = [mk_route ''StatsController'' HttpGet [Lit ''signage'', Lit ''stats'', Lit ''impressions''] signed_in 200 Plain [] ''impressions'']"

definition api_routes :: "route list" where
  "api_routes = AppController @ HealthController @ AuthController @ UsersController @ AuditLogsController @ PolicyController
     @ CategoriesController @ TargetGroupsController @ LineupsController @ LiveController @ ProgramsController @ AssetsController
     @ SubmissionsController @ StoriesController @ ReviewsController @ DevicesController @ DeviceRuntimeController
     @ PlaylistController @ PlaylistPreviewController @ DeviceTelemetryController @ StatsController"

section \<open>From the request to the handler\<close>

record request_head =
  rq_verb :: verb
  rq_path :: "string list"
  rq_authorization :: "string option"
  rq_deviceToken :: "string option"

fun path_fits :: "segment list \<Rightarrow> string list \<Rightarrow> bool" where
  "path_fits [] [] = True"
| "path_fits (Lit l # ps) (s # ss) = (l = s \<and> path_fits ps ss)"
| "path_fits (Param _ # ps) (s # ss) = (s \<noteq> [] \<and> path_fits ps ss)"
| "path_fits _ _ = False"

fun param_of :: "segment list \<Rightarrow> string list \<Rightarrow> string \<Rightarrow> string option" where
  "param_of (Param p # ps) (s # ss) name = (if p = name then Some s else param_of ps ss name)"
| "param_of (_ # ps) (_ # ss) name = param_of ps ss name"
| "param_of _ _ _ = None"

definition find_route :: "verb \<Rightarrow> string list \<Rightarrow> route option" where
  "find_route v path = List.find (\<lambda>r. rt_verb r = v \<and> path_fits (rt_path r) path) api_routes"

datatype caller = Anyone | UserCaller auth_user | DeviceCaller device

text \<open>
  The guards. \<open>verifyAsync\<close> is the check of a user token, \<open>sha\<close> the hash of device tokens, \<open>idOf\<close> the uuid of
  which a text is the spelling the database gives, and \<open>isUuid\<close> whether it is any spelling of a uuid. A \<open>:deviceId\<close>
  that is no such spelling is not the id of the device.
\<close>

definition admit :: "(string \<Rightarrow> jwt_error + uuid \<times> int option) \<Rightarrow> (string \<Rightarrow> string) \<Rightarrow> (string \<Rightarrow> uuid option)
    \<Rightarrow> route \<Rightarrow> request_head \<Rightarrow> database \<Rightarrow> caller res" where
  "admit verifyAsync sha idOf r req db = (case rt_access r of
      PublicRoute \<Rightarrow> Inr Anyone
    | UserRoute roles \<Rightarrow> bindE (guards verifyAsync False roles (rq_authorization req) db)
        (\<lambda>u. Inr (case u of Some x \<Rightarrow> UserCaller x | None \<Rightarrow> Anyone))
    | DeviceRoute \<Rightarrow> (let text = param_of (rt_path r) (rq_path req) ''deviceId'' in
        bindE (deviceAuthGuard sha (rq_deviceToken req) (Option.bind text idOf) db)
          (\<lambda>d. if text \<noteq> None \<and> Option.bind text idOf = None
             then Inl (app_error 403 FORBIDDEN ''Device token does not match this device'') else Inr (DeviceCaller d))))"

fun run_pipe :: "(string \<Rightarrow> bool) \<Rightarrow> (string \<Rightarrow> string option) \<Rightarrow> pipe \<Rightarrow> unit res" where
  "run_pipe isUuid param (UuidPipe name message) =
     (if (case param name of Some s \<Rightarrow> isUuid s | None \<Rightarrow> False) then Inr () else Inl (app_error 404 NOT_FOUND message))"
| "run_pipe isUuid param (RolePipe name) =
     (if param name \<in> {Some ''REVIEWER'', Some ''SUPER_ADMIN''} then Inr ()
      else Inl (validationFailed [(''role'', Msg ''This role cannot be granted.'')]))"

fun run_pipes :: "(string \<Rightarrow> bool) \<Rightarrow> (string \<Rightarrow> string option) \<Rightarrow> pipe list \<Rightarrow> unit res" where
  "run_pipes isUuid param [] = Inr ()"
| "run_pipes isUuid param (p # ps) = bindE (run_pipe isUuid param p) (\<lambda>_. run_pipes isUuid param ps)"

text \<open>The handler a request reaches, and who calls it.\<close>

definition dispatch_request :: "(string \<Rightarrow> jwt_error + uuid \<times> int option) \<Rightarrow> (string \<Rightarrow> string) \<Rightarrow> (string \<Rightarrow> uuid option)
    \<Rightarrow> (string \<Rightarrow> bool) \<Rightarrow> request_head \<Rightarrow> database \<Rightarrow> (route \<times> caller) res" where
  "dispatch_request verifyAsync sha idOf isUuid req db = (case find_route (rq_verb req) (rq_path req) of
      None \<Rightarrow> Inl (notFoundException ''Cannot find the route'')
    | Some r \<Rightarrow> bindE (admit verifyAsync sha idOf r req db) (\<lambda>c.
        bindE (run_pipes isUuid (param_of (rt_path r) (rq_path req)) (rt_pipes r)) (\<lambda>_. Inr (r, c))))"

section \<open>The table\<close>

definition sample_path :: "segment list \<Rightarrow> string list" where
  "sample_path = map (\<lambda>s. case s of Lit l \<Rightarrow> l | Param _ \<Rightarrow> ''x'')"

lemmas route_tables = AppController_def HealthController_def AuthController_def UsersController_def AuditLogsController_def
  PolicyController_def CategoriesController_def TargetGroupsController_def LineupsController_def LiveController_def
  ProgramsController_def AssetsController_def submissions_routes_def submission_action_routes_def SubmissionsController_def StoriesController_def ReviewsController_def
  DevicesController_def DeviceRuntimeController_def PlaylistController_def PlaylistPreviewController_def
  DeviceTelemetryController_def StatsController_def

text \<open>
  No route hides another: for every route there is a path for which the router chooses exactly it.
\<close>

theorem every_route_is_reached: "list_all (\<lambda>r. find_route (rt_verb r) (sample_path (rt_path r)) = Some r) api_routes"
  by code_simp

definition OPEN_HANDLERS :: "(string \<times> string) list" where
  "OPEN_HANDLERS = [(''AppController'', ''getHello''), (''HealthController'', ''check''), (''AuthController'', ''login''),
     (''AuthController'', ''refresh''), (''AuthController'', ''logout'')]"

text \<open>What changes the screens' set-up, the roles, or reveals an author.\<close>

definition administrative :: "route \<Rightarrow> bool" where
  "administrative r \<longleftrightarrow> fst (rt_handler r) \<in> {''UsersController'', ''LineupsController'', ''LiveController'', ''ProgramsController''}
     \<or> fst (rt_handler r) \<in> {''DevicesController'', ''TargetGroupsController''} \<and> rt_verb r \<noteq> HttpGet
     \<or> rt_handler r = (''SubmissionsController'', ''revealAuthor'')"

lemma route_checks:
  "list_all (\<lambda>r. rt_access r = PublicRoute \<longrightarrow> rt_handler r \<in> set OPEN_HANDLERS) api_routes"
  "list_all (\<lambda>r. administrative r \<longrightarrow> rt_access r = super_admins) api_routes"
  "list_all (\<lambda>r. rt_access r = DeviceRoute \<longrightarrow> Param ''deviceId'' \<in> set (rt_path r)) api_routes"
  by code_simp+

lemma find_route_in: "find_route v p = Some r \<Longrightarrow> r \<in> set api_routes"
  by (auto simp: find_route_def find_Some_iff)

section \<open>Who reaches what\<close>

lemma param_of_fits: "path_fits ps ss \<Longrightarrow> Param n \<in> set ps \<Longrightarrow> param_of ps ss n \<noteq> None"
  by (induction ps ss rule: path_fits.induct) auto

lemma dispatch_admitted:
  assumes "dispatch_request verify sha idOf isUuid req db = Inr (r, c)"
  shows "r \<in> set api_routes" and "admit verify sha idOf r req db = Inr c" and "path_fits (rt_path r) (rq_path req)"
  using assms find_route_in by (auto simp: dispatch_request_def res_simps find_route_def find_Some_iff split: option.splits)

lemma user_admitted:
  assumes "admit verify sha idOf r req db = Inr c" and "rt_access r = UserRoute roles"
  shows "\<exists>u. c = UserCaller u \<and> guards verify False roles (rq_authorization req) db = Inr (Some u)
    \<and> au_roles u = resolveRoles (grantedRolesOf db (au_id u))"
proof -
  obtain g where g: "guards verify False roles (rq_authorization req) db = Inr g" "c = (case g of Some x \<Rightarrow> UserCaller x | None \<Rightarrow> Anyone)"
    using assms by (auto simp: admit_def res_simps)
  then have "jwtAuthGuard verify False (rq_authorization req) db = Inr g" by (auto simp: guards_def res_simps)
  from jwtAuthGuard_Some[OF this] g show ?thesis by auto
qed


text \<open>
  C15: Without a valid token of a user, or of the device that the path names, a request reaches nothing but the
  greeting, the health check, login, refresh and logout.
\<close>

theorem nothing_else_is_open:
  assumes "dispatch_request verify sha idOf isUuid req db = Inr (r, c)" and "rt_handler r \<notin> set OPEN_HANDLERS"
  shows "(\<exists>u token exp. c = UserCaller u \<and> extractBearerToken (rq_authorization req) = Some token \<and> verify token = Inr (au_id u, exp))
    \<or> (\<exists>d token. c = DeviceCaller d \<and> d \<in> set (t_devices db) \<and> d_isActive d \<and> rq_deviceToken req = Some token \<and> d_tokenHash d = sha token
        \<and> Option.bind (param_of (rt_path r) (rq_path req) ''deviceId'') idOf = Some (d_id d))"
proof (cases "rt_access r")
  case PublicRoute
  with route_checks(1) dispatch_admitted(1)[OF assms(1)] assms(2) show ?thesis by (simp add: list_all_iff)
next
  case (UserRoute roles)
  obtain u where u: "c = UserCaller u" "guards verify False roles (rq_authorization req) db = Inr (Some u)"
    using user_admitted[OF dispatch_admitted(2)[OF assms(1)] UserRoute] by blast
  then show ?thesis
    by (auto simp: guards_def res_simps jwtAuthGuard_def findByIdWithRoles_def
        dest!: first_row_Some split: option.splits sum.splits jwt_error.splits prod.splits)
next
  case DeviceRoute
  have "Param ''deviceId'' \<in> set (rt_path r)" using route_checks(3) dispatch_admitted(1)[OF assms(1)] DeviceRoute by (simp add: list_all_iff)
  then have "param_of (rt_path r) (rq_path req) ''deviceId'' \<noteq> None" by (rule param_of_fits[OF dispatch_admitted(3)[OF assms(1)]])
  then obtain s where s: "param_of (rt_path r) (rq_path req) ''deviceId'' = Some s" by blast
  obtain d where d: "deviceAuthGuard sha (rq_deviceToken req) (idOf s) db = Inr d" "c = DeviceCaller d" "idOf s \<noteq> None"
    using dispatch_admitted(2)[OF assms(1)] DeviceRoute s by (auto simp: admit_def res_simps split: if_splits)
  then show ?thesis
    by (auto simp: s deviceAuthGuard_def requireE_def res_simps dest!: first_row_Some split: option.splits if_splits)
qed

definition admin_db :: database where
  "admin_db = sample_auth_db\<lparr>t_userRoles := [sample_role\<lparr>ur_role := SUPER_ADMIN\<rparr>]\<rparr>"

definition list_users_request :: request_head where
  "list_users_request = \<lparr>rq_verb = HttpGet, rq_path = [''signage'', ''users''], rq_authorization = Some ''Bearer t'', rq_deviceToken = None\<rparr>"

definition list_users_route :: route where
  "list_users_route = mk_route ''UsersController'' HttpGet [Lit ''signage'', Lit ''users''] super_admins 200 Plain [] ''list''"

definition admin_caller :: auth_user where
  "admin_caller = \<lparr>au_id = 7, au_idpUuid = [1], au_email = [2], au_name = [3], au_roles = [SUBMITTER, Granted SUPER_ADMIN], au_tokenExpiresAt = 0\<rparr>"

lemma sample_dispatch: "dispatch_request (\<lambda>_. Inr (7, None)) (\<lambda>_. []) (\<lambda>_. None) (\<lambda>_. True) list_users_request admin_db
    = Inr (list_users_route, UserCaller admin_caller)"
  by code_simp


theorem nothing_else_is_open_witness:
  "dispatch_request (\<lambda>_. Inr (7, None)) (\<lambda>_. []) (\<lambda>_. None) (\<lambda>_. True) list_users_request admin_db = Inr (list_users_route, UserCaller admin_caller)
   \<and> rt_handler list_users_route \<notin> set OPEN_HANDLERS
   \<and> (\<exists>u token exp. UserCaller admin_caller = UserCaller u \<and> extractBearerToken (rq_authorization list_users_request) = Some token
        \<and> (Inr (7, None) :: jwt_error + uuid \<times> int option) = Inr (au_id u, exp))"
proof -
  have h: "rt_handler list_users_route \<notin> set OPEN_HANDLERS" by (simp add: OPEN_HANDLERS_def list_users_route_def mk_route_def)
  from nothing_else_is_open[OF sample_dispatch h] sample_dispatch h show ?thesis by fastforce
qed

end
