(* ===== verification/Scheduler.thy ===== *)
theory Scheduler
  imports Notifications Idempotency
begin

text \<open>
  The time table of the jobs (\<open>jobs/scheduler.service.ts\<close>) and their lock over all pods (\<open>jobs/job-lock.ts\<close>). What a
  job does is in the theory of its component. \<open>locked\<close> says whether the advisory lock was free.
\<close>

section \<open>The lock\<close>

definition JOB_LOCK_NAMESPACE :: int where "JOB_LOCK_NAMESPACE = 1179207270"

datatype job_lock = LOCK_SUBMISSION_STATUS | LOCK_ASSET_CLEANUP | LOCK_IDEMPOTENCY_CLEANUP | LOCK_PLAY_EVENT_AGGREGATION
  | LOCK_DEVICE_OFFLINE_ALERT | LOCK_REVIEW_REMINDER

fun JobLock :: "job_lock \<Rightarrow> int" where
  "JobLock LOCK_SUBMISSION_STATUS = 1"
| "JobLock LOCK_ASSET_CLEANUP = 2"
| "JobLock LOCK_IDEMPOTENCY_CLEANUP = 3"
| "JobLock LOCK_PLAY_EVENT_AGGREGATION = 4"
| "JobLock LOCK_DEVICE_OFFLINE_ALERT = 5"
| "JobLock LOCK_REVIEW_REMINDER = 6"

lemma job_locks_differ: "JobLock a = JobLock b \<longleftrightarrow> a = b"
  by (cases a; cases b) simp_all

text \<open>The transaction of a job; an exception of it rolls back.\<close>

definition withJobLock :: "bool \<Rightarrow> (database \<Rightarrow> exc + database \<times> 'a) \<Rightarrow> database \<Rightarrow> exc + database \<times> 'a option" where
  "withJobLock locked f db = (if \<not> locked then Inr (db, None)
     else case f db of Inl e \<Rightarrow> Inl e | Inr (db', x) \<Rightarrow> Inr (db', Some x))"

definition cleanup_idempotency_keys :: "bool \<Rightarrow> time \<Rightarrow> database \<Rightarrow> exc + database \<times> nat option" where
  "cleanup_idempotency_keys locked t = withJobLock locked
     (\<lambda>db. case deleteExpired t (t_idempotencyKeys db) of (keys, n) \<Rightarrow> Inr (db\<lparr>t_idempotencyKeys := keys\<rparr>, n))"

section \<open>The time table\<close>

datatype cron_field = Any | Every int | OneOf "int list"

fun field_fits :: "cron_field \<Rightarrow> int \<Rightarrow> bool" where
  "field_fits Any n = True"
| "field_fits (Every k) n = (n mod k = 0)"
| "field_fits (OneOf ns) n = (n \<in> set ns)"

text \<open>Second, minute, hour and day of the week (Sunday is 0), and how far the time zone is ahead of UTC.\<close>

record cron =
  cn_second :: cron_field
  cn_minute :: cron_field
  cn_hour :: cron_field
  cn_weekday :: cron_field
  cn_offset :: time

definition cron_fits :: "cron \<Rightarrow> time \<Rightarrow> bool" where
  "cron_fits c t = (let loc = t + cn_offset c in
     field_fits (cn_second c) (getUTCSeconds loc) \<and> field_fits (cn_minute c) (getUTCMinutes loc)
     \<and> field_fits (cn_hour c) (getUTCHours loc) \<and> field_fits (cn_weekday c) (getUTCDay loc))"

datatype job = SubmissionStatusJob | DeviceOfflineAlertJob | ReviewReminderJob | SlackNotificationsJob | AssetCleanupJob
  | PlayEventAggregationJob | VideoProcessingJob | IdempotencyCleanupJob

definition EVERY_MINUTE :: cron where
  "EVERY_MINUTE = \<lparr>cn_second = OneOf [0], cn_minute = Any, cn_hour = Any, cn_weekday = Any, cn_offset = 0\<rparr>"

definition EVERY_HOUR :: cron where
  "EVERY_HOUR = \<lparr>cn_second = OneOf [0], cn_minute = OneOf [0], cn_hour = Any, cn_weekday = Any, cn_offset = 0\<rparr>"

fun job_cron :: "job \<Rightarrow> cron" where
  "job_cron SubmissionStatusJob = EVERY_MINUTE"
| "job_cron DeviceOfflineAlertJob = EVERY_MINUTE"
| "job_cron ReviewReminderJob = \<lparr>cn_second = OneOf [0], cn_minute = OneOf [0], cn_hour = OneOf [10, 16],
     cn_weekday = OneOf [1, 2, 3, 4, 5], cn_offset = 9 * 3600000\<rparr>"
| "job_cron SlackNotificationsJob = \<lparr>cn_second = Every 5, cn_minute = Any, cn_hour = Any, cn_weekday = Any, cn_offset = 0\<rparr>"
| "job_cron AssetCleanupJob = EVERY_HOUR"
| "job_cron PlayEventAggregationJob = \<lparr>cn_second = OneOf [0], cn_minute = Every 10, cn_hour = Any, cn_weekday = Any, cn_offset = 0\<rparr>"
| "job_cron VideoProcessingJob = EVERY_MINUTE"
| "job_cron IdempotencyCleanupJob = EVERY_HOUR"

text \<open>\<open>runJob\<close>: a failure ends the run, not the server. The second component is the result that is logged.\<close>

definition runJob :: "bool \<Rightarrow> ('s \<Rightarrow> exc + 's \<times> nat list option) \<Rightarrow> 's \<Rightarrow> 's \<times> nat list option" where
  "runJob enabled run s = (if \<not> enabled then (s, None)
     else case run s of
       Inl _ \<Rightarrow> (s, None)
     | Inr (s', result) \<Rightarrow> (s', case result of Some counts \<Rightarrow> if list_ex (\<lambda>n. 0 < n) counts then Some counts else None | None \<Rightarrow> None))"

section \<open>Facts\<close>

lemma disabled_jobs_do_nothing: "runJob False run s = (s, None)"
  by (simp add: runJob_def)

lemma weekday_range: "0 \<le> getUTCDay t \<and> getUTCDay t < 7"
  by (simp add: getUTCDay_def)

lemma seconds_of: "getUTCSeconds t = t div 1000 mod 60"
proof -
  have t: "t = t mod 86400000 + 1000 * (86400 * (t div 86400000))" by (simp add: mult.assoc[symmetric])
  have "t div 1000 = t mod 86400000 div 1000 + 60 * (1440 * (t div 86400000))"
    by (subst t, subst div_mult_self2) simp_all
  moreover have "(n + 60 * k) mod 60 = n mod 60" for n k :: int by simp
  ultimately show ?thesis by (simp only: getUTCSeconds_def time_in_day_def msPerDay_def)
qed

lemma seconds_shift: "getUTCSeconds (t + 32400000) = getUTCSeconds t"
proof -
  have "(t + 32400000) div 1000 = t div 1000 + 60 * 540" using div_mult_self2[of 1000 t 32400] by simp
  moreover have "(n + 60 * 540) mod 60 = n mod 60" for n :: int by presburger
  ultimately show ?thesis by (simp only: seconds_of)
qed

text \<open>
  The reminder is due exactly in the minutes that its job accepts: the time table and
  \<open>reviewReminderSlot\<close> agree on weekdays, hours and minutes.
\<close>

theorem reminder_schedule_matches_slots:
  "cron_fits (job_cron ReviewReminderJob) t = (reviewReminderSlot t \<noteq> None \<and> getUTCSeconds t = 0)"
  using weekday_range[of "t + 32400000"] seconds_shift[of t]
  by (auto simp: cron_fits_def Let_def reviewReminderSlot_def)

end
