(* ===== verification/Body_Rules.thy ===== *)
theory Body_Rules
  imports Json_Schemas Js_Number
begin

text \<open>
  Request bodies and queries that are described by decorated classes, and the global pipe of
  \<open>src/src/common/common.module.ts\<close> that reads them. A class is a list of fields; a field has what its
  decorators say: the value it starts with, its \<open>Transform\<close>, the condition under which it is looked at
  (\<open>IsOptional\<close>, \<open>ValidateIf\<close>), its checks with their messages, and the class of a nested value.

  The pipe first makes the instance (only the fields of the class are kept, and a \<open>Transform\<close> runs only for
  a key that was sent), then checks it. What the validation library knows about texts is an argument
  (\<open>class_validator\<close>): how it counts characters, which texts are uuids, full ISO times and addresses, the
  time a text stands for, and the order in which it lists the failed checks of one field.
\<close>

section \<open>Checks\<close>

record class_validator =
  cv_length :: "utext \<Rightarrow> nat"
  cv_uuid :: "utext \<Rightarrow> uuid option"
  cv_iso8601 :: "utext \<Rightarrow> bool"
  cv_url :: "utext \<Rightarrow> bool"
  cv_date :: "utext \<Rightarrow> time option"
  cv_arrange :: "msg list \<Rightarrow> msg list"

datatype check =
    IsString | IsNotEmpty | MaxLength nat | MinLength nat | IsInt | Min int | Max int
  | IsIn "string list" | IsUUID | IsISO8601 | IsUrl | Matches "utext \<Rightarrow> bool" | IsArray | ArrayMaxSize nat
  | ArrayUnique | IsBoolean | IsObject | IsUndefined | NumberHolds "js_num \<Rightarrow> bool" | Each check

text \<open>Values of a JavaScript \<open>Set\<close>: objects and arrays are equal only to themselves.\<close>

fun js_same :: "json \<Rightarrow> json \<Rightarrow> bool" where
  "js_same (JObj _) _ = False"
| "js_same (JArr _) _ = False"
| "js_same x y = (x = y)"

fun all_unique :: "json list \<Rightarrow> bool" where
  "all_unique [] = True"
| "all_unique (x # xs) = (list_all (\<lambda>y. \<not> js_same x y) xs \<and> all_unique xs)"

text \<open>
  \<open>Number(value)\<close> of a query value: a text, or an array or object of texts for a key that is repeated or has
  brackets. An array is read as its elements joined by commas.
\<close>

fun comma_joined :: "utext list \<Rightarrow> utext" where
  "comma_joined [] = []"
| "comma_joined [s] = s"
| "comma_joined (s # t # ss) = s @ [44] @ comma_joined (t # ss)"

fun query_text :: "json \<Rightarrow> utext" where
  "query_text (JStr s) = s"
| "query_text (JArr xs) = comma_joined (map query_text xs)"
| "query_text _ = codes ''[object Object]''"

definition number_of_query :: "json option \<Rightarrow> js_num" where
  "number_of_query x = (case x of
      None \<Rightarrow> NaN
    | Some (JNum n) \<Rightarrow> Num (of_int n)
    | Some j \<Rightarrow> js_Number (ascii (query_text j)))"

fun js_whole :: "js_num \<Rightarrow> bool" where
  "js_whole (Num x) = (of_int \<lfloor>x\<rfloor> = x)" | "js_whole _ = False"

fun js_at_least :: "int \<Rightarrow> js_num \<Rightarrow> bool" where
  "js_at_least k (Num x) = (of_int k \<le> x)" | "js_at_least k (Infinite p) = p" | "js_at_least k NaN = False"

fun js_at_most :: "int \<Rightarrow> js_num \<Rightarrow> bool" where
  "js_at_most k (Num x) = (x \<le> of_int k)" | "js_at_most k (Infinite p) = (\<not> p)" | "js_at_most k NaN = False"

definition text_holds :: "(utext \<Rightarrow> bool) \<Rightarrow> json option \<Rightarrow> bool" where
  "text_holds P x = (case x of Some (JStr s) \<Rightarrow> P s | _ \<Rightarrow> False)"

definition int_holds :: "(int \<Rightarrow> bool) \<Rightarrow> json option \<Rightarrow> bool" where
  "int_holds P x = (case x of Some (JNum n) \<Rightarrow> P n | _ \<Rightarrow> False)"

definition array_holds :: "(json list \<Rightarrow> bool) \<Rightarrow> json option \<Rightarrow> bool" where
  "array_holds P x = (case x of Some (JArr xs) \<Rightarrow> P xs | _ \<Rightarrow> False)"

definition is_boolean :: "json option \<Rightarrow> bool" where
  "is_boolean x = (case x of Some (JBool _) \<Rightarrow> True | _ \<Rightarrow> False)"

definition is_object :: "json option \<Rightarrow> bool" where
  "is_object x = (case x of Some (JObj _) \<Rightarrow> True | _ \<Rightarrow> False)"

fun passes :: "class_validator \<Rightarrow> check \<Rightarrow> json option \<Rightarrow> bool" where
  "passes v IsString x = text_holds (\<lambda>_. True) x"
| "passes v IsNotEmpty x = (x \<noteq> None \<and> x \<noteq> Some JNull \<and> x \<noteq> Some (JStr []))"
| "passes v (MaxLength n) x = text_holds (\<lambda>s. cv_length v s \<le> n) x"
| "passes v (MinLength n) x = text_holds (\<lambda>s. n \<le> cv_length v s) x"
| "passes v IsInt x = int_holds (\<lambda>_. True) x"
| "passes v (Min k) x = int_holds (\<lambda>n. k \<le> n) x"
| "passes v (Max k) x = int_holds (\<lambda>n. n \<le> k) x"
| "passes v (IsIn names) x = text_holds (\<lambda>s. s \<in> codes ` set names) x"
| "passes v IsUUID x = text_holds (\<lambda>s. cv_uuid v s \<noteq> None) x"
| "passes v IsISO8601 x = text_holds (cv_iso8601 v) x"
| "passes v IsUrl x = text_holds (cv_url v) x"
| "passes v (Matches P) x = text_holds P x"
| "passes v IsArray x = array_holds (\<lambda>_. True) x"
| "passes v (ArrayMaxSize n) x = array_holds (\<lambda>xs. length xs \<le> n) x"
| "passes v ArrayUnique x = array_holds all_unique x"
| "passes v IsBoolean x = is_boolean x"
| "passes v IsObject x = is_object x"
| "passes v IsUndefined x = (x = None)"
| "passes v (NumberHolds P) x = P (number_of_query x)"
| "passes v (Each c) x = (case x of Some (JArr xs) \<Rightarrow> list_all (\<lambda>y. passes v c (Some y)) xs | _ \<Rightarrow> passes v c x)"

section \<open>Classes\<close>

datatype dto_field = Field (field_name: string) (field_initial: "json option") (field_transform: "json option \<Rightarrow> json option")
  (field_when: "json obj \<Rightarrow> json option \<Rightarrow> bool") (field_checks: "(check \<times> msg) list")
  (field_nested: "dto_field list option")

type_synonym dto_class = "dto_field list"

text \<open>The conditions and transformations the classes share.\<close>

definition always :: "json obj \<Rightarrow> json option \<Rightarrow> bool" where "always _ _ = True"

definition optional :: "json obj \<Rightarrow> json option \<Rightarrow> bool" where
  "optional _ x \<longleftrightarrow> x \<noteq> None \<and> x \<noteq> Some JNull"

definition if_sent :: "json obj \<Rightarrow> json option \<Rightarrow> bool" where "if_sent _ x \<longleftrightarrow> x \<noteq> None"

definition if_not_null :: "json obj \<Rightarrow> json option \<Rightarrow> bool" where "if_not_null _ x \<longleftrightarrow> x \<noteq> Some JNull"

definition keep :: "json option \<Rightarrow> json option" where "keep x = x"

definition trim :: "json option \<Rightarrow> json option" where
  "trim x = (case x of Some (JStr s) \<Rightarrow> Some (JStr (js_trim s)) | _ \<Rightarrow> x)"

definition trimToNull :: "json option \<Rightarrow> json option" where
  "trimToNull x = (case x of Some (JStr s) \<Rightarrow> Some (if js_trim s = [] then JNull else JStr (js_trim s)) | _ \<Rightarrow> x)"

definition emptyToUndefined :: "json option \<Rightarrow> json option" where
  "emptyToUndefined x = (if x = Some (JStr []) then None else x)"

definition empty_to :: "string \<Rightarrow> json option \<Rightarrow> json option" where
  "empty_to d x = (if x = Some (JStr []) \<or> x = None then Some (JText d) else x)"

text \<open>A text split at a character; there is always at least one part.\<close>

fun split_at :: "nat \<Rightarrow> utext \<Rightarrow> utext list" where
  "split_at c [] = [[]]"
| "split_at c (x # xs) = (if x = c then [] # split_at c xs
     else case split_at c xs of [] \<Rightarrow> [[x]] | p # ps \<Rightarrow> (x # p) # ps)"

definition comma_parts :: "utext \<Rightarrow> utext list" where "comma_parts s = map js_trim (split_at 44 s)"

definition CommaSeparated :: "json option \<Rightarrow> json option" where
  "CommaSeparated x = (case x of
      None \<Rightarrow> None
    | Some (JStr []) \<Rightarrow> None
    | Some j \<Rightarrow> Some (JArr (concat (map (\<lambda>p. case p of JStr s \<Rightarrow> map JStr (comma_parts s) | _ \<Rightarrow> [p])
        (case j of JArr xs \<Rightarrow> xs | _ \<Rightarrow> [j])))))"

text \<open>
  A text with an offset at its end: \<open>/(Z|[+-]\d{2}:\d{2})$/\<close>, read from the back.
\<close>

definition WITH_OFFSET :: "utext \<Rightarrow> bool" where
  "WITH_OFFSET s \<longleftrightarrow> (let r = rev s in
     take 1 r = [90]
     \<or> (6 \<le> length r \<and> is_digit (r ! 0) \<and> is_digit (r ! 1) \<and> r ! 2 = 58 \<and> is_digit (r ! 3) \<and> is_digit (r ! 4)
        \<and> (r ! 5 = 43 \<or> r ! 5 = 45)))"

section \<open>The instance\<close>

text \<open>A nested value is made an instance of its class wherever an object stands.\<close>

fun typed :: "(json obj \<Rightarrow> json obj) \<Rightarrow> json \<Rightarrow> json" where
  "typed f (JObj p) = JObj (f p)"
| "typed f (JArr ys) = JArr (map (typed f) ys)"
| "typed f y = y"

fun instance_of :: "dto_class \<Rightarrow> json obj \<Rightarrow> json obj" where
  "instance_of [] obj = []"
| "instance_of (Field n i t w cs nested # fs) obj =
     (let x = (case map_of obj n of
           None \<Rightarrow> i
         | Some j \<Rightarrow> t (Some (case nested of None \<Rightarrow> j | Some d \<Rightarrow> typed (\<lambda>p. instance_of d p) j)))
      in (case x of None \<Rightarrow> [] | Some y \<Rightarrow> [(n, y)]) @ instance_of fs obj)"

section \<open>Validation\<close>

definition nested_message :: msg where
  "nested_message = Msg ''nested property must be either object or array''"

text \<open>
  The errors of a nested value: an object is checked by its class, the elements of an array each, \<open>null\<close> is
  passed over, and anything else has the library's own message.
\<close>

lemma enumerate_size [termination_simp]: "(i, y) \<in> set (enumerate n ys) \<Longrightarrow> size y < Suc (size_list size ys)"
  by (induction ys arbitrary: n) (auto, fastforce)

fun nested_errors :: "(json obj \<Rightarrow> validation_error list) \<Rightarrow> json \<Rightarrow> msg list \<times> validation_error list" where
  "nested_errors f (JObj p) = ([], f p)"
| "nested_errors f (JArr ys) = ([], concat (map (\<lambda>(i, y). case nested_errors f y of
     (ms, kids) \<Rightarrow> if ms = [] \<and> kids = [] then [] else [ValidationError (nat_text i) ms kids]) (enumerate 0 ys)))"
| "nested_errors f JNull = ([], [])"
| "nested_errors f _ = ([nested_message], [])"

definition failed :: "class_validator \<Rightarrow> (check \<times> msg) list \<Rightarrow> json option \<Rightarrow> msg list" where
  "failed v cs x = map snd (filter (\<lambda>(c, m). \<not> passes v c x) cs)"

fun dto_errors :: "class_validator \<Rightarrow> dto_class \<Rightarrow> json obj \<Rightarrow> validation_error list" where
  "dto_errors v [] obj = []"
| "dto_errors v (Field n i t w cs nested # fs) obj =
     (let x = map_of obj n;
          kids = (case nested of None \<Rightarrow> ([], []) | Some d \<Rightarrow>
            (case x of None \<Rightarrow> ([], []) | Some y \<Rightarrow> nested_errors (\<lambda>p. dto_errors v d p) y));
          ms = failed v cs x @ fst kids
      in (if w obj x \<and> (ms \<noteq> [] \<or> snd kids \<noteq> []) then [ValidationError n (cv_arrange v ms) (snd kids)] else [])
         @ dto_errors v fs obj)"

definition validated :: "class_validator \<Rightarrow> dto_class \<Rightarrow> json obj \<Rightarrow> json obj res" where
  "validated v cls body =
     (let obj = instance_of cls body; errors = dto_errors v cls obj
      in if errors = [] then Inr obj else Inl (validationExceptionFactory errors))"

section \<open>What an accepted body meets\<close>

named_theorems body_simps \<open>what the checks of a class say of an instance\<close>

definition field_value :: "dto_field \<Rightarrow> json obj \<Rightarrow> json option" where
  "field_value F obj = (case map_of obj (field_name F) of
      None \<Rightarrow> field_initial F
    | Some j \<Rightarrow> field_transform F (Some (case field_nested F of
        None \<Rightarrow> j | Some d \<Rightarrow> typed (instance_of d) j)))"

lemma instance_of_Cons [simp]:
  "instance_of (F # fs) obj =
     (case field_value F obj of None \<Rightarrow> [] | Some y \<Rightarrow> [(field_name F, y)]) @ instance_of fs obj"
  by (cases F) (auto simp: field_value_def Let_def split: option.splits)

lemma instance_names: "fst ` set (instance_of cls obj) \<subseteq> field_name ` set cls"
  by (induction cls) (auto split: option.splits)

text \<open>An instance has the fields of its class and nothing else of the body.\<close>

lemma instance_lookup:
  "distinct (map field_name cls) \<Longrightarrow> map_of (instance_of cls obj) k =
     (case filter (\<lambda>F. field_name F = k) cls of [] \<Rightarrow> None | F # _ \<Rightarrow> field_value F obj)"
proof (induction cls)
  case (Cons F fs)
  have none: "map_of (instance_of fs obj) (field_name F) = None"
  proof -
    have "field_name F \<notin> field_name ` set fs" using Cons.prems by simp
    then show ?thesis using instance_names[of fs obj] unfolding map_of_eq_None_iff by blast
  qed
  show ?case
  proof (cases "field_name F = k")
    case True
    with none show ?thesis by (cases "field_value F obj") simp_all
  next
    case False
    with Cons show ?thesis by (cases "field_value F obj") simp_all
  qed
qed simp

lemma nested_array:
  "concat (map (\<lambda>(i, y). case nested_errors f y of
     (ms, kids) \<Rightarrow> if ms = [] \<and> kids = [] then [] else [ValidationError (nat_text i) ms kids]) (enumerate n ys)) = []
   \<longleftrightarrow> (\<forall>z \<in> set ys. nested_errors f z = ([], []))"
proof (induction ys arbitrary: n)
  case (Cons y ys)
  then show ?case by (cases "nested_errors f y") (auto simp del: concat_eq_Nil_conv)
qed simp

lemma nested_errors_simps [body_simps]:
  "nested_errors f (JObj p) = ([], []) \<longleftrightarrow> f p = []"
  "nested_errors f (JArr ys) = ([], []) \<longleftrightarrow> (\<forall>z \<in> set ys. nested_errors f z = ([], []))"
  by (simp_all only: nested_errors.simps nested_array prod.inject simp_thms)

definition nested_ok :: "class_validator \<Rightarrow> dto_class option \<Rightarrow> json option \<Rightarrow> bool" where
  "nested_ok v nested x \<longleftrightarrow> (case (nested, x) of
      (Some d, Some y) \<Rightarrow> nested_errors (dto_errors v d) y = ([], []) | _ \<Rightarrow> True)"

definition field_ok :: "class_validator \<Rightarrow> json obj \<Rightarrow> dto_field \<Rightarrow> bool" where
  "field_ok v obj F \<longleftrightarrow> (let x = map_of obj (field_name F) in
     field_when F obj x \<longrightarrow> list_all (\<lambda>(c, m). passes v c x) (field_checks F) \<and> nested_ok v (field_nested F) x)"

lemma failed_Nil [body_simps]: "failed v cs x = [] \<longleftrightarrow> list_all (\<lambda>(c, m). passes v c x) cs"
  by (auto simp: failed_def filter_empty_conv list_all_iff)

lemma dto_errors_Nil [body_simps]: "dto_errors v cls obj = [] \<longleftrightarrow> (\<forall>F \<in> set cls. field_ok v obj F)"
proof (induction cls)
  case (Cons F fs)
  then show ?case
    by (cases F) (auto simp: field_ok_def nested_ok_def failed_Nil Let_def prod_eq_iff split: option.splits)
qed simp

lemma validated_Inr [body_simps]:
  "validated v cls body = Inr obj \<longleftrightarrow> obj = instance_of cls body \<and> (\<forall>F \<in> set cls. field_ok v obj F)"
  by (auto simp: validated_def Let_def dto_errors_Nil)

text \<open>A field that is looked at passes every check, and its nested value is one of its class.\<close>

lemma accepted_field:
  assumes "validated v cls body = Inr obj" and "F \<in> set cls" and "field_when F obj (map_of obj (field_name F))"
  shows "list_all (\<lambda>(c, m). passes v c (map_of obj (field_name F))) (field_checks F)"
    and "nested_ok v (field_nested F) (map_of obj (field_name F))"
  using assms by (auto simp: validated_Inr field_ok_def Let_def)

lemma nested_ok_obj [body_simps]:
  "nested_ok v (Some d) (Some (JObj p)) \<longleftrightarrow> (\<forall>F \<in> set d. field_ok v p F)"
  by (simp add: nested_ok_def dto_errors_Nil)

lemma text_holds_iff [body_simps]: "text_holds P x \<longleftrightarrow> (\<exists>s. x = Some (JStr s) \<and> P s)"
  by (auto simp: text_holds_def split: option.splits json.splits)

lemma int_holds_iff [body_simps]: "int_holds P x \<longleftrightarrow> (\<exists>n. x = Some (JNum n) \<and> P n)"
  by (auto simp: int_holds_def split: option.splits json.splits)

lemma array_holds_iff [body_simps]: "array_holds P x \<longleftrightarrow> (\<exists>xs. x = Some (JArr xs) \<and> P xs)"
  by (auto simp: array_holds_def split: option.splits json.splits)

lemma is_object_iff [simp]: "is_object x \<longleftrightarrow> (\<exists>p. x = Some (JObj p))"
  by (auto simp: is_object_def split: option.splits json.splits)

lemma is_boolean_iff [simp]: "is_boolean x \<longleftrightarrow> (\<exists>b. x = Some (JBool b))"
  by (auto simp: is_boolean_def split: option.splits json.splits)

lemma each_array [body_simps]:
  "passes v (Each c) (Some (JArr xs)) \<longleftrightarrow> (\<forall>y \<in> set xs. passes v c (Some y))"
  by (simp add: list_all_iff)

text \<open>\<open>isIn\<close> reads a name of a table.\<close>

definition name_in :: "(string \<times> 'a) list \<Rightarrow> 'a \<Rightarrow> json option \<Rightarrow> 'a" where
  "name_in names d x = (case x of
      Some (JStr s) \<Rightarrow> (case map_of (map (\<lambda>(n, y). (codes n, y)) names) s of Some y \<Rightarrow> y | None \<Rightarrow> d)
    | _ \<Rightarrow> d)"

definition name_opt :: "(string \<times> 'a) list \<Rightarrow> json option \<Rightarrow> 'a option" where
  "name_opt names x = (case x of
      Some (JStr s) \<Rightarrow> map_of (map (\<lambda>(n, y). (codes n, y)) names) s | _ \<Rightarrow> None)"

section \<open>Texts after trimming\<close>

definition trimmed :: "utext \<Rightarrow> bool" where
  "trimmed s \<longleftrightarrow> s \<noteq> [] \<longrightarrow> \<not> js_white (hd s) \<and> \<not> js_white (last s)"

lemma js_trim_trimmed: "trimmed (js_trim s)"
proof (cases "js_trim s = []")
  case False
  let ?a = "dropWhile js_white s" and ?b = "dropWhile js_white (rev (dropWhile js_white s))"
  from False have b: "?b \<noteq> []" by (simp add: js_trim_def)
  then have a: "?a \<noteq> []" by (metis dropWhile.simps(1) rev.simps(1))
  have "\<not> js_white (hd ?a)" using a by (rule hd_dropWhile)
  moreover have "hd (rev ?b) = hd ?a"
  proof -
    have "rev ?a = takeWhile js_white (rev ?a) @ ?b" by simp
    then have "?a = rev ?b @ rev (takeWhile js_white (rev ?a))" by (metis rev_append rev_rev_ident)
    with b show ?thesis by (metis hd_append2 rev_is_Nil_conv)
  qed
  moreover have "\<not> js_white (last (rev ?b))" using b by (simp add: last_rev hd_dropWhile)
  ultimately show ?thesis by (simp add: trimmed_def js_trim_def)
qed (simp add: trimmed_def)

lemma instance_field:
  "validated v cls body = Inr p \<Longrightarrow> distinct (map field_name cls) \<Longrightarrow> F \<in> set cls \<Longrightarrow>
     map_of p (field_name F) = field_value F body"
proof -
  assume "distinct (map field_name cls)" "F \<in> set cls"
  then have "filter (\<lambda>G. field_name G = field_name F) cls = [F]"
  proof (induction cls)
    case (Cons G cls)
    then have n: "field_name G \<notin> field_name ` set cls" by simp
    show ?case
    proof (cases "F = G")
      case True
      with n have "filter (\<lambda>H. field_name H = field_name F) cls = []" by (metis (mono_tags, lifting) filter_False image_eqI)
      with True show ?thesis by simp
    next
      case False
      with Cons have "F \<in> set cls" by simp
      with n have "field_name G \<noteq> field_name F" by auto
      with Cons False show ?thesis by simp
    qed
  qed simp
  moreover assume "validated v cls body = Inr p" "distinct (map field_name cls)"
  ultimately show ?thesis by (simp add: validated_Inr instance_lookup)
qed

lemma trim_field:
  assumes "validated v cls body = Inr p" and "distinct (map field_name cls)" and "F \<in> set cls"
    and "field_initial F = None" and "map_of p (field_name F) = Some (JStr s)"
  shows "field_transform F = trim \<Longrightarrow> trimmed s"
    and "field_transform F = trimToNull \<Longrightarrow> trimmed s \<and> s \<noteq> []"
proof -
  have x: "field_value F body = Some (JStr s)" using instance_field[OF assms(1-3)] assms(5) by simp
  show "field_transform F = trim \<Longrightarrow> trimmed s"
    using x assms(4) by (auto simp: field_value_def trim_def js_trim_trimmed split: option.splits json.splits)
  show "field_transform F = trimToNull \<Longrightarrow> trimmed s \<and> s \<noteq> []"
    using x assms(4)
    by (auto simp: field_value_def trimToNull_def js_trim_trimmed split: option.splits json.splits if_splits)
qed

text \<open>An object in a field with a class was accepted as one of that class.\<close>

lemma nested_instance:
  assumes "validated v cls body = Inr p" and "distinct (map field_name cls)" and "F \<in> set cls"
    and "field_initial F = None" and "field_transform F = keep" and "field_nested F = Some d"
    and "map_of p (field_name F) = Some (JObj q)" and "field_when F p (Some (JObj q))"
  shows "\<exists>q0. validated v d q0 = Inr q"
proof -
  have "field_value F body = Some (JObj q)" using instance_field[OF assms(1-3)] assms(7) by simp
  then obtain j where "typed (instance_of d) j = JObj q"
    using assms(4-6) by (auto simp: field_value_def keep_def split: option.splits)
  then have "\<exists>q0. q = instance_of d q0" by (cases j) auto
  moreover have "\<forall>F \<in> set d. field_ok v q F"
    using accepted_field(2)[OF assms(1,3)] assms(6-8) by (simp add: nested_ok_obj)
  ultimately show ?thesis by (auto simp: validated_Inr)
qed

text \<open>A library that knows no uuid, time or address, for the examples.\<close>

definition sample_validator :: class_validator where
  "sample_validator = \<lparr>cv_length = length, cv_uuid = (\<lambda>_. None), cv_iso8601 = (\<lambda>_. False),
     cv_url = (\<lambda>_. False), cv_date = (\<lambda>_. None), cv_arrange = id\<rparr>"

end
