(* ===== verification/Submission_Bodies.thy ===== *)
theory Submission_Bodies
  imports Body_Rules Submissions
begin

text \<open>
  The bodies of the submission endpoints: \<open>submissions/dto/submission-input.dto.ts\<close>,
  \<open>submissions/dto/event-banner.dto.ts\<close>, \<open>submissions/dto/story.dto.ts\<close>, and the readers that turn an accepted
  body into the inputs of \<open>Submissions\<close>. What the service calls \<open>undefined\<close>, \<open>null\<close> and a given value stays
  apart where it tells them apart.

  A field that no check has looked at may hold any value; the services only ask whether it was given, so such
  a value is read as an empty text.
\<close>

section \<open>Names\<close>

definition submission_types :: "(string \<times> submission_type) list" where
  "submission_types = [(''POSTER'', POSTER), (''EVENT_BANNER'', EVENT_BANNER), (''STORY'', STORY)]"

definition banner_modes :: "(string \<times> event_banner_mode) list" where
  "banner_modes = [(''TEMPLATE'', TEMPLATE), (''IMAGE'', MODE_IMAGE)]"

definition banner_occasions :: "(string \<times> event_banner_occasion) list" where
  "banner_occasions = [(''BIRTHDAY'', BIRTHDAY), (''ADMISSION'', ADMISSION), (''GRADUATION'', GRADUATION),
     (''AWARD'', AWARD), (''WELCOME'', WELCOME), (''OTHER'', OCCASION_OTHER)]"

definition story_tags :: "(string \<times> story_tag) list" where
  "story_tags = [(''NEWS'', NEWS), (''PRAISE'', PRAISE), (''LOST_FOUND'', LOST_FOUND),
     (''SUGGESTION'', SUGGESTION), (''OTHER'', TAG_OTHER)]"

section \<open>Classes\<close>

definition EventBannerInputDto :: dto_class where
  "EventBannerInputDto =
    [Field ''mode'' None keep always
       [(IsIn (map fst banner_modes), Msg ''Choose the form of the banner.'')] None,
     Field ''occasion'' None keep optional
       [(IsIn (map fst banner_occasions), Msg ''Choose the occasion.'')] None,
     Field ''recipient'' None trimToNull always
       [(IsString, Msg ''Enter the recipient.''), (IsNotEmpty, Msg ''Enter the recipient.''),
        (MaxLength 20, Msg ''The recipient has at most 20 characters.'')] None,
     Field ''headline'' None trimToNull optional
       [(IsString, Msg ''The headline is not valid.''),
        (MaxLength 30, Msg ''The headline has at most 30 characters.'')] None,
     Field ''message'' None trimToNull optional
       [(IsString, Msg ''The message is not valid.''),
        (MaxLength 60, Msg ''The message has at most 60 characters.'')] None,
     Field ''sender'' None trimToNull optional
       [(IsString, Msg ''The sender is not valid.''),
        (MaxLength 20, Msg ''The sender has at most 20 characters.'')] None,
     Field ''photoAssetId'' None keep optional [(IsUUID, Msg ''Upload the photo again.'')] None,
     Field ''photoConsent'' None keep optional [(IsBoolean, Msg ''The consent is not valid.'')] None,
     Field ''assetId'' None keep optional [(IsUUID, Msg ''Upload the banner image again.'')] None]"

definition StoryInputDto :: dto_class where
  "StoryInputDto =
    [Field ''tag'' None keep always [(IsIn (map fst story_tags), Msg ''Choose the tag.'')] None,
     Field ''body'' None trim always
       [(IsString, Msg ''Enter the body.''), (MinLength 10, Msg ''The body has at least 10 characters.''),
        (MaxLength 140, Msg ''The body has at most 140 characters.'')] None]"

definition SubmissionDisplayFields :: dto_class where
  "SubmissionDisplayFields =
    [Field ''detailUrl'' None trimToNull optional
       [(IsString, Msg ''The address is not valid.''), (MaxLength 2048, Msg ''The address is too long.'')] None,
     Field ''organizerName'' None trimToNull optional
       [(IsString, Msg ''organizerName must be a string''),
        (MaxLength 100, Msg ''The organizer has at most 100 characters.'')] None,
     Field ''subtitle'' None trimToNull optional
       [(IsString, Msg ''subtitle must be a string''),
        (MaxLength 100, Msg ''The subtitle has at most 100 characters.'')] None,
     Field ''location'' None trimToNull optional
       [(IsString, Msg ''location must be a string''),
        (MaxLength 100, Msg ''The location has at most 100 characters.'')] None,
     Field ''description'' None trimToNull optional
       [(IsString, Msg ''description must be a string''),
        (MaxLength 1000, Msg ''The description has at most 1000 characters.'')] None]"

definition isPoster :: "json obj \<Rightarrow> json option \<Rightarrow> bool" where
  "isPoster obj _ \<longleftrightarrow> map_of obj ''type'' \<in> {None, Some JNull, Some (JText ''POSTER'')}"

definition requestsPeriod :: "json obj \<Rightarrow> json option \<Rightarrow> bool" where
  "requestsPeriod obj _ \<longleftrightarrow> map_of obj ''type'' \<noteq> Some (JText ''STORY'')"

definition has_type :: "string \<Rightarrow> json obj \<Rightarrow> json option \<Rightarrow> bool" where
  "has_type t obj _ \<longleftrightarrow> map_of obj ''type'' = Some (JText t)"

definition DATE_MESSAGE :: msg where
  "DATE_MESSAGE = Msg ''A time has the UTC ISO 8601 format.''"

definition title_checks :: "(check \<times> msg) list" where
  "title_checks = [(IsString, Msg ''Enter the title.''), (IsNotEmpty, Msg ''Enter the title.''),
     (MaxLength titleMaxLength, MsgOf ''The title has at most this many characters'' (JNum (int titleMaxLength)))]"

definition category_checks :: "(check \<times> msg) list" where
  "category_checks = [(IsString, Msg ''Choose a category.''), (IsNotEmpty, Msg ''Choose a category.'')]"

definition poster_asset_checks :: "(check \<times> msg) list" where
  "poster_asset_checks = [(IsUUID, Msg ''Upload the poster.'')]"

definition time_checks :: "msg \<Rightarrow> (check \<times> msg) list" where
  "time_checks m = [(IsISO8601, m), (Matches WITH_OFFSET, m)]"

definition group_checks :: "(check \<times> msg) list" where
  "group_checks = [(IsArray, Msg ''The target places are not valid.''),
     (ArrayMaxSize 50, Msg ''At most 50 target places can be chosen.''),
     (ArrayUnique, Msg ''The same target place cannot be chosen twice.''),
     (Each IsString, Msg ''The target places are not valid.'')]"

definition banner_object_checks :: "(check \<times> msg) list" where
  "banner_object_checks = [(IsObject, Msg ''Enter the event banner.'')]"

definition story_object_checks :: "(check \<times> msg) list" where
  "story_object_checks = [(IsObject, Msg ''Enter the story.'')]"

definition CreateSubmissionDto :: dto_class where
  "CreateSubmissionDto =
    [Field ''type'' None keep optional
       [(IsIn (map fst submission_types), Msg ''Unknown kind of submission.'')] None,
     Field ''title'' None trim isPoster title_checks None,
     Field ''categoryId'' None keep isPoster category_checks None,
     Field ''assetId'' None keep isPoster poster_asset_checks None,
     Field ''eventBanner'' None keep (has_type ''EVENT_BANNER'') banner_object_checks (Some EventBannerInputDto),
     Field ''story'' None keep (has_type ''STORY'') story_object_checks (Some StoryInputDto),
     Field ''startAt'' None keep requestsPeriod (time_checks DATE_MESSAGE) None,
     Field ''endAt'' None keep requestsPeriod (time_checks DATE_MESSAGE) None,
     Field ''targetGroupIds'' None keep optional group_checks None] @ SubmissionDisplayFields"

definition version_field :: dto_field where
  "version_field = Field ''version'' None keep always
     [(IsInt, Msg ''The version is not valid.''), (Min 1, Msg ''version must not be less than 1'')] None"

definition UpdateSubmissionDto :: dto_class where
  "UpdateSubmissionDto =
    [version_field,
     Field ''title'' None trim if_sent title_checks None,
     Field ''categoryId'' None keep if_sent category_checks None,
     Field ''assetId'' None keep if_sent poster_asset_checks None,
     Field ''startAt'' None keep if_sent (time_checks DATE_MESSAGE) None,
     Field ''endAt'' None keep if_sent (time_checks DATE_MESSAGE) None,
     Field ''targetGroupIds'' None keep if_sent group_checks None,
     Field ''eventBanner'' None keep if_sent banner_object_checks (Some EventBannerInputDto),
     Field ''story'' None keep if_sent story_object_checks (Some StoryInputDto)] @ SubmissionDisplayFields"

definition SubmissionVersionDto :: dto_class where
  "SubmissionVersionDto = [version_field]"

section \<open>Reading an accepted body\<close>

definition given_text :: "json option \<Rightarrow> utext option" where
  "given_text x = (case x of None \<Rightarrow> None | Some JNull \<Rightarrow> None | Some (JStr s) \<Rightarrow> Some s | Some _ \<Rightarrow> Some [])"

definition nullish_text :: "json option \<Rightarrow> utext nullish" where
  "nullish_text x = (case x of None \<Rightarrow> Undefined | Some JNull \<Rightarrow> Null | Some (JStr s) \<Rightarrow> Given s | Some _ \<Rightarrow> Given [])"

definition uuid_of :: "class_validator \<Rightarrow> json option \<Rightarrow> uuid option" where
  "uuid_of v x = map_option (\<lambda>s. case cv_uuid v s of Some u \<Rightarrow> u | None \<Rightarrow> 0) (given_text x)"

definition slug_of :: "json option \<Rightarrow> slug option" where
  "slug_of x = map_option ascii (given_text x)"

definition slugs_of :: "json option \<Rightarrow> slug list option" where
  "slugs_of x = (case x of
      Some (JArr xs) \<Rightarrow> Some (map (\<lambda>j. case slug_of (Some j) of Some s \<Rightarrow> s | None \<Rightarrow> []) xs) | _ \<Rightarrow> None)"

text \<open>
  The time a checked text stands for. A text that passes the check without being a date of the language is
  \<open>None\<close>; a given value that nothing has checked is read as some time.
\<close>

definition time_of :: "class_validator \<Rightarrow> json option \<Rightarrow> time option" where
  "time_of v x = (case x of None \<Rightarrow> None | Some JNull \<Rightarrow> None
     | Some (JStr s) \<Rightarrow> if cv_iso8601 v s \<and> WITH_OFFSET s then cv_date v s else Some 0
     | Some _ \<Rightarrow> Some 0)"

definition int_of :: "json option \<Rightarrow> int" where
  "int_of x = (case x of Some (JNum n) \<Rightarrow> n | _ \<Rightarrow> 0)"

definition bool_of :: "json option \<Rightarrow> bool" where
  "bool_of x \<longleftrightarrow> x = Some (JBool True)"

definition object_of :: "(json obj \<Rightarrow> 'a) \<Rightarrow> json option \<Rightarrow> 'a option" where
  "object_of f x = (case x of None \<Rightarrow> None | Some JNull \<Rightarrow> None | Some (JObj p) \<Rightarrow> Some (f p) | Some _ \<Rightarrow> Some (f []))"

definition read_banner :: "class_validator \<Rightarrow> json obj \<Rightarrow> event_banner_input" where
  "read_banner v p = \<lparr>bi_mode = name_in banner_modes TEMPLATE (map_of p ''mode''),
     bi_occasion = (if given_text (map_of p ''occasion'') = None then None
       else Some (name_in banner_occasions OCCASION_OTHER (map_of p ''occasion''))),
     bi_recipient = (case given_text (map_of p ''recipient'') of Some s \<Rightarrow> s | None \<Rightarrow> []),
     bi_headline = given_text (map_of p ''headline''), bi_message = given_text (map_of p ''message''),
     bi_sender = given_text (map_of p ''sender''), bi_photoAssetId = uuid_of v (map_of p ''photoAssetId''),
     bi_photoConsent = bool_of (map_of p ''photoConsent''), bi_assetId = uuid_of v (map_of p ''assetId'')\<rparr>"

definition read_story :: "json obj \<Rightarrow> story_input" where
  "read_story p = \<lparr>si_tag = name_in story_tags TAG_OTHER (map_of p ''tag''),
     si_body = (case given_text (map_of p ''body'') of Some s \<Rightarrow> s | None \<Rightarrow> [])\<rparr>"

definition kindInputOf :: "class_validator \<Rightarrow> json obj \<Rightarrow> kind_input" where
  "kindInputOf v p = \<lparr>ki_title = given_text (map_of p ''title''), ki_categoryId = slug_of (map_of p ''categoryId''),
     ki_assetId = uuid_of v (map_of p ''assetId''), ki_detailUrl = nullish_text (map_of p ''detailUrl''),
     ki_organizerName = nullish_text (map_of p ''organizerName''), ki_subtitle = nullish_text (map_of p ''subtitle''),
     ki_location = nullish_text (map_of p ''location''), ki_description = nullish_text (map_of p ''description''),
     ki_eventBanner = object_of (read_banner v) (map_of p ''eventBanner''),
     ki_story = object_of read_story (map_of p ''story'')\<rparr>"

definition read_create :: "class_validator \<Rightarrow> json obj \<Rightarrow> create_dto" where
  "read_create v p = \<lparr>cd_type = (if given_text (map_of p ''type'') = None then None
       else Some (name_in submission_types POSTER (map_of p ''type''))),
     cd_kind = kindInputOf v p, cd_startAt = time_of v (map_of p ''startAt''),
     cd_endAt = time_of v (map_of p ''endAt''), cd_targetGroupIds = slugs_of (map_of p ''targetGroupIds'')\<rparr>"

definition read_update :: "class_validator \<Rightarrow> json obj \<Rightarrow> update_dto" where
  "read_update v p = \<lparr>ud_version = int_of (map_of p ''version''), ud_kind = kindInputOf v p,
     ud_startAt = time_of v (map_of p ''startAt''), ud_endAt = time_of v (map_of p ''endAt''),
     ud_targetGroupIds = slugs_of (map_of p ''targetGroupIds'')\<rparr>"

text \<open>The body of a request as its handler gets it, or the error response of the pipe.\<close>

definition create_body :: "class_validator \<Rightarrow> json obj \<Rightarrow> create_dto res" where
  "create_body v body = bindE (validated v CreateSubmissionDto body) (\<lambda>p. Inr (read_create v p))"

definition update_body :: "class_validator \<Rightarrow> json obj \<Rightarrow> update_dto res" where
  "update_body v body = bindE (validated v UpdateSubmissionDto body) (\<lambda>p. Inr (read_update v p))"

definition version_body :: "class_validator \<Rightarrow> json obj \<Rightarrow> int res" where
  "version_body v body = bindE (validated v SubmissionVersionDto body) (\<lambda>p. Inr (int_of (map_of p ''version'')))"

end
