(* ===== verification/Submission_Texts.thy ===== *)
theory Submission_Texts
  imports Submission_Bodies Submission_Properties
begin

text \<open>
  What the screens are given to show has the length its layout was made for: whatever bodies people send and
  however their requests interleave, the texts that are stored keep the limits of the request classes. The
  limits are met by every accepted body (\<open>create_body_within\<close>, \<open>update_body_within\<close>), and every commit of
  such a request keeps them in the tables.
\<close>

section \<open>Limits\<close>

definition text_within :: "class_validator \<Rightarrow> nat \<Rightarrow> utext \<Rightarrow> bool" where
  "text_within v n s \<longleftrightarrow> s \<noteq> [] \<and> trimmed s \<and> cv_length v s \<le> n"

definition opt_within :: "class_validator \<Rightarrow> nat \<Rightarrow> utext option \<Rightarrow> bool" where
  "opt_within v n x \<longleftrightarrow> (case x of None \<Rightarrow> True | Some s \<Rightarrow> text_within v n s)"

definition nullish_within :: "class_validator \<Rightarrow> nat \<Rightarrow> utext nullish \<Rightarrow> bool" where
  "nullish_within v n x \<longleftrightarrow> (case x of Given s \<Rightarrow> text_within v n s | _ \<Rightarrow> True)"

definition body_within :: "class_validator \<Rightarrow> utext \<Rightarrow> bool" where
  "body_within v s \<longleftrightarrow> trimmed s \<and> 10 \<le> cv_length v s \<and> cv_length v s \<le> 140"

definition banner_within :: "class_validator \<Rightarrow> banner_detail \<Rightarrow> bool" where
  "banner_within v b \<longleftrightarrow> text_within v 20 (bd_recipient b) \<and> opt_within v 30 (bd_headline b)
     \<and> opt_within v 60 (bd_message b) \<and> opt_within v 20 (bd_sender b)"

fun detail_within :: "class_validator \<Rightarrow> detail \<Rightarrow> bool" where
  "detail_within v NoDetail = True"
| "detail_within v (Banner b) = banner_within v b"
| "detail_within v (Story s) = body_within v (sd_body s)"

definition display_within :: "class_validator \<Rightarrow> kind_input \<Rightarrow> bool" where
  "display_within v i \<longleftrightarrow> nullish_within v 100 (ki_organizerName i) \<and> nullish_within v 100 (ki_subtitle i)
     \<and> nullish_within v 100 (ki_location i) \<and> nullish_within v 1000 (ki_description i)"

definition banner_input_within :: "class_validator \<Rightarrow> event_banner_input \<Rightarrow> bool" where
  "banner_input_within v b \<longleftrightarrow> text_within v 20 (bi_recipient b) \<and> opt_within v 30 (bi_headline b)
     \<and> opt_within v 60 (bi_message b) \<and> opt_within v 20 (bi_sender b)"

text \<open>The part of an input that a submission of the given kind stores.\<close>

definition input_within :: "class_validator \<Rightarrow> submission_type \<Rightarrow> kind_input \<Rightarrow> bool" where
  "input_within v ty i \<longleftrightarrow> display_within v i
     \<and> (ty = POSTER \<longrightarrow> opt_within v titleMaxLength (ki_title i))
     \<and> (ty = EVENT_BANNER \<longrightarrow> (\<forall>b. ki_eventBanner i = Some b \<longrightarrow> banner_input_within v b))
     \<and> (ty = STORY \<longrightarrow> (\<forall>s. ki_story i = Some s \<longrightarrow> body_within v (si_body s)))"

definition create_type :: "create_dto \<Rightarrow> submission_type" where
  "create_type dto = (case cd_type dto of Some x \<Rightarrow> x | None \<Rightarrow> POSTER)"

section \<open>Accepted bodies\<close>

lemma checked_text:
  assumes "validated v cls body = Inr p" and "distinct (map field_name cls)" and "F \<in> set cls"
    and "F = Field n None trimToNull w cs None" and "(IsString, m1) \<in> set cs" and "(MaxLength k, m2) \<in> set cs"
    and "w p (map_of p n)"
  shows "\<exists>s. map_of p n = Some (JStr s) \<and> text_within v k s"
proof -
  from accepted_field(1)[OF assms(1,3)] assms(4-7)
  have "passes v IsString (map_of p n)" "passes v (MaxLength k) (map_of p n)" by (auto simp: list_all_iff)
  then obtain s where s: "map_of p n = Some (JStr s)" "cv_length v s \<le> k" by (auto simp: text_holds_iff)
  with trim_field(2)[OF assms(1-3)] assms(4) show ?thesis by (auto simp: text_within_def)
qed

lemma display_fields:
  assumes "validated v cls body = Inr p" and "distinct (map field_name cls)"
    and "set SubmissionDisplayFields \<subseteq> set cls"
  shows "display_within v (kindInputOf v p)"
proof -
  have f: "nullish_within v k (nullish_text (map_of p n))"
    if "Field n None trimToNull optional [(IsString, m1), (MaxLength k, m2)] None \<in> set SubmissionDisplayFields" for n k m1 m2
  proof (cases "optional p (map_of p n)")
    case True
    have "Field n None trimToNull optional [(IsString, m1), (MaxLength k, m2)] None \<in> set cls" using that assms(3) by blast
    from checked_text[OF assms(1,2) this refl, of m1 k m2] True obtain s where
      "map_of p n = Some (JStr s)" "text_within v k s" by auto
    then show ?thesis by (simp add: nullish_text_def nullish_within_def)
  next
    case False
    then show ?thesis by (auto simp: optional_def nullish_text_def nullish_within_def split: option.splits json.splits)
  qed
  show ?thesis
    unfolding display_within_def kindInputOf_def
    by (simp, intro conjI) (rule f, simp add: SubmissionDisplayFields_def)+
qed

lemma optional_text:
  assumes "validated v cls body = Inr p" and "distinct (map field_name cls)" and "F \<in> set cls"
    and "F = Field n None trimToNull optional cs None" and "(IsString, m1) \<in> set cs" and "(MaxLength k, m2) \<in> set cs"
  shows "opt_within v k (given_text (map_of p n))"
proof (cases "optional p (map_of p n)")
  case True
  with checked_text[OF assms] obtain s where "map_of p n = Some (JStr s)" "text_within v k s" by blast
  then show ?thesis by (simp add: opt_within_def given_text_def)
next
  case False
  then show ?thesis by (auto simp: optional_def given_text_def opt_within_def split: option.splits json.splits)
qed

lemma banner_body_within:
  assumes "validated v EventBannerInputDto b0 = Inr q"
  shows "banner_input_within v (read_banner v q)"
proof -
  have d: "distinct (map field_name EventBannerInputDto)" by (simp add: EventBannerInputDto_def)
  note req = checked_text[OF assms d _ refl] and opt = optional_text[OF assms d _ refl]
  have "\<exists>s. map_of q ''recipient'' = Some (JStr s) \<and> text_within v 20 s"
    by (rule req[of _ always "[(IsString, Msg ''Enter the recipient.''), (IsNotEmpty, Msg ''Enter the recipient.''),
        (MaxLength 20, Msg ''The recipient has at most 20 characters.'')]"])
       (auto simp: EventBannerInputDto_def, simp add: always_def)
  then obtain s where "map_of q ''recipient'' = Some (JStr s)" "text_within v 20 s" by blast
  moreover have "opt_within v 30 (given_text (map_of q ''headline''))"
    by (rule opt) (auto simp: EventBannerInputDto_def)
  moreover have "opt_within v 60 (given_text (map_of q ''message''))"
    by (rule opt) (auto simp: EventBannerInputDto_def)
  moreover have "opt_within v 20 (given_text (map_of q ''sender''))"
    by (rule opt) (auto simp: EventBannerInputDto_def)
  ultimately show ?thesis by (simp add: banner_input_within_def read_banner_def given_text_def)
qed

lemma story_body_within:
  assumes "validated v StoryInputDto b0 = Inr q"
  shows "body_within v (si_body (read_story q))"
proof -
  let ?F = "Field ''body'' None trim always
       [(IsString, Msg ''Enter the body.''), (MinLength 10, Msg ''The body has at least 10 characters.''),
        (MaxLength 140, Msg ''The body has at most 140 characters.'')] None"
  have d: "distinct (map field_name StoryInputDto)" "?F \<in> set StoryInputDto" by (simp_all add: StoryInputDto_def)
  from accepted_field(1)[OF assms d(2)] obtain s where
    "map_of q ''body'' = Some (JStr s)" "10 \<le> cv_length v s" "cv_length v s \<le> 140"
    by (auto simp: always_def text_holds_iff)
  with trim_field(1)[OF assms d] show ?thesis by (simp add: body_within_def read_story_def given_text_def)
qed

lemma title_within:
  assumes "validated v cls body = Inr p" and "distinct (map field_name cls)"
    and "Field ''title'' None trim w title_checks None \<in> set cls" and "w p (map_of p ''title'')"
  shows "\<exists>s. map_of p ''title'' = Some (JStr s) \<and> text_within v titleMaxLength s"
proof -
  from accepted_field(1)[OF assms(1,3)] assms(4) obtain s where
    "map_of p ''title'' = Some (JStr s)" "s \<noteq> []" "cv_length v s \<le> titleMaxLength"
    by (auto simp: title_checks_def text_holds_iff)
  with trim_field(1)[OF assms(1-3)] show ?thesis by (auto simp: text_within_def)
qed

lemma object_of_sent: "object_of f x = Some b \<Longrightarrow> x \<noteq> None"
  by (cases x) (auto simp: object_of_def)

lemma kindInputOf_simps:
  "ki_title (kindInputOf v p) = given_text (map_of p ''title'')"
  "ki_eventBanner (kindInputOf v p) = object_of (read_banner v) (map_of p ''eventBanner'')"
  "ki_story (kindInputOf v p) = object_of read_story (map_of p ''story'')"
  by (simp_all add: kindInputOf_def)

text \<open>The nested values of a class with the given conditions on them.\<close>

lemma nested_banner:
  assumes "validated v cls body = Inr p" and "distinct (map field_name cls)"
    and "Field ''eventBanner'' None keep w banner_object_checks (Some EventBannerInputDto) \<in> set cls"
    and "w p (map_of p ''eventBanner'')" and "object_of (read_banner v) (map_of p ''eventBanner'') = Some b"
  shows "banner_input_within v b"
proof -
  from accepted_field(1)[OF assms(1,3)] assms(4) obtain q where q: "map_of p ''eventBanner'' = Some (JObj q)"
    by (auto simp: banner_object_checks_def)
  with nested_instance[OF assms(1-3)] assms(4) obtain q0 where "validated v EventBannerInputDto q0 = Inr q" by auto
  with banner_body_within q assms(5) show ?thesis by (auto simp: object_of_def)
qed

lemma nested_story:
  assumes "validated v cls body = Inr p" and "distinct (map field_name cls)"
    and "Field ''story'' None keep w story_object_checks (Some StoryInputDto) \<in> set cls"
    and "w p (map_of p ''story'')" and "object_of read_story (map_of p ''story'') = Some s"
  shows "body_within v (si_body s)"
proof -
  from accepted_field(1)[OF assms(1,3)] assms(4) obtain q where q: "map_of p ''story'' = Some (JObj q)"
    by (auto simp: story_object_checks_def)
  with nested_instance[OF assms(1-3)] assms(4) obtain q0 where "validated v StoryInputDto q0 = Inr q" by auto
  with story_body_within q assms(5) show ?thesis by (auto simp: object_of_def)
qed

lemma create_names: "distinct (map field_name CreateSubmissionDto)"
  by (simp add: CreateSubmissionDto_def SubmissionDisplayFields_def)

lemma update_names: "distinct (map field_name UpdateSubmissionDto)"
  by (simp add: UpdateSubmissionDto_def SubmissionDisplayFields_def version_field_def)

lemma create_type_field:
  assumes "validated v CreateSubmissionDto body = Inr p"
  shows "map_of p ''type'' \<in> {None, Some JNull, Some (JText ''POSTER''), Some (JText ''EVENT_BANNER''), Some (JText ''STORY'')}"
proof -
  let ?F = "Field ''type'' None keep optional
       [(IsIn (map fst submission_types), Msg ''Unknown kind of submission.'')] None"
  have "?F \<in> set CreateSubmissionDto" by (simp add: CreateSubmissionDto_def)
  from accepted_field(1)[OF assms this] show ?thesis
    by (auto simp: optional_def text_holds_iff submission_types_def JText_def)
qed

lemma update_body_within:
  assumes "update_body v body = Inr dto"
  shows "input_within v ty (ud_kind dto)"
proof -
  from assms obtain p where p: "validated v UpdateSubmissionDto body = Inr p" and dto: "dto = read_update v p"
    by (auto simp: update_body_def res_simps)
  have "display_within v (kindInputOf v p)"
    by (rule display_fields[OF p update_names]) (auto simp: UpdateSubmissionDto_def)
  moreover have "opt_within v titleMaxLength (given_text (map_of p ''title''))"
  proof (cases "map_of p ''title''")
    case (Some x)
    with title_within[OF p update_names, of if_sent] obtain s where
      "map_of p ''title'' = Some (JStr s)" "text_within v titleMaxLength s"
      by (auto simp: UpdateSubmissionDto_def if_sent_def)
    then show ?thesis by (simp add: given_text_def opt_within_def)
  qed (simp add: given_text_def opt_within_def)
  moreover have "banner_input_within v b" if "object_of (read_banner v) (map_of p ''eventBanner'') = Some b" for b
    by (rule nested_banner[OF p update_names _ _ that, of if_sent])
       (use object_of_sent[OF that] in \<open>auto simp: UpdateSubmissionDto_def if_sent_def\<close>)
  moreover have "body_within v (si_body s)" if "object_of read_story (map_of p ''story'') = Some s" for s
    by (rule nested_story[OF p update_names _ _ that, of if_sent])
       (use object_of_sent[OF that] in \<open>auto simp: UpdateSubmissionDto_def if_sent_def\<close>)
  moreover have "ud_kind dto = kindInputOf v p" by (simp add: dto read_update_def)
  ultimately show ?thesis by (simp add: input_within_def kindInputOf_simps)
qed

lemma create_body_within:
  assumes "create_body v body = Inr dto"
  shows "input_within v (create_type dto) (cd_kind dto)"
    and "create_type dto = POSTER \<Longrightarrow> ki_title (cd_kind dto) \<noteq> None"
proof -
  from assms obtain p where p: "validated v CreateSubmissionDto body = Inr p" and dto: "dto = read_create v p"
    by (auto simp: create_body_def res_simps)
  have ty: "create_type dto = (if map_of p ''type'' = Some (JText ''EVENT_BANNER'') then EVENT_BANNER
      else if map_of p ''type'' = Some (JText ''STORY'') then STORY else POSTER)"
    using create_type_field[OF p]
    by (auto simp: dto read_create_def create_type_def given_text_def name_in_def submission_types_def JText_def codes_def)
  have title: "\<exists>s. map_of p ''title'' = Some (JStr s) \<and> text_within v titleMaxLength s" if "create_type dto = POSTER"
    by (rule title_within[OF p create_names, of isPoster])
       (use that ty create_type_field[OF p] in \<open>auto simp: CreateSubmissionDto_def isPoster_def split: if_splits\<close>)
  have "display_within v (kindInputOf v p)"
    by (rule display_fields[OF p create_names]) (auto simp: CreateSubmissionDto_def)
  moreover have "opt_within v titleMaxLength (given_text (map_of p ''title''))" if "create_type dto = POSTER"
    using title[OF that] by (auto simp: given_text_def opt_within_def)
  moreover have "banner_input_within v b"
    if "create_type dto = EVENT_BANNER" "object_of (read_banner v) (map_of p ''eventBanner'') = Some b" for b
    by (rule nested_banner[OF p create_names _ _ that(2), of "has_type ''EVENT_BANNER''"])
       (use that ty in \<open>auto simp: CreateSubmissionDto_def has_type_def split: if_splits\<close>)
  moreover have "body_within v (si_body s)"
    if "create_type dto = STORY" "object_of read_story (map_of p ''story'') = Some s" for s
    by (rule nested_story[OF p create_names _ _ that(2), of "has_type ''STORY''"])
       (use that ty in \<open>auto simp: CreateSubmissionDto_def has_type_def split: if_splits\<close>)
  moreover have k: "cd_kind dto = kindInputOf v p" by (simp add: dto read_create_def)
  ultimately show "input_within v (create_type dto) (cd_kind dto)"
    by (simp add: input_within_def kindInputOf_simps)
  show "create_type dto = POSTER \<Longrightarrow> ki_title (cd_kind dto) \<noteq> None"
    using title by (auto simp: k kindInputOf_simps given_text_def)
qed

section \<open>What a kind stores\<close>

definition columns_within :: "class_validator \<Rightarrow> submission_type \<Rightarrow> kind_columns \<Rightarrow> bool" where
  "columns_within v ty k \<longleftrightarrow> (ty = POSTER \<longrightarrow> text_within v titleMaxLength (k_title k))
     \<and> opt_within v 100 (k_organizerName k) \<and> opt_within v 100 (k_subtitle k) \<and> opt_within v 100 (k_location k)
     \<and> opt_within v 1000 (k_description k)"

lemma patched_within: "nullish_within v n x \<Longrightarrow> opt_within v n cur \<Longrightarrow> opt_within v n (patched x cur)"
  by (cases x) (auto simp: nullish_within_def opt_within_def patched_def)

lemma empty_columns_within: "ty \<noteq> POSTER \<Longrightarrow> columns_within v ty (EMPTY_KIND_COLUMNS\<lparr>k_title := t\<rparr>)"
  "ty \<noteq> POSTER \<Longrightarrow> columns_within v ty (EMPTY_KIND_COLUMNS\<lparr>k_title := t, k_assetId := a\<rparr>)"
  by (simp_all add: columns_within_def EMPTY_KIND_COLUMNS_def opt_within_def)

lemma none_within: "opt_within v n None"
  by (simp add: opt_within_def)

definition current_within :: "class_validator \<Rightarrow> submission_type \<Rightarrow> kind_input \<Rightarrow> (kind_columns \<times> detail) option \<Rightarrow> bool" where
  "current_within v ty i cur \<longleftrightarrow> (case cur of
      None \<Rightarrow> ty = POSTER \<longrightarrow> ki_title i \<noteq> None
    | Some (k, d) \<Rightarrow> columns_within v ty k \<and> detail_within v d)"

lemma poster_columns:
  fixes cur c
  defines "prev \<equiv> map_option fst cur"
  shows "k_title (rc_columns (poster_resolve i cur c)) = (case ki_title i of Some x \<Rightarrow> x
      | None \<Rightarrow> (case prev of Some p \<Rightarrow> k_title p | None \<Rightarrow> []))"
    and "k_organizerName (rc_columns (poster_resolve i cur c)) = patched (ki_organizerName i) (Option.bind prev k_organizerName)"
    and "k_subtitle (rc_columns (poster_resolve i cur c)) = patched (ki_subtitle i) (Option.bind prev k_subtitle)"
    and "k_location (rc_columns (poster_resolve i cur c)) = patched (ki_location i) (Option.bind prev k_location)"
    and "k_description (rc_columns (poster_resolve i cur c)) = patched (ki_description i) (Option.bind prev k_description)"
    and "rc_detail (poster_resolve i cur c) = NoDetail"
  unfolding prev_def by (simp_all add: poster_resolve_def Let_def case_prod_beta)

lemma poster_resolve_within:
  assumes "input_within v POSTER i" and "current_within v POSTER i cur"
  shows "columns_within v POSTER (rc_columns (poster_resolve i cur c))" and "detail_within v (rc_detail (poster_resolve i cur c))"
proof -
  have i: "nullish_within v 100 (ki_organizerName i)" "nullish_within v 100 (ki_subtitle i)"
    "nullish_within v 100 (ki_location i)" "nullish_within v 1000 (ki_description i)" "opt_within v titleMaxLength (ki_title i)"
    using assms(1) by (simp_all add: input_within_def display_within_def)
  show "columns_within v POSTER (rc_columns (poster_resolve i cur c))"
  proof (cases cur)
    case None
    with assms(2) obtain t where "ki_title i = Some t" by (auto simp: current_within_def)
    with i None show ?thesis
      by (simp add: columns_within_def poster_columns patched_within none_within opt_within_def[of v _ "Some t"])
  next
    case (Some kd)
    then have "columns_within v POSTER (fst kd)" using assms(2) by (auto simp: current_within_def split: prod.splits)
    with i Some show ?thesis
      by (cases "ki_title i") (auto simp: columns_within_def poster_columns patched_within opt_within_def[of v _ "Some _"])
  qed
qed (simp add: poster_columns)

lemma resolve_within:
  assumes "input_within v ty i" and "current_within v ty i cur"
    and "cur = None \<Longrightarrow> rc_errors (sk_resolve (kindOf ty) i cur c) = []"
  shows "columns_within v ty (rc_columns (sk_resolve (kindOf ty) i cur c))
     \<and> detail_within v (rc_detail (sk_resolve (kindOf ty) i cur c))"
proof (cases ty)
  case POSTER
  then show ?thesis using poster_resolve_within assms(1,2) by simp
next
  case EVENT_BANNER
  then show ?thesis
    using assms
    by (auto simp: banner_resolve_def Let_def current_within_def input_within_def banner_input_within_def
        banner_within_def empty_columns_within split: option.splits)
next
  case STORY
  then show ?thesis
    using assms
    by (auto simp: story_resolve_def current_within_def input_within_def empty_columns_within split: option.splits)
qed

section \<open>The tables\<close>

definition row_within :: "class_validator \<Rightarrow> submission \<Rightarrow> bool" where
  "row_within v s \<longleftrightarrow> columns_within v (s_type s) (kindColumnsOf s)"

definition details_within :: "class_validator \<Rightarrow> database \<Rightarrow> bool" where
  "details_within v db \<longleftrightarrow> (\<forall>r \<in> set (t_eventBanners db). banner_within v (banner_of_row r))
     \<and> (\<forall>r \<in> set (t_stories db). body_within v (st_body r))"

definition texts_within :: "class_validator \<Rightarrow> database \<Rightarrow> bool" where
  "texts_within v db \<longleftrightarrow> (\<forall>s \<in> set (t_submissions db). row_within v s) \<and> details_within v db"

lemma row_within_cong:
  "kindColumnsOf s = kindColumnsOf r \<Longrightarrow> s_type s = s_type r \<Longrightarrow> row_within v s = row_within v r"
  by (simp add: row_within_def)

lemma set_upsert: "x \<in> set (upsert key r f t) \<Longrightarrow> x = r \<or> x \<in> set t \<or> (\<exists>y \<in> set t. x = f y)"
  by (auto simp: upsert_def insert_row_def update_where_def split: if_splits)

lemma save_detail_within:
  assumes "details_within v db" and "detail_within v d"
  shows "details_within v (save_detail (kindOf ty) i d db)"
proof (cases ty)
  case EVENT_BANNER
  then show ?thesis
    using assms by (cases d) (auto simp: save_detail_def banner_save_def details_within_def banner_of_row_def
        banner_row_def banner_set_def banner_within_def dest!: set_upsert)
next
  case STORY
  then show ?thesis
    using assms by (cases d) (auto simp: save_detail_def story_save_def details_within_def dest!: set_upsert)
qed (use assms in \<open>simp add: save_detail_def\<close>)

lemma onApprove_within: "details_within v db \<Longrightarrow> details_within v (run_onApprove (kindOf ty) i db)"
  by (cases ty) (auto simp: run_onApprove_def story_onApprove_def details_within_def update_where_def)

lemma details_within_cong:
  "t_eventBanners a = t_eventBanners b \<Longrightarrow> t_stories a = t_stories b \<Longrightarrow> details_within v a = details_within v b"
  by (simp add: details_within_def)

lemma detailOf_within: "details_within v db \<Longrightarrow> detail_within v (detailOf db ty i)"
  by (cases ty) (auto simp: detailOf_def banner_load_def story_load_def details_within_def dest: first_row_Some
      split: option.splits)


section \<open>Histories of requests that came through the pipe\<close>

fun from_body :: "class_validator \<Rightarrow> request \<Rightarrow> bool" where
  "from_body v (CreateReq dto) \<longleftrightarrow> (\<exists>body. create_body v body = Inr dto)"
| "from_body v (UpdateReq i dto) \<longleftrightarrow> (\<exists>body. update_body v body = Inr dto)"
| "from_body v req \<longleftrightarrow> True"

inductive posted :: "class_validator \<Rightarrow> (utext \<Rightarrow> url option) \<Rightarrow> database list \<Rightarrow> bool" for v urls where
  start: "submissions_ok db \<Longrightarrow> texts_within v db \<Longrightarrow> posted v urls [db]"
| request: "posted v urls (db # h) \<Longrightarrow> d \<in> set (db # h) \<Longrightarrow> from_body v req \<Longrightarrow>
     prepare urls (now c) u req d = Inr p \<Longrightarrow> commit c u p db = Inr db' \<Longrightarrow>
     uuids c 0 \<notin> s_id ` set (t_submissions db) \<Longrightarrow> posted v urls (db' # db # h)"
| job: "posted v urls (db # h) \<Longrightarrow> posted v urls (fst (status_sync c locked db) # db # h)"
| other: "posted v urls (db # h) \<Longrightarrow> t_submissions db' = t_submissions db \<Longrightarrow>
     t_eventBanners db' = t_eventBanners db \<Longrightarrow> t_stories db' = t_stories db \<Longrightarrow>
     storyNumberSeq db' = storyNumberSeq db \<Longrightarrow> posted v urls (db' # db # h)"

lemma posted_history: "posted v urls h \<Longrightarrow> history urls h"
  by (induction rule: posted.induct) (auto intro: history.intros)

lemma kindColumnsOf_set [simp]: "kindColumnsOf (setKindColumns k s) = k"
  by (simp add: kindColumnsOf_def setKindColumns_def)

lemma create_within:
  assumes p: "create_prepare urls t u dto d = Inr p" and b: "create_body v body = Inr dto"
    and c: "create_commit c u p db = Inr r" and ok: "texts_within v db"
  shows "texts_within v (fst r)"
proof -
  let ?ty = "create_type dto"
  have k: "cp_kind p = kindOf ?ty"
    and res: "cp_resolved p = sk_resolve (kindOf ?ty) (cd_kind dto) None (kindContext urls (au_id u) d)"
      "rc_errors (cp_resolved p) = []"
    using p by (auto simp: create_prepare_def create_type_def Let_def split: if_splits)
  have within: "columns_within v ?ty (rc_columns (cp_resolved p)) \<and> detail_within v (rc_detail (cp_resolved p))"
    unfolding res(1)
    by (rule resolve_within) (use create_body_within[OF b] res in \<open>auto simp: current_within_def\<close>)
  let ?n = "new_submission (uuids c 0) (au_id u) (now c) p"
  have n: "row_within v ?n"
    using within k by (simp add: row_within_def new_submission_def) (simp add: setKindColumns_def)
  let ?d = "save_detail (kindOf ?ty) (uuids c 0) (rc_detail (cp_resolved p))
    (db\<lparr>t_submissions := t_submissions (fst r)\<rparr>)"
  have e: "t_eventBanners (fst r) = t_eventBanners ?d" "t_stories (fst r) = t_stories ?d"
    using c k by (auto simp: create_commit_def Let_def res_simps split: if_splits)
  have "details_within v (fst r)"
    unfolding details_within_cong[OF e]
    using ok within by (intro save_detail_within) (auto simp: texts_within_def details_within_def)
  with create_commit_rows(1)[OF c k] n ok show ?thesis by (auto simp: texts_within_def insert_row_def)
qed

lemma update_within:
  assumes p: "update_prepare urls t u i dto d = Inr (Some p)" and b: "update_body v body = Inr dto"
    and c: "update_commit c u dto p db = Inr db'" and ok: "texts_within v d" "texts_within v db"
    and cur: "\<And>s. s \<in> set (t_submissions db) \<Longrightarrow> same_version (upl_current p) s \<Longrightarrow> s = upl_current p"
    and ind: "upl_current p \<in> set (t_submissions d)"
  shows "texts_within v db'"
proof -
  let ?cur = "upl_current p" and ?ty = "s_type (upl_current p)"
  from update_prepare_Inr[OF p] obtain cur where row: "p = plan_update urls u dto cur d" by (elim exE conjE)
  have res: "upl_resolved p = sk_resolve (kindOf ?ty) (ud_kind dto) (Some (kindColumnsOf ?cur, detailOf d ?ty (s_id ?cur)))
      (kindContext urls (au_id u) d)"
    by (simp add: row plan_update_def Let_def)
  have within: "columns_within v ?ty (rc_columns (upl_resolved p)) \<and> detail_within v (rc_detail (upl_resolved p))"
    unfolding res
  proof (rule resolve_within)
    show "input_within v ?ty (ud_kind dto)" by (rule update_body_within[OF b])
    show "current_within v ?ty (ud_kind dto) (Some (kindColumnsOf ?cur, detailOf d ?ty (s_id ?cur)))"
      using ok(1) ind detailOf_within by (auto simp: current_within_def texts_within_def row_within_def)
  qed simp
  have new: "row_within v (updated_row dto p t' ?cur)" for t'
  proof -
    have "kindColumnsOf (updated_row dto p t' ?cur) = rc_columns (upl_resolved p)"
      by (simp add: updated_row_def apply_changes_def kindColumnsOf_def pick_def)
    moreover have "s_type (updated_row dto p t' ?cur) = ?ty" by (simp add: updated_row_def apply_changes_def)
    ultimately show ?thesis using within by (simp add: row_within_def)
  qed
  let ?d1 = "db\<lparr>t_submissions := t_submissions db'\<rparr>"
  let ?d2 = "if upl_detailChanged p then save_detail (kindOf ?ty) (s_id ?cur) (rc_detail (upl_resolved p)) ?d1 else ?d1"
  have e: "t_eventBanners db' = t_eventBanners ?d2" "t_stories db' = t_stories ?d2"
    using c by (auto simp: update_commit_def Let_def split: option.splits if_splits)
  have "details_within v ?d1" using ok(2) by (simp add: texts_within_def details_within_def)
  then have "details_within v db'"
    unfolding details_within_cong[OF e] using within by (auto intro: save_detail_within)
  moreover have "row_within v s" if "s \<in> set (t_submissions db')" for s
    using that update_commit_rows(1)[OF c] ok(2) new cur by (auto simp: set_update_where texts_within_def)
  ultimately show ?thesis by (simp add: texts_within_def)
qed

lemma status_rows_within:
  "row_within v s \<Longrightarrow> row_within v (to_status st cur t s)"
  "row_within v s \<Longrightarrow> row_within v (s\<lparr>s_submittedAt := a\<rparr>)"
  "row_within v s \<Longrightarrow> row_within v (s\<lparr>s_startAt := a, s_endAt := b\<rparr>)"
  by (simp_all add: row_within_def to_status_def kindColumnsOf_def)

lemma plan_row_within:
  assumes "row_within v s" and "\<And>dto x. p \<noteq> UpdatePlan dto x"
  shows "row_within v (plan_row t p s)"
  using assms by (cases p) (auto intro!: status_rows_within)

lemma sync_row_within: "row_within v s \<Longrightarrow> row_within v (sync_row t s)"
  by (simp add: row_within_def sync_row_def moved_to_def kindColumnsOf_def)

text \<open>A commit of any other request changes no text.\<close>

lemma other_commit_within:
  assumes "commit c u p db = Inr db'" and "plan_current p = Some cur" and "texts_within v db"
    and "\<And>dto x. p \<noteq> UpdatePlan dto x"
  shows "texts_within v db'"
proof -
  have rows: "row_within v s" if "s \<in> set (t_submissions db')" for s
    using that commit_changes[OF assms(1,2)] assms(3) plan_row_within[OF _ assms(4)]
    by (auto simp: set_update_where texts_within_def)
  have "details_within v db'"
  proof (cases "\<exists>x. p = ApprovePlan x")
    case True
    then obtain x where x: "p = ApprovePlan x" by blast
    let ?d = "run_onApprove (kindOf (s_type (apl_current x))) (s_id (apl_current x)) (db\<lparr>t_submissions := t_submissions db'\<rparr>)"
    have "t_eventBanners db' = t_eventBanners ?d" "t_stories db' = t_stories ?d"
      using assms(1) x by (auto simp: approve_commit_def Let_def res_simps)
    then show ?thesis
      using assms(3) by (subst details_within_cong[of _ ?d]) (auto intro!: onApprove_within, simp_all add: texts_within_def details_within_def)
  next
    case False
    with simple_commit_tables[OF assms(1)] assms(2,4) have "t_eventBanners db' = t_eventBanners db" "t_stories db' = t_stories db"
      by auto
    from details_within_cong[OF this] assms(3) show ?thesis by (simp add: texts_within_def)
  qed
  with rows show ?thesis by (simp add: texts_within_def)
qed

text \<open>C8: whatever bodies people send and however their requests interleave, what is stored to be shown has
  the length its layout was made for: a poster has a title of 1 to 80 characters, the lines beside it have at
  most 100 and its description 1000, a banner's texts at most 20, 30, 60 and 20 and its recipient at least one,
  and a story 10 to 140. No stored text begins or ends with white space, and an optional one is never empty.\<close>

theorem stored_texts_within_limits:
  assumes "posted v urls h" and "db \<in> set h"
  shows "(\<forall>s \<in> set (t_submissions db).
           (s_type s = POSTER \<longrightarrow> text_within v titleMaxLength (s_title s))
           \<and> opt_within v 100 (s_organizerName s) \<and> opt_within v 100 (s_subtitle s)
           \<and> opt_within v 100 (s_location s) \<and> opt_within v 1000 (s_description s))
       \<and> (\<forall>b \<in> set (t_eventBanners db). text_within v 20 (eb_recipient b) \<and> opt_within v 30 (eb_headline b)
           \<and> opt_within v 60 (eb_message b) \<and> opt_within v 20 (eb_sender b))
       \<and> (\<forall>r \<in> set (t_stories db). trimmed (st_body r) \<and> 10 \<le> cv_length v (st_body r) \<and> cv_length v (st_body r) \<le> 140)"
proof -
  have "\<forall>d \<in> set h. texts_within v d"
    using assms(1)
  proof (induction rule: posted.induct)
    case (start db)
    then show ?case by simp
  next
    case (request db h d req c u p db')
    note hist = posted_history[OF request.hyps(1)]
    have d: "submissions_ok d" "texts_within v d" "texts_within v db"
      using history_ok[OF hist] request.IH request.hyps(2) by auto
    have "texts_within v db'"
    proof (cases "plan_current p")
      case None
      show ?thesis
      proof (cases req)
        case (CreateReq dto)
        with request.hyps(3-5) obtain body x r where "create_body v body = Inr dto"
          "create_prepare urls (now c) u dto d = Inr x" "create_commit c u x db = Inr r" "db' = fst r"
          by (auto simp: res_simps)
        with create_within[of urls "now c" u dto d x v body c db r] d(3) show ?thesis by simp
      qed (use request.hyps(4,5) None d(3) in \<open>auto simp: res_simps split: option.splits\<close>)
    next
      case (Some cur)
      show ?thesis
      proof (cases "\<exists>dto x. p = UpdatePlan dto x")
        case True
        then obtain dto x where p: "p = UpdatePlan dto x" by blast
        with request.hyps(4) obtain i where r: "req = UpdateReq i dto" "update_prepare urls (now c) u i dto d = Inr (Some x)"
          by (cases req) (auto simp: res_simps split: option.splits)
        with request.hyps(3) obtain body where b: "update_body v body = Inr dto" by auto
        have cur: "upl_current x = cur" using p Some by simp
        show ?thesis
        proof (rule update_within[OF r(2) b])
          show "update_commit c u dto x db = Inr db'" using request.hyps(5) p by simp
          show "s = upl_current x" if "s \<in> set (t_submissions db)" "same_version (upl_current x) s" for s
            using same_version_is_current[OF hist request.hyps(2) submissions_okD(1)[OF d(1)] request.hyps(4) Some] that cur
            by simp
          show "upl_current x \<in> set (t_submissions d)" using prepare_current[OF request.hyps(4) Some] cur by simp
        qed (rule d)+
      next
        case False
        then show ?thesis using other_commit_within[OF request.hyps(5) Some d(3)] by blast
      qed
    qed
    with request.IH show ?case by simp
  next
    case (job db h c locked)
    then have "texts_within v (fst (status_sync c locked db))"
      by (auto simp: texts_within_def details_within_def status_sync_all_rows intro!: sync_row_within)
    with job.IH show ?case by simp
  next
    case (other db h db')
    then have "texts_within v db'" by (simp add: texts_within_def details_within_def)
    with other.IH show ?case by simp
  qed
  with assms(2) show ?thesis
    by (auto simp: texts_within_def row_within_def columns_within_def kindColumnsOf_def details_within_def
        banner_within_def banner_of_row_def body_within_def)
qed

text \<open>An example: a lost umbrella is reported.\<close>

definition lost_text :: utext where "lost_text = codes ''A black umbrella''"

definition lost_body :: "json obj" where
  "lost_body = [(''type'', JText ''STORY''),
     (''story'', JObj [(''body'', JText ''  A black umbrella ''), (''tag'', JText ''LOST_FOUND'')])]"

definition lost_dto :: create_dto where
  "lost_dto = \<lparr>cd_type = Some STORY,
     cd_kind = empty_input\<lparr>ki_story := Some \<lparr>si_tag = LOST_FOUND, si_body = lost_text\<rparr>\<rparr>,
     cd_startAt = None, cd_endAt = None, cd_targetGroupIds = None\<rparr>"

definition lost_object :: "json obj" where
  "lost_object = [(''type'', JText ''STORY''),
     (''story'', JObj [(''tag'', JText ''LOST_FOUND''), (''body'', JStr lost_text)])]"

lemma lost_story: "instance_of StoryInputDto [(''body'', JText ''  A black umbrella ''), (''tag'', JText ''LOST_FOUND'')]
    = [(''tag'', JText ''LOST_FOUND''), (''body'', JStr lost_text)]"
  by (simp add: StoryInputDto_def field_value_def keep_def trim_def JText_def codes_def lost_text_def js_trim_def js_white_def)

lemma lost_instance: "instance_of CreateSubmissionDto lost_body = lost_object"
  by (simp add: CreateSubmissionDto_def SubmissionDisplayFields_def lost_body_def lost_object_def field_value_def keep_def
      lost_story)

lemma lost_story_ok: "\<forall>F \<in> set StoryInputDto.
    field_ok sample_validator [(''tag'', JText ''LOST_FOUND''), (''body'', JStr lost_text)] F"
  by (simp add: StoryInputDto_def field_ok_def always_def nested_ok_def text_holds_def JText_def story_tags_def
      sample_validator_def lost_text_def codes_def)

lemma lost_body_accepted: "create_body sample_validator lost_body = Inr lost_dto"
proof -
  have "field_ok sample_validator lost_object F" if "F \<in> set CreateSubmissionDto" for F
    using that lost_story_ok
    by (auto simp: CreateSubmissionDto_def SubmissionDisplayFields_def field_ok_def lost_object_def optional_def isPoster_def
        requestsPeriod_def has_type_def nested_ok_def dto_errors_Nil text_holds_def submission_types_def JText_def codes_def
        story_object_checks_def)
  then have "validated sample_validator CreateSubmissionDto lost_body = Inr lost_object"
    by (simp add: validated_Inr lost_instance)
  moreover have "read_create sample_validator lost_object = lost_dto"
    by (simp add: read_create_def lost_object_def lost_dto_def kindInputOf_def empty_input_def given_text_def slug_of_def
        uuid_of_def nullish_text_def object_of_def read_story_def time_of_def slugs_of_def name_in_def submission_types_def
        story_tags_def JText_def codes_def)
  ultimately show ?thesis by (simp add: create_body_def bindE_def)
qed

definition lost_plan :: create_plan where
  "lost_plan = \<lparr>cp_kind = STORY_KIND, cp_period = (None, None),
     cp_resolved = \<lparr>rc_errors = [], rc_columns = EMPTY_KIND_COLUMNS\<lparr>k_title := story_titleOf lost_text\<rparr>,
       rc_detail = Story \<lparr>sd_tag = LOST_FOUND, sd_body = lost_text, sd_storyNumber = None\<rparr>\<rparr>, cp_groups = []\<rparr>"

lemma lost_prepared: "prepare (\<lambda>_. None) (now sample_ctx) sample_author (CreateReq lost_dto) sample_auth_db = Inr (CreatePlan lost_plan)"
  by (simp add: lost_dto_def create_prepare_def Let_def unacceptedFields_def given_fields_def
      empty_input_def given_def kind_defs story_resolve_def validateSchedule_def validateTargetGroups_def
      lost_plan_def del: kind_field_simps)

lemma lost_committed: "\<exists>db. commit sample_ctx sample_author (CreatePlan lost_plan) sample_auth_db = Inr db
    \<and> map st_body (t_stories db) = [lost_text]"
proof -
  have k: "cp_kind lost_plan = STORY_KIND" "cp_groups lost_plan = []"
    "rc_detail (cp_resolved lost_plan) = Story \<lparr>sd_tag = LOST_FOUND, sd_body = lost_text, sd_storyNumber = None\<rparr>"
    by (simp_all add: lost_plan_def)
  have c: "now sample_ctx = 1000" "au_id sample_author = 7" "uuids sample_ctx 0 = 100" "uuids sample_ctx (Suc 0) = 101"
    "currentRequestId sample_ctx = None"
    by (simp_all add: sample_ctx_def sample_author_def sample_admin_def)
  have n: "s_ziggleNoticeId (new_submission 100 7 1000 lost_plan) = None" "s_assetId (new_submission 100 7 1000 lost_plan) = None"
    "s_categoryId (new_submission 100 7 1000 lost_plan) = None" "s_requesterId (new_submission 100 7 1000 lost_plan) = 7"
    by (simp_all add: new_submission_def setKindColumns_def lost_plan_def EMPTY_KIND_COLUMNS_def)
  have "assertDailyLimit sample_author STORY_KIND 1000 sample_auth_db = Inr ()"
    by (simp add: assertDailyLimit_def created_today_def select_def sample_auth_db_def empty_database_def kind_defs)
  then show ?thesis
    by (simp add: create_commit_def k c n notice_taken_def notice_active_def references_exist_def groups_exist_def
        insert_target_groups_def save_detail_def story_save_def upsert_def insert_row_def
        sample_auth_db_def empty_database_def sample_user_def Let_def)
qed

theorem stored_texts_within_limits_witness:
  "\<exists>db. posted sample_validator (\<lambda>_. None) [db, sample_auth_db] \<and> map st_body (t_stories db) = [lost_text]
     \<and> trimmed lost_text \<and> 10 \<le> length lost_text \<and> length lost_text \<le> 140"
proof -
  obtain db where c: "commit sample_ctx sample_author (CreatePlan lost_plan) sample_auth_db = Inr db"
    and b: "map st_body (t_stories db) = [lost_text]" using lost_committed by (elim exE conjE)
  have "texts_within sample_validator sample_auth_db"
    by (simp add: texts_within_def details_within_def sample_auth_db_def empty_database_def)
  moreover have "submissions_ok sample_auth_db"
    by (simp add: submissions_ok_def sample_auth_db_def empty_database_def unique_active_notice_def story_numbers_ok_def)
  ultimately have "posted sample_validator (\<lambda>_. None) [sample_auth_db]" by (intro posted.start)
  then have h: "posted sample_validator (\<lambda>_. None) [db, sample_auth_db]"
    by (rule posted.request[OF _ _ _ lost_prepared c])
       (use lost_body_accepted in \<open>auto simp: sample_auth_db_def empty_database_def\<close>)
  from b obtain r where "r \<in> set (t_stories db)" "st_body r = lost_text" by auto
  with stored_texts_within_limits[OF h, of db] have "trimmed lost_text \<and> 10 \<le> length lost_text \<and> length lost_text \<le> 140"
    by (auto simp: sample_validator_def)
  with h b show ?thesis by (intro exI[of _ db]) simp
qed

end
