(* ===== verification/Query_Bodies.thy ===== *)
theory Query_Bodies
  imports Submission_Bodies Audit_Logs Telemetry
begin

text \<open>
  The queries of the list endpoints and of the statistics: \<open>common/pagination/cursor-query.dto.ts\<close>,
  \<open>common/dto/comma-separated.ts\<close>, \<open>submissions/dto/submission-query.dto.ts\<close>, \<open>users/dto/admin-user.dto.ts\<close>,
  \<open>audit/dto/audit-log.dto.ts\<close>, \<open>stats/dto/impressions.dto.ts\<close> and \<open>stories/dto/recent-stories.dto.ts\<close>. A query
  is an object of texts; a key that is repeated holds an array of them.
\<close>

section \<open>Pages\<close>

definition DEFAULT_PAGE_LIMIT :: int where "DEFAULT_PAGE_LIMIT = 10"
definition MAX_PAGE_LIMIT :: int where "MAX_PAGE_LIMIT = 100"

definition CursorField :: dto_field where
  "CursorField = Field ''cursor'' None emptyToUndefined optional
     [(IsString, Msg ''cursor must be a string''), (IsNotEmpty, Msg ''cursor should not be empty''),
      (MaxLength 512, Msg ''cursor must be shorter than or equal to 512 characters'')] None"

definition number_or :: "int \<Rightarrow> json option \<Rightarrow> json option" where
  "number_or d x = (if x = None \<or> x = Some (JStr []) then Some (JNum d) else x)"

definition limit_checks :: "int \<Rightarrow> (check \<times> msg) list" where
  "limit_checks most = [(NumberHolds js_whole, Msg ''limit must be a whole number''),
     (NumberHolds (js_at_least 1), Msg ''limit must be at least 1''),
     (NumberHolds (js_at_most most), MsgOf ''limit must be at most'' (JNum most))]"

definition LimitField :: "int \<Rightarrow> dto_field" where
  "LimitField d = Field ''limit'' (Some (JNum d)) (number_or d) always (limit_checks MAX_PAGE_LIMIT) None"

definition CursorQueryDto :: dto_class where
  "CursorQueryDto = [CursorField, LimitField DEFAULT_PAGE_LIMIT]"

text \<open>\<open>Number(value)\<close> of an accepted limit.\<close>

definition limit_of :: "json option \<Rightarrow> nat" where
  "limit_of x = (case number_of_query x of Num r \<Rightarrow> nat \<lfloor>r\<rfloor> | _ \<Rightarrow> 0)"

section \<open>Submissions\<close>

definition SUBMISSION_SCOPES :: "(string \<times> submission_scope) list" where
  "SUBMISSION_SCOPES = [(''me'', SCOPE_ME), (''all'', SCOPE_ALL)]"

definition submission_statuses :: "(string \<times> submission_status) list" where
  "submission_statuses = [(''DRAFT'', DRAFT), (''PENDING_REVIEW'', PENDING_REVIEW), (''REJECTED'', REJECTED),
     (''APPROVED'', APPROVED), (''SCHEDULED'', SCHEDULED), (''PUBLISHED'', PUBLISHED), (''ENDED'', ENDED),
     (''SUSPENDED'', SUSPENDED), (''CANCELED'', CANCELED), (''ARCHIVED'', ARCHIVED)]"

definition TypeFilter :: dto_field where
  "TypeFilter = Field ''type'' None CommaSeparated optional
     [(IsArray, Msg ''type must be an array''),
      (Each (IsIn (map fst submission_types)), Msg ''There is an unknown kind of submission.'')] None"

definition scope_field :: dto_field where
  "scope_field = Field ''scope'' (Some (JText ''me'')) (empty_to ''me'') always
     [(IsIn (map fst SUBMISSION_SCOPES), Msg ''scope must be me or all.'')] None"

definition ListSubmissionsQueryDto :: dto_class where
  "ListSubmissionsQueryDto =
    [scope_field,
     Field ''statuses'' None CommaSeparated optional
       [(IsArray, Msg ''statuses must be an array''),
        (Each (IsIn (map fst submission_statuses)), Msg ''There is an unknown status.'')] None,
     TypeFilter] @ CursorQueryDto"

definition SubmissionSummaryQueryDto :: dto_class where
  "SubmissionSummaryQueryDto = [scope_field]"

definition ReviewQueueQueryDto :: dto_class where
  "ReviewQueueQueryDto =
    [Field ''status'' (Some (JText ''PENDING_REVIEW'')) (empty_to ''PENDING_REVIEW'') always
       [(IsIn (map fst submission_statuses), Msg ''Unknown status.'')] None,
     Field ''categoryId'' None emptyToUndefined optional
       [(IsString, Msg ''categoryId must be a string''), (IsNotEmpty, Msg ''categoryId should not be empty'')] None,
     TypeFilter, CursorField, LimitField 20]"

definition names_of :: "(string \<times> 'a) list \<Rightarrow> json option \<Rightarrow> 'a list option" where
  "names_of names x = (case x of
      Some (JArr xs) \<Rightarrow> Some (List.map_filter (\<lambda>j. case j of
        JStr s \<Rightarrow> map_of (map (\<lambda>(n, y). (codes n, y)) names) s | _ \<Rightarrow> None) xs)
    | _ \<Rightarrow> None)"

record list_query =
  lq_scope :: submission_scope
  lq_statuses :: "submission_status list"
  lq_types :: "submission_type list"
  lq_cursor :: "utext option"
  lq_limit :: nat

definition list_or_empty :: "'a list option \<Rightarrow> 'a list" where
  "list_or_empty x = (case x of None \<Rightarrow> [] | Some xs \<Rightarrow> xs)"

definition list_query_of :: "class_validator \<Rightarrow> json obj \<Rightarrow> list_query res" where
  "list_query_of v query = bindE (validated v ListSubmissionsQueryDto query) (\<lambda>p.
     Inr \<lparr>lq_scope = name_in SUBMISSION_SCOPES SCOPE_ME (map_of p ''scope''),
          lq_statuses = list_or_empty (names_of submission_statuses (map_of p ''statuses'')),
          lq_types = list_or_empty (names_of submission_types (map_of p ''type'')),
          lq_cursor = given_text (map_of p ''cursor''), lq_limit = limit_of (map_of p ''limit'')\<rparr>)"

definition summary_query_of :: "class_validator \<Rightarrow> json obj \<Rightarrow> submission_scope res" where
  "summary_query_of v query = bindE (validated v SubmissionSummaryQueryDto query) (\<lambda>p.
     Inr (name_in SUBMISSION_SCOPES SCOPE_ME (map_of p ''scope'')))"

record queue_query =
  qq_status :: submission_status
  qq_categoryId :: "slug option"
  qq_types :: "submission_type list"
  qq_cursor :: "utext option"
  qq_limit :: nat

definition queue_query_of :: "class_validator \<Rightarrow> json obj \<Rightarrow> queue_query res" where
  "queue_query_of v query = bindE (validated v ReviewQueueQueryDto query) (\<lambda>p.
     Inr \<lparr>qq_status = name_in submission_statuses PENDING_REVIEW (map_of p ''status''),
          qq_categoryId = slug_of (map_of p ''categoryId''),
          qq_types = list_or_empty (names_of submission_types (map_of p ''type'')),
          qq_cursor = given_text (map_of p ''cursor''), qq_limit = limit_of (map_of p ''limit'')\<rparr>)"

section \<open>Users\<close>

definition USER_QUERY_MAX_LENGTH :: nat where "USER_QUERY_MAX_LENGTH = 100"

definition granted_roles :: "(string \<times> granted_role) list" where
  "granted_roles = [(''REVIEWER'', REVIEWER), (''SUPER_ADMIN'', SUPER_ADMIN)]"

definition trimToUndefined :: "json option \<Rightarrow> json option" where
  "trimToUndefined x = (case x of
      Some (JStr s) \<Rightarrow> if js_trim s = [] then None else Some (JStr (js_trim s)) | _ \<Rightarrow> x)"

definition ListUsersQueryDto :: dto_class where
  "ListUsersQueryDto =
    [Field ''q'' None trimToUndefined optional
       [(IsString, Msg ''The search is not valid.''),
        (MaxLength USER_QUERY_MAX_LENGTH, MsgOf ''The search has at most this many characters'' (JNum 100))] None,
     Field ''role'' None emptyToUndefined optional
       [(IsIn (map fst granted_roles), Msg ''Unknown role.'')] None,
     CursorField, LimitField 20]"

record users_query =
  uq_q :: "utext option"
  uq_role :: "granted_role option"
  uq_cursor :: "utext option"
  uq_limit :: nat

definition users_query_of :: "class_validator \<Rightarrow> json obj \<Rightarrow> users_query res" where
  "users_query_of v query = bindE (validated v ListUsersQueryDto query) (\<lambda>p.
     Inr \<lparr>uq_q = given_text (map_of p ''q''), uq_role = name_opt granted_roles (map_of p ''role''),
          uq_cursor = given_text (map_of p ''cursor''), uq_limit = limit_of (map_of p ''limit'')\<rparr>)"

section \<open>Audit logs\<close>

definition AUDIT_ACTIONS :: "(string \<times> audit_action) list" where
  "AUDIT_ACTIONS = [(''SUBMISSION_CREATED'', SUBMISSION_CREATED), (''SUBMISSION_UPDATED'', SUBMISSION_UPDATED),
     (''SUBMISSION_RESUBMITTED'', SUBMISSION_RESUBMITTED), (''SUBMISSION_CANCELED'', SUBMISSION_CANCELED),
     (''SUBMISSION_APPROVED'', SUBMISSION_APPROVED), (''SUBMISSION_REJECTED'', SUBMISSION_REJECTED),
     (''SUBMISSION_SUSPENDED'', SUBMISSION_SUSPENDED), (''SUBMISSION_SCHEDULED'', SUBMISSION_SCHEDULED),
     (''SUBMISSION_PUBLISHED'', SUBMISSION_PUBLISHED), (''SUBMISSION_ENDED'', SUBMISSION_ENDED),
     (''STORY_AUTHOR_REVEALED'', STORY_AUTHOR_REVEALED), (''DEVICE_REGISTERED'', DEVICE_REGISTERED),
     (''DEVICE_UPDATED'', DEVICE_UPDATED), (''DEVICE_TOKEN_ROTATED'', DEVICE_TOKEN_ROTATED),
     (''GROUP_CREATED'', GROUP_CREATED), (''GROUP_UPDATED'', GROUP_UPDATED), (''GROUP_DELETED'', GROUP_DELETED),
     (''LINEUP_UPDATED'', LINEUP_UPDATED), (''LIVE_SET'', LIVE_SET), (''LIVE_CLEARED'', LIVE_CLEARED),
     (''PROGRAM_CREATED'', PROGRAM_CREATED), (''PROGRAM_UPDATED'', PROGRAM_UPDATED),
     (''PROGRAM_DELETED'', PROGRAM_DELETED), (''USER_ROLE_GRANTED'', USER_ROLE_GRANTED),
     (''USER_ROLE_REVOKED'', USER_ROLE_REVOKED)]"

definition AUDIT_TARGET_TYPES :: "(string \<times> audit_target_type) list" where
  "AUDIT_TARGET_TYPES = [(''SUBMISSION'', TARGET_SUBMISSION), (''DEVICE'', TARGET_DEVICE), (''GROUP'', TARGET_GROUP),
     (''USER'', TARGET_USER), (''PROGRAM'', TARGET_PROGRAM)]"

text \<open>\<open>[...new Set(...)]\<close> keeps the first of equal values.\<close>

fun first_of_each :: "'a list \<Rightarrow> 'a list" where
  "first_of_each [] = []"
| "first_of_each (x # xs) = x # filter (\<lambda>y. y \<noteq> x) (first_of_each xs)"

definition action_parts :: "json option \<Rightarrow> json option" where
  "action_parts x =
     (let raw = (case x of Some (JArr xs) \<Rightarrow> query_text (JArr xs) | Some (JStr s) \<Rightarrow> s | _ \<Rightarrow> [])
      in if raw = [] then None else Some (JArr (map JStr (first_of_each (comma_parts raw)))))"

definition ListAuditLogsQueryDto :: dto_class where
  "ListAuditLogsQueryDto =
    [Field ''targetType'' None emptyToUndefined optional
       [(IsIn (map fst AUDIT_TARGET_TYPES), Msg ''Unknown kind of target.'')] None,
     Field ''targetId'' None emptyToUndefined optional
       [(IsString, Msg ''targetId must be a string''),
        (MaxLength 64, Msg ''targetId must be shorter than or equal to 64 characters'')] None,
     Field ''action'' None action_parts optional
       [(IsArray, Msg ''action must be an array''),
        (Each (IsIn (map fst AUDIT_ACTIONS)), Msg ''There is an unknown action.'')] None,
     CursorField, LimitField 20]"

text \<open>A target is a uuid where the text is one.\<close>

definition ident_of :: "class_validator \<Rightarrow> json option \<Rightarrow> ident option" where
  "ident_of v x = map_option (\<lambda>s. case cv_uuid v s of Some u \<Rightarrow> IdUuid u | None \<Rightarrow> IdSlug (ascii s)) (given_text x)"

definition audit_query_of :: "class_validator \<Rightarrow> json obj \<Rightarrow> (audit_query \<times> utext option \<times> nat) res" where
  "audit_query_of v query = bindE (validated v ListAuditLogsQueryDto query) (\<lambda>p.
     Inr (\<lparr>aq_targetType = name_opt AUDIT_TARGET_TYPES (map_of p ''targetType''),
           aq_targetId = ident_of v (map_of p ''targetId''),
           aq_action = names_of AUDIT_ACTIONS (map_of p ''action'')\<rparr>,
          given_text (map_of p ''cursor''), limit_of (map_of p ''limit'')))"

section \<open>Statistics and stories\<close>

text \<open>\<open>/^\d{4}-\d{2}-\d{2}$/\<close>\<close>

definition day_text :: "utext \<Rightarrow> bool" where
  "day_text s \<longleftrightarrow> length s = 10 \<and> s ! 4 = 45 \<and> s ! 7 = 45 \<and> list_all (\<lambda>i. is_digit (s ! i)) [0, 1, 2, 3, 5, 6, 8, 9]"

definition day_field :: "string \<Rightarrow> dto_field" where
  "day_field n = Field n None emptyToUndefined optional
     [(Matches day_text, Msg ''A date has the format YYYY-MM-DD.'')] None"

definition stats_scopes :: "(string \<times> stats_scope) list" where
  "stats_scopes = [(''me'', ScopeMe), (''all'', ScopeAll)]"

definition ImpressionStatsQueryDto :: dto_class where
  "ImpressionStatsQueryDto =
    [day_field ''from'', day_field ''to'', scope_field,
     Field ''groupBy'' (Some (JText ''submission'')) (empty_to ''submission'') always
       [(IsIn [''submission''], Msg ''groupBy supports submission only.'')] None]"

definition stats_query_of :: "class_validator \<Rightarrow> json obj \<Rightarrow> (string option \<times> string option \<times> stats_scope) res" where
  "stats_query_of v query = bindE (validated v ImpressionStatsQueryDto query) (\<lambda>p.
     Inr (slug_of (map_of p ''from''), slug_of (map_of p ''to''), name_in stats_scopes ScopeMe (map_of p ''scope'')))"

definition RECENT_STORIES_MAX :: int where "RECENT_STORIES_MAX = 10"

definition RecentStoriesQueryDto :: dto_class where
  "RecentStoriesQueryDto =
    [Field ''limit'' (Some (JNum 5)) (number_or 5) always (limit_checks RECENT_STORIES_MAX) None]"

definition stories_query_of :: "class_validator \<Rightarrow> json obj \<Rightarrow> nat res" where
  "stories_query_of v query = bindE (validated v RecentStoriesQueryDto query) (\<lambda>p. Inr (limit_of (map_of p ''limit'')))"

section \<open>What an accepted query asks for\<close>

lemma limit_bounds:
  assumes "validated v cls query = Inr p" and "Field ''limit'' i t always (limit_checks most) None \<in> set cls"
  shows "1 \<le> limit_of (map_of p ''limit'') \<and> int (limit_of (map_of p ''limit'')) \<le> most"
proof -
  from accepted_field(1)[OF assms] obtain r where r: "number_of_query (map_of p ''limit'') = Num r"
    and b: "of_int \<lfloor>r\<rfloor> = r" "1 \<le> r" "r \<le> of_int most"
    by (cases "number_of_query (map_of p ''limit'')") (auto simp: always_def limit_checks_def)
  from b have "1 \<le> \<lfloor>r\<rfloor>" "\<lfloor>r\<rfloor> \<le> most" by (auto simp: le_floor_iff floor_le_iff)
  then have "1 \<le> nat \<lfloor>r\<rfloor>" "int (nat \<lfloor>r\<rfloor>) \<le> most" by linarith+
  with r show ?thesis by (simp add: limit_of_def)
qed

text \<open>Every list asks the database for at least one row and at most 100 (stories: 10).\<close>

lemma page_limits:
  "list_query_of v query = Inr q \<Longrightarrow> 1 \<le> lq_limit q \<and> lq_limit q \<le> 100"
  "queue_query_of v query = Inr qq \<Longrightarrow> 1 \<le> qq_limit qq \<and> qq_limit qq \<le> 100"
  "users_query_of v query = Inr uq \<Longrightarrow> 1 \<le> uq_limit uq \<and> uq_limit uq \<le> 100"
  "audit_query_of v query = Inr aq \<Longrightarrow> 1 \<le> snd (snd aq) \<and> snd (snd aq) \<le> 100"
  "stories_query_of v query = Inr n \<Longrightarrow> 1 \<le> n \<and> n \<le> 10"
proof -
  have in_cls: "Field ''limit'' (Some (JNum 10)) (number_or 10) always (limit_checks 100) None \<in> set ListSubmissionsQueryDto"
    "Field ''limit'' (Some (JNum 20)) (number_or 20) always (limit_checks 100) None \<in> set ReviewQueueQueryDto"
    "Field ''limit'' (Some (JNum 20)) (number_or 20) always (limit_checks 100) None \<in> set ListUsersQueryDto"
    "Field ''limit'' (Some (JNum 20)) (number_or 20) always (limit_checks 100) None \<in> set ListAuditLogsQueryDto"
    "Field ''limit'' (Some (JNum 5)) (number_or 5) always (limit_checks 10) None \<in> set RecentStoriesQueryDto"
    by (simp_all add: ListSubmissionsQueryDto_def CursorQueryDto_def LimitField_def DEFAULT_PAGE_LIMIT_def MAX_PAGE_LIMIT_def
        ReviewQueueQueryDto_def ListUsersQueryDto_def ListAuditLogsQueryDto_def RecentStoriesQueryDto_def RECENT_STORIES_MAX_def)
  show "list_query_of v query = Inr q \<Longrightarrow> 1 \<le> lq_limit q \<and> lq_limit q \<le> 100"
    using limit_bounds[OF _ in_cls(1)] by (fastforce simp: list_query_of_def res_simps)
  show "queue_query_of v query = Inr qq \<Longrightarrow> 1 \<le> qq_limit qq \<and> qq_limit qq \<le> 100"
    using limit_bounds[OF _ in_cls(2)] by (fastforce simp: queue_query_of_def res_simps)
  show "users_query_of v query = Inr uq \<Longrightarrow> 1 \<le> uq_limit uq \<and> uq_limit uq \<le> 100"
    using limit_bounds[OF _ in_cls(3)] by (fastforce simp: users_query_of_def res_simps)
  show "audit_query_of v query = Inr aq \<Longrightarrow> 1 \<le> snd (snd aq) \<and> snd (snd aq) \<le> 100"
    using limit_bounds[OF _ in_cls(4)] by (fastforce simp: audit_query_of_def res_simps)
  show "stories_query_of v query = Inr n \<Longrightarrow> 1 \<le> n \<and> n \<le> 10"
    using limit_bounds[OF _ in_cls(5)] by (fastforce simp: stories_query_of_def res_simps)
qed

end
