(* ===== verification/Device_Bodies.thy ===== *)
theory Device_Bodies
  imports Submission_Bodies Assets Telemetry Target_Groups
begin

text \<open>
  The other request bodies: of the screens (\<open>devices/dto/now-playing.dto.ts\<close>,
  \<open>device-telemetry/dto/heartbeat.dto.ts\<close>, \<open>device-telemetry/dto/play-events.dto.ts\<close>), of their administration
  (\<open>devices/dto/device-input.dto.ts\<close>, \<open>target-groups/dto/target-group-input.dto.ts\<close>), of reviewers
  (\<open>reviews/dto/review.dto.ts\<close>), of uploads (\<open>assets/dto/presign-asset.dto.ts\<close>) and of the login
  (\<open>auth/dto/auth.dto.ts\<close>). Where a handler throws on an accepted body, the reader gives that exception.
\<close>

section \<open>Reviews\<close>

definition reject_reasons :: "(string \<times> reject_reason_code) list" where
  "reject_reasons = [(''LOW_RESOLUTION'', LOW_RESOLUTION), (''ASPECT_RATIO'', ASPECT_RATIO),
     (''INFO_MISMATCH'', INFO_MISMATCH), (''INAPPROPRIATE'', INAPPROPRIATE), (''PERIOD'', PERIOD),
     (''DUPLICATE'', DUPLICATE), (''PERSONAL_INFO'', PERSONAL_INFO), (''DEFAMATION'', DEFAMATION),
     (''ADVERTISEMENT'', ADVERTISEMENT), (''OTHER'', REASON_OTHER)]"

definition revision_field :: dto_field where
  "revision_field = Field ''revision'' None keep always
     [(IsInt, Msg ''The revision is not valid.''), (Min 1, Msg ''revision must not be less than 1'')] None"

definition ApproveSubmissionDto :: dto_class where
  "ApproveSubmissionDto = [revision_field]"

definition RejectSubmissionDto :: dto_class where
  "RejectSubmissionDto =
    [revision_field,
     Field ''reasonCode'' None keep always
       [(IsIn (map fst reject_reasons), Msg ''Choose the reason of the rejection.'')] None,
     Field ''comment'' None trim always
       [(IsString, Msg ''Enter the comment.''), (IsNotEmpty, Msg ''Enter the comment.''),
        (MaxLength 1000, Msg ''The comment has at most 1000 characters.'')] None]"

definition SuspendSubmissionDto :: dto_class where
  "SuspendSubmissionDto =
    [Field ''reason'' None trim always
       [(IsString, Msg ''Enter the reason.''), (IsNotEmpty, Msg ''Enter the reason.''),
        (MaxLength 1000, Msg ''The reason has at most 1000 characters.'')] None]"

definition approve_body :: "class_validator \<Rightarrow> json obj \<Rightarrow> int res" where
  "approve_body v body = bindE (validated v ApproveSubmissionDto body) (\<lambda>p. Inr (int_of (map_of p ''revision'')))"

definition sent_text :: "json option \<Rightarrow> utext" where
  "sent_text x = (case given_text x of Some s \<Rightarrow> s | None \<Rightarrow> [])"

definition reject_body :: "class_validator \<Rightarrow> json obj \<Rightarrow> (int \<times> reject_reason_code \<times> utext) res" where
  "reject_body v body = bindE (validated v RejectSubmissionDto body) (\<lambda>p.
     Inr (int_of (map_of p ''revision''), name_in reject_reasons REASON_OTHER (map_of p ''reasonCode''),
          sent_text (map_of p ''comment'')))"

definition suspend_body :: "class_validator \<Rightarrow> json obj \<Rightarrow> utext res" where
  "suspend_body v body = bindE (validated v SuspendSubmissionDto body) (\<lambda>p. Inr (sent_text (map_of p ''reason'')))"

section \<open>Uploads\<close>

definition hex_lower :: "nat \<Rightarrow> bool" where
  "hex_lower c \<longleftrightarrow> is_digit c \<or> (97 \<le> c \<and> c \<le> 102)"

text \<open>\<open>/^sha256:[0-9a-f]{64}$/\<close>\<close>

definition checksum_text :: "utext \<Rightarrow> bool" where
  "checksum_text s \<longleftrightarrow> take 7 s = codes ''sha256:'' \<and> length (drop 7 s) = 64 \<and> list_all hex_lower (drop 7 s)"

definition PresignAssetRequestDto :: dto_class where
  "PresignAssetRequestDto =
    [Field ''fileName'' None keep always
       [(IsString, Msg ''The file name is not valid.''), (IsNotEmpty, Msg ''The file name is not valid.''),
        (MaxLength 255, Msg ''The file name has at most 255 characters.'')] None,
     Field ''mimeType'' None keep always [(IsString, Msg ''The file format is not valid.'')] None,
     Field ''sizeBytes'' None keep always
       [(IsInt, Msg ''The file size is not valid.''), (Min 1, Msg ''An empty file cannot be uploaded.'')] None,
     Field ''checksum'' None keep optional
       [(Matches checksum_text, Msg ''checksum has the format sha256:<64 lower hex digits>.'')] None]"

definition presign_body :: "class_validator \<Rightarrow> json obj \<Rightarrow> presign_request res" where
  "presign_body v body = bindE (validated v PresignAssetRequestDto body) (\<lambda>p.
     Inr \<lparr>pq_fileName = sent_text (map_of p ''fileName''), pq_mimeType = ascii (sent_text (map_of p ''mimeType'')),
          pq_sizeBytes = int_of (map_of p ''sizeBytes''), pq_checksum = slug_of (map_of p ''checksum'')\<rparr>)"

section \<open>Target groups\<close>

definition GROUP_NAME_MAX_LENGTH :: nat where "GROUP_NAME_MAX_LENGTH = 40"

definition group_name_checks :: "(check \<times> msg) list" where
  "group_name_checks = [(IsString, Msg ''Enter the name of the group.''), (IsNotEmpty, Msg ''Enter the name of the group.''),
     (MaxLength GROUP_NAME_MAX_LENGTH, MsgOf ''The name has at most this many characters'' (JNum 40))]"

definition CreateTargetGroupDto :: dto_class where
  "CreateTargetGroupDto = [Field ''name'' None trim always group_name_checks None]"

definition UpdateTargetGroupDto :: dto_class where
  "UpdateTargetGroupDto =
    [Field ''name'' None trim if_sent group_name_checks None,
     Field ''isHidden'' None keep if_sent [(IsBoolean, Msg ''isHidden is not valid.'')] None]"

definition create_group_body :: "class_validator \<Rightarrow> json obj \<Rightarrow> utext res" where
  "create_group_body v body = bindE (validated v CreateTargetGroupDto body) (\<lambda>p. Inr (sent_text (map_of p ''name'')))"

definition update_group_body :: "class_validator \<Rightarrow> json obj \<Rightarrow> update_group_dto res" where
  "update_group_body v body = bindE (validated v UpdateTargetGroupDto body) (\<lambda>p.
     Inr \<lparr>ug_name = given_text (map_of p ''name''),
          ug_isHidden = map_option (\<lambda>x. bool_of (Some x)) (map_of p ''isHidden'')\<rparr>)"

section \<open>Devices\<close>

definition device_orientations :: "(string \<times> device_orientation) list" where
  "device_orientations = [(''LANDSCAPE'', LANDSCAPE), (''PORTRAIT'', PORTRAIT)]"

definition MovedToLineup :: "string \<Rightarrow> dto_field" where
  "MovedToLineup n = Field n None keep if_sent
     [(IsUndefined, Msg ''The screen settings are changed in the lineup or the overrides.'')] None"

definition DeviceSettingsFields :: dto_class where
  "DeviceSettingsFields =
    [Field ''location'' None trimToNull optional
       [(IsString, Msg ''location must be a string''),
        (MaxLength 200, Msg ''The location has at most 200 characters.'')] None,
     Field ''groupIds'' None keep if_sent
       [(IsArray, Msg ''The location groups are not valid.''),
        (ArrayMaxSize 50, Msg ''groupIds must contain no more than 50 elements''),
        (ArrayUnique, Msg ''The same location group cannot be chosen twice.''),
        (Each IsString, Msg ''The location groups are not valid.'')] None,
     Field ''orientation'' None keep if_sent
       [(IsIn (map fst device_orientations), Msg ''The orientation is not valid.'')] None,
     MovedToLineup ''layout'', MovedToLineup ''rotationSeconds'', MovedToLineup ''refreshAfterSeconds'']"

definition device_name_checks :: "(check \<times> msg) list" where
  "device_name_checks = [(IsString, Msg ''Enter the name of the device.''), (IsNotEmpty, Msg ''Enter the name of the device.''),
     (MaxLength 100, Msg ''The name of a device has at most 100 characters.'')]"

definition CreateDeviceDto :: dto_class where
  "CreateDeviceDto =
    [Field ''programGroupId'' None keep if_sent [(IsString, Msg ''The lineup group is not valid.'')] None,
     Field ''name'' None trim always device_name_checks None] @ DeviceSettingsFields"

definition UpdateDeviceDto :: dto_class where
  "UpdateDeviceDto =
    [Field ''name'' None trim if_sent device_name_checks None,
     Field ''isActive'' None keep if_sent [(IsBoolean, Msg ''isActive is not valid.'')] None,
     Field ''programGroupId'' None keep if_sent [(IsString, Msg ''The lineup group is not valid.'')] None,
     Field ''overrides'' None keep if_sent [(IsObject, Msg ''The overrides are not valid.'')] None] @ DeviceSettingsFields"

definition orientation_of :: "json option \<Rightarrow> device_orientation option" where
  "orientation_of x = map_option (\<lambda>y. name_in device_orientations LANDSCAPE (Some y)) x"

definition create_device_body :: "class_validator \<Rightarrow> json obj \<Rightarrow> create_device_dto res" where
  "create_device_body v body = bindE (validated v CreateDeviceDto body) (\<lambda>p.
     Inr \<lparr>cdv_name = sent_text (map_of p ''name''), cdv_location = given_text (map_of p ''location''),
          cdv_orientation = orientation_of (map_of p ''orientation''), cdv_groupIds = slugs_of (map_of p ''groupIds''),
          cdv_programGroupId = slug_of (map_of p ''programGroupId'')\<rparr>)"

definition update_device_body :: "class_validator \<Rightarrow> json obj \<Rightarrow> update_device_dto res" where
  "update_device_body v body = bindE (validated v UpdateDeviceDto body) (\<lambda>p.
     Inr \<lparr>udv_name = given_text (map_of p ''name''),
          udv_location = map_option (\<lambda>x. given_text (Some x)) (map_of p ''location''),
          udv_orientation = orientation_of (map_of p ''orientation''),
          udv_isActive = map_option (\<lambda>x. bool_of (Some x)) (map_of p ''isActive''),
          udv_programGroupId = slug_of (map_of p ''programGroupId''), udv_groupIds = slugs_of (map_of p ''groupIds''),
          udv_overrides = map_of p ''overrides''\<rparr>)"

section \<open>Reports of the screens\<close>

definition TIME_MESSAGE :: msg where "TIME_MESSAGE = Msg ''A time is an ISO time with its offset.''"

definition NOW_PLAYING_KINDS :: "(string \<times> now_playing_kind) list" where
  "NOW_PLAYING_KINDS = [(''SUBMISSIONS'', NP_SUBMISSIONS), (''PROGRAM'', NP_PROGRAM), (''LIVE'', NP_LIVE),
     (''IDLE'', NP_IDLE), (''QUIET'', NP_QUIET)]"

definition NowPlayingDto :: dto_class where
  "NowPlayingDto =
    [Field ''blockId'' None keep if_not_null
       [(IsString, Msg ''The block is not valid.''), (MaxLength 48, Msg ''The block is not valid.'')] None,
     Field ''live'' None keep always [(IsBoolean, Msg ''live is not valid.'')] None,
     Field ''kind'' None keep always [(IsIn (map fst NOW_PLAYING_KINDS), Msg ''The kind of scene is not valid.'')] None,
     Field ''label'' None keep if_not_null
       [(IsString, Msg ''The label is not valid.''), (MaxLength 60, Msg ''The label has at most 60 characters.'')] None,
     Field ''submissionIds'' None keep always
       [(IsArray, Msg ''The submissions are not valid.''), (ArrayMaxSize 30, Msg ''At most 30 submissions.''),
        (Each IsUUID, Msg ''A submission is not valid.'')] None,
     Field ''startedAt'' None keep always (time_checks TIME_MESSAGE) None,
     Field ''endsAt'' None keep if_not_null (time_checks TIME_MESSAGE) None]"

definition ResolutionInputDto :: dto_class where
  "ResolutionInputDto =
    map (\<lambda>n. Field n None keep always
       [(IsInt, MsgOf ''must be an integer number'' (JText n)), (Min 1, MsgOf ''must not be less than 1'' (JText n)),
        (Max 16384, MsgOf ''must not be greater than 16384'' (JText n))] None) [''width'', ''height'']"

definition HeartbeatDto :: dto_class where
  "HeartbeatDto =
    [Field ''appVersion'' None keep always
       [(IsString, Msg ''appVersion must be a string''), (IsNotEmpty, Msg ''appVersion should not be empty''),
        (MaxLength 32, Msg ''appVersion must be shorter than or equal to 32 characters'')] None,
     Field ''playlistVersion'' None keep optional
       [(IsString, Msg ''playlistVersion must be a string''),
        (MaxLength 64, Msg ''playlistVersion must be shorter than or equal to 64 characters'')] None,
     Field ''lastRenderOkAt'' None keep optional
       [(IsISO8601, Msg ''lastRenderOkAt must be a valid ISO 8601 date string''),
        (Matches WITH_OFFSET, Msg ''lastRenderOkAt must match the offset'')] None,
     Field ''resolution'' None keep always [] (Some ResolutionInputDto),
     Field ''now'' None keep optional [(IsObject, Msg ''The scene is not valid.'')] (Some NowPlayingDto)]"

definition MAX_EVENTS_PER_REQUEST :: nat where "MAX_EVENTS_PER_REQUEST = 300"

definition play_placements :: "(string \<times> play_placement) list" where
  "play_placements = [(''WALL'', WALL), (''SPOTLIGHT'', SPOTLIGHT), (''STRIP'', STRIP), (''SCENE'', SCENE)]"

definition PlayEventDto :: dto_class where
  "PlayEventDto =
    [Field ''eventId'' None keep always [(IsUUID, Msg ''eventId must be a UUID'')] None,
     Field ''sessionId'' None keep always
       [(IsString, Msg ''sessionId must be a string''), (IsNotEmpty, Msg ''sessionId should not be empty''),
        (MaxLength 64, Msg ''sessionId must be shorter than or equal to 64 characters'')] None,
     Field ''submissionId'' None keep always [(IsUUID, Msg ''submissionId must be a UUID'')] None,
     Field ''revision'' None keep optional
       [(IsInt, Msg ''revision must be an integer number''), (Min 1, Msg ''revision must not be less than 1'')] None,
     Field ''startedAt'' None keep always
       [(IsISO8601, Msg ''startedAt must be a valid ISO 8601 date string''),
        (Matches WITH_OFFSET, Msg ''startedAt must match the offset'')] None,
     Field ''durationMs'' None keep always
       [(IsInt, Msg ''durationMs must be an integer number''), (Min 0, Msg ''durationMs must not be less than 0''),
        (Max (24 * 60 * 60 * 1000), Msg ''durationMs must not be greater than a day'')] None,
     Field ''completed'' None keep always [(IsBoolean, Msg ''completed must be a boolean value'')] None,
     Field ''placement'' None keep optional
       [(IsIn (map fst play_placements), Msg ''placement must be one of the following values'')] None]"

definition PlayEventsDto :: dto_class where
  "PlayEventsDto =
    [Field ''events'' None keep always
       [(IsArray, Msg ''events must be an array''),
        (ArrayMaxSize MAX_EVENTS_PER_REQUEST, MsgOf ''At most this many events can be sent at once'' (JNum 300))]
       (Some PlayEventDto)]"

text \<open>A time that a handler needs: a text that is no date makes its conversion throw.\<close>

definition needed_time :: "class_validator \<Rightarrow> json option \<Rightarrow> time res" where
  "needed_time v x = (case x of
      Some (JStr s) \<Rightarrow> requireE (cv_date v s) invalidTime | _ \<Rightarrow> Inl invalidTime)"

text \<open>A value that is falsy is not converted.\<close>

definition optional_time :: "class_validator \<Rightarrow> json option \<Rightarrow> time option res" where
  "optional_time v x = (if x = None \<or> x = Some JNull then Inr None else bindE (needed_time v x) (\<lambda>t. Inr (Some t)))"

definition read_now :: "class_validator \<Rightarrow> json obj \<Rightarrow> now_playing res" where
  "read_now v p =
     bindE (needed_time v (map_of p ''startedAt'')) (\<lambda>startedAt.
     bindE (optional_time v (map_of p ''endsAt'')) (\<lambda>endsAt.
       Inr \<lparr>np_blockId = slug_of (map_of p ''blockId''), np_live = bool_of (map_of p ''live''),
            np_kind = name_in NOW_PLAYING_KINDS NP_IDLE (map_of p ''kind''), np_label = given_text (map_of p ''label''),
            np_submissionIds = (case map_of p ''submissionIds'' of
               Some (JArr xs) \<Rightarrow> map (\<lambda>x. case uuid_of v (Some x) of Some u \<Rightarrow> u | None \<Rightarrow> 0) xs | _ \<Rightarrow> []),
            np_startedAt = startedAt, np_endsAt = endsAt\<rparr>))"

text \<open>Reading a property of \<open>undefined\<close> or \<open>null\<close>.\<close>

definition typeError :: exc where
  "typeError = Thrown None False (Some (Msg ''Cannot read properties of undefined''))"

text \<open>
  The resolution is read first: a missing one makes the handler throw, and an array, which the nested check
  goes through element by element, has no width and no height.
\<close>

definition sent_int :: "json option \<Rightarrow> int option" where
  "sent_int x = (case x of Some (JNum n) \<Rightarrow> Some n | _ \<Rightarrow> None)"

definition resolution_of :: "json option \<Rightarrow> (int option \<times> int option) res" where
  "resolution_of x = (case x of
      Some (JObj r) \<Rightarrow> Inr (sent_int (map_of r ''width''), sent_int (map_of r ''height''))
    | Some (JArr _) \<Rightarrow> Inr (None, None)
    | _ \<Rightarrow> Inl typeError)"

definition heartbeat_body :: "class_validator \<Rightarrow> json obj \<Rightarrow> heartbeat_dto res" where
  "heartbeat_body v body =
     bindE (validated v HeartbeatDto body) (\<lambda>p.
     bindE (resolution_of (map_of p ''resolution'')) (\<lambda>(w, h).
     bindE (case map_of p ''now'' of
         Some (JObj n) \<Rightarrow> bindE (read_now v n) (\<lambda>x. Inr (Some x)) | _ \<Rightarrow> Inr None) (\<lambda>scene.
     bindE (optional_time v (map_of p ''lastRenderOkAt'')) (\<lambda>rendered.
       Inr \<lparr>hb_appVersion = sent_text (map_of p ''appVersion''), hb_playlistVersion = given_text (map_of p ''playlistVersion''),
            hb_lastRenderOkAt = rendered, hb_width = w, hb_height = h, hb_now = scene\<rparr>))))"

text \<open>An event that is an array has no \<open>startedAt\<close>, so its time is no date.\<close>

definition read_event :: "class_validator \<Rightarrow> json \<Rightarrow> play_event_dto res" where
  "read_event v x = (case x of
      JObj p \<Rightarrow> bindE (needed_time v (map_of p ''startedAt'')) (\<lambda>startedAt.
        Inr \<lparr>ev_eventId = (case uuid_of v (map_of p ''eventId'') of Some u \<Rightarrow> u | None \<Rightarrow> 0),
             ev_sessionId = sent_text (map_of p ''sessionId''),
             ev_submissionId = (case uuid_of v (map_of p ''submissionId'') of Some u \<Rightarrow> u | None \<Rightarrow> 0),
             ev_revision = sent_int (map_of p ''revision''),
             ev_startedAt = startedAt, ev_durationMs = int_of (map_of p ''durationMs''),
             ev_completed = bool_of (map_of p ''completed''), ev_placement = name_opt play_placements (map_of p ''placement'')\<rparr>)
    | _ \<Rightarrow> Inl invalidTime)"

fun each_of :: "('a \<Rightarrow> 'b res) \<Rightarrow> 'a list \<Rightarrow> 'b list res" where
  "each_of f [] = Inr []"
| "each_of f (x # xs) = bindE (f x) (\<lambda>y. bindE (each_of f xs) (\<lambda>ys. Inr (y # ys)))"

definition play_events_body :: "class_validator \<Rightarrow> json obj \<Rightarrow> play_event_dto list res" where
  "play_events_body v body = bindE (validated v PlayEventsDto body) (\<lambda>p.
     case map_of p ''events'' of
       Some (JArr xs) \<Rightarrow> if JNull \<in> set xs then Inl typeError else each_of (read_event v) xs
     | _ \<Rightarrow> Inr [])"

section \<open>The login\<close>

definition LoginRequestDto :: dto_class where
  "LoginRequestDto =
    [Field ''code'' None keep always
       [(IsString, Msg ''code must be a string''), (IsNotEmpty, Msg ''code should not be empty'')] None,
     Field ''redirectUri'' None keep always [(IsUrl, Msg ''redirectUri must be a URL address'')] None,
     Field ''codeVerifier'' None keep optional
       [(IsString, Msg ''codeVerifier must be a string''), (IsNotEmpty, Msg ''codeVerifier should not be empty'')] None]"

definition RefreshRequestDto :: dto_class where
  "RefreshRequestDto =
    [Field ''refreshToken'' None keep always
       [(IsString, Msg ''refreshToken must be a string''), (IsNotEmpty, Msg ''refreshToken should not be empty'')] None]"

definition login_body :: "class_validator \<Rightarrow> json obj \<Rightarrow> (utext \<times> utext \<times> utext option) res" where
  "login_body v body = bindE (validated v LoginRequestDto body) (\<lambda>p.
     Inr (sent_text (map_of p ''code''), sent_text (map_of p ''redirectUri''), given_text (map_of p ''codeVerifier'')))"

definition refresh_body :: "class_validator \<Rightarrow> json obj \<Rightarrow> utext res" where
  "refresh_body v body = bindE (validated v RefreshRequestDto body) (\<lambda>p. Inr (sent_text (map_of p ''refreshToken'')))"

section \<open>What accepted bodies meet\<close>

text \<open>
  The nested check passes over a missing value, so a heartbeat that leaves its resolution out is accepted and
  its handler throws: the screen gets an internal error where a wrong resolution is a 422. The same holds for
  an event that is \<open>null\<close>.
\<close>

lemma heartbeat_without_resolution:
  assumes "cv_length v (codes ''1'') \<le> 32"
  shows "heartbeat_body v [(''appVersion'', JText ''1'')] = Inl typeError"
proof -
  have "validated v HeartbeatDto [(''appVersion'', JText ''1'')] = Inr [(''appVersion'', JText ''1'')]"
    using assms
    by (auto simp: validated_Inr HeartbeatDto_def field_value_def keep_def field_ok_def always_def optional_def
        nested_ok_def text_holds_def JText_def codes_def)
  then show ?thesis by (simp add: heartbeat_body_def resolution_of_def bindE_def)
qed

lemma null_event_accepted: "play_events_body v [(''events'', JArr [JNull])] = Inl typeError"
proof -
  have "validated v PlayEventsDto [(''events'', JArr [JNull])] = Inr [(''events'', JArr [JNull])]"
    by (simp add: validated_Inr PlayEventsDto_def field_value_def keep_def field_ok_def always_def
        nested_ok_def array_holds_def MAX_EVENTS_PER_REQUEST_def)
  then show ?thesis by (simp add: play_events_body_def bindE_def)
qed

text \<open>The settings that moved to the lineup are refused on a device rather than dropped.\<close>

lemma moved_settings_refused:
  assumes "map_of body n \<noteq> None" and "n \<in> {''layout'', ''rotationSeconds'', ''refreshAfterSeconds''}"
    and "cls \<in> {CreateDeviceDto, UpdateDeviceDto}"
  shows "\<exists>e. validated v cls body = Inl e"
proof (cases "validated v cls body")
  case (Inr p)
  have d: "distinct (map field_name cls)" and m: "MovedToLineup n \<in> set cls"
    using assms(2,3) by (auto simp: CreateDeviceDto_def UpdateDeviceDto_def DeviceSettingsFields_def MovedToLineup_def)
  have "map_of p n = field_value (MovedToLineup n) body"
    using instance_field[OF Inr d m] by (simp add: MovedToLineup_def)
  then have "map_of p n \<noteq> None" using assms(1) by (auto simp: field_value_def MovedToLineup_def keep_def)
  with accepted_field(1)[OF Inr m] show ?thesis by (simp add: MovedToLineup_def if_sent_def)
qed blast

end
