(* ===== verification/Body_Properties.thy ===== *)
theory Body_Properties
  imports Query_Bodies Device_Bodies
begin

text \<open>
  What the error response of a rejected body says: its \<open>fields\<close> name the fields that fail and no others, each
  with one of its own messages. The form of the application puts the messages beside its inputs by these names.
\<close>

section \<open>Flattened errors\<close>

text \<open>The field of the class a dotted path belongs to.\<close>

definition error_field :: "string \<Rightarrow> string" where
  "error_field k = takeWhile (\<lambda>c. c \<noteq> CHR ''.'') k"

fun proper :: "validation_error list \<Rightarrow> bool" where
  "proper [] = True"
| "proper (ValidationError p ms kids # es) =
     ((ms \<noteq> [] \<longrightarrow> hd ms \<noteq> Msg []) \<and> (ms \<noteq> [] \<or> kids \<noteq> []) \<and> proper kids \<and> proper es)"

lemma keys_obj_spread: "fst ` set (obj_spread a b) = fst ` set a \<union> fst ` set b"
proof -
  have "k \<in> fst ` set (obj_spread a b) \<longleftrightarrow> k \<in> fst ` set a \<union> fst ` set b" for k
    using map_of_eq_None_iff[of "obj_spread a b" k] map_of_eq_None_iff[of a k] map_of_eq_None_iff[of "rev b" k]
    by (auto simp: map_of_obj_spread split: option.splits)
  then show ?thesis by blast
qed

lemma flatten_not_Nil: "proper es \<Longrightarrow> es \<noteq> [] \<Longrightarrow> flattenValidationErrors es parent \<noteq> []"
proof (induction es parent rule: flattenValidationErrors.induct)
  case (2 p cs children es parent)
  then show ?case by (cases cs) (auto simp: Let_def)
qed simp

lemma keys_under:
  "parent \<noteq> [] \<Longrightarrow> k \<in> fst ` set (flattenValidationErrors es parent) \<Longrightarrow> \<exists>r. k = parent @ ''.'' @ r"
proof (induction es parent rule: flattenValidationErrors.induct)
  case (2 p cs children es parent)
  let ?path = "dot parent p"
  have path: "?path = parent @ ''.'' @ p" using 2(3) by (simp add: dot_def)
  from 2(4) consider "k = ?path" | "k \<in> fst ` set (flattenValidationErrors children ?path)"
    | "k \<in> fst ` set (flattenValidationErrors es parent)"
    by (cases cs) (auto simp: Let_def keys_obj_spread split: if_splits)
  then show ?case
  proof cases
    case 2
    with "2.IH"(1)[OF refl] path obtain r where "k = ?path @ ''.'' @ r" by auto
    with path show ?thesis by simp
  qed (use path "2.IH"(2)[OF refl _ \<open>parent \<noteq> []\<close>] in auto)
qed simp

definition error_names :: "validation_error list \<Rightarrow> string set" where
  "error_names es = (\<lambda>e. case e of ValidationError p _ _ \<Rightarrow> p) ` set es"

lemma error_names_simps [simp]:
  "error_names [] = {}" "error_names (ValidationError p ms kids # es) = insert p (error_names es)"
  "error_names (xs @ ys) = error_names xs \<union> error_names ys"
  by (auto simp: error_names_def)

definition plain_name :: "string \<Rightarrow> bool" where
  "plain_name n \<longleftrightarrow> n \<noteq> [] \<and> CHR ''.'' \<notin> set n"

lemma error_field_plain: "plain_name p \<Longrightarrow> error_field p = p"
  "plain_name p \<Longrightarrow> error_field (p @ ''.'' @ r) = p"
proof -
  assume "plain_name p"
  then have a: "\<And>x. x \<in> set p \<Longrightarrow> x \<noteq> CHR ''.''" by (auto simp: plain_name_def)
  show "error_field p = p" using a by (simp add: error_field_def takeWhile_eq_all_conv)
  show "error_field (p @ ''.'' @ r) = p" using a by (simp add: error_field_def takeWhile_append2)
qed

lemma flat_fields:
  "proper es \<Longrightarrow> \<forall>p \<in> error_names es. plain_name p \<Longrightarrow>
     error_field ` fst ` set (flattenValidationErrors es []) = error_names es"
proof (induction es)
  case (Cons e es)
  obtain p ms kids where e: "e = ValidationError p ms kids" by (cases e)
  have p: "plain_name p" using Cons.prems(2) e by simp
  let ?own = "case ms of [] \<Rightarrow> [] | m # _ \<Rightarrow> if m = Msg [] then [] else [(p, m)]"
  let ?kids = "flattenValidationErrors kids p"
  have flat: "flattenValidationErrors (e # es) [] = obj_spread (obj_spread ?own ?kids) (flattenValidationErrors es [])"
    by (simp add: e Let_def dot_def)
  have under: "k \<in> fst ` set ?kids \<Longrightarrow> error_field k = p" for k
    using keys_under[of p k kids] p error_field_plain(2)[OF p] by (auto simp: plain_name_def)
  have "error_field ` fst ` set ?own \<union> error_field ` fst ` set ?kids = {p}"
  proof
    show "error_field ` fst ` set ?own \<union> error_field ` fst ` set ?kids \<subseteq> {p}"
      using under error_field_plain(1)[OF p] by (auto split: list.splits if_splits)
    show "{p} \<subseteq> error_field ` fst ` set ?own \<union> error_field ` fst ` set ?kids"
    proof (cases ms)
      case Nil
      then have "?kids \<noteq> []" using Cons.prems(1) e flatten_not_Nil by simp
      then obtain x where "x \<in> set ?kids" by (cases ?kids) auto
      then show ?thesis using under by force
    next
      case (Cons m ns)
      with Cons.prems(1) e error_field_plain(1)[OF p] show ?thesis by simp
    qed
  qed
  moreover have "error_field ` fst ` set (flattenValidationErrors es []) = error_names es"
    using Cons e by simp
  ultimately have "error_field ` fst ` set (flattenValidationErrors (e # es) []) = {p} \<union> error_names es"
    by (simp only: flat keys_obj_spread image_Un)
  then show ?case by (simp only: e error_names_simps) simp
qed simp

lemma distinct_obj_spread: "distinct (map fst a) \<Longrightarrow> distinct (map fst (obj_spread a b))"
  unfolding obj_spread_def by (induction b arbitrary: a) (auto simp: split_beta distinct_update)

lemma distinct_map_of_rev: "distinct (map fst xs) \<Longrightarrow> map_of (rev xs) = map_of xs"
proof (induction xs)
  case (Cons x xs)
  then have "map_of xs (fst x) = None" by (simp add: map_of_eq_None_iff)
  with Cons show ?case by (auto simp: fun_eq_iff map_add_def split: option.splits)
qed simp

lemma distinct_flatten: "distinct (map fst (flattenValidationErrors es parent))"
proof (cases es)
  case (Cons e es')
  obtain p cs ks where "e = ValidationError p cs ks" by (cases e)
  with Cons show ?thesis by (cases cs) (auto simp: Let_def intro!: distinct_obj_spread)
qed simp

text \<open>The message of a field of its own is the first that is listed for it.\<close>

lemma flat_message:
  "proper es \<Longrightarrow> distinct (map (\<lambda>e. case e of ValidationError p _ _ \<Rightarrow> p) es) \<Longrightarrow> \<forall>p \<in> error_names es. plain_name p \<Longrightarrow>
     ValidationError p (m # ms) kids \<in> set es \<Longrightarrow> map_of (flattenValidationErrors es []) p = Some m"
proof (induction es)
  case (Cons e es)
  obtain q ns ks where e: "e = ValidationError q ns ks" by (cases e)
  have q: "plain_name q" using Cons.prems(3) e by simp
  let ?own = "case ns of [] \<Rightarrow> [] | m # _ \<Rightarrow> if m = Msg [] then [] else [(q, m)]"
  let ?kids = "flattenValidationErrors ks q" and ?rest = "flattenValidationErrors es []"
  have flat: "flattenValidationErrors (e # es) [] = obj_spread (obj_spread ?own ?kids) ?rest"
    by (simp add: e Let_def dot_def)
  have rest: "error_field ` fst ` set ?rest = error_names es"
    using flat_fields[of es] Cons.prems(1,3) e by simp
  show ?case
  proof (cases "ValidationError p (m # ms) kids = e")
    case True
    then have eq: "q = p" "ns = m # ms" "ks = kids" using e by auto
    have "p \<notin> error_names es" using Cons.prems(2) e eq by (force simp: error_names_def)
    then have "p \<notin> fst ` set ?rest" using rest error_field_plain(1)[OF q] eq by (metis image_eqI)
    then have 1: "map_of (rev ?rest) p = None" by (simp add: map_of_eq_None_iff)
    have "p \<notin> fst ` set ?kids" using keys_under[of q p ks] q eq by (auto simp: plain_name_def)
    then have 2: "map_of (rev ?kids) p = None" by (simp add: map_of_eq_None_iff)
    have "m \<noteq> Msg []" using Cons.prems(1) e eq by simp
    then show ?thesis using 1 2 eq by (simp add: flat map_of_obj_spread)
  next
    case False
    then have "ValidationError p (m # ms) kids \<in> set es" using Cons.prems(4) by simp
    with Cons e have r: "map_of ?rest p = Some m" by simp
    have "map_of (rev ?rest) = map_of ?rest" using distinct_flatten by (metis distinct_map_of_rev)
    with r show ?thesis by (simp add: flat map_of_obj_spread)
  qed
qed simp

section \<open>The errors of a class\<close>

fun messages_given :: "dto_class \<Rightarrow> bool" where
  "messages_given [] = True"
| "messages_given (Field n i t w cs nested # fs) =
     (list_all (\<lambda>(c, m). m \<noteq> Msg []) cs \<and> (case nested of None \<Rightarrow> True | Some d \<Rightarrow> messages_given d) \<and> messages_given fs)"

text \<open>What the library is relied on: it lists the messages of the failed checks of a field, each of them.\<close>

definition lists_messages :: "class_validator \<Rightarrow> bool" where
  "lists_messages v \<longleftrightarrow> (\<forall>ms. set (cv_arrange v ms) = set ms)"

lemma proper_append [simp]: "proper (xs @ ys) \<longleftrightarrow> proper xs \<and> proper ys"
  by (induction xs rule: proper.induct) auto

lemma nested_messages: "fst (nested_errors f y) \<in> {[], [nested_message]}"
  by (cases y) (simp_all add: case_prod_beta)

lemma nested_proper: "\<forall>p. proper (f p) \<Longrightarrow> proper (snd (nested_errors f y))"
proof (induction f y rule: nested_errors.induct)
  case (2 f ys)
  have "proper (concat (map (\<lambda>(i, y). case nested_errors f y of (ms, kids) \<Rightarrow>
      if ms = [] \<and> kids = [] then [] else [ValidationError (nat_text i) ms kids]) zs))"
    if "\<And>i y. (i, y) \<in> set zs \<Longrightarrow> proper (snd (nested_errors f y))" for zs
    using that
  proof (induction zs)
    case (Cons z zs)
    obtain i y where z: "z = (i, y)" by (cases z)
    have "proper (snd (nested_errors f y))" using Cons.prems z by auto
    with nested_messages[of f y] Cons show ?case
      by (cases "nested_errors f y") (auto simp: z nested_message_def)
  qed simp
  from this[of "enumerate 0 ys"] 2 show ?case by simp
qed simp_all

lemma arranged_head:
  "lists_messages v \<Longrightarrow> \<forall>m \<in> set ms. m \<noteq> Msg [] \<Longrightarrow> cv_arrange v ms \<noteq> [] \<longrightarrow> hd (cv_arrange v ms) \<noteq> Msg []"
  unfolding lists_messages_def by (metis hd_in_set)

lemma arranged_Nil: "lists_messages v \<Longrightarrow> cv_arrange v ms = [] \<longleftrightarrow> ms = []"
  unfolding lists_messages_def by (metis set_empty)

definition kids_of :: "class_validator \<Rightarrow> dto_class option \<Rightarrow> json option \<Rightarrow> msg list \<times> validation_error list" where
  "kids_of v nested x = (case nested of None \<Rightarrow> ([], []) | Some d \<Rightarrow>
     (case x of None \<Rightarrow> ([], []) | Some y \<Rightarrow> nested_errors (\<lambda>p. dto_errors v d p) y))"

text \<open>The errors of one field, none or one.\<close>

definition own_errors :: "class_validator \<Rightarrow> json obj \<Rightarrow> dto_field \<Rightarrow> validation_error list" where
  "own_errors v obj F =
     (let x = map_of obj (field_name F); kids = kids_of v (field_nested F) x; ms = failed v (field_checks F) x @ fst kids
      in if field_when F obj x \<and> (ms \<noteq> [] \<or> snd kids \<noteq> []) then [ValidationError (field_name F) (cv_arrange v ms) (snd kids)]
         else [])"

lemma dto_errors_Cons: "dto_errors v (F # fs) obj = own_errors v obj F @ dto_errors v fs obj"
  by (cases F) (simp add: own_errors_def kids_of_def Let_def)

lemma dto_errors_concat: "dto_errors v cls obj = concat (map (own_errors v obj) cls)"
  by (induction cls) (simp_all add: dto_errors_Cons)

lemma own_errors_Nil: "own_errors v obj F = [] \<longleftrightarrow> field_ok v obj F"
  by (auto simp: own_errors_def field_ok_def Let_def failed_Nil nested_ok_def kids_of_def prod_eq_iff split: option.splits)

lemma kids_messages: "fst (kids_of v nested x) \<in> {[], [nested_message]}"
  using nested_messages by (auto simp: kids_of_def split: option.splits)

lemma dto_errors_proper:
  assumes "lists_messages v"
  shows "messages_given cls \<Longrightarrow> proper (dto_errors v cls obj)"
proof (induction cls arbitrary: obj rule: messages_given.induct)
  case (2 n i t w cs nested fs)
  let ?F = "Field n i t w cs nested" and ?x = "map_of obj n"
  have kids: "proper (snd (kids_of v nested ?x))"
    using "2.IH"(1) "2.prems" by (auto simp: kids_of_def intro!: nested_proper split: option.splits)
  let ?ms = "failed v cs ?x @ fst (kids_of v nested ?x)"
  have "\<forall>m \<in> set (failed v cs ?x). m \<noteq> Msg []"
    using "2.prems" by (auto simp: failed_def list_all_iff)
  then have "\<forall>m \<in> set ?ms. m \<noteq> Msg []" using kids_messages[of v nested ?x] by (auto simp: nested_message_def)
  from arranged_head[OF assms this] arranged_Nil[OF assms, of ?ms] kids
  have "proper (own_errors v obj ?F)" by (auto simp: own_errors_def Let_def)
  with "2.IH"(2) "2.prems" show ?case by (simp add: dto_errors_Cons del: dto_errors.simps)
qed simp

text \<open>Names of errors are names of failing fields.\<close>

lemma error_names_dto: "error_names (dto_errors v cls obj) = field_name ` {F \<in> set cls. \<not> field_ok v obj F}"
proof (induction cls)
  case (Cons F fs)
  have "error_names (own_errors v obj F) = (if field_ok v obj F then {} else {field_name F})"
    using own_errors_Nil[of v obj F] by (auto simp: own_errors_def Let_def split: if_splits)
  with Cons show ?case by (auto simp: dto_errors_Cons)
qed simp

lemma distinct_error_names:
  "distinct (map field_name cls) \<Longrightarrow>
     distinct (map (\<lambda>e. case e of ValidationError p _ _ \<Rightarrow> p) (dto_errors v cls obj))"
proof (induction cls)
  case (Cons F fs)
  have "(\<lambda>e. case e of ValidationError p _ _ \<Rightarrow> p) ` set (dto_errors v fs obj) \<subseteq> field_name ` set fs"
    using error_names_dto[of v fs obj] unfolding error_names_def by auto
  with Cons show ?case by (auto simp: dto_errors_Cons own_errors_def Let_def)
qed simp

text \<open>C9: the response to a rejected body or query is a 422 whose \<open>fields\<close> name exactly the fields that fail (a
  nested one by a path below its name), and a field that fails a check of its own has one of the messages of
  its failed checks. So a form shows every wrong input and no right one as wrong. The validation library is
  relied on to list the failed checks of a field, in any order.\<close>

theorem rejected_body_names_failing_fields:
  assumes "validated v cls body = Inl e" and "lists_messages v" and "messages_given cls"
    and "distinct (map field_name cls)" and "\<forall>F \<in> set cls. plain_name (field_name F)"
  shows "\<exists>flds. e = validationFailed flds \<and> flds \<noteq> []
     \<and> error_field ` fst ` set flds = field_name ` {F \<in> set cls. \<not> field_ok v (instance_of cls body) F}
     \<and> (\<forall>F \<in> set cls. field_when F (instance_of cls body) (map_of (instance_of cls body) (field_name F))
          \<longrightarrow> failed v (field_checks F) (map_of (instance_of cls body) (field_name F)) \<noteq> []
          \<longrightarrow> (\<exists>m \<in> insert nested_message (set (failed v (field_checks F) (map_of (instance_of cls body) (field_name F)))).
                 map_of flds (field_name F) = Some m))"
proof -
  let ?obj = "instance_of cls body" and ?es = "dto_errors v cls (instance_of cls body)"
  let ?flds = "flattenValidationErrors ?es []"
  from assms(1) have ne: "?es \<noteq> []" and e: "e = validationFailed ?flds"
    by (auto simp: validated_def Let_def validationExceptionFactory_def split: if_splits)
  note pr = dto_errors_proper[OF assms(2,3)]
  have plain: "\<forall>p \<in> error_names ?es. plain_name p" using assms(5) by (auto simp: error_names_dto)
  have msg: "\<exists>m \<in> insert nested_message (set (failed v (field_checks F) x)). map_of ?flds (field_name F) = Some m"
    if F: "F \<in> set cls" "field_when F ?obj x" "failed v (field_checks F) x \<noteq> []" and x: "x = map_of ?obj (field_name F)" for F x
  proof -
    let ?ms = "failed v (field_checks F) x @ fst (kids_of v (field_nested F) x)"
    have "cv_arrange v ?ms \<noteq> []" using F(3) arranged_Nil[OF assms(2)] by simp
    then obtain m ms where m: "cv_arrange v ?ms = m # ms" by (cases "cv_arrange v ?ms") auto
    have "set (cv_arrange v ?ms) = set ?ms" using assms(2) unfolding lists_messages_def by blast
    then have "m \<in> set ?ms" using m by auto
    then have "m \<in> insert nested_message (set (failed v (field_checks F) x))"
      using kids_messages[of v "field_nested F" x] by auto
    moreover have "ValidationError (field_name F) (m # ms) (snd (kids_of v (field_nested F) x)) \<in> set ?es"
      using F m x by (auto simp: dto_errors_concat own_errors_def Let_def intro!: bexI[of _ F])
    from flat_message[OF pr distinct_error_names[OF assms(4)] plain this]
    have "map_of ?flds (field_name F) = Some m" .
    ultimately show ?thesis by blast
  qed
  show ?thesis
    using e flatten_not_Nil[OF pr ne] flat_fields[OF pr plain] msg by (intro exI[of _ ?flds]) (auto simp: error_names_dto)
qed

definition rejection_body :: "json obj" where
  "rejection_body = [(''revision'', JNum 3), (''comment'', JText ''  '')]"

lemma rejection_instance:
  "instance_of RejectSubmissionDto rejection_body = [(''revision'', JNum 3), (''comment'', JStr [])]"
  by (simp add: RejectSubmissionDto_def revision_field_def rejection_body_def field_value_def keep_def trim_def
      JText_def codes_def js_trim_def js_white_def)

lemma rejection_failing:
  "field_name ` {F \<in> set RejectSubmissionDto. \<not> field_ok sample_validator (instance_of RejectSubmissionDto rejection_body) F}
     = {''reasonCode'', ''comment''}"
  unfolding rejection_instance set_filter[symmetric]
  by (simp add: RejectSubmissionDto_def revision_field_def field_ok_def always_def nested_ok_def text_holds_def
      int_holds_def insert_commute)

lemma rejection_refused:
  "\<exists>e. validated sample_validator RejectSubmissionDto rejection_body = Inl e"
proof -
  let ?obj = "instance_of RejectSubmissionDto rejection_body"
  have "dto_errors sample_validator RejectSubmissionDto ?obj \<noteq> []"
  proof
    assume "dto_errors sample_validator RejectSubmissionDto ?obj = []"
    then have "{F \<in> set RejectSubmissionDto. \<not> field_ok sample_validator ?obj F} = {}"
      unfolding dto_errors_Nil by blast
    from rejection_failing[unfolded this image_empty] show False by (simp only: empty_not_insert)
  qed
  then show ?thesis by (simp add: validated_def Let_def)
qed

lemma rejection_class:
  "messages_given RejectSubmissionDto" "distinct (map field_name RejectSubmissionDto)"
  "\<forall>F \<in> set RejectSubmissionDto. plain_name (field_name F)"
  by (auto simp: RejectSubmissionDto_def revision_field_def plain_name_def)

theorem rejected_body_names_failing_fields_witness:
  "\<exists>flds. reject_body sample_validator rejection_body = Inl (validationFailed flds)
     \<and> error_field ` fst ` set flds = {''reasonCode'', ''comment''}
     \<and> map_of flds ''comment'' \<in> {Some (Msg ''Enter the comment.''), Some nested_message}"
proof -
  let ?obj = "instance_of RejectSubmissionDto rejection_body"
  obtain e where e: "validated sample_validator RejectSubmissionDto rejection_body = Inl e"
    using rejection_refused by blast
  have l: "lists_messages sample_validator" by (simp add: lists_messages_def sample_validator_def)
  let ?C = "Field ''comment'' None trim always
       [(IsString, Msg ''Enter the comment.''), (IsNotEmpty, Msg ''Enter the comment.''),
        (MaxLength 1000, Msg ''The comment has at most 1000 characters.'')] None"
  have C: "?C \<in> set RejectSubmissionDto" by (simp add: RejectSubmissionDto_def)
  have f: "failed sample_validator (field_checks ?C) (map_of ?obj (field_name ?C)) = [Msg ''Enter the comment.'']"
    unfolding rejection_instance by (simp add: failed_def text_holds_def sample_validator_def)
  have w: "field_when ?C ?obj (map_of ?obj (field_name ?C))" by (simp add: always_def)
  have f': "failed sample_validator (field_checks ?C) (map_of ?obj (field_name ?C)) \<noteq> []" unfolding f by simp
  from rejected_body_names_failing_fields[OF e l rejection_class] obtain flds where r: "e = validationFailed flds"
    "error_field ` fst ` set flds = {''reasonCode'', ''comment''}"
    and all: "\<forall>F \<in> set RejectSubmissionDto. field_when F ?obj (map_of ?obj (field_name F))
        \<longrightarrow> failed sample_validator (field_checks F) (map_of ?obj (field_name F)) \<noteq> []
        \<longrightarrow> (\<exists>m \<in> insert nested_message (set (failed sample_validator (field_checks F) (map_of ?obj (field_name F)))).
               map_of flds (field_name F) = Some m)"
    unfolding rejection_failing by (elim exE conjE)
  have m: "\<exists>m \<in> insert nested_message (set (failed sample_validator (field_checks ?C) (map_of ?obj (field_name ?C)))).
        map_of flds (field_name ?C) = Some m"
    by (rule mp[OF mp[OF bspec[OF all C] w] f'])
  from m have "map_of flds ''comment'' \<in> {Some (Msg ''Enter the comment.''), Some nested_message}"
    unfolding f by auto
  moreover have "reject_body sample_validator rejection_body = Inl (validationFailed flds)"
    using e r by (simp add: reject_body_def bindE_def)
  ultimately show ?thesis using r by blast
qed

end
