(* ===== verification/Idp_Client.thy ===== *)
theory Idp_Client
  imports Auth Json_Schemas
begin

text \<open>
  The client of the identity provider, \<open>src/src/idp/idp.service.ts\<close> and \<open>idp/idp.types.ts\<close>, and the login
  over it. The provider is a parameter \<open>fetch\<close>: the answer to a request, or \<open>None\<close> when the connection fails
  or takes longer than ten seconds. A response is its status and the JSON value its body carries (\<open>None\<close>
  for a body that is no JSON). Everything that goes wrong at the provider becomes one of two errors: 401 for
  what the user brought along, 502 for the rest.
\<close>

section \<open>Requests\<close>

record http_request =
  hq_method :: string
  hq_url :: utext
  hq_headers :: "utext obj"
  hq_body :: "utext obj"

record http_answer =
  ha_status :: int
  ha_json :: "json option"

type_synonym fetch = "http_request \<Rightarrow> http_answer option"

record idp_config =
  ic_url :: utext
  ic_clientId :: utext
  ic_clientSecret :: utext

text \<open>\<open>replace(/\/+$/, '')\<close>\<close>

definition without_slashes :: "utext \<Rightarrow> utext" where
  "without_slashes s = rev (dropWhile (\<lambda>c. c = 47) (rev s))"

definition idp_config_of :: "utext \<Rightarrow> utext \<Rightarrow> utext \<Rightarrow> idp_config" where
  "idp_config_of url clientId secret =
     \<lparr>ic_url = without_slashes url, ic_clientId = clientId, ic_clientSecret = secret\<rparr>"

text \<open>The bytes of a text in UTF-8, and base64 with its padding.\<close>

definition utf8_bytes :: "nat \<Rightarrow> nat list" where
  "utf8_bytes c =
     (if c < 128 then [c]
      else if c < 2048 then [192 + c div 64, 128 + c mod 64]
      else if c < 65536 then [224 + c div 4096, 128 + c div 64 mod 64, 128 + c mod 64]
      else [240 + c div 262144, 128 + c div 4096 mod 64, 128 + c div 64 mod 64, 128 + c mod 64])"

definition base64_digit :: "nat \<Rightarrow> nat" where
  "base64_digit n = (if n < 26 then 65 + n else if n < 52 then 71 + n else if n < 62 then n - 4
     else if n = 62 then 43 else 47)"

fun base64 :: "nat list \<Rightarrow> utext" where
  "base64 [] = []"
| "base64 [a] = [base64_digit (a div 4), base64_digit (a mod 4 * 16), 61, 61]"
| "base64 [a, b] = [base64_digit (a div 4), base64_digit (a mod 4 * 16 + b div 16), base64_digit (b mod 16 * 4), 61]"
| "base64 (a # b # c # bs) =
     [base64_digit (a div 4), base64_digit (a mod 4 * 16 + b div 16), base64_digit (b mod 16 * 4 + c div 64),
      base64_digit (c mod 64)] @ base64 bs"

definition basicAuth :: "idp_config \<Rightarrow> utext" where
  "basicAuth cfg = base64 (concat (map utf8_bytes (ic_clientId cfg @ [58] @ ic_clientSecret cfg)))"

section \<open>Responses\<close>

text \<open>\<open>z.object\<close>, which passes over other keys, and \<open>z.number()\<close>.\<close>

definition z_object :: "'a shape \<Rightarrow> string \<Rightarrow> 'a schema" where
  "z_object sh m x = (case x of Some (JObj obj) \<Rightarrow> sh obj | _ \<Rightarrow> fail_type m)"

definition z_number :: "string \<Rightarrow> int schema" where
  "z_number m x = (case x of Some (JNum n) \<Rightarrow> ([], Some n) | _ \<Rightarrow> fail_type m)"

definition z_text :: "utext schema" where
  "z_text = z_check (\<lambda>s. s \<noteq> []) ''The text is empty'' (z_string ''A text is needed'')"

definition idpTokenResponseSchema :: "idp_token_response schema" where
  "idpTokenResponseSchema = z_object
     (z_prop (z_prop (z_prop (z_prop (z_prop (z_prop
        (no_prop (\<lambda>a t e r s i. \<lparr>it_access_token = a, it_token_type = t, it_expires_in = e, it_refresh_token = r,
            it_scope = s, it_id_token = i\<rparr>))
        ''access_token'' z_text)
        ''token_type'' (z_string ''A text is needed''))
        ''expires_in'' (z_number ''A number is needed''))
        ''refresh_token'' (z_optional (z_string ''A text is needed'')))
        ''scope'' (z_optional (z_string ''A text is needed'')))
        ''id_token'' (z_optional (z_string ''A text is needed'')))
     ''An object is needed''"

text \<open>The user info as the schema gives it and as \<open>getUserInfo\<close> passes it on; \<open>picture\<close> and \<open>profile\<close> are checked only.\<close>

definition idpUserInfoSchema :: "idp_user_info schema" where
  "idpUserInfoSchema = z_object
     (z_prop (z_prop (z_prop (z_prop (z_prop (z_prop
        (no_prop (\<lambda>sub name email picture profile studentId.
            \<lparr>ui_uuid = sub, ui_email = email, ui_name = name, ui_studentId = studentId\<rparr>))
        ''sub'' z_text)
        ''name'' z_text)
        ''email'' z_text)
        ''picture'' (z_optional (z_string ''A text is needed'')))
        ''profile'' (z_optional (z_string ''A text is needed'')))
        ''student_id'' (z_optional (z_string ''A text is needed'')))
     ''An object is needed''"

section \<open>The client\<close>

definition send :: "fetch \<Rightarrow> http_request \<Rightarrow> http_answer res" where
  "send fetch q = (case fetch q of
      Some a \<Rightarrow> Inr a | None \<Rightarrow> Inl (badGatewayException ''Identity provider is unavailable''))"

definition response_ok :: "http_answer \<Rightarrow> bool" where
  "response_ok a \<longleftrightarrow> 200 \<le> ha_status a \<and> ha_status a \<le> 299"

definition parse_answer :: "http_answer \<Rightarrow> 'a schema \<Rightarrow> 'a res" where
  "parse_answer a schema =
     (if \<not> response_ok a then Inl (badGatewayException ''Identity provider returned an error'')
      else case parse schema (case ha_json a of Some j \<Rightarrow> j | None \<Rightarrow> JNull) of
        Inl issues \<Rightarrow> Inl (badGatewayException ''Unexpected response from identity provider'')
      | Inr v \<Rightarrow> Inr v)"

definition token_request :: "idp_config \<Rightarrow> utext obj \<Rightarrow> http_request" where
  "token_request cfg body = \<lparr>hq_method = ''POST'', hq_url = ic_url cfg @ codes ''/oauth/token'',
     hq_headers = [(''Authorization'', codes ''Basic '' @ basicAuth cfg),
                   (''Content-Type'', codes ''application/x-www-form-urlencoded'')],
     hq_body = body\<rparr>"

definition requestToken :: "idp_config \<Rightarrow> fetch \<Rightarrow> utext obj \<Rightarrow> string \<Rightarrow> idp_token_response res" where
  "requestToken cfg fetch body unauthorizedMessage =
     bindE (send fetch (token_request cfg body)) (\<lambda>a.
       if ha_status a = 400 \<or> ha_status a = 401 then Inl (unauthorizedException unauthorizedMessage)
       else parse_answer a idpTokenResponseSchema)"

text \<open>A verifier that is empty is not sent.\<close>

definition code_params :: "utext \<Rightarrow> utext \<Rightarrow> utext option \<Rightarrow> utext obj" where
  "code_params code redirectUri codeVerifier =
     [(''grant_type'', codes ''authorization_code''), (''code'', code), (''redirect_uri'', redirectUri)]
     @ (case codeVerifier of Some v \<Rightarrow> if v = [] then [] else [(''code_verifier'', v)] | None \<Rightarrow> [])"

definition exchangeCode :: "idp_config \<Rightarrow> fetch \<Rightarrow> utext \<Rightarrow> utext \<Rightarrow> utext option \<Rightarrow> idp_token_response res" where
  "exchangeCode cfg fetch code redirectUri codeVerifier =
     requestToken cfg fetch (code_params code redirectUri codeVerifier) ''Invalid authorization code''"

definition idp_refresh :: "idp_config \<Rightarrow> fetch \<Rightarrow> utext \<Rightarrow> idp_token_response res" where
  "idp_refresh cfg fetch refreshToken =
     requestToken cfg fetch [(''grant_type'', codes ''refresh_token''), (''refresh_token'', refreshToken)]
       ''Invalid refresh token''"

definition userinfo_request :: "idp_config \<Rightarrow> utext \<Rightarrow> http_request" where
  "userinfo_request cfg accessToken = \<lparr>hq_method = ''GET'', hq_url = ic_url cfg @ codes ''/oauth/userinfo'',
     hq_headers = [(''Authorization'', codes ''Bearer '' @ accessToken)], hq_body = []\<rparr>"

definition getUserInfo :: "idp_config \<Rightarrow> fetch \<Rightarrow> utext \<Rightarrow> idp_user_info res" where
  "getUserInfo cfg fetch accessToken =
     bindE (send fetch (userinfo_request cfg accessToken)) (\<lambda>a.
       if ha_status a = 401 then Inl (unauthorizedException ''Invalid IdP access token'')
       else parse_answer a idpUserInfoSchema)"

section \<open>The login\<close>

definition idp_login ::
    "idp_config \<Rightarrow> fetch \<Rightarrow> (uuid \<Rightarrow> int \<Rightarrow> string) \<Rightarrow> int \<Rightarrow> ctx \<Rightarrow> utext \<Rightarrow> utext \<Rightarrow> utext option \<Rightarrow> database
       \<Rightarrow> (database \<times> token_response) res" where
  "idp_login cfg fetch sign expiresIn c code redirectUri codeVerifier db =
     login (exchangeCode cfg fetch) (getUserInfo cfg fetch) sign expiresIn c code redirectUri codeVerifier db"

definition idp_session_refresh ::
    "idp_config \<Rightarrow> fetch \<Rightarrow> (uuid \<Rightarrow> int \<Rightarrow> string) \<Rightarrow> int \<Rightarrow> ctx \<Rightarrow> utext \<Rightarrow> database \<Rightarrow> (database \<times> token_response) res" where
  "idp_session_refresh cfg fetch sign expiresIn c token db =
     refresh (idp_refresh cfg fetch) (getUserInfo cfg fetch) sign expiresIn c token db"

end
