(* ===== verification/Login_Properties.thy ===== *)
theory Login_Properties
  imports Idp_Client Device_Bodies
begin

text \<open>
  The login as a whole: \<open>POST /auth/login\<close> and \<open>POST /auth/refresh\<close> of \<open>auth/auth.controller.ts\<close> over the body
  classes, the client of the identity provider, the user table and the token guard. Whom a token lets in, and
  what becomes of a failure.
\<close>

section \<open>The handlers\<close>

definition login_handler ::
    "class_validator \<Rightarrow> idp_config \<Rightarrow> fetch \<Rightarrow> (uuid \<Rightarrow> int \<Rightarrow> string) \<Rightarrow> int \<Rightarrow> ctx \<Rightarrow> json obj \<Rightarrow> database
       \<Rightarrow> (database \<times> token_response) res" where
  "login_handler v cfg fetch sign expiresIn c body db =
     bindE (login_body v body) (\<lambda>(code, redirectUri, codeVerifier).
       idp_login cfg fetch sign expiresIn c code redirectUri codeVerifier db)"

definition refresh_handler ::
    "class_validator \<Rightarrow> idp_config \<Rightarrow> fetch \<Rightarrow> (uuid \<Rightarrow> int \<Rightarrow> string) \<Rightarrow> int \<Rightarrow> ctx \<Rightarrow> json obj \<Rightarrow> database
       \<Rightarrow> (database \<times> token_response) res" where
  "refresh_handler v cfg fetch sign expiresIn c body db =
     bindE (refresh_body v body) (\<lambda>token. idp_session_refresh cfg fetch sign expiresIn c token db)"

section \<open>Failures of the provider\<close>

text \<open>The two errors of the client, by the status of the provider's answer.\<close>

definition idp_error :: "bool \<Rightarrow> exc \<Rightarrow> bool" where
  "idp_error refused e \<longleftrightarrow> (\<exists>m. e = (if refused then unauthorizedException m else badGatewayException m))"

lemma idp_error_status: "idp_error refused e \<Longrightarrow> fst (toErrorResponse e rid) = (if refused then 401 else 502)"
  by (auto simp: idp_error_def toErrorResponse_def unauthorizedException_def badGatewayException_def)

lemma parse_answer_Inl: "parse_answer a s = Inl e \<Longrightarrow> idp_error False e"
  by (auto simp: parse_answer_def idp_error_def split: if_splits sum.splits)

definition answers_with :: "fetch \<Rightarrow> http_request \<Rightarrow> int set \<Rightarrow> bool" where
  "answers_with fetch q statuses \<longleftrightarrow> (\<exists>a. fetch q = Some a \<and> ha_status a \<in> statuses)"

lemma requestToken_Inl:
  "requestToken cfg fetch body m = Inl e \<Longrightarrow> idp_error (answers_with fetch (token_request cfg body) {400, 401}) e"
  by (cases "fetch (token_request cfg body)")
     (auto simp: requestToken_def send_def bindE_def answers_with_def idp_error_def parse_answer_def
       split: if_splits sum.splits)

lemma getUserInfo_Inl:
  "getUserInfo cfg fetch token = Inl e \<Longrightarrow> idp_error (answers_with fetch (userinfo_request cfg token) {401}) e"
  by (cases "fetch (userinfo_request cfg token)")
     (auto simp: getUserInfo_def send_def bindE_def answers_with_def idp_error_def parse_answer_def
       split: if_splits sum.splits)

lemma requestToken_Inr:
  "requestToken cfg fetch body m = Inr t \<longleftrightarrow> (\<exists>a. fetch (token_request cfg body) = Some a
     \<and> ha_status a \<notin> {400, 401} \<and> parse_answer a idpTokenResponseSchema = Inr t)"
  by (auto simp: requestToken_def send_def bindE_def split: option.splits if_splits)

lemma getUserInfo_Inr:
  "getUserInfo cfg fetch token = Inr info \<longleftrightarrow> (\<exists>a. fetch (userinfo_request cfg token) = Some a
     \<and> ha_status a \<noteq> 401 \<and> parse_answer a idpUserInfoSchema = Inr info)"
  by (auto simp: getUserInfo_def send_def bindE_def split: option.splits if_splits)

lemma issue_Inl: "issue info sign n c t db = Inl e \<Longrightarrow> info (it_access_token t) = Inl e"
proof (cases "info (it_access_token t)")
  case (Inr i)
  obtain db' r where u: "upsertFromIdp (uuids c 0) (now c) i db = (db', r)" by (meson surj_pair)
  from upsertFromIdp_found[OF u] obtain x where "r = Some x" by blast
  moreover assume "issue info sign n c t db = Inl e"
  ultimately show ?thesis using Inr u by (simp add: issue_def)
qed (simp add: issue_def)

lemma login_body_status: "login_body v body = Inl e \<Longrightarrow> fst (toErrorResponse e rid) = 422"
  by (auto simp: login_body_def res_simps validated_def Let_def validationExceptionFactory_def validationFailed_def
      toErrorResponse_def split: if_splits)


section \<open>Whom a token lets in\<close>

lemma split_space_none: "CHR '' '' \<notin> set s \<Longrightarrow> split_space s = [s]"
  by (induction s) auto

lemma bearer_token:
  assumes "CHR '' '' \<notin> set s" and "s \<noteq> []"
  shows "extractBearerToken (Some (''Bearer '' @ s)) = Some s"
  using assms by (simp add: extractBearerToken_def split_space_none)

text \<open>The row of a login carries what the provider said; its id stays the one of the person.\<close>

lemma upserted:
  assumes "upsertFromIdp newId t info db = (db', Some u)" and "distinct (map u_id (t_users db))"
    and "newId \<notin> u_id ` set (t_users db)"
  shows "u \<in> set (t_users db')" "u_idpUuid u = ui_uuid info" "u_email u = ui_email info" "u_name u = ui_name info"
    "distinct (map u_id (t_users db'))" "t_userRoles db' = t_userRoles db"
    "\<forall>q \<in> set (t_users db). u_idpUuid q \<noteq> ui_uuid info \<longrightarrow> q \<in> set (t_users db')"
proof -
  from upsertFromIdp_found[OF assms(1)] show "u \<in> set (t_users db')" "u_idpUuid u = ui_uuid info"
    "u_email u = ui_email info" "u_name u = ui_name info" by auto
  have t: "t_users db' = upsert u_idpUuid
      \<lparr>u_id = newId, u_idpUuid = ui_uuid info, u_email = ui_email info, u_name = ui_name info,
         u_studentId = ui_studentId info, u_lastLoginAt = t, u_createdAt = t, u_updatedAt = t\<rparr>
      (\<lambda>u. u\<lparr>u_email := ui_email info, u_name := ui_name info, u_studentId := ui_studentId info,
         u_lastLoginAt := t, u_updatedAt := t\<rparr>) (t_users db)"
    and "t_userRoles db' = t_userRoles db"
    using assms(1) by (auto simp: upsertFromIdp_def Let_def)
  then show "t_userRoles db' = t_userRoles db" by simp
  show "distinct (map u_id (t_users db'))"
    unfolding t upsert_def using assms(2,3) by (simp add: distinct_key_update_where insert_row_def)
  show "\<forall>q \<in> set (t_users db). u_idpUuid q \<noteq> ui_uuid info \<longrightarrow> q \<in> set (t_users db')"
    unfolding t upsert_def by (auto simp: set_update_where)
qed

text \<open>C17: who logs in is who the identity provider says. If a login succeeds, the provider answered this very code,
  with the application's own credentials, by an access token, and that access token by a user info; the token
  given out opens, for the next request, exactly the account of that user info, with its name and address and
  the roles the database has for it. Accounts of other people and all roles stay as they were. Of the token
  library it is relied on that a token it signs verifies as its subject and has no space in it.\<close>

theorem login_is_who_the_provider_says:
  assumes "login_handler v cfg fetch sign expiresIn c body db = Inr (db', tok)"
    and "\<forall>i. \<exists>x. verify (sign i expiresIn) = Inr (i, Some x)"
    and "\<forall>i. sign i expiresIn \<noteq> [] \<and> CHR '' '' \<notin> set (sign i expiresIn)"
    and "distinct (map u_id (t_users db))" and "uuids c 0 \<notin> u_id ` set (t_users db)"
  shows "\<exists>code uri ver a t b info who. login_body v body = Inr (code, uri, ver)
     \<and> fetch (token_request cfg (code_params code uri ver)) = Some a \<and> parse_answer a idpTokenResponseSchema = Inr t
     \<and> fetch (userinfo_request cfg (it_access_token t)) = Some b \<and> parse_answer b idpUserInfoSchema = Inr info
     \<and> jwtAuthGuard verify False (Some (''Bearer '' @ tok_accessToken tok)) db' = Inr (Some who)
     \<and> au_idpUuid who = ui_uuid info \<and> au_email who = ui_email info \<and> au_name who = ui_name info
     \<and> au_roles who = resolveRoles (grantedRolesOf db (au_id who))
     \<and> tok_refreshToken tok = it_refresh_token t
     \<and> t_userRoles db' = t_userRoles db
     \<and> (\<forall>q \<in> set (t_users db). u_idpUuid q \<noteq> ui_uuid info \<longrightarrow> q \<in> set (t_users db'))"
proof -
  from assms(1) obtain code uri ver where body: "login_body v body = Inr (code, uri, ver)"
    and "login (exchangeCode cfg fetch) (getUserInfo cfg fetch) sign expiresIn c code uri ver db = Inr (db', tok)"
    by (auto simp: login_handler_def idp_login_def res_simps)
  then obtain t info where t: "exchangeCode cfg fetch code uri ver = Inr t"
    and info: "getUserInfo cfg fetch (it_access_token t) = Inr info"
    and up: "(case upsertFromIdp (uuids c 0) (now c) info db of
        (db', Some u) \<Rightarrow> Inr (db', \<lparr>tok_accessToken = sign (u_id u) expiresIn,
            tok_refreshToken = it_refresh_token t, tok_expiresIn = expiresIn\<rparr>)
      | (db', None) \<Rightarrow> Inl (Thrown None False None)) = Inr (db', tok)"
    by (auto simp: login_def issue_def res_simps)
  from up obtain u where u: "upsertFromIdp (uuids c 0) (now c) info db = (db', Some u)"
    and tok: "tok = \<lparr>tok_accessToken = sign (u_id u) expiresIn, tok_refreshToken = it_refresh_token t,
        tok_expiresIn = expiresIn\<rparr>"
    by (auto split: prod.splits option.splits)
  note row = upserted[OF u assms(4,5)]
  from assms(2) obtain x where x: "verify (sign (u_id u) expiresIn) = Inr (u_id u, Some x)" by blast
  have "first_row (\<lambda>q. u_id q = u_id u) (t_users db') = Some u" using first_row_key[OF row(5,1)] .
  then have "jwtAuthGuard verify False (Some (''Bearer '' @ tok_accessToken tok)) db' = Inr (Some
      \<lparr>au_id = u_id u, au_idpUuid = u_idpUuid u, au_email = u_email u, au_name = u_name u,
       au_roles = resolveRoles (grantedRolesOf db (u_id u)), au_tokenExpiresAt = x * 1000\<rparr>)"
    unfolding jwtAuthGuard_def tok token_response.simps bearer_token[OF conjunct2 conjunct1, OF assms(3)[rule_format] assms(3)[rule_format]]
    by (simp add: x findByIdWithRoles_def grantedRolesOf_def row(6))
  with body t info row(2-4,6,7) tok show ?thesis
    unfolding exchangeCode_def requestToken_Inr getUserInfo_Inr by auto
qed

section \<open>An example\<close>

definition url_validator :: class_validator where
  "url_validator = sample_validator\<lparr>cv_url := (\<lambda>_. True)\<rparr>"

definition login_example :: "json obj" where
  "login_example = [(''code'', JText ''c''), (''redirectUri'', JText ''u'')]"

definition login_ctx :: ctx where
  "login_ctx = \<lparr>now = 1000, currentRequestId = None, uuids = (\<lambda>i. 100 + i)\<rparr>"

lemma login_example_body: "login_body url_validator login_example = Inr (codes ''c'', codes ''u'', None)"
proof -
  have "validated url_validator LoginRequestDto login_example = Inr login_example"
    by (auto simp: validated_Inr LoginRequestDto_def login_example_def field_value_def keep_def field_ok_def always_def
        optional_def nested_ok_def text_holds_def JText_def codes_def url_validator_def sample_validator_def)
  then show ?thesis by (simp add: login_body_def login_example_def sent_text_def given_text_def JText_def)
qed


definition provider :: fetch where
  "provider q = Some \<lparr>ha_status = 200, ha_json = Some (JObj (if hq_method q = ''POST''
     then [(''access_token'', JText ''at''), (''token_type'', JText ''Bearer''), (''expires_in'', JNum 3600)]
     else [(''sub'', JText ''s''), (''name'', JText ''n''), (''email'', JText ''e'')]))\<rparr>"

definition unary_sign :: "uuid \<Rightarrow> int \<Rightarrow> string" where
  "unary_sign i n = replicate (Suc i) (CHR ''a'')"

definition unary_verify :: "string \<Rightarrow> jwt_error + uuid \<times> int option" where
  "unary_verify s = Inr (length s - 1, Some 60)"

lemma provider_token:
  "exchangeCode cfg provider code uri ver = Inr \<lparr>it_access_token = codes ''at'', it_token_type = codes ''Bearer'',
     it_expires_in = 3600, it_refresh_token = None, it_scope = None, it_id_token = None\<rparr>"
  by (simp add: exchangeCode_def requestToken_def send_def provider_def token_request_def parse_answer_def response_ok_def
      parse_def idpTokenResponseSchema_def z_object_def z_prop_def no_prop_def Let_def z_text_def z_refine_def
      z_string_def z_number_def z_optional_def JText_def codes_def under_def)

lemma provider_info:
  "getUserInfo cfg provider t = Inr \<lparr>ui_uuid = codes ''s'', ui_email = codes ''e'', ui_name = codes ''n'', ui_studentId = None\<rparr>"
  by (simp add: getUserInfo_def send_def provider_def userinfo_request_def parse_answer_def response_ok_def
      parse_def idpUserInfoSchema_def z_object_def z_prop_def no_prop_def Let_def z_text_def z_refine_def
      z_string_def z_optional_def JText_def codes_def under_def)

theorem login_is_who_the_provider_says_witness:
  "\<exists>db' tok who. login_handler url_validator (idp_config_of [] [] []) provider unary_sign 60 login_ctx login_example empty_database
       = Inr (db', tok)
     \<and> jwtAuthGuard unary_verify False (Some (''Bearer '' @ tok_accessToken tok)) db' = Inr (Some who)
     \<and> au_idpUuid who = codes ''s''"
proof -
  obtain db' tok where l: "login_handler url_validator (idp_config_of [] [] []) provider unary_sign 60 login_ctx
      login_example empty_database = Inr (db', tok)"
    by (simp add: login_handler_def login_example_body idp_login_def login_def provider_token issue_def provider_info
        upsertFromIdp_def Let_def upsert_def empty_database_def insert_row_def)
  have h1: "\<forall>i. \<exists>x. unary_verify (unary_sign i 60) = Inr (i, Some x)" by (simp add: unary_sign_def unary_verify_def)
  have h2: "\<forall>i. unary_sign i 60 \<noteq> [] \<and> CHR '' '' \<notin> set (unary_sign i 60)" by (simp add: unary_sign_def)
  have h3: "distinct (map u_id (t_users empty_database))" "uuids login_ctx 0 \<notin> u_id ` set (t_users empty_database)"
    by (simp_all add: empty_database_def)
  from login_is_who_the_provider_says[OF l h1 h2 h3]
  obtain t :: idp_token_response and b :: http_answer and info :: idp_user_info and who :: auth_user where
    w: "parse_answer b idpUserInfoSchema = Inr info"
      "provider (userinfo_request (idp_config_of [] [] []) (it_access_token t)) = Some b"
      "jwtAuthGuard unary_verify False (Some (''Bearer '' @ tok_accessToken tok)) db' = Inr (Some who)"
      "au_idpUuid who = ui_uuid info"
    by blast
  have "getUserInfo (idp_config_of [] [] []) provider (it_access_token t) = Inr info"
    using w(1,2) by (auto simp: getUserInfo_Inr provider_def)
  with l w(3,4) show ?thesis by (auto simp: provider_info)
qed

end
