(* ===== verification/Environment.thy ===== *)
theory Environment
  imports Idp_Client Body_Rules
begin

text \<open>
  The configuration: the environment variables of \<open>src/src/config/env.ts\<close>, the allowed origins of
  \<open>config/cors.ts\<close> and the lock of the documentation in \<open>config/swagger.ts\<close>. The environment is an object of
  texts. The parser of addresses is a parameter (\<open>addresses\<close>): the value \<open>z.url()\<close> gives for a text, and the
  parts \<open>new URL\<close> reads.
\<close>

section \<open>Schemas\<close>

record web_address =
  wa_protocol :: string
  wa_hostname :: string
  wa_port :: string
  wa_pathname :: string
  wa_search :: string
  wa_hash :: string
  wa_username :: string
  wa_password :: string
  wa_origin :: string

record addresses =
  url_text :: "utext \<Rightarrow> utext option"
  new_URL :: "utext \<Rightarrow> web_address option"

definition unsetIfEmpty :: "json option \<Rightarrow> json option" where
  "unsetIfEmpty x = (if x = Some (JStr []) then None else x)"

definition z_preprocess :: "(json option \<Rightarrow> json option) \<Rightarrow> 'a schema \<Rightarrow> 'a schema" where
  "z_preprocess f s x = s (f x)"

definition optionalString :: "utext option schema" where
  "optionalString = z_preprocess unsetIfEmpty (z_optional (z_string ''A text is needed''))"

definition z_url :: "addresses \<Rightarrow> utext schema" where
  "z_url A x = (case x of
      Some (JStr s) \<Rightarrow> (case url_text A s of
          Some t \<Rightarrow> ([], Some t) | None \<Rightarrow> ([([], Msg ''Invalid URL'')], Some s))
    | _ \<Rightarrow> fail_type ''A text is needed'')"

text \<open>\<open>z.coerce.number().int()\<close>: the number a text is, if it is a whole one.\<close>

definition z_coerced_int :: "int schema" where
  "z_coerced_int x = (case x of
      Some (JStr s) \<Rightarrow> (case js_Number (ascii s) of
          Num r \<Rightarrow> if of_int \<lfloor>r\<rfloor> = r then z_int ''The number is too big'' (Some (JNum \<lfloor>r\<rfloor>)) else fail_type ''A whole number is needed''
        | _ \<Rightarrow> fail_type ''A number is needed'')
    | Some (JNum n) \<Rightarrow> z_int ''The number is too big'' (Some (JNum n))
    | _ \<Rightarrow> fail_type ''A number is needed'')"

definition positive :: "int schema" where
  "positive = z_check (\<lambda>n. 0 < n) ''The number must be positive'' z_coerced_int"

definition flag :: "bool \<Rightarrow> bool schema" where
  "flag d = z_transform (\<lambda>b. b) (z_default d (z_enum [(''true'', True), (''false'', False)] ''true or false is needed''))"

text \<open>A schema for what another one gives.\<close>

definition z_pipe :: "'a schema \<Rightarrow> ('a \<Rightarrow> 'b parsed) \<Rightarrow> 'b schema" where
  "z_pipe s t x = (case s x of ([], Some v) \<Rightarrow> t v | (issues, _) \<Rightarrow> (issues, None))"

section \<open>The list of origins\<close>

text \<open>\<open>toLowerCase\<close>, as far as the result can be an ASCII text: besides A to Z the Kelvin sign becomes one.\<close>

definition to_lower :: "utext \<Rightarrow> utext" where
  "to_lower = map (\<lambda>c. if 65 \<le> c \<and> c \<le> 90 then c + 32 else if c = 8490 then 107 else c)"

definition without_end_slash :: "utext \<Rightarrow> utext" where
  "without_end_slash s = (if s \<noteq> [] \<and> last s = 47 then butlast s else s)"

definition origin_ok :: "addresses \<Rightarrow> utext \<Rightarrow> bool" where
  "origin_ok A s = (case new_URL A s of
      None \<Rightarrow> False
    | Some u \<Rightarrow> wa_protocol u \<in> {''http:'', ''https:''} \<and> codes (wa_origin u) = to_lower (without_end_slash s))"

text \<open>
  Every text of the list is checked, then replaced by its origin. When one is wrong the environment is
  refused, with an issue at its place in the list.
\<close>

definition origin_of :: "addresses \<Rightarrow> utext \<Rightarrow> string parsed" where
  "origin_of A s = (case new_URL A s of
      Some u \<Rightarrow> if origin_ok A s then ([], Some (wa_origin u))
                else ([([], Msg ''An origin is written https://host[:port] without a path'')], None)
    | None \<Rightarrow> ([([], Msg ''An origin is written https://host[:port] without a path'')], None))"

definition origin_array :: "addresses \<Rightarrow> utext list \<Rightarrow> string list parsed" where
  "origin_array A ss = (let rs = map (origin_of A) ss in (element_issues rs, all_values (map snd rs)))"

definition originList :: "addresses \<Rightarrow> string list schema" where
  "originList A = z_pipe
     (z_transform (\<lambda>s. filter (\<lambda>p. p \<noteq> []) (comma_parts s)) (z_string ''A text is needed''))
     (origin_array A)"

section \<open>The environment\<close>

datatype node_env = ENV_LOCAL | ENV_DEV | ENV_PROD

definition slack_url_ok :: "addresses \<Rightarrow> utext \<Rightarrow> bool" where
  "slack_url_ok A s = (case new_URL A s of
      None \<Rightarrow> False
    | Some u \<Rightarrow> wa_protocol u = ''https:'' \<and> wa_hostname u \<in> {''hooks.slack.com'', ''hooks.slack-gov.com''}
        \<and> take 10 (wa_pathname u) = ''/services/'' \<and> wa_username u = [] \<and> wa_password u = []
        \<and> wa_search u = [] \<and> wa_hash u = [] \<and> wa_port u = [])"

record env =
  NODE_ENV :: node_env
  PORT :: int
  API_URL :: "utext option"
  DB_HOST :: utext
  DB_PORT :: int
  DB_USER :: utext
  DB_PASSWORD :: utext
  DB_NAME :: utext
  DB_SSL :: bool
  IDP_URL :: utext
  IDP_CLIENT_ID :: utext
  IDP_CLIENT_SECRET :: utext
  JWT_SECRET :: utext
  JWT_EXPIRES_IN :: int
  AWS_S3_REGION :: utext
  AWS_S3_BUCKET :: utext
  AWS_ACCESS_KEY_ID :: utext
  AWS_SECRET_ACCESS_KEY :: utext
  CORS_ALLOWED_ORIGINS :: "string list"
  SCHEDULER_ENABLED :: bool
  SLACK_WEBHOOK_URL :: "utext option"
  SLACK_DEVICE_ALERTS_ENABLED :: bool
  SLACK_REVIEW_REMINDERS_ENABLED :: bool
  VIDEO_UPLOADS_ENABLED :: bool
  SWAGGER_USER :: "utext option"
  SWAGGER_PASSWORD :: "utext option"

definition jwt_secret :: "utext schema" where
  "jwt_secret = z_check (\<lambda>s. 32 \<le> js_length s) ''JWT_SECRET has at least 32 characters'' (z_string ''A text is needed'')"

definition jwt_lifetime :: "int schema" where
  "jwt_lifetime = z_default 3600 (z_check (\<lambda>n. n \<le> 86400) ''The number is too big''
     (z_check (\<lambda>n. 60 \<le> n) ''The number is too small'' z_coerced_int))"

definition slack_webhook :: "addresses \<Rightarrow> utext option schema" where
  "slack_webhook A = z_preprocess unsetIfEmpty
     (z_optional (z_check (slack_url_ok A) ''A Slack Incoming Webhook HTTPS URL is needed'' (z_url A)))"

text \<open>\<open>!env.SWAGGER_USER === !env.SWAGGER_PASSWORD\<close>\<close>

definition falsy :: "utext option \<Rightarrow> bool" where
  "falsy x \<longleftrightarrow> x = None \<or> x = Some []"

definition env_shape :: "addresses \<Rightarrow> env shape" where
  "env_shape A = z_prop (z_prop (z_prop (z_prop (z_prop (z_prop (z_prop (z_prop (z_prop (z_prop (z_prop (z_prop (z_prop
     (z_prop (z_prop (z_prop (z_prop (z_prop (z_prop (z_prop (z_prop (z_prop (z_prop (z_prop (z_prop (z_prop
       (no_prop env.make)
     ''NODE_ENV'' (z_default ENV_LOCAL (z_enum [(''local'', ENV_LOCAL), (''dev'', ENV_DEV), (''prod'', ENV_PROD)]
         ''local, dev or prod is needed'')))
     ''PORT'' (z_default 3000 positive))
     ''API_URL'' (z_preprocess unsetIfEmpty (z_optional (z_url A))))
     ''DB_HOST'' z_text)
     ''DB_PORT'' (z_default 5432 positive))
     ''DB_USER'' z_text)
     ''DB_PASSWORD'' z_text)
     ''DB_NAME'' z_text)
     ''DB_SSL'' (flag False))
     ''IDP_URL'' (z_default (codes ''https://api.account.gistory.me'') (z_url A)))
     ''IDP_CLIENT_ID'' z_text)
     ''IDP_CLIENT_SECRET'' z_text)
     ''JWT_SECRET'' jwt_secret)
     ''JWT_EXPIRES_IN'' jwt_lifetime)
     ''AWS_S3_REGION'' z_text)
     ''AWS_S3_BUCKET'' z_text)
     ''AWS_ACCESS_KEY_ID'' z_text)
     ''AWS_SECRET_ACCESS_KEY'' z_text)
     ''CORS_ALLOWED_ORIGINS'' (z_preprocess unsetIfEmpty (z_default [] (originList A))))
     ''SCHEDULER_ENABLED'' (flag True))
     ''SLACK_WEBHOOK_URL'' (slack_webhook A))
     ''SLACK_DEVICE_ALERTS_ENABLED'' (flag True))
     ''SLACK_REVIEW_REMINDERS_ENABLED'' (flag True))
     ''VIDEO_UPLOADS_ENABLED'' (flag False))
     ''SWAGGER_USER'' optionalString)
     ''SWAGGER_PASSWORD'' optionalString"

definition envSchema :: "addresses \<Rightarrow> env schema" where
  "envSchema A = z_refine [''SWAGGER_PASSWORD''] (\<lambda>e. falsy (SWAGGER_USER e) = falsy (SWAGGER_PASSWORD e))
     ''SWAGGER_USER and SWAGGER_PASSWORD are both set or both left empty''
     (z_object (env_shape A) ''An object is needed'')"

text \<open>The application starts with an environment, or stops with the issues of the one it was given.\<close>

definition validateEnv :: "addresses \<Rightarrow> json obj \<Rightarrow> zod_issue list + env" where
  "validateEnv A raw = parse (envSchema A) (JObj raw)"

section \<open>Allowed origins and the documentation\<close>

text \<open>\<open>originOf\<close>: the empty text for what is no address.\<close>

definition cors_origin :: "(string \<Rightarrow> string option) \<Rightarrow> string \<Rightarrow> string" where
  "cors_origin originOf origin = (case originOf origin of Some u \<Rightarrow> u | None \<Rightarrow> [])"

text \<open>With an empty list the headers are never sent.\<close>

definition cors_allows :: "(string \<Rightarrow> string option) \<Rightarrow> string list \<Rightarrow> string option \<Rightarrow> bool" where
  "cors_allows originOf allowed origin \<longleftrightarrow> allowed \<noteq> []
     \<and> (case origin of None \<Rightarrow> False | Some t \<Rightarrow> cors_origin originOf t \<in> set allowed)"

text \<open>What is set up for browsers: nothing without allowed origins, else which requests they may send and read.\<close>

record cors_options =
  co_origin :: "string option \<Rightarrow> bool"
  co_methods :: "string list"
  co_allowedHeaders :: "string list"
  co_exposedHeaders :: "string list"
  co_credentials :: bool
  co_maxAge :: int

definition setupCors :: "(string \<Rightarrow> string option) \<Rightarrow> env \<Rightarrow> cors_options option" where
  "setupCors originOf e = (let allowed = CORS_ALLOWED_ORIGINS e in
     if allowed = [] then None
     else Some \<lparr>co_origin = cors_allows originOf allowed,
       co_methods = [''GET'', ''HEAD'', ''POST'', ''PATCH'', ''PUT'', ''DELETE''],
       co_allowedHeaders = [''Authorization'', ''Content-Type'', ''Idempotency-Key'', ''If-None-Match'', ''X-Device-Token'',
         ''X-Request-Id''],
       co_exposedHeaders = [''X-Request-Id'', ''Idempotent-Replayed'', ''ETag''],
       co_credentials = False, co_maxAge = 600\<rparr>)"

text \<open>
  The lock of the documentation: open when no name and password are set; else the header must give exactly
  them. \<open>decode64\<close> gives the bytes of a base64 text.
\<close>

definition docs_given :: "(utext \<Rightarrow> nat list) \<Rightarrow> utext option \<Rightarrow> nat list" where
  "docs_given decode64 authorization =
     (let header = (case authorization of Some h \<Rightarrow> h | None \<Rightarrow> [])
      in if take 6 header = codes ''Basic '' then decode64 (drop 6 header) else [])"

definition docs_open :: "(utext \<Rightarrow> nat list) \<Rightarrow> env \<Rightarrow> utext option \<Rightarrow> bool" where
  "docs_open decode64 e authorization =
     (if falsy (SWAGGER_USER e) \<or> falsy (SWAGGER_PASSWORD e) then True
      else docs_given decode64 authorization
        = concat (map utf8_bytes (the (SWAGGER_USER e) @ [58] @ the (SWAGGER_PASSWORD e))))"

end
