(* ===== verification/Environment_Properties.thy ===== *)
theory Environment_Properties
  imports Environment Realtime_Socket
begin

text \<open>
  What the application can rely on once it has started, and that the two places that look at the origin of a
  browser, CORS and the sockets, decide alike.
\<close>

section \<open>What an accepted environment meets\<close>

lemma accepts_object [accepts_simps]:
  "accepts (z_object sh m) x v \<longleftrightarrow> (\<exists>obj. x = Some (JObj obj) \<and> shape_sat sh obj (\<lambda>w. v = w))"
  by (auto simp: accepts_def z_object_def shape_sat_def split: option.splits json.splits)

lemma accepts_preprocess [accepts_simps]: "accepts (z_preprocess f s) x v \<longleftrightarrow> accepts s (f x) v"
  by (simp add: accepts_def z_preprocess_def)

lemma accepts_coerced_int: "accepts z_coerced_int x n \<Longrightarrow> \<bar>n\<bar> \<le> 9007199254740991"
  by (auto simp: accepts_def z_coerced_int_def z_int_def split: option.splits json.splits js_num.splits if_splits)

lemma accepted_env:
  assumes "validateEnv A raw = Inr e"
  shows "accepts jwt_secret (map_of raw ''JWT_SECRET'') (JWT_SECRET e)"
    and "accepts jwt_lifetime (map_of raw ''JWT_EXPIRES_IN'') (JWT_EXPIRES_IN e)"
    and "accepts (slack_webhook A) (map_of raw ''SLACK_WEBHOOK_URL'') (SLACK_WEBHOOK_URL e)"
    and "accepts (z_preprocess unsetIfEmpty (z_default [] (originList A))) (map_of raw ''CORS_ALLOWED_ORIGINS'') (CORS_ALLOWED_ORIGINS e)"
    and "accepts optionalString (map_of raw ''SWAGGER_USER'') (SWAGGER_USER e)"
    and "accepts optionalString (map_of raw ''SWAGGER_PASSWORD'') (SWAGGER_PASSWORD e)"
    and "falsy (SWAGGER_USER e) = falsy (SWAGGER_PASSWORD e)"
proof -
  from assms have a: "accepts (z_object (env_shape A) ''An object is needed'') (Some (JObj raw)) e"
    and f: "falsy (SWAGGER_USER e) = falsy (SWAGGER_PASSWORD e)"
    unfolding validateEnv_def envSchema_def parse_Inr accepts_refine by blast+
  show "falsy (SWAGGER_USER e) = falsy (SWAGGER_PASSWORD e)" by (rule f)
  from a have "shape_sat (env_shape A) raw (\<lambda>w. e = w)" unfolding accepts_object by auto
  then show "accepts jwt_secret (map_of raw ''JWT_SECRET'') (JWT_SECRET e)"
    "accepts jwt_lifetime (map_of raw ''JWT_EXPIRES_IN'') (JWT_EXPIRES_IN e)"
    "accepts (slack_webhook A) (map_of raw ''SLACK_WEBHOOK_URL'') (SLACK_WEBHOOK_URL e)"
    "accepts (z_preprocess unsetIfEmpty (z_default [] (originList A))) (map_of raw ''CORS_ALLOWED_ORIGINS'') (CORS_ALLOWED_ORIGINS e)"
    "accepts optionalString (map_of raw ''SWAGGER_USER'') (SWAGGER_USER e)"
    "accepts optionalString (map_of raw ''SWAGGER_PASSWORD'') (SWAGGER_PASSWORD e)"
    unfolding env_shape_def shape_sat_prop shape_sat_none
    by (elim exE conjE, simp add: env.make_def)+
qed

lemma accepted_jwt:
  "accepts jwt_secret x v \<Longrightarrow> 32 \<le> js_length v"
  "accepts jwt_lifetime x n \<Longrightarrow> 60 \<le> n \<and> n \<le> 86400"
  by (auto simp: jwt_secret_def jwt_lifetime_def accepts_simps)

lemma accepted_slack: "accepts (slack_webhook A) x (Some s) \<Longrightarrow> slack_url_ok A s"
  by (auto simp: slack_webhook_def accepts_simps)

lemma accepted_optional:
  "accepts optionalString x v \<Longrightarrow> v \<noteq> Some [] \<and> (v = None \<longleftrightarrow> x = None \<or> x = Some (JStr []))"
  by (auto simp: optionalString_def accepts_simps unsetIfEmpty_def split: if_splits)

lemma accepts_pipe [accepts_simps]: "accepts (z_pipe s t) x v \<longleftrightarrow> (\<exists>w. accepts s x w \<and> t w = ([], Some v))"
  by (auto simp: accepts_def z_pipe_def split: prod.splits list.splits option.splits)

lemma origin_of_accepted:
  "origin_of A s = ([], Some r) \<longleftrightarrow> origin_ok A s \<and> map_option wa_origin (new_URL A s) = Some r"
  by (auto simp: origin_of_def origin_ok_def split: option.splits)

lemma origin_array_accepted:
  "origin_array A ss = ([], Some rs) \<Longrightarrow> r \<in> set rs \<Longrightarrow> \<exists>s \<in> set ss. origin_of A s = ([], Some r)"
proof -
  assume a: "origin_array A ss = ([], Some rs)" and r: "r \<in> set rs"
  from a have e: "\<forall>s \<in> set ss. fst (origin_of A s) = []" and v: "map (\<lambda>s. snd (origin_of A s)) ss = map Some rs"
    by (auto simp: origin_array_def Let_def all_values_Some comp_def)
  from r have "Some r \<in> set (map Some rs)" by simp
  then obtain s where s: "s \<in> set ss" "snd (origin_of A s) = Some r" unfolding v[symmetric] by auto
  with e show ?thesis by (intro bexI[of _ s] prod_eqI) auto
qed

definition web_origin :: "addresses \<Rightarrow> string \<Rightarrow> bool" where
  "web_origin A r \<longleftrightarrow> (\<exists>s u. new_URL A s = Some u \<and> wa_protocol u \<in> {''http:'', ''https:''} \<and> wa_origin u = r)"

lemma accepted_origins:
  assumes "accepts (z_preprocess unsetIfEmpty (z_default [] (originList A))) x rs" and "r \<in> set rs"
  shows "web_origin A r"
proof -
  from assms obtain ss where "origin_array A ss = ([], Some rs)"
    by (auto simp: originList_def accepts_simps)
  from origin_array_accepted[OF this assms(2)] obtain s where "origin_ok A s" "map_option wa_origin (new_URL A s) = Some r"
    by (auto simp: origin_of_accepted)
  then show ?thesis by (auto simp: origin_ok_def web_origin_def split: option.splits)
qed


section \<open>CORS and sockets\<close>

definition header_origin :: "addresses \<Rightarrow> string \<Rightarrow> string option" where
  "header_origin A t = map_option wa_origin (new_URL A (codes t))"

text \<open>C20: where origins are configured, a page may open a socket exactly when it may read the answers of the API, and
  every configured origin may do both, in whatever spelling it was configured. Of the address parser it is relied
  on that an origin is never empty, that the empty text is no address, and that the origin of a web address is
  its own origin.\<close>

theorem sockets_and_cors_agree:
  assumes "validateEnv A raw = Inr e" and "CORS_ALLOWED_ORIGINS e \<noteq> []"
    and "\<forall>s u. new_URL A s = Some u \<longrightarrow> wa_origin u \<noteq> []" and "new_URL A [] = None"
    and "\<forall>s u. new_URL A s = Some u \<longrightarrow> wa_protocol u \<in> {''http:'', ''https:''} \<longrightarrow> header_origin A (wa_origin u) = Some (wa_origin u)"
  shows "(\<forall>origin. allowedOrigin (header_origin A) (CORS_ALLOWED_ORIGINS e) origin
            \<longleftrightarrow> cors_allows (header_origin A) (CORS_ALLOWED_ORIGINS e) origin)
     \<and> (\<forall>r \<in> set (CORS_ALLOWED_ORIGINS e). cors_allows (header_origin A) (CORS_ALLOWED_ORIGINS e) (Some r))"
proof -
  have web: "\<exists>s u. new_URL A s = Some u \<and> wa_protocol u \<in> {''http:'', ''https:''} \<and> wa_origin u = r"
    if "r \<in> set (CORS_ALLOWED_ORIGINS e)" for r
    using accepted_origins[OF accepted_env(4)[OF assms(1)] that] by (simp add: web_origin_def)
  have "[] \<notin> set (CORS_ALLOWED_ORIGINS e)" using web[of "[]"] assms(3) by auto
  moreover have "header_origin A [] = None" using assms(4) by (simp add: header_origin_def codes_def)
  moreover have "header_origin A r = Some r" if "r \<in> set (CORS_ALLOWED_ORIGINS e)" for r
    using web[OF that] assms(5) by blast
  ultimately show ?thesis
    using assms(2) by (auto simp: allowedOrigin_def cors_allows_def cors_origin_def split: option.splits)
qed

section \<open>An example\<close>

definition one_site :: web_address where
  "one_site = \<lparr>wa_protocol = ''https:'', wa_hostname = ''a'', wa_port = [], wa_pathname = ''/'', wa_search = [], wa_hash = [],
     wa_username = [], wa_password = [], wa_origin = ''https://a''\<rparr>"

definition sample_addresses :: addresses where
  "sample_addresses = \<lparr>url_text = Some, new_URL = (\<lambda>s. if s = [] then None else Some one_site)\<rparr>"

definition sample_env :: "json obj" where
  "sample_env = (''CORS_ALLOWED_ORIGINS'', JText '' https://A/ '') # (''JWT_SECRET'', JStr (replicate 32 97)) #
     map (\<lambda>k. (k, JText ''x'')) [''DB_HOST'', ''DB_USER'', ''DB_PASSWORD'', ''DB_NAME'', ''IDP_CLIENT_ID'', ''IDP_CLIENT_SECRET'',
       ''AWS_S3_REGION'', ''AWS_S3_BUCKET'', ''AWS_ACCESS_KEY_ID'', ''AWS_SECRET_ACCESS_KEY'', ''SWAGGER_USER'', ''SWAGGER_PASSWORD'']"

lemma sample_origins: "originList sample_addresses (Some (JText '' https://A/ '')) = ([], Some [''https://a''])"
  by (simp add: originList_def z_pipe_def z_transform_def z_string_def JText_def codes_def comma_parts_def js_trim_def
      js_white_def origin_array_def origin_of_def origin_ok_def sample_addresses_def one_site_def without_end_slash_def
      to_lower_def element_issues_def under_def Let_def)

lemma sample_values:
  "z_text (Some (JText ''x'')) = ([], Some (codes ''x''))"
  "optionalString (Some (JText ''x'')) = ([], Some (Some (codes ''x'')))"
  "unsetIfEmpty (Some (JText '' https://A/ '')) = Some (JText '' https://A/ '')"
  "jwt_secret (Some (JStr (replicate 32 97))) = ([], Some (replicate 32 97))"
  "jwt_lifetime None = ([], Some 3600)" "flag b None = ([], Some b)" "slack_webhook A None = ([], Some None)"
  by (simp_all add: z_text_def z_refine_def z_string_def JText_def codes_def optionalString_def z_preprocess_def
      unsetIfEmpty_def z_optional_def jwt_secret_def js_length_def jwt_lifetime_def z_default_def flag_def
      z_transform_def slack_webhook_def)

lemma sample_started:
  "\<exists>e. validateEnv sample_addresses sample_env = Inr e \<and> CORS_ALLOWED_ORIGINS e = [''https://a'']"
  by (simp add: validateEnv_def parse_def envSchema_def z_refine_def z_object_def env_shape_def z_prop_def no_prop_def
      Let_def sample_env_def sample_values sample_origins z_default_def z_preprocess_def[of unsetIfEmpty "z_default _ _"]
      unsetIfEmpty_def[of None] z_preprocess_def[of _ "z_optional _"] z_optional_def under_def env.make_def falsy_def codes_def)


theorem sockets_and_cors_agree_witness:
  "\<exists>e. validateEnv sample_addresses sample_env = Inr e
     \<and> allowedOrigin (header_origin sample_addresses) (CORS_ALLOWED_ORIGINS e) (Some ''https://a'')
     \<and> \<not> cors_allows (header_origin sample_addresses) (CORS_ALLOWED_ORIGINS e) None"
proof -
  obtain e where e: "validateEnv sample_addresses sample_env = Inr e" "CORS_ALLOWED_ORIGINS e = [''https://a'']"
    using sample_started by blast
  have ne: "CORS_ALLOWED_ORIGINS e \<noteq> []" using e(2) by simp
  have laws: "\<forall>s u. new_URL sample_addresses s = Some u \<longrightarrow> wa_origin u \<noteq> []" "new_URL sample_addresses [] = None"
    "\<forall>s u. new_URL sample_addresses s = Some u \<longrightarrow> wa_protocol u \<in> {''http:'', ''https:''}
       \<longrightarrow> header_origin sample_addresses (wa_origin u) = Some (wa_origin u)"
    by (auto simp: sample_addresses_def one_site_def header_origin_def codes_def split: if_splits)
  note agree = sockets_and_cors_agree[OF e(1) ne laws]
  have "cors_allows (header_origin sample_addresses) (CORS_ALLOWED_ORIGINS e) (Some ''https://a'')"
    using agree e(2) by simp
  moreover have "\<not> cors_allows (header_origin sample_addresses) (CORS_ALLOWED_ORIGINS e) None"
    by (simp add: cors_allows_def)
  ultimately show ?thesis using agree e(1) by blast
qed

end
