(* ===== verification/File_Store.thy ===== *)
theory File_Store
  imports Environment Assets
begin

text \<open>
  The file store over S3, \<open>src/src/storage/s3-storage.service.ts\<close>. The S3 client is a parameter \<open>s3\<close>: what it
  answers to a command, an error among the answers. Files of the disk are a parameter too: the contents of a path,
  \<open>None\<close> where there is no file. Contents are lists of bytes.
\<close>

section \<open>Commands and answers\<close>

type_synonym contents = "nat list"

record object_options =
  oo_contentType :: string
  oo_cacheControl :: "string option"

record s3_name =
  s3_bucket :: utext
  s3_key :: string

datatype s3_command =
    PutObject s3_name contents object_options "nat option"
  | GetObject s3_name
  | HeadObject s3_name
  | DeleteObject s3_name

text \<open>
  An answer to a head has a length or none, one to a get a body or none. An error may be the library's
  \<open>NotFound\<close>, and has an HTTP status where the server answered.
\<close>

datatype s3_answer =
    HeadAnswer "int option"
  | BodyAnswer "contents option"
  | DoneAnswer
  | S3Error (s3_not_found: bool) (s3_status: "int option")

datatype store_error = S3Failed bool "int option" | EmptyBody string | NoFile string

type_synonym s3_client = "s3_command \<Rightarrow> s3_answer"

record s3_storage =
  st_region :: utext
  st_bucket :: utext

definition s3_storage_of :: "env \<Rightarrow> s3_storage" where
  "s3_storage_of e = \<lparr>st_region = AWS_S3_REGION e, st_bucket = AWS_S3_BUCKET e\<rparr>"

definition named :: "s3_storage \<Rightarrow> string \<Rightarrow> s3_name" where
  "named st key = \<lparr>s3_bucket = st_bucket st, s3_key = key\<rparr>"

section \<open>Operations\<close>

text \<open>What a signed upload allows: the content type and the length are part of the signature.\<close>

record signed_put =
  sp_name :: s3_name
  sp_contentType :: string
  sp_contentLength :: int
  sp_expiresIn :: int
  sp_signedHeaders :: "string list"

definition presignPut :: "s3_storage \<Rightarrow> string \<Rightarrow> string \<Rightarrow> int \<Rightarrow> int \<Rightarrow> signed_put" where
  "presignPut st key contentType contentLength expiresInSeconds =
     \<lparr>sp_name = named st key, sp_contentType = contentType, sp_contentLength = contentLength,
      sp_expiresIn = expiresInSeconds, sp_signedHeaders = [''content-type'', ''content-length'']\<rparr>"

text \<open>\<open>statusOf\<close> of a thrown error.\<close>

definition store_statusOf :: "s3_answer \<Rightarrow> int option" where
  "store_statusOf a = (case a of S3Error _ status \<Rightarrow> status | _ \<Rightarrow> None)"

definition sizeOf :: "s3_storage \<Rightarrow> s3_client \<Rightarrow> string \<Rightarrow> store_error + int option" where
  "sizeOf st s3 key = (let a = s3 (HeadObject (named st key)) in case a of
      HeadAnswer len \<Rightarrow> Inr (Some (case len of Some n \<Rightarrow> n | None \<Rightarrow> 0))
    | S3Error notFound status \<Rightarrow>
        if notFound \<or> store_statusOf a = Some 403 then Inr None else Inl (S3Failed notFound status)
    | _ \<Rightarrow> Inr (Some 0))"

definition getBytes :: "s3_storage \<Rightarrow> s3_client \<Rightarrow> string \<Rightarrow> store_error + contents" where
  "getBytes st s3 key = (case s3 (GetObject (named st key)) of
      BodyAnswer (Some b) \<Rightarrow> Inr b
    | S3Error notFound status \<Rightarrow> Inl (S3Failed notFound status)
    | _ \<Rightarrow> Inl (EmptyBody key))"

definition done_or_error :: "s3_answer \<Rightarrow> store_error + unit" where
  "done_or_error a = (case a of S3Error notFound status \<Rightarrow> Inl (S3Failed notFound status) | _ \<Rightarrow> Inr ())"

definition put :: "s3_storage \<Rightarrow> s3_client \<Rightarrow> string \<Rightarrow> contents \<Rightarrow> object_options \<Rightarrow> store_error + unit" where
  "put st s3 key body options = done_or_error (s3 (PutObject (named st key) body options None))"

text \<open>The files of the disk after the object was written to one of them.\<close>

definition downloadToFile ::
    "s3_storage \<Rightarrow> s3_client \<Rightarrow> string \<Rightarrow> string \<Rightarrow> (string \<Rightarrow> contents option) \<Rightarrow> store_error + (string \<Rightarrow> contents option)" where
  "downloadToFile st s3 key filePath files =
     bindE (getBytes st s3 key) (\<lambda>b. Inr (files(filePath \<mapsto> b)))"

definition putFile ::
    "s3_storage \<Rightarrow> s3_client \<Rightarrow> string \<Rightarrow> string \<Rightarrow> object_options \<Rightarrow> (string \<Rightarrow> contents option) \<Rightarrow> store_error + unit" where
  "putFile st s3 key filePath options files =
     bindE (requireE (files filePath) (NoFile filePath)) (\<lambda>b.
       done_or_error (s3 (PutObject (named st key) b options (Some (length b)))))"

definition delete_object :: "s3_storage \<Rightarrow> s3_client \<Rightarrow> string \<Rightarrow> store_error + unit" where
  "delete_object st s3 key = done_or_error (s3 (DeleteObject (named st key)))"

definition publicUrl :: "s3_storage \<Rightarrow> string \<Rightarrow> utext" where
  "publicUrl st key = codes ''https://'' @ st_bucket st @ codes ''.s3.'' @ st_region st @ codes ''.amazonaws.com'' @ codes ''/'' @ codes key"

section \<open>What the callers rely on\<close>

text \<open>
  \<open>null\<close> is given exactly for what the server says is missing, or hides (an account that may not list gets 403);
  every other failure is an error and never taken for a missing file.
\<close>

lemma sizeOf_missing:
  "sizeOf st s3 key = Inr None \<longleftrightarrow>
     (\<exists>n s. s3 (HeadObject (named st key)) = S3Error n s \<and> (n \<or> s = Some 403))"
  by (auto simp: sizeOf_def Let_def store_statusOf_def split: s3_answer.splits option.splits if_splits)

text \<open>Different keys have different addresses.\<close>

lemma publicUrl_inj: "publicUrl st k = publicUrl st k' \<longleftrightarrow> k = k'"
proof -
  have "inj (of_char :: char \<Rightarrow> nat)" by (auto simp: inj_on_def)
  then show ?thesis by (auto simp: publicUrl_def codes_def inj_map_eq_map)
qed

section \<open>Keys\<close>

text \<open>
  The keys of \<open>assets/asset-files.ts\<close> as texts. In the other theories a key is what it stands for; the text
  tells all of them apart as long as the texts of ids differ and have no slash, and nothing but the processed
  files lies below \<open>assets/\<close>, which is what the bucket opens to the public.
\<close>

fun variant_file :: "variant_name \<Rightarrow> string" where
  "variant_file THUMB = ''thumb.webp''" | "variant_file PREVIEW = ''preview.webp''" | "variant_file TV = ''tv.webp''"

fun key_text :: "(uuid \<Rightarrow> string) \<Rightarrow> storage_key \<Rightarrow> string" where
  "key_text idText (UploadKey i) = ''uploads/'' @ idText i"
| "key_text idText (VariantKey i v) = ''assets/'' @ idText i @ ''/'' @ variant_file v"
| "key_text idText (VideoKey i) = ''assets/'' @ idText i @ ''/'' @ ''video.mp4''"

lemma slash_split:
  assumes "a @ c # b = a' @ c # b'" and "c \<notin> set a" and "c \<notin> set a'"
  shows "a = a' \<and> b = b'"
  using assms by (auto simp: append_eq_append_conv2 append_eq_Cons_conv Cons_eq_append_conv)

lemma key_text_inj:
  assumes "inj idText" and "\<And>i. CHR ''/'' \<notin> set (idText i)"
  shows "key_text idText k = key_text idText k' \<longleftrightarrow> k = k'"
proof
  have ids: "i = j \<and> x = y" if "idText i @ ''/'' @ x = idText j @ ''/'' @ y" for i j x y
    using slash_split[of "idText i" _ x "idText j" y] that assms(2) injD[OF assms(1)] by auto
  assume "key_text idText k = key_text idText k'"
  then show "k = k'"
  proof (cases k; cases k')
    fix i v j w assume k: "k = VariantKey i v" "k' = VariantKey j w" and "key_text idText k = key_text idText k'"
    with ids[of i "variant_file v" j "variant_file w"] have "i = j" "variant_file v = variant_file w" by auto
    with k show ?thesis by (cases v; cases w) auto
  next
    fix i v j assume k: "k = VariantKey i v" "k' = VideoKey j" and "key_text idText k = key_text idText k'"
    with ids[of i "variant_file v" j "''video.mp4''"] have "variant_file v = ''video.mp4''" by auto
    then show ?thesis by (cases v) auto
  next
    fix i j w assume k: "k = VideoKey i" "k' = VariantKey j w" and "key_text idText k = key_text idText k'"
    with ids[of i "''video.mp4''" j "variant_file w"] have "variant_file w = ''video.mp4''" by auto
    then show ?thesis by (cases w) auto
  next
    fix i j assume k: "k = VideoKey i" "k' = VideoKey j" and "key_text idText k = key_text idText k'"
    with ids[of i "''video.mp4''" j "''video.mp4''"] show ?thesis by auto
  next
    fix i j assume "k = UploadKey i" "k' = UploadKey j" and "key_text idText k = key_text idText k'"
    then show ?thesis using injD[OF assms(1)] by auto
  qed auto
qed simp

lemma only_processed_files_are_public:
  "take 7 (key_text idText k) = ''assets/'' \<longleftrightarrow> (\<forall>i. k \<noteq> UploadKey i)"
  by (cases k) auto

end
