(* ===== verification/Responses.thy ===== *)
theory Responses
  imports Playlist_Properties Query_Bodies Media
begin

text \<open>
  What the handlers around the services add to an answer: the published limits
  (\<open>policy/policy.controller.ts\<close>), the body of a live state (\<open>live/dto/live.dto.ts\<close>), and the headers of a
  playlist (\<open>playlist/playlist.controller.ts\<close>) with which a screen asks again only for what has changed.

  Parameters: \<open>pub\<close> and \<open>sha\<close> as in the playlist; \<open>ver\<close> is the hash of the JSON text of an answer's content;
  \<open>fresh\<close> is Express' comparison of a request's \<open>If-None-Match\<close> with the \<open>ETag\<close> of an answer. The screens'
  program is not part of the repository; a screen is taken to do what the description of the endpoint asks of it.
\<close>

section \<open>The published limits\<close>

record signage_config =
  sc_maxUploadBytes :: int
  sc_maxVideoUploadBytes :: int
  sc_maxVideoDurationSeconds :: rat
  sc_titleMaxLength :: nat
  sc_maxPublishMonths :: int
  sc_eventBannerMaxDays :: int
  sc_storyDisplayDays :: int
  sc_minLeadTimeHours :: int
  sc_dailySubmissionLimits :: "(submission_type \<times> nat) list"
  sc_allowedMimeTypes :: "string list"
  sc_allowedDetailUrlHosts :: "string list"

definition getConfig :: "bool \<Rightarrow> signage_config" where
  "getConfig videoUploadsEnabled =
     \<lparr>sc_maxUploadBytes = maxUploadBytes, sc_maxVideoUploadBytes = maxVideoUploadBytes,
      sc_maxVideoDurationSeconds = maxVideoDurationSeconds, sc_titleMaxLength = titleMaxLength,
      sc_maxPublishMonths = maxPublishMonths, sc_eventBannerMaxDays = eventBannerMaxDays,
      sc_storyDisplayDays = storyDisplayDays, sc_minLeadTimeHours = 0,
      sc_dailySubmissionLimits = dailySubmissionLimits,
      sc_allowedMimeTypes = allowedMimeTypes videoUploadsEnabled,
      sc_allowedDetailUrlHosts = allowedDetailUrlHosts\<rparr>"

text \<open>A form that checks a file, a period or the number of submissions against them decides as the server does.\<close>

definition config_size_limit :: "signage_config \<Rightarrow> string \<Rightarrow> int" where
  "config_size_limit c mime =
     (if mediaKindOf mime = VIDEO then sc_maxVideoUploadBytes c else sc_maxUploadBytes c)"

lemma config_decides_uploads:
  "(\<exists>r. presign v put i ownerId dto t db = Inr r) \<longleftrightarrow>
     pq_mimeType dto \<in> set (sc_allowedMimeTypes (getConfig v))
     \<and> pq_sizeBytes dto \<le> config_size_limit (getConfig v) (pq_mimeType dto)"
  by (auto simp: presign_def getConfig_def config_size_limit_def maxUploadBytesOf_def Let_def not_less
      split: asset_kind.splits)

lemma config_decides_poster_periods:
  "poster_validate a b t = [] \<longleftrightarrow> a < b \<and> t < b \<and> b \<le> addMonthsInSeoul a (sc_maxPublishMonths (getConfig v))"
  by (simp add: poster_validate_Nil getConfig_def)

lemma config_decides_banner_periods:
  "banner_validate a b t = [] \<longleftrightarrow> a < b \<and> t < b \<and> isSeoulMidnight a \<and> isSeoulMidnight b
     \<and> b - a \<le> sc_eventBannerMaxDays (getConfig v) * 86400000"
  by (simp add: banner_validate_Nil getConfig_def)

lemma config_daily_limits:
  "map_of (sc_dailySubmissionLimits (getConfig v)) type = sk_dailyLimit (kindOf type)"
  by (cases type) (simp_all add: getConfig_def dailySubmissionLimits_def kind_defs List.map_filter_def)

section \<open>The body of a live state\<close>

record live_dto =
  ld_main :: "live_main option"
  ld_alert :: "live_alert option"
  ld_setBy :: "editor option"
  ld_setAt :: "time option"

definition NO_LIVE :: live_dto where
  "NO_LIVE = \<lparr>ld_main = None, ld_alert = None, ld_setBy = None, ld_setAt = None\<rparr>"

definition liveDtoOf :: "live_layer option \<Rightarrow> live_dto option" where
  "liveDtoOf layer = map_option (\<lambda>l.
     \<lparr>ld_main = ll_main l, ld_alert = ll_alert l, ld_setBy = Some (ll_setBy l), ld_setAt = Some (ll_setAt l)\<rparr>) layer"

definition live_answer :: "live_layer option \<Rightarrow> live_dto" where
  "live_answer layer = (case liveDtoOf layer of Some d \<Rightarrow> d | None \<Rightarrow> NO_LIVE)"

lemma live_answer_inj: "live_answer a = live_answer b \<longleftrightarrow> a = b"
  by (cases a; cases b) (auto simp: live_answer_def liveDtoOf_def NO_LIVE_def)

section \<open>The playlist and its headers\<close>

definition PlaylistQueryDto :: dto_class where
  "PlaylistQueryDto = [Field ''v'' None keep optional [(IsIn [''1'', ''2''], Msg ''v must be 1 or 2.'')] None]"

definition playlist_query_of :: "class_validator \<Rightarrow> json obj \<Rightarrow> bool res" where
  "playlist_query_of v query = bindE (validated v PlaylistQueryDto query) (\<lambda>p.
     Inr (map_of p ''v'' = Some (JStr (codes ''2''))))"

datatype playlist_body = V1 playlist_dto | V2 playlist_v2_dto

type_synonym answer_content = "playlist_content + playlist_v2_content"

fun playlistVersion :: "playlist_body \<Rightarrow> string" where
  "playlistVersion (V1 p) = pd_playlistVersion p"
| "playlistVersion (V2 p) = pd2_playlistVersion p"

fun body_content :: "playlist_body \<Rightarrow> answer_content" where
  "body_content (V1 p) = Inl (pd_content p)"
| "body_content (V2 p) = Inr (pd2_content p)"

definition quoted :: "string \<Rightarrow> string" where "quoted v = ''\"'' @ v @ ''\"''"

record playlist_response =
  rs_etag :: "string option"
  rs_cacheControl :: string
  rs_body :: playlist_body

definition playlist_handler ::
    "(storage_key \<Rightarrow> string) \<Rightarrow> (json \<Rightarrow> string) \<Rightarrow> (answer_content \<Rightarrow> string) \<Rightarrow> time \<Rightarrow> device \<Rightarrow> bool \<Rightarrow> database
       \<Rightarrow> playlist_response" where
  "playlist_handler pub sha ver t d second db = (
     let playlist = (if second then V2 (forDeviceV2 pub sha (ver \<circ> Inr) t d db)
                     else V1 (forDevice pub (ver \<circ> Inl) t d db)) in
     \<lparr>rs_etag = Some (quoted (playlistVersion playlist)), rs_cacheControl = ''private, no-cache'',
      rs_body = playlist\<rparr>)"

definition preview_handler ::
    "(storage_key \<Rightarrow> string) \<Rightarrow> (json \<Rightarrow> string) \<Rightarrow> (answer_content \<Rightarrow> string) \<Rightarrow> time \<Rightarrow> uuid \<Rightarrow> database
       \<Rightarrow> playlist_response res" where
  "preview_handler pub sha ver t deviceId db = bindE (preview pub sha (ver \<circ> Inr) t deviceId db) (\<lambda>p.
     Inr \<lparr>rs_etag = None, rs_cacheControl = ''no-store'', rs_body = V2 p\<rparr>)"

lemma preview_is_what_the_device_gets:
  assumes "preview_handler pub sha ver t i db = Inr r"
  obtains d where "d \<in> set (t_devices db)" "d_id d = i"
    "rs_body r = rs_body (playlist_handler pub sha ver t d True db)" "rs_etag r = None"
  using assms by (auto simp: preview_handler_def preview_def playlist_handler_def bindE_Inr requireE_def
      split: option.splits sum.splits dest!: first_row_Some intro: that)

section \<open>Asking again\<close>

text \<open>Express leaves the body out, with status 304, when the answer the client holds is still the answer.\<close>

definition conditional ::
    "(string option \<Rightarrow> string \<Rightarrow> bool) \<Rightarrow> string option \<Rightarrow> playlist_response \<Rightarrow> int \<times> playlist_body option" where
  "conditional fresh ifNoneMatch r = (case rs_etag r of
      Some e \<Rightarrow> if fresh ifNoneMatch e then (304, None) else (200, Some (rs_body r))
    | None \<Rightarrow> (200, Some (rs_body r)))"

record poll =
  pl_at :: time
  pl_device :: device
  pl_second :: bool
  pl_db :: database

type_synonym held = "(string \<times> answer_content) option"

definition poll_answer ::
    "(string option \<Rightarrow> string \<Rightarrow> bool) \<Rightarrow> (storage_key \<Rightarrow> string) \<Rightarrow> (json \<Rightarrow> string) \<Rightarrow> (answer_content \<Rightarrow> string)
       \<Rightarrow> poll \<Rightarrow> held \<Rightarrow> int \<times> held" where
  "poll_answer fresh pub sha ver p h = (
     let r = playlist_handler pub sha ver (pl_at p) (pl_device p) (pl_second p) (pl_db p);
         (status, body) = conditional fresh (map_option fst h) r in
     (status, case body of
        Some b \<Rightarrow> map_option (\<lambda>e. (e, body_content b)) (rs_etag r)
      | None \<Rightarrow> h))"

definition held_after ::
    "(string option \<Rightarrow> string \<Rightarrow> bool) \<Rightarrow> (storage_key \<Rightarrow> string) \<Rightarrow> (json \<Rightarrow> string) \<Rightarrow> (answer_content \<Rightarrow> string)
       \<Rightarrow> poll list \<Rightarrow> held" where
  "held_after fresh pub sha ver ps = fold (\<lambda>p h. snd (poll_answer fresh pub sha ver p h)) ps None"

text \<open>The content an answer to a poll would have, and what is assumed of the comparison: on quoted versions.\<close>

definition content_at :: "(storage_key \<Rightarrow> string) \<Rightarrow> (json \<Rightarrow> string) \<Rightarrow> poll \<Rightarrow> answer_content" where
  "content_at pub sha p =
     (if pl_second p then Inr (contentV2 pub sha (pl_at p) (pl_device p) (pl_db p))
      else Inl (pd_content (forDevice pub (\<lambda>_. []) (pl_at p) (pl_device p) (pl_db p))))"

definition hex_text :: "string \<Rightarrow> bool" where
  "hex_text v \<longleftrightarrow> list_all (\<lambda>ch. ch \<in> set ''0123456789abcdef'') v"

definition matches_versions :: "(string option \<Rightarrow> string \<Rightarrow> bool) \<Rightarrow> bool" where
  "matches_versions fresh \<longleftrightarrow> (\<forall>e. \<not> fresh None e)
     \<and> (\<forall>v w. hex_text v \<longrightarrow> hex_text w \<longrightarrow> (fresh (Some (quoted v)) (quoted w) \<longleftrightarrow> v = w))"

lemma quoted_inj [simp]: "quoted v = quoted w \<longleftrightarrow> v = w"
  by (simp add: quoted_def)

lemma playlist_handler_fields:
  "body_content (rs_body (playlist_handler pub sha ver (pl_at p) (pl_device p) (pl_second p) (pl_db p))) = content_at pub sha p"
  "rs_etag (playlist_handler pub sha ver (pl_at p) (pl_device p) (pl_second p) (pl_db p))
     = Some (quoted (ver (content_at pub sha p)))"
  by (simp_all add: playlist_handler_def content_at_def forDevice_def forDeviceV2_def Let_def)

lemma poll_answer_steps:
  "poll_answer fresh pub sha ver p h =
     (if fresh (map_option fst h) (quoted (ver (content_at pub sha p))) then (304, h)
      else (200, Some (quoted (ver (content_at pub sha p)), content_at pub sha p)))"
  by (simp add: poll_answer_def conditional_def playlist_handler_fields Let_def)

lemma held_after_snoc:
  "held_after fresh pub sha ver (ps @ [p]) = snd (poll_answer fresh pub sha ver p (held_after fresh pub sha ver ps))"
  by (simp add: held_after_def)

lemma same_tag:
  assumes "inj_on ver (f ` set (ps @ [p]))" and "ps \<noteq> []"
  shows "ver (f (last ps)) = ver (f p) \<longleftrightarrow> f (last ps) = f p"
proof -
  have "f (last ps) \<in> f ` set (ps @ [p])" "f p \<in> f ` set (ps @ [p])" using assms(2) by simp_all
  then show ?thesis by (rule inj_on_eq_iff[OF assms(1)])
qed

lemma held_after_is_current:
  assumes "matches_versions fresh" and "\<forall>p \<in> set ps. hex_text (ver (content_at pub sha p))"
    and "inj_on ver (content_at pub sha ` set ps)"
  shows "held_after fresh pub sha ver ps
     = (if ps = [] then None else Some (quoted (ver (content_at pub sha (last ps))), content_at pub sha (last ps)))"
  using assms(2,3)
proof (induction ps rule: rev_induct)
  case Nil
  show ?case by (simp add: held_after_def)
next
  case (snoc p ps)
  have "held_after fresh pub sha ver ps
     = (if ps = [] then None else Some (quoted (ver (content_at pub sha (last ps))), content_at pub sha (last ps)))"
    using snoc.prems by (intro snoc.IH) (auto simp: inj_on_def)
  moreover note same_tag[OF snoc.prems(2)]
  moreover have "hex_text (ver (content_at pub sha q))" if "q \<in> set (ps @ [p])" for q using snoc.prems(1) that by blast
  ultimately show ?case using assms(1) last_in_set[of ps]
    by (auto simp: held_after_snoc poll_answer_steps matches_versions_def)
qed

text \<open>
  C34: a screen that asks again with the tag it was given holds after every poll exactly what the server
  would answer it at that moment, although the server answers 304 without a body exactly when nothing has changed
  since the poll before; so a second-version screen holds only submissions that are on air for it at its last poll.
\<close>

theorem screens_hold_what_is_on_air:
  assumes "matches_versions fresh" and "\<forall>q \<in> set (ps @ [p]). hex_text (ver (content_at pub sha q))"
    and "inj_on ver (content_at pub sha ` set (ps @ [p]))"
    and "distinct (map s_id (t_submissions (pl_db p)))"
  shows "map_option snd (held_after fresh pub sha ver (ps @ [p])) = Some (content_at pub sha p)
     \<and> (fst (poll_answer fresh pub sha ver p (held_after fresh pub sha ver ps)) = 304
          \<longleftrightarrow> ps \<noteq> [] \<and> content_at pub sha (last ps) = content_at pub sha p)
     \<and> (\<forall>c type i. map_option snd (held_after fresh pub sha ver (ps @ [p])) = Some (Inr c)
          \<longrightarrow> i \<in> item_id ` set (the (map_of (p2_submissions c) type))
          \<longrightarrow> (\<exists>s \<in> set (t_submissions (pl_db p)). s_id s = i \<and> s_type s = type \<and> plays (pl_at p) (pl_device p) (pl_db p) s))"
proof -
  have held: "map_option snd (held_after fresh pub sha ver (ps @ [p])) = Some (content_at pub sha p)"
    using held_after_is_current[OF assms(1-3)] by simp
  have before: "held_after fresh pub sha ver ps
     = (if ps = [] then None else Some (quoted (ver (content_at pub sha (last ps))), content_at pub sha (last ps)))"
    using assms(2,3) by (intro held_after_is_current[OF assms(1)]) (auto simp: inj_on_def)
  note same_tag[OF assms(3)]
  moreover have "hex_text (ver (content_at pub sha p))" "ps \<noteq> [] \<Longrightarrow> hex_text (ver (content_at pub sha (last ps)))"
    using assms(2) by auto
  ultimately have status: "fst (poll_answer fresh pub sha ver p (held_after fresh pub sha ver ps)) = 304
      \<longleftrightarrow> ps \<noteq> [] \<and> content_at pub sha (last ps) = content_at pub sha p"
    using assms(1) by (simp add: before poll_answer_steps matches_versions_def)
  have "\<exists>s \<in> set (t_submissions (pl_db p)). s_id s = i \<and> s_type s = type \<and> plays (pl_at p) (pl_device p) (pl_db p) s"
    if "content_at pub sha p = Inr c" "i \<in> item_id ` set (the (map_of (p2_submissions c) type))" for c type i
  proof -
    have c: "c = contentV2 pub sha (pl_at p) (pl_device p) (pl_db p)"
      using that(1) by (simp add: content_at_def playlist_handler_def forDevice_def forDeviceV2_def Let_def split: if_splits)
    from that(2) obtain r where r: "r \<in> set (rows_of (pl_at p) (pl_device p) (pl_db p))"
        "s_type (pr_sub r) = type" "s_id (pr_sub r) = i"
      by (auto simp: c items_of_type)
    then show ?thesis using rows_of_subs(1)[OF assms(4), of "pl_at p" "pl_device p"] by blast
  qed
  then show ?thesis unfolding held using status by simp
qed

text \<open>A poster of an hour: in the first answer, nothing new at once after it, gone when the hour is over.\<close>

definition hour_poll :: "time \<Rightarrow> poll" where
  "hour_poll t = \<lparr>pl_at = t, pl_device = sample_device, pl_second = True, pl_db = hour_db\<rparr>"

definition hour_ver :: "answer_content \<Rightarrow> string" where
  "hour_ver c = (case c of Inr d \<Rightarrow> if the (map_of (p2_submissions d) POSTER) = [] then ''0'' else ''1'' | Inl _ \<Rightarrow> ''2'')"

definition hour_content :: "time \<Rightarrow> answer_content" where
  "hour_content t = content_at (\<lambda>_. []) (\<lambda>_. []) (hour_poll t)"

lemma hour_ver_rows:
  "hour_ver (hour_content t) =
     (if filter (\<lambda>row. s_type (pr_sub row) = POSTER) (rows_of t sample_device hour_db) = [] then ''0'' else ''1'')"
proof -
  have "hour_content t = Inr (contentV2 (\<lambda>_. []) (\<lambda>_. []) t sample_device hour_db)"
    by (simp add: hour_content_def content_at_def hour_poll_def playlist_handler_def forDeviceV2_def Let_def)
  then show ?thesis by (simp only: hour_ver_def items_of_type sum.case option.sel map_is_Nil_conv)
qed

lemma hour_ver_values: "hour_ver (hour_content 1000) = ''1''" "hour_ver (hour_content 3600000) = ''0''"
proof -
  have s: "distinct (map s_id (t_submissions hour_db))" "set (t_submissions hour_db) = {hour_poster}" "s_type hour_poster = POSTER"
    by (simp_all add: hour_db_def hour_poster_def)
  have "plays 1000 sample_device hour_db hour_poster" "\<not> plays 3600000 sample_device hour_db hour_poster"
    by (simp_all add: plays_def on_air_def PUBLISHABLE_STATUSES_def targetsDevice_def)
       (simp_all add: hour_db_def hour_poster_def empty_database_def)
  then have "pr_sub ` set (rows_of 1000 sample_device hour_db) = {hour_poster}"
    "pr_sub ` set (rows_of 3600000 sample_device hour_db) = {}"
    using s(2) by (auto simp: rows_of_subs(1)[OF s(1)])
  note rows = this
  obtain row where "row \<in> set (rows_of 1000 sample_device hour_db)" "pr_sub row = hour_poster"
    using equalityD2[OF rows(1)] by (auto simp only: insert_subset image_iff)
  then have "filter (\<lambda>row. s_type (pr_sub row) = POSTER) (rows_of 1000 sample_device hour_db) \<noteq> []"
    using s(3) by (auto simp: filter_empty_conv intro!: bexI[of _ row])
  moreover have "rows_of 3600000 sample_device hour_db = []" using rows(2) by simp
  ultimately show "hour_ver (hour_content 1000) = ''1''" "hour_ver (hour_content 3600000) = ''0''"
    by (simp_all only: hour_ver_rows filter.simps simp_thms if_True if_False)
qed

theorem screens_hold_what_is_on_air_witness:
  "fst (poll_answer (\<lambda>x e. x = Some e) (\<lambda>_. []) (\<lambda>_. []) hour_ver (hour_poll 1000)
      (held_after (\<lambda>x e. x = Some e) (\<lambda>_. []) (\<lambda>_. []) hour_ver [hour_poll 1000])) = 304
   \<and> map_option snd (held_after (\<lambda>x e. x = Some e) (\<lambda>_. []) (\<lambda>_. []) hour_ver [hour_poll 1000, hour_poll 1000, hour_poll 3600000])
      = Some (hour_content 3600000)"
proof -
  have fresh: "matches_versions (\<lambda>x e. x = Some e)" by (simp add: matches_versions_def)
  have db: "distinct (map s_id (t_submissions (pl_db (hour_poll t))))" for t
    by (simp add: hour_poll_def hour_db_def)
  note vals = hour_ver_values[unfolded hour_content_def]
  have ver: "\<forall>q \<in> set ([hour_poll 1000, hour_poll 1000] @ [hour_poll 3600000]). hex_text (hour_ver (content_at (\<lambda>_. []) (\<lambda>_. []) q))"
    "inj_on hour_ver (content_at (\<lambda>_. []) (\<lambda>_. []) ` set ([hour_poll 1000, hour_poll 1000] @ [hour_poll 3600000]))"
    by (auto simp: vals hex_text_def inj_on_def)
  have "map_option snd (held_after (\<lambda>x e. x = Some e) (\<lambda>_. []) (\<lambda>_. []) hour_ver ([hour_poll 1000, hour_poll 1000] @ [hour_poll 3600000]))
      = Some (hour_content 3600000)"
    using screens_hold_what_is_on_air[OF fresh ver db] by (simp add: hour_content_def)
  moreover have "fst (poll_answer (\<lambda>x e. x = Some e) (\<lambda>_. []) (\<lambda>_. []) hour_ver (hour_poll 1000)
      (held_after (\<lambda>x e. x = Some e) (\<lambda>_. []) (\<lambda>_. []) hour_ver [hour_poll 1000])) = 304"
    using screens_hold_what_is_on_air[OF fresh, of "[hour_poll 1000]" "hour_poll 1000" hour_ver "\<lambda>_. []" "\<lambda>_. []"] db
    by (simp add: vals hex_text_def)
  ultimately show ?thesis by simp
qed

end
