(* ===== verification/Spec2Isabelle.thy ===== *)
theory Spec2Isabelle
  imports Submission_Views Audit_Logs Idempotency Live_Properties Device_Properties Realtime_Properties
    Playlist_Properties Asset_Properties Telemetry_Properties Notification_Properties Media_Properties Routes Scheduler
    Submission_Texts Body_Properties Login_Properties Environment_Properties File_Store Responses
begin

text \<open>
  The backend of the campus signage service (\<open>src/src\<close>): people of the campus upload media and submit
  posters, banners and stories, reviewers decide on them, administrators arrange programs, lineups and live
  states for groups of screens, and the screens fetch their playlist, report what they played and are
  controlled through sockets. This development models the services, jobs and sockets of the backend; this
  theory imports all of it.

  \<^bold>\<open>The state.\<close> \<open>Schema\<close> has one record per table of \<open>db/schema.ts\<close> and the record \<open>database\<close> of all tables;
  a table is a list of rows in the order of insertion, and \<open>Prelude\<close> has the SQL statements on tables
  (\<open>insert_row\<close>, \<open>update_where\<close>, \<open>first_row\<close>, \<open>order_asc\<close>, ...). The file store is the set of its keys
  (\<open>Assets\<close>); the process memory of the sockets is \<open>socket_server\<close> (\<open>Realtime_Socket\<close>) with \<open>device_control\<close>
  and \<open>game_relay\<close>. Times are milliseconds, texts lists of code points, ids integers; JavaScript numbers
  that are whole numbers are \<open>int\<close>.

  \<^bold>\<open>How code becomes definitions.\<close> A query is a function of the database. A handler that only reads gives a
  result \<open>exc + 'a\<close>, the left side being the exception that the filter turns into an error response
  (\<open>App_Errors\<close>, \<open>toErrorResponse\<close>). A handler with a transaction is split: \<open>..._prepare\<close> is what it does
  before the transaction, on the database of that moment, and \<open>..._commit\<close> the transaction, on the database
  of a later one. Composing both on one database is the handler alone; the theorems about interleavings let
  other steps run in between. A transaction is atomic since the code runs it under row or advisory locks,
  or because it is one statement.

  \<^bold>\<open>The theories.\<close>
  \<^item> Shared parts: \<open>Prelude\<close>, \<open>Seoul_Time\<close> (\<open>common/time\<close>), \<open>App_Errors\<close> (\<open>common/errors\<close>), \<open>Schema\<close>,
    \<open>Pagination\<close> (\<open>common/pagination\<close>: cursors, and the locale \<open>keyset\<close> of a list read page by page),
    \<open>Json_Schemas\<close> (\<open>common/validation\<close>), \<open>Idempotency\<close> (\<open>common/idempotency\<close>), \<open>Audit_Writer\<close> and \<open>Audit_Logs\<close>
    (\<open>audit\<close>).
  \<^item> People: \<open>Auth\<close> (\<open>auth\<close>, \<open>users/users.service.ts\<close>), \<open>Users\<close> (\<open>users/user-roles.service.ts\<close>).
  \<^item> Submissions: \<open>Submission_Rules\<close>, \<open>Kinds\<close> (the interface of a kind), \<open>Kind_Defs\<close> (poster, banner, story),
    \<open>Kind_Laws\<close> (the locale \<open>submission_kind_laws\<close>, interpreted for the three), \<open>Submissions\<close>,
    \<open>Submission_Changes\<close> and \<open>Submission_Views\<close> (\<open>submissions.service.ts\<close>: creating and reading, changing,
    listing), \<open>Reviews\<close>.
  \<^item> What submissions keep: \<open>Lifecycle\<close> (requests of two halves, the job), \<open>Lifecycle_Steps\<close> (the status machine
    and the locale \<open>versioned\<close>), \<open>Lifecycle_Inv\<close>, \<open>Lifecycle_History\<close> (histories of interleaved requests),
    \<open>Submission_Properties\<close>, \<open>Submission_Safety\<close>.
  \<^item> Screens: \<open>Program_Types\<close> and \<open>Programs\<close> (\<open>programs\<close>), \<open>Lineup_Schema\<close> and \<open>Lineups\<close> (\<open>lineups\<close>), \<open>Live\<close>,
    \<open>Target_Groups\<close>, \<open>Devices\<close> (\<open>devices\<close>), \<open>Playlist\<close> (\<open>playlist\<close>); \<open>Lineup_Properties\<close>, \<open>Live_Properties\<close>,
    \<open>Device_Properties\<close>, \<open>Playlist_Properties\<close>; \<open>Signage_Integrity\<close> interleaves their transactions.
  \<^item> Sockets: \<open>Game_Relay\<close>, \<open>Relay_Laws\<close>, \<open>Device_Control\<close>, \<open>Realtime_Socket\<close> (\<open>realtime\<close>); \<open>Realtime_Inv\<close> is the
    step relation of the socket server with its invariant, \<open>Realtime_Properties\<close> what follows.
  \<^item> Uploads: \<open>Assets\<close> (\<open>assets\<close>, \<open>storage/storage-deletions.ts\<close>, \<open>jobs/asset-cleanup.job.ts\<close>), \<open>Asset_Steps\<close>
    (every statement a step) and \<open>Asset_Properties\<close>.
  \<^item> Media: \<open>Js_Number\<close> (numbers as texts), \<open>Media\<close> (\<open>assets/image-processor.ts\<close>, \<open>assets/video-processor.ts\<close>,
    \<open>assets/video-processing.service.ts\<close>: the commands run on a file, and the video queue), \<open>Media_Properties\<close>.
  \<^item> Reports of the screens: \<open>Telemetry\<close> (\<open>device-telemetry\<close>, \<open>jobs/play-event-aggregation\<close>, \<open>stats\<close>),
    \<open>Day_Order\<close> (calendar days as texts), \<open>Telemetry_Properties\<close>.
  \<^item> Alerts (\<open>notifications\<close>): \<open>Notifications\<close> (alert policy, recovery, reminders, Korean wording as code
    points), \<open>Slack_Layout\<close> (the message as blocks), \<open>Dispatcher\<close> (claiming and posting), \<open>Dispatch_Steps\<close> (runs
    on several pods as a step relation), \<open>Notification_Properties\<close>.
  \<^item> Entry points: \<open>Routes\<close> (the decorators of every controller, the router, guards and pipes) and
    \<open>Scheduler\<close> (the cron table of \<open>jobs\<close>, the job lock); \<open>Responses\<close> (the published limits, the body of a live
    state, the tag of a playlist and a screen that polls with it).
  \<^item> Request bodies and queries: \<open>Body_Rules\<close> (decorated classes as data, the global pipe of
    \<open>common/common.module.ts\<close>), \<open>Submission_Bodies\<close>, \<open>Query_Bodies\<close>, \<open>Device_Bodies\<close> (the classes and what the
    handlers read of an accepted instance), \<open>Body_Properties\<close> (the response to a rejected body) and
    \<open>Submission_Texts\<close> (histories whose requests come as bodies: the texts in the database).
  \<^item> Configuration and other systems: \<open>Environment\<close> (\<open>config\<close>), \<open>Environment_Properties\<close>, \<open>Idp_Client\<close> (\<open>idp\<close>),
    \<open>Login_Properties\<close> (the login from the body to the token guard), \<open>File_Store\<close> (\<open>storage/s3-storage.service.ts\<close>).

  \<^bold>\<open>What is shown.\<close> Content on the screens was reviewed in exactly that form; requests commit only on the
  version they read; submissions follow their status machine and stay well formed; daily limits, idempotency
  keys and roles hold under any interleaving; story authors stay hidden; lists read page by page are complete;
  references of lineups, overrides, live states and playlists resolve; live states end; device tokens open
  exactly their device; socket limits and rooms are exact; the files of a submission stay in the store; commands on
  uploads are confined to local files and accepted videos meet the policy; statistics count every play once;
  a notification is posted at most five times, a recovery only after a delivered outage, and no user text
  becomes markup; only the five handlers meant to be open are, and administration needs its role; the reminder
  schedule fits its slots; a login opens the account the identity provider names and its failures are the
  user's or the provider's, never internal; a started environment is safe; every stored text of a
  submission has the length its field allows; a rejected body is answered with exactly the fields that fail; a screen that polls with its tag is never
  left with an outdated playlist.

  \<^bold>\<open>Parameters.\<close> Code outside \<open>src\<close> is an argument: the URL parser and public URLs, SHA-256 and random ids,
  the date and uuid formats of the schema library (\<open>formats\<close>), case folding and collation of the database
  (\<open>lower\<close>, \<open>coll\<close>), what the validation library knows about texts (\<open>class_validator\<close>), texts of ids
  (\<open>idText\<close>, \<open>readId\<close>), image and video conversion, and version hashes. Other
  systems are functions from requests to answers (\<open>fetch\<close>, \<open>s3_client\<close>), the JWT library the outcome of a
  verification.

  \<^bold>\<open>Bounds and fuel.\<close> There is no fuel. The waiting loop of an idempotency key (\<open>wait_loop\<close>) and the loop over
  waiting videos (\<open>drain_from\<close>) are \<open>partial_function (option)\<close>; \<open>Idempotency\<close> and
  \<open>Asset_Properties\<close> show that they return. The token bucket of the relay, durations of media and numbers
  read from texts are exact rationals where the code has doubles.

  \<^bold>\<open>Not modelled.\<close> The libraries below the code: S3 client, network, ffmpeg, image library, address parser and
  JSON web tokens are parameters or outcomes. Glue without logic of its own: start-up and shutdown, module
  wiring, the decorators that only document the API, migrations and tests.
\<close>

end
